(* ===== verification/Arf_Prelude.thy ===== *)
theory Arf_Prelude
  imports
    Complex_Main
    "HOL-Library.AList"
    "HOL-Library.Char_ord"
    "HOL-Library.List_Lexorder"
    "HOL-Library.Multiset"
    "HOL-Library.Sublist"
    "HOL-Library.Word"
begin

text \<open>
  The prelude: type synonyms, the collections of rewrite rules the component theories
  fill, the error-and-effect type of the asynchronous operations, and the lemmas on
  lists and association lists that several components share.

  A \<^verbatim>\<open>HashMap\<close> of the source is an association list whose keys are distinct: its order
  stands for the unspecified iteration order, \<open>AList.update\<close> is \<^verbatim>\<open>insert\<close> and \<open>AList.delete\<close>
  is \<^verbatim>\<open>remove\<close>. Identifiers drawn with \<^verbatim>\<open>Uuid::new_v4\<close> and clock readings are inputs of
  the operations that draw them.
\<close>

type_synonym uuid = nat
type_synonym millis = nat

named_theorems core_defs \<open>constructors and accessors of the shared types\<close>
named_theorems bus_defs \<open>operations of the message bus\<close>
named_theorems session_defs \<open>operations of the session stores\<close>
named_theorems engine_defs \<open>operations of the engine\<close>

subsection \<open>Association lists as hash maps\<close>

abbreviation keys :: "('k \<times> 'v) list \<Rightarrow> 'k list" where
  "keys al \<equiv> map fst al"

definition contains_key :: "('k \<times> 'v) list \<Rightarrow> 'k \<Rightarrow> bool" where
  "contains_key al k = (case map_of al k of None \<Rightarrow> False | Some _ \<Rightarrow> True)"

lemma contains_key_iff: "contains_key al k \<longleftrightarrow> k \<in> set (keys al)"
  by (auto simp: contains_key_def map_of_eq_None_iff split: option.splits
      dest: map_of_SomeD intro!: image_eqI)

lemma keys_update: "set (keys (AList.update k v al)) = insert k (set (keys al))"
  by (simp only: set_map dom_update) simp

lemma keys_delete: "set (keys (AList.delete k al)) = set (keys al) - {k}"
  by (simp only: delete_keys set_removeAll)

lemma in_update_D: "x \<in> set (AList.update k v al) \<Longrightarrow> x = (k, v) \<or> x \<in> set al"
  by (induction al) (auto split: if_splits)

lemma in_delete_D: "x \<in> set (AList.delete k al) \<Longrightarrow> x \<in> set al"
  by (simp add: AList.delete_eq)

lemma delete_update_entries:
  "distinct (keys al) \<Longrightarrow> k \<notin> set (keys al) \<Longrightarrow> AList.update k v al = al @ [(k, v)]"
  by (induction al) auto

lemma keys_filter_subset: "set (keys (filter P al)) \<subseteq> set (keys al)"
  by auto

lemma distinct_keys_filter: "distinct (keys al) \<Longrightarrow> distinct (keys (filter P al))"
  by (induction al) (auto dest: subsetD [OF keys_filter_subset])

lemma distinct_keys_update:
  "distinct (keys al) \<Longrightarrow> distinct (keys (AList.update k v al))"
  by (simp add: distinct_update)

lemma distinct_keys_delete:
  "distinct (keys al) \<Longrightarrow> distinct (keys (AList.delete k al))"
  by (simp add: distinct_delete)

lemma filter_key_eq_delete:
  "filter (\<lambda>(k', _). k' \<noteq> k) al = AList.delete k al"
  by (induction al) (auto simp: AList.delete_eq)

subsection \<open>Lists\<close>

text \<open>\<^verbatim>\<open>Vec::dedup\<close>: of each run of equal neighbours the first stays.\<close>

fun dedup :: "'a list \<Rightarrow> 'a list" where
  "dedup [] = []"
| "dedup [x] = [x]"
| "dedup (x # y # ys) = (if x = y then dedup (y # ys) else x # dedup (y # ys))"

lemma set_dedup [simp]: "set (dedup xs) = set xs"
  by (induction xs rule: dedup.induct) auto

lemma sorted_distinct_dedup:
  "sorted xs \<Longrightarrow> sorted (dedup xs) \<and> distinct (dedup xs)"
  by (induction xs rule: dedup.induct) (auto simp: less_le)

abbreviation newline :: char where
  "newline \<equiv> CHR 0x0A"

text \<open>\<^verbatim>\<open>slice.join(sep)\<close>.\<close>

fun join :: "string \<Rightarrow> string list \<Rightarrow> string" where
  "join sep [] = []"
| "join sep [s] = s"
| "join sep (s # t # ts) = s @ sep @ join sep (t # ts)"

definition starts_with :: "string \<Rightarrow> string \<Rightarrow> bool" where
  "starts_with p s \<longleftrightarrow> take (length p) s = p"

lemma starts_with_iff: "starts_with p s \<longleftrightarrow> (\<exists>r. s = p @ r)"
  by (metis append_eq_conv_conj append_take_drop_id starts_with_def)

text \<open>\<^verbatim>\<open>str::strip_prefix\<close>.\<close>

definition strip_prefix :: "string \<Rightarrow> string \<Rightarrow> string option" where
  "strip_prefix p s = (if starts_with p s then Some (drop (length p) s) else None)"

text \<open>
  \<^verbatim>\<open>str::lines\<close>: the text is cut after every line feed, and a final \<^verbatim>\<open>\n\<close> or \<^verbatim>\<open>\r\n\<close> of each piece
  is dropped. \<open>split_on\<close> is \<^verbatim>\<open>str::split\<close> with a character.
\<close>

fun split_inclusive :: "string \<Rightarrow> string list" where
  "split_inclusive [] = []"
| "split_inclusive (c # s) =
     (if c = CHR 0x0A then [c] # split_inclusive s
      else (case split_inclusive s of [] \<Rightarrow> [[c]] | l # ls \<Rightarrow> (c # l) # ls))"

definition chop_line_ending :: "string \<Rightarrow> string" where
  "chop_line_ending l =
     (if l \<noteq> [] \<and> last l = CHR 0x0A
      then (let l' = butlast l in if l' \<noteq> [] \<and> last l' = CHR 0x0D then butlast l' else l')
      else l)"

definition lines :: "string \<Rightarrow> string list" where
  "lines s = map chop_line_ending (split_inclusive s)"

fun split_on :: "char \<Rightarrow> string \<Rightarrow> string list" where
  "split_on sep [] = [[]]"
| "split_on sep (c # s) =
     (if c = sep then [] # split_on sep s
      else (case split_on sep s of [] \<Rightarrow> [[c]] | l # ls \<Rightarrow> (c # l) # ls))"

lemma split_on_not_Nil [simp]: "split_on sep s \<noteq> []"
  by (cases s) (auto split: list.splits)

lemma split_on_free: "l \<in> set (split_on sep s) \<Longrightarrow> sep \<notin> set l"
  by (induction s arbitrary: l) (auto split: if_splits list.splits)

lemma split_on_chars: "l \<in> set (split_on sep s) \<Longrightarrow> set l \<subseteq> set s"
  by (induction s arbitrary: l) (fastforce split: if_splits list.splits)+

lemma split_on_plain: "sep \<notin> set l \<Longrightarrow> split_on sep l = [l]"
  by (induction l) auto

lemma split_on_append:
  "sep \<notin> set l \<Longrightarrow> split_on sep (l @ sep # s) = l # split_on sep s"
  by (induction l) auto

lemma split_on_join:
  "ls \<noteq> [] \<Longrightarrow> (\<And>l. l \<in> set ls \<Longrightarrow> sep \<notin> set l) \<Longrightarrow> split_on sep (join [sep] ls) = ls"
  by (induction "[sep]" ls rule: join.induct) (auto simp: split_on_plain split_on_append)

text \<open>Text that is not ASCII is the list of its UTF-8 bytes.\<close>

definition utf8 :: "nat list \<Rightarrow> string" where
  "utf8 bs = map char_of bs"

definition quoted :: "string \<Rightarrow> string" where
  "quoted s = [CHR 0x27] @ s @ [CHR 0x27]"

lemma find_SomeD: "find P xs = Some x \<Longrightarrow> P x \<and> x \<in> set xs"
  by (auto simp: find_Some_iff)

lemma find_None_set: "find P xs = None \<longleftrightarrow> (\<forall>x \<in> set xs. \<not> P x)"
  by (auto simp: find_None_iff)

lemma find_cong_set:
  "(\<And>x. x \<in> set xs \<Longrightarrow> P x = Q x) \<Longrightarrow> find P xs = find Q xs"
  by (induction xs) auto

lemma sort_key_unique:
  assumes "mset xs = mset ys" and "inj_on f (set xs)"
  shows "sort_key f xs = sort_key f ys"
proof (rule sort_key_inj_key_eq)
  show "mset xs = mset (sort_key f ys)" using assms(1) by simp
  show "inj_on f (set xs)" by (rule assms(2))
  show "sorted (map f (sort_key f ys))" by simp
qed

subsection \<open>Outcomes of asynchronous operations\<close>

text \<open>
  An asynchronous operation returns, fails with an error of the source, panics, or waits
  for an event that never comes: \<open>Hang\<close> is a future that stays pending.
\<close>

datatype ('e, 'a) outcome = Ret 'a | Fail 'e | Panic | Hang

text \<open>The truncating cast \<^verbatim>\<open>n as u32\<close> of a \<^verbatim>\<open>usize\<close>.\<close>

definition as_u32 :: "nat \<Rightarrow> nat" where
  "as_u32 n = unat (word_of_nat n :: 32 word)"

lemma as_u32_mod: "as_u32 n = n mod 2 ^ 32"
  by (simp add: as_u32_def unat_of_nat)

lemma as_u32_small: "n < 2 ^ 32 \<Longrightarrow> as_u32 n = n"
  by (simp add: as_u32_mod)

text \<open>
  Arithmetic on \<^verbatim>\<open>f64\<close>: every operation rounds its exact result. The rounding function is
  a parameter; the model relies on it being monotone and on it keeping the small integers
  and their quarters, which are floating point numbers.
\<close>

definition f64_ok :: "(rat \<Rightarrow> rat) \<Rightarrow> bool" where
  "f64_ok rnd \<longleftrightarrow> mono rnd \<and>
     (\<forall>n::nat. n < 2 ^ 53 \<longrightarrow> rnd (of_nat n) = of_nat n \<and> rnd (of_nat n / 4) = of_nat n / 4)"

lemma f64_okD:
  assumes "f64_ok rnd"
  shows "x \<le> y \<Longrightarrow> rnd x \<le> rnd y"
    and "n < 2 ^ 53 \<Longrightarrow> rnd (rat_of_nat n) = of_nat n"
    and "n < 2 ^ 53 \<Longrightarrow> rnd (rat_of_nat n / 4) = of_nat n / 4"
  using assms by (auto simp: f64_ok_def mono_def)

lemma f64_ok_id: "f64_ok (\<lambda>x. x)"
  by (simp add: f64_ok_def mono_def)

lemma sum_list_replace:
  fixes f :: "'a \<Rightarrow> 'b :: comm_monoid_add"
  shows "t < length xs \<Longrightarrow> sum_list (map f (xs[t := y])) + f (xs ! t) = sum_list (map f xs) + f y"
  by (induction xs arbitrary: t) (auto split: nat.split simp: ac_simps)

end
