(* ===== verification/Json.thy ===== *)
theory Json
  imports Arf_Prelude
begin

text \<open>
  \<^verbatim>\<open>serde_json::Value\<close>, the payload type of every message. The public enum is a datatype with
  the same variants; \<open>json_get\<close>, \<open>as_str\<close>, \<open>as_array\<close>, \<open>as_bool\<close> and \<open>as_u64\<close> are its accessors.
  An object is an association list: the sources only look keys up, insert them, and build
  objects with distinct keys, so the order of the entries is never observed. Floating
  point numbers are kept as the rational they denote.
\<close>

datatype json =
    JNull
  | JBool bool
  | JInt int
  | JFloat rat
  | JStr string
  | JArr "json list"
  | JObj "(string \<times> json) list"

fun json_get :: "json \<Rightarrow> string \<Rightarrow> json option" where
  "json_get (JObj kvs) k = map_of kvs k"
| "json_get _ k = None"

fun as_str :: "json \<Rightarrow> string option" where
  "as_str (JStr s) = Some s"
| "as_str _ = None"

fun as_array :: "json \<Rightarrow> json list option" where
  "as_array (JArr xs) = Some xs"
| "as_array _ = None"

fun as_bool :: "json \<Rightarrow> bool option" where
  "as_bool (JBool b) = Some b"
| "as_bool _ = None"

fun as_u64 :: "json \<Rightarrow> nat option" where
  "as_u64 (JInt i) = (if 0 \<le> i \<and> i < 2 ^ 64 then Some (nat i) else None)"
| "as_u64 _ = None"

text \<open>\<^verbatim>\<open>as_object_mut\<close> followed by \<^verbatim>\<open>insert\<close>: no effect on a value that is not an object.\<close>

fun obj_insert :: "string \<Rightarrow> json \<Rightarrow> json \<Rightarrow> json" where
  "obj_insert k v (JObj kvs) = JObj (AList.update k v kvs)"
| "obj_insert k v j = j"

definition get_str :: "json \<Rightarrow> string \<Rightarrow> string option" where
  "get_str j k = Option.bind (json_get j k) as_str"

definition get_array :: "json \<Rightarrow> string \<Rightarrow> json list option" where
  "get_array j k = Option.bind (json_get j k) as_array"

lemma get_str_JObj [simp]: "get_str (JObj kvs) k = Option.bind (map_of kvs k) as_str"
  by (simp add: get_str_def)

lemma get_array_JObj [simp]: "get_array (JObj kvs) k = Option.bind (map_of kvs k) as_array"
  by (simp add: get_array_def)

lemma json_get_obj_insert:
  "json_get (obj_insert k v (JObj kvs)) k' = (if k' = k then Some v else map_of kvs k')"
  by (simp add: update_conv')

text \<open>\<^verbatim>\<open>Vec<String>\<close> as a JSON array, and the lenient reading that drops what is not a string.\<close>

definition strs_to_value :: "string list \<Rightarrow> json" where
  "strs_to_value ss = JArr (map JStr ss)"

definition strs_of_array :: "json list \<Rightarrow> string list" where
  "strs_of_array = List.map_filter as_str"

lemma strs_of_array_JStr [simp]: "strs_of_array (map JStr ss) = ss"
  by (induction ss) (simp_all add: strs_of_array_def List.map_filter_simps)

text \<open>
  Identifiers on the wire: \<^verbatim>\<open>Uuid::to_string\<close> and \<^verbatim>\<open>Uuid::parse_str\<close> are code of the \<^verbatim>\<open>uuid\<close> crate
  and a parameter of every operation that uses them. What the sources rely on is that
  parsing the printed form gives the identifier back.
\<close>

record uuid_ops =
  uuid_show :: "uuid \<Rightarrow> string"
  uuid_parse :: "string \<Rightarrow> uuid option"

definition uuid_ok :: "uuid_ops \<Rightarrow> bool" where
  "uuid_ok U \<longleftrightarrow> (\<forall>x. uuid_parse U (uuid_show U x) = Some x)"

lemma uuid_okD [simp]: "uuid_ok U \<Longrightarrow> uuid_parse U (uuid_show U x) = Some x"
  by (simp add: uuid_ok_def)

text \<open>A concrete codec, used to show that the hypothesis can hold: unary numerals.\<close>

definition unary_uuid :: uuid_ops where
  "unary_uuid = \<lparr>uuid_show = (\<lambda>n. replicate n (CHR ''1'')), uuid_parse = (\<lambda>s. Some (length s))\<rparr>"

lemma unary_uuid_ok: "uuid_ok unary_uuid"
  by (simp add: uuid_ok_def unary_uuid_def)

end
