(* ===== verification/Core_Types.thy ===== *)
theory Core_Types
  imports Json
begin

text \<open>
  The shared vocabulary of \<^verbatim>\<open>crates/arf-core/src/lib.rs\<close>, \<^verbatim>\<open>node.rs\<close>, \<^verbatim>\<open>msg_type.rs\<close>, \<^verbatim>\<open>route.rs\<close> and
  \<^verbatim>\<open>wait_event.rs\<close>: node and bus identifiers, the wire message, node descriptions, message
  filters, send errors, task identifiers, capabilities, routes and wait events.
\<close>

subsection \<open>Identifiers\<close>

datatype node_id = NodeId (as_string: string)

datatype bus_id = BusId (as_uuid: uuid)

text \<open>\<^verbatim>\<open>NodeId\<close> and \<^verbatim>\<open>BusId\<close> derive \<^verbatim>\<open>Ord\<close>: they compare as what they wrap.\<close>

instantiation node_id :: linorder
begin

definition less_eq_node_id :: "node_id \<Rightarrow> node_id \<Rightarrow> bool" where
  "less_eq_node_id a b \<longleftrightarrow> as_string a \<le> as_string b"

definition less_node_id :: "node_id \<Rightarrow> node_id \<Rightarrow> bool" where
  "less_node_id a b \<longleftrightarrow> as_string a < as_string b"

instance
  by standard (auto simp: less_eq_node_id_def less_node_id_def intro: node_id.expand)

end

instantiation bus_id :: linorder
begin

definition less_eq_bus_id :: "bus_id \<Rightarrow> bus_id \<Rightarrow> bool" where
  "less_eq_bus_id a b \<longleftrightarrow> as_uuid a \<le> as_uuid b"

definition less_bus_id :: "bus_id \<Rightarrow> bus_id \<Rightarrow> bool" where
  "less_bus_id a b \<longleftrightarrow> as_uuid a < as_uuid b"

instance
  by standard (auto simp: less_eq_bus_id_def less_bus_id_def intro: bus_id.expand)

end

lemma inj_as_string: "inj_on as_string A"
  by (simp add: inj_on_def node_id.expand)

subsection \<open>Wire message types (msg_type.rs)\<close>

definition NODE_ONLINE :: string where "NODE_ONLINE = ''node_online''"
definition NODE_OFFLINE :: string where "NODE_OFFLINE = ''node_offline''"
definition HEARTBEAT_REQUEST :: string where "HEARTBEAT_REQUEST = ''heartbeat_request''"
definition HEARTBEAT_ACK :: string where "HEARTBEAT_ACK = ''heartbeat_ack''"
definition BARRIER_REQUEST :: string where "BARRIER_REQUEST = ''barrier_request''"
definition BARRIER_ACK :: string where "BARRIER_ACK = ''barrier_ack''"
definition MODEL_CALL :: string where "MODEL_CALL = ''model_call''"
definition MODEL_RESPONSE :: string where "MODEL_RESPONSE = ''model_response''"
definition MODEL_RESPONSE_CHUNK :: string where "MODEL_RESPONSE_CHUNK = ''model_response_chunk''"
definition TOOL_CALL :: string where "TOOL_CALL = ''tool_call''"
definition TOOL_RESULT :: string where "TOOL_RESULT = ''tool_result''"
definition PERMISSION_REQUEST :: string where "PERMISSION_REQUEST = ''permission_request''"
definition PERMISSION_RESPONSE :: string where "PERMISSION_RESPONSE = ''permission_response''"
definition PEER_MESSAGE :: string where "PEER_MESSAGE = ''peer_message''"
definition PEER_REPLY :: string where "PEER_REPLY = ''peer_reply''"
definition SUBAGENT_DELEGATE :: string where "SUBAGENT_DELEGATE = ''subagent_delegate''"
definition SUBAGENT_RESULT :: string where "SUBAGENT_RESULT = ''subagent_result''"
definition SESSION_SAVE :: string where "SESSION_SAVE = ''session_save''"
definition SESSION_SNAPSHOT :: string where "SESSION_SNAPSHOT = ''session_snapshot''"

lemmas msg_type_defs =
  NODE_ONLINE_def NODE_OFFLINE_def HEARTBEAT_REQUEST_def HEARTBEAT_ACK_def
  BARRIER_REQUEST_def BARRIER_ACK_def MODEL_CALL_def MODEL_RESPONSE_def
  MODEL_RESPONSE_CHUNK_def TOOL_CALL_def TOOL_RESULT_def PERMISSION_REQUEST_def
  PERMISSION_RESPONSE_def PEER_MESSAGE_def PEER_REPLY_def SUBAGENT_DELEGATE_def
  SUBAGENT_RESULT_def SESSION_SAVE_def SESSION_SNAPSHOT_def

subsection \<open>Message\<close>

record message =
  msg_id :: uuid
  msg_type :: string
  msg_from :: node_id
  msg_to :: "node_id list"
  msg_payload :: json
  msg_from_bus :: "bus_id option"
  msg_timestamp :: millis

text \<open>\<open>i\<close> is the identifier \<^verbatim>\<open>Uuid::new_v4\<close> draws and \<open>now\<close> the reading of \<^verbatim>\<open>now_ms\<close>.\<close>

definition Message_new ::
  "uuid \<Rightarrow> millis \<Rightarrow> string \<Rightarrow> node_id \<Rightarrow> node_id list \<Rightarrow> json \<Rightarrow> message" where
  "Message_new i now ty frm tgt pl =
     \<lparr>msg_id = i, msg_type = ty, msg_from = frm, msg_to = tgt, msg_payload = pl,
      msg_from_bus = None, msg_timestamp = now\<rparr>"

definition Message_with_from_bus ::
  "uuid \<Rightarrow> millis \<Rightarrow> string \<Rightarrow> node_id \<Rightarrow> node_id list \<Rightarrow> json \<Rightarrow> bus_id \<Rightarrow> message" where
  "Message_with_from_bus i now ty frm tgt pl b =
     (Message_new i now ty frm tgt pl)\<lparr>msg_from_bus := Some b\<rparr>"

definition is_broadcast :: "message \<Rightarrow> bool" where
  "is_broadcast m \<longleftrightarrow> msg_to m = []"

definition is_for :: "message \<Rightarrow> node_id \<Rightarrow> bool" where
  "is_for m n \<longleftrightarrow> n \<in> set (msg_to m)"

definition payload_cid :: "uuid_ops \<Rightarrow> json \<Rightarrow> uuid option" where
  "payload_cid U pl = Option.bind (get_str pl ''correlation_id'') (uuid_parse U)"

definition correlation_id :: "uuid_ops \<Rightarrow> message \<Rightarrow> uuid option" where
  "correlation_id U m = payload_cid U (msg_payload m)"

definition Message_new_broadcast ::
  "uuid \<Rightarrow> millis \<Rightarrow> string \<Rightarrow> node_id \<Rightarrow> json \<Rightarrow> message" where
  "Message_new_broadcast i now ty frm pl = Message_new i now ty frm [] pl"

lemmas message_defs [core_defs] =
  Message_new_def Message_with_from_bus_def Message_new_broadcast_def

subsection \<open>Node descriptions and the bus graph\<close>

record node_info =
  ni_node_id :: node_id
  ni_node_type :: string
  ni_capabilities :: json
  ni_online_since :: millis

definition node_info_to_value :: "node_info \<Rightarrow> json" where
  "node_info_to_value n =
     JObj [(''node_id'', JStr (as_string (ni_node_id n))),
           (''node_type'', JStr (ni_node_type n)),
           (''capabilities'', ni_capabilities n),
           (''online_since'', JInt (int (ni_online_since n)))]"

record bus_graph =
  bg_nodes :: "node_info list"
  bg_message_count :: nat
  bg_uptime_ms :: millis

record send_receipt =
  sr_message_id :: uuid
  sr_online_nodes :: nat
  sr_matching_nodes :: nat

subsection \<open>Message filters\<close>

datatype to_match = AllMessages | BroadcastOnly | DirectedToMe | BroadcastAndDirectedToMe

record message_filter =
  mf_types :: "string list option"
  mf_to_match :: to_match

definition filter_matches :: "message_filter \<Rightarrow> message \<Rightarrow> node_id \<Rightarrow> bool" where
  "filter_matches f m n =
     (if (case mf_types f of Some tys \<Rightarrow> msg_type m \<notin> set tys | None \<Rightarrow> False)
      then False
      else (case mf_to_match f of
              AllMessages \<Rightarrow> True
            | BroadcastOnly \<Rightarrow> msg_to m = []
            | DirectedToMe \<Rightarrow> n \<in> set (msg_to m)
            | BroadcastAndDirectedToMe \<Rightarrow> msg_to m = [] \<or> n \<in> set (msg_to m)))"

lemma filter_matches_type:
  "filter_matches f m n \<Longrightarrow> mf_types f = Some tys \<Longrightarrow> msg_type m \<in> set tys"
  by (auto simp: filter_matches_def split: if_splits)

subsection \<open>Send errors\<close>

datatype send_error =
    NodeOffline "node_id list"
  | BusClosed
  | NoSuchBus bus_id

fun send_error_display :: "(bus_id \<Rightarrow> string) \<Rightarrow> send_error \<Rightarrow> string" where
  "send_error_display sb (NodeOffline ids) =
     ''target nodes offline: '' @ join '', '' (map as_string ids)"
| "send_error_display sb BusClosed = ''bus closed''"
| "send_error_display sb (NoSuchBus b) = ''no such bus: '' @ sb b"

definition bus_id_display :: "uuid_ops \<Rightarrow> bus_id \<Rightarrow> string" where
  "bus_id_display U b = ''bus:'' @ uuid_show U (as_uuid b)"

subsection \<open>Tasks (lib.rs and arf-state)\<close>

record task_id =
  ti_id :: uuid
  ti_owner :: node_id

definition TaskId_new :: "uuid \<Rightarrow> node_id \<Rightarrow> task_id" where
  "TaskId_new i owner = \<lparr>ti_id = i, ti_owner = owner\<rparr>"

datatype task_status = Created | InProgress | Blocked | Resolved | Failed | Cancelled

fun is_terminal :: "task_status \<Rightarrow> bool" where
  "is_terminal Resolved = True"
| "is_terminal Failed = True"
| "is_terminal Cancelled = True"
| "is_terminal _ = False"

fun task_status_display :: "task_status \<Rightarrow> string" where
  "task_status_display Created = ''created''"
| "task_status_display InProgress = ''in_progress''"
| "task_status_display Blocked = ''blocked''"
| "task_status_display Resolved = ''resolved''"
| "task_status_display Failed = ''failed''"
| "task_status_display Cancelled = ''cancelled''"

record task =
  task_id :: task_id
  task_status :: task_status
  task_blocked_by :: "(task_id \<times> task_id list) list"
  task_blocking :: "(task_id \<times> task_id list) list"
  task_metadata :: json

definition Task_new :: "task_id \<Rightarrow> task" where
  "Task_new i = \<lparr>task_id = i, task_status = Created, task_blocked_by = [],
                 task_blocking = [], task_metadata = JNull\<rparr>"

definition Task_with_metadata :: "task \<Rightarrow> json \<Rightarrow> task" where
  "Task_with_metadata t md = t\<lparr>task_metadata := md\<rparr>"

subsection \<open>Capabilities and routes (route.rs)\<close>

datatype capability = Capability (requirements: "(string \<times> string) list")

definition Capability_one :: "string \<Rightarrow> string \<Rightarrow> capability" where
  "Capability_one k v = Capability [(k, v)]"

datatype route = Strict "node_id list" | Discovery capability

definition Route_discovery :: "(string \<times> string) list \<Rightarrow> route" where
  "Route_discovery reqs = Discovery (Capability reqs)"

subsection \<open>Wait events (wait_event.rs)\<close>

datatype wait_strategy = WaitAll | WaitAny | WaitCount nat

record wait_event =
  we_id :: uuid
  we_correlation_id :: uuid
  we_strategy :: wait_strategy
  we_created_at_ms :: millis
  we_expected :: nat

definition WaitEvent_new ::
  "uuid \<Rightarrow> millis \<Rightarrow> uuid \<Rightarrow> wait_strategy \<Rightarrow> nat \<Rightarrow> wait_event" where
  "WaitEvent_new i now cid strategy expected =
     \<lparr>we_id = i, we_correlation_id = cid, we_strategy = strategy,
      we_created_at_ms = now, we_expected = expected\<rparr>"

end
