(* ===== verification/Core_Messages.thy ===== *)
theory Core_Messages
  imports Core_Types
begin

text \<open>
  The application messages of \<^verbatim>\<open>crates/arf-core/src/message.rs\<close> with the types they carry
  (\<^verbatim>\<open>ModelMessage\<close> of \<^verbatim>\<open>lib.rs\<close>, \<^verbatim>\<open>ToolSpec\<close> of \<^verbatim>\<open>tool.rs\<close>): one record per struct, its
  constructors, its wire payload (the derived \<^verbatim>\<open>Serialize\<close>), and the trait \<^verbatim>\<open>ActionMessage\<close> as
  four functions over the sum of all message kinds.
\<close>

subsection \<open>Tools and conversation messages\<close>

datatype tool_permission = Allow | Ask | Deny

fun tool_permission_to_value :: "tool_permission \<Rightarrow> json" where
  "tool_permission_to_value Allow = JStr ''allow''"
| "tool_permission_to_value Ask = JStr ''ask''"
| "tool_permission_to_value Deny = JStr ''deny''"

record tool_spec =
  ts_name :: string
  ts_description :: string
  ts_parameters :: json
  ts_permission :: tool_permission

definition ToolSpec_new :: "string \<Rightarrow> string \<Rightarrow> json \<Rightarrow> tool_spec" where
  "ToolSpec_new n d ps =
     \<lparr>ts_name = n, ts_description = d, ts_parameters = ps, ts_permission = Allow\<rparr>"

definition tool_spec_to_value :: "tool_spec \<Rightarrow> json" where
  "tool_spec_to_value t =
     JObj [(''name'', JStr (ts_name t)), (''description'', JStr (ts_description t)),
           (''parameters'', ts_parameters t),
           (''permission'', tool_permission_to_value (ts_permission t))]"

record tool_call =
  tc_id :: string
  tc_name :: string
  tc_arguments :: json
  tc_target :: "node_id option"

definition opt_node_to_value :: "node_id option \<Rightarrow> json" where
  "opt_node_to_value t = (case t of None \<Rightarrow> JNull | Some n \<Rightarrow> JStr (as_string n))"

definition tool_call_to_value :: "tool_call \<Rightarrow> json" where
  "tool_call_to_value t =
     JObj [(''id'', JStr (tc_id t)), (''name'', JStr (tc_name t)),
           (''arguments'', tc_arguments t), (''target'', opt_node_to_value (tc_target t))]"

text \<open>
  The derived \<^verbatim>\<open>Deserialize\<close> of \<^verbatim>\<open>ToolCall\<close>: \<^verbatim>\<open>id\<close>, \<^verbatim>\<open>name\<close> and \<^verbatim>\<open>arguments\<close> are required,
  \<^verbatim>\<open>target\<close> defaults to \<^verbatim>\<open>None\<close>, unknown keys are ignored.
\<close>

fun opt_node_of_value :: "json option \<Rightarrow> node_id option option" where
  "opt_node_of_value None = Some None"
| "opt_node_of_value (Some JNull) = Some None"
| "opt_node_of_value (Some (JStr s)) = Some (Some (NodeId s))"
| "opt_node_of_value (Some _) = None"

fun tool_call_of_value :: "json \<Rightarrow> tool_call option" where
  "tool_call_of_value (JObj kvs) =
     (case (Option.bind (map_of kvs ''id'') as_str, Option.bind (map_of kvs ''name'') as_str,
            map_of kvs ''arguments'', opt_node_of_value (map_of kvs ''target'')) of
        (Some i, Some n, Some a, Some t) \<Rightarrow>
          Some \<lparr>tc_id = i, tc_name = n, tc_arguments = a, tc_target = t\<rparr>
      | _ \<Rightarrow> None)"
| "tool_call_of_value _ = None"

lemma tool_call_roundtrip [simp]: "tool_call_of_value (tool_call_to_value t) = Some t"
  by (cases "tc_target t") (simp_all add: tool_call_to_value_def opt_node_to_value_def)

record model_message =
  mm_role :: string
  mm_content :: string
  mm_tool_call_id :: "string option"
  mm_name :: "string option"
  mm_tool_calls :: "tool_call list"
  mm_extra :: json

definition ModelMessage_new :: "string \<Rightarrow> string \<Rightarrow> model_message" where
  "ModelMessage_new r c =
     \<lparr>mm_role = r, mm_content = c, mm_tool_call_id = None, mm_name = None,
      mm_tool_calls = [], mm_extra = JNull\<rparr>"

definition with_tool_call_id :: "model_message \<Rightarrow> string \<Rightarrow> model_message" where
  "with_tool_call_id m i = m\<lparr>mm_tool_call_id := Some i\<rparr>"

definition with_name :: "model_message \<Rightarrow> string \<Rightarrow> model_message" where
  "with_name m n = m\<lparr>mm_name := Some n\<rparr>"

definition with_extra :: "model_message \<Rightarrow> json \<Rightarrow> model_message" where
  "with_extra m e = m\<lparr>mm_extra := e\<rparr>"

text \<open>\<^verbatim>\<open>skip_serializing_if\<close>: absent, empty and null fields are left out of the object.\<close>

definition opt_field :: "string \<Rightarrow> string option \<Rightarrow> (string \<times> json) list" where
  "opt_field k v = (case v of None \<Rightarrow> [] | Some s \<Rightarrow> [(k, JStr s)])"

definition nonnull_field :: "string \<Rightarrow> json \<Rightarrow> (string \<times> json) list" where
  "nonnull_field k v = (if v = JNull then [] else [(k, v)])"

definition model_message_to_value :: "model_message \<Rightarrow> json" where
  "model_message_to_value m =
     JObj ([(''role'', JStr (mm_role m)), (''content'', JStr (mm_content m))]
           @ opt_field ''tool_call_id'' (mm_tool_call_id m)
           @ opt_field ''name'' (mm_name m)
           @ (if mm_tool_calls m = [] then []
              else [(''tool_calls'', JArr (map tool_call_to_value (mm_tool_calls m)))])
           @ nonnull_field ''extra'' (mm_extra m))"

subsection \<open>Inference parameters\<close>

record core_model_params =
  cp_thinking_enabled :: bool
  cp_temperature :: "rat option"
  cp_max_tokens :: "nat option"
  cp_extra :: json

definition CoreModelParams_default :: core_model_params where
  "CoreModelParams_default =
     \<lparr>cp_thinking_enabled = False, cp_temperature = None, cp_max_tokens = None, cp_extra = JNull\<rparr>"

definition core_model_params_to_value :: "core_model_params \<Rightarrow> json" where
  "core_model_params_to_value p =
     JObj ([(''thinking_enabled'', JBool (cp_thinking_enabled p))]
           @ (case cp_temperature p of None \<Rightarrow> [] | Some t \<Rightarrow> [(''temperature'', JFloat t)])
           @ (case cp_max_tokens p of None \<Rightarrow> [] | Some n \<Rightarrow> [(''max_tokens'', JInt (int n))])
           @ nonnull_field ''extra'' (cp_extra p))"

subsection \<open>Message structs and their constructors\<close>

datatype message_intent = Query | Command

record model_call =
  mc_correlation_id :: uuid
  mc_messages :: "model_message list"
  mc_tools :: "tool_spec list"
  mc_model_params :: core_model_params

definition ModelCall_new :: "uuid \<Rightarrow> model_message list \<Rightarrow> model_call" where
  "ModelCall_new cid ms =
     \<lparr>mc_correlation_id = cid, mc_messages = ms, mc_tools = [],
      mc_model_params = CoreModelParams_default\<rparr>"

definition ModelCall_with_tools :: "model_call \<Rightarrow> tool_spec list \<Rightarrow> model_call" where
  "ModelCall_with_tools m ts = m\<lparr>mc_tools := ts\<rparr>"

definition ModelCall_with_model_params :: "model_call \<Rightarrow> core_model_params \<Rightarrow> model_call" where
  "ModelCall_with_model_params m p = m\<lparr>mc_model_params := p\<rparr>"

record tool_exec =
  te_correlation_id :: uuid
  te_tool_name :: string
  te_arguments :: json
  te_target :: "node_id option"

definition ToolExec_new :: "uuid \<Rightarrow> string \<Rightarrow> json \<Rightarrow> tool_exec" where
  "ToolExec_new cid n a =
     \<lparr>te_correlation_id = cid, te_tool_name = n, te_arguments = a, te_target = None\<rparr>"

definition ToolExec_with_target :: "tool_exec \<Rightarrow> node_id \<Rightarrow> tool_exec" where
  "ToolExec_with_target t n = t\<lparr>te_target := Some n\<rparr>"

record subagent_delegate =
  sd_correlation_id :: uuid
  sd_parent_session_id :: string
  sd_subagent_node_id :: node_id
  sd_task :: string
  sd_context :: json

definition SubagentDelegate_new :: "uuid \<Rightarrow> string \<Rightarrow> node_id \<Rightarrow> string \<Rightarrow> subagent_delegate" where
  "SubagentDelegate_new cid ps n t =
     \<lparr>sd_correlation_id = cid, sd_parent_session_id = ps, sd_subagent_node_id = n,
      sd_task = t, sd_context = JNull\<rparr>"

definition SubagentDelegate_with_context :: "subagent_delegate \<Rightarrow> json \<Rightarrow> subagent_delegate" where
  "SubagentDelegate_with_context d c = d\<lparr>sd_context := c\<rparr>"

datatype subagent_status = SubagentSuccess | SubagentFailed | SubagentCancelled

record subagent_result =
  sres_correlation_id :: uuid
  sres_status :: subagent_status
  sres_output :: string
  sres_trajectory :: "model_message list"

definition SubagentResult_success :: "uuid \<Rightarrow> string \<Rightarrow> subagent_result" where
  "SubagentResult_success cid s =
     \<lparr>sres_correlation_id = cid, sres_status = SubagentSuccess, sres_output = s,
      sres_trajectory = []\<rparr>"

definition SubagentResult_failed :: "uuid \<Rightarrow> string \<Rightarrow> subagent_result" where
  "SubagentResult_failed cid e =
     \<lparr>sres_correlation_id = cid, sres_status = SubagentFailed, sres_output = e,
      sres_trajectory = []\<rparr>"

record peer_message =
  pm_correlation_id :: uuid
  pm_from_session :: string
  pm_to_session :: string
  pm_content :: string
  pm_attachments :: "json list"

definition PeerMessage_new :: "uuid \<Rightarrow> string \<Rightarrow> string \<Rightarrow> string \<Rightarrow> peer_message" where
  "PeerMessage_new cid f t c =
     \<lparr>pm_correlation_id = cid, pm_from_session = f, pm_to_session = t, pm_content = c,
      pm_attachments = []\<rparr>"

datatype peer_status = PeerOk | PeerFailed | PeerRefused

record peer_reply =
  pr_correlation_id :: uuid
  pr_status :: peer_status
  pr_content :: string

definition PeerReply_ok :: "uuid \<Rightarrow> string \<Rightarrow> peer_reply" where
  "PeerReply_ok cid c = \<lparr>pr_correlation_id = cid, pr_status = PeerOk, pr_content = c\<rparr>"

datatype memory_op_kind = MemRead | MemWrite | MemDelete | MemList

record memory_op =
  mo_correlation_id :: uuid
  mo_op :: memory_op_kind
  mo_key :: string
  mo_value :: json

definition MemoryOp_read :: "uuid \<Rightarrow> string \<Rightarrow> memory_op" where
  "MemoryOp_read cid k =
     \<lparr>mo_correlation_id = cid, mo_op = MemRead, mo_key = k, mo_value = JNull\<rparr>"

definition MemoryOp_write :: "uuid \<Rightarrow> string \<Rightarrow> json \<Rightarrow> memory_op" where
  "MemoryOp_write cid k v =
     \<lparr>mo_correlation_id = cid, mo_op = MemWrite, mo_key = k, mo_value = v\<rparr>"

definition MemoryOp_delete :: "uuid \<Rightarrow> string \<Rightarrow> memory_op" where
  "MemoryOp_delete cid k =
     \<lparr>mo_correlation_id = cid, mo_op = MemDelete, mo_key = k, mo_value = JNull\<rparr>"

record memory_op_result =
  mr_correlation_id :: uuid
  mr_ok :: bool
  mr_value :: json
  mr_error :: "string option"

definition MemoryOpResult_found :: "uuid \<Rightarrow> json \<Rightarrow> memory_op_result" where
  "MemoryOpResult_found cid v =
     \<lparr>mr_correlation_id = cid, mr_ok = True, mr_value = v, mr_error = None\<rparr>"

definition MemoryOpResult_missing :: "uuid \<Rightarrow> memory_op_result" where
  "MemoryOpResult_missing cid =
     \<lparr>mr_correlation_id = cid, mr_ok = False, mr_value = JNull, mr_error = None\<rparr>"

record human_handoff =
  hh_correlation_id :: uuid
  hh_question :: string
  hh_context :: json
  hh_options :: "string list"

definition HumanHandoff_new :: "uuid \<Rightarrow> string \<Rightarrow> human_handoff" where
  "HumanHandoff_new cid q =
     \<lparr>hh_correlation_id = cid, hh_question = q, hh_context = JNull, hh_options = []\<rparr>"

record human_handoff_reply =
  hr_correlation_id :: uuid
  hr_answer :: string
  hr_selected_option :: "nat option"

definition HumanHandoffReply_new :: "uuid \<Rightarrow> string \<Rightarrow> human_handoff_reply" where
  "HumanHandoffReply_new cid a =
     \<lparr>hr_correlation_id = cid, hr_answer = a, hr_selected_option = None\<rparr>"

record model_tool_call_delta =
  td_id :: string
  td_name_delta :: string
  td_arguments_delta :: string

record model_response_chunk =
  ch_correlation_id :: uuid
  ch_content_delta :: string
  ch_reasoning_delta :: string
  ch_tool_call_delta :: "model_tool_call_delta option"
  ch_finished :: bool

definition ModelResponseChunk_text :: "uuid \<Rightarrow> string \<Rightarrow> model_response_chunk" where
  "ModelResponseChunk_text cid d =
     \<lparr>ch_correlation_id = cid, ch_content_delta = d, ch_reasoning_delta = [],
      ch_tool_call_delta = None, ch_finished = False\<rparr>"

definition ModelResponseChunk_finish :: "uuid \<Rightarrow> model_response_chunk" where
  "ModelResponseChunk_finish cid =
     \<lparr>ch_correlation_id = cid, ch_content_delta = [], ch_reasoning_delta = [],
      ch_tool_call_delta = None, ch_finished = True\<rparr>"

subsection \<open>Wire payloads\<close>

definition cid_field :: "uuid_ops \<Rightarrow> uuid \<Rightarrow> string \<times> json" where
  "cid_field U cid = (''correlation_id'', JStr (uuid_show U cid))"

definition model_call_to_value :: "uuid_ops \<Rightarrow> model_call \<Rightarrow> json" where
  "model_call_to_value U m =
     JObj [cid_field U (mc_correlation_id m),
           (''messages'', JArr (map model_message_to_value (mc_messages m))),
           (''tools'', JArr (map tool_spec_to_value (mc_tools m))),
           (''model_params'', core_model_params_to_value (mc_model_params m))]"

definition tool_exec_to_value :: "uuid_ops \<Rightarrow> tool_exec \<Rightarrow> json" where
  "tool_exec_to_value U t =
     JObj [cid_field U (te_correlation_id t), (''tool_name'', JStr (te_tool_name t)),
           (''arguments'', te_arguments t), (''target'', opt_node_to_value (te_target t))]"

definition subagent_delegate_to_value :: "uuid_ops \<Rightarrow> subagent_delegate \<Rightarrow> json" where
  "subagent_delegate_to_value U d =
     JObj [cid_field U (sd_correlation_id d),
           (''parent_session_id'', JStr (sd_parent_session_id d)),
           (''subagent_node_id'', JStr (as_string (sd_subagent_node_id d))),
           (''task'', JStr (sd_task d)), (''context'', sd_context d)]"

fun subagent_status_to_value :: "subagent_status \<Rightarrow> json" where
  "subagent_status_to_value SubagentSuccess = JStr ''Success''"
| "subagent_status_to_value SubagentFailed = JStr ''Failed''"
| "subagent_status_to_value SubagentCancelled = JStr ''Cancelled''"

definition subagent_result_to_value :: "uuid_ops \<Rightarrow> subagent_result \<Rightarrow> json" where
  "subagent_result_to_value U r =
     JObj [cid_field U (sres_correlation_id r),
           (''status'', subagent_status_to_value (sres_status r)),
           (''output'', JStr (sres_output r)),
           (''trajectory'', JArr (map model_message_to_value (sres_trajectory r)))]"

definition peer_message_to_value :: "uuid_ops \<Rightarrow> peer_message \<Rightarrow> json" where
  "peer_message_to_value U p =
     JObj [cid_field U (pm_correlation_id p), (''from_session'', JStr (pm_from_session p)),
           (''to_session'', JStr (pm_to_session p)), (''content'', JStr (pm_content p)),
           (''attachments'', JArr (pm_attachments p))]"

fun peer_status_to_value :: "peer_status \<Rightarrow> json" where
  "peer_status_to_value PeerOk = JStr ''Ok''"
| "peer_status_to_value PeerFailed = JStr ''Failed''"
| "peer_status_to_value PeerRefused = JStr ''Refused''"

definition peer_reply_to_value :: "uuid_ops \<Rightarrow> peer_reply \<Rightarrow> json" where
  "peer_reply_to_value U p =
     JObj [cid_field U (pr_correlation_id p), (''status'', peer_status_to_value (pr_status p)),
           (''content'', JStr (pr_content p))]"

fun memory_op_kind_to_value :: "memory_op_kind \<Rightarrow> json" where
  "memory_op_kind_to_value MemRead = JStr ''Read''"
| "memory_op_kind_to_value MemWrite = JStr ''Write''"
| "memory_op_kind_to_value MemDelete = JStr ''Delete''"
| "memory_op_kind_to_value MemList = JStr ''List''"

definition memory_op_to_value :: "uuid_ops \<Rightarrow> memory_op \<Rightarrow> json" where
  "memory_op_to_value U m =
     JObj [cid_field U (mo_correlation_id m), (''op'', memory_op_kind_to_value (mo_op m)),
           (''key'', JStr (mo_key m)), (''value'', mo_value m)]"

definition memory_op_result_to_value :: "uuid_ops \<Rightarrow> memory_op_result \<Rightarrow> json" where
  "memory_op_result_to_value U m =
     JObj ([cid_field U (mr_correlation_id m), (''ok'', JBool (mr_ok m)),
            (''value'', mr_value m)] @ opt_field ''error'' (mr_error m))"

definition human_handoff_to_value :: "uuid_ops \<Rightarrow> human_handoff \<Rightarrow> json" where
  "human_handoff_to_value U h =
     JObj [cid_field U (hh_correlation_id h), (''question'', JStr (hh_question h)),
           (''context'', hh_context h), (''options'', strs_to_value (hh_options h))]"

definition human_handoff_reply_to_value :: "uuid_ops \<Rightarrow> human_handoff_reply \<Rightarrow> json" where
  "human_handoff_reply_to_value U h =
     JObj [cid_field U (hr_correlation_id h), (''answer'', JStr (hr_answer h)),
           (''selected_option'',
            case hr_selected_option h of None \<Rightarrow> JNull | Some n \<Rightarrow> JInt (int n))]"

definition tool_call_delta_to_value :: "model_tool_call_delta \<Rightarrow> json" where
  "tool_call_delta_to_value d =
     JObj [(''id'', JStr (td_id d)), (''name_delta'', JStr (td_name_delta d)),
           (''arguments_delta'', JStr (td_arguments_delta d))]"

definition model_response_chunk_to_value :: "uuid_ops \<Rightarrow> model_response_chunk \<Rightarrow> json" where
  "model_response_chunk_to_value U c =
     JObj [cid_field U (ch_correlation_id c), (''content_delta'', JStr (ch_content_delta c)),
           (''reasoning_delta'', JStr (ch_reasoning_delta c)),
           (''tool_call_delta'',
            case ch_tool_call_delta c of None \<Rightarrow> JNull | Some d \<Rightarrow> tool_call_delta_to_value d),
           (''finished'', JBool (ch_finished c))]"

text \<open>The derived \<^verbatim>\<open>Deserialize\<close> of \<^verbatim>\<open>HumanHandoffReply\<close>; \<^verbatim>\<open>selected_option\<close> defaults to \<^verbatim>\<open>None\<close>.\<close>

fun opt_usize_of_value :: "json option \<Rightarrow> nat option option" where
  "opt_usize_of_value None = Some None"
| "opt_usize_of_value (Some JNull) = Some None"
| "opt_usize_of_value (Some (JInt i)) = map_option Some (as_u64 (JInt i))"
| "opt_usize_of_value (Some _) = None"

fun human_handoff_reply_of_value :: "uuid_ops \<Rightarrow> json \<Rightarrow> human_handoff_reply option" where
  "human_handoff_reply_of_value U (JObj kvs) =
     (case (payload_cid U (JObj kvs), Option.bind (map_of kvs ''answer'') as_str,
            opt_usize_of_value (map_of kvs ''selected_option'')) of
        (Some c, Some a, Some s) \<Rightarrow>
          Some \<lparr>hr_correlation_id = c, hr_answer = a, hr_selected_option = s\<rparr>
      | _ \<Rightarrow> None)"
| "human_handoff_reply_of_value U _ = None"

subsection \<open>The trait ActionMessage\<close>

text \<open>
  A \<^verbatim>\<open>Box<dyn ActionMessage>\<close> is one of the built-in structs or an application type, of
  which the framework sees its wire type, correlation id, payload and intent.
\<close>

datatype action_message =
    AModelCall model_call
  | AToolExec tool_exec
  | ASubagentDelegate subagent_delegate
  | ASubagentResult subagent_result
  | APeerMessage peer_message
  | APeerReply peer_reply
  | AMemoryOp memory_op
  | AMemoryOpResult memory_op_result
  | AHumanHandoff human_handoff
  | AHumanHandoffReply human_handoff_reply
  | AModelResponseChunk model_response_chunk
  | ACustom string uuid json message_intent

fun am_msg_type :: "action_message \<Rightarrow> string" where
  "am_msg_type (AModelCall _) = ''model_call''"
| "am_msg_type (AToolExec _) = ''tool_exec''"
| "am_msg_type (ASubagentDelegate _) = SUBAGENT_DELEGATE"
| "am_msg_type (ASubagentResult _) = SUBAGENT_RESULT"
| "am_msg_type (APeerMessage _) = ''peer_message''"
| "am_msg_type (APeerReply _) = ''peer_reply''"
| "am_msg_type (AMemoryOp _) = ''memory_op''"
| "am_msg_type (AMemoryOpResult _) = ''memory_op_result''"
| "am_msg_type (AHumanHandoff _) = ''human_handoff''"
| "am_msg_type (AHumanHandoffReply _) = ''human_handoff_reply''"
| "am_msg_type (AModelResponseChunk _) = ''model_response_chunk''"
| "am_msg_type (ACustom t _ _ _) = t"

fun am_correlation_id :: "action_message \<Rightarrow> uuid" where
  "am_correlation_id (AModelCall m) = mc_correlation_id m"
| "am_correlation_id (AToolExec m) = te_correlation_id m"
| "am_correlation_id (ASubagentDelegate m) = sd_correlation_id m"
| "am_correlation_id (ASubagentResult m) = sres_correlation_id m"
| "am_correlation_id (APeerMessage m) = pm_correlation_id m"
| "am_correlation_id (APeerReply m) = pr_correlation_id m"
| "am_correlation_id (AMemoryOp m) = mo_correlation_id m"
| "am_correlation_id (AMemoryOpResult m) = mr_correlation_id m"
| "am_correlation_id (AHumanHandoff m) = hh_correlation_id m"
| "am_correlation_id (AHumanHandoffReply m) = hr_correlation_id m"
| "am_correlation_id (AModelResponseChunk m) = ch_correlation_id m"
| "am_correlation_id (ACustom _ c _ _) = c"

fun am_payload :: "uuid_ops \<Rightarrow> action_message \<Rightarrow> json" where
  "am_payload U (AModelCall m) = model_call_to_value U m"
| "am_payload U (AToolExec m) = tool_exec_to_value U m"
| "am_payload U (ASubagentDelegate m) = subagent_delegate_to_value U m"
| "am_payload U (ASubagentResult m) = subagent_result_to_value U m"
| "am_payload U (APeerMessage m) = peer_message_to_value U m"
| "am_payload U (APeerReply m) = peer_reply_to_value U m"
| "am_payload U (AMemoryOp m) = memory_op_to_value U m"
| "am_payload U (AMemoryOpResult m) = memory_op_result_to_value U m"
| "am_payload U (AHumanHandoff m) = human_handoff_to_value U m"
| "am_payload U (AHumanHandoffReply m) = human_handoff_reply_to_value U m"
| "am_payload U (AModelResponseChunk m) = model_response_chunk_to_value U m"
| "am_payload U (ACustom _ _ pl _) = pl"

fun am_intent :: "action_message \<Rightarrow> message_intent" where
  "am_intent (AModelCall _) = Query"
| "am_intent (AToolExec _) = Query"
| "am_intent (ASubagentDelegate _) = Query"
| "am_intent (ASubagentResult _) = Command"
| "am_intent (APeerMessage _) = Query"
| "am_intent (APeerReply _) = Command"
| "am_intent (AMemoryOp _) = Query"
| "am_intent (AMemoryOpResult _) = Command"
| "am_intent (AHumanHandoff _) = Query"
| "am_intent (AHumanHandoffReply _) = Command"
| "am_intent (AModelResponseChunk _) = Command"
| "am_intent (ACustom _ _ _ it) = it"

fun builtin :: "action_message \<Rightarrow> bool" where
  "builtin (ACustom _ _ _ _) = False"
| "builtin _ = True"

lemmas payload_defs [core_defs] =
  model_call_to_value_def tool_exec_to_value_def subagent_delegate_to_value_def
  subagent_result_to_value_def peer_message_to_value_def peer_reply_to_value_def
  memory_op_to_value_def memory_op_result_to_value_def human_handoff_to_value_def
  human_handoff_reply_to_value_def model_response_chunk_to_value_def

lemma payload_cid_head [simp]:
  "uuid_ok U \<Longrightarrow> payload_cid U (JObj (cid_field U c # kvs)) = Some c"
  by (simp add: payload_cid_def cid_field_def)

text \<open>Every built-in payload carries its correlation id where \<open>correlation_id\<close> looks for it.\<close>

lemma builtin_payload_cid:
  "uuid_ok U \<Longrightarrow> builtin m \<Longrightarrow> payload_cid U (am_payload U m) = Some (am_correlation_id m)"
  by (cases m) (simp_all add: payload_defs)

lemma human_handoff_reply_roundtrip:
  assumes "uuid_ok U" and "\<forall>n. hr_selected_option h = Some n \<longrightarrow> n < 2 ^ 64"
  shows "human_handoff_reply_of_value U (human_handoff_reply_to_value U h) = Some h"
proof (cases "hr_selected_option h")
  case None
  with assms(1) show ?thesis
    by (simp add: human_handoff_reply_to_value_def cid_field_def payload_cid_def)
next
  case (Some n)
  with assms have "int n < 2 ^ 64" by simp
  with Some assms(1) show ?thesis
    by (simp add: human_handoff_reply_to_value_def cid_field_def payload_cid_def)
qed

end
