(* ===== verification/Core_State.thy ===== *)
theory Core_State
  imports Core_Messages
begin

text \<open>
  The engine state of \<^verbatim>\<open>crates/arf-core/src/state.rs\<close>, checkpoint rules (\<^verbatim>\<open>checkpoint.rs\<close>) and
  the mutable model request that middleware edits (\<^verbatim>\<open>middleware.rs\<close>).
\<close>

subsection \<open>State\<close>

record over_view =
  ov_round_count :: nat
  ov_turn_count :: nat
  ov_context_tokens :: nat
  ov_model_context_window :: nat
  ov_runtime :: millis
  ov_last_user_message :: string

record state =
  st_messages :: "model_message list"
  st_over_view :: over_view
  st_wait_events :: "wait_event list"

definition OverView_default :: over_view where
  "OverView_default =
     \<lparr>ov_round_count = 0, ov_turn_count = 0, ov_context_tokens = 0,
      ov_model_context_window = 0, ov_runtime = 0, ov_last_user_message = []\<rparr>"

definition State_new :: state where
  "State_new = \<lparr>st_messages = [], st_over_view = OverView_default, st_wait_events = []\<rparr>"

definition context_utilization :: "(rat \<Rightarrow> rat) \<Rightarrow> over_view \<Rightarrow> rat" where
  "context_utilization rnd ov =
     (if ov_model_context_window ov = 0 then 0
      else rnd (rnd (of_nat (ov_context_tokens ov)) / rnd (of_nat (ov_model_context_window ov))))"

definition push_message :: "model_message \<Rightarrow> state \<Rightarrow> state" where
  "push_message m s =
     (let s' = (if mm_role m = ''user''
                then s\<lparr>st_over_view := (st_over_view s)\<lparr>ov_last_user_message := mm_content m\<rparr>\<rparr>
                else s)
      in s'\<lparr>st_messages := st_messages s' @ [m]\<rparr>)"

definition inc_round :: "state \<Rightarrow> state" where
  "inc_round s =
     s\<lparr>st_over_view := (st_over_view s)\<lparr>ov_round_count := ov_round_count (st_over_view s) + 1\<rparr>\<rparr>"

definition inc_turn :: "state \<Rightarrow> state" where
  "inc_turn s =
     s\<lparr>st_over_view := (st_over_view s)\<lparr>ov_turn_count := ov_turn_count (st_over_view s) + 1\<rparr>\<rparr>"

definition set_context_tokens :: "nat \<Rightarrow> state \<Rightarrow> state" where
  "set_context_tokens n s = s\<lparr>st_over_view := (st_over_view s)\<lparr>ov_context_tokens := n\<rparr>\<rparr>"

abbreviation turn_count :: "state \<Rightarrow> nat" where
  "turn_count s \<equiv> ov_turn_count (st_over_view s)"

abbreviation round_count :: "state \<Rightarrow> nat" where
  "round_count s \<equiv> ov_round_count (st_over_view s)"

lemma push_message_simps [simp]:
  "st_messages (push_message m s) = st_messages s @ [m]"
  "st_wait_events (push_message m s) = st_wait_events s"
  "turn_count (push_message m s) = turn_count s"
  "round_count (push_message m s) = round_count s"
  by (simp_all add: push_message_def Let_def)

lemma inc_round_simps [simp]:
  "st_messages (inc_round s) = st_messages s"
  "st_wait_events (inc_round s) = st_wait_events s"
  "turn_count (inc_round s) = turn_count s"
  "round_count (inc_round s) = Suc (round_count s)"
  by (simp_all add: inc_round_def)

lemma inc_turn_simps [simp]:
  "st_messages (inc_turn s) = st_messages s"
  "st_wait_events (inc_turn s) = st_wait_events s"
  "turn_count (inc_turn s) = Suc (turn_count s)"
  "round_count (inc_turn s) = round_count s"
  by (simp_all add: inc_turn_def)

lemma set_context_tokens_simps [simp]:
  "st_messages (set_context_tokens n s) = st_messages s"
  "st_wait_events (set_context_tokens n s) = st_wait_events s"
  "turn_count (set_context_tokens n s) = turn_count s"
  "round_count (set_context_tokens n s) = round_count s"
  "ov_context_tokens (st_over_view (set_context_tokens n s)) = n"
  "ov_model_context_window (st_over_view (set_context_tokens n s))
     = ov_model_context_window (st_over_view s)"
  by (simp_all add: set_context_tokens_def)

subsection \<open>Checkpoint rules\<close>

datatype checkpoint =
    BeforeModelCall
  | AfterModelCall
  | BeforeToolExec
  | AfterToolExec
  | RoundEnd

text \<open>
  The closures of a rule are functions. \<open>cr_when\<close> may panic (\<open>None\<close>); \<open>cr_build\<close> takes the
  identifier the message constructor draws.
\<close>

record checkpoint_rule =
  cr_name :: string
  cr_trigger :: checkpoint
  cr_when :: "state \<Rightarrow> bool option"
  cr_build :: "uuid \<Rightarrow> state \<Rightarrow> action_message"

definition CheckpointRule_new ::
  "string \<Rightarrow> checkpoint \<Rightarrow> (state \<Rightarrow> bool option) \<Rightarrow> (uuid \<Rightarrow> state \<Rightarrow> action_message)
    \<Rightarrow> checkpoint_rule" where
  "CheckpointRule_new n t w b = \<lparr>cr_name = n, cr_trigger = t, cr_when = w, cr_build = b\<rparr>"

text \<open>\<^verbatim>\<open>round_count as u32 % every_n == 0\<close> panics for \<^verbatim>\<open>every_n = 0\<close> once a round has started.\<close>

definition every_n_rounds ::
  "string \<Rightarrow> checkpoint \<Rightarrow> nat \<Rightarrow> (uuid \<Rightarrow> state \<Rightarrow> action_message) \<Rightarrow> checkpoint_rule" where
  "every_n_rounds n t every_n b =
     CheckpointRule_new n t
       (\<lambda>s. if round_count s > 0
            then (if every_n = 0 then None else Some (as_u32 (round_count s) mod every_n = 0))
            else Some False) b"

definition when_context_over ::
  "(rat \<Rightarrow> rat) \<Rightarrow> string \<Rightarrow> checkpoint \<Rightarrow> rat \<Rightarrow> (uuid \<Rightarrow> state \<Rightarrow> action_message)
    \<Rightarrow> checkpoint_rule" where
  "when_context_over rnd n t ratio b =
     CheckpointRule_new n t (\<lambda>s. Some (context_utilization rnd (st_over_view s) \<ge> ratio)) b"

definition fires :: "checkpoint_rule \<Rightarrow> state \<Rightarrow> bool option" where
  "fires r s = cr_when r s"

definition build_msg :: "checkpoint_rule \<Rightarrow> uuid \<Rightarrow> state \<Rightarrow> action_message" where
  "build_msg r i s = cr_build r i s"

text \<open>
  A rule with \<open>every_n = 1\<close> fires in the very first round: the first chat is not exempt,
  unlike what the comment of \<^verbatim>\<open>every_n_rounds\<close> says.
\<close>

lemma every_n_rounds_fires:
  assumes "0 < every_n" and "round_count s < 2 ^ 32"
  shows "fires (every_n_rounds n t every_n b) s
           = Some (round_count s > 0 \<and> every_n dvd round_count s)"
  using assms
  by (auto simp: fires_def every_n_rounds_def CheckpointRule_new_def as_u32_small mod_eq_0_iff_dvd)

lemma every_1_fires_in_first_round:
  "round_count s = 1 \<Longrightarrow> fires (every_n_rounds n t 1 b) s = Some True"
  by (simp add: fires_def every_n_rounds_def CheckpointRule_new_def)

subsection \<open>ModelRequest\<close>

record model_request =
  rq_messages :: "model_message list"
  rq_system_prompt_suffix :: string
  rq_tools :: "tool_spec list"
  rq_abort :: "string option"

definition ModelRequest_new :: "model_message list \<Rightarrow> tool_spec list \<Rightarrow> model_request" where
  "ModelRequest_new ms ts =
     \<lparr>rq_messages = ms, rq_system_prompt_suffix = [], rq_tools = ts, rq_abort = None\<rparr>"

fun rposition :: "('a \<Rightarrow> bool) \<Rightarrow> 'a list \<Rightarrow> nat option" where
  "rposition P [] = None"
| "rposition P (x # xs) =
     (case rposition P xs of
        Some i \<Rightarrow> Some (Suc i)
      | None \<Rightarrow> if P x then Some 0 else None)"

definition is_system :: "model_message \<Rightarrow> bool" where
  "is_system m \<longleftrightarrow> mm_role m = ''system''"

definition append_system :: "string \<Rightarrow> model_request \<Rightarrow> model_request" where
  "append_system c r =
     (let last_sys = (case rposition is_system (rq_messages r) of Some i \<Rightarrow> i + 1 | None \<Rightarrow> 0)
      in r\<lparr>rq_messages := take last_sys (rq_messages r) @ [ModelMessage_new ''system'' c]
                         @ drop last_sys (rq_messages r)\<rparr>)"

definition extend_system_suffix :: "string \<Rightarrow> model_request \<Rightarrow> model_request" where
  "extend_system_suffix c r =
     r\<lparr>rq_system_prompt_suffix :=
         (if rq_system_prompt_suffix r = [] then [] else rq_system_prompt_suffix r @ [CHR 0x0A]) @ c\<rparr>"

definition add_tool :: "tool_spec \<Rightarrow> model_request \<Rightarrow> model_request" where
  "add_tool t r =
     (if list_ex (\<lambda>t'. ts_name t' = ts_name t) (rq_tools r) then r
      else r\<lparr>rq_tools := rq_tools r @ [t]\<rparr>)"

definition remove_tool :: "string \<Rightarrow> model_request \<Rightarrow> model_request" where
  "remove_tool n r = r\<lparr>rq_tools := filter (\<lambda>t. ts_name t \<noteq> n) (rq_tools r)\<rparr>"

lemma rposition_None: "rposition P xs = None \<longleftrightarrow> (\<forall>x \<in> set xs. \<not> P x)"
  by (induction xs) (auto split: option.splits)

lemma rposition_Some:
  "rposition P xs = Some i \<Longrightarrow>
     i < length xs \<and> P (xs ! i) \<and> (\<forall>x \<in> set (drop (Suc i) xs). \<not> P x)"
proof (induction xs arbitrary: i)
  case Nil
  then show ?case by simp
next
  case (Cons x xs)
  show ?case
  proof (cases "rposition P xs")
    case None
    with Cons.prems show ?thesis by (auto simp: rposition_None split: if_splits)
  next
    case (Some j)
    with Cons.prems have "i = Suc j" by simp
    with Cons.IH [OF Some] show ?thesis by simp
  qed
qed

text \<open>A middleware sees the request and the state, and edits the request.\<close>

record middleware =
  mw_name :: string
  mw_before_model_call :: "model_request \<Rightarrow> state \<Rightarrow> model_request"

end
