(* ===== verification/Compactor.thy ===== *)
theory Compactor
  imports Core_State
begin

text \<open>
  \<^verbatim>\<open>crates/arf-compactor/src/lib.rs\<close>: context compaction. The summarizer is the application's
  function; \<open>rnd\<close> is the rounding of \<^verbatim>\<open>f64\<close>.
\<close>

datatype compact_error = CLlm string | CNoSummary | CSerde string

record compact_result =
  cres_summary :: string
  cres_before_tokens :: nat
  cres_after_tokens :: nat
  cres_messages_before :: nat
  cres_messages_after :: nat

definition token_reduction_pct :: "(rat \<Rightarrow> rat) \<Rightarrow> compact_result \<Rightarrow> rat" where
  "token_reduction_pct rnd r =
     (if cres_before_tokens r = 0 then 0
      else rnd (100 * rnd (1 - rnd (rnd (of_nat (cres_after_tokens r))
                                    / rnd (of_nat (cres_before_tokens r))))))"

type_synonym summarizer = "string \<Rightarrow> model_message list \<Rightarrow> compact_error + string"

record compactor =
  cp_summarizer :: summarizer
  cp_instruction :: string

definition DEFAULT_INSTRUCTION :: string where
  "DEFAULT_INSTRUCTION = ''You are a conversation summarizer. Produce a concise but information-dense summary that preserves task context, decisions made, files involved, and next steps. The summary will replace the original messages in the context window.''"

definition Compactor_new :: "summarizer \<Rightarrow> compactor" where
  "Compactor_new s = \<lparr>cp_summarizer = s, cp_instruction = DEFAULT_INSTRUCTION\<rparr>"

definition with_instruction :: "compactor \<Rightarrow> string \<Rightarrow> compactor" where
  "with_instruction c i = c\<lparr>cp_instruction := i\<rparr>"

text \<open>\<^verbatim>\<open>((before_tokens as f64) * 0.15) as usize\<close>.\<close>

definition estimate_tokens :: "(rat \<Rightarrow> rat) \<Rightarrow> nat \<Rightarrow> nat" where
  "estimate_tokens rnd n = nat \<lfloor>rnd (rnd (of_nat n) * rnd (15 / 100))\<rfloor>"

definition compact ::
  "(rat \<Rightarrow> rat) \<Rightarrow> compactor \<Rightarrow> nat \<Rightarrow> state \<Rightarrow> (compact_error + compact_result) \<times> state" where
  "compact rnd c keep_tail s =
     (if length (st_messages s) \<le> keep_tail + 1
      then (Inr \<lparr>cres_summary = [],
                 cres_before_tokens = ov_context_tokens (st_over_view s),
                 cres_after_tokens = ov_context_tokens (st_over_view s),
                 cres_messages_before = length (st_messages s),
                 cres_messages_after = length (st_messages s)\<rparr>, s)
      else
        (let messages_before = length (st_messages s);
             before_tokens = ov_context_tokens (st_over_view s);
             split = messages_before - keep_tail;
             to_summarize = take split (st_messages s);
             tail = drop split (st_messages s)
         in case cp_summarizer c (cp_instruction c) to_summarize of
              Inl e \<Rightarrow> (Inl e, s)
            | Inr summary \<Rightarrow>
                (let new_msgs = ModelMessage_new ''system''
                                  (''[COMPACTED SUMMARY]'' @ [CHR 0x0A] @ summary) # tail;
                     after_tokens = estimate_tokens rnd before_tokens;
                     s' = set_context_tokens after_tokens (s\<lparr>st_messages := new_msgs\<rparr>)
                 in (Inr \<lparr>cres_summary = summary,
                          cres_before_tokens = before_tokens,
                          cres_after_tokens = after_tokens,
                          cres_messages_before = messages_before,
                          cres_messages_after = length (st_messages s')\<rparr>, s'))))"

definition compact_request :: "uuid \<Rightarrow> rat \<Rightarrow> nat \<Rightarrow> action_message" where
  "compact_request i threshold keep_tail =
     ACustom ''compact_request'' i
       (JObj [(''threshold'', JFloat threshold), (''keep_tail'', JInt (int keep_tail))]) Command"

definition compact_rule :: "(rat \<Rightarrow> rat) \<Rightarrow> rat \<Rightarrow> nat \<Rightarrow> checkpoint_rule" where
  "compact_rule rnd ratio keep_tail =
     when_context_over rnd ''when_context_over'' BeforeModelCall ratio
       (\<lambda>i _. compact_request i ratio keep_tail)"

subsection \<open>Properties\<close>

lemma estimate_tokens_quarter:
  assumes "f64_ok rnd" and "n \<le> w" and "w < 2 ^ 53"
  shows "rat_of_nat (estimate_tokens rnd n) \<le> of_nat w / 4"
proof -
  note r = f64_okD [OF assms(1)]
  have quarter: "rnd (15 / 100) \<le> 1 / 4"
    using r(1) [of "15 / 100" "1 / 4"] r(3) [of 1] by simp
  have "rnd (of_nat n) = of_nat n" using assms r(2) [of n] by simp
  moreover have "of_nat n * rnd (15 / 100) \<le> of_nat w * (1 / 4)"
  proof -
    have "of_nat n * rnd (15 / 100) \<le> of_nat n * (1 / 4 :: rat)"
      using quarter by (intro mult_left_mono) auto
    also have "\<dots> \<le> of_nat w * (1 / 4)" using assms(2) by simp
    finally show ?thesis .
  qed
  ultimately have "rnd (rnd (of_nat n) * rnd (15 / 100)) \<le> rnd (of_nat w / 4)"
    by (intro r(1)) simp
  then have "rnd (rnd (of_nat n) * rnd (15 / 100)) \<le> of_nat w / 4"
    by (simp only: r(3) [OF assms(3)])
  moreover have "rat_of_nat (nat \<lfloor>x\<rfloor>) \<le> max 0 x" for x :: rat
    by (cases "0 \<le> \<lfloor>x\<rfloor>") (auto simp: le_max_iff_disj of_int_floor_le)
  ultimately show ?thesis
    unfolding estimate_tokens_def
    by (metis (no_types, lifting) max.bounded_iff max_def order_trans
        divide_nonneg_nonneg of_nat_0_le_iff zero_le_numeral)
qed

lemma utilization_quarter:
  assumes "f64_ok rnd" and "ov_model_context_window ov < 2 ^ 53"
    and "rat_of_nat (ov_context_tokens ov) \<le> of_nat (ov_model_context_window ov) / 4"
  shows "context_utilization rnd ov \<le> 1 / 4"
proof (cases "ov_model_context_window ov = 0")
  case True
  then show ?thesis by (simp add: context_utilization_def)
next
  case False
  let ?w = "ov_model_context_window ov" and ?n = "ov_context_tokens ov"
  note r = f64_okD [OF assms(1)]
  have "?n \<le> ?w"
  proof -
    have "rat_of_nat ?n \<le> of_nat ?w" using assms(3) by (simp add: field_simps)
    then show ?thesis by simp
  qed
  then have exact: "rnd (of_nat ?n) = of_nat ?n" "rnd (of_nat ?w) = of_nat ?w"
    using r(2) assms(2) by simp_all
  have "rat_of_nat ?n / of_nat ?w \<le> 1 / 4"
    using assms(3) False by (simp add: field_simps)
  then have "rnd (rat_of_nat ?n / of_nat ?w) \<le> rnd (1 / 4)" by (rule r(1))
  moreover have "rnd (1 / 4) = 1 / 4" using r(3) [of 1] by simp
  ultimately show ?thesis using False by (simp add: context_utilization_def exact)
qed

text \<open>
  A compaction that does summarize leaves exactly one system message with the summary
  followed by the most recent \<open>keep_tail\<close> messages, untouched and in order; the messages
  handed to the summarizer are exactly the ones that disappear; and the reported counts
  are the lengths before and after.
\<close>

theorem compact_keeps_tail:
  assumes "keep_tail + 1 < length (st_messages s)"
    and "compact rnd c keep_tail s = (Inr r, s')"
  shows "\<exists>dropped tail. st_messages s = dropped @ tail \<and> length tail = keep_tail \<and>
           cp_summarizer c (cp_instruction c) dropped = Inr (cres_summary r) \<and>
           (\<exists>m. is_system m \<and> st_messages s' = m # tail) \<and>
           cres_messages_before r = length (st_messages s) \<and>
           cres_messages_after r = keep_tail + 1 \<and>
           st_wait_events s' = st_wait_events s"
proof -
  let ?n = "length (st_messages s) - keep_tail"
  have "st_messages s = take ?n (st_messages s) @ drop ?n (st_messages s)" by simp
  moreover have "length (drop ?n (st_messages s)) = keep_tail" using assms(1) by simp
  ultimately show ?thesis using assms
    by (intro exI [of _ "take ?n (st_messages s)"] exI [of _ "drop ?n (st_messages s)"])
      (auto simp: compact_def Let_def is_system_def ModelMessage_new_def split: sum.splits if_splits)
qed

lemma compact_error_keeps_state: "compact rnd c keep_tail s = (Inl e, s') \<Longrightarrow> s' = s"
  by (auto simp: compact_def Let_def split: sum.splits if_splits)

theorem compact_keeps_tail_witness:
  "\<exists>r s'. compact (\<lambda>x. x) (Compactor_new (\<lambda>_ _. Inr ''sum'')) 1
             (State_new\<lparr>st_messages := [ModelMessage_new ''user'' ''a'', ModelMessage_new ''user'' ''b'',
                                        ModelMessage_new ''user'' ''c'']\<rparr>) = (Inr r, s') \<and>
          (\<exists>m. is_system m \<and> st_messages s' = [m, ModelMessage_new ''user'' ''c''])"
proof -
  let ?s = "State_new\<lparr>st_messages := [ModelMessage_new ''user'' ''a'', ModelMessage_new ''user'' ''b'',
                                     ModelMessage_new ''user'' ''c'']\<rparr>"
  let ?c = "Compactor_new (\<lambda>_ _. Inr ''sum'')"
  have h: "1 + 1 < length (st_messages ?s)" by simp
  obtain r s' where e: "compact (\<lambda>x. x) ?c 1 ?s = (Inr r, s')"
    by (simp add: compact_def Compactor_new_def Let_def)
  show ?thesis using compact_keeps_tail [OF h e] e
    by (auto simp: Cons_eq_append_conv length_Suc_conv)
qed

text \<open>
  Compaction disarms the rule that triggers it. Whenever the context was within the
  model's window, a successful compaction brings the utilization down to at most one
  quarter, so a rule \<open>when_context_over\<close> with a threshold above one quarter does not fire
  again; and compacting once more with the same tail length changes nothing.
\<close>

theorem compact_disarms_rule:
  assumes rnd: "f64_ok rnd"
    and long: "keep_tail + 1 < length (st_messages s)"
    and ok: "compact rnd c keep_tail s = (Inr r, s')"
    and fits: "ov_context_tokens (st_over_view s) \<le> ov_model_context_window (st_over_view s)"
    and window: "ov_model_context_window (st_over_view s) < 2 ^ 53"
    and ratio: "1 / 4 < ratio"
  shows "fires (compact_rule rnd ratio keep_tail) s' = Some False \<and>
         snd (compact rnd c keep_tail s') = s'"
proof -
  let ?w = "ov_model_context_window (st_over_view s)"
  let ?n = "ov_context_tokens (st_over_view s)"
  have s': "ov_context_tokens (st_over_view s') = estimate_tokens rnd ?n"
    "ov_model_context_window (st_over_view s') = ?w"
    "length (st_messages s') = keep_tail + 1"
    using long ok by (auto simp: compact_def Let_def split: sum.splits if_splits)
  have "context_utilization rnd (st_over_view s') \<le> 1 / 4"
    by (rule utilization_quarter [OF rnd])
      (use s' window estimate_tokens_quarter [OF rnd fits window] in auto)
  with ratio have "\<not> context_utilization rnd (st_over_view s') \<ge> ratio" by simp
  moreover have "snd (compact rnd c keep_tail s') = s'"
    using s'(3) by (simp add: compact_def)
  ultimately show ?thesis
    by (simp add: compact_rule_def when_context_over_def CheckpointRule_new_def fires_def)
qed

theorem compact_disarms_rule_witness:
  "\<exists>r s'. compact (\<lambda>x. x) (Compactor_new (\<lambda>_ _. Inr ''sum'')) 0
             \<lparr>st_messages = [ModelMessage_new ''user'' ''a'', ModelMessage_new ''user'' ''b''],
              st_over_view = OverView_default\<lparr>ov_context_tokens := 90,
                                              ov_model_context_window := 100\<rparr>,
              st_wait_events = []\<rparr> = (Inr r, s') \<and>
          fires (compact_rule (\<lambda>x. x) (4 / 5) 0) s' = Some False"
proof -
  let ?s = "\<lparr>st_messages = [ModelMessage_new ''user'' ''a'', ModelMessage_new ''user'' ''b''],
              st_over_view = OverView_default\<lparr>ov_context_tokens := 90,
                                              ov_model_context_window := 100\<rparr>,
              st_wait_events = []\<rparr>"
  let ?c = "Compactor_new (\<lambda>_ _. Inr ''sum'')"
  obtain r s' where e: "compact (\<lambda>x. x) ?c 0 ?s = (Inr r, s')"
    by (simp add: compact_def Compactor_new_def Let_def)
  from compact_disarms_rule [OF f64_ok_id _ e, of "4 / 5"] e show ?thesis
    by (auto simp: OverView_default_def)
qed

lemma compact_messages_le: "length (st_messages (snd (compact rnd c k s))) \<le> length (st_messages s)"
  by (auto simp: compact_def Let_def split: sum.splits)

end
