(* ===== verification/Bus.thy ===== *)
theory Bus
  imports Core_Types
begin

text \<open>
  The message bus of \<^verbatim>\<open>crates/arf-bus\<close> (\<^verbatim>\<open>lib.rs\<close>, \<^verbatim>\<open>heartbeat.rs\<close>, \<^verbatim>\<open>graph.rs\<close>): the state shared
  with the message loop, one definition per branch of the loop, the barrier protocol and
  the health graph. \<open>bus_wire\<close> is the sequence of everything put on the broadcast channel,
  oldest first. Each operation takes the identifiers \<^verbatim>\<open>Uuid::new_v4\<close> draws in it and the clock
  reading.
\<close>

subsection \<open>State\<close>

datatype connect_error = AlreadyConnected node_id | ConnectBusClosed

record node_entry =
  ne_info :: node_info
  ne_last_ack :: millis
  ne_filter :: message_filter

record bus =
  bus_bid :: bus_id
  bus_nodes :: "(node_id \<times> node_entry) list"
  bus_wire :: "message list"
  bus_message_count :: "64 word"
  bus_start_time :: millis
  bus_running :: bool
  bus_has_tx :: bool

definition Bus_new :: "uuid \<Rightarrow> millis \<Rightarrow> bus" where
  "Bus_new i now =
     \<lparr>bus_bid = BusId i, bus_nodes = [], bus_wire = [], bus_message_count = 0,
      bus_start_time = now, bus_running = True, bus_has_tx = True\<rparr>"

definition broadcast :: "message \<Rightarrow> bus \<Rightarrow> bus" where
  "broadcast m b = b\<lparr>bus_wire := bus_wire b @ [m]\<rparr>"

abbreviation online :: "bus \<Rightarrow> node_id list" where
  "online b \<equiv> keys (bus_nodes b)"

subsection \<open>Branches of the message loop\<close>

definition handle_send :: "message \<Rightarrow> bus \<Rightarrow> (send_error + send_receipt) \<times> bus" where
  "handle_send m b =
     (let offline = filter (\<lambda>t. \<not> contains_key (bus_nodes b) t) (msg_to m)
      in if msg_to m \<noteq> [] \<and> length offline = length (msg_to m)
         then (Inl (NodeOffline offline), b)
         else
           (let online_targets = (if msg_to m \<noteq> [] then length (msg_to m) - length offline else 0);
                matching_nodes =
                  (if msg_to m = []
                   then length (filter (\<lambda>(_, e). filter_matches (ne_filter e) m
                                                   (ni_node_id (ne_info e))) (bus_nodes b))
                   else online_targets);
                b' = (broadcast m b)\<lparr>bus_message_count := bus_message_count b + 1\<rparr>
            in (Inr \<lparr>sr_message_id = msg_id m,
                     sr_online_nodes = length (bus_nodes b),
                     sr_matching_nodes = matching_nodes\<rparr>, b')))"

definition handle_connect ::
  "uuid \<Rightarrow> millis \<Rightarrow> node_info \<Rightarrow> message_filter \<Rightarrow> bus \<Rightarrow> (connect_error + unit) \<times> bus" where
  "handle_connect i now info f b =
     (let node_id = ni_node_id info
      in if contains_key (bus_nodes b) node_id then (Inl (AlreadyConnected node_id), b)
         else
           (let b1 = b\<lparr>bus_nodes := AList.update node_id
                         \<lparr>ne_info = info, ne_last_ack = now, ne_filter = f\<rparr> (bus_nodes b)\<rparr>;
                online_msg = Message_with_from_bus i now NODE_ONLINE node_id []
                               (node_info_to_value info) (bus_bid b)
            in (Inr (), broadcast online_msg b1)))"

definition handle_disconnect :: "uuid \<Rightarrow> millis \<Rightarrow> node_id \<Rightarrow> bus \<Rightarrow> bus" where
  "handle_disconnect i now node_id b =
     (let b1 = b\<lparr>bus_nodes := AList.delete node_id (bus_nodes b)\<rparr>;
          offline_msg = Message_with_from_bus i now NODE_OFFLINE node_id [] (JObj []) (bus_bid b)
      in broadcast offline_msg b1)"

definition handle_heartbeat_ack :: "millis \<Rightarrow> node_id \<Rightarrow> bus \<Rightarrow> bus" where
  "handle_heartbeat_ack now node_id b =
     (case map_of (bus_nodes b) node_id of
        None \<Rightarrow> b
      | Some e \<Rightarrow> b\<lparr>bus_nodes := AList.update node_id (e\<lparr>ne_last_ack := now\<rparr>) (bus_nodes b)\<rparr>)"

text \<open>
  \<^verbatim>\<open>handle_heartbeat_tick\<close>: broadcast the request, collect the nodes whose last ack is older
  than the timeout, then remove each and broadcast its \<^verbatim>\<open>node_offline\<close>. \<open>ids n\<close> is the \<open>n\<close>-th
  identifier drawn.
\<close>

fun take_offline :: "(nat \<Rightarrow> uuid) \<Rightarrow> millis \<Rightarrow> nat \<Rightarrow> (node_id \<times> node_info) list \<Rightarrow> bus \<Rightarrow> bus" where
  "take_offline ids now n [] b = b"
| "take_offline ids now n ((node_id, info) # rest) b =
     (let b1 = b\<lparr>bus_nodes := AList.delete node_id (bus_nodes b)\<rparr>;
          offline_msg = Message_with_from_bus (ids n) now NODE_OFFLINE node_id []
                          (node_info_to_value info) (bus_bid b)
      in take_offline ids now (Suc n) rest (broadcast offline_msg b1))"

definition timed_out_nodes :: "millis \<Rightarrow> millis \<Rightarrow> bus \<Rightarrow> (node_id \<times> node_info) list" where
  "timed_out_nodes timeout now b =
     map (\<lambda>(i, e). (i, ne_info e))
       (filter (\<lambda>(_, e). now - ne_last_ack e > timeout) (bus_nodes b))"

definition handle_heartbeat_tick :: "(nat \<Rightarrow> uuid) \<Rightarrow> millis \<Rightarrow> millis \<Rightarrow> bus \<Rightarrow> bus" where
  "handle_heartbeat_tick ids timeout now b =
     (let heartbeat_msg = Message_with_from_bus (ids 0) now HEARTBEAT_REQUEST (NodeId ''bus'') []
                            (JObj []) (bus_bid b);
          b1 = broadcast heartbeat_msg b
      in take_offline ids now 1 (timed_out_nodes timeout now b1) b1)"

definition handle_shutdown :: "bus \<Rightarrow> bus" where
  "handle_shutdown b = b\<lparr>bus_running := False\<rparr>"

subsection \<open>The loop\<close>

datatype bus_command =
    Send message
  | Connect node_info message_filter
  | Disconnect node_id
  | HeartbeatAck node_id
  | Shutdown

datatype bus_event = Cmd bus_command | Tick

datatype bus_reply =
    SendReply "send_error + send_receipt"
  | ConnectReply "connect_error + unit"
  | DoneReply
  | NoReply

text \<open>
  One turn of the \<^verbatim>\<open>select!\<close>. Once the loop has ended the command channel is closed: every
  sender sees \<^verbatim>\<open>BusClosed\<close> and nothing changes.
\<close>

fun bus_step :: "millis \<Rightarrow> (nat \<Rightarrow> uuid) \<Rightarrow> millis \<Rightarrow> bus_event \<Rightarrow> bus \<Rightarrow> bus_reply \<times> bus" where
  "bus_step timeout ids now (Cmd (Send m)) b =
     (if bus_running b then map_prod SendReply id (handle_send m b)
      else (SendReply (Inl BusClosed), b))"
| "bus_step timeout ids now (Cmd (Connect info f)) b =
     (if bus_running b then map_prod ConnectReply id (handle_connect (ids 0) now info f b)
      else (ConnectReply (Inl ConnectBusClosed), b))"
| "bus_step timeout ids now (Cmd (Disconnect n)) b =
     (if bus_running b then (DoneReply, handle_disconnect (ids 0) now n b) else (NoReply, b))"
| "bus_step timeout ids now (Cmd (HeartbeatAck n)) b =
     (NoReply, if bus_running b then handle_heartbeat_ack now n b else b)"
| "bus_step timeout ids now (Cmd Shutdown) b =
     (if bus_running b then DoneReply else NoReply, handle_shutdown b)"
| "bus_step timeout ids now Tick b =
     (NoReply, if bus_running b then handle_heartbeat_tick ids timeout now b else b)"

subsection \<open>Client operations of Bus\<close>

definition Bus_send :: "message \<Rightarrow> bus \<Rightarrow> (send_error + send_receipt) \<times> bus" where
  "Bus_send m b =
     (let m' = m\<lparr>msg_from_bus := Some (bus_bid b)\<rparr>
      in if bus_running b then handle_send m' b else (Inl BusClosed, b))"

text \<open>\<^verbatim>\<open>subscribe_internal\<close> panics (\<open>None\<close>) once \<^verbatim>\<open>signal_shutdown\<close> has dropped the sender.\<close>

definition subscribe_internal :: "bus \<Rightarrow> message list option" where
  "subscribe_internal b = (if bus_has_tx b then Some [] else None)"

definition uptime_ms :: "millis \<Rightarrow> bus \<Rightarrow> millis" where
  "uptime_ms now b = now - bus_start_time b"

text \<open>\<open>queued\<close>: whether \<^verbatim>\<open>try_send\<close> found room in the command channel.\<close>

definition signal_shutdown :: "bool \<Rightarrow> bus \<Rightarrow> bus" where
  "signal_shutdown queued b =
     (if queued then handle_shutdown b else b)\<lparr>bus_has_tx := False\<rparr>"

text \<open>\<^verbatim>\<open>shutdown\<close> consumes the bus, and with it the sender.\<close>

definition Bus_shutdown :: "bus \<Rightarrow> bus" where
  "Bus_shutdown b = (handle_shutdown b)\<lparr>bus_has_tx := False\<rparr>"

definition graph :: "millis \<Rightarrow> bus \<Rightarrow> bus_graph" where
  "graph now b =
     \<lparr>bg_nodes = sort_key (\<lambda>n. as_string (ni_node_id n)) (map (ne_info \<circ> snd) (bus_nodes b)),
      bg_message_count = unat (bus_message_count b),
      bg_uptime_ms = uptime_ms now b\<rparr>"

subsection \<open>Barrier\<close>

record barrier_receipt =
  br_correlation_id :: uuid
  br_acked :: "node_id list"
  br_missing :: "node_id list"
  br_timed_out :: bool

text \<open>
  What the barrier's own subscription yields: a message, an error of the channel (closed
  or lagged), or the deadline. An exhausted list is the deadline.
\<close>

datatype listen_event = LMessage message | LError | LTimeout

fun collect_acks ::
  "uuid_ops \<Rightarrow> uuid \<Rightarrow> node_id list \<Rightarrow> node_id list \<Rightarrow> listen_event list \<Rightarrow> node_id list" where
  "collect_acks U cid ps acked [] = acked"
| "collect_acks U cid ps acked (ev # evs) =
     (if length acked < length ps
      then (case ev of
              LMessage m \<Rightarrow>
                (if msg_type m \<noteq> BARRIER_ACK then collect_acks U cid ps acked evs
                 else if correlation_id U m \<noteq> Some cid then collect_acks U cid ps acked evs
                 else if msg_from m \<in> set ps
                 then collect_acks U cid ps (List.insert (msg_from m) acked) evs
                 else collect_acks U cid ps acked evs)
            | LError \<Rightarrow> acked
            | LTimeout \<Rightarrow> acked)
      else acked)"

definition barrier_request :: "uuid_ops \<Rightarrow> uuid \<Rightarrow> uuid \<Rightarrow> millis \<Rightarrow> node_id list \<Rightarrow> bus \<Rightarrow> message" where
  "barrier_request U i cid now participants b =
     Message_with_from_bus i now BARRIER_REQUEST (NodeId ''bus'') []
       (JObj [(''correlation_id'', JStr (uuid_show U cid)),
              (''participants'', strs_to_value (map as_string participants))]) (bus_bid b)"

definition barrier ::
  "uuid_ops \<Rightarrow> uuid \<Rightarrow> uuid \<Rightarrow> millis \<Rightarrow> node_id list \<Rightarrow> listen_event list \<Rightarrow> bus
    \<Rightarrow> (barrier_receipt \<times> bus) option" where
  "barrier U i cid now participants evs b =
     (case subscribe_internal b of
        None \<Rightarrow> None
      | Some _ \<Rightarrow>
          (let participants_set = remdups participants;
               b' = broadcast (barrier_request U i cid now participants b) b;
               acked = collect_acks U cid participants_set [] evs;
               missing = filter (\<lambda>p. p \<notin> set acked) participants_set
           in Some (\<lparr>br_correlation_id = cid, br_acked = acked, br_missing = missing,
                     br_timed_out = (missing \<noteq> [])\<rparr>, b')))"

lemmas bus_handler_defs [bus_defs] =
  handle_send_def handle_connect_def handle_disconnect_def handle_heartbeat_ack_def
  handle_heartbeat_tick_def handle_shutdown_def broadcast_def

end
