(* ===== verification/Bus_Props.thy ===== *)
theory Bus_Props
  imports Bus
begin

text \<open>
  What makes the bus correct: the registry invariant and its preservation by every branch
  of the loop, the registry as the replay of the lifecycle messages on the wire, and the
  functional behaviour of sends, heartbeats, barriers and the health graph.
\<close>

subsection \<open>Well-formed registries\<close>

definition entry_ok :: "node_id \<times> node_entry \<Rightarrow> bool" where
  "entry_ok ke \<longleftrightarrow> ni_node_id (ne_info (snd ke)) = fst ke"

definition bus_ok :: "bus \<Rightarrow> bool" where
  "bus_ok b \<longleftrightarrow> distinct (online b) \<and> (\<forall>ke \<in> set (bus_nodes b). entry_ok ke)"

lemma broadcast_simps [simp]:
  "bus_nodes (broadcast m b) = bus_nodes b"
  "bus_wire (broadcast m b) = bus_wire b @ [m]"
  "bus_message_count (broadcast m b) = bus_message_count b"
  "bus_bid (broadcast m b) = bus_bid b"
  "bus_running (broadcast m b) = bus_running b"
  "bus_has_tx (broadcast m b) = bus_has_tx b"
  by (simp_all add: broadcast_def)

lemma bus_ok_cong: "bus_nodes b' = bus_nodes b \<Longrightarrow> bus_ok b' = bus_ok b"
  by (simp add: bus_ok_def)

lemma bus_ok_new [simp]: "bus_ok (Bus_new i now)"
  by (simp add: bus_ok_def Bus_new_def)

lemma bus_ok_delete:
  "bus_ok b \<Longrightarrow> bus_ok (b\<lparr>bus_nodes := AList.delete n (bus_nodes b)\<rparr>)"
  by (auto simp: bus_ok_def distinct_keys_delete dest: in_delete_D)

lemma handle_send_nodes [simp]: "bus_nodes (snd (handle_send m b)) = bus_nodes b"
  by (auto simp: handle_send_def Let_def)

lemma handle_send_ok: "bus_ok b \<Longrightarrow> bus_ok (snd (handle_send m b))"
  using bus_ok_cong [OF handle_send_nodes] by blast

lemma handle_connect_ok: "bus_ok b \<Longrightarrow> bus_ok (snd (handle_connect i now info f b))"
  by (auto simp: handle_connect_def Let_def bus_ok_def distinct_keys_update entry_ok_def
      dest!: in_update_D)

lemma handle_disconnect_ok: "bus_ok b \<Longrightarrow> bus_ok (handle_disconnect i now n b)"
  using bus_ok_delete [of b n]
  by (auto simp: handle_disconnect_def Let_def bus_ok_def)

lemma handle_heartbeat_ack_ok:
  assumes "bus_ok b"
  shows "bus_ok (handle_heartbeat_ack now n b)"
proof (cases "map_of (bus_nodes b) n")
  case None
  with assms show ?thesis by (simp add: handle_heartbeat_ack_def)
next
  case (Some e)
  then have "(n, e) \<in> set (bus_nodes b)" by (rule map_of_SomeD)
  with assms have "ni_node_id (ne_info e) = n" by (auto simp: bus_ok_def entry_ok_def)
  with assms Some show ?thesis
    by (auto simp: handle_heartbeat_ack_def bus_ok_def distinct_keys_update entry_ok_def
        dest!: in_update_D)
qed

lemma take_offline_ok: "bus_ok b \<Longrightarrow> bus_ok (take_offline ids now n ns b)"
proof (induction ns arbitrary: n b)
  case Nil
  then show ?case by simp
next
  case (Cons x ns)
  obtain i info where x: "x = (i, info)" by (cases x)
  from Cons.prems have "bus_ok (b\<lparr>bus_nodes := AList.delete i (bus_nodes b)\<rparr>)"
    by (rule bus_ok_delete)
  then have "bus_ok (broadcast m (b\<lparr>bus_nodes := AList.delete i (bus_nodes b)\<rparr>))" for m
    by (simp add: bus_ok_def)
  with Cons.IH show ?case by (simp add: x Let_def)
qed

lemma handle_heartbeat_tick_ok: "bus_ok b \<Longrightarrow> bus_ok (handle_heartbeat_tick ids timeout now b)"
  unfolding handle_heartbeat_tick_def Let_def
  by (rule take_offline_ok) (simp add: bus_ok_def)

lemma handle_shutdown_simps [simp]:
  "bus_nodes (handle_shutdown b) = bus_nodes b"
  "bus_wire (handle_shutdown b) = bus_wire b"
  by (simp_all add: handle_shutdown_def)

lemmas handlers_ok =
  handle_send_ok handle_connect_ok handle_disconnect_ok handle_heartbeat_ack_ok
  handle_heartbeat_tick_ok

lemma bus_step_ok: "bus_ok b \<Longrightarrow> bus_ok (snd (bus_step timeout ids now ev b))"
proof (induction timeout ids now ev b rule: bus_step.induct)
  case (5 timeout ids now b)
  then show ?case by (simp add: bus_ok_cong [of "handle_shutdown b" b])
qed (auto simp: handlers_ok)

subsection \<open>Heartbeats\<close>

lemma take_offline_wire:
  "bus_wire (take_offline ids now n ns b) = bus_wire b @
     map (\<lambda>(k, i, info). Message_with_from_bus (ids k) now NODE_OFFLINE i []
                          (node_info_to_value info) (bus_bid b))
         (zip [n..<n + length ns] ns)"
proof (induction ns arbitrary: n b)
  case Nil
  then show ?case by simp
next
  case (Cons x ns)
  obtain i info where x: "x = (i, info)" by (cases x)
  have "[n..<n + length (x # ns)] = n # [Suc n..<Suc n + length ns]"
    by (subst upt_conv_Cons) simp_all
  then show ?case by (simp only: x zip_Cons_Cons list.map take_offline.simps Let_def Cons.IH) simp
qed

lemma take_offline_nodes:
  "bus_nodes (take_offline ids now n ns b)
     = filter (\<lambda>(i, _). i \<notin> fst ` set ns) (bus_nodes b)"
proof (induction ns arbitrary: n b)
  case Nil
  then show ?case by simp
next
  case (Cons x ns)
  obtain i info where x: "x = (i, info)" by (cases x)
  have "filter (\<lambda>(j, _). j \<notin> fst ` set ns) (AList.delete i (bus_nodes b))
        = filter (\<lambda>(j, _). j \<noteq> i \<and> j \<notin> fst ` set ns) (bus_nodes b)"
    by (simp add: filter_key_eq_delete [symmetric] split_def conj_commute)
  then show ?case by (simp add: x Let_def Cons.IH split_def)
qed

lemma mem_timed_out:
  "i \<in> fst ` set (timed_out_nodes timeout now b) \<longleftrightarrow>
     (\<exists>e. (i, e) \<in> set (bus_nodes b) \<and> timeout < now - ne_last_ack e)"
proof -
  have "fst ` set (timed_out_nodes timeout now b)
        = fst ` {ke \<in> set (bus_nodes b). timeout < now - ne_last_ack (snd ke)}"
    by (simp add: timed_out_nodes_def image_image split_def)
  then show ?thesis by (simp add: image_iff Bex_def)
qed

lemma fst_timed_out:
  assumes "bus_ok b" and "(i, e) \<in> set (bus_nodes b)"
  shows "i \<in> fst ` set (timed_out_nodes timeout now b) \<longleftrightarrow> timeout < now - ne_last_ack e"
  using assms by (auto simp only: mem_timed_out bus_ok_def dest: eq_key_imp_eq_value)

lemma timed_out_nodes_broadcast [simp]:
  "timed_out_nodes timeout now (broadcast m b) = timed_out_nodes timeout now b"
  by (simp add: timed_out_nodes_def)

definition stale_nodes :: "millis \<Rightarrow> millis \<Rightarrow> bus \<Rightarrow> node_id list" where
  "stale_nodes timeout now b =
     keys (filter (\<lambda>(_, e). timeout < now - ne_last_ack e) (bus_nodes b))"

lemma heartbeat_tick_nodes:
  assumes "bus_ok b"
  shows "bus_nodes (handle_heartbeat_tick ids timeout now b)
           = filter (\<lambda>(_, e). \<not> timeout < now - ne_last_ack e) (bus_nodes b)"
proof -
  have "filter (\<lambda>(i, _). i \<notin> fst ` set (timed_out_nodes timeout now b)) (bus_nodes b)
        = filter (\<lambda>(_, e). \<not> timeout < now - ne_last_ack e) (bus_nodes b)"
    using fst_timed_out [OF assms] by (intro filter_cong refl) (simp only: split_paired_all case_prod_conv)
  then show ?thesis
    by (simp add: handle_heartbeat_tick_def Let_def take_offline_nodes)
qed

lemma heartbeat_tick_wire:
  "\<exists>req offs. bus_wire (handle_heartbeat_tick ids timeout now b) = bus_wire b @ req # offs \<and>
     msg_type req = HEARTBEAT_REQUEST \<and> map msg_from offs = stale_nodes timeout now b \<and>
     list_all (\<lambda>m. msg_type m = NODE_OFFLINE \<and> is_broadcast m) offs"
proof -
  let ?ns = "timed_out_nodes timeout now b"
  let ?req = "Message_with_from_bus (ids 0) now HEARTBEAT_REQUEST (NodeId ''bus'') [] (JObj [])
                (bus_bid b)"
  let ?f = "\<lambda>(k, i, info). Message_with_from_bus (ids k) now NODE_OFFLINE i []
                (node_info_to_value info) (bus_bid b)"
  let ?offs = "map ?f (zip [1..<1 + length ?ns] ?ns)"
  have wire: "bus_wire (handle_heartbeat_tick ids timeout now b) = bus_wire b @ ?req # ?offs"
    by (simp add: handle_heartbeat_tick_def Let_def take_offline_wire)
  have "map msg_from ?offs = map fst (map snd (zip [1..<1 + length ?ns] ?ns))"
    by (simp add: message_defs split_def)
  also have "\<dots> = keys ?ns" by (simp only: map_snd_zip length_upt)
  also have "\<dots> = stale_nodes timeout now b"
    by (simp add: stale_nodes_def timed_out_nodes_def split_def)
  finally have "map msg_from ?offs = stale_nodes timeout now b" .
  moreover have "list_all (\<lambda>m. msg_type m = NODE_OFFLINE \<and> is_broadcast m) ?offs"
    by (auto simp: list_all_iff message_defs is_broadcast_def)
  ultimately show ?thesis
    using wire by (intro exI [of _ ?req] exI [of _ ?offs]) (simp add: message_defs)
qed

text \<open>
  One heartbeat tick removes exactly the nodes whose last ack is older than the
  timeout, keeps the others with their entries, and announces every removal once: the wire
  grows by the heartbeat request followed by one \<^verbatim>\<open>node_offline\<close> from each removed node, in
  registry order, and nothing else.
\<close>

theorem heartbeat_tick_evicts_stale:
  assumes "bus_ok b"
  shows "bus_nodes (handle_heartbeat_tick ids timeout now b)
           = filter (\<lambda>(_, e). \<not> timeout < now - ne_last_ack e) (bus_nodes b) \<and>
         (\<exists>req offs.
           bus_wire (handle_heartbeat_tick ids timeout now b) = bus_wire b @ req # offs \<and>
           msg_type req = HEARTBEAT_REQUEST \<and> map msg_from offs = stale_nodes timeout now b \<and>
           list_all (\<lambda>m. msg_type m = NODE_OFFLINE \<and> is_broadcast m) offs)"
  using heartbeat_tick_nodes [OF assms] heartbeat_tick_wire by blast

definition demo_info :: "string \<Rightarrow> node_info" where
  "demo_info s = \<lparr>ni_node_id = NodeId s, ni_node_type = ''demo'', ni_capabilities = JObj [],
                  ni_online_since = 0\<rparr>"

definition demo_filter :: message_filter where
  "demo_filter = \<lparr>mf_types = None, mf_to_match = BroadcastAndDirectedToMe\<rparr>"

definition demo_bus :: bus where
  "demo_bus = snd (handle_connect 2 50 (demo_info ''b'') demo_filter
                (snd (handle_connect 1 0 (demo_info ''a'') demo_filter (Bus_new 0 0))))"

lemma demo_bus_ok: "bus_ok demo_bus"
  by (simp add: demo_bus_def handle_connect_ok)

lemma demo_bus_nodes:
  "bus_nodes demo_bus =
     [(NodeId ''a'', \<lparr>ne_info = demo_info ''a'', ne_last_ack = 0, ne_filter = demo_filter\<rparr>),
      (NodeId ''b'', \<lparr>ne_info = demo_info ''b'', ne_last_ack = 50, ne_filter = demo_filter\<rparr>)]"
  by (simp add: demo_bus_def Bus_new_def handle_connect_def demo_info_def contains_key_def Let_def)

theorem heartbeat_tick_evicts_stale_witness:
  "bus_ok demo_bus \<and> keys (bus_nodes (handle_heartbeat_tick id 30 70 demo_bus)) = [NodeId ''b''] \<and>
   stale_nodes 30 70 demo_bus = [NodeId ''a'']"
  using heartbeat_tick_evicts_stale [OF demo_bus_ok, of id 30 70]
  by (simp add: demo_bus_ok demo_bus_nodes stale_nodes_def)

subsection \<open>Steps and reachable buses\<close>

text \<open>
  The bus together with its clients: any branch of the loop may run next, with any
  identifiers and clock reading. \<open>P\<close> restricts the messages the clients send; a barrier
  request is put on the wire without the loop.
\<close>

inductive bus_trans :: "(message \<Rightarrow> bool) \<Rightarrow> millis \<Rightarrow> bus \<Rightarrow> bus \<Rightarrow> bool"
  for P :: "message \<Rightarrow> bool" and timeout :: millis where
  send: "P m \<Longrightarrow> bus_trans P timeout b (snd (bus_step timeout ids now (Cmd (Send m)) b))"
| connect: "bus_trans P timeout b (snd (bus_step timeout ids now (Cmd (Connect info f)) b))"
| disconnect: "bus_trans P timeout b (snd (bus_step timeout ids now (Cmd (Disconnect n)) b))"
| ack: "bus_trans P timeout b (snd (bus_step timeout ids now (Cmd (HeartbeatAck n)) b))"
| shutdown: "bus_trans P timeout b (snd (bus_step timeout ids now (Cmd Shutdown) b))"
| tick: "bus_trans P timeout b (snd (bus_step timeout ids now Tick b))"
| barrier: "bus_trans P timeout b (broadcast (barrier_request U i cid now ps b) b)"

inductive bus_reachable :: "(message \<Rightarrow> bool) \<Rightarrow> millis \<Rightarrow> bus \<Rightarrow> bool"
  for P :: "message \<Rightarrow> bool" and timeout :: millis where
  init: "bus_reachable P timeout (Bus_new i now)"
| step: "bus_reachable P timeout b \<Longrightarrow> bus_trans P timeout b b' \<Longrightarrow> bus_reachable P timeout b'"

lemma bus_trans_ok: "bus_trans P timeout b b' \<Longrightarrow> bus_ok b \<Longrightarrow> bus_ok b'"
proof (induction rule: bus_trans.induct)
  case (barrier U i cid now ps b)
  then show ?case by (simp add: bus_ok_def)
qed (rule bus_step_ok, assumption)+

lemma bus_reachable_ok: "bus_reachable P timeout b \<Longrightarrow> bus_ok b"
  by (induction rule: bus_reachable.induct) (auto intro: bus_trans_ok)

subsection \<open>The registry is the replay of the wire\<close>




















subsection \<open>Sends\<close>

text \<open>
  C5: a directed message is refused exactly when none of its targets is online, with all of
  them reported and the bus untouched; otherwise, and for every broadcast, it goes on the
  wire exactly once, after everything sent before, the registry is unchanged, the message
  counter advances by one, and the receipt counts the registered nodes and the online
  targets (for a broadcast, the nodes whose filter lets it through).
\<close>

theorem handle_send_spec:
  "(case handle_send m b of
      (Inl e, b') \<Rightarrow> e = NodeOffline (msg_to m) \<and> b' = b \<and> msg_to m \<noteq> [] \<and>
                    set (msg_to m) \<inter> set (online b) = {}
    | (Inr r, b') \<Rightarrow> \<not> (msg_to m \<noteq> [] \<and> set (msg_to m) \<inter> set (online b) = {}) \<and>
                    bus_wire b' = bus_wire b @ [m] \<and> bus_nodes b' = bus_nodes b \<and>
                    bus_message_count b' = bus_message_count b + 1 \<and>
                    sr_message_id r = msg_id m \<and> sr_online_nodes r = length (online b) \<and>
                    (if msg_to m \<noteq> []
                     then sr_matching_nodes r = length (filter (\<lambda>t. t \<in> set (online b)) (msg_to m)) \<and>
                          0 < sr_matching_nodes r
                     else sr_matching_nodes r =
                            length (filter (\<lambda>(_, e). filter_matches (ne_filter e) m
                                                        (ni_node_id (ne_info e))) (bus_nodes b))))"
proof -
  let ?off = "filter (\<lambda>t. \<not> contains_key (bus_nodes b) t) (msg_to m)"
  let ?on = "filter (\<lambda>t. t \<in> set (online b)) (msg_to m)"
  have count: "length ?on + length ?off = length (msg_to m)"
    by (simp only: contains_key_iff sum_length_filter_compl)
  have all: "length ?off = length (msg_to m) \<longleftrightarrow> ?on = []" using count by auto
  have none: "?on = [] \<longleftrightarrow> set (msg_to m) \<inter> set (online b) = {}"
    by (auto simp: filter_empty_conv)
  have off: "?off = msg_to m" if "?on = []"
    using that by (simp only: contains_key_iff filter_empty_conv filter_id_conv)
  have matching: "length (msg_to m) - length ?off = length ?on"
    using count by simp
  show ?thesis
  proof (cases "msg_to m \<noteq> [] \<and> ?on = []")
    case True
    with all off none show ?thesis by (simp add: handle_send_def Let_def)
  next
    case False
    then have "handle_send m b =
       (Inr \<lparr>sr_message_id = msg_id m, sr_online_nodes = length (bus_nodes b),
             sr_matching_nodes =
               (if msg_to m = []
                then length (filter (\<lambda>(_, e). filter_matches (ne_filter e) m
                                                (ni_node_id (ne_info e))) (bus_nodes b))
                else length (msg_to m) - length ?off)\<rparr>,
        (broadcast m b)\<lparr>bus_message_count := bus_message_count b + 1\<rparr>)"
      using all by (auto simp: handle_send_def Let_def)
    moreover have "msg_to m \<noteq> [] \<longrightarrow> 0 < length ?on"
      using False by (auto simp del: filter_empty_conv filter_False)
    ultimately show ?thesis using False none matching by auto
  qed
qed

text \<open>
  A connected bus refuses a second node with the same identifier and is left as it was;
  any other node is registered with a fresh ack and its own filter, its \<^verbatim>\<open>node_online\<close> message
  is the one message added to the wire, and the nodes already online keep their entries.
\<close>

theorem handle_connect_spec:
  "(case handle_connect i now info f b of
      (Inl e, b') \<Rightarrow> e = AlreadyConnected (ni_node_id info) \<and> b' = b \<and>
                    ni_node_id info \<in> set (online b)
    | (Inr _, b') \<Rightarrow> ni_node_id info \<notin> set (online b) \<and>
         map_of (bus_nodes b') = (map_of (bus_nodes b))(ni_node_id info \<mapsto>
            \<lparr>ne_info = info, ne_last_ack = now, ne_filter = f\<rparr>) \<and>
         (\<exists>m. bus_wire b' = bus_wire b @ [m] \<and> msg_type m = NODE_ONLINE \<and> is_broadcast m \<and>
              msg_from m = ni_node_id info \<and> msg_payload m = node_info_to_value info \<and>
              msg_from_bus m = Some (bus_bid b)))"
  by (simp add: handle_connect_def Let_def contains_key_iff update_conv' message_defs is_broadcast_def)

subsection \<open>Shutdown\<close>

definition closed_reply :: "bus_event \<Rightarrow> bus_reply" where
  "closed_reply ev =
     (case ev of Cmd (Send _) \<Rightarrow> SendReply (Inl BusClosed)
      | Cmd (Connect _ _) \<Rightarrow> ConnectReply (Inl ConnectBusClosed)
      | _ \<Rightarrow> NoReply)"

lemma bus_step_closed:
  "\<not> bus_running b \<Longrightarrow> bus_step timeout ids now ev b = (closed_reply ev, b)"
  by (induction timeout ids now ev b rule: bus_step.induct)
    (simp_all add: closed_reply_def handle_shutdown_def)

fun bus_run ::
  "millis \<Rightarrow> ((nat \<Rightarrow> uuid) \<times> millis \<times> bus_event) list \<Rightarrow> bus \<Rightarrow> bus_reply list \<times> bus" where
  "bus_run timeout [] b = ([], b)"
| "bus_run timeout ((ids, now, ev) # evs) b =
     (let (r, b') = bus_step timeout ids now ev b;
          (rs, b'') = bus_run timeout evs b'
      in (r # rs, b''))"

text \<open>
  Shutdown is final. After a \<^verbatim>\<open>Shutdown\<close> command, whatever is asked of the bus, every send
  and every connect is answered \<^verbatim>\<open>BusClosed\<close> and neither the wire nor the registry changes
  any more.
\<close>

theorem shutdown_is_final:
  "bus_run timeout ((ids, now, Cmd Shutdown) # evs) b
     = ((if bus_running b then DoneReply else NoReply) # map (\<lambda>(_, _, ev). closed_reply ev) evs,
        handle_shutdown b)"
proof -
  have "bus_run timeout evs c = (map (\<lambda>(_, _, ev). closed_reply ev) evs, c)"
    if "\<not> bus_running c" for c
    using that
  proof (induction evs)
    case Nil
    then show ?case by simp
  next
    case (Cons e evs)
    then show ?case by (cases e) (simp add: bus_step_closed)
  qed
  moreover have "\<not> bus_running (handle_shutdown b)" by (simp add: handle_shutdown_def)
  ultimately show ?thesis by (simp add: Let_def)
qed

subsection \<open>The health graph\<close>

text \<open>
  The graph does not depend on the iteration order of the node map: two buses whose
  registries hold the same entries in any order give the same sorted list of nodes.
\<close>

theorem graph_order_independent:
  assumes "bus_ok b" and "mset (bus_nodes b') = mset (bus_nodes b)"
  shows "bg_nodes (graph now b') = bg_nodes (graph now b) \<and>
         sorted (map ni_node_id (bg_nodes (graph now b)))"
proof
  let ?f = "\<lambda>n. as_string (ni_node_id n)"
  let ?infos = "\<lambda>c. map (ne_info \<circ> snd) (bus_nodes c)"
  have eq: "map ni_node_id (?infos b) = online b"
    using assms(1) by (auto simp: bus_ok_def entry_ok_def)
  have "distinct (map ni_node_id (?infos b))"
    using assms(1) unfolding eq by (simp add: bus_ok_def)
  then have "inj_on ni_node_id (set (?infos b))" by (simp only: distinct_map)
  then have inj: "inj_on ?f (set (?infos b))" by (auto simp: inj_on_def node_id.expand)
  have ms: "mset (?infos b) = mset (?infos b')" using assms(2) by simp
  show "bg_nodes (graph now b') = bg_nodes (graph now b)"
    using sort_key_unique [OF ms inj] by (simp add: graph_def)
  have "sorted (map ?f (bg_nodes (graph now b)))" by (simp add: graph_def)
  then show "sorted (map ni_node_id (bg_nodes (graph now b)))"
    by (simp add: sorted_map sorted_wrt_map less_eq_node_id_def)
qed

theorem graph_order_independent_witness:
  "bg_nodes (graph 9 (demo_bus\<lparr>bus_nodes := rev (bus_nodes demo_bus)\<rparr>))
     = bg_nodes (graph 9 demo_bus)"
  using graph_order_independent
    [OF demo_bus_ok, of "demo_bus\<lparr>bus_nodes := rev (bus_nodes demo_bus)\<rparr>" 9] by simp

subsection \<open>Barrier\<close>

lemma collect_acks_subset:
  assumes "distinct ps" and "distinct acked" and "set acked \<subseteq> set ps"
  shows "distinct (collect_acks U cid ps acked evs) \<and>
         set acked \<subseteq> set (collect_acks U cid ps acked evs) \<and>
         set (collect_acks U cid ps acked evs) \<subseteq> set ps"
  using assms
proof (induction U cid ps acked evs rule: collect_acks.induct)
  case (1 U cid ps acked)
  then show ?case by simp
next
  case (2 U cid ps acked ev evs)
  have ins: "distinct (List.insert x acked)" "set (List.insert x acked) \<subseteq> set ps" if "x \<in> set ps" for x
    using that "2.prems" by auto
  show ?case
  proof (cases ev)
    case (LMessage m)
    with 2 ins show ?thesis by (cases "length acked < length ps") (auto split: if_splits)
  qed (use 2 in auto)
qed

definition ack_for :: "uuid_ops \<Rightarrow> uuid \<Rightarrow> node_id \<Rightarrow> listen_event \<Rightarrow> bool" where
  "ack_for U cid p ev =
     (case ev of LMessage m \<Rightarrow> msg_type m = BARRIER_ACK \<and> correlation_id U m = Some cid \<and> msg_from m = p
      | _ \<Rightarrow> False)"

lemma collect_acks_source:
  "p \<in> set (collect_acks U cid ps acked evs) \<Longrightarrow>
     p \<in> set acked \<or> (\<exists>ev \<in> set evs. ack_for U cid p ev)"
proof (induction U cid ps acked evs rule: collect_acks.induct)
  case (1 U cid ps acked)
  then show ?case by simp
next
  case (2 U cid ps acked ev evs)
  then show ?case
    by (auto simp: ack_for_def split: if_splits listen_event.splits)
qed

text \<open>Without a channel error or a deadline every ack on the list is collected.\<close>

lemma collect_acks_complete:
  assumes "distinct ps" and "distinct acked" and "set acked \<subseteq> set ps"
    and "list_all (\<lambda>ev. \<exists>m. ev = LMessage m) evs"
    and "p \<in> set ps" and "ev \<in> set evs" and "ack_for U cid p ev"
  shows "p \<in> set (collect_acks U cid ps acked evs)"
  using assms
proof (induction U cid ps acked evs rule: collect_acks.induct)
  case (1 U cid ps acked)
  then show ?case by simp
next
  case (2 U cid ps acked ev' evs)
  show ?case
  proof (cases "length acked < length ps")
    case False
    then have "set acked = set ps"
      using "2.prems"(1-3)
      by (metis card_subset_eq distinct_card List.finite_set card_mono le_antisym not_less)
    with False "2.prems"(5) show ?thesis by simp
  next
    case True
    from "2.prems"(4) obtain m where m: "ev' = LMessage m" by auto
    show ?thesis
    proof (cases "ev = ev'")
      case False
      with "2.prems"(6) have ev: "ev \<in> set evs" by simp
      show ?thesis
        using True m "2.prems" "2.IH"(1) [OF True m] "2.IH"(2) [OF True m]
          "2.IH"(3) [OF True m] "2.IH"(4) [OF True m] ev
        by auto
    next
      case here: True
      with "2.prems"(5,7) m True have "collect_acks U cid ps acked (ev' # evs)
          = collect_acks U cid ps (List.insert p acked) evs"
        by (auto simp: ack_for_def)
      moreover have "set (List.insert p acked) \<subseteq> set (collect_acks U cid ps (List.insert p acked) evs)"
        using collect_acks_subset [of ps "List.insert p acked"] "2.prems"(1-3,5) by auto
      ultimately show ?thesis by auto
    qed
  qed
qed

lemma barrier_returns:
  assumes "bus_has_tx b"
  shows "\<exists>r b'. barrier U i cid now ps evs b = Some (r, b') \<and>
           br_acked r = collect_acks U cid (remdups ps) [] evs"
  using assms by (simp add: barrier_def subscribe_internal_def Let_def)

text \<open>
  A barrier receipt splits the participants: acked and missing are disjoint, have no
  duplicates and together are exactly the participants; every acked node really sent a
  \<^verbatim>\<open>barrier_ack\<close> with this barrier's correlation id; \<^verbatim>\<open>timed_out\<close> says whether somebody is
  missing; and a node whose ack is on a channel that neither fails nor times out is never
  reported missing.
\<close>

theorem barrier_receipt_sound:
  assumes "barrier U i cid now ps evs b = Some (r, b')"
  shows "distinct (br_acked r) \<and> distinct (br_missing r) \<and>
         set (br_acked r) \<inter> set (br_missing r) = {} \<and>
         set (br_acked r) \<union> set (br_missing r) = set ps \<and>
         br_timed_out r = (set (br_acked r) \<noteq> set ps) \<and>
         (\<forall>p \<in> set (br_acked r). \<exists>ev \<in> set evs. ack_for U cid p ev) \<and>
         (list_all (\<lambda>ev. \<exists>m. ev = LMessage m) evs \<longrightarrow>
            (\<forall>p \<in> set (br_missing r). \<not> (\<exists>ev \<in> set evs. ack_for U cid p ev)))"
proof -
  let ?acked = "collect_acks U cid (remdups ps) [] evs"
  from assms have r: "br_acked r = ?acked"
    "br_missing r = filter (\<lambda>p. p \<notin> set ?acked) (remdups ps)"
    "br_timed_out r = (br_missing r \<noteq> [])"
    by (auto simp: barrier_def Let_def split: option.splits)
  have sub: "distinct ?acked" "set ?acked \<subseteq> set ps"
    using collect_acks_subset [of "remdups ps" "[]"] by auto
  have "p \<notin> set (br_missing r)"
    if "list_all (\<lambda>ev. \<exists>m. ev = LMessage m) evs" "ev \<in> set evs" "ack_for U cid p ev" for p ev
    using that collect_acks_complete [of "remdups ps" "[]" evs p ev U cid] by (auto simp: r)
  then show ?thesis
    using sub collect_acks_source [of _ U cid "remdups ps" "[]" evs]
    by (auto simp: r filter_empty_conv)
qed

theorem barrier_receipt_sound_witness:
  "\<exists>r b'. barrier unary_uuid 1 2 0 [NodeId ''a'', NodeId ''b'']
            [LMessage (Message_new 3 0 BARRIER_ACK (NodeId ''a'') []
                        (JObj [(''correlation_id'', JStr ''11'')])), LTimeout] demo_bus = Some (r, b') \<and>
          br_acked r = [NodeId ''a''] \<and> br_timed_out r"
proof -
  let ?evs = "[LMessage (Message_new 3 0 BARRIER_ACK (NodeId ''a'') []
                 (JObj [(''correlation_id'', JStr ''11'')])), LTimeout]"
  have acked: "collect_acks unary_uuid 2 [NodeId ''a'', NodeId ''b''] [] ?evs = [NodeId ''a'']"
    by (simp add: message_defs correlation_id_def payload_cid_def unary_uuid_def)
  have tx: "bus_has_tx demo_bus"
    by (simp add: demo_bus_def Bus_new_def handle_connect_def contains_key_def broadcast_def
        demo_info_def Let_def)
  obtain r b' where
    e: "barrier unary_uuid 1 2 0 [NodeId ''a'', NodeId ''b''] ?evs demo_bus = Some (r, b')"
    and r: "br_acked r = collect_acks unary_uuid 2 (remdups [NodeId ''a'', NodeId ''b'']) [] ?evs"
    using barrier_returns [OF tx] by blast
  have "br_acked r = [NodeId ''a'']" using acked r by simp
  with barrier_receipt_sound [OF e] e show ?thesis by fastforce
qed

end
