(* ===== verification/Node_Handle.thy ===== *)
theory Node_Handle
  imports Bus_Props
begin

text \<open>
  \<^verbatim>\<open>crates/arf-bus/src/connection.rs\<close>: a node's handle on one or more buses. A subscription
  keeps its position on the wire of its bus (\<open>sub_cursor\<close>, the broadcast receiver of the
  forwarding task) and the messages forwarded but not yet received (\<open>sub_inbound\<close>, the
  \<^verbatim>\<open>mpsc\<close> channel of capacity 16). The buses are an association list by identifier.
\<close>

subsection \<open>State\<close>

record subscription =
  sub_bus_id :: bus_id
  sub_filter :: message_filter
  sub_cursor :: nat
  sub_inbound :: "message list"
  sub_live :: bool

record node_handle =
  nh_info :: node_info
  nh_primary_bus_id :: bus_id
  nh_subscriptions :: "subscription list"

type_synonym buses = "(bus_id \<times> bus) list"

definition inbound_capacity :: nat where
  "inbound_capacity = 16"

abbreviation nh_node_id :: "node_handle \<Rightarrow> node_id" where
  "nh_node_id h \<equiv> ni_node_id (nh_info h)"

subsection \<open>Connecting\<close>

text \<open>
  The subscription starts after registration: the node does not see its own \<^verbatim>\<open>node_online\<close>. It starts at
  the end of the wire as it is then.
\<close>

definition new_subscription :: "bus \<Rightarrow> message_filter \<Rightarrow> subscription" where
  "new_subscription b f =
     \<lparr>sub_bus_id = bus_bid b, sub_filter = f, sub_cursor = length (bus_wire b),
      sub_inbound = [], sub_live = True\<rparr>"

definition register :: "uuid \<Rightarrow> millis \<Rightarrow> node_info \<Rightarrow> message_filter \<Rightarrow> bus \<Rightarrow> (connect_error + unit) \<times> bus" where
  "register i now info f b =
     (if bus_running b then handle_connect i now info f b else (Inl ConnectBusClosed, b))"

text \<open>
  \<^verbatim>\<open>Bus::connect\<close> awaits the registration and subscribes when it goes on. \<open>gap\<close> is what happens to the bus in
  between: others send, connect and leave, heartbeats come, and the bus may be shut down;
  \<^verbatim>\<open>subscribe_internal\<close> panics (\<open>None\<close>) when the sender is gone by then.
\<close>

definition connect ::
  "(bus \<Rightarrow> bus) \<Rightarrow> uuid \<Rightarrow> millis \<Rightarrow> node_info \<Rightarrow> message_filter \<Rightarrow> bus
    \<Rightarrow> ((connect_error + node_handle) \<times> bus) option" where
  "connect gap i now info f b =
     (case register i now info f b of
        (Inl e, b1) \<Rightarrow> Some (Inl e, b1)
      | (Inr _, b1) \<Rightarrow>
          (let b' = gap b1
           in case subscribe_internal b' of
                None \<Rightarrow> None
              | Some _ \<Rightarrow> Some (Inr \<lparr>nh_info = info, nh_primary_bus_id = bus_bid b,
                                     nh_subscriptions = [new_subscription b' f]\<rparr>, b')))"

definition attach_to ::
  "(bus \<Rightarrow> bus) \<Rightarrow> uuid \<Rightarrow> millis \<Rightarrow> message_filter \<Rightarrow> node_handle \<Rightarrow> bus
    \<Rightarrow> ((connect_error + bus_id) \<times> node_handle \<times> bus) option" where
  "attach_to gap i now f h b =
     (case register i now (nh_info h) f b of
        (Inl e, b1) \<Rightarrow> Some (Inl e, h, b1)
      | (Inr _, b1) \<Rightarrow>
          (let b' = gap b1
           in case subscribe_internal b' of
                None \<Rightarrow> None
              | Some _ \<Rightarrow> Some (Inr (bus_bid b),
                  h\<lparr>nh_subscriptions := nh_subscriptions h @ [new_subscription b' f]\<rparr>, b')))"

subsection \<open>Sending\<close>

definition loop_send :: "message \<Rightarrow> bus \<Rightarrow> (send_error + send_receipt) \<times> bus" where
  "loop_send m b = (if bus_running b then handle_send m b else (Inl BusClosed, b))"

definition send_via ::
  "uuid \<Rightarrow> millis \<Rightarrow> node_handle \<Rightarrow> bus_id \<Rightarrow> string \<Rightarrow> node_id list \<Rightarrow> json \<Rightarrow> buses
    \<Rightarrow> (send_error + send_receipt) \<times> buses" where
  "send_via i now h bid ty tgt pl bs =
     (case find (\<lambda>s. sub_bus_id s = bid) (nh_subscriptions h) of
        None \<Rightarrow> (Inl (NoSuchBus bid), bs)
      | Some sub \<Rightarrow>
          (let m = Message_with_from_bus i now ty (nh_node_id h) tgt pl bid
           in case map_of bs (sub_bus_id sub) of
                None \<Rightarrow> (Inl BusClosed, bs)
              | Some b \<Rightarrow> (let (r, b') = loop_send m b in (r, AList.update (sub_bus_id sub) b' bs))))"

definition send ::
  "uuid \<Rightarrow> millis \<Rightarrow> node_handle \<Rightarrow> string \<Rightarrow> node_id list \<Rightarrow> json \<Rightarrow> buses
    \<Rightarrow> (send_error + send_receipt) \<times> buses" where
  "send i now h ty tgt pl bs = send_via i now h (nh_primary_bus_id h) ty tgt pl bs"

definition send_response ::
  "uuid_ops \<Rightarrow> uuid \<Rightarrow> millis \<Rightarrow> node_handle \<Rightarrow> string \<Rightarrow> node_id list \<Rightarrow> json \<Rightarrow> uuid option
    \<Rightarrow> buses \<Rightarrow> (send_error + send_receipt) \<times> buses" where
  "send_response U i now h ty tgt pl cid bs =
     send i now h ty tgt
       (case cid of None \<Rightarrow> pl
        | Some c \<Rightarrow> obj_insert ''correlation_id'' (JStr (uuid_show U c)) pl) bs"

text \<open>Only type, targets and payload of the message are used: sender and bus are the handle's.\<close>

definition send_message ::
  "uuid \<Rightarrow> millis \<Rightarrow> node_handle \<Rightarrow> message \<Rightarrow> buses \<Rightarrow> (send_error + send_receipt) \<times> buses" where
  "send_message i now h m bs =
     send_via i now h (nh_primary_bus_id h) (msg_type m) (msg_to m) (msg_payload m) bs"

text \<open>\<open>None\<close> is the panic of a handle without subscriptions.\<close>

definition barrier_ack ::
  "uuid_ops \<Rightarrow> uuid \<Rightarrow> millis \<Rightarrow> node_handle \<Rightarrow> uuid \<Rightarrow> buses
    \<Rightarrow> ((send_error + unit) \<times> buses) option" where
  "barrier_ack U i now h cid bs =
     (let m = Message_with_from_bus i now BARRIER_ACK (nh_node_id h) []
                (JObj [(''correlation_id'', JStr (uuid_show U cid))]) (nh_primary_bus_id h)
      in case nh_subscriptions h of
           [] \<Rightarrow> None
         | primary # _ \<Rightarrow>
             (case map_of bs (sub_bus_id primary) of
                None \<Rightarrow> Some (Inl BusClosed, bs)
              | Some b \<Rightarrow>
                  (let (r, b') = loop_send m b
                   in Some (map_sum id (\<lambda>_. ()) r, AList.update (sub_bus_id primary) b' bs))))"

fun disconnect_subs ::
  "(nat \<Rightarrow> uuid) \<Rightarrow> millis \<Rightarrow> node_id \<Rightarrow> nat \<Rightarrow> subscription list \<Rightarrow> buses \<Rightarrow> buses" where
  "disconnect_subs ids now n k [] bs = bs"
| "disconnect_subs ids now n k (s # ss) bs =
     disconnect_subs ids now n (Suc k) ss
       (case map_of bs (sub_bus_id s) of
          None \<Rightarrow> bs
        | Some b \<Rightarrow> AList.update (sub_bus_id s)
                      (if bus_running b then handle_disconnect (ids k) now n b else b) bs)"

definition disconnect :: "(nat \<Rightarrow> uuid) \<Rightarrow> millis \<Rightarrow> node_handle \<Rightarrow> buses \<Rightarrow> buses" where
  "disconnect ids now h bs = disconnect_subs ids now (nh_node_id h) 0 (nh_subscriptions h) bs"

subsection \<open>Forwarding and receiving\<close>

text \<open>
  One turn of \<^verbatim>\<open>spawn_forward_task\<close> on the bus \<open>b\<close>; the flag says whether a heartbeat ack was
  sent. When the inbound channel is full the task waits with the message in hand, which is
  the same as not having taken it. The channel is closed once the loop and the sender of
  the \<^verbatim>\<open>Bus\<close> are gone.
\<close>

definition forward_step :: "bus \<Rightarrow> node_id \<Rightarrow> subscription \<Rightarrow> subscription \<times> bool" where
  "forward_step b n s =
     (if \<not> sub_live s then (s, False)
      else if sub_cursor s < length (bus_wire b)
      then (let m = bus_wire b ! sub_cursor s;
                next = s\<lparr>sub_cursor := sub_cursor s + 1\<rparr>
            in if msg_type m = ''heartbeat_request'' then (next, True)
               else if \<not> filter_matches (sub_filter s) m n then (next, False)
               else if length (sub_inbound s) < inbound_capacity
               then (next\<lparr>sub_inbound := sub_inbound s @ [m]\<rparr>, False)
               else (s, False))
      else if \<not> bus_running b \<and> \<not> bus_has_tx b then (s\<lparr>sub_live := False\<rparr>, False)
      else (s, False))"

text \<open>\<^verbatim>\<open>Lagged\<close>: the ring buffer has dropped everything before position \<open>k\<close>.\<close>

definition forward_lag :: "nat \<Rightarrow> subscription \<Rightarrow> subscription" where
  "forward_lag k s = s\<lparr>sub_cursor := max k (sub_cursor s)\<rparr>"

fun take_first :: "subscription list \<Rightarrow> (message \<times> subscription list) option" where
  "take_first [] = None"
| "take_first (s # ss) =
     (case sub_inbound s of
        m # ms \<Rightarrow> Some (m, s\<lparr>sub_inbound := ms\<rparr> # ss)
      | [] \<Rightarrow> (case take_first ss of
                None \<Rightarrow> None
              | Some (m, ss') \<Rightarrow> Some (m, s # ss')))"

datatype recv_result = Received message | WouldBlock | RecvClosed

definition try_recv :: "node_handle \<Rightarrow> recv_result \<times> node_handle" where
  "try_recv h =
     (case take_first (nh_subscriptions h) of
        Some (m, ss) \<Rightarrow> (Received m, h\<lparr>nh_subscriptions := ss\<rparr>)
      | None \<Rightarrow> (if list_ex sub_live (nh_subscriptions h) then WouldBlock else RecvClosed, h))"

subsection \<open>Properties\<close>

text \<open>What a subscription with filter \<open>f\<close> delivers of a stretch of the wire.\<close>

definition deliverable :: "message_filter \<Rightarrow> node_id \<Rightarrow> message list \<Rightarrow> message list" where
  "deliverable f n ms =
     filter (\<lambda>m. msg_type m \<noteq> ''heartbeat_request'' \<and> filter_matches f m n) ms"

lemma deliverable_append [simp]: "deliverable f n (xs @ ys) = deliverable f n xs @ deliverable f n ys"
  by (simp add: deliverable_def)

fun forward_run :: "bus \<Rightarrow> node_id \<Rightarrow> nat \<Rightarrow> subscription \<Rightarrow> subscription \<times> nat" where
  "forward_run b n 0 s = (s, 0)"
| "forward_run b n (Suc k) s =
     (let (s1, acked) = forward_step b n s;
          (s2, acks) = forward_run b n k s1
      in (s2, (if acked then Suc acks else acks)))"

lemma take_Suc_cursor:
  "c < length w \<Longrightarrow> take (Suc c) w = take c w @ [w ! c]"
  by (rule take_Suc_conv_app_nth)

lemma drop_cursor: "c < length w \<Longrightarrow> drop c w = w ! c # drop (Suc c) w"
  by (rule Cons_nth_drop_Suc [symmetric])

text \<open>One step consumes at most one message and delivers exactly what the filter lets through.\<close>

lemma forward_step_delivers:
  assumes "forward_step b n s = (s', acked)" and "sub_live s"
  shows "sub_cursor s \<le> sub_cursor s' \<and> sub_filter s' = sub_filter s \<and>
         (let seen = take (sub_cursor s' - sub_cursor s) (drop (sub_cursor s) (bus_wire b))
          in sub_inbound s' = sub_inbound s @ deliverable (sub_filter s) n seen \<and>
             (if acked then 1 else 0) = length (filter (\<lambda>m. msg_type m = ''heartbeat_request'') seen))"
  using assms
  by (auto simp: forward_step_def Let_def deliverable_def drop_cursor split: if_splits)

lemma forward_step_dead: "\<not> sub_live s \<Longrightarrow> forward_step b n s = (s, False)"
  by (simp add: forward_step_def)

definition seen_between :: "bus \<Rightarrow> subscription \<Rightarrow> subscription \<Rightarrow> message list" where
  "seen_between b s s' = take (sub_cursor s' - sub_cursor s) (drop (sub_cursor s) (bus_wire b))"

lemma seen_between_trans:
  assumes "sub_cursor s \<le> sub_cursor s1" and "sub_cursor s1 \<le> sub_cursor s2"
  shows "seen_between b s s2 = seen_between b s s1 @ seen_between b s1 s2"
proof -
  obtain d where d: "sub_cursor s1 = sub_cursor s + d" using assms(1) by (metis le_iff_add)
  obtain e where e: "sub_cursor s2 = sub_cursor s + d + e" using assms(2) d by (metis le_iff_add)
  show ?thesis by (simp add: seen_between_def d e take_add add.commute add.left_commute)
qed

text \<open>
  The forwarding task is a filter. However many turns it takes, what it has put in the
  inbound channel is exactly the part of the wire it has passed, in wire order, without the
  heartbeat requests and without what the subscription's filter rejects; and it has acked
  exactly the heartbeat requests it passed. In particular nothing is duplicated or reordered.
\<close>

theorem forward_run_is_filter:
  assumes "forward_run b n k s = (s', acks)"
  shows "sub_cursor s \<le> sub_cursor s' \<and>
         sub_inbound s' = sub_inbound s @ deliverable (sub_filter s) n (seen_between b s s') \<and>
         acks = length (filter (\<lambda>m. msg_type m = ''heartbeat_request'') (seen_between b s s'))"
proof -
  have "sub_filter s' = sub_filter s \<and> sub_cursor s \<le> sub_cursor s' \<and>
        sub_inbound s' = sub_inbound s @ deliverable (sub_filter s) n (seen_between b s s') \<and>
        acks = length (filter (\<lambda>m. msg_type m = ''heartbeat_request'') (seen_between b s s'))"
    using assms
  proof (induction k arbitrary: s acks)
    case 0
    then show ?case by (simp add: seen_between_def deliverable_def)
  next
    case (Suc k)
    obtain s1 acked where s1: "forward_step b n s = (s1, acked)" by (cases "forward_step b n s")
    obtain acks' where run: "forward_run b n k s1 = (s', acks')"
      and acks: "acks = (if acked then Suc acks' else acks')"
      using Suc.prems s1 by (auto split: prod.splits)
    have step: "sub_filter s1 = sub_filter s" "sub_cursor s \<le> sub_cursor s1"
      "sub_inbound s1 = sub_inbound s @ deliverable (sub_filter s) n (seen_between b s s1)"
      "(if acked then 1 else 0) = length (filter (\<lambda>m. msg_type m = ''heartbeat_request'') (seen_between b s s1))"
      using forward_step_delivers [OF s1] s1 forward_step_dead [of s b n]
      by (cases "sub_live s"; simp add: seen_between_def Let_def deliverable_def)+
    from Suc.IH [OF run] step acks show ?case
      by (auto simp: seen_between_trans [of s s1 s'] split: if_splits)
  qed
  then show ?thesis by blast
qed

theorem forward_run_is_filter_witness:
  "\<exists>s' acks. forward_run demo_bus (NodeId ''a'') 2 (new_subscription (Bus_new 0 0) demo_filter)
               = (s', acks) \<and>
             sub_inbound s' = deliverable demo_filter (NodeId ''a'')
               (seen_between demo_bus (new_subscription (Bus_new 0 0) demo_filter) s')"
proof -
  let ?s = "new_subscription (Bus_new 0 0) demo_filter"
  obtain s' acks where e: "forward_run demo_bus (NodeId ''a'') 2 ?s = (s', acks)"
    by (metis surj_pair)
  from forward_run_is_filter [OF e] e show ?thesis
    by (simp add: new_subscription_def)
qed

lemma loop_send_wire:
  "loop_send m b = (r, b') \<Longrightarrow>
     (case r of Inl _ \<Rightarrow> b' = b | Inr _ \<Rightarrow> bus_wire b' = bus_wire b @ [m]) \<and>
     bus_nodes b' = bus_nodes b"
  by (auto simp: loop_send_def handle_send_def Let_def split: if_splits)

text \<open>
  A handle cannot speak for somebody else, and only on buses it is attached to. Sending
  a prepared message, whatever sender and bus it names, either is refused and changes no
  bus, or adds to the wire of the handle's primary bus exactly one message that carries the
  handle's own node id and that bus, with the type, targets and payload that were asked for;
  every other bus is untouched.
\<close>

theorem send_message_authentic:
  assumes "send_message i now h m bs = (r, bs')" and "map_of bs p = Some b"
    and "p = nh_primary_bus_id h"
  shows "(case r of
            Inl e \<Rightarrow> map_of bs' = map_of bs \<and>
                     (e = NoSuchBus p \<longleftrightarrow> p \<notin> sub_bus_id ` set (nh_subscriptions h))
          | Inr _ \<Rightarrow> p \<in> sub_bus_id ` set (nh_subscriptions h) \<and>
              (\<exists>b' m'. map_of bs' = (map_of bs)(p \<mapsto> b') \<and> bus_wire b' = bus_wire b @ [m'] \<and>
                 msg_from m' = nh_node_id h \<and> msg_from_bus m' = Some p \<and>
                 msg_type m' = msg_type m \<and> msg_to m' = msg_to m \<and>
                 msg_payload m' = msg_payload m))"
proof (cases "find (\<lambda>s. sub_bus_id s = p) (nh_subscriptions h)")
  case None
  then have "p \<notin> sub_bus_id ` set (nh_subscriptions h)" by (auto simp: find_None_iff)
  with None assms show ?thesis by (auto simp: send_message_def send_via_def)
next
  case (Some sub)
  then have sub: "sub_bus_id sub = p" "p \<in> sub_bus_id ` set (nh_subscriptions h)"
    by (auto dest!: find_SomeD)
  let ?m = "Message_with_from_bus i now (msg_type m) (nh_node_id h) (msg_to m) (msg_payload m) p"
  obtain r' b' where send: "loop_send ?m b = (r', b')" by (cases "loop_send ?m b")
  then have r: "r' = r" "bs' = AList.update p b' bs"
    using assms Some sub by (auto simp: send_message_def send_via_def Let_def)
  show ?thesis
  proof (cases r)
    case (Inl e)
    with loop_send_wire [OF send] r have "b' = b" by simp
    moreover have "e \<noteq> NoSuchBus p"
      using send Inl r by (auto simp: loop_send_def handle_send_def Let_def split: if_splits)
    ultimately show ?thesis
      using Inl r sub assms(2) by (simp add: update_triv)
  next
    case (Inr a)
    with loop_send_wire [OF send] r have "bus_wire b' = bus_wire b @ [?m]" by simp
    with Inr r sub show ?thesis
      by (auto simp: update_conv' message_defs)
  qed
qed

theorem send_message_authentic_witness:
  "\<exists>r bs'. send_message 7 0 \<lparr>nh_info = demo_info ''a'', nh_primary_bus_id = BusId 0,
                nh_subscriptions = [new_subscription demo_bus demo_filter]\<rparr>
              (Message_new 1 0 ''model_call'' (NodeId ''forged'') [NodeId ''b''] JNull)
              [(BusId 0, demo_bus)] = (Inr r, bs') \<and>
           (\<exists>b' m'. map_of bs' (BusId 0) = Some b' \<and> bus_wire b' = bus_wire demo_bus @ [m'] \<and>
                    msg_from m' = NodeId ''a'')"
proof -
  let ?h = "\<lparr>nh_info = demo_info ''a'', nh_primary_bus_id = BusId 0,
             nh_subscriptions = [new_subscription demo_bus demo_filter]\<rparr>"
  let ?m = "Message_new 1 0 ''model_call'' (NodeId ''forged'') [NodeId ''b''] JNull"
  have bid: "bus_bid demo_bus = BusId 0" "bus_running demo_bus"
    by (simp_all add: demo_bus_def Bus_new_def handle_connect_def contains_key_def broadcast_def
        demo_info_def Let_def)
  obtain r bs' where e: "send_message 7 0 ?h ?m [(BusId 0, demo_bus)] = (Inr r, bs')"
    using bid
    by (simp add: send_message_def send_via_def new_subscription_def loop_send_def
        handle_send_def contains_key_def demo_bus_nodes message_defs Let_def)
  from send_message_authentic [OF e, of "BusId 0" demo_bus] e show ?thesis
    by (auto simp: demo_info_def)
qed

end
