(* ===== verification/Session.thy ===== *)
theory Session
  imports Core_State
begin

text \<open>
  The session layer of \<^verbatim>\<open>crates/arf-session\<close>: the types of \<^verbatim>\<open>lib.rs\<close>, the event log of
  \<^verbatim>\<open>event.rs\<close>, and the trait \<^verbatim>\<open>SessionStore\<close> as a record of operations on a store state.
  The methods with a default body are functions of the operations they call. The locale
  \<open>session_store\<close> states what every store has to promise to the engine's outbox.

  Instants are milliseconds; the order of their RFC 3339 text, by which the SQL sorts, is
  the order of the instants.
\<close>

subsection \<open>Types\<close>

datatype session_status = Active | Cancelling | Completed | Interrupted

datatype session_error =
    SessSqlite string
  | SessIo string
  | SessSerde string
  | SessNotFound string
  | SessCorrupt string

fun session_error_display :: "session_error \<Rightarrow> string" where
  "session_error_display (SessSqlite e) = ''sqlite error: '' @ e"
| "session_error_display (SessIo e) = ''io error: '' @ e"
| "session_error_display (SessSerde e) = ''serialization error: '' @ e"
| "session_error_display (SessNotFound s) = ''session not found: '' @ s"
| "session_error_display (SessCorrupt e) = ''corrupt data: '' @ e"

fun status_as_str :: "session_status \<Rightarrow> string" where
  "status_as_str Active = ''active''"
| "status_as_str Cancelling = ''cancelling''"
| "status_as_str Completed = ''completed''"
| "status_as_str Interrupted = ''interrupted''"

definition status_from_str :: "string \<Rightarrow> session_error + session_status" where
  "status_from_str s =
     (if s = ''active'' then Inr Active
      else if s = ''cancelling'' then Inr Cancelling
      else if s = ''completed'' then Inr Completed
      else if s = ''interrupted'' then Inr Interrupted
      else Inl (SessCorrupt (''unknown session status: '' @ s)))"

lemma status_roundtrip [simp]: "status_from_str (status_as_str st) = Inr st"
  by (cases st) (simp_all add: status_from_str_def)

record session_meta =
  sm_session_id :: string
  sm_title :: string
  sm_created_at :: millis
  sm_updated_at :: millis
  sm_round_count :: nat
  sm_turn_count :: nat
  sm_status :: session_status
  sm_current_round :: "nat option"

definition SessionMeta_new :: "millis \<Rightarrow> string \<Rightarrow> string \<Rightarrow> session_meta" where
  "SessionMeta_new now sid title =
     \<lparr>sm_session_id = sid, sm_title = title, sm_created_at = now, sm_updated_at = now,
      sm_round_count = 0, sm_turn_count = 0, sm_status = Active, sm_current_round = None\<rparr>"

record model_response_meta =
  rm_input_tokens :: nat
  rm_output_tokens :: nat
  rm_response_latency_ms :: millis
  rm_finish_reason :: string
  rm_provider :: string
  rm_model :: string

record checkpoint_snapshot =
  cs_checkpoint :: checkpoint
  cs_turn_index :: nat
  cs_pending_messages :: "model_message list"
  cs_wait_events :: "wait_event list"
  cs_captured_at :: millis
  cs_tasks_json :: json
  cs_last_model_response_meta :: "model_response_meta option"

definition CheckpointSnapshot_new :: "millis \<Rightarrow> checkpoint \<Rightarrow> nat \<Rightarrow> checkpoint_snapshot" where
  "CheckpointSnapshot_new now cp turn =
     \<lparr>cs_checkpoint = cp, cs_turn_index = turn, cs_pending_messages = [], cs_wait_events = [],
      cs_captured_at = now, cs_tasks_json = JNull, cs_last_model_response_meta = None\<rparr>"

record session_data =
  sd_meta :: session_meta
  sd_state :: state
  sd_last_checkpoint :: "checkpoint_snapshot option"
  sd_config_snapshot :: json
  sd_model_params :: core_model_params

record snapshot_effects =
  se_checkpoint_written :: millis
  se_state_updated :: bool
  se_updated_at :: millis
  se_status_forced :: session_status

subsection \<open>Events\<close>

datatype event =
    OutboundSent string uuid nat "string list" json millis
  | InboundReply string uuid string json millis
  | RoundStart nat millis
  | RoundEndEv nat millis
  | ModelCallEnd nat nat string nat nat nat millis
  | ToolCallEnd nat nat string bool "string option" millis

fun captured_at :: "event \<Rightarrow> millis" where
  "captured_at (OutboundSent _ _ _ _ _ t) = t"
| "captured_at (InboundReply _ _ _ _ t) = t"
| "captured_at (RoundStart _ t) = t"
| "captured_at (RoundEndEv _ t) = t"
| "captured_at (ModelCallEnd _ _ _ _ _ _ t) = t"
| "captured_at (ToolCallEnd _ _ _ _ _ t) = t"

record pending_outbound =
  po_msg_type :: string
  po_correlation_id :: uuid
  po_target_nodes :: "string list"
  po_payload :: json
  po_attempt :: nat

record pending_peer_message =
  pp_correlation_id :: uuid
  pp_target_session :: string
  pp_target_node :: string
  pp_payload :: json
  pp_sent_at :: millis
  pp_attempt :: nat

record model_call_record =
  mcr_model :: string
  mcr_input_tokens :: nat
  mcr_output_tokens :: nat
  mcr_total_tokens :: nat
  mcr_turn :: nat
  mcr_round :: nat
  mcr_at :: millis

record tool_call_record =
  tcr_tool_name :: string
  tcr_duration_ms :: millis
  tcr_success :: bool
  tcr_error :: "string option"
  tcr_turn :: nat
  tcr_round :: nat
  tcr_at :: millis

subsection \<open>The trait SessionStore\<close>

text \<open>\<open>so_snapshot\<close> takes the clock reading its \<^verbatim>\<open>updated_at\<close> uses.\<close>

record 's store_ops =
  so_list :: "'s \<Rightarrow> session_error + session_meta list"
  so_load :: "string \<Rightarrow> 's \<Rightarrow> session_error + session_data option"
  so_save :: "session_data \<Rightarrow> 's \<Rightarrow> (session_error + unit) \<times> 's"
  so_delete :: "string \<Rightarrow> 's \<Rightarrow> (session_error + unit) \<times> 's"
  so_snapshot :: "millis \<Rightarrow> string \<Rightarrow> state \<Rightarrow> checkpoint_snapshot \<Rightarrow> 's
                    \<Rightarrow> (session_error + snapshot_effects) \<times> 's"
  so_record_event :: "string \<Rightarrow> event \<Rightarrow> 's \<Rightarrow> (session_error + unit) \<times> 's"
  so_pending_outbound :: "string \<Rightarrow> 's \<Rightarrow> session_error + pending_outbound list"

definition so_exists :: "'s store_ops \<Rightarrow> string \<Rightarrow> 's \<Rightarrow> session_error + bool" where
  "so_exists S sid st = map_sum id (\<lambda>d. d \<noteq> None) (so_load S sid st)"

text \<open>The bodies a store gets when it overrides neither method.\<close>

definition default_record_event :: "string \<Rightarrow> event \<Rightarrow> 's \<Rightarrow> (session_error + unit) \<times> 's" where
  "default_record_event sid ev st =
     (Inl (SessCorrupt ''record_event not implemented for this store''), st)"

definition default_pending_outbound :: "string \<Rightarrow> 's \<Rightarrow> session_error + pending_outbound list" where
  "default_pending_outbound sid st = Inr []"

definition record_peer_message_sent ::
  "'s store_ops \<Rightarrow> string \<Rightarrow> pending_peer_message \<Rightarrow> 's \<Rightarrow> (session_error + unit) \<times> 's" where
  "record_peer_message_sent S sid r =
     so_record_event S sid
       (OutboundSent ''peer_message'' (pp_correlation_id r) (pp_attempt r) [pp_target_node r]
          (pp_payload r) (pp_sent_at r))"

definition record_peer_reply_received ::
  "'s store_ops \<Rightarrow> millis \<Rightarrow> string \<Rightarrow> uuid \<Rightarrow> string \<Rightarrow> 's \<Rightarrow> (session_error + unit) \<times> 's" where
  "record_peer_reply_received S now sid cid source =
     so_record_event S sid (InboundReply ''peer_reply'' cid source JNull now)"

definition record_round_start ::
  "'s store_ops \<Rightarrow> millis \<Rightarrow> string \<Rightarrow> nat \<Rightarrow> 's \<Rightarrow> (session_error + unit) \<times> 's" where
  "record_round_start S now sid n = so_record_event S sid (RoundStart n now)"

definition record_round_end ::
  "'s store_ops \<Rightarrow> millis \<Rightarrow> string \<Rightarrow> nat \<Rightarrow> millis \<Rightarrow> 's \<Rightarrow> (session_error + unit) \<times> 's" where
  "record_round_end S now sid n duration_ms = so_record_event S sid (RoundEndEv n now)"

definition record_model_call_end ::
  "'s store_ops \<Rightarrow> string \<Rightarrow> model_call_record \<Rightarrow> 's \<Rightarrow> (session_error + unit) \<times> 's" where
  "record_model_call_end S sid r =
     so_record_event S sid
       (ModelCallEnd (mcr_round r) (mcr_turn r) (mcr_model r) (mcr_input_tokens r)
          (mcr_output_tokens r) (mcr_total_tokens r) (mcr_at r))"

definition record_tool_call_end ::
  "'s store_ops \<Rightarrow> string \<Rightarrow> tool_call_record \<Rightarrow> 's \<Rightarrow> (session_error + unit) \<times> 's" where
  "record_tool_call_end S sid r =
     so_record_event S sid
       (ToolCallEnd (tcr_round r) (tcr_turn r) (tcr_tool_name r) (tcr_success r)
          (tcr_error r) (tcr_at r))"

lemmas record_defs [session_defs] =
  record_peer_message_sent_def record_peer_reply_received_def record_round_start_def
  record_round_end_def record_model_call_end_def record_tool_call_end_def

subsection \<open>What an outbox is\<close>

text \<open>
  The outbox part of an event log. \<open>sents\<close> are the sends with their instants, \<open>replied\<close> the
  correlation ids some reply was recorded for. \<open>pending_ok\<close> is the contract of
  \<^verbatim>\<open>pending_outbound\<close>: one row per correlation id that was sent and not replied to, carrying
  the highest attempt and the fields of one of its sends.
\<close>

fun is_outbox :: "event \<Rightarrow> bool" where
  "is_outbox (OutboundSent _ _ _ _ _ _) = True"
| "is_outbox (InboundReply _ _ _ _ _) = True"
| "is_outbox _ = False"

fun sent_of :: "event \<Rightarrow> (pending_outbound \<times> millis) option" where
  "sent_of (OutboundSent ty c a tgt pl t) =
     Some (\<lparr>po_msg_type = ty, po_correlation_id = c, po_target_nodes = tgt, po_payload = pl,
            po_attempt = a\<rparr>, t)"
| "sent_of _ = None"

fun reply_of :: "event \<Rightarrow> uuid option" where
  "reply_of (InboundReply _ c _ _ _) = Some c"
| "reply_of _ = None"

definition sents :: "event list \<Rightarrow> (pending_outbound \<times> millis) list" where
  "sents evs = List.map_filter sent_of evs"

definition replied :: "event list \<Rightarrow> uuid set" where
  "replied evs = set (List.map_filter reply_of evs)"

definition sents_of :: "event list \<Rightarrow> uuid \<Rightarrow> (pending_outbound \<times> millis) list" where
  "sents_of evs c = filter (\<lambda>(p, _). po_correlation_id p = c) (sents evs)"

definition unreplied :: "event list \<Rightarrow> uuid set" where
  "unreplied evs = (po_correlation_id \<circ> fst) ` set (sents evs) - replied evs"

definition max_attempt :: "event list \<Rightarrow> uuid \<Rightarrow> nat" where
  "max_attempt evs c = Max (set (map (po_attempt \<circ> fst) (sents_of evs c)))"

definition first_sent :: "event list \<Rightarrow> uuid \<Rightarrow> millis" where
  "first_sent evs c = snd (hd (sents_of evs c))"

definition pending_row_ok :: "event list \<Rightarrow> pending_outbound \<Rightarrow> bool" where
  "pending_row_ok evs p \<longleftrightarrow>
     (\<exists>(q, t) \<in> set (sents_of evs (po_correlation_id p)).
        p = q\<lparr>po_attempt := max_attempt evs (po_correlation_id p)\<rparr>)"

definition pending_ok :: "event list \<Rightarrow> pending_outbound list \<Rightarrow> bool" where
  "pending_ok evs ps \<longleftrightarrow>
     distinct (map po_correlation_id ps) \<and>
     po_correlation_id ` set ps = unreplied evs \<and>
     list_all (pending_row_ok evs) ps"

lemma sents_append [simp]: "sents (xs @ ys) = sents xs @ sents ys"
  by (simp add: sents_def List.map_filter_def)

lemma sents_Cons: "sents (e # es) = (case sent_of e of None \<Rightarrow> sents es | Some p \<Rightarrow> p # sents es)"
  by (simp add: sents_def List.map_filter_simps split: option.splits)

lemma sents_Nil [simp]: "sents [] = []"
  by (simp add: sents_def List.map_filter_simps)

lemma replied_append [simp]: "replied (xs @ ys) = replied xs \<union> replied ys"
  by (simp add: replied_def List.map_filter_def)

lemma replied_Nil [simp]: "replied [] = {}"
  by (simp add: replied_def List.map_filter_simps)

lemma replied_Cons: "replied (e # es) = (case reply_of e of None \<Rightarrow> replied es | Some c \<Rightarrow> insert c (replied es))"
  by (simp add: replied_def List.map_filter_simps split: option.splits)

lemma sents_of_append [simp]: "sents_of (xs @ ys) c = sents_of xs c @ sents_of ys c"
  by (simp add: sents_of_def)

lemma sents_of_Nil [simp]: "sents_of [] c = []"
  by (simp add: sents_of_def)

lemma unreplied_iff: "c \<in> unreplied evs \<longleftrightarrow> sents_of evs c \<noteq> [] \<and> c \<notin> replied evs"
  by (force simp: unreplied_def sents_of_def filter_empty_conv)

lemma max_attempt_snoc:
  "sents_of evs c \<noteq> [] \<Longrightarrow> sent_of e = Some (p, t) \<Longrightarrow> po_correlation_id p = c \<Longrightarrow>
     max_attempt (evs @ [e]) c = max (po_attempt p) (max_attempt evs c)"
proof -
  assume "sents_of evs c \<noteq> []" and e: "sent_of e = Some (p, t)" "po_correlation_id p = c"
  then have "set (map (po_attempt \<circ> fst) (sents_of evs c)) \<noteq> {}" by simp
  from Max_insert [OF finite_set this] show ?thesis
    using e by (simp add: max_attempt_def sents_Cons sents_of_def [of "[e]"] del: set_map)
qed

text \<open>A log is well timed when its instants do not decrease.\<close>

definition well_timed :: "event list \<Rightarrow> bool" where
  "well_timed evs \<longleftrightarrow> sorted (map captured_at evs)"

text \<open>The sends of one correlation id differ at most in the attempt, as the engine writes them.\<close>

definition uniform_sends :: "event list \<Rightarrow> bool" where
  "uniform_sends evs \<longleftrightarrow>
     (\<forall>(p, _) \<in> set (sents evs). \<forall>(q, _) \<in> set (sents evs).
        po_correlation_id p = po_correlation_id q \<longrightarrow> p\<lparr>po_attempt := 0\<rparr> = q\<lparr>po_attempt := 0\<rparr>)"

lemma pending_row_unique:
  assumes u: "uniform_sends evs" and p: "pending_row_ok evs p" and q: "pending_row_ok evs q"
    and eq: "po_correlation_id p = po_correlation_id q"
  shows "p = q"
proof -
  have row: "\<exists>x t. (x, t) \<in> set (sents evs) \<and> r = x\<lparr>po_attempt := max_attempt evs (po_correlation_id r)\<rparr>"
    if "pending_row_ok evs r" for r
    using that unfolding pending_row_ok_def sents_of_def by fastforce
  define m where "m = max_attempt evs (po_correlation_id p)"
  obtain x t where x: "(x, t) \<in> set (sents evs)" "p = x\<lparr>po_attempt := m\<rparr>"
    using row [OF p] unfolding m_def by blast
  obtain y t' where y: "(y, t') \<in> set (sents evs)" "q = y\<lparr>po_attempt := m\<rparr>"
    using row [OF q] unfolding m_def eq by blast
  have "po_correlation_id p = po_correlation_id x" "po_correlation_id q = po_correlation_id y"
    using arg_cong [OF x(2), of po_correlation_id] arg_cong [OF y(2), of po_correlation_id] by simp_all
  with eq have "po_correlation_id x = po_correlation_id y" by simp
  with u x(1) y(1) have "x\<lparr>po_attempt := 0\<rparr> = y\<lparr>po_attempt := 0\<rparr>"
    unfolding uniform_sends_def by blast
  then have "x\<lparr>po_attempt := m\<rparr> = y\<lparr>po_attempt := m\<rparr>"
    by (cases x; cases y) simp
  with x(2) y(2) show ?thesis by (simp only:)
qed

text \<open>
  Under these conditions, and with first sends at different instants, the contract and the
  order determine the answer of \<^verbatim>\<open>pending_outbound\<close> completely.
\<close>

lemma pending_unique:
  assumes u: "uniform_sends evs" and inj: "inj_on (first_sent evs) (unreplied evs)"
    and ps: "pending_ok evs ps" "sorted (map (\<lambda>p. first_sent evs (po_correlation_id p)) ps)"
    and qs: "pending_ok evs qs" "sorted (map (\<lambda>p. first_sent evs (po_correlation_id p)) qs)"
  shows "ps = qs"
proof -
  have sub: "set as \<subseteq> set bs" if "pending_ok evs as" "pending_ok evs bs" for as bs
  proof
    fix p assume p: "p \<in> set as"
    with that have "po_correlation_id p \<in> po_correlation_id ` set bs" by (auto simp: pending_ok_def)
    then obtain q where q: "q \<in> set bs" "po_correlation_id p = po_correlation_id q" by auto
    have "p = q"
      by (rule pending_row_unique [OF u _ _ q(2)]) (use that p q(1) in \<open>auto simp: pending_ok_def list_all_iff\<close>)
    with q(1) show "p \<in> set bs" by simp
  qed
  then have same: "set ps = set qs" using ps(1) qs(1) by blast
  let ?k = "\<lambda>p. first_sent evs (po_correlation_id p)"
  have k: "inj_on ?k (set ps)"
  proof (rule inj_onI)
    fix x y assume xy: "x \<in> set ps" "y \<in> set ps" "?k x = ?k y"
    with ps(1) inj have "po_correlation_id x = po_correlation_id y"
      by (auto simp: pending_ok_def dest: inj_onD)
    with ps(1) xy show "x = y" by (auto simp: pending_ok_def distinct_map dest: inj_onD)
  qed
  have d: "distinct ps" "distinct qs" using ps(1) qs(1) by (auto simp: pending_ok_def distinct_map)
  have "map ?k ps = map ?k qs"
    by (rule sorted_distinct_set_unique) (use ps qs same d k in \<open>auto simp: distinct_map\<close>)
  with k same show ?thesis by (metis (no_types, lifting) inj_on_map_eq_map sup.idem)
qed

text \<open>
  The contract of a store, from the point of view of the engine. \<open>ready\<close> is the states in
  which the medium works, \<open>olog\<close> the outbox events recorded for a session.
\<close>

fun record_all :: "'s store_ops \<Rightarrow> (string \<times> event) list \<Rightarrow> 's \<Rightarrow> 's" where
  "record_all S [] st = st"
| "record_all S ((sid, ev) # evs) st = record_all S evs (snd (so_record_event S sid ev st))"

definition outbox_of :: "string \<Rightarrow> (string \<times> event) list \<Rightarrow> event list" where
  "outbox_of sid evs = filter is_outbox (map snd (filter (\<lambda>(s, _). s = sid) evs))"

locale session_store =
  fixes S :: "'s store_ops"
    and ready :: "'s \<Rightarrow> bool"
    and olog :: "string \<Rightarrow> 's \<Rightarrow> event list"
  assumes record_ready:
      "ready st \<Longrightarrow> so_record_event S sid ev st = (r, st') \<Longrightarrow> r = Inr () \<and> ready st'"
    and record_log:
      "ready st \<Longrightarrow> so_record_event S sid ev st = (r, st') \<Longrightarrow>
         olog sid' st' = olog sid' st @ (if sid' = sid then filter is_outbox [ev] else [])"
    and record_load:
      "ready st \<Longrightarrow> so_record_event S sid ev st = (r, st') \<Longrightarrow> so_load S sid' st' = so_load S sid' st"
    and pending_contract:
      "ready st \<Longrightarrow> \<exists>ps. so_pending_outbound S sid st = Inr ps \<and> pending_ok (olog sid st) ps \<and>
         (well_timed (olog sid st) \<longrightarrow> sorted (map (\<lambda>p. first_sent (olog sid st) (po_correlation_id p)) ps))"
    and save_load:
      "ready st \<Longrightarrow> so_save S d st = (r, st') \<Longrightarrow>
         r = Inr () \<and> ready st' \<and> olog sid st' = olog sid st \<and>
         (\<exists>d'. so_load S (sm_session_id (sd_meta d)) st' = Inr (Some d') \<and>
               sd_state d' = sd_state d \<and> sd_config_snapshot d' = sd_config_snapshot d \<and>
               sd_model_params d' = sd_model_params d \<and>
               sm_status (sd_meta d') = sm_status (sd_meta d))"
begin

lemma pendingE:
  assumes "ready st"
  obtains ps where "so_pending_outbound S sid st = Inr ps" "pending_ok (olog sid st) ps"
    "well_timed (olog sid st) \<Longrightarrow> sorted (map (\<lambda>p. first_sent (olog sid st) (po_correlation_id p)) ps)"
  using pending_contract [OF assms, of sid] by blast

text \<open>A recorded send is pending until its reply is recorded, and never after.\<close>

lemma sent_is_pending:
  assumes "ready st" and "so_record_event S sid (OutboundSent ty c a tgt pl t) st = (r, st')"
    and "c \<notin> replied (olog sid st)"
  shows "\<exists>ps. so_pending_outbound S sid st' = Inr ps \<and> c \<in> po_correlation_id ` set ps"
proof -
  have "ready st'" using record_ready [OF assms(1,2)] by simp
  moreover have "c \<in> unreplied (olog sid st')"
    using record_log [OF assms(1,2), of sid] assms(3)
    by (simp add: unreplied_iff sents_of_def sents_Cons replied_Cons)
  ultimately show ?thesis
    by (metis pendingE pending_ok_def)
qed

lemma replied_is_not_pending:
  assumes "ready st" and "so_record_event S sid (InboundReply ty c src pl t) st = (r, st')"
  shows "\<exists>ps. so_pending_outbound S sid st' = Inr ps \<and> c \<notin> po_correlation_id ` set ps"
proof -
  have "ready st'" using record_ready [OF assms] by simp
  moreover have "c \<notin> unreplied (olog sid st')"
    using record_log [OF assms, of sid] by (simp add: unreplied_iff replied_Cons)
  ultimately show ?thesis
    by (metis pendingE pending_ok_def)
qed

text \<open>Recording a list of events in turn.\<close>

lemma record_all_ready:
  "ready st \<Longrightarrow> ready (record_all S evs st) \<and>
     olog sid (record_all S evs st) = olog sid st @ outbox_of sid evs"
proof (induction evs arbitrary: st)
  case Nil
  then show ?case by (simp add: outbox_of_def)
next
  case (Cons e evs)
  obtain sid' ev r st' where e: "e = (sid', ev)" "so_record_event S sid' ev st = (r, st')"
    by (metis surj_pair)
  from Cons.IH [of st'] record_ready [OF Cons.prems e(2)] record_log [OF Cons.prems e(2), of sid]
  show ?case by (auto simp: e outbox_of_def)
qed

lemma exists_after_save:
  assumes "ready st" and "so_save S d st = (r, st')"
  shows "so_exists S (sm_session_id (sd_meta d)) st' = Inr True"
  using save_load [OF assms, of undefined] by (auto simp: so_exists_def)

end

end
