(* ===== verification/Session_Sqlite.thy ===== *)
theory Session_Sqlite
  imports Session
begin

text \<open>
  \<^verbatim>\<open>SqliteSessionStore\<close>: the three tables as lists of rows, one definition per SQL statement of
  the code. A column that holds serialized JSON holds the value; the status column holds the
  text the code writes. \<open>db_working\<close> is false when SQLite reports an error for every
  statement. The row of its group from which a \<^verbatim>\<open>GROUP BY\<close> takes the bare columns is SQLite's
  choice, the parameter \<open>pick\<close>: an index into the group.
\<close>

subsection \<open>Tables\<close>

record session_row =
  row_session_id :: string
  row_title :: string
  row_created_at :: millis
  row_updated_at :: millis
  row_round_count :: nat
  row_turn_count :: nat
  row_status :: string
  row_current_round :: "nat option"
  row_state_json :: state
  row_config_json :: json
  row_model_params_json :: core_model_params

record checkpoint_row =
  ck_session_id :: string
  ck_captured_at :: millis
  ck_payload :: checkpoint_snapshot

record event_row =
  er_session_id :: string
  er_captured_at :: millis
  er_kind :: string
  er_correlation_id :: "uuid option"
  er_msg_type :: "string option"
  er_attempt :: "nat option"
  er_target_node :: "string list option"
  er_source_node :: "string option"
  er_payload :: "json option"

record sqlite =
  db_sessions :: "session_row list"
  db_checkpoints :: "checkpoint_row list"
  db_events :: "event_row list"
  db_working :: bool

definition init_schema :: sqlite where
  "init_schema = \<lparr>db_sessions = [], db_checkpoints = [], db_events = [], db_working = True\<rparr>"

definition sqlite_error :: session_error where
  "sqlite_error = SessSqlite ''disk I/O error''"

subsection \<open>Sessions\<close>

definition meta_of_row :: "session_row \<Rightarrow> session_error + session_meta" where
  "meta_of_row r =
     (case status_from_str (row_status r) of
        Inl e \<Rightarrow> Inl e
      | Inr st \<Rightarrow> Inr \<lparr>sm_session_id = row_session_id r, sm_title = row_title r,
                       sm_created_at = row_created_at r, sm_updated_at = row_updated_at r,
                       sm_round_count = row_round_count r, sm_turn_count = row_turn_count r,
                       sm_status = st, sm_current_round = row_current_round r\<rparr>)"

fun collect_results :: "('e + 'a) list \<Rightarrow> 'e + 'a list" where
  "collect_results [] = Inr []"
| "collect_results (Inl e # rs) = Inl e"
| "collect_results (Inr x # rs) = map_sum id (\<lambda>xs. x # xs) (collect_results rs)"

definition newest_first :: "('a \<Rightarrow> millis) \<Rightarrow> 'a list \<Rightarrow> 'a list" where
  "newest_first f xs = rev (sort_key f (rev xs))"

definition sqlite_list :: "sqlite \<Rightarrow> session_error + session_meta list" where
  "sqlite_list db =
     (if \<not> db_working db then Inl sqlite_error
      else map_sum (\<lambda>e. SessSqlite (session_error_display e)) id
             (collect_results (map meta_of_row (newest_first row_updated_at (db_sessions db)))))"

definition find_row :: "string \<Rightarrow> sqlite \<Rightarrow> session_row option" where
  "find_row sid db = find (\<lambda>r. row_session_id r = sid) (db_sessions db)"

text \<open>\<^verbatim>\<open>ORDER BY captured_at DESC LIMIT 1\<close>.\<close>

definition last_checkpoint :: "string \<Rightarrow> sqlite \<Rightarrow> checkpoint_snapshot option" where
  "last_checkpoint sid db =
     (case newest_first ck_captured_at (filter (\<lambda>c. ck_session_id c = sid) (db_checkpoints db)) of
        [] \<Rightarrow> None
      | c # _ \<Rightarrow> Some (ck_payload c))"

definition sqlite_load :: "string \<Rightarrow> sqlite \<Rightarrow> session_error + session_data option" where
  "sqlite_load sid db =
     (if \<not> db_working db then Inl sqlite_error
      else case find_row sid db of
             None \<Rightarrow> Inr None
           | Some r \<Rightarrow>
               (case meta_of_row r of
                  Inl e \<Rightarrow> Inl e
                | Inr m \<Rightarrow> Inr (Some \<lparr>sd_meta = m, sd_state = row_state_json r,
                                     sd_last_checkpoint = last_checkpoint sid db,
                                     sd_config_snapshot = row_config_json r,
                                     sd_model_params = row_model_params_json r\<rparr>)))"

text \<open>\<^verbatim>\<open>INSERT ... ON CONFLICT(session_id) DO UPDATE\<close>: \<^verbatim>\<open>created_at\<close> is not among the updated columns.\<close>

definition upsert_session :: "session_data \<Rightarrow> session_row list \<Rightarrow> session_row list" where
  "upsert_session d rows =
     (let m = sd_meta d;
          new = \<lparr>row_session_id = sm_session_id m, row_title = sm_title m,
                 row_created_at = sm_created_at m, row_updated_at = sm_updated_at m,
                 row_round_count = sm_round_count m, row_turn_count = sm_turn_count m,
                 row_status = status_as_str (sm_status m), row_current_round = sm_current_round m,
                 row_state_json = sd_state d, row_config_json = sd_config_snapshot d,
                 row_model_params_json = sd_model_params d\<rparr>
      in if list_ex (\<lambda>r. row_session_id r = sm_session_id m) rows
         then map (\<lambda>r. if row_session_id r = sm_session_id m
                        then new\<lparr>row_created_at := row_created_at r\<rparr> else r) rows
         else rows @ [new])"

text \<open>\<^verbatim>\<open>INSERT OR REPLACE\<close> on the primary key (\<^verbatim>\<open>session_id\<close>, \<^verbatim>\<open>captured_at\<close>).\<close>

definition put_checkpoint ::
  "string \<Rightarrow> checkpoint_snapshot \<Rightarrow> checkpoint_row list \<Rightarrow> checkpoint_row list" where
  "put_checkpoint sid snap rows =
     filter (\<lambda>c. \<not> (ck_session_id c = sid \<and> ck_captured_at c = cs_captured_at snap)) rows
       @ [\<lparr>ck_session_id = sid, ck_captured_at = cs_captured_at snap, ck_payload = snap\<rparr>]"

definition sqlite_save :: "session_data \<Rightarrow> sqlite \<Rightarrow> (session_error + unit) \<times> sqlite" where
  "sqlite_save d db =
     (if \<not> db_working db then (Inl sqlite_error, db)
      else (let db1 = db\<lparr>db_sessions := upsert_session d (db_sessions db)\<rparr>
            in (Inr (),
                case sd_last_checkpoint d of
                  None \<Rightarrow> db1
                | Some snap \<Rightarrow>
                    db1\<lparr>db_checkpoints := put_checkpoint (sm_session_id (sd_meta d)) snap
                                            (db_checkpoints db1)\<rparr>)))"

definition sqlite_delete :: "string \<Rightarrow> sqlite \<Rightarrow> (session_error + unit) \<times> sqlite" where
  "sqlite_delete sid db =
     (if \<not> db_working db then (Inl sqlite_error, db)
      else (let db1 = db\<lparr>db_checkpoints := filter (\<lambda>c. ck_session_id c \<noteq> sid) (db_checkpoints db)\<rparr>;
                n = length (filter (\<lambda>r. row_session_id r = sid) (db_sessions db1));
                db2 = db1\<lparr>db_sessions := filter (\<lambda>r. row_session_id r \<noteq> sid) (db_sessions db1)\<rparr>
            in (if n = 0 then Inl (SessNotFound sid) else Inr (), db2)))"

definition forced_status :: "string \<Rightarrow> session_status" where
  "forced_status current = (if current = ''cancelling'' then Cancelling else Interrupted)"

definition sqlite_snapshot ::
  "millis \<Rightarrow> string \<Rightarrow> state \<Rightarrow> checkpoint_snapshot \<Rightarrow> sqlite
    \<Rightarrow> (session_error + snapshot_effects) \<times> sqlite" where
  "sqlite_snapshot now sid s snap db =
     (if \<not> db_working db then (Inl sqlite_error, db)
      else case find_row sid db of
             None \<Rightarrow> (Inl (SessNotFound sid), db)
           | Some r \<Rightarrow>
               (let st = forced_status (row_status r);
                    db1 = db\<lparr>db_checkpoints := put_checkpoint sid snap (db_checkpoints db)\<rparr>;
                    db2 = db1\<lparr>db_sessions :=
                            map (\<lambda>r. if row_session_id r = sid
                                     then r\<lparr>row_state_json := s, row_updated_at := now,
                                            row_status := status_as_str st\<rparr>
                                     else r) (db_sessions db1)\<rparr>
                in (Inr \<lparr>se_checkpoint_written = cs_captured_at snap, se_state_updated = True,
                         se_updated_at = now, se_status_forced = st\<rparr>, db2)))"

subsection \<open>The event log\<close>

definition empty_row :: "string \<Rightarrow> event \<Rightarrow> string \<Rightarrow> event_row" where
  "empty_row sid ev kind =
     \<lparr>er_session_id = sid, er_captured_at = captured_at ev, er_kind = kind,
      er_correlation_id = None, er_msg_type = None, er_attempt = None, er_target_node = None,
      er_source_node = None, er_payload = None\<rparr>"

definition int_field :: "string \<Rightarrow> nat \<Rightarrow> string \<times> json" where
  "int_field k n = (k, JInt (int n))"

fun row_of_event :: "string \<Rightarrow> event \<Rightarrow> event_row" where
  "row_of_event sid (OutboundSent ty c a tgt pl t) =
     (empty_row sid (OutboundSent ty c a tgt pl t) ''outbound_sent'')
       \<lparr>er_msg_type := Some ty, er_correlation_id := Some c, er_attempt := Some a,
        er_target_node := Some tgt, er_payload := Some pl\<rparr>"
| "row_of_event sid (InboundReply ty c src pl t) =
     (empty_row sid (InboundReply ty c src pl t) ''inbound_reply'')
       \<lparr>er_msg_type := Some ty, er_correlation_id := Some c, er_source_node := Some src,
        er_payload := Some pl\<rparr>"
| "row_of_event sid (RoundStart n t) =
     (empty_row sid (RoundStart n t) ''round_start'')
       \<lparr>er_payload := Some (JObj [int_field ''round'' n])\<rparr>"
| "row_of_event sid (RoundEndEv n t) =
     (empty_row sid (RoundEndEv n t) ''round_end'')
       \<lparr>er_payload := Some (JObj [int_field ''round'' n])\<rparr>"
| "row_of_event sid (ModelCallEnd n k m i out tot t) =
     (empty_row sid (ModelCallEnd n k m i out tot t) ''model_call_end'')
       \<lparr>er_payload := Some (JObj [int_field ''round'' n, int_field ''turn'' k,
          (''model'', JStr m), int_field ''input_tokens'' i, int_field ''output_tokens'' out,
          int_field ''total_tokens'' tot])\<rparr>"
| "row_of_event sid (ToolCallEnd n k tool ok e t) =
     (empty_row sid (ToolCallEnd n k tool ok e t) ''tool_call_end'')
       \<lparr>er_payload := Some (JObj [int_field ''round'' n, int_field ''turn'' k,
          (''tool'', JStr tool), (''success'', JBool ok),
          (''error'', case e of None \<Rightarrow> JNull | Some s \<Rightarrow> JStr s)])\<rparr>"

definition sqlite_record_event :: "string \<Rightarrow> event \<Rightarrow> sqlite \<Rightarrow> (session_error + unit) \<times> sqlite" where
  "sqlite_record_event sid ev db =
     (if \<not> db_working db then (Inl sqlite_error, db)
      else (Inr (), db\<lparr>db_events := db_events db @ [row_of_event sid ev]\<rparr>))"

definition replied_rows :: "string \<Rightarrow> sqlite \<Rightarrow> uuid list" where
  "replied_rows sid db =
     List.map_filter er_correlation_id
       (filter (\<lambda>r. er_session_id r = sid \<and> er_kind r = ''inbound_reply'') (db_events db))"

definition unreplied_rows :: "string \<Rightarrow> sqlite \<Rightarrow> event_row list" where
  "unreplied_rows sid db =
     filter (\<lambda>r. er_session_id r = sid \<and> er_kind r = ''outbound_sent'' \<and>
                 (case er_correlation_id r of
                    None \<Rightarrow> replied_rows sid db = []
                  | Some c \<Rightarrow> c \<notin> set (replied_rows sid db))) (db_events db)"

definition group_of :: "event_row list \<Rightarrow> uuid \<Rightarrow> event_row list" where
  "group_of rows c = filter (\<lambda>r. er_correlation_id r = Some c) rows"

definition max_attempt_of :: "event_row list \<Rightarrow> nat option" where
  "max_attempt_of g =
     (case List.map_filter er_attempt g of [] \<Rightarrow> None | as \<Rightarrow> Some (Max (set as)))"

definition pending_of_group :: "(event_row list \<Rightarrow> nat) \<Rightarrow> event_row list \<Rightarrow> uuid \<Rightarrow> pending_outbound" where
  "pending_of_group pick g c =
     (let r = g ! (pick g mod length g)
      in \<lparr>po_msg_type = (case er_msg_type r of Some ty \<Rightarrow> ty | None \<Rightarrow> []),
          po_correlation_id = c,
          po_target_nodes = (case er_target_node r of Some ts \<Rightarrow> ts | None \<Rightarrow> []),
          po_payload = (case er_payload r of Some pl \<Rightarrow> pl | None \<Rightarrow> JNull),
          po_attempt = (case max_attempt_of g of Some a \<Rightarrow> a | None \<Rightarrow> 1)\<rparr>)"

text \<open>\<^verbatim>\<open>GROUP BY correlation_id ORDER BY MIN(captured_at)\<close>; the group of the NULL ids is skipped.\<close>

definition sqlite_pending_outbound ::
  "(event_row list \<Rightarrow> nat) \<Rightarrow> string \<Rightarrow> sqlite \<Rightarrow> session_error + pending_outbound list" where
  "sqlite_pending_outbound pick sid db =
     (if \<not> db_working db then Inl sqlite_error
      else (let rows = unreplied_rows sid db;
                cids = remdups (List.map_filter er_correlation_id rows);
                ordered = sort_key (\<lambda>c. Min (set (map er_captured_at (group_of rows c)))) cids
            in Inr (map (\<lambda>c. pending_of_group pick (group_of rows c) c) ordered)))"

definition sqlite_ops :: "(event_row list \<Rightarrow> nat) \<Rightarrow> sqlite store_ops" where
  "sqlite_ops pick =
     \<lparr>so_list = sqlite_list, so_load = sqlite_load, so_save = sqlite_save,
      so_delete = sqlite_delete, so_snapshot = sqlite_snapshot,
      so_record_event = sqlite_record_event,
      so_pending_outbound = sqlite_pending_outbound pick\<rparr>"

lemma sqlite_ops_simps [simp]:
  "so_load (sqlite_ops pick) = sqlite_load"
  "so_save (sqlite_ops pick) = sqlite_save"
  "so_record_event (sqlite_ops pick) = sqlite_record_event"
  "so_pending_outbound (sqlite_ops pick) = sqlite_pending_outbound pick"
  "so_snapshot (sqlite_ops pick) = sqlite_snapshot"
  "so_delete (sqlite_ops pick) = sqlite_delete"
  "so_list (sqlite_ops pick) = sqlite_list"
  by (simp_all add: sqlite_ops_def)

subsection \<open>The contract\<close>

fun event_of_row :: "event_row \<Rightarrow> event option" where
  "event_of_row r =
     (if er_kind r = ''outbound_sent''
      then Some (OutboundSent (the (er_msg_type r)) (the (er_correlation_id r)) (the (er_attempt r))
                   (the (er_target_node r)) (the (er_payload r)) (er_captured_at r))
      else if er_kind r = ''inbound_reply''
      then Some (InboundReply (the (er_msg_type r)) (the (er_correlation_id r))
                   (the (er_source_node r)) (the (er_payload r)) (er_captured_at r))
      else None)"

declare event_of_row.simps [simp del]

abbreviation entry_row :: "string \<times> event \<Rightarrow> event_row" where
  "entry_row \<equiv> (\<lambda>(sid, ev). row_of_event sid ev)"

definition rows_ok :: "event_row list \<Rightarrow> bool" where
  "rows_ok rows \<longleftrightarrow> rows \<in> range (map entry_row)"

definition sqlite_ready :: "sqlite \<Rightarrow> bool" where
  "sqlite_ready db \<longleftrightarrow> db_working db \<and> rows_ok (db_events db)"

definition rows_log :: "string \<Rightarrow> event_row list \<Rightarrow> event list" where
  "rows_log sid rows = List.map_filter event_of_row (filter (\<lambda>r. er_session_id r = sid) rows)"

definition sqlite_log :: "string \<Rightarrow> sqlite \<Rightarrow> event list" where
  "sqlite_log sid db = rows_log sid (db_events db)"

fun event_kind :: "event \<Rightarrow> string" where
  "event_kind (OutboundSent _ _ _ _ _ _) = ''outbound_sent''"
| "event_kind (InboundReply _ _ _ _ _) = ''inbound_reply''"
| "event_kind (RoundStart _ _) = ''round_start''"
| "event_kind (RoundEndEv _ _) = ''round_end''"
| "event_kind (ModelCallEnd _ _ _ _ _ _ _) = ''model_call_end''"
| "event_kind (ToolCallEnd _ _ _ _ _ _) = ''tool_call_end''"

fun event_cid :: "event \<Rightarrow> uuid option" where
  "event_cid (OutboundSent _ c _ _ _ _) = Some c"
| "event_cid (InboundReply _ c _ _ _) = Some c"
| "event_cid _ = None"

lemma event_of_row_of_event: "event_of_row (row_of_event sid ev) = (if is_outbox ev then Some ev else None)"
  by (cases ev) (simp_all add: empty_row_def event_of_row.simps)

lemma row_of_event_simps [simp]:
  "er_session_id (row_of_event sid ev) = sid"
  "er_captured_at (row_of_event sid ev) = captured_at ev"
  "er_kind (row_of_event sid ev) = event_kind ev"
  "er_correlation_id (row_of_event sid ev) = event_cid ev"
  by (cases ev; simp add: empty_row_def)+

declare row_of_event.simps [simp del]

lemma rows_log_Cons:
  "rows_log sid (row_of_event sid' ev # rows)
     = (if sid = sid' \<and> is_outbox ev then ev # rows_log sid rows else rows_log sid rows)"
  by (simp add: rows_log_def List.map_filter_simps event_of_row_of_event)

lemma rows_log_Nil [simp]: "rows_log sid [] = []"
  by (simp add: rows_log_def List.map_filter_simps)

lemma rows_log_append: "rows_log sid (xs @ ys) = rows_log sid xs @ rows_log sid ys"
  by (simp add: rows_log_def List.map_filter_def)

lemma rows_ok_snoc: "rows_ok rows \<Longrightarrow> rows_ok (rows @ [row_of_event sid ev])"
  unfolding rows_ok_def
proof (elim imageE)
  fix es :: "(string \<times> event) list" assume "rows = map entry_row es"
  then have "rows @ [row_of_event sid ev] = map entry_row (es @ [(sid, ev)])" by simp
  then show "rows @ [row_of_event sid ev] \<in> range (map entry_row)" by blast
qed

lemma rows_induct [consumes 1, case_names Nil Cons]:
  assumes "rows_ok rows" and "P []" and "\<And>sid ev rows. P rows \<Longrightarrow> P (row_of_event sid ev # rows)"
  shows "P rows"
proof -
  have "P (map entry_row es)" for es
    by (induction es) (auto intro: assms(2,3))
  with assms(1) show ?thesis by (auto simp: rows_ok_def)
qed

definition row_sent :: "event_row \<Rightarrow> pending_outbound \<times> millis" where
  "row_sent r =
     (\<lparr>po_msg_type = the (er_msg_type r), po_correlation_id = the (er_correlation_id r),
       po_target_nodes = the (er_target_node r), po_payload = the (er_payload r),
       po_attempt = the (er_attempt r)\<rparr>, er_captured_at r)"

lemma row_sent_row_of_event: "sent_of ev = Some x \<Longrightarrow> row_sent (row_of_event sid ev) = x"
  by (cases ev) (auto simp: row_sent_def row_of_event.simps empty_row_def)

definition sent_rows :: "string \<Rightarrow> event_row list \<Rightarrow> uuid \<Rightarrow> event_row list" where
  "sent_rows sid rows c =
     filter (\<lambda>r. er_session_id r = sid \<and> er_kind r = ''outbound_sent'' \<and> er_correlation_id r = Some c) rows"

lemma set_replied_rows:
  assumes "rows_ok (db_events db)"
  shows "set (replied_rows sid db) = replied (sqlite_log sid db)"
proof -
  have "set (List.map_filter er_correlation_id
          (filter (\<lambda>r. er_session_id r = sid \<and> er_kind r = ''inbound_reply'') rows))
        = replied (rows_log sid rows)" if "rows_ok rows" for rows
    using that
  proof (induction rule: rows_induct)
    case Nil
    then show ?case by (simp add: List.map_filter_simps)
  next
    case (Cons sid' ev rows)
    then show ?case
      by (cases ev) (auto simp: rows_log_Cons List.map_filter_simps replied_Cons)
  qed
  with assms show ?thesis by (simp add: replied_rows_def sqlite_log_def)
qed

lemma sent_rows_sents:
  "rows_ok rows \<Longrightarrow> map row_sent (sent_rows sid rows c) = sents_of (rows_log sid rows) c"
proof (induction rule: rows_induct)
  case Nil
  then show ?case by (simp add: sent_rows_def)
next
  case (Cons sid' ev rows)
  then show ?case
    by (cases ev)
      (simp_all add: rows_log_Cons sent_rows_def sents_of_def sents_Cons row_sent_row_of_event)
qed

lemma sent_rows_Some:
  "rows_ok rows \<Longrightarrow> r \<in> set (sent_rows sid rows c) \<Longrightarrow>
     \<exists>ty a tgt pl. er_msg_type r = Some ty \<and> er_correlation_id r = Some c \<and> er_attempt r = Some a \<and>
       er_target_node r = Some tgt \<and> er_payload r = Some pl"
proof (induction rule: rows_induct)
  case Nil
  then show ?case by (simp add: sent_rows_def)
next
  case (Cons sid' ev rows)
  show ?case
  proof (cases "r \<in> set (sent_rows sid rows c)")
    case True
    then show ?thesis by (rule Cons.IH)
  next
    case False
    with Cons.prems have "r = row_of_event sid' ev" "event_kind ev = ''outbound_sent''" "event_cid ev = Some c"
      by (auto simp: sent_rows_def split: if_splits)
    then show ?thesis by (cases ev) (simp_all add: row_of_event.simps empty_row_def)
  qed
qed

lemma group_of_unreplied_rows:
  "c \<notin> set (replied_rows sid db) \<Longrightarrow> group_of (unreplied_rows sid db) c = sent_rows sid (db_events db) c"
  by (auto simp: group_of_def unreplied_rows_def sent_rows_def intro!: filter_cong)

lemma unreplied_cids:
  assumes "rows_ok (db_events db)"
  shows "set (List.map_filter er_correlation_id (unreplied_rows sid db)) = unreplied (sqlite_log sid db)"
    (is "?L = ?R")
proof (rule set_eqI)
  fix c
  have "c \<in> ?L \<longleftrightarrow> c \<notin> set (replied_rows sid db) \<and> sent_rows sid (db_events db) c \<noteq> []"
    by (force simp: List.map_filter_def unreplied_rows_def sent_rows_def filter_empty_conv)
  also have "\<dots> \<longleftrightarrow> c \<in> ?R"
    using sent_rows_sents [OF assms, of sid c] set_replied_rows [OF assms, of sid]
    by (auto simp: unreplied_iff sqlite_log_def simp flip: map_is_Nil_conv [of row_sent])
  finally show "c \<in> ?L \<longleftrightarrow> c \<in> ?R" .
qed

lemma map_filter_Some_all: "(\<And>x. x \<in> set xs \<Longrightarrow> f x = Some (g x)) \<Longrightarrow> List.map_filter f xs = map g xs"
  by (induction xs) (simp_all add: List.map_filter_simps)

lemma max_attempt_of_rows:
  assumes ok: "rows_ok rows" and ne: "sent_rows sid rows c \<noteq> []"
  shows "max_attempt_of (sent_rows sid rows c) = Some (max_attempt (rows_log sid rows) c)"
proof -
  let ?g = "sent_rows sid rows c"
  have "List.map_filter er_attempt ?g = map (\<lambda>r. po_attempt (fst (row_sent r))) ?g"
    by (rule map_filter_Some_all) (use sent_rows_Some [OF ok] in \<open>fastforce simp: row_sent_def\<close>)
  also have "\<dots> = map (po_attempt \<circ> fst) (sents_of (rows_log sid rows) c)"
    by (simp flip: sent_rows_sents [OF ok] add: comp_def)
  finally show ?thesis
    using ne sent_rows_sents [OF ok, of sid c]
    by (auto simp: max_attempt_of_def max_attempt_def simp del: set_map split: list.splits)
qed

lemma pending_of_sent_rows:
  assumes ok: "rows_ok rows" and ne: "sent_rows sid rows c \<noteq> []"
  shows "pending_row_ok (rows_log sid rows) (pending_of_group pick (sent_rows sid rows c) c)"
proof -
  let ?g = "sent_rows sid rows c" and ?E = "rows_log sid rows"
  define r where "r = ?g ! (pick ?g mod length ?g)"
  have r: "r \<in> set ?g" using ne by (simp add: r_def)
  obtain ty a tgt pl where f: "er_msg_type r = Some ty" "er_correlation_id r = Some c"
    "er_attempt r = Some a" "er_target_node r = Some tgt" "er_payload r = Some pl"
    using sent_rows_Some [OF ok r] by blast
  have p: "pending_of_group pick ?g c = (fst (row_sent r))\<lparr>po_attempt := max_attempt ?E c\<rparr>"
    using f max_attempt_of_rows [OF ok ne]
    by (simp add: pending_of_group_def Let_def r_def [symmetric] row_sent_def)
  have "row_sent r \<in> set (sents_of ?E c)"
    using r by (simp flip: sent_rows_sents [OF ok])
  moreover have "po_correlation_id (pending_of_group pick ?g c) = c"
    by (simp add: pending_of_group_def Let_def)
  ultimately show ?thesis
    unfolding pending_row_ok_def
    by (intro bexI [of _ "row_sent r"]) (simp_all add: case_prod_unfold p)
qed

lemma sents_of_sorted:
  assumes "well_timed evs"
  shows "sorted (map snd (sents_of evs c))"
  using assms
proof (induction evs)
  case Nil
  then show ?case by simp
next
  case (Cons e evs)
  have "\<forall>x \<in> set (sents_of evs c). captured_at e \<le> snd x"
  proof
    fix x assume "x \<in> set (sents_of evs c)"
    then obtain e' where "e' \<in> set evs" "sent_of e' = Some x"
      unfolding sents_of_def sents_def List.map_filter_def by auto
    from this(2) have "captured_at e' = snd x" by (cases e') auto
    with Cons.prems \<open>e' \<in> set evs\<close> show "captured_at e \<le> snd x" by (auto simp: well_timed_def)
  qed
  with Cons show ?case
    by (cases e) (auto simp: sents_of_def sents_Cons well_timed_def)
qed

lemma first_sent_Min:
  assumes "well_timed evs" and "sents_of evs c \<noteq> []"
  shows "Min (snd ` set (sents_of evs c)) = first_sent evs c"
  using sents_of_sorted [OF assms(1), of c] assms(2)
  by (cases "sents_of evs c") (auto simp: first_sent_def intro!: Min_eqI)

lemma sqlite_pending_contract:
  assumes "sqlite_ready db"
  shows "\<exists>ps. sqlite_pending_outbound pick sid db = Inr ps \<and> pending_ok (sqlite_log sid db) ps \<and>
    (well_timed (sqlite_log sid db) \<longrightarrow>
       sorted (map (\<lambda>p. first_sent (sqlite_log sid db) (po_correlation_id p)) ps))"
proof -
  have ok: "rows_ok (db_events db)" and w: "db_working db" using assms by (auto simp: sqlite_ready_def)
  let ?E = "sqlite_log sid db" and ?rows = "unreplied_rows sid db"
  let ?key = "\<lambda>c. Min (set (map er_captured_at (group_of ?rows c)))"
  let ?cids = "remdups (List.map_filter er_correlation_id ?rows)"
  define cs where "cs = sort_key ?key ?cids"
  define ps where "ps = map (\<lambda>c. pending_of_group pick (group_of ?rows c) c) cs"
  have cs: "set cs = unreplied ?E" "distinct cs" "sorted (map ?key cs)"
    by (simp_all add: cs_def unreplied_cids [OF ok])
  have grp: "group_of ?rows c = sent_rows sid (db_events db) c \<and> sent_rows sid (db_events db) c \<noteq> []"
    if "c \<in> set cs" for c
  proof -
    have "c \<notin> set (replied_rows sid db)" "sents_of ?E c \<noteq> []"
      using that cs(1) set_replied_rows [OF ok, of sid] by (auto simp: unreplied_iff)
    then show ?thesis
      using group_of_unreplied_rows sent_rows_sents [OF ok, of sid c] by (auto simp: sqlite_log_def)
  qed
  have cid: "map po_correlation_id ps = cs"
    by (simp add: ps_def comp_def pending_of_group_def Let_def)
  have rows: "list_all (pending_row_ok ?E) ps"
    using grp pending_of_sent_rows [OF ok] by (auto simp: ps_def list_all_iff sqlite_log_def)
  have key: "?key c = first_sent ?E c" if "c \<in> set cs" "well_timed ?E" for c
  proof -
    have "sents_of ?E c \<noteq> []" using that cs(1) by (auto simp: unreplied_iff)
    moreover have "er_captured_at ` set (sent_rows sid (db_events db) c) = snd ` set (sents_of ?E c)"
      by (simp flip: sent_rows_sents [OF ok] add: sqlite_log_def image_image row_sent_def)
    ultimately show ?thesis using first_sent_Min [OF that(2)] grp [OF that(1)] by simp
  qed
  have "sorted (map (\<lambda>p. first_sent ?E (po_correlation_id p)) ps)" if "well_timed ?E"
  proof -
    have "map (\<lambda>p. first_sent ?E (po_correlation_id p)) ps = map (first_sent ?E) (map po_correlation_id ps)"
      by simp
    also have "\<dots> = map ?key cs" using key that by (simp only: cid) auto
    finally show ?thesis using cs(3) by (simp only:)
  qed
  moreover have "sqlite_pending_outbound pick sid db = Inr ps"
    using w by (simp add: sqlite_pending_outbound_def ps_def cs_def Let_def)
  moreover have "pending_ok ?E ps"
    using cs rows by (simp add: pending_ok_def cid flip: set_map)
  ultimately show ?thesis by blast
qed

lemma find_row_upsert:
  "\<exists>t. find (\<lambda>r. row_session_id r = sm_session_id (sd_meta d)) (upsert_session d rows) =
     Some \<lparr>row_session_id = sm_session_id (sd_meta d), row_title = sm_title (sd_meta d),
           row_created_at = t, row_updated_at = sm_updated_at (sd_meta d),
           row_round_count = sm_round_count (sd_meta d), row_turn_count = sm_turn_count (sd_meta d),
           row_status = status_as_str (sm_status (sd_meta d)),
           row_current_round = sm_current_round (sd_meta d), row_state_json = sd_state d,
           row_config_json = sd_config_snapshot d, row_model_params_json = sd_model_params d\<rparr>"
proof (cases "list_ex (\<lambda>r. row_session_id r = sm_session_id (sd_meta d)) rows")
  case True
  then show ?thesis
    by (induction rows) (auto simp: upsert_session_def Let_def split: if_splits)
next
  case False
  then show ?thesis
    by (induction rows) (auto simp: upsert_session_def Let_def)
qed

lemma sqlite_save_load:
  assumes "sqlite_ready db" and "sqlite_save d db = (r, db')"
  shows "r = Inr () \<and> sqlite_ready db' \<and> sqlite_log sid db' = sqlite_log sid db \<and>
    (\<exists>d'. sqlite_load (sm_session_id (sd_meta d)) db' = Inr (Some d') \<and>
          sd_state d' = sd_state d \<and> sd_config_snapshot d' = sd_config_snapshot d \<and>
          sd_model_params d' = sd_model_params d \<and> sm_status (sd_meta d') = sm_status (sd_meta d))"
proof -
  have db': "db_sessions db' = upsert_session d (db_sessions db)" "db_events db' = db_events db"
    "db_working db'" "r = Inr ()"
    using assms by (auto simp: sqlite_save_def sqlite_ready_def Let_def split: option.splits)
  then show ?thesis
    using assms(1) find_row_upsert [of d "db_sessions db"]
    by (auto simp: sqlite_load_def find_row_def meta_of_row_def sqlite_ready_def sqlite_log_def)
qed

interpretation sqlite: session_store "sqlite_ops pick" sqlite_ready sqlite_log
proof (unfold_locales, goal_cases)
  case 1
  then show ?case
    by (auto simp: sqlite_record_event_def sqlite_ready_def intro: rows_ok_snoc)
next
  case 2
  then show ?case
    by (auto simp: sqlite_record_event_def sqlite_ready_def sqlite_log_def rows_log_append rows_log_Cons)
next
  case 3
  then show ?case
    by (auto simp: sqlite_record_event_def sqlite_ready_def sqlite_load_def find_row_def
        last_checkpoint_def split: option.splits sum.splits)
next
  case 4
  then show ?case using sqlite_pending_contract by simp
next
  case 5
  then show ?case using sqlite_save_load by simp
qed

end
