(* ===== verification/Session_Jsonl.thy ===== *)
theory Session_Jsonl
  imports Session_Sqlite
begin

text \<open>
  \<^verbatim>\<open>JsonlSessionStore\<close> (\<^verbatim>\<open>jsonl_store.rs\<close>): one append-only file per session. A line is what its
  text parses to; \<open>BadLine\<close> is text that is not JSON. A write that a crash interrupts leaves
  a last line without its newline (\<open>jf_tail\<close>), and the next append is glued to it.
\<close>

subsection \<open>Files\<close>

datatype jline =
    SaveLine session_data
  | SnapshotLine checkpoint nat state
  | LegacySnapshotLine session_data
  | EventLine event
  | BadLine

record jfile =
  jf_lines :: "jline list"
  jf_tail :: "jline option"

record jsonl =
  jd_files :: "(string \<times> jfile) list"
  jd_dir_exists :: bool
  jd_working :: bool

definition JsonlSessionStore_new :: "bool \<Rightarrow> jsonl" where
  "JsonlSessionStore_new dir = \<lparr>jd_files = [], jd_dir_exists = dir, jd_working = True\<rparr>"

definition read_lines :: "jfile \<Rightarrow> jline list" where
  "read_lines f = jf_lines f @ (case jf_tail f of None \<Rightarrow> [] | Some l \<Rightarrow> [l])"

definition io_error :: session_error where
  "io_error = SessIo ''input/output error''"

definition file_of :: "string \<Rightarrow> jsonl \<Rightarrow> jfile" where
  "file_of sid st =
     (case map_of (jd_files st) sid of None \<Rightarrow> \<lparr>jf_lines = [], jf_tail = None\<rparr> | Some f \<Rightarrow> f)"

text \<open>Append the line, then the newline; after an unterminated tail the line joins it.\<close>

definition append_to :: "jline \<Rightarrow> jfile \<Rightarrow> jfile" where
  "append_to l f =
     (case jf_tail f of
        None \<Rightarrow> f\<lparr>jf_lines := jf_lines f @ [l]\<rparr>
      | Some _ \<Rightarrow> f\<lparr>jf_lines := jf_lines f @ [BadLine], jf_tail := None\<rparr>)"

definition append_line :: "string \<Rightarrow> jline \<Rightarrow> jsonl \<Rightarrow> (session_error + unit) \<times> jsonl" where
  "append_line sid l st =
     (if \<not> jd_working st then (Inl io_error, st)
      else (Inr (), st\<lparr>jd_files := AList.update sid (append_to l (file_of sid st)) (jd_files st),
                      jd_dir_exists := True\<rparr>))"

text \<open>
  A crash during an append: nothing, a part of the line (\<open>torn\<close>), or the whole line without
  its newline has reached the disk.
\<close>

definition crash_append :: "string \<Rightarrow> jline \<Rightarrow> bool \<Rightarrow> jsonl \<Rightarrow> jsonl" where
  "crash_append sid l torn st =
     (let f = file_of sid st;
          tail = (if torn \<or> jf_tail f \<noteq> None then BadLine else l)
      in st\<lparr>jd_files := AList.update sid (f\<lparr>jf_tail := Some tail\<rparr>) (jd_files st)\<rparr>)"

subsection \<open>Operations\<close>

fun scan_lines ::
  "jline list \<Rightarrow> jline option \<Rightarrow> session_data option
    \<Rightarrow> session_error + (jline option \<times> session_data option)" where
  "scan_lines [] snap save = Inr (snap, save)"
| "scan_lines (l # ls) snap save =
     (case l of
        BadLine \<Rightarrow> Inl (SessSerde ''expected value'')
      | SnapshotLine _ _ _ \<Rightarrow> scan_lines ls (Some l) save
      | LegacySnapshotLine _ \<Rightarrow> scan_lines ls (Some l) save
      | SaveLine d \<Rightarrow> scan_lines ls snap (Some d)
      | EventLine _ \<Rightarrow> scan_lines ls snap save)"

text \<open>The latest save line, else the latest snapshot line if it holds a whole session.\<close>

fun chosen :: "jline option \<times> session_data option \<Rightarrow> session_data option" where
  "chosen (snap, Some d) = Some d"
| "chosen (Some (LegacySnapshotLine d), None) = Some d"
| "chosen (snap, None) = None"

definition jsonl_load :: "string \<Rightarrow> jsonl \<Rightarrow> session_error + session_data option" where
  "jsonl_load sid st =
     (case map_of (jd_files st) sid of
        None \<Rightarrow> Inr None
      | Some f \<Rightarrow>
          (if \<not> jd_working st then Inl io_error
           else map_sum id chosen (scan_lines (read_lines f) None None)))"

definition jsonl_list :: "jsonl \<Rightarrow> session_error + session_meta list" where
  "jsonl_list st =
     (if \<not> jd_dir_exists st \<or> \<not> jd_working st then Inl io_error
      else Inr (newest_first sm_updated_at
             (List.map_filter
                (\<lambda>(sid, _). case jsonl_load sid st of Inr (Some d) \<Rightarrow> Some (sd_meta d) | _ \<Rightarrow> None)
                (jd_files st))))"

definition jsonl_save :: "session_data \<Rightarrow> jsonl \<Rightarrow> (session_error + unit) \<times> jsonl" where
  "jsonl_save d st = append_line (sm_session_id (sd_meta d)) (SaveLine d) st"

definition jsonl_delete :: "string \<Rightarrow> jsonl \<Rightarrow> (session_error + unit) \<times> jsonl" where
  "jsonl_delete sid st =
     (case map_of (jd_files st) sid of
        None \<Rightarrow> (Inr (), st)
      | Some _ \<Rightarrow> (if \<not> jd_working st then (Inl io_error, st)
                   else (Inr (), st\<lparr>jd_files := AList.delete sid (jd_files st)\<rparr>)))"

definition jsonl_snapshot ::
  "millis \<Rightarrow> string \<Rightarrow> state \<Rightarrow> checkpoint_snapshot \<Rightarrow> jsonl
    \<Rightarrow> (session_error + snapshot_effects) \<times> jsonl" where
  "jsonl_snapshot now sid s snap st =
     (let (r, st') = append_line sid (SnapshotLine (cs_checkpoint snap) (cs_turn_index snap) s) st
      in (map_sum id (\<lambda>_. \<lparr>se_checkpoint_written = now, se_state_updated = True,
                           se_updated_at = now, se_status_forced = Interrupted\<rparr>) r, st'))"

definition jsonl_record_event :: "string \<Rightarrow> event \<Rightarrow> jsonl \<Rightarrow> (session_error + unit) \<times> jsonl" where
  "jsonl_record_event sid ev st = append_line sid (EventLine ev) st"

text \<open>
  The scan of \<^verbatim>\<open>pending_outbound\<close>. \<open>ob_last\<close> joins the three maps the code updates together
  (\<^verbatim>\<open>last_msg_type\<close>, \<^verbatim>\<open>last_target\<close>, \<^verbatim>\<open>last_payload\<close>).
\<close>

record outbox =
  ob_max_attempt :: "(uuid \<times> nat) list"
  ob_first_seen :: "(uuid \<times> millis) list"
  ob_last :: "(uuid \<times> (string \<times> string list \<times> json)) list"
  ob_replied :: "uuid list"

fun scan_event :: "event \<Rightarrow> outbox \<Rightarrow> outbox" where
  "scan_event (OutboundSent ty c a tgt pl t) ob =
     ob\<lparr>ob_max_attempt := AList.update c
          (case map_of (ob_max_attempt ob) c of None \<Rightarrow> max a 0 | Some m \<Rightarrow> max a m) (ob_max_attempt ob),
        ob_first_seen :=
          (case map_of (ob_first_seen ob) c of None \<Rightarrow> AList.update c t (ob_first_seen ob)
           | Some _ \<Rightarrow> ob_first_seen ob),
        ob_last := AList.update c (ty, tgt, pl) (ob_last ob)\<rparr>"
| "scan_event (InboundReply _ c _ _ _) ob = ob\<lparr>ob_replied := List.insert c (ob_replied ob)\<rparr>"
| "scan_event _ ob = ob"

fun event_of_line :: "jline \<Rightarrow> event option" where
  "event_of_line (EventLine ev) = Some ev"
| "event_of_line _ = None"

definition scan_outbox :: "event list \<Rightarrow> outbox" where
  "scan_outbox evs =
     fold scan_event evs \<lparr>ob_max_attempt = [], ob_first_seen = [], ob_last = [], ob_replied = []\<rparr>"

definition row_of_entry :: "outbox \<Rightarrow> uuid \<Rightarrow> nat \<Rightarrow> pending_outbound" where
  "row_of_entry ob c a =
     (let (ty, tgt, pl) = (case map_of (ob_last ob) c of Some x \<Rightarrow> x | None \<Rightarrow> ([], [], JNull))
      in \<lparr>po_msg_type = ty, po_correlation_id = c, po_target_nodes = tgt, po_payload = pl,
          po_attempt = a\<rparr>)"

definition pending_rows :: "outbox \<Rightarrow> pending_outbound list" where
  "pending_rows ob =
     map (\<lambda>(c, a). row_of_entry ob c a)
       (filter (\<lambda>(c, _). c \<notin> set (ob_replied ob)) (ob_max_attempt ob))"

lemma row_of_entry_cid [simp]: "po_correlation_id (row_of_entry ob c a) = c"
  by (simp add: row_of_entry_def case_prod_unfold Let_def)

definition seen_at :: "outbox \<Rightarrow> uuid \<Rightarrow> millis" where
  "seen_at ob c = (case map_of (ob_first_seen ob) c of Some t \<Rightarrow> t | None \<Rightarrow> 0)"

definition jsonl_pending_outbound :: "string \<Rightarrow> jsonl \<Rightarrow> session_error + pending_outbound list" where
  "jsonl_pending_outbound sid st =
     (case map_of (jd_files st) sid of
        None \<Rightarrow> Inr []
      | Some f \<Rightarrow>
          (if \<not> jd_working st then Inl io_error
           else (let ob = scan_outbox (List.map_filter event_of_line (read_lines f))
                 in Inr (sort_key (\<lambda>p. seen_at ob (po_correlation_id p)) (pending_rows ob)))))"

definition jsonl_ops :: "jsonl store_ops" where
  "jsonl_ops =
     \<lparr>so_list = jsonl_list, so_load = jsonl_load, so_save = jsonl_save, so_delete = jsonl_delete,
      so_snapshot = jsonl_snapshot, so_record_event = jsonl_record_event,
      so_pending_outbound = jsonl_pending_outbound\<rparr>"

lemma jsonl_ops_simps [simp]:
  "so_load jsonl_ops = jsonl_load"
  "so_save jsonl_ops = jsonl_save"
  "so_record_event jsonl_ops = jsonl_record_event"
  "so_pending_outbound jsonl_ops = jsonl_pending_outbound"
  "so_snapshot jsonl_ops = jsonl_snapshot"
  "so_delete jsonl_ops = jsonl_delete"
  "so_list jsonl_ops = jsonl_list"
  by (simp_all add: jsonl_ops_def)

subsection \<open>The contract\<close>

definition scan_ok :: "event list \<Rightarrow> outbox \<Rightarrow> bool" where
  "scan_ok evs ob \<longleftrightarrow>
     distinct (keys (ob_max_attempt ob)) \<and>
     set (ob_replied ob) = replied evs \<and>
     (\<forall>c. if sents_of evs c = []
          then map_of (ob_max_attempt ob) c = None \<and> map_of (ob_first_seen ob) c = None \<and>
               map_of (ob_last ob) c = None
          else map_of (ob_max_attempt ob) c = Some (max_attempt evs c) \<and>
               map_of (ob_first_seen ob) c = Some (first_sent evs c) \<and>
               (let q = fst (last (sents_of evs c))
                in map_of (ob_last ob) c = Some (po_msg_type q, po_target_nodes q, po_payload q)))"

lemma sents_of_single:
  "sents_of [e] c = (case sent_of e of None \<Rightarrow> [] | Some (p, t) \<Rightarrow> if po_correlation_id p = c then [(p, t)] else [])"
  by (auto simp: sents_of_def sents_Cons split: option.splits)

lemma max_attempt_other:
  "sents_of [e] c = [] \<Longrightarrow> max_attempt (evs @ [e]) c = max_attempt evs c"
  by (simp add: max_attempt_def)

lemma first_sent_snoc: "sents_of evs c \<noteq> [] \<Longrightarrow> first_sent (evs @ ys) c = first_sent evs c"
  by (simp add: first_sent_def)

lemma scan_ok_at:
  assumes "scan_ok evs ob"
  shows "if sents_of evs c = []
         then map_of (ob_max_attempt ob) c = None \<and> map_of (ob_first_seen ob) c = None \<and>
              map_of (ob_last ob) c = None
         else map_of (ob_max_attempt ob) c = Some (max_attempt evs c) \<and>
              map_of (ob_first_seen ob) c = Some (first_sent evs c) \<and>
              map_of (ob_last ob) c = Some (po_msg_type (fst (last (sents_of evs c))),
                po_target_nodes (fst (last (sents_of evs c))), po_payload (fst (last (sents_of evs c))))"
  using assms unfolding scan_ok_def Let_def by blast

lemma scan_ok_outbound:
  assumes ok: "scan_ok evs ob"
  shows "scan_ok (evs @ [OutboundSent ty c a tgt pl t]) (scan_event (OutboundSent ty c a tgt pl t) ob)"
proof -
  let ?e = "OutboundSent ty c a tgt pl t"
  have single: "sents_of [?e] d = (if c = d then
      [(\<lparr>po_msg_type = ty, po_correlation_id = c, po_target_nodes = tgt, po_payload = pl, po_attempt = a\<rparr>, t)]
      else [])" for d
    by (simp add: sents_of_single)
  have dist: "distinct (keys (ob_max_attempt (scan_event ?e ob)))"
    using ok by (simp add: scan_ok_def distinct_keys_update)
  have rep: "set (ob_replied (scan_event ?e ob)) = replied (evs @ [?e])"
    using ok by (simp add: scan_ok_def replied_Cons)
  have this_cid: "map_of (ob_max_attempt (scan_event ?e ob)) c = Some (max_attempt (evs @ [?e]) c) \<and>
    map_of (ob_first_seen (scan_event ?e ob)) c = Some (first_sent (evs @ [?e]) c) \<and>
    map_of (ob_last (scan_event ?e ob)) c = Some (ty, tgt, pl)"
  proof (cases "sents_of evs c = []")
    case True
    with ok have "map_of (ob_max_attempt ob) c = None" "map_of (ob_first_seen ob) c = None"
      by (auto simp: scan_ok_def split: if_splits)
    with True show ?thesis
      by (simp add: update_conv' max_attempt_def first_sent_def single)
  next
    case False
    with ok have "map_of (ob_max_attempt ob) c = Some (max_attempt evs c)"
      "map_of (ob_first_seen ob) c = Some (first_sent evs c)"
      by (auto simp: scan_ok_def Let_def split: if_splits)
    with False show ?thesis
      by (simp add: update_conv' max_attempt_snoc [OF False] first_sent_snoc)
  qed
  have other: "map_of (ob_max_attempt (scan_event ?e ob)) d = map_of (ob_max_attempt ob) d \<and>
    map_of (ob_first_seen (scan_event ?e ob)) d = map_of (ob_first_seen ob) d \<and>
    map_of (ob_last (scan_event ?e ob)) d = map_of (ob_last ob) d" if "c \<noteq> d" for d
    using that by (auto simp: update_conv' split: option.splits)
  show ?thesis
    unfolding scan_ok_def Let_def
  proof (intro conjI allI)
    fix d
    show "if sents_of (evs @ [?e]) d = []
      then map_of (ob_max_attempt (scan_event ?e ob)) d = None \<and>
           map_of (ob_first_seen (scan_event ?e ob)) d = None \<and>
           map_of (ob_last (scan_event ?e ob)) d = None
      else map_of (ob_max_attempt (scan_event ?e ob)) d = Some (max_attempt (evs @ [?e]) d) \<and>
           map_of (ob_first_seen (scan_event ?e ob)) d = Some (first_sent (evs @ [?e]) d) \<and>
           map_of (ob_last (scan_event ?e ob)) d =
             Some (po_msg_type (fst (last (sents_of (evs @ [?e]) d))),
                   po_target_nodes (fst (last (sents_of (evs @ [?e]) d))),
                   po_payload (fst (last (sents_of (evs @ [?e]) d))))"
    proof (cases "c = d")
      case True
      with this_cid single show ?thesis by simp
    next
      case False
      then have "sents_of (evs @ [?e]) d = sents_of evs d" "max_attempt (evs @ [?e]) d = max_attempt evs d"
        "first_sent (evs @ [?e]) d = first_sent evs d"
        by (simp_all add: single max_attempt_def first_sent_def)
      moreover note scan_ok_at [OF ok, of d]
      ultimately show ?thesis using other [OF False] by (simp del: scan_event.simps)
    qed
  qed (rule dist rep)+
qed

lemma scan_ok_silent:
  assumes "scan_ok evs ob" and "sent_of e = None"
    and "ob_max_attempt ob' = ob_max_attempt ob" and "ob_first_seen ob' = ob_first_seen ob"
    and "ob_last ob' = ob_last ob" and "set (ob_replied ob') = replied (evs @ [e])"
  shows "scan_ok (evs @ [e]) ob'"
proof -
  have "sents_of (evs @ [e]) c = sents_of evs c" "max_attempt (evs @ [e]) c = max_attempt evs c"
    "first_sent (evs @ [e]) c = first_sent evs c" for c
    using assms(2) by (simp_all add: sents_of_single max_attempt_def first_sent_def)
  with assms show ?thesis by (simp add: scan_ok_def)
qed

lemma scan_outbox_ok: "scan_ok evs (scan_outbox evs)"
proof (induction evs rule: rev_induct)
  case Nil
  then show ?case by (simp add: scan_ok_def scan_outbox_def)
next
  case (snoc e evs)
  have s: "scan_outbox (evs @ [e]) = scan_event e (scan_outbox evs)" by (simp add: scan_outbox_def)
  have rep: "set (ob_replied (scan_outbox evs)) = replied evs" using snoc by (simp add: scan_ok_def)
  show ?case
    unfolding s
  proof (cases e)
    case OutboundSent
    with scan_ok_outbound [OF snoc] show "scan_ok (evs @ [e]) (scan_event e (scan_outbox evs))" by simp
  qed (rule scan_ok_silent [OF snoc]; simp add: rep replied_Cons)+
qed

lemma scan_outboxD:
  assumes "sents_of evs c \<noteq> []"
  shows "map_of (ob_max_attempt (scan_outbox evs)) c = Some (max_attempt evs c)"
    and "seen_at (scan_outbox evs) c = first_sent evs c"
    and "map_of (ob_last (scan_outbox evs)) c = Some (po_msg_type (fst (last (sents_of evs c))),
           po_target_nodes (fst (last (sents_of evs c))), po_payload (fst (last (sents_of evs c))))"
  using scan_ok_at [OF scan_outbox_ok, of evs c] assms by (simp_all add: seen_at_def)

lemma scan_outbox_keys: "set (keys (ob_max_attempt (scan_outbox evs))) = {c. sents_of evs c \<noteq> []}"
proof (rule set_eqI)
  fix c
  have "c \<in> set (keys (ob_max_attempt (scan_outbox evs)))
          \<longleftrightarrow> map_of (ob_max_attempt (scan_outbox evs)) c \<noteq> None"
    by (simp only: map_of_eq_None_iff set_map not_not)
  then show "c \<in> set (keys (ob_max_attempt (scan_outbox evs))) \<longleftrightarrow> c \<in> {c. sents_of evs c \<noteq> []}"
    using scan_ok_at [OF scan_outbox_ok, of evs c] by (simp split: if_splits)
qed

lemma pending_rows_ok: "pending_ok evs (pending_rows (scan_outbox evs))"
proof -
  let ?ob = "scan_outbox evs"
  let ?kept = "filter (\<lambda>(c, _). c \<notin> set (ob_replied ?ob)) (ob_max_attempt ?ob)"
  have ok: "distinct (keys (ob_max_attempt ?ob))" "set (ob_replied ?ob) = replied evs"
    using scan_outbox_ok [of evs] by (auto simp: scan_ok_def)
  have cids: "map po_correlation_id (pending_rows ?ob) = keys ?kept"
    by (simp add: pending_rows_def comp_def case_prod_unfold)
  have set_kept: "set (keys ?kept) = unreplied evs"
  proof -
    have "set (keys ?kept) = {c \<in> set (keys (ob_max_attempt ?ob)). c \<notin> set (ob_replied ?ob)}"
      by force
    then show ?thesis by (simp only: scan_outbox_keys ok(2)) (auto simp: unreplied_iff)
  qed
  have row: "pending_row_ok evs p" if mem: "p \<in> set (pending_rows ?ob)" for p
  proof -
    obtain c a where ca: "(c, a) \<in> set (ob_max_attempt ?ob)" "c \<notin> set (ob_replied ?ob)"
      "p = row_of_entry ?ob c a"
      using mem by (auto simp: pending_rows_def)
    then have ne: "sents_of evs c \<noteq> []" using scan_outbox_keys [of evs] by force
    have a: "a = max_attempt evs c"
      using ca(1) ok(1) scan_outboxD(1) [OF ne] by simp
    let ?x = "last (sents_of evs c)"
    have x: "?x \<in> set (sents_of evs c)" using ne by simp
    then have "po_correlation_id (fst ?x) = c" by (auto simp: sents_of_def)
    then have p: "p = (fst ?x)\<lparr>po_attempt := max_attempt evs c\<rparr>" "po_correlation_id p = c"
      using ca(3) a scan_outboxD(3) [OF ne] by (simp_all add: row_of_entry_def)
    show ?thesis
      unfolding pending_row_ok_def p(2)
      by (rule bexI [OF _ x]) (simp add: p(1) case_prod_unfold)
  qed
  show ?thesis
    using row distinct_keys_filter [OF ok(1)]
    by (simp add: pending_ok_def cids set_kept [symmetric] list_all_iff flip: set_map)
qed

lemma pending_ok_perm: "mset ps = mset qs \<Longrightarrow> pending_ok evs ps \<longleftrightarrow> pending_ok evs qs"
proof -
  assume eq: "mset ps = mset qs"
  then have "set ps = set qs" by (rule mset_eq_setD)
  moreover have "distinct (map po_correlation_id ps) = distinct (map po_correlation_id qs)"
    using eq by (metis mset_map mset_eq_imp_distinct_iff)
  ultimately show ?thesis by (simp add: pending_ok_def list_all_iff)
qed

definition jsonl_ready :: "jsonl \<Rightarrow> bool" where
  "jsonl_ready st \<longleftrightarrow> jd_working st \<and>
     (\<forall>(sid, f) \<in> set (jd_files st). jf_tail f = None \<and> BadLine \<notin> set (jf_lines f))"

definition file_events :: "jfile \<Rightarrow> event list" where
  "file_events f = List.map_filter event_of_line (read_lines f)"

definition jsonl_log :: "string \<Rightarrow> jsonl \<Rightarrow> event list" where
  "jsonl_log sid st = filter is_outbox (file_events (file_of sid st))"

lemma scan_outbox_filter: "scan_outbox (filter is_outbox evs) = scan_outbox evs"
proof -
  have "fold scan_event (filter is_outbox evs) ob = fold scan_event evs ob" for ob
  proof (induction evs arbitrary: ob)
    case Nil
    then show ?case by simp
  next
    case (Cons e evs)
    then show ?case by (cases e) simp_all
  qed
  then show ?thesis by (simp add: scan_outbox_def)
qed

lemma file_of_ready: "jsonl_ready st \<Longrightarrow> jf_tail (file_of sid st) = None \<and> BadLine \<notin> set (jf_lines (file_of sid st))"
  by (auto simp: jsonl_ready_def file_of_def split: option.splits dest!: map_of_SomeD)

lemma append_to_ready: "jf_tail f = None \<Longrightarrow> append_to l f = f\<lparr>jf_lines := jf_lines f @ [l]\<rparr>"
  by (simp add: append_to_def)

lemma append_line_ready:
  assumes "jsonl_ready st" and "append_line sid l st = (r, st')" and "l \<noteq> BadLine"
  shows "r = Inr ()" and "jsonl_ready st'"
    and "file_of sid' st' = (if sid' = sid then append_to l (file_of sid st) else file_of sid' st)"
    and "map_of (jd_files st') sid' = (if sid' = sid then Some (append_to l (file_of sid st))
           else map_of (jd_files st) sid')"
proof -
  have st': "r = Inr ()" "jd_files st' = AList.update sid (append_to l (file_of sid st)) (jd_files st)"
    "jd_working st'"
    using assms by (auto simp: append_line_def jsonl_ready_def)
  show "r = Inr ()" by (rule st'(1))
  show "jsonl_ready st'"
    using st' assms(1,3) file_of_ready [OF assms(1), of sid]
    by (auto simp: jsonl_ready_def append_to_ready dest!: in_update_D)
  show m: "map_of (jd_files st') sid' = (if sid' = sid then Some (append_to l (file_of sid st))
           else map_of (jd_files st) sid')"
    by (simp add: st'(2) update_conv')
  show "file_of sid' st' = (if sid' = sid then append_to l (file_of sid st) else file_of sid' st)"
    by (simp add: file_of_def [of sid' st'] m) (simp add: file_of_def)
qed

lemma scan_lines_snoc_event:
  "scan_lines (ls @ [EventLine ev]) snap save = scan_lines ls snap save"
  by (induction ls arbitrary: snap save) (auto split: jline.splits)

lemma scan_lines_snoc_save:
  "BadLine \<notin> set ls \<Longrightarrow> \<exists>snap'. scan_lines (ls @ [SaveLine d]) snap save = Inr (snap', Some d)"
proof (induction ls arbitrary: snap save)
  case Nil
  then show ?case by simp
next
  case (Cons l ls)
  then show ?case by (cases l) simp_all
qed

lemma jsonl_record_load:
  assumes "jsonl_ready st" and "jsonl_record_event sid ev st = (r, st')"
  shows "jsonl_load sid' st' = jsonl_load sid' st"
proof -
  have w: "jd_working st" "jd_working st'"
    using assms append_line_ready(2) [OF assms(1)] by (auto simp: jsonl_record_event_def jsonl_ready_def)
  note al = append_line_ready [OF assms(1) assms(2) [unfolded jsonl_record_event_def]]
  show ?thesis
  proof (cases "sid' = sid")
    case False
    then show ?thesis using al(4) [of sid'] w by (simp add: jsonl_load_def split: option.splits)
  next
    case True
    have m: "map_of (jd_files st') sid = Some (append_to (EventLine ev) (file_of sid st))"
      using al(4) [of sid] by simp
    have f: "jf_tail (file_of sid st) = None" using file_of_ready [OF assms(1)] by simp
    show ?thesis
      using True m f w
      by (cases "map_of (jd_files st) sid")
        (simp_all add: jsonl_load_def append_to_ready read_lines_def scan_lines_snoc_event file_of_def)
  qed
qed

lemma jsonl_pending_contract:
  assumes "jsonl_ready st"
  shows "\<exists>ps. jsonl_pending_outbound sid st = Inr ps \<and> pending_ok (jsonl_log sid st) ps \<and>
    sorted (map (\<lambda>p. first_sent (jsonl_log sid st) (po_correlation_id p)) ps)"
proof (cases "map_of (jd_files st) sid")
  case None
  then have "jsonl_log sid st = []"
    by (simp add: jsonl_log_def file_of_def file_events_def read_lines_def List.map_filter_simps)
  then show ?thesis
    using None by (simp add: jsonl_pending_outbound_def pending_ok_def unreplied_def)
next
  case (Some f)
  let ?E = "jsonl_log sid st"
  define ob where "ob = scan_outbox ?E"
  define ps where "ps = sort_key (\<lambda>p. seen_at ob (po_correlation_id p)) (pending_rows ob)"
  have "file_of sid st = f" using Some by (simp add: file_of_def)
  then have r: "jsonl_pending_outbound sid st = Inr ps"
    using Some assms
    by (simp add: jsonl_pending_outbound_def jsonl_ready_def ps_def ob_def jsonl_log_def file_events_def
        scan_outbox_filter Let_def)
  have ok: "pending_ok ?E ps"
    using pending_rows_ok [of ?E] pending_ok_perm [of ps "pending_rows ob"] by (simp add: ps_def ob_def)
  have "seen_at ob (po_correlation_id p) = first_sent ?E (po_correlation_id p)" if "p \<in> set ps" for p
  proof -
    have "po_correlation_id p \<in> unreplied ?E" using ok that by (auto simp: pending_ok_def)
    then show ?thesis using scan_outboxD(2) [of ?E] by (simp add: unreplied_iff ob_def)
  qed
  then have "map (\<lambda>p. first_sent ?E (po_correlation_id p)) ps = map (\<lambda>p. seen_at ob (po_correlation_id p)) ps"
    by simp
  moreover have "sorted (map (\<lambda>p. seen_at ob (po_correlation_id p)) ps)" by (simp add: ps_def)
  ultimately show ?thesis using r ok by metis
qed

lemma jsonl_save_load:
  assumes "jsonl_ready st" and "jsonl_save d st = (r, st')"
  shows "r = Inr () \<and> jsonl_ready st' \<and> jsonl_log sid st' = jsonl_log sid st \<and>
    jsonl_load (sm_session_id (sd_meta d)) st' = Inr (Some d)"
proof -
  let ?i = "sm_session_id (sd_meta d)"
  note al = append_line_ready [OF assms(1) assms(2) [unfolded jsonl_save_def]]
  have f: "jf_tail (file_of ?i st) = None" "BadLine \<notin> set (jf_lines (file_of ?i st))"
    using file_of_ready [OF assms(1)] by simp_all
  have log: "jsonl_log sid st' = jsonl_log sid st"
    using al(3) [of sid] f
    by (simp add: jsonl_log_def file_events_def append_to_ready read_lines_def List.map_filter_def)
  obtain snap where "scan_lines (jf_lines (file_of ?i st) @ [SaveLine d]) None None = Inr (snap, Some d)"
    using scan_lines_snoc_save [OF f(2)] by blast
  then have "jsonl_load ?i st' = Inr (Some d)"
    using al(4) [of ?i] al(2) f(1)
    by (simp add: jsonl_load_def append_to_ready read_lines_def jsonl_ready_def)
  with al(1,2) log show ?thesis by simp
qed

interpretation jsonl: session_store jsonl_ops jsonl_ready jsonl_log
proof (unfold_locales, goal_cases)
  case (1 st sid ev r st')
  then show ?case
    using append_line_ready(1,2) [of st sid "EventLine ev" r st'] by (simp add: jsonl_record_event_def)
next
  case (2 st sid ev r st' sid')
  then have "file_of sid' st' = (if sid' = sid then append_to (EventLine ev) (file_of sid st) else file_of sid' st)"
    using append_line_ready(3) [of st sid "EventLine ev" r st'] by (simp add: jsonl_record_event_def)
  with file_of_ready [OF 2(1), of sid] show ?case
    by (simp add: jsonl_log_def file_events_def append_to_ready read_lines_def List.map_filter_def)
next
  case (3 st sid ev r st' sid')
  then show ?case using jsonl_record_load [of st sid ev r st' sid'] by simp
next
  case (4 st sid)
  then show ?case using jsonl_pending_contract [of st sid] by auto
next
  case (5 st d r st' sid)
  then show ?case using jsonl_save_load [of st d r st' sid] by auto
qed

end
