(* ===== verification/Session_Props.thy ===== *)
theory Session_Props
  imports Session_Jsonl
begin

text \<open>
  What the two session stores guarantee: they derive the same outbox from the same events,
  a saved session is loaded back, a snapshot has its four effects; and what they do not: a
  crash during an append costs the JSONL store its session, and deleting a SQLite session
  leaves its outbox behind.
\<close>


definition demo_events :: "(string \<times> event) list" where
  "demo_events =
     [(''s'', OutboundSent ''peer_message'' 1 1 [''b''] JNull 10),
      (''t'', OutboundSent ''peer_message'' 5 1 [''b''] JNull 11),
      (''s'', RoundStart 1 12),
      (''s'', OutboundSent ''human_handoff'' 2 1 [''ui''] JNull 20),
      (''s'', OutboundSent ''peer_message'' 1 2 [''b''] JNull 30),
      (''s'', OutboundSent ''peer_message'' 3 1 [''c''] JNull 40),
      (''s'', InboundReply ''peer_reply'' 3 ''c'' JNull 50)]"



subsection \<open>Saving and loading\<close>

lemma find_map_same:
  "(\<And>r. P (f r) = P r) \<Longrightarrow> find P (map f rows) = map_option f (find P rows)"
  by (induction rows) auto





lemma insort_key_last: "\<forall>x \<in> set ys. f x < f y \<Longrightarrow> insort_key f y ys = ys @ [y]"
  by (induction ys) auto

lemma newest_first_snoc:
  assumes "\<forall>x \<in> set xs. f x < f y"
  shows "newest_first f (xs @ [y]) = y # newest_first f xs"
  using assms by (simp add: newest_first_def insort_key_last)

lemma last_checkpoint_put:
  assumes "\<forall>c \<in> set (db_checkpoints db). ck_session_id c = sid \<longrightarrow> ck_captured_at c \<le> cs_captured_at snap"
  shows "last_checkpoint i (db\<lparr>db_checkpoints := put_checkpoint sid snap (db_checkpoints db)\<rparr>)
           = (if i = sid then Some snap else last_checkpoint i db)"
proof (cases "i = sid")
  case True
  let ?old = "filter (\<lambda>c. ck_session_id c = sid)
     (filter (\<lambda>c. \<not> (ck_session_id c = sid \<and> ck_captured_at c = cs_captured_at snap)) (db_checkpoints db))"
  have "\<forall>c \<in> set ?old. ck_captured_at c < cs_captured_at snap"
    using assms by (auto simp: order_less_le)
  then show ?thesis
    using True by (simp add: last_checkpoint_def put_checkpoint_def newest_first_snoc)
next
  case False
  have "filter (\<lambda>c. ck_session_id c = i) (put_checkpoint sid snap (db_checkpoints db))
        = filter (\<lambda>c. ck_session_id c = i) (db_checkpoints db)"
    using False by (auto simp: put_checkpoint_def intro!: filter_cong)
  with False show ?thesis by (simp add: last_checkpoint_def)
qed


definition demo_data :: session_data where
  "demo_data =
     \<lparr>sd_meta = SessionMeta_new 5 ''s'' ''title'', sd_state = State_new, sd_last_checkpoint = None,
      sd_config_snapshot = JNull, sd_model_params = CoreModelParams_default\<rparr>"


subsection \<open>Snapshots\<close>

text \<open>
  A snapshot of a SQLite session has its four effects and no other. A session that does
  not exist is reported and nothing is written. Otherwise the session loads back with the
  new state, the new checkpoint, the new instant and the status \<open>Interrupted\<close>, except that a
  session being cancelled stays \<open>Cancelling\<close>; everything else of it, every other session and
  the event log are as before. The checkpoint must not be older than those stored.
\<close>

theorem sqlite_snapshot_effects:
  assumes "db_working db" and "sqlite_snapshot now sid s snap db = (r, db')"
    and "\<forall>c \<in> set (db_checkpoints db). ck_session_id c = sid \<longrightarrow> ck_captured_at c \<le> cs_captured_at snap"
    and "sqlite_load sid db = Inr od"
  shows "(case od of
            None \<Rightarrow> r = Inl (SessNotFound sid) \<and> db' = db
          | Some d \<Rightarrow>
              (let st = (if sm_status (sd_meta d) = Cancelling then Cancelling else Interrupted)
               in r = Inr \<lparr>se_checkpoint_written = cs_captured_at snap, se_state_updated = True,
                           se_updated_at = now, se_status_forced = st\<rparr> \<and>
                  sqlite_load sid db' = Inr (Some (d\<lparr>sd_meta := (sd_meta d)\<lparr>sm_updated_at := now,
                                                                            sm_status := st\<rparr>,
                                                     sd_state := s,
                                                     sd_last_checkpoint := Some snap\<rparr>)) \<and>
                  db_events db' = db_events db \<and>
                  (\<forall>i. i \<noteq> sid \<longrightarrow> sqlite_load i db' = sqlite_load i db)))"
proof (cases "find_row sid db")
  case None
  with assms show ?thesis by (auto simp: sqlite_snapshot_def sqlite_load_def)
next
  case (Some row)
  then obtain m where m: "meta_of_row row = Inr m"
    "od = Some \<lparr>sd_meta = m, sd_state = row_state_json row, sd_last_checkpoint = last_checkpoint sid db,
               sd_config_snapshot = row_config_json row, sd_model_params = row_model_params_json row\<rparr>"
    using assms(1,4) by (auto simp: sqlite_load_def split: sum.splits)
  let ?st = "forced_status (row_status row)"
  let ?f = "\<lambda>r. if row_session_id r = sid
     then r\<lparr>row_state_json := s, row_updated_at := now, row_status := status_as_str ?st\<rparr> else r"
  have st: "?st = (if sm_status m = Cancelling then Cancelling else Interrupted)"
    using m(1) by (auto simp: meta_of_row_def forced_status_def status_from_str_def split: sum.splits if_splits)
  have db': "db_sessions db' = map ?f (db_sessions db)" "db_working db'" "db_events db' = db_events db"
    "db_checkpoints db' = put_checkpoint sid snap (db_checkpoints db)"
    and r: "r = Inr \<lparr>se_checkpoint_written = cs_captured_at snap, se_state_updated = True,
                     se_updated_at = now, se_status_forced = ?st\<rparr>"
    using assms(1,2) Some by (auto simp: sqlite_snapshot_def Let_def)
  have fr: "find_row i db' = map_option ?f (find_row i db)" for i
    unfolding find_row_def db'(1) by (rule find_map_same) simp
  have lc: "last_checkpoint i db' = (if i = sid then Some snap else last_checkpoint i db)" for i
    using last_checkpoint_put [OF assms(3), of i] by (simp add: last_checkpoint_def db'(4))
  have other: "sqlite_load i db' = sqlite_load i db" if "i \<noteq> sid" for i
  proof (cases "find_row i db")
    case None
    with fr db' assms(1) show ?thesis by (simp add: sqlite_load_def)
  next
    case (Some r')
    then have "row_session_id r' = i" by (auto simp: find_row_def dest: find_SomeD)
    with Some that fr [of i] db' assms(1) lc show ?thesis by (simp add: sqlite_load_def split: sum.splits)
  qed
  have "row_session_id row = sid" using Some by (auto simp: find_row_def dest: find_SomeD)
  then have "sqlite_load sid db' = Inr (Some \<lparr>sd_meta = m\<lparr>sm_updated_at := now, sm_status := ?st\<rparr>,
      sd_state = s, sd_last_checkpoint = Some snap, sd_config_snapshot = row_config_json row,
      sd_model_params = row_model_params_json row\<rparr>)"
    using fr [of sid] Some db' lc m(1)
    by (auto simp: sqlite_load_def meta_of_row_def split: sum.splits)
  with r m(2) db' other st show ?thesis by simp
qed

theorem sqlite_snapshot_effects_witness:
  "\<exists>r db'. sqlite_snapshot 9 ''s'' (inc_round State_new) (CheckpointSnapshot_new 8 BeforeModelCall 0)
             (snd (sqlite_save demo_data init_schema)) = (r, db') \<and>
           sqlite_load ''s'' db' =
             Inr (Some (demo_data\<lparr>sd_meta := (sd_meta demo_data)\<lparr>sm_updated_at := 9, sm_status := Interrupted\<rparr>,
                                  sd_state := inc_round State_new,
                                  sd_last_checkpoint := Some (CheckpointSnapshot_new 8 BeforeModelCall 0)\<rparr>))"
proof -
  let ?db = "snd (sqlite_save demo_data init_schema)"
  obtain r db' where e: "sqlite_snapshot 9 ''s'' (inc_round State_new)
      (CheckpointSnapshot_new 8 BeforeModelCall 0) ?db = (r, db')" by (metis surj_pair)
  have w: "db_working ?db" "db_checkpoints ?db = []" "sqlite_load ''s'' ?db = Inr (Some demo_data)"
    by (simp_all add: sqlite_save_def init_schema_def demo_data_def Let_def SessionMeta_new_def
        sqlite_load_def find_row_def upsert_session_def meta_of_row_def status_from_str_def
        last_checkpoint_def newest_first_def)
  from sqlite_snapshot_effects [OF w(1) e _ w(3)] w(2) e show ?thesis
    by (auto simp: demo_data_def SessionMeta_new_def Let_def)
qed

subsection \<open>Crashes\<close>

text \<open>
  A crash in the middle of an append costs the JSONL store more than the line being
  written. Whatever the session's file held and whatever append was cut short, the next
  event the restarted process records successfully is glued to the torn line: it is missing
  from the log that \<^verbatim>\<open>pending_outbound\<close> reads, and from then on the session cannot be loaded.
\<close>

theorem jsonl_torn_write_loses_session:
  assumes "jd_working st" and "jsonl_record_event sid ev (crash_append sid l True st) = (r, st')"
  shows "r = Inr () \<and> jsonl_log sid st' = filter is_outbox (List.map_filter event_of_line (jf_lines (file_of sid st))) \<and>
         (\<exists>e. jsonl_load sid st' = Inl e)"
proof -
  let ?f = "file_of sid st"
  have f1: "file_of sid (crash_append sid l True st) = ?f\<lparr>jf_tail := Some BadLine\<rparr>"
    by (simp add: crash_append_def Let_def file_of_def [of sid "jd_files_update _ st"] update_conv')
  then have m: "map_of (jd_files st') sid = Some (?f\<lparr>jf_lines := jf_lines ?f @ [BadLine], jf_tail := None\<rparr>)"
    and w: "r = Inr ()" "jd_working st'"
    using assms
    by (auto simp: jsonl_record_event_def append_line_def append_to_def update_conv' crash_append_def Let_def)
  have bad: "\<exists>e. scan_lines (ls @ [BadLine]) a b = Inl e" for ls a b
    by (induction ls arbitrary: a b) (auto split: jline.splits)
  obtain e where "scan_lines (jf_lines ?f @ [BadLine]) None None = Inl e" using bad by blast
  with m w have "jsonl_load sid st' = Inl e" by (simp add: jsonl_load_def read_lines_def)
  moreover have "file_of sid st' = ?f\<lparr>jf_lines := jf_lines ?f @ [BadLine], jf_tail := None\<rparr>"
    using m by (simp add: file_of_def)
  then have "jsonl_log sid st' = filter is_outbox (List.map_filter event_of_line (jf_lines ?f))"
    by (simp add: jsonl_log_def file_events_def read_lines_def List.map_filter_def)
  ultimately show ?thesis using w by blast
qed

theorem jsonl_torn_write_loses_session_witness:
  "\<exists>r st'. jsonl_record_event ''s'' (OutboundSent ''peer_message'' 1 1 [''b''] JNull 10)
             (crash_append ''s'' (EventLine (RoundStart 1 5)) True
                (snd (jsonl_save demo_data (JsonlSessionStore_new True)))) = (r, st') \<and>
           r = Inr () \<and> jsonl_log ''s'' st' = [] \<and> (\<exists>e. jsonl_load ''s'' st' = Inl e)"
proof -
  let ?st = "snd (jsonl_save demo_data (JsonlSessionStore_new True))"
  have w: "jd_working ?st" "file_of ''s'' ?st = \<lparr>jf_lines = [SaveLine demo_data], jf_tail = None\<rparr>"
    by (simp_all add: jsonl_save_def append_line_def JsonlSessionStore_new_def demo_data_def
        SessionMeta_new_def file_of_def append_to_def)
  obtain r st' where e: "jsonl_record_event ''s'' (OutboundSent ''peer_message'' 1 1 [''b''] JNull 10)
      (crash_append ''s'' (EventLine (RoundStart 1 5)) True ?st) = (r, st')" by (metis surj_pair)
  from jsonl_torn_write_loses_session [OF w(1) e] w(2) e show ?thesis
    by (simp add: List.map_filter_simps)
qed

text \<open>
  Deleting a SQLite session removes the session and its checkpoints, reports a session
  that was not there, but leaves its events: the outbox of a session created later under the
  same identifier is the old one. The JSONL store deletes the whole file.
\<close>

theorem sqlite_delete_keeps_outbox:
  assumes "db_working db" and "sqlite_delete sid db = (r, db')"
  shows "(r = Inl (SessNotFound sid) \<longleftrightarrow> find_row sid db = None) \<and>
         sqlite_load sid db' = Inr None \<and> last_checkpoint sid db' = None \<and>
         sqlite_pending_outbound pick sid db' = sqlite_pending_outbound pick sid db"
proof -
  have db': "db_sessions db' = filter (\<lambda>r. row_session_id r \<noteq> sid) (db_sessions db)"
    "db_checkpoints db' = filter (\<lambda>c. ck_session_id c \<noteq> sid) (db_checkpoints db)"
    "db_events db' = db_events db" "db_working db'"
    and r: "r = (if filter (\<lambda>r. row_session_id r = sid) (db_sessions db) = [] then Inl (SessNotFound sid) else Inr ())"
    using assms by (auto simp: sqlite_delete_def Let_def)
  have gone: "find_row sid db' = None" by (simp add: find_row_def db' find_None_iff)
  have rep: "replied_rows sid db' = replied_rows sid db" by (simp add: replied_rows_def db')
  have rows: "unreplied_rows sid db' = unreplied_rows sid db"
    unfolding unreplied_rows_def rep db'(3) ..
  have "find_row sid db = None \<longleftrightarrow> filter (\<lambda>r. row_session_id r = sid) (db_sessions db) = []"
    by (auto simp: find_row_def find_None_iff filter_empty_conv)
  moreover have "sqlite_load sid db' = Inr None" using gone db'(4) by (simp add: sqlite_load_def)
  moreover have "last_checkpoint sid db' = None"
    by (simp add: last_checkpoint_def newest_first_def db'(2))
  moreover have "sqlite_pending_outbound pick sid db' = sqlite_pending_outbound pick sid db"
    using assms(1) db'(4) by (simp add: sqlite_pending_outbound_def rows)
  ultimately show ?thesis using r by simp
qed

theorem sqlite_delete_keeps_outbox_witness:
  "\<exists>r db'. sqlite_delete ''s'' (snd (sqlite_save demo_data
              (record_all (sqlite_ops length) demo_events init_schema))) = (r, db') \<and>
           r = Inr () \<and> sqlite_load ''s'' db' = Inr None"
proof -
  let ?db = "snd (sqlite_save demo_data (record_all (sqlite_ops length) demo_events init_schema))"
  have w: "db_working ?db"
    by (simp add: demo_events_def demo_data_def sqlite_save_def sqlite_record_event_def init_schema_def Let_def)
  have f: "find_row ''s'' ?db \<noteq> None"
    by (simp add: demo_events_def demo_data_def sqlite_save_def sqlite_record_event_def init_schema_def
        Let_def find_row_def upsert_session_def SessionMeta_new_def)
  obtain r db' where e: "sqlite_delete ''s'' ?db = (r, db')" by (metis surj_pair)
  have "r = Inl (SessNotFound ''s'') \<or> r = Inr ()"
    using e w by (auto simp: sqlite_delete_def Let_def split: if_splits)
  with sqlite_delete_keeps_outbox [OF w e] f e show ?thesis by auto
qed

end
