(* ===== verification/Engine_Config.thy ===== *)
theory Engine_Config
  imports Session
begin

text \<open>
  The declarative configuration of the engine (\<^verbatim>\<open>crates/arf-engine/src/config.rs\<close>, with
  \<^verbatim>\<open>ModelDecl\<close> and \<^verbatim>\<open>ResourceSpec\<close> of \<^verbatim>\<open>crates/arf-agent\<close>) and its errors (\<^verbatim>\<open>error.rs\<close>). Closures
  of the application (rules, processors, middleware, hooks) are functions. Text that is not
  ASCII is the list of its UTF-8 bytes.
\<close>

subsection \<open>Declarations\<close>

record model_decl =
  md_provider :: string
  md_model_name :: string
  md_endpoint :: "string option"
  md_api_key_env :: "string option"
  md_thinking_enabled :: bool
  md_temperature :: "rat option"
  md_max_output_tokens :: "nat option"
  md_extra :: json

record resource_spec =
  rs_resource_name :: string
  rs_node_type :: string
  rs_capabilities :: "json option"

text \<open>A response processor: the types it claims, and its verdict on a message.\<close>

record response_processor =
  rp_handles :: "string \<Rightarrow> bool"
  rp_process :: "message \<Rightarrow> string + json"

datatype member_failed_action = FailSession | Retry nat | SwitchTo node_id

record engine_config =
  ec_routes :: "(string \<times> route) list"
  ec_checkpoint_rules :: "checkpoint_rule list"
  ec_processors :: "(string \<times> response_processor) list"
  ec_on_member_failed :: "(node_id \<Rightarrow> node_id \<Rightarrow> string \<Rightarrow> member_failed_action) option"
  ec_middlewares :: "middleware list"
  ec_max_turns :: nat
  ec_tool_timeout_ms :: "nat option"
  ec_inbound_dedup_capacity :: nat

definition EngineConfig_default :: engine_config where
  "EngineConfig_default =
     \<lparr>ec_routes = [], ec_checkpoint_rules = [], ec_processors = [], ec_on_member_failed = None,
      ec_middlewares = [], ec_max_turns = 10, ec_tool_timeout_ms = Some 30000,
      ec_inbound_dedup_capacity = 1024\<rparr>"

record agent_config =
  ac_model :: model_decl
  ac_resources :: "resource_spec list"
  ac_system_prompt_template :: string
  ac_initial_memory :: "string list"
  ac_allowed_paths :: "string list"
  ac_tools :: "tool_spec list"
  ac_engine :: engine_config

definition AgentConfig_default :: agent_config where
  "AgentConfig_default =
     \<lparr>ac_model = \<lparr>md_provider = ''deepseek'', md_model_name = ''deepseek-v4-flash'',
                  md_endpoint = None, md_api_key_env = None, md_thinking_enabled = False,
                  md_temperature = None, md_max_output_tokens = None, md_extra = JNull\<rparr>,
      ac_resources = [], ac_system_prompt_template = ''You are a helpful assistant.'',
      ac_initial_memory = [], ac_allowed_paths = [], ac_tools = [],
      ac_engine = EngineConfig_default\<rparr>"

subsection \<open>Errors\<close>

datatype build_error =
    MissingNodes "string list"
  | MissingCapabilities "(string \<times> string) list"
  | NoModelResponder
  | DuplicateRuleName string
  | UnknownAutoSubscribeType string "string list"
  | InvalidTemplate string string
  | PrimaryBusConnect string
  | AmbiguousTool string "string list"

datatype run_error =
    MaxTurnsExceeded nat
  | Stopped
  | Internal string
  | BusError send_error
  | UndeclaredMsgType string
  | ProcessorError string string
  | MemberFailed string string string
  | SessionNotPreSaved string
  | SnapshotFailed string string

text \<open>The derived \<^verbatim>\<open>Display\<close>; \<open>sn\<close> prints a number and \<open>sb\<close> a bus id.\<close>

fun run_error_display :: "(nat \<Rightarrow> string) \<Rightarrow> (bus_id \<Rightarrow> string) \<Rightarrow> run_error \<Rightarrow> string" where
  "run_error_display sn sb (MaxTurnsExceeded n) =
     utf8 [0xE8, 0xB6, 0x85, 0xE8, 0xBF, 0x87] @ '' max_turns ('' @ sn n @ '')''"
| "run_error_display sn sb Stopped = ''Engine stop signal received''"
| "run_error_display sn sb (Internal e) =
     ''Engine '' @ utf8 [0xE5, 0x86, 0x85, 0xE5, 0xB1, 0x82, 0xE9, 0x94, 0x99, 0xE8, 0xAF, 0xAF] @ '': '' @ e"
| "run_error_display sn sb (BusError e) =
     ''bus '' @ utf8 [0xE7, 0xAB, 0xAF, 0xE9, 0x94, 0x99, 0xE8, 0xAF, 0xAF] @ '': '' @ send_error_display sb e"
| "run_error_display sn sb (UndeclaredMsgType ty) =
     ''Checkpoint '' @ utf8 [0xE8, 0xBE, 0x93, 0xE5, 0x87, 0xBA, 0xE7, 0x9A, 0x84] @ '' msg_type '' @ quoted ty
       @ '' '' @ utf8 [0xE6, 0x9C, 0xAA, 0xE5, 0x9C, 0xA8] @ '' AgentConfig.routes ''
       @ utf8 [0xE6, 0xB3, 0xA8, 0xE5, 0x86, 0x8C]"
| "run_error_display sn sb (ProcessorError ty r) =
     ''ResponseProcessor '' @ utf8 [0xE5, 0xA4, 0x84, 0xE7, 0x90, 0x86] @ '' '' @ quoted ty @ '' ''
       @ utf8 [0xE5, 0xA4, 0xB1, 0xE8, 0xB4, 0xA5] @ '': '' @ r"
| "run_error_display sn sb (MemberFailed a m r) =
     ''Agent '' @ a @ '' lost member '' @ m @ '': '' @ r"
| "run_error_display sn sb (SessionNotPreSaved s) =
     ''session '' @ quoted s @ '' not pre-saved: call SessionStore::save() before run()''"
| "run_error_display sn sb (SnapshotFailed s r) =
     ''snapshot failed for session '' @ quoted s @ '': '' @ r"

end
