(* ===== verification/Registry.thy ===== *)
theory Registry
  imports Engine_Config "HOL-Library.Product_Lexorder"
begin

text \<open>
  \<^verbatim>\<open>crates/arf-engine/src/registry.rs\<close>: the declared resources resolved against the bus graph,
  once, when the engine is built. The three maps are association lists; the skills cache is
  the pair of hash and text behind the mutex.
\<close>

subsection \<open>Declared filters\<close>

datatype declared_filter = FilterAll | FilterSubset "string list" | FilterNone

text \<open>\<open>None\<close>: the sentinel \<^verbatim>\<open>"all"\<close> was met.\<close>

fun scan_items :: "json list \<Rightarrow> string list \<Rightarrow> string list option" where
  "scan_items [] names = Some names"
| "scan_items (item # items) names =
     (case as_str item of
        Some s \<Rightarrow>
          (if s = ''all'' then None
           else if s \<noteq> [] then scan_items items (names @ [s])
           else scan_items items names)
      | None \<Rightarrow> scan_items items names)"

fun scan_keys :: "string list \<Rightarrow> json \<Rightarrow> string list \<Rightarrow> string list option" where
  "scan_keys [] caps names = Some names"
| "scan_keys (k # ks) caps names =
     (case get_array caps k of
        Some arr \<Rightarrow>
          (case scan_items arr names of None \<Rightarrow> None | Some names' \<Rightarrow> scan_keys ks caps names')
      | None \<Rightarrow>
          (if get_str caps k = Some ''all'' then None else scan_keys ks caps names))"

definition parse_declared_filter :: "json option \<Rightarrow> declared_filter" where
  "parse_declared_filter caps =
     (case caps of
        None \<Rightarrow> FilterNone
      | Some c \<Rightarrow>
          (case scan_keys [''tools'', ''skills''] c [] of
             None \<Rightarrow> FilterAll
           | Some names \<Rightarrow> if names = [] then FilterNone else FilterSubset names))"

fun accepts :: "declared_filter \<Rightarrow> string \<Rightarrow> bool" where
  "accepts FilterAll n = True"
| "accepts (FilterSubset names) n = list_ex (\<lambda>m. m = n) names"
| "accepts FilterNone n = False"

subsection \<open>What a node offers\<close>

definition node_tools :: "node_info \<Rightarrow> string list" where
  "node_tools n =
     (case get_array (ni_capabilities n) ''tools'' of
        None \<Rightarrow> []
      | Some arr \<Rightarrow> filter (\<lambda>s. s \<noteq> []) (List.map_filter (\<lambda>t. get_str t ''name'') arr))"

definition node_skills :: "node_info \<Rightarrow> string list" where
  "node_skills n =
     (case get_array (ni_capabilities n) ''skills'' of
        None \<Rightarrow> []
      | Some arr \<Rightarrow> filter (\<lambda>s. s \<noteq> []) (strs_of_array arr))"

definition node_has_any_of :: "node_info \<Rightarrow> string list \<Rightarrow> bool" where
  "node_has_any_of n names =
     list_ex (\<lambda>m. list_ex (\<lambda>t. t = m) (node_tools n) \<or> list_ex (\<lambda>s. s = m) (node_skills n)) names"

subsection \<open>The model node\<close>

definition supports :: "model_decl \<Rightarrow> node_info \<Rightarrow> bool" where
  "supports d n =
     (case get_array (ni_capabilities n) ''models'' of
        None \<Rightarrow> True
      | Some arr \<Rightarrow> list_ex (\<lambda>m. as_str m = Some (md_model_name d)) arr)"

definition provides :: "model_decl \<Rightarrow> node_info \<Rightarrow> bool" where
  "provides d n \<longleftrightarrow>
     ni_node_type n = ''model'' \<and> get_str (ni_capabilities n) ''provider'' = Some (md_provider d)"

definition resolve_model :: "agent_config \<Rightarrow> bus_graph \<Rightarrow> build_error + node_id" where
  "resolve_model decl snapshot =
     (let d = ac_model decl;
          found = (case find (\<lambda>n. provides d n \<and> supports d n) (bg_nodes snapshot) of
                     Some n \<Rightarrow> Some n
                   | None \<Rightarrow> find (provides d) (bg_nodes snapshot));
          what = ''model: provider='' @ [CHR 0x22] @ md_provider d @ [CHR 0x22] @ '' model=''
                   @ [CHR 0x22] @ md_model_name d @ [CHR 0x22]
      in case found of
           Some n \<Rightarrow>
             (if supports d n then Inr (ni_node_id n)
              else Inl (MissingNodes
                     [what @ '' (provider matched but no node supports this model)'']))
         | None \<Rightarrow> Inl (MissingNodes [what]))"

subsection \<open>The registry\<close>

record resource_binding =
  rb_resource_name :: string
  rb_node_id :: node_id
  rb_declared_filter :: declared_filter

record resource_registry =
  rr_model :: node_id
  rr_mcp_nodes :: "(node_id \<times> resource_binding) list"
  rr_custom_nodes :: "(node_id \<times> resource_binding) list"
  rr_tool_index :: "(string \<times> node_id) list"
  rr_skills_cache :: "64 word \<times> string"

fun index_tools ::
  "declared_filter \<Rightarrow> string \<Rightarrow> node_id \<Rightarrow> string list \<Rightarrow> (string \<times> node_id) list
    \<Rightarrow> build_error + (string \<times> node_id) list" where
  "index_tools f rname n [] idx = Inr idx"
| "index_tools f rname n (t # ts) idx =
     (if \<not> accepts f t then index_tools f rname n ts idx
      else case map_of idx t of
             Some existing \<Rightarrow> Inl (AmbiguousTool t [as_string existing, rname])
           | None \<Rightarrow> index_tools f rname n ts (AList.update t n idx))"

definition is_mcp_type :: "string \<Rightarrow> bool" where
  "is_mcp_type ty \<longleftrightarrow> ty = ''mcp'' \<or> starts_with ''mcp/'' ty"

definition match_node :: "resource_spec \<Rightarrow> declared_filter \<Rightarrow> bus_graph \<Rightarrow> node_info option" where
  "match_node spec f snapshot =
     (case f of
        FilterSubset names \<Rightarrow>
          find (\<lambda>n. ni_node_type n = rs_node_type spec \<and> node_has_any_of n names) (bg_nodes snapshot)
      | _ \<Rightarrow> find (\<lambda>n. ni_node_type n = rs_node_type spec) (bg_nodes snapshot))"

fun resolve_resources ::
  "bus_graph \<Rightarrow> resource_spec list \<Rightarrow> resource_registry \<Rightarrow> build_error + resource_registry" where
  "resolve_resources snapshot [] reg = Inr reg"
| "resolve_resources snapshot (spec # specs) reg =
     (let f = parse_declared_filter (rs_capabilities spec)
      in case match_node spec f snapshot of
           None \<Rightarrow>
             Inl (MissingNodes [rs_resource_name spec @ '': node_type='' @ [CHR 0x22]
                                  @ rs_node_type spec @ [CHR 0x22]])
         | Some node \<Rightarrow>
             (let binding = \<lparr>rb_resource_name = rs_resource_name spec,
                             rb_node_id = ni_node_id node, rb_declared_filter = f\<rparr>
              in if is_mcp_type (rs_node_type spec)
                 then (case index_tools f (rs_resource_name spec) (ni_node_id node)
                              (node_tools node) (rr_tool_index reg) of
                         Inl e \<Rightarrow> Inl e
                       | Inr idx \<Rightarrow>
                           resolve_resources snapshot specs
                             (reg\<lparr>rr_tool_index := idx,
                                  rr_mcp_nodes := AList.update (ni_node_id node) binding
                                                    (rr_mcp_nodes reg)\<rparr>))
                 else resolve_resources snapshot specs
                        (reg\<lparr>rr_custom_nodes := AList.update (ni_node_id node) binding
                                                  (rr_custom_nodes reg)\<rparr>)))"

definition registry_build :: "agent_config \<Rightarrow> bus_graph \<Rightarrow> build_error + resource_registry" where
  "registry_build decl snapshot =
     (case resolve_model decl snapshot of
        Inl e \<Rightarrow> Inl e
      | Inr m \<Rightarrow>
          resolve_resources snapshot (ac_resources decl)
            \<lparr>rr_model = m, rr_mcp_nodes = [], rr_custom_nodes = [], rr_tool_index = [],
             rr_skills_cache = (0, [])\<rparr>)"

definition model_target :: "resource_registry \<Rightarrow> node_id" where
  "model_target reg = rr_model reg"

definition owner_of_tool :: "resource_registry \<Rightarrow> string \<Rightarrow> node_id option" where
  "owner_of_tool reg t = map_of (rr_tool_index reg) t"

definition owner_of_custom :: "resource_registry \<Rightarrow> string \<Rightarrow> node_id option" where
  "owner_of_custom reg ty =
     map_option rb_node_id (find (\<lambda>b. rb_resource_name b = ty) (map snd (rr_custom_nodes reg)))"

definition graph_node :: "bus_graph \<Rightarrow> node_id \<Rightarrow> node_info option" where
  "graph_node g n = find (\<lambda>i. ni_node_id i = n) (bg_nodes g)"

definition unwrap_str :: "string option \<Rightarrow> string" where
  "unwrap_str s = (case s of None \<Rightarrow> [] | Some x \<Rightarrow> x)"

definition tool_of_json :: "declared_filter \<Rightarrow> json \<Rightarrow> tool_spec option" where
  "tool_of_json f t =
     (let name = unwrap_str (get_str t ''name'')
      in if name = [] then None
         else if \<not> accepts f name then None
         else Some (ToolSpec_new name (unwrap_str (get_str t ''description''))
                      (case json_get t ''params_schema'' of None \<Rightarrow> JObj [] | Some p \<Rightarrow> p)))"

definition tools_for_model :: "resource_registry \<Rightarrow> bus_graph \<Rightarrow> tool_spec list" where
  "tools_for_model reg g =
     concat (map (\<lambda>(n, b).
       case graph_node g n of
         None \<Rightarrow> []
       | Some node \<Rightarrow>
           (case get_array (ni_capabilities node) ''tools'' of
              None \<Rightarrow> []
            | Some arr \<Rightarrow> List.map_filter (tool_of_json (rb_declared_filter b)) arr))
       (rr_mcp_nodes reg))"

subsection \<open>Skills\<close>

definition skill_pairs :: "resource_registry \<Rightarrow> bus_graph \<Rightarrow> (string \<times> string) list" where
  "skill_pairs reg g =
     sort (concat (map (\<lambda>(n, b).
       case graph_node g n of
         None \<Rightarrow> []
       | Some node \<Rightarrow>
           (case get_array (ni_capabilities node) ''skills'' of
              None \<Rightarrow> []
            | Some arr \<Rightarrow>
                map (\<lambda>s. (as_string n, s))
                  (filter (\<lambda>s. \<not> (s = [] \<or> \<not> accepts (rb_declared_filter b) s))
                     (map (\<lambda>j. unwrap_str (as_str j)) arr))))
       (rr_mcp_nodes reg)))"

definition skills_hash :: "(string \<times> string) list \<Rightarrow> 64 word" where
  "skills_hash pairs =
     fold (\<lambda>(nid, sn) h. (h * 31 + word_of_nat (length nid)) * 31 + word_of_nat (length sn))
       pairs (word_of_nat (length pairs))"

definition skills_content :: "(string \<times> string) list \<Rightarrow> string" where
  "skills_content pairs =
     (if pairs = [] then []
      else ''Available skills:'' @ [CHR 0x0A]
             @ join [CHR 0x0A] (map (\<lambda>(nid, sn). ''- '' @ sn @ '' (from '' @ nid @ '')'') pairs))"

definition skills_text :: "bus_graph \<Rightarrow> resource_registry \<Rightarrow> string \<times> resource_registry" where
  "skills_text g reg =
     (let pairs = skill_pairs reg g;
          hash = skills_hash pairs;
          cache = rr_skills_cache reg
      in if fst cache = hash \<and> snd cache \<noteq> [] then (snd cache, reg)
         else (skills_content pairs,
               reg\<lparr>rr_skills_cache := (hash, skills_content pairs)\<rparr>))"

lemma skills_text_registry [simp]:
  "rr_model (snd (skills_text g reg)) = rr_model reg"
  "rr_mcp_nodes (snd (skills_text g reg)) = rr_mcp_nodes reg"
  "rr_tool_index (snd (skills_text g reg)) = rr_tool_index reg"
  by (simp_all add: skills_text_def Let_def)

end
