(* ===== verification/Registry_Props.thy ===== *)
theory Registry_Props
  imports Registry
begin

text \<open>
  The registry's guarantees: which model node is chosen, that every tool offered to the model
  can be routed to the node that offers it, and what the skills cache does not notice.
\<close>

subsection \<open>The model node\<close>

text \<open>
  The model is resolved exactly when some node can serve it. On success the chosen node is
  a model node of the declared provider that serves the declared model; the build fails only
  if the graph has no such node. In particular a node that serves the provider but not the
  model never hides one that serves both.
\<close>

theorem resolve_model_sound_complete:
  "(case resolve_model decl g of
      Inr n \<Rightarrow> (\<exists>i \<in> set (bg_nodes g). ni_node_id i = n \<and> provides (ac_model decl) i \<and> supports (ac_model decl) i)
    | Inl e \<Rightarrow> (\<exists>why. e = MissingNodes [why]) \<and>
        \<not> (\<exists>i \<in> set (bg_nodes g). provides (ac_model decl) i \<and> supports (ac_model decl) i))"
proof (cases "find (\<lambda>n. provides (ac_model decl) n \<and> supports (ac_model decl) n) (bg_nodes g)")
  case None
  then have none: "\<not> (\<exists>i \<in> set (bg_nodes g). provides (ac_model decl) i \<and> supports (ac_model decl) i)"
    by (auto simp: find_None_iff)
  show ?thesis
  proof (cases "find (provides (ac_model decl)) (bg_nodes g)")
    case None2: None
    with None none show ?thesis by (simp add: resolve_model_def Let_def)
  next
    case (Some i)
    then have "provides (ac_model decl) i \<and> i \<in> set (bg_nodes g)" by (rule find_SomeD)
    with Some None none show ?thesis by (auto simp: resolve_model_def Let_def)
  qed
next
  case (Some i)
  from find_SomeD [OF Some] Some show ?thesis by (auto simp: resolve_model_def Let_def)
qed

definition demo_model :: "string \<Rightarrow> node_info" where
  "demo_model s =
     \<lparr>ni_node_id = NodeId s, ni_node_type = ''model'',
      ni_capabilities = JObj [(''provider'', JStr ''deepseek'')], ni_online_since = 0\<rparr>"

text \<open>
  The choice depends on the order of the nodes. \<^verbatim>\<open>Bus::graph\<close> sorts them, but the builder hands
  the registry the values of a \<^verbatim>\<open>HashMap\<close>, in whatever order it iterates.
\<close>

lemma resolve_model_order_dependent:
  "\<exists>xs ys. mset xs = mset ys \<and> distinct (map ni_node_id xs) \<and>
     resolve_model AgentConfig_default \<lparr>bg_nodes = xs, bg_message_count = 0, bg_uptime_ms = 0\<rparr>
       \<noteq> resolve_model AgentConfig_default \<lparr>bg_nodes = ys, bg_message_count = 0, bg_uptime_ms = 0\<rparr>"
  by (rule exI [of _ "[demo_model ''a'', demo_model ''b'']"],
      rule exI [of _ "[demo_model ''b'', demo_model ''a'']"])
    (simp add: resolve_model_def demo_model_def provides_def supports_def AgentConfig_default_def Let_def)

subsection \<open>Tools\<close>

lemma tool_of_json_names:
  "map ts_name (List.map_filter (tool_of_json f) arr)
     = filter (accepts f) (filter (\<lambda>s. s \<noteq> []) (List.map_filter (\<lambda>t. get_str t ''name'') arr))"
proof (induction arr)
  case Nil
  then show ?case by (simp add: List.map_filter_simps)
next
  case (Cons t arr)
  then show ?case
    by (cases "get_str t ''name''")
      (simp_all add: List.map_filter_simps tool_of_json_def unwrap_str_def ToolSpec_new_def Let_def)
qed

definition offered :: "declared_filter \<Rightarrow> node_info \<Rightarrow> string list" where
  "offered f node = filter (accepts f) (node_tools node)"

definition entry_tools :: "bus_graph \<Rightarrow> node_id \<times> resource_binding \<Rightarrow> string list" where
  "entry_tools g x =
     (case graph_node g (fst x) of None \<Rightarrow> [] | Some node \<Rightarrow> offered (rb_declared_filter (snd x)) node)"

lemma tools_for_model_names:
  "map ts_name (tools_for_model reg g) = concat (map (entry_tools g) (rr_mcp_nodes reg))"
  unfolding tools_for_model_def map_concat map_map
  by (rule arg_cong [where f = concat], rule map_cong [OF refl])
    (auto simp: entry_tools_def offered_def node_tools_def tool_of_json_names split: option.splits)

lemma index_tools_spec:
  "index_tools f rname n ts idx = Inr idx' \<Longrightarrow>
     distinct (filter (accepts f) ts) \<and>
     (\<forall>t. map_of idx' t = (if t \<in> set (filter (accepts f) ts) then Some n else map_of idx t)) \<and>
     (\<forall>t \<in> set (filter (accepts f) ts). map_of idx t = None)"
proof (induction ts arbitrary: idx)
  case Nil
  then show ?case by simp
next
  case (Cons t ts)
  show ?case
  proof (cases "accepts f t")
    case False
    with Cons show ?thesis by simp
  next
    case True
    with Cons.prems have t: "map_of idx t = None"
      and r: "index_tools f rname n ts (AList.update t n idx) = Inr idx'"
      by (auto split: option.splits)
    from Cons.IH [OF r] True t show ?thesis by (auto simp: update_conv' split: if_splits)
  qed
qed

definition registry_ok :: "bus_graph \<Rightarrow> resource_registry \<Rightarrow> bool" where
  "registry_ok g reg \<longleftrightarrow>
     distinct (keys (rr_mcp_nodes reg)) \<and>
     (\<forall>(n, b) \<in> set (rr_mcp_nodes reg). \<exists>node \<in> set (bg_nodes g).
        ni_node_id node = n \<and> distinct (offered (rb_declared_filter b) node) \<and>
        (\<forall>t \<in> set (offered (rb_declared_filter b) node). map_of (rr_tool_index reg) t = Some n))"

lemma match_node_mem: "match_node spec f g = Some node \<Longrightarrow> node \<in> set (bg_nodes g)"
  by (auto simp: match_node_def split: declared_filter.splits dest: find_SomeD)

lemma resolve_resources_ok:
  "resolve_resources g specs reg = Inr reg' \<Longrightarrow> registry_ok g reg \<Longrightarrow> registry_ok g reg'"
proof (induction specs arbitrary: reg)
  case Nil
  then show ?case by simp
next
  case (Cons spec specs)
  let ?f = "parse_declared_filter (rs_capabilities spec)"
  obtain node where node: "match_node spec ?f g = Some node"
    using Cons.prems(1) by (auto simp: Let_def split: option.splits)
  let ?b = "\<lparr>rb_resource_name = rs_resource_name spec, rb_node_id = ni_node_id node, rb_declared_filter = ?f\<rparr>"
  show ?case
  proof (cases "is_mcp_type (rs_node_type spec)")
    case False
    with Cons node show ?thesis by (simp add: Let_def registry_ok_def)
  next
    case True
    with Cons.prems(1) node obtain idx where
      idx: "index_tools ?f (rs_resource_name spec) (ni_node_id node) (node_tools node) (rr_tool_index reg) = Inr idx"
      and rest: "resolve_resources g specs (reg\<lparr>rr_tool_index := idx,
        rr_mcp_nodes := AList.update (ni_node_id node) ?b (rr_mcp_nodes reg)\<rparr>) = Inr reg'"
      by (auto simp: Let_def split: sum.splits)
    note spec = index_tools_spec [OF idx, folded offered_def]
    have "registry_ok g (reg\<lparr>rr_tool_index := idx,
        rr_mcp_nodes := AList.update (ni_node_id node) ?b (rr_mcp_nodes reg)\<rparr>)"
      unfolding registry_ok_def
    proof (intro conjI ballI, goal_cases)
      case 1
      then show ?case using Cons.prems(2) by (simp add: registry_ok_def distinct_keys_update)
    next
      case (2 x)
      then have "x = (ni_node_id node, ?b) \<or> x \<in> set (rr_mcp_nodes reg)"
        by (auto dest!: in_update_D)
      then show ?case
      proof
        assume "x = (ni_node_id node, ?b)"
        with spec match_node_mem [OF node] show ?thesis by auto
      next
        assume "x \<in> set (rr_mcp_nodes reg)"
        with Cons.prems(2) obtain m where "m \<in> set (bg_nodes g)" "ni_node_id m = fst x"
          "distinct (offered (rb_declared_filter (snd x)) m)"
          "\<forall>t \<in> set (offered (rb_declared_filter (snd x)) m). map_of (rr_tool_index reg) t = Some (fst x)"
          by (fastforce simp: registry_ok_def)
        with spec show ?thesis by (force simp: case_prod_unfold)
      qed
    qed
    with Cons.IH [OF rest] show ?thesis .
  qed
qed

lemma registry_build_ok: "registry_build decl g = Inr reg \<Longrightarrow> registry_ok g reg"
proof -
  assume built: "registry_build decl g = Inr reg"
  then obtain m where m: "resolve_model decl g = Inr m" by (auto simp: registry_build_def split: sum.splits)
  let ?reg0 = "\<lparr>rr_model = m, rr_mcp_nodes = [], rr_custom_nodes = [], rr_tool_index = [],
                rr_skills_cache = (0, [])\<rparr>"
  have "registry_ok g ?reg0" by (simp add: registry_ok_def)
  moreover have "resolve_resources g (ac_resources decl) ?reg0 = Inr reg"
    using built m by (simp add: registry_build_def)
  ultimately show ?thesis by (rule resolve_resources_ok [rotated])
qed

lemma graph_node_mem: "graph_node g n = Some node \<Longrightarrow> node \<in> set (bg_nodes g) \<and> ni_node_id node = n"
  by (auto simp: graph_node_def dest: find_SomeD)

lemma registry_ok_graph_node:
  assumes "registry_ok g reg" and "distinct (map ni_node_id (bg_nodes g))"
    and "(n, b) \<in> set (rr_mcp_nodes reg)" and "graph_node g n = Some node"
  shows "distinct (offered (rb_declared_filter b) node) \<and>
         (\<forall>t \<in> set (offered (rb_declared_filter b) node). map_of (rr_tool_index reg) t = Some n)"
proof -
  obtain m where m: "m \<in> set (bg_nodes g)" "ni_node_id m = n"
    "distinct (offered (rb_declared_filter b) m)"
    "\<forall>t \<in> set (offered (rb_declared_filter b) m). map_of (rr_tool_index reg) t = Some n"
    using assms(1,3) by (fastforce simp: registry_ok_def)
  have "m = node"
    using graph_node_mem [OF assms(4)] m(1,2) assms(2) by (auto simp: distinct_map dest: inj_onD)
  with m show ?thesis by simp
qed

text \<open>
  Whatever the model is offered it can call. After a successful build, as long as the
  graph is the one it was built from, the tools offered to the model have distinct names,
  and every one of them is owned, in the index that routes tool calls, by a node of the
  graph that really lists a tool of that name.
\<close>

theorem offered_tools_are_routable:
  assumes "registry_build decl g = Inr reg" and "distinct (map ni_node_id (bg_nodes g))"
  shows "distinct (map ts_name (tools_for_model reg g)) \<and>
         (\<forall>t \<in> set (tools_for_model reg g). \<exists>node \<in> set (bg_nodes g).
            owner_of_tool reg (ts_name t) = Some (ni_node_id node) \<and> ts_name t \<in> set (node_tools node))"
proof -
  note ok = registry_build_ok [OF assms(1)]
  let ?names = "entry_tools g"
  have own: "distinct (?names x) \<and> (\<forall>t \<in> set (?names x). map_of (rr_tool_index reg) t = Some (fst x))"
    if "x \<in> set (rr_mcp_nodes reg)" for x
    using registry_ok_graph_node [OF ok assms(2)] that by (cases x) (auto simp: entry_tools_def split: option.splits)
  have "distinct (concat (map ?names xs))"
    if "distinct (keys xs)" "set xs \<subseteq> set (rr_mcp_nodes reg)" for xs
    using that
  proof (induction xs)
    case Nil
    then show ?case by simp
  next
    case (Cons x xs)
    have "t \<notin> set (concat (map ?names xs))" if t: "t \<in> set (?names x)" for t
    proof
      assume "t \<in> set (concat (map ?names xs))"
      then obtain y where y: "y \<in> set xs" "t \<in> set (?names y)" by auto
      with Cons.prems(2) have "y \<in> set (rr_mcp_nodes reg)" "x \<in> set (rr_mcp_nodes reg)" by auto
      from own [OF this(1)] own [OF this(2)] t y
      have "map_of (rr_tool_index reg) t = Some (fst y)" "map_of (rr_tool_index reg) t = Some (fst x)"
        by blast+
      then have "fst x = fst y" by simp
      with y(1) Cons.prems(1) show False by auto
    qed
    with Cons own [of x] show ?case by (auto simp del: set_concat)
  qed
  then have "distinct (map ts_name (tools_for_model reg g))"
    using ok by (simp add: tools_for_model_names registry_ok_def)
  moreover have "\<exists>node \<in> set (bg_nodes g). owner_of_tool reg (ts_name t) = Some (ni_node_id node) \<and>
      ts_name t \<in> set (node_tools node)" if "t \<in> set (tools_for_model reg g)" for t
  proof -
    have "ts_name t \<in> set (concat (map ?names (rr_mcp_nodes reg)))"
      using that by (simp flip: tools_for_model_names add: image_eqI)
    then obtain n b where nb: "(n, b) \<in> set (rr_mcp_nodes reg)" "ts_name t \<in> set (?names (n, b))"
      by auto
    then obtain node where x: "graph_node g n = Some node"
      "ts_name t \<in> set (offered (rb_declared_filter b) node)"
      by (cases "graph_node g n") (auto simp: entry_tools_def)
    with registry_ok_graph_node [OF ok assms(2) nb(1) x(1)] graph_node_mem [OF x(1)] show ?thesis
      by (auto simp: owner_of_tool_def offered_def)
  qed
  ultimately show ?thesis by blast
qed

definition demo_mcp :: node_info where
  "demo_mcp =
     \<lparr>ni_node_id = NodeId ''fs'', ni_node_type = ''mcp'',
      ni_capabilities = JObj [(''tools'', JArr [JObj [(''name'', JStr ''read'')],
                                             JObj [(''name'', JStr ''write'')]]),
                              (''skills'', JArr [JStr ''aa''])],
      ni_online_since = 0\<rparr>"

definition demo_graph :: bus_graph where
  "demo_graph = \<lparr>bg_nodes = [demo_mcp, demo_model ''m''], bg_message_count = 0, bg_uptime_ms = 0\<rparr>"

definition demo_config :: agent_config where
  "demo_config = AgentConfig_default\<lparr>ac_resources :=
     [\<lparr>rs_resource_name = ''files'', rs_node_type = ''mcp'',
       rs_capabilities = Some (JObj [(''tools'', JArr [JStr ''read'']), (''skills'', JStr ''all'')])\<rparr>]\<rparr>"

definition demo_registry :: resource_registry where
  "demo_registry =
     \<lparr>rr_model = NodeId ''m'',
      rr_mcp_nodes = [(NodeId ''fs'', \<lparr>rb_resource_name = ''files'', rb_node_id = NodeId ''fs'',
                                     rb_declared_filter = FilterAll\<rparr>)],
      rr_custom_nodes = [], rr_tool_index = [(''read'', NodeId ''fs''), (''write'', NodeId ''fs'')],
      rr_skills_cache = (0, [])\<rparr>"

lemma demo_registry_build: "registry_build demo_config demo_graph = Inr demo_registry"
  by (simp add: registry_build_def demo_config_def demo_graph_def demo_registry_def demo_mcp_def
      demo_model_def resolve_model_def AgentConfig_default_def provides_def supports_def Let_def
      parse_declared_filter_def match_node_def is_mcp_type_def node_tools_def List.map_filter_simps)

theorem offered_tools_are_routable_witness:
  "distinct (map ts_name (tools_for_model demo_registry demo_graph)) \<and>
   map ts_name (tools_for_model demo_registry demo_graph) = [''read'', ''write''] \<and>
   owner_of_tool demo_registry ''read'' = Some (NodeId ''fs'')"
proof -
  have d: "distinct (map ni_node_id (bg_nodes demo_graph))"
    by (simp add: demo_graph_def demo_mcp_def demo_model_def)
  have names: "map ts_name (tools_for_model demo_registry demo_graph) = [''read'', ''write'']"
    by (simp add: tools_for_model_names entry_tools_def demo_registry_def demo_graph_def demo_mcp_def
        graph_node_def offered_def node_tools_def List.map_filter_simps)
  from offered_tools_are_routable [OF demo_registry_build d] names
  show ?thesis by (simp add: owner_of_tool_def demo_registry_def)
qed

subsection \<open>Skills\<close>

definition lengths :: "(string \<times> string) list \<Rightarrow> (nat \<times> nat) list" where
  "lengths pairs = map (\<lambda>(a, b). (length a, length b)) pairs"

lemma skills_hash_lengths: "lengths ps = lengths qs \<Longrightarrow> skills_hash ps = skills_hash qs"
proof -
  assume eq: "lengths ps = lengths qs"
  have "skills_hash xs = fold (\<lambda>(m, k) h. (h * 31 + word_of_nat m) * 31 + word_of_nat k)
          (lengths xs) (word_of_nat (length (lengths xs)))" for xs
    by (simp add: skills_hash_def lengths_def fold_map comp_def case_prod_unfold)
  then show ?thesis by (simp only: eq)
qed

lemma skills_content_nonempty: "pairs \<noteq> [] \<Longrightarrow> skills_content pairs \<noteq> []"
  by (simp add: skills_content_def)

text \<open>
  The skills cache does not see skills change. Its hash covers only how many skills there
  are and how long the names are; so once a text has been produced, a graph whose skills
  have names of the same lengths gets the old text, whatever the names are now.
\<close>

theorem skills_text_stale:
  assumes "skills_text g reg = (out, reg')" and "skill_pairs reg g \<noteq> []"
    and "lengths (skill_pairs reg g') = lengths (skill_pairs reg g)"
  shows "fst (skills_text g' reg') = out"
proof -
  have hash: "skills_hash (skill_pairs reg g') = skills_hash (skill_pairs reg g)"
    using assms(3) by (rule skills_hash_lengths)
  have same: "skill_pairs reg' g' = skill_pairs reg g'"
    using assms(1) by (auto simp: skills_text_def Let_def skill_pairs_def split: if_splits)
  have "rr_skills_cache reg' = (skills_hash (skill_pairs reg g), out) \<and> out \<noteq> []"
    using assms(1) skills_content_nonempty [OF assms(2)]
    by (cases "rr_skills_cache reg") (auto simp: skills_text_def Let_def split: if_splits)
  then show ?thesis by (simp add: skills_text_def Let_def same hash)
qed

definition demo_graph2 :: bus_graph where
  "demo_graph2 = \<lparr>bg_nodes = [demo_mcp\<lparr>ni_capabilities := JObj [(''skills'', JArr [JStr ''bb''])]\<rparr>],
                  bg_message_count = 0, bg_uptime_ms = 0\<rparr>"

theorem skills_text_stale_witness:
  "\<exists>out reg'. skills_text demo_graph demo_registry = (out, reg') \<and>
     fst (skills_text demo_graph2 reg') = out \<and> skills_content (skill_pairs reg' demo_graph2) \<noteq> out"
proof -
  have p1: "skill_pairs demo_registry demo_graph = [(''fs'', ''aa'')]"
    and p2: "skill_pairs demo_registry demo_graph2 = [(''fs'', ''bb'')]"
    by (simp_all add: skill_pairs_def demo_registry_def demo_graph_def demo_graph2_def demo_mcp_def
        graph_node_def unwrap_str_def)
  obtain out reg' where e: "skills_text demo_graph demo_registry = (out, reg')" by (metis surj_pair)
  have out: "out = skills_content [(''fs'', ''aa'')]"
    and reg': "skill_pairs reg' demo_graph2 = [(''fs'', ''bb'')]"
    using e p1 p2 by (auto simp: skills_text_def Let_def demo_registry_def skill_pairs_def split: if_splits)
  have "fst (skills_text demo_graph2 reg') = out"
    by (rule skills_text_stale [OF e]) (simp_all add: p1 p2 lengths_def)
  then show ?thesis using e out reg' by (auto simp: skills_content_def)
qed

end
