(* ===== verification/Engine_Parts.thy ===== *)
theory Engine_Parts
  imports Registry_Props
begin

text \<open>
  The smaller modules of \<^verbatim>\<open>crates/arf-engine\<close>: checkpoint evaluation with its route cache
  (\<^verbatim>\<open>checkpoint.rs\<close>), the handler registry (\<^verbatim>\<open>dispatcher.rs\<close>), the deduplication of inbound
  replies (\<^verbatim>\<open>dedup.rs\<close>) and the reconstruction of pending messages (\<^verbatim>\<open>message_reconstruct.rs\<close>).
\<close>

subsection \<open>Routes and their cache (checkpoint.rs)\<close>

type_synonym discovery_cache = "((string \<times> string) list \<times> node_id list) list"

record checkpoint_msg =
  cm_msg :: action_message
  cm_recipients :: "node_id list"
  cm_rule_name :: string

definition capability_matches :: "node_info \<Rightarrow> capability \<Rightarrow> bool" where
  "capability_matches n c =
     list_all (\<lambda>(k, v). get_str (ni_capabilities n) k = Some v) (requirements c)"

definition matching_ids :: "capability \<Rightarrow> node_info list \<Rightarrow> node_id list" where
  "matching_ids c nodes = map ni_node_id (filter (\<lambda>n. capability_matches n c) nodes)"

definition get_or_compute ::
  "capability \<Rightarrow> node_info list \<Rightarrow> discovery_cache \<Rightarrow> node_id list \<times> discovery_cache" where
  "get_or_compute c nodes cache =
     (case map_of cache (requirements c) of
        Some cached \<Rightarrow> (cached, cache)
      | None \<Rightarrow> (let resolved = matching_ids c nodes
                 in (resolved, AList.update (requirements c) resolved cache)))"

definition invalidate :: "discovery_cache \<Rightarrow> discovery_cache" where
  "invalidate cache = []"

fun resolve_route :: "route \<Rightarrow> node_info list \<Rightarrow> discovery_cache \<Rightarrow> node_id list \<times> discovery_cache" where
  "resolve_route (Strict ids) nodes cache = (ids, cache)"
| "resolve_route (Discovery c) nodes cache = get_or_compute c nodes cache"

fun resolve_route_pure :: "route \<Rightarrow> node_info list \<Rightarrow> node_id list" where
  "resolve_route_pure (Strict ids) nodes = ids"
| "resolve_route_pure (Discovery c) nodes = matching_ids c nodes"

text \<open>A rule's message draws the next identifier \<open>i\<close>; \<open>Panic\<close> is a panic of its condition.\<close>

fun evaluate ::
  "state \<Rightarrow> checkpoint \<Rightarrow> checkpoint_rule list \<Rightarrow> (string \<times> route) list \<Rightarrow> node_info list
    \<Rightarrow> discovery_cache \<Rightarrow> uuid \<Rightarrow> checkpoint_msg list
    \<Rightarrow> (run_error, checkpoint_msg list) outcome \<times> discovery_cache \<times> uuid" where
  "evaluate s trigger [] routes nodes cache i acc = (Ret acc, cache, i)"
| "evaluate s trigger (rule # rules) routes nodes cache i acc =
     (if cr_trigger rule \<noteq> trigger then evaluate s trigger rules routes nodes cache i acc
      else case fires rule s of
             None \<Rightarrow> (Panic, cache, i)
           | Some False \<Rightarrow> evaluate s trigger rules routes nodes cache i acc
           | Some True \<Rightarrow>
               (let msg = build_msg rule i s
                in case map_of routes (am_msg_type msg) of
                     None \<Rightarrow> (Fail (UndeclaredMsgType (am_msg_type msg)), cache, Suc i)
                   | Some route \<Rightarrow>
                       (let (recipients, cache') = resolve_route route nodes cache
                        in evaluate s trigger rules routes nodes cache' (Suc i)
                             (acc @ [\<lparr>cm_msg = msg, cm_recipients = recipients,
                                      cm_rule_name = cr_name rule\<rparr>]))))"

text \<open>A cache is current for a graph when every entry is what the graph would give.\<close>

definition cache_current :: "node_info list \<Rightarrow> discovery_cache \<Rightarrow> bool" where
  "cache_current nodes cache \<longleftrightarrow>
     (\<forall>reqs ids. map_of cache reqs = Some ids \<longrightarrow> ids = matching_ids (Capability reqs) nodes)"

lemma cache_current_Nil [simp]: "cache_current nodes []"
  by (simp add: cache_current_def)

lemma resolve_route_current:
  assumes "cache_current nodes cache" and "resolve_route r nodes cache = (ids, cache')"
  shows "ids = resolve_route_pure r nodes \<and> cache_current nodes cache'"
proof (cases r)
  case (Strict x)
  with assms show ?thesis by simp
next
  case (Discovery c)
  obtain reqs where c: "c = Capability reqs" by (cases c)
  show ?thesis
  proof (cases "map_of cache reqs")
    case None
    with assms Discovery c show ?thesis
      by (auto simp: get_or_compute_def cache_current_def update_conv' Let_def split: if_splits)
  next
    case (Some cached)
    with assms Discovery c show ?thesis by (auto simp: get_or_compute_def cache_current_def)
  qed
qed

subsection \<open>Handlers (dispatcher.rs)\<close>

datatype handler_outcome = Handled | Deferred

datatype dispatch_decision = Pass | Drop

record handler_context =
  hc_engine_id :: node_id
  hc_session_id :: string
  hc_from_bus :: bus_id

text \<open>A handler may fail; what else it does is its own affair.\<close>

record message_handler =
  mh_msg_type :: string
  mh_handle :: "handler_context \<Rightarrow> message \<Rightarrow> run_error + handler_outcome"

type_synonym handler_registry = "(string \<times> message_handler list) list"

definition handlers_for :: "handler_registry \<Rightarrow> string \<Rightarrow> message_handler list" where
  "handlers_for reg ty = (case map_of reg ty of None \<Rightarrow> [] | Some hs \<Rightarrow> hs)"

definition register_handler :: "message_handler \<Rightarrow> handler_registry \<Rightarrow> handler_registry" where
  "register_handler h reg =
     AList.update (mh_msg_type h) (handlers_for reg (mh_msg_type h) @ [h]) reg"

text \<open>\<open>None\<close> is the failed assertion.\<close>

definition replace_handler :: "string \<Rightarrow> message_handler \<Rightarrow> handler_registry \<Rightarrow> handler_registry option" where
  "replace_handler ty h reg =
     (if mh_msg_type h = ty then Some (AList.update ty [h] reg) else None)"

fun run_handlers ::
  "handler_context \<Rightarrow> message \<Rightarrow> message_handler list \<Rightarrow> run_error + handler_outcome" where
  "run_handlers ctx m [] = Inr Deferred"
| "run_handlers ctx m (h # hs) =
     (case mh_handle h ctx m of
        Inr Handled \<Rightarrow> Inr Handled
      | Inr Deferred \<Rightarrow> run_handlers ctx m hs
      | Inl e \<Rightarrow> Inl e)"

definition dispatch :: "handler_context \<Rightarrow> message \<Rightarrow> handler_registry \<Rightarrow> run_error + handler_outcome" where
  "dispatch ctx m reg = run_handlers ctx m (handlers_for reg (msg_type m))"

text \<open>The first handler that does not defer decides; the ones behind it do not matter.\<close>

lemma run_handlers_decided:
  assumes "\<forall>h \<in> set hs. mh_handle h ctx m = Inr Deferred" and "mh_handle h ctx m \<noteq> Inr Deferred"
  shows "run_handlers ctx m (hs @ h # hs') = mh_handle h ctx m"
  using assms by (induction hs) (auto split: sum.splits handler_outcome.splits)

lemma dispatch_register_other:
  "msg_type m \<noteq> mh_msg_type h \<Longrightarrow> dispatch ctx m (register_handler h reg) = dispatch ctx m reg"
  by (simp add: dispatch_def register_handler_def handlers_for_def update_conv')

subsection \<open>Inbound deduplication (dedup.rs)\<close>

text \<open>
  \<^verbatim>\<open>LruCache\<close> is code of the \<^verbatim>\<open>lru\<close> crate: a parameter, given by its operations. What the code
  relies on is that a key just put is contained, and that a new cache contains nothing.
\<close>

record 'c lru_ops =
  lru_new :: "nat \<Rightarrow> 'c"
  lru_contains :: "'c \<Rightarrow> uuid \<Rightarrow> bool"
  lru_put :: "uuid \<Rightarrow> 'c \<Rightarrow> 'c"

definition lru_ok :: "'c lru_ops \<Rightarrow> bool" where
  "lru_ok L \<longleftrightarrow> (\<forall>n x. \<not> lru_contains L (lru_new L n) x) \<and> (\<forall>x c. lru_contains L (lru_put L x c) x)"

definition InboundDedupCache_new :: "'c lru_ops \<Rightarrow> nat \<Rightarrow> 'c" where
  "InboundDedupCache_new L capacity = lru_new L (max capacity 1)"

text \<open>True: a duplicate.\<close>

definition check_and_record :: "'c lru_ops \<Rightarrow> uuid \<Rightarrow> 'c \<Rightarrow> bool \<times> 'c" where
  "check_and_record L cid c =
     (if lru_contains L c cid then (True, c) else (False, lru_put L cid c))"

text \<open>A concrete cache, to show that the hypothesis can hold: the most recent \<open>n\<close> keys.\<close>

definition list_lru :: "(nat \<times> uuid list) lru_ops" where
  "list_lru =
     \<lparr>lru_new = (\<lambda>n. (n, [])), lru_contains = (\<lambda>(n, xs) x. x \<in> set xs),
      lru_put = (\<lambda>x (n, xs). (n, x # take (n - 1) (removeAll x xs)))\<rparr>"

lemma list_lru_ok: "lru_ok list_lru"
  by (simp add: lru_ok_def list_lru_def)

lemma second_delivery_is_duplicate:
  "lru_ok L \<Longrightarrow> fst (check_and_record L cid (snd (check_and_record L cid c)))"
  by (simp add: check_and_record_def lru_ok_def)

subsection \<open>Reconstruction of pending messages (message reconstruction)\<close>

datatype reconstruct_error =
    UnknownMsgType string
  | InvalidPayload string string
  | MissingField string string

definition require_str :: "pending_outbound \<Rightarrow> string \<Rightarrow> reconstruct_error + string" where
  "require_str p k =
     (case get_str (po_payload p) k of
        Some s \<Rightarrow> Inr s
      | None \<Rightarrow> Inl (MissingField (po_msg_type p) k))"

definition reconstruct_peer :: "uuid_ops \<Rightarrow> pending_outbound \<Rightarrow> reconstruct_error + json" where
  "reconstruct_peer U p =
     (case require_str p ''from_session'' of Inl e \<Rightarrow> Inl e | Inr from_session \<Rightarrow>
      (case require_str p ''to_session'' of Inl e \<Rightarrow> Inl e | Inr to_session \<Rightarrow>
       (case require_str p ''content'' of Inl e \<Rightarrow> Inl e | Inr content \<Rightarrow>
          Inr (peer_message_to_value U
            \<lparr>pm_correlation_id = po_correlation_id p, pm_from_session = from_session,
             pm_to_session = to_session, pm_content = content,
             pm_attachments = (case get_array (po_payload p) ''attachments'' of
                                 None \<Rightarrow> [] | Some xs \<Rightarrow> xs)\<rparr>))))"

definition reconstruct_handoff :: "uuid_ops \<Rightarrow> pending_outbound \<Rightarrow> reconstruct_error + json" where
  "reconstruct_handoff U p =
     (case require_str p ''question'' of Inl e \<Rightarrow> Inl e | Inr question \<Rightarrow>
        Inr (human_handoff_to_value U
          \<lparr>hh_correlation_id = po_correlation_id p, hh_question = question,
           hh_context = (case json_get (po_payload p) ''context'' of None \<Rightarrow> JNull | Some c \<Rightarrow> c),
           hh_options = (case get_array (po_payload p) ''options'' of
                           None \<Rightarrow> [] | Some xs \<Rightarrow> strs_of_array xs)\<rparr>))"

definition reconstruct_message ::
  "uuid_ops \<Rightarrow> uuid \<Rightarrow> millis \<Rightarrow> pending_outbound \<Rightarrow> node_id \<Rightarrow> reconstruct_error + message" where
  "reconstruct_message U i now p frm =
     (let tgt = map NodeId (po_target_nodes p)
      in if po_msg_type p = ''peer_message''
         then map_sum id (Message_new i now ''peer_message'' frm tgt) (reconstruct_peer U p)
         else if po_msg_type p = ''human_handoff''
         then map_sum id (Message_new i now ''human_handoff'' frm tgt) (reconstruct_handoff U p)
         else Inl (UnknownMsgType (po_msg_type p)))"

text \<open>What \<^verbatim>\<open>maybe_record_outbound\<close> leaves in the store for a message.\<close>

definition pending_of_action :: "uuid_ops \<Rightarrow> action_message \<Rightarrow> node_id list \<Rightarrow> nat \<Rightarrow> pending_outbound" where
  "pending_of_action U m to a =
     \<lparr>po_msg_type = am_msg_type m, po_correlation_id = am_correlation_id m,
      po_target_nodes = map as_string to, po_payload = am_payload U m, po_attempt = a\<rparr>"

fun resendable :: "action_message \<Rightarrow> bool" where
  "resendable (APeerMessage _) = True"
| "resendable (AHumanHandoff _) = True"
| "resendable _ = False"

lemma map_NodeId_as_string [simp]: "map NodeId (map as_string to) = to"
  by (induction to) (simp_all add: node_id.collapse)

text \<open>
  A peer message or a human handoff survives a crash unchanged. From what was stored
  when it was first sent, with any attempt number, the reconstruction gives a message of the
  same type, to the same nodes, with exactly the same payload. Every other built-in message
  is stored too, but can never be reconstructed.
\<close>

theorem reconstruct_roundtrip:
  assumes "builtin m"
  shows "reconstruct_message U i now (pending_of_action U m to a) frm =
     (if resendable m then Inr (Message_new i now (am_msg_type m) frm to (am_payload U m))
      else Inl (UnknownMsgType (am_msg_type m)))"
proof (cases m)
  case (APeerMessage p)
  then show ?thesis
    by (simp add: reconstruct_message_def pending_of_action_def reconstruct_peer_def require_str_def
        peer_message_to_value_def cid_field_def Let_def del: map_map)
next
  case (AHumanHandoff h)
  then show ?thesis
    by (simp add: reconstruct_message_def pending_of_action_def reconstruct_handoff_def require_str_def
        human_handoff_to_value_def cid_field_def strs_to_value_def Let_def del: map_map)
next
  case (ACustom t c pl it)
  with assms show ?thesis by simp
qed (simp_all add: reconstruct_message_def pending_of_action_def msg_type_defs Let_def)

theorem reconstruct_roundtrip_witness:
  "reconstruct_message unary_uuid 9 0
     (pending_of_action unary_uuid (AHumanHandoff (HumanHandoff_new 3 ''ok?'')) [NodeId ''ui''] 2) (NodeId ''e'')
   = Inr (Message_new 9 0 ''human_handoff'' (NodeId ''e'') [NodeId ''ui'']
            (human_handoff_to_value unary_uuid (HumanHandoff_new 3 ''ok?'')))"
  using reconstruct_roundtrip [of "AHumanHandoff (HumanHandoff_new 3 ''ok?'')" unary_uuid 9 0
      "[NodeId ''ui'']" 2 "NodeId ''e''"]
  by simp

end
