(* ===== verification/Engine_World.thy ===== *)
theory Engine_World
  imports Engine_Parts Node_Handle
begin

text \<open>
  The engine of \<^verbatim>\<open>crates/arf-engine/src/engine.rs\<close>, first half: its state and environment, the
  outbox, and the waiting loop.

  A \<open>world\<close> holds the fields of \<^verbatim>\<open>Engine\<close>, the caller's \<^verbatim>\<open>State\<close>, and what surrounds them: the
  primary bus, the messages the handle has ready, the cancellation token, the clock, the next
  identifier, and a script of what everybody else does. The script is cut into portions:
  each time the engine reads something others can change (the token, the bus, its inbox) the
  next portion happens first (\<open>tick\<close>). So a theorem about all scripts is a theorem about all
  interleavings with other tasks at these points.

  Middleware hooks other than \<^verbatim>\<open>before_model_call\<close> only read, and are left out.
\<close>

subsection \<open>State and environment\<close>

datatype env_event =
    EvDeliver message
  | EvClose
  | EvCancel
  | EvInvalidate
  | EvBus millis "nat \<Rightarrow> uuid" bus_event
  | EvTime millis

record ('s, 'c) world =
  eng_config :: agent_config
  eng_agent_id :: node_id
  eng_handle :: node_handle
  eng_discovery_cache :: discovery_cache
  eng_registry :: resource_registry
  eng_handlers :: handler_registry
  eng_session_store :: "'s option"
  eng_session_id :: string
  eng_inbound_dedup :: 'c
  eng_ephemeral :: bool
  w_state :: state
  w_bus :: bus
  w_inbound :: "message list"
  w_closed :: bool
  w_cancelled :: bool
  w_now :: millis
  w_fresh :: uuid
  w_may_block :: bool
  w_script :: "env_event list list"

text \<open>
  What the engine is linked against: the identifiers, the store's methods, the LRU cache, the
  printing of numbers and the \<^verbatim>\<open>Display\<close> of errors outside this development.
\<close>

record ('s, 'c) deps =
  d_uuid :: uuid_ops
  d_store :: "'s store_ops"
  d_lru :: "'c lru_ops"
  d_show_nat :: "nat \<Rightarrow> string"

fun env_step :: "env_event \<Rightarrow> ('s, 'c) world \<Rightarrow> ('s, 'c) world" where
  "env_step (EvDeliver m) w = w\<lparr>w_inbound := w_inbound w @ [m]\<rparr>"
| "env_step EvClose w = w\<lparr>w_closed := True\<rparr>"
| "env_step EvCancel w = w\<lparr>w_cancelled := True\<rparr>"
| "env_step EvInvalidate w = w\<lparr>eng_discovery_cache := invalidate (eng_discovery_cache w)\<rparr>"
| "env_step (EvBus timeout ids ev) w = w\<lparr>w_bus := snd (bus_step timeout ids (w_now w) ev (w_bus w))\<rparr>"
| "env_step (EvTime t) w = w\<lparr>w_now := max t (w_now w)\<rparr>"

definition tick :: "('s, 'c) world \<Rightarrow> ('s, 'c) world" where
  "tick w = (case w_script w of [] \<Rightarrow> w | evs # rest \<Rightarrow> fold env_step evs (w\<lparr>w_script := rest\<rparr>))"

text \<open>The \<^verbatim>\<open>?\<close> operator, and a future that never completes.\<close>

fun bind_out :: "('e, 'a) outcome \<times> 'w \<Rightarrow> ('a \<Rightarrow> 'w \<Rightarrow> ('e, 'b) outcome \<times> 'w) \<Rightarrow> ('e, 'b) outcome \<times> 'w" where
  "bind_out (Ret x, w) f = f x w"
| "bind_out (Fail e, w) f = (Fail e, w)"
| "bind_out (Panic, w) f = (Panic, w)"
| "bind_out (Hang, w) f = (Hang, w)"

definition fresh :: "('s, 'c) world \<Rightarrow> uuid \<times> ('s, 'c) world" where
  "fresh w = (w_fresh w, w\<lparr>w_fresh := Suc (w_fresh w)\<rparr>)"

definition upd_state :: "(state \<Rightarrow> state) \<Rightarrow> ('s, 'c) world \<Rightarrow> ('s, 'c) world" where
  "upd_state f w = w\<lparr>w_state := f (w_state w)\<rparr>"

definition is_cancelled :: "('s, 'c) world \<Rightarrow> bool \<times> ('s, 'c) world" where
  "is_cancelled w = (w_cancelled (tick w), tick w)"

definition primary_graph :: "('s, 'c) world \<Rightarrow> bus_graph \<times> ('s, 'c) world" where
  "primary_graph w = (let w' = tick w in (graph (w_now w') (w_bus w'), w'))"

text \<open>\<^verbatim>\<open>NodeHandle::send_message\<close> on the primary bus.\<close>

definition world_send ::
  "message \<Rightarrow> ('s, 'c) world \<Rightarrow> (send_error + send_receipt) \<times> ('s, 'c) world" where
  "world_send m w0 =
     (let w = tick w0;
          (i, w) = fresh w;
          b = w_bus w;
          (r, bs) = send_message i (w_now w) (eng_handle w) m [(bus_bid b, b)]
      in (r, w\<lparr>w_bus := (case map_of bs (bus_bid b) of Some b' \<Rightarrow> b' | None \<Rightarrow> b)\<rparr>))"

definition push_wait_event :: "wait_event \<Rightarrow> state \<Rightarrow> state" where
  "push_wait_event e s = s\<lparr>st_wait_events := st_wait_events s @ [e]\<rparr>"

definition retain_wait_events :: "uuid \<Rightarrow> state \<Rightarrow> state" where
  "retain_wait_events eid s = s\<lparr>st_wait_events := filter (\<lambda>e. we_id e \<noteq> eid) (st_wait_events s)\<rparr>"

subsection \<open>Response types\<close>

definition response_msg_type_for :: "string \<Rightarrow> string option" where
  "response_msg_type_for r =
     (if r = ''model_call'' then Some ''model_response''
      else if r = ''tool_exec'' then Some ''tool_result''
      else if r = ''subagent_delegate'' then Some ''subagent_result''
      else if r = ''peer_message'' then Some ''peer_reply''
      else if r = ''memory_op'' then Some ''memory_op_result''
      else if r = ''human_handoff'' then Some ''human_handoff_reply''
      else if r = ''permission_request'' then Some ''permission_response''
      else None)"

definition predicted_response :: "string \<Rightarrow> string" where
  "predicted_response r =
     (case response_msg_type_for r of Some t \<Rightarrow> t | None \<Rightarrow> r @ ''_result'')"

definition engine_response_types :: "agent_config \<Rightarrow> string list" where
  "engine_response_types c =
     dedup (sort ([MODEL_RESPONSE, TOOL_RESULT]
       @ concat (map (\<lambda>ty.
           case response_msg_type_for ty of
             Some t \<Rightarrow> if t \<noteq> MODEL_RESPONSE \<and> t \<noteq> TOOL_RESULT then [t] else []
           | None \<Rightarrow> [ty @ ''_result'']) (keys (ec_routes (ac_engine c))))))"

definition engine_filter :: "agent_config \<Rightarrow> string list \<Rightarrow> message_filter" where
  "engine_filter c auto_subscribe =
     (let types = fold (\<lambda>t ts. if t \<in> set ts then ts else ts @ [t]) auto_subscribe
                    (engine_response_types c)
      in \<lparr>mf_types = (if types = [] then None else Some types),
          mf_to_match = BroadcastAndDirectedToMe\<rparr>)"

subsection \<open>Store effects\<close>

definition with_store ::
  "('s \<Rightarrow> (session_error + 'a) \<times> 's) \<Rightarrow> 's \<Rightarrow> ('s, 'c) world \<Rightarrow> (session_error + 'a) \<times> ('s, 'c) world" where
  "with_store op st w = (let (r, st') = op st in (r, w\<lparr>eng_session_store := Some st'\<rparr>))"

text \<open>Writes whose failure is ignored.\<close>

definition best_effort ::
  "('s \<Rightarrow> (session_error + 'a) \<times> 's) \<Rightarrow> ('s, 'c) world \<Rightarrow> ('s, 'c) world" where
  "best_effort op w =
     (case eng_session_store w of None \<Rightarrow> w | Some st \<Rightarrow> snd (with_store op st w))"

definition snapshot_if_configured ::
  "('s, 'c) deps \<Rightarrow> checkpoint \<Rightarrow> ('s, 'c) world \<Rightarrow> (run_error, unit) outcome \<times> ('s, 'c) world" where
  "snapshot_if_configured D cp w =
     (case eng_session_store w of
        None \<Rightarrow> (Ret (), w)
      | Some st \<Rightarrow>
          (let snap = CheckpointSnapshot_new (w_now w) cp (turn_count (w_state w));
               (r, w') = with_store (so_snapshot (d_store D) (w_now w) (eng_session_id w)
                                       (w_state w) snap) st w
           in case r of
                Inl e \<Rightarrow> (Fail (SnapshotFailed (eng_session_id w) (session_error_display e)), w')
              | Inr _ \<Rightarrow> (Ret (), w')))"

definition maybe_record_round_start ::
  "('s, 'c) deps \<Rightarrow> nat \<Rightarrow> ('s, 'c) world \<Rightarrow> ('s, 'c) world" where
  "maybe_record_round_start D n w =
     best_effort (record_round_start (d_store D) (w_now w) (eng_session_id w) n) w"

definition maybe_record_round_end ::
  "('s, 'c) deps \<Rightarrow> nat \<Rightarrow> millis \<Rightarrow> ('s, 'c) world \<Rightarrow> ('s, 'c) world" where
  "maybe_record_round_end D n duration w =
     best_effort (record_round_end (d_store D) (w_now w) (eng_session_id w) n duration) w"

definition usage_field :: "json \<Rightarrow> string \<Rightarrow> nat" where
  "usage_field usage k =
     as_u32 (case Option.bind (json_get usage k) as_u64 of None \<Rightarrow> 0 | Some n \<Rightarrow> n)"

definition maybe_record_model_call ::
  "('s, 'c) deps \<Rightarrow> string \<Rightarrow> json \<Rightarrow> nat \<Rightarrow> nat \<Rightarrow> ('s, 'c) world \<Rightarrow> ('s, 'c) world" where
  "maybe_record_model_call D model usage turn n w =
     best_effort (record_model_call_end (d_store D) (eng_session_id w)
       \<lparr>mcr_model = model, mcr_input_tokens = usage_field usage ''input_tokens'',
        mcr_output_tokens = usage_field usage ''output_tokens'',
        mcr_total_tokens = usage_field usage ''total_tokens'',
        mcr_turn = turn, mcr_round = n, mcr_at = w_now w\<rparr>) w"

definition maybe_record_tool_call ::
  "('s, 'c) deps \<Rightarrow> string \<Rightarrow> millis \<Rightarrow> bool \<Rightarrow> string option \<Rightarrow> nat \<Rightarrow> nat \<Rightarrow> ('s, 'c) world \<Rightarrow> ('s, 'c) world" where
  "maybe_record_tool_call D tool duration ok err turn n w =
     best_effort (record_tool_call_end (d_store D) (eng_session_id w)
       \<lparr>tcr_tool_name = tool, tcr_duration_ms = duration, tcr_success = ok, tcr_error = err,
        tcr_turn = turn, tcr_round = n, tcr_at = w_now w\<rparr>) w"

definition maybe_record_outbound ::
  "('s, 'c) deps \<Rightarrow> action_message \<Rightarrow> node_id list \<Rightarrow> ('s, 'c) world
    \<Rightarrow> (run_error, unit) outcome \<times> ('s, 'c) world" where
  "maybe_record_outbound D m recipients w =
     (case eng_session_store w of
        None \<Rightarrow> (Ret (), w)
      | Some st \<Rightarrow>
          (let ev = OutboundSent (am_msg_type m) (am_correlation_id m) 1
                      (map as_string recipients) (am_payload (d_uuid D) m) (w_now w);
               (r, w') = with_store (so_record_event (d_store D) (eng_session_id w) ev) st w
           in case r of
                Inl e \<Rightarrow> (Fail (SnapshotFailed (eng_session_id w)
                                 (''record_event: '' @ session_error_display e)), w')
              | Inr _ \<Rightarrow> (Ret (), w')))"

definition maybe_record_inbound_reply ::
  "('s, 'c) deps \<Rightarrow> message \<Rightarrow> ('s, 'c) world \<Rightarrow> dispatch_decision \<times> ('s, 'c) world" where
  "maybe_record_inbound_reply D m w =
     (case correlation_id (d_uuid D) m of
        None \<Rightarrow> (Pass, w)
      | Some cid \<Rightarrow>
          (let (dup, c) = check_and_record (d_lru D) cid (eng_inbound_dedup w);
               w1 = w\<lparr>eng_inbound_dedup := c\<rparr>
           in if dup then (Drop, w1)
              else (Pass, best_effort (so_record_event (d_store D) (eng_session_id w1)
                            (InboundReply (msg_type m) cid (as_string (msg_from m))
                               (msg_payload m) (w_now w1))) w1)))"

definition record_peer_reply_event ::
  "('s, 'c) deps \<Rightarrow> uuid \<Rightarrow> node_id \<Rightarrow> ('s, 'c) world \<Rightarrow> ('s, 'c) world" where
  "record_peer_reply_event D cid source w =
     best_effort (record_peer_reply_received (d_store D) (w_now w) (eng_session_id w) cid
                    (as_string source)) w"

text \<open>
  \<^verbatim>\<open>blocking_lock\<close> panics (\<open>None\<close>) in an asynchronous context, unless the task runs where it
  may block (\<open>w_may_block\<close>).
\<close>

definition dispatch_incoming ::
  "message \<Rightarrow> ('s, 'c) world \<Rightarrow> (run_error + handler_outcome) option" where
  "dispatch_incoming m w =
     (if \<not> w_may_block w then None
      else Some (dispatch \<lparr>hc_engine_id = eng_agent_id w, hc_session_id = eng_session_id w,
                           hc_from_bus = (case msg_from_bus m of Some b \<Rightarrow> b | None \<Rightarrow> BusId 0)\<rparr>
                   m (eng_handlers w)))"

subsection \<open>Waiting\<close>

datatype poll_result = PMsg message | PClosed | PCancelled | PNever

text \<open>
  The biased \<^verbatim>\<open>select!\<close> of the token and \<^verbatim>\<open>recv\<close>: the script runs until one of them is ready;
  when it has run out and neither is, they never will be.
\<close>

function poll :: "('s, 'c) world \<Rightarrow> poll_result \<times> ('s, 'c) world" where
  "poll w =
     (if w_cancelled w then (PCancelled, w)
      else case w_inbound w of
             m # ms \<Rightarrow> (PMsg m, w\<lparr>w_inbound := ms\<rparr>)
           | [] \<Rightarrow> (if w_closed w then (PClosed, w)
                   else if w_script w = [] then (PNever, w)
                   else poll (tick w)))"
  by pat_completeness auto

lemma env_step_script [simp]: "w_script (env_step ev w) = w_script w"
  by (cases ev) simp_all

lemma fold_env_step_script [simp]: "w_script (fold env_step evs w) = w_script w"
  by (induction evs arbitrary: w) simp_all

lemma tick_script: "w_script (tick w) = tl (w_script w)"
  by (simp add: tick_def split: list.splits)

termination poll
  by (relation "measure (\<lambda>w. length (w_script w))") (auto simp: tick_script)

declare poll.simps [simp del]

text \<open>The number of messages that can still arrive, and the script portions left.\<close>

definition deliveries :: "env_event list \<Rightarrow> nat" where
  "deliveries evs = length (filter (\<lambda>ev. case ev of EvDeliver _ \<Rightarrow> True | _ \<Rightarrow> False) evs)"

definition pending_input :: "('s, 'c) world \<Rightarrow> nat" where
  "pending_input w = length (w_inbound w) + sum_list (map deliveries (w_script w))"

lemma fold_env_step_inbound:
  "length (w_inbound (fold env_step evs w)) = length (w_inbound w) + deliveries evs"
proof (induction evs arbitrary: w)
  case Nil
  then show ?case by (simp add: deliveries_def)
next
  case (Cons e evs)
  then show ?case by (cases e) (simp_all add: deliveries_def)
qed

lemma pending_input_tick [simp]: "pending_input (tick w) = pending_input w"
  by (simp add: tick_def pending_input_def fold_env_step_inbound split: list.splits)

lemma poll_input:
  "poll w = (r, w') \<Longrightarrow> pending_input w' \<le> pending_input w \<and>
     (\<forall>m. r = PMsg m \<longrightarrow> pending_input w' < pending_input w)"
proof (induction w rule: poll.induct)
  case (1 w)
  show ?case
  proof (cases "w_cancelled w \<or> w_inbound w \<noteq> [] \<or> w_closed w \<or> w_script w = []")
    case True
    with "1.prems" show ?thesis
      by (subst (asm) poll.simps) (auto simp: pending_input_def split: list.splits if_splits)
  next
    case False
    with "1.prems" have "poll (tick w) = (r, w')" by (subst (asm) poll.simps) simp
    with False 1 show ?thesis by simp
  qed
qed

definition find_wait_event :: "uuid \<Rightarrow> ('s, 'c) world \<Rightarrow> wait_event option" where
  "find_wait_event eid w = find (\<lambda>e. we_id e = eid) (st_wait_events (w_state w))"

fun triggered :: "wait_strategy \<Rightarrow> nat \<Rightarrow> nat \<Rightarrow> bool" where
  "triggered WaitAll expected n = (n \<ge> expected)"
| "triggered WaitAny expected n = True"
| "triggered (WaitCount k) expected n = (n \<ge> k)"

definition processor_error :: "message \<Rightarrow> ('s, 'c) world \<Rightarrow> string option" where
  "processor_error m w =
     (case map_of (ec_processors (ac_engine (eng_config w))) (msg_type m) of
        None \<Rightarrow> None
      | Some p \<Rightarrow> (if rp_handles p (msg_type m)
                  then (case rp_process p m of Inl e \<Rightarrow> Some e | Inr _ \<Rightarrow> None)
                  else None))"

text \<open>A message of a type that is not waited for: replies are deduplicated, then handlers run.\<close>

definition side_message ::
  "('s, 'c) deps \<Rightarrow> message \<Rightarrow> ('s, 'c) world \<Rightarrow> bool \<times> ('s, 'c) world" where
  "side_message D m w =
     (let (decision, w') =
            (if msg_type m = PEER_REPLY \<or> msg_type m = ''human_handoff_reply''
             then maybe_record_inbound_reply D m w else (Pass, w))
      in case decision of
           Drop \<Rightarrow> (True, w')
         | Pass \<Rightarrow> (dispatch_incoming m w' \<noteq> None, w'))"

lemma best_effort_simps [simp]:
  "w_inbound (best_effort op w) = w_inbound w" "w_script (best_effort op w) = w_script w"
  "w_state (best_effort op w) = w_state w" "w_bus (best_effort op w) = w_bus w"
  "w_cancelled (best_effort op w) = w_cancelled w" "w_closed (best_effort op w) = w_closed w"
  "eng_config (best_effort op w) = eng_config w" "eng_handle (best_effort op w) = eng_handle w"
  "w_may_block (best_effort op w) = w_may_block w" "w_fresh (best_effort op w) = w_fresh w"
  "eng_registry (best_effort op w) = eng_registry w" "w_now (best_effort op w) = w_now w"
  by (simp_all add: best_effort_def with_store_def split: option.splits prod.splits)

lemma pending_input_best_effort [simp]: "pending_input (best_effort op w) = pending_input w"
  by (simp add: pending_input_def)

lemma side_message_simps:
  assumes "side_message D m w = (ok, w')"
  shows "w_state w' = w_state w" "w_script w' = w_script w" "w_inbound w' = w_inbound w"
    "pending_input w' = pending_input w" "eng_config w' = eng_config w" "w_bus w' = w_bus w"
    "w_fresh w' = w_fresh w" "eng_handle w' = eng_handle w" "w_may_block w' = w_may_block w"
    "eng_registry w' = eng_registry w"
  using assms
  by (auto simp: side_message_def maybe_record_inbound_reply_def pending_input_def Let_def
      split: option.splits prod.splits if_splits dispatch_decision.splits)

text \<open>One pass through the loop: the result (\<open>Inl\<close>), or what has been received so far.\<close>

definition note_peer_reply ::
  "('s, 'c) deps \<Rightarrow> wait_event \<Rightarrow> message \<Rightarrow> ('s, 'c) world \<Rightarrow> ('s, 'c) world" where
  "note_peer_reply D ev m w =
     (if msg_type m = PEER_REPLY
      then record_peer_reply_event D (we_correlation_id ev) (msg_from m) w else w)"

definition accept_message ::
  "('s, 'c) deps \<Rightarrow> wait_event \<Rightarrow> message list \<Rightarrow> message \<Rightarrow> ('s, 'c) world
    \<Rightarrow> (run_error, message list) outcome \<times> ('s, 'c) world + message list \<times> ('s, 'c) world" where
  "accept_message D ev received m w =
     (case processor_error m w of
        Some reason \<Rightarrow> Inl (Fail (ProcessorError (msg_type m) reason), w)
      | None \<Rightarrow>
          (let w' = note_peer_reply D ev m w;
               received' = received @ [m]
           in if triggered (we_strategy ev) (we_expected ev) (length received')
              then Inl (Ret received', upd_state (retain_wait_events (we_id ev)) w')
              else Inr (received', w')))"

definition wait_step ::
  "('s, 'c) deps \<Rightarrow> uuid \<Rightarrow> string list \<Rightarrow> message list \<Rightarrow> ('s, 'c) world
    \<Rightarrow> (run_error, message list) outcome \<times> ('s, 'c) world + message list \<times> ('s, 'c) world" where
  "wait_step D eid types received w0 =
     (case poll (tick w0) of
        (PNever, w) \<Rightarrow> Inl (Hang, w)
      | (PCancelled, w) \<Rightarrow> Inl (Fail Stopped, upd_state (retain_wait_events eid) w)
      | (PClosed, w) \<Rightarrow> Inl (Fail (Internal ''handle closed''), w)
      | (PMsg m, w) \<Rightarrow>
          (case find_wait_event eid w of
             None \<Rightarrow> Inr (received, w)
           | Some ev \<Rightarrow>
               (if msg_type m \<notin> set types
                then (case side_message D m w of
                        (False, w') \<Rightarrow> Inl (Panic, w')
                      | (True, w') \<Rightarrow> Inr (received, w'))
                else if correlation_id (d_uuid D) m \<noteq> Some (we_correlation_id ev)
                then Inr (received, w)
                else accept_message D ev received m w)))"

lemma pending_input_upd_state [simp]: "pending_input (upd_state f w) = pending_input w"
  by (simp add: upd_state_def pending_input_def)

lemma pending_input_record_peer_reply [simp]:
  "pending_input (record_peer_reply_event D c n w) = pending_input w"
  by (simp add: record_peer_reply_event_def)

lemma pending_input_note_peer_reply [simp]: "pending_input (note_peer_reply D ev m w) = pending_input w"
  by (simp add: note_peer_reply_def)

lemma accept_message_input:
  "(case accept_message D ev received m w of Inl (r, w') \<Rightarrow> pending_input w' = pending_input w
    | Inr (received', w') \<Rightarrow> pending_input w' = pending_input w)"
  by (simp add: accept_message_def Let_def split: option.splits)

lemma wait_step_input:
  "(case wait_step D eid types received w0 of Inl (r, w') \<Rightarrow> pending_input w' \<le> pending_input w0
    | Inr (received', w') \<Rightarrow> pending_input w' < pending_input w0)"
proof -
  obtain r w where p: "poll (tick w0) = (r, w)" by (metis surj_pair)
  from poll_input [OF p] have le: "pending_input w \<le> pending_input w0"
    and less: "\<And>m. r = PMsg m \<Longrightarrow> pending_input w < pending_input w0" by auto
  show ?thesis
  proof (cases r)
    case (PMsg m)
    obtain ok w' where s: "side_message D m w = (ok, w')" by (metis surj_pair)
    from less [OF PMsg] side_message_simps(4) [OF s]
      accept_message_input [where D = D and ev = "the (find_wait_event eid w)" and received = received
        and m = m and w = w]
    show ?thesis
      by (cases ok) (auto simp: wait_step_def p PMsg s split: option.splits sum.splits)
  qed (use p le in \<open>auto simp: wait_step_def\<close>)
qed

function wait_for_strategy ::
  "('s, 'c) deps \<Rightarrow> uuid \<Rightarrow> string list \<Rightarrow> message list \<Rightarrow> ('s, 'c) world
    \<Rightarrow> (run_error, message list) outcome \<times> ('s, 'c) world" where
  "wait_for_strategy D eid types received w =
     (case wait_step D eid types received w of
        Inl result \<Rightarrow> result
      | Inr (received', w') \<Rightarrow> wait_for_strategy D eid types received' w')"
  by pat_completeness auto

termination wait_for_strategy
proof (relation "measure (\<lambda>(D, eid, types, received, w). pending_input w)", goal_cases)
  case 1
  then show ?case by simp
next
  case (2 D eid types received w x received' w')
  with wait_step_input [where D = D and eid = eid and types = types and received = received and ?w0.0 = w]
  show ?case by (auto split: prod.splits)
qed

declare wait_for_strategy.simps [simp del]

lemma poll_tick_less: "poll (tick w0) = (PMsg m, w) \<Longrightarrow> pending_input w < pending_input w0"
  using poll_input [of "tick w0"] by fastforce

end
