(* ===== verification/Engine.thy ===== *)
theory Engine
  imports Engine_World
begin

text \<open>
  The engine, second half: sending and waiting, model and tool turns, checkpoints, the ReAct
  loop, the recovery of the outbox and the handoff to a human.
\<close>

subsection \<open>Sending and waiting\<close>

definition register_wait ::
  "uuid \<Rightarrow> wait_strategy \<Rightarrow> nat \<Rightarrow> ('s, 'c) world \<Rightarrow> uuid \<times> ('s, 'c) world" where
  "register_wait cid strategy expected w0 =
     (let (eid, w) = fresh w0
      in (eid, upd_state (push_wait_event (WaitEvent_new eid (w_now w) cid strategy expected)) w))"

text \<open>Register the wait, send, and take the wait back if the send fails.\<close>

definition send_registered ::
  "uuid \<Rightarrow> message \<Rightarrow> ('s, 'c) world \<Rightarrow> (run_error, unit) outcome \<times> ('s, 'c) world" where
  "send_registered eid m w0 =
     (let (r, w) = world_send m w0
      in case r of
           Inl e \<Rightarrow> (Fail (BusError e), upd_state (retain_wait_events eid) w)
         | Inr _ \<Rightarrow> (Ret (), w))"

fun remove_first :: "'a list \<Rightarrow> 'w \<Rightarrow> ('e, 'a) outcome \<times> 'w" where
  "remove_first [] w = (Panic, w)"
| "remove_first (x # xs) w = (Ret x, w)"

definition send_and_await ::
  "('s, 'c) deps \<Rightarrow> uuid \<Rightarrow> message \<Rightarrow> ('s, 'c) world \<Rightarrow> (run_error, message) outcome \<times> ('s, 'c) world" where
  "send_and_await D cid m w0 =
     (let (cancelled, w) = is_cancelled w0
      in if cancelled then (Fail Stopped, w)
         else
           (let expected = (if msg_to m = [] then 1 else length (msg_to m));
                (eid, w) = register_wait cid WaitAll expected w
            in bind_out (send_registered eid m w) (\<lambda>_ w.
               bind_out (wait_for_strategy D eid [predicted_response (msg_type m)] [] w) remove_first)))"

definition wire_message ::
  "('s, 'c) deps \<Rightarrow> action_message \<Rightarrow> node_id list \<Rightarrow> ('s, 'c) world \<Rightarrow> message \<times> ('s, 'c) world" where
  "wire_message D m recipients w0 =
     (let (i, w) = fresh w0
      in (Message_with_from_bus i (w_now w) (am_msg_type m) (eng_agent_id w) recipients
            (am_payload (d_uuid D) m) (nh_primary_bus_id (eng_handle w)), w))"

definition publish_and_await_query ::
  "('s, 'c) deps \<Rightarrow> action_message \<Rightarrow> node_id list \<Rightarrow> wait_strategy \<Rightarrow> ('s, 'c) world
    \<Rightarrow> (run_error, message list) outcome \<times> ('s, 'c) world" where
  "publish_and_await_query D m recipients strategy w0 =
     (let (cancelled, w) = is_cancelled w0
      in if cancelled then (Fail Stopped, w)
         else
           (let (eid, w) = register_wait (am_correlation_id m) strategy (max (length recipients) 1) w
            in bind_out (maybe_record_outbound D m recipients w) (\<lambda>_ w.
                 let (wire, w) = wire_message D m recipients w
                 in bind_out (send_registered eid wire w) (\<lambda>_ w.
                    wait_for_strategy D eid [predicted_response (am_msg_type m)] [] w))))"

definition publish_only_command ::
  "('s, 'c) deps \<Rightarrow> action_message \<Rightarrow> node_id list \<Rightarrow> ('s, 'c) world
    \<Rightarrow> (run_error, unit) outcome \<times> ('s, 'c) world" where
  "publish_only_command D m recipients w =
     bind_out (maybe_record_outbound D m recipients w) (\<lambda>_ w.
       let (wire, w) = wire_message D m recipients w;
           (r, w) = world_send wire w
       in case r of Inl e \<Rightarrow> (Fail (BusError e), w) | Inr _ \<Rightarrow> (Ret (), w))"

fun dispatch_built ::
  "('s, 'c) deps \<Rightarrow> checkpoint_msg list \<Rightarrow> ('s, 'c) world \<Rightarrow> (run_error, unit) outcome \<times> ('s, 'c) world" where
  "dispatch_built D [] w = (Ret (), w)"
| "dispatch_built D (cm # cms) w =
     bind_out
       (case am_intent (cm_msg cm) of
          Query \<Rightarrow> bind_out (publish_and_await_query D (cm_msg cm) (cm_recipients cm) WaitAll w)
                     (\<lambda>_ w. (Ret (), w))
        | Command \<Rightarrow> publish_only_command D (cm_msg cm) (cm_recipients cm) w)
       (\<lambda>_ w. dispatch_built D cms w)"

definition evaluate_and_dispatch ::
  "('s, 'c) deps \<Rightarrow> checkpoint \<Rightarrow> ('s, 'c) world \<Rightarrow> (run_error, unit) outcome \<times> ('s, 'c) world" where
  "evaluate_and_dispatch D trigger w0 =
     (let (cancelled, w) = is_cancelled w0
      in if cancelled then (Fail Stopped, w)
         else bind_out (snapshot_if_configured D trigger w) (\<lambda>_ w.
           let rules = ec_checkpoint_rules (ac_engine (eng_config w))
           in if rules = [] then (Ret (), w)
              else
                (let (g, w) = primary_graph w;
                     (r, cache, i) = evaluate (w_state w) trigger rules
                                       (ec_routes (ac_engine (eng_config w))) (bg_nodes g)
                                       (eng_discovery_cache w) (w_fresh w) []
                 in bind_out (r, w\<lparr>eng_discovery_cache := cache, w_fresh := i\<rparr>) (dispatch_built D))))"

subsection \<open>Model turns\<close>

definition prepare_round :: "string \<Rightarrow> state \<Rightarrow> state" where
  "prepare_round user_input s =
     (let s1 = push_message (ModelMessage_new ''user'' user_input) s
      in inc_round (s1\<lparr>st_over_view := (st_over_view s1)\<lparr>ov_last_user_message := user_input\<rparr>\<rparr>))"

text \<open>The flag says that a middleware aborted the call.\<close>

fun run_middlewares :: "middleware list \<Rightarrow> model_request \<Rightarrow> state \<Rightarrow> bool \<times> model_request" where
  "run_middlewares [] r s = (False, r)"
| "run_middlewares (mw # mws) r s =
     (let r' = mw_before_model_call mw r s
      in if rq_abort r' \<noteq> None then (True, r') else run_middlewares mws r' s)"

definition model_prefix :: "string \<Rightarrow> string list \<Rightarrow> string \<Rightarrow> model_message list" where
  "model_prefix template memory skills =
     ModelMessage_new ''system'' template # map (ModelMessage_new ''system'') memory
       @ (if skills = [] then [] else [ModelMessage_new ''system'' skills])"

definition response_content :: "json \<Rightarrow> string" where
  "response_content pl =
     unwrap_str (Option.bind (json_get pl ''message'') (\<lambda>m. get_str m ''content''))"

definition response_tool_calls :: "json \<Rightarrow> tool_call list" where
  "response_tool_calls pl =
     (case get_array pl ''tool_calls'' of None \<Rightarrow> [] | Some arr \<Rightarrow> List.map_filter tool_call_of_value arr)"

definition note_usage ::
  "('s, 'c) deps \<Rightarrow> json \<Rightarrow> ('s, 'c) world \<Rightarrow> ('s, 'c) world" where
  "note_usage D pl w =
     (case json_get pl ''usage'' of
        None \<Rightarrow> w
      | Some usage \<Rightarrow>
          (let w1 = (case Option.bind (json_get usage ''prompt_tokens'') as_u64 of
                       Some n \<Rightarrow> upd_state (set_context_tokens n) w
                     | None \<Rightarrow> w);
               model = (case get_str pl ''model'' of
                          Some m \<Rightarrow> m | None \<Rightarrow> md_model_name (ac_model (eng_config w1)))
           in maybe_record_model_call D model usage (as_u32 (turn_count (w_state w1)))
                (as_u32 (round_count (w_state w1))) w1))"

text \<open>The context of the call, and whether a middleware aborts it.\<close>

definition model_context ::
  "('s, 'c) world \<Rightarrow> (bool \<times> model_request) \<times> ('s, 'c) world" where
  "model_context w0 =
     (let (g, w) = primary_graph w0;
          (skills, reg) = skills_text g (eng_registry w);
          w = w\<lparr>eng_registry := reg\<rparr>;
          messages = model_prefix (ac_system_prompt_template (eng_config w))
                       (ac_initial_memory (eng_config w)) skills @ st_messages (w_state w);
          (g, w) = primary_graph w
      in (run_middlewares (ec_middlewares (ac_engine (eng_config w)))
            (ModelRequest_new messages (tools_for_model (eng_registry w) g)) (w_state w), w))"

definition model_call_of :: "model_decl \<Rightarrow> uuid \<Rightarrow> model_request \<Rightarrow> model_call" where
  "model_call_of d cid ctx0 =
     (let ctx = (if rq_system_prompt_suffix ctx0 = [] then ctx0
                 else append_system (rq_system_prompt_suffix ctx0) ctx0);
          params = \<lparr>cp_thinking_enabled = md_thinking_enabled d, cp_temperature = md_temperature d,
                    cp_max_tokens = md_max_output_tokens d, cp_extra = JObj []\<rparr>
      in ModelCall_with_model_params
           (ModelCall_with_tools (ModelCall_new cid (rq_messages ctx)) (rq_tools ctx)) params)"

definition assistant_message :: "string \<Rightarrow> tool_call list \<Rightarrow> model_message" where
  "assistant_message content tcs = (ModelMessage_new ''assistant'' content)\<lparr>mm_tool_calls := tcs\<rparr>"

definition record_answer ::
  "('s, 'c) deps \<Rightarrow> json \<Rightarrow> ('s, 'c) world \<Rightarrow> ('s, 'c) world" where
  "record_answer D pl w =
     upd_state (push_message (assistant_message (response_content pl) (response_tool_calls pl)))
       (note_usage D pl w)"

definition do_model_turn ::
  "('s, 'c) deps \<Rightarrow> ('s, 'c) world \<Rightarrow> (run_error, string \<times> tool_call list) outcome \<times> ('s, 'c) world" where
  "do_model_turn D w0 =
     (let ((aborted, ctx), w) = model_context (upd_state inc_turn w0)
      in if aborted then (Ret ([], []), w)
         else
           (let (cid, w) = fresh w;
                call = model_call_of (ac_model (eng_config w)) cid ctx;
                (wire, w) = wire_message D (AModelCall call) [model_target (eng_registry w)] w
            in bind_out (send_and_await D cid wire w) (\<lambda>response w.
                 let pl = msg_payload response
                 in (Ret (response_content pl, response_tool_calls pl), record_answer D pl w))))"

subsection \<open>Tool turns\<close>

definition lookup_tool_permission :: "agent_config \<Rightarrow> string \<Rightarrow> tool_permission" where
  "lookup_tool_permission c n =
     (case find (\<lambda>t. ts_name t = n) (ac_tools c) of None \<Rightarrow> Allow | Some t \<Rightarrow> ts_permission t)"

definition tool_message :: "tool_call \<Rightarrow> string \<Rightarrow> model_message" where
  "tool_message tc content =
     (ModelMessage_new ''tool'' content)\<lparr>mm_tool_call_id := Some (tc_id tc), mm_name := Some (tc_name tc)\<rparr>"

definition request_permission ::
  "('s, 'c) deps \<Rightarrow> tool_call \<Rightarrow> ('s, 'c) world \<Rightarrow> (run_error, bool) outcome \<times> ('s, 'c) world" where
  "request_permission D tc w0 =
     (let (cid, w) = fresh w0;
          payload = JObj [(''correlation_id'', JStr (uuid_show (d_uuid D) cid)),
                          (''tool_name'', JStr (tc_name tc)), (''arguments'', tc_arguments tc),
                          (''tool_call_id'', JStr (tc_id tc))];
          (i, w) = fresh w;
          m = Message_new_broadcast i (w_now w) PERMISSION_REQUEST (eng_agent_id w) payload;
          (eid, w) = register_wait cid WaitAll 1 w
      in bind_out (send_registered eid m w) (\<lambda>_ w.
         bind_out (wait_for_strategy D eid [PERMISSION_RESPONSE] [] w) (\<lambda>responses w.
         bind_out (remove_first responses w) (\<lambda>resp w.
           (Ret (case Option.bind (json_get (msg_payload resp) ''allow'') as_bool of
                   Some b \<Rightarrow> b | None \<Rightarrow> False), w)))))"

definition denied_result :: "string \<Rightarrow> json" where
  "denied_result content =
     JObj [(''content'', JStr []), (''error'', JStr content), (''permission'', JStr ''deny'')]"

text \<open>The tool message of a refusal, its event, and the result handed back.\<close>

definition deny_tool ::
  "('s, 'c) deps \<Rightarrow> tool_call \<Rightarrow> string \<Rightarrow> string \<Rightarrow> millis \<Rightarrow> nat \<Rightarrow> nat \<Rightarrow> ('s, 'c) world
    \<Rightarrow> (run_error, json) outcome \<times> ('s, 'c) world" where
  "deny_tool D tc content why started turn n w0 =
     (let w = upd_state (push_message (tool_message tc content)) w0
      in (Ret (denied_result content),
          maybe_record_tool_call D (tc_name tc) (w_now w - started) False (Some why) turn n w))"

definition tool_result_content :: "json \<Rightarrow> string" where
  "tool_result_content pl =
     (case get_str pl ''error'' of
        Some e \<Rightarrow> ''error: '' @ e
      | None \<Rightarrow> unwrap_str (get_str pl ''content''))"

text \<open>What follows the wait for the result.\<close>

fun finish_tool ::
  "('s, 'c) deps \<Rightarrow> tool_call \<Rightarrow> millis \<Rightarrow> nat \<Rightarrow> nat \<Rightarrow> (run_error, message) outcome \<times> ('s, 'c) world
    \<Rightarrow> (run_error, json) outcome \<times> ('s, 'c) world" where
  "finish_tool D tc started turn n (Ret response, w0) =
     (let pl = msg_payload response;
          w = upd_state (push_message (tool_message tc (tool_result_content pl))) w0;
          ok = (json_get pl ''error'' = None)
      in (Ret pl, maybe_record_tool_call D (tc_name tc) (w_now w - started) ok
                    (if ok then None else get_str pl ''error'') turn n w))"
| "finish_tool D tc started turn n (Fail e, w0) =
     (if e = Stopped
      then (let w = upd_state (push_message (tool_message tc
                      (''[cancelled mid-execution] '' @ tc_name tc))) w0
            in (Fail Stopped, maybe_record_tool_call D (tc_name tc) (w_now w - started) False
                                (Some ''cancelled'') turn n w))
      else (Fail e, maybe_record_tool_call D (tc_name tc) (w_now w0 - started) False
                      (Some (run_error_display (d_show_nat D) (bus_id_display (d_uuid D)) e)) turn n w0))"
| "finish_tool D tc started turn n (Panic, w) = (Panic, w)"
| "finish_tool D tc started turn n (Hang, w) = (Hang, w)"

definition exec_tool ::
  "('s, 'c) deps \<Rightarrow> tool_call \<Rightarrow> millis \<Rightarrow> nat \<Rightarrow> nat \<Rightarrow> ('s, 'c) world
    \<Rightarrow> (run_error, json) outcome \<times> ('s, 'c) world" where
  "exec_tool D tc started turn n w0 =
     (let target = (case tc_target tc of Some t \<Rightarrow> Some t
                    | None \<Rightarrow> owner_of_tool (eng_registry w0) (tc_name tc));
          (cid, w) = fresh w0;
          ex = \<lparr>te_correlation_id = cid, te_tool_name = tc_name tc, te_arguments = tc_arguments tc,
                te_target = target\<rparr>;
          (wire, w) = wire_message D (AToolExec ex) (case target of Some t \<Rightarrow> [t] | None \<Rightarrow> []) w
      in finish_tool D tc started turn n (send_and_await D cid wire w))"

definition do_tool_turn ::
  "('s, 'c) deps \<Rightarrow> tool_call \<Rightarrow> ('s, 'c) world \<Rightarrow> (run_error, json) outcome \<times> ('s, 'c) world" where
  "do_tool_turn D tc w0 =
     (let w = upd_state inc_turn w0;
          started = w_now w;
          turn = as_u32 (turn_count (w_state w));
          n = as_u32 (round_count (w_state w))
      in case lookup_tool_permission (eng_config w) (tc_name tc) of
           Deny \<Rightarrow> deny_tool D tc (''tool call denied by policy: '' @ tc_name tc) ''denied by policy''
                     started turn n w
         | Ask \<Rightarrow> bind_out (request_permission D tc w) (\<lambda>granted w.
               if granted then exec_tool D tc started turn n w
               else deny_tool D tc (''user denied tool call: '' @ tc_name tc) ''user denied''
                      started turn n w)
         | Allow \<Rightarrow> exec_tool D tc started turn n w)"

text \<open>Errors of single calls are collected; a panic or an endless wait ends the whole batch.\<close>

fun do_tool_turns ::
  "('s, 'c) deps \<Rightarrow> tool_call list \<Rightarrow> ('s, 'c) world
    \<Rightarrow> (run_error, (run_error + json) list) outcome \<times> ('s, 'c) world" where
  "do_tool_turns D [] w = (Ret [], w)"
| "do_tool_turns D (tc # tcs) w0 =
     (let (cancelled, w) = is_cancelled w0
      in bind_out
           (if cancelled
            then (Ret (Inl Stopped),
                  upd_state (push_message (tool_message tc (''[cancelled by user] '' @ tc_name tc))) w)
            else (case do_tool_turn D tc w of
                    (Ret x, w) \<Rightarrow> (Ret (Inr x), w)
                  | (Fail e, w) \<Rightarrow> (Ret (Inl e), w)
                  | (Panic, w) \<Rightarrow> (Panic, w)
                  | (Hang, w) \<Rightarrow> (Hang, w)))
           (\<lambda>r w. bind_out (do_tool_turns D tcs w) (\<lambda>rs w. (Ret (r # rs), w))))"

subsection \<open>The ReAct loop\<close>

definition check_max_turns :: "('s, 'c) world \<Rightarrow> (run_error, unit) outcome \<times> ('s, 'c) world" where
  "check_max_turns w =
     (let m = ec_max_turns (ac_engine (eng_config w))
      in if as_u32 (turn_count (w_state w)) \<ge> m then (Fail (MaxTurnsExceeded m), w) else (Ret (), w))"

definition check_cancelled :: "('s, 'c) world \<Rightarrow> (run_error, unit) outcome \<times> ('s, 'c) world" where
  "check_cancelled w0 =
     (let (cancelled, w) = is_cancelled w0 in if cancelled then (Fail Stopped, w) else (Ret (), w))"

fun first_error :: "(run_error + 'a) list \<Rightarrow> run_error option" where
  "first_error [] = None"
| "first_error (Inl e # rs) = Some e"
| "first_error (Inr _ # rs) = first_error rs"

text \<open>One pass through the body of the loop: the final answer, or \<open>None\<close> to go on.\<close>

definition run_tools ::
  "('s, 'c) deps \<Rightarrow> tool_call list \<Rightarrow> ('s, 'c) world \<Rightarrow> (run_error, string option) outcome \<times> ('s, 'c) world" where
  "run_tools D tool_calls w =
     bind_out (check_cancelled w) (\<lambda>_ w.
     bind_out (evaluate_and_dispatch D BeforeToolExec w) (\<lambda>_ w.
     bind_out (do_tool_turns D tool_calls w) (\<lambda>results w.
     bind_out (evaluate_and_dispatch D AfterToolExec w) (\<lambda>_ w.
       case first_error results of
         Some e \<Rightarrow> (Fail e, w)
       | None \<Rightarrow> bind_out (check_max_turns w) (\<lambda>_ w. (Ret None, w))))))"

definition run_turn ::
  "('s, 'c) deps \<Rightarrow> ('s, 'c) world \<Rightarrow> (run_error, string option) outcome \<times> ('s, 'c) world" where
  "run_turn D w =
     bind_out (check_cancelled w) (\<lambda>_ w.
     bind_out (check_max_turns w) (\<lambda>_ w.
     bind_out (evaluate_and_dispatch D BeforeModelCall w) (\<lambda>_ w.
     bind_out (check_max_turns w) (\<lambda>_ w.
     bind_out (do_model_turn D w) (\<lambda>(content, tool_calls) w.
     bind_out (check_cancelled w) (\<lambda>_ w.
     bind_out (evaluate_and_dispatch D AfterModelCall w) (\<lambda>_ w.
     bind_out (check_max_turns w) (\<lambda>_ w.
       if tool_calls = []
       then bind_out (evaluate_and_dispatch D RoundEnd w) (\<lambda>_ w. (Ret (Some content), w))
       else run_tools D tool_calls w))))))))"

subsection \<open>Termination of the loop\<close>

text \<open>No operation makes input; a turn that goes on has consumed some.\<close>

definition shrinks :: "('e, 'a) outcome \<times> ('s, 'c) world \<Rightarrow> ('s, 'c) world \<Rightarrow> bool" where
  "shrinks r w \<longleftrightarrow> pending_input (snd r) \<le> pending_input w"

named_theorems shrinking \<open>the operations that make no input\<close>

lemma shrinks_bind:
  assumes "shrinks r w"
    and "\<And>x w'. r = (Ret x, w') \<Longrightarrow> pending_input w' \<le> pending_input w \<Longrightarrow> shrinks (f x w') w"
  shows "shrinks (bind_out r f) w"
  using assms by (cases "(r, f)" rule: bind_out.cases) (auto simp: shrinks_def)

lemma shrinks_let: "(\<And>a w'. r = (a, w') \<Longrightarrow> shrinks (f a w') w) \<Longrightarrow> shrinks (Let r (case_prod f)) w"
  by (cases r) simp

lemma shrinks_case: "(\<And>a b. p = (a, b) \<Longrightarrow> shrinks (f a b) w) \<Longrightarrow> shrinks (case p of (a, b) \<Rightarrow> f a b) w"
  by (cases p) simp

lemma shrinks_if: "(b \<Longrightarrow> shrinks r w) \<Longrightarrow> (\<not> b \<Longrightarrow> shrinks r' w) \<Longrightarrow> shrinks (if b then r else r') w"
  by simp

lemma shrinks_leaf: "pending_input w' \<le> pending_input w \<Longrightarrow> shrinks (r, w') w"
  by (simp add: shrinks_def)

lemma shrinks_op: "shrinks r w' \<Longrightarrow> pending_input w' \<le> pending_input w \<Longrightarrow> shrinks r w"
  by (simp add: shrinks_def)

lemmas shrinks_intros = shrinks_if shrinks_let shrinks_case shrinks_bind shrinks_leaf

lemma pending_input_fresh: "fresh w = (i, w') \<Longrightarrow> pending_input w' = pending_input w"
  by (auto simp: fresh_def pending_input_def)

lemma pending_input_updates [simp]:
  "pending_input (w\<lparr>eng_registry := reg\<rparr>) = pending_input w"
  "pending_input (w\<lparr>eng_discovery_cache := cache\<rparr>) = pending_input w"
  "pending_input (w\<lparr>w_fresh := i\<rparr>) = pending_input w"
  "pending_input (w\<lparr>w_bus := b\<rparr>) = pending_input w"
  "pending_input (w\<lparr>eng_session_store := st\<rparr>) = pending_input w"
  by (simp_all add: pending_input_def)

lemma pending_input_world_send: "world_send m w = (r, w') \<Longrightarrow> pending_input w' = pending_input w"
  by (auto simp: world_send_def Let_def fresh_def split: prod.splits)

lemma pending_input_is_cancelled: "is_cancelled w = (c, w') \<Longrightarrow> pending_input w' = pending_input w"
  by (auto simp: is_cancelled_def)

lemma pending_input_primary_graph: "primary_graph w = (g, w') \<Longrightarrow> pending_input w' = pending_input w"
  by (auto simp: primary_graph_def Let_def)

lemma pending_input_register_wait: "register_wait c s n w = (e, w') \<Longrightarrow> pending_input w' = pending_input w"
  by (auto simp: register_wait_def Let_def fresh_def split: prod.splits)

lemma pending_input_wire_message: "wire_message D m to w = (x, w') \<Longrightarrow> pending_input w' = pending_input w"
  by (auto simp: wire_message_def Let_def fresh_def split: prod.splits)

lemma pending_input_record [simp]:
  "pending_input (maybe_record_tool_call D t d ok e k n w) = pending_input w"
  "pending_input (maybe_record_model_call D m u k n w) = pending_input w"
  "pending_input (maybe_record_round_start D n w) = pending_input w"
  "pending_input (maybe_record_round_end D n d w) = pending_input w"
  by (simp_all add: maybe_record_tool_call_def maybe_record_model_call_def
      maybe_record_round_start_def maybe_record_round_end_def)

lemma pending_input_note_usage [simp]: "pending_input (note_usage D pl w) = pending_input w"
  by (simp add: note_usage_def Let_def split: option.splits)

lemmas input_kept =
  pending_input_fresh pending_input_world_send pending_input_is_cancelled
  pending_input_primary_graph pending_input_register_wait pending_input_wire_message

lemma wait_for_strategy_shrinks [shrinking]:
  "shrinks (wait_for_strategy D eid types received w) w"
proof (induction D eid types received w rule: wait_for_strategy.induct)
  case (1 D eid types received w)
  note in_step = wait_step_input [where D = D and eid = eid and types = types and received = received
      and ?w0.0 = w]
  show ?case
  proof (cases "wait_step D eid types received w")
    case (Inl res)
    with in_step show ?thesis
      by (subst wait_for_strategy.simps) (auto simp: shrinks_def split: prod.splits)
  next
    case (Inr b)
    with 1 [OF Inr, of "fst b" "snd b"] in_step show ?thesis
      by (subst wait_for_strategy.simps) (auto simp: shrinks_def split: prod.splits)
  qed
qed

lemma wait_step_Ret:
  assumes "wait_step D eid types received w = Inl (Ret ms, w')"
  shows "\<exists>m ev w1. poll (tick w) = (PMsg m, w1) \<and> find_wait_event eid w1 = Some ev \<and>
    msg_type m \<in> set types \<and> correlation_id (d_uuid D) m = Some (we_correlation_id ev) \<and>
    processor_error m w1 = None \<and> ms = received @ [m] \<and>
    triggered (we_strategy ev) (we_expected ev) (length ms) \<and>
    w' = upd_state (retain_wait_events (we_id ev)) (note_peer_reply D ev m w1)"
  using assms
  by (auto simp: wait_step_def accept_message_def Let_def
      split: prod.splits poll_result.splits option.splits if_splits bool.splits)

lemma wait_for_strategy_strict:
  "wait_for_strategy D eid types received w = (Ret ms, w') \<Longrightarrow> pending_input w' < pending_input w"
proof (induction D eid types received w rule: wait_for_strategy.induct)
  case (1 D eid types received w)
  show ?case
  proof (cases "wait_step D eid types received w")
    case (Inl res)
    then have "wait_step D eid types received w = Inl (Ret ms, w')"
      using "1.prems" by (subst (asm) wait_for_strategy.simps) simp
    from wait_step_Ret [OF this] show ?thesis by (auto dest: poll_tick_less)
  next
    case (Inr b)
    have "wait_for_strategy D eid types (fst b) (snd b) = (Ret ms, w')"
      using "1.prems" Inr by (subst (asm) wait_for_strategy.simps) (simp add: case_prod_unfold)
    with "1.IH" [OF Inr, of "fst b" "snd b"] Inr
      wait_step_input [where D = D and eid = eid and types = types and received = received and ?w0.0 = w]
    show ?thesis by (auto split: prod.splits)
  qed
qed

lemma remove_first_shrinks [shrinking]: "shrinks (remove_first xs w) w"
  by (cases xs) (simp_all add: shrinks_def)

lemma send_registered_shrinks [shrinking]: "shrinks (send_registered eid m w) w"
  by (auto simp: send_registered_def shrinks_def pending_input_world_send split: prod.splits sum.splits)

lemma maybe_record_outbound_shrinks [shrinking]: "shrinks (maybe_record_outbound D m to w) w"
  by (auto simp: maybe_record_outbound_def shrinks_def with_store_def Let_def
      split: option.splits prod.splits sum.splits)

lemma snapshot_if_configured_shrinks [shrinking]: "shrinks (snapshot_if_configured D cp w) w"
  by (auto simp: snapshot_if_configured_def shrinks_def with_store_def Let_def
      split: option.splits prod.splits sum.splits)

lemma send_and_await_shrinks [shrinking]: "shrinks (send_and_await D cid m w) w"
  unfolding send_and_await_def Let_def [of "if _ then _ else _"]
  by (intro shrinks_intros shrinking [THEN shrinks_op]) (auto simp: input_kept)

lemma publish_and_await_query_shrinks [shrinking]: "shrinks (publish_and_await_query D m to s w) w"
  unfolding publish_and_await_query_def
  by (intro shrinks_intros shrinking [THEN shrinks_op]) (auto simp: input_kept)

lemma publish_only_command_shrinks [shrinking]: "shrinks (publish_only_command D m to w) w"
  unfolding publish_only_command_def
  by (intro shrinks_intros shrinking [THEN shrinks_op])
    (auto simp: input_kept shrinks_def split: sum.splits)

lemma dispatch_built_shrinks [shrinking]: "shrinks (dispatch_built D cms w) w"
proof (induction cms arbitrary: w)
  case Nil
  then show ?case by (simp add: shrinks_def)
next
  case (Cons cm cms)
  have "shrinks (case am_intent (cm_msg cm) of
      Query \<Rightarrow> bind_out (publish_and_await_query D (cm_msg cm) (cm_recipients cm) WaitAll w)
                 (\<lambda>_ w. (Ret (), w))
    | Command \<Rightarrow> publish_only_command D (cm_msg cm) (cm_recipients cm) w) w"
    by (cases "am_intent (cm_msg cm)") (auto intro!: shrinks_intros shrinking)
  then show ?case
    by (auto intro!: shrinks_bind intro: Cons.IH [THEN shrinks_op])
qed

lemma evaluate_and_dispatch_shrinks [shrinking]: "shrinks (evaluate_and_dispatch D cp w) w"
  unfolding evaluate_and_dispatch_def Let_def [of "ec_checkpoint_rules _"]
  by (intro shrinks_intros shrinking [THEN shrinks_op]) (auto simp: input_kept)

lemma request_permission_shrinks [shrinking]: "shrinks (request_permission D tc w) w"
  unfolding request_permission_def Let_def [of "JObj _"] Let_def [of "Message_new_broadcast _ _ _ _ _"]
  by (intro shrinks_intros shrinking [THEN shrinks_op]) (auto simp: input_kept)

lemma deny_tool_shrinks [shrinking]: "shrinks (deny_tool D tc c y s t n w) w"
  by (simp add: deny_tool_def shrinks_def Let_def)

lemma finish_tool_shrinks: "shrinks r w \<Longrightarrow> shrinks (finish_tool D tc s t n r) w"
  by (cases "(D, tc, s, t, n, r)" rule: finish_tool.cases) (simp_all add: shrinks_def Let_def)

lemma exec_tool_shrinks [shrinking]: "shrinks (exec_tool D tc s t n w) w"
  unfolding exec_tool_def Let_def
  by (intro shrinks_case finish_tool_shrinks shrinking [THEN shrinks_op]) (auto simp: input_kept)

lemma do_tool_turn_shrinks [shrinking]: "shrinks (do_tool_turn D tc w) w"
proof -
  have ask: "shrinks (bind_out (request_permission D tc w') (\<lambda>granted w.
      if granted then exec_tool D tc s t n w else deny_tool D tc c y s t n w)) w'" for s t n c y w'
    by (intro shrinks_intros shrinking [THEN shrinks_op]) auto
  show ?thesis
    unfolding do_tool_turn_def Let_def
    by (cases "lookup_tool_permission (eng_config (upd_state inc_turn w)) (tc_name tc)")
      (auto intro: ask [THEN shrinks_op] exec_tool_shrinks [THEN shrinks_op] deny_tool_shrinks [THEN shrinks_op])
qed

lemma do_tool_turns_shrinks [shrinking]: "shrinks (do_tool_turns D tcs w) w"
proof (induction tcs arbitrary: w)
  case Nil
  then show ?case by (simp add: shrinks_def)
next
  case (Cons tc tcs)
  have "shrinks (case do_tool_turn D tc w' of (Ret x, w) \<Rightarrow> (Ret (Inr x), w) | (Fail e, w) \<Rightarrow> (Ret (Inl e), w)
      | (Panic, w) \<Rightarrow> (Panic, w) | (Hang, w) \<Rightarrow> (Hang, w)) w'" for w'
    using do_tool_turn_shrinks [of D tc w'] by (auto simp: shrinks_def split: prod.splits outcome.splits)
  note [intro] = this [THEN shrinks_op]
  show ?case
    unfolding do_tool_turns.simps
    by (intro shrinks_let shrinks_bind shrinks_if) (auto simp: input_kept
        intro: shrinks_leaf Cons.IH [THEN shrinks_op])
qed

lemma check_max_turns_shrinks [shrinking]: "shrinks (check_max_turns w) w"
  by (simp add: check_max_turns_def shrinks_def Let_def)

lemma check_cancelled_shrinks [shrinking]: "shrinks (check_cancelled w) w"
  by (auto simp: check_cancelled_def shrinks_def input_kept split: prod.splits)

lemma run_tools_shrinks [shrinking]: "shrinks (run_tools D tcs w) w"
  unfolding run_tools_def
  by (intro shrinks_bind shrinking [THEN shrinks_op])
    (auto intro!: shrinks_bind simp: shrinks_def check_max_turns_def Let_def split: option.splits)

lemma bind_out_RetE:
  assumes "bind_out r f = (Ret y, w')"
  obtains x w1 where "r = (Ret x, w1)" "f x w1 = (Ret y, w')"
  using assms by (cases "(r, f)" rule: bind_out.cases) auto

lemma send_and_await_strict:
  assumes "send_and_await D cid m w = (Ret x, w')"
  shows "pending_input w' < pending_input w"
proof -
  obtain c w1 where c: "is_cancelled w = (c, w1)" by (metis surj_pair)
  obtain eid w2 where r: "register_wait cid WaitAll (if msg_to m = [] then 1 else length (msg_to m)) w1
      = (eid, w2)" by (metis surj_pair)
  from assms c r have "bind_out (send_registered eid m w2) (\<lambda>_ w.
      bind_out (wait_for_strategy D eid [predicted_response (msg_type m)] [] w) remove_first) = (Ret x, w')"
    by (simp add: send_and_await_def split: if_splits)
  then show ?thesis
  proof (elim bind_out_RetE)
    fix u w3 ms w4
    assume sent: "send_registered eid m w2 = (Ret u, w3)"
      and wait: "wait_for_strategy D eid [predicted_response (msg_type m)] [] w3 = (Ret ms, w4)"
      and first: "remove_first ms w4 = (Ret x, w')"
    have "shrinks (send_registered eid m w2) w2" by (rule shrinking)
    moreover have "pending_input w' = pending_input w4" using first by (cases ms) auto
    ultimately show ?thesis
      using wait_for_strategy_strict [OF wait] pending_input_is_cancelled [OF c]
        pending_input_register_wait [OF r] sent
      by (simp add: shrinks_def)
  qed
qed

lemma pending_input_model_context:
  "model_context w = (x, w') \<Longrightarrow> pending_input w' = pending_input w"
  by (auto simp: model_context_def Let_def input_kept split: prod.splits)

lemma pending_input_record_answer [simp]: "pending_input (record_answer D pl w) = pending_input w"
  by (simp add: record_answer_def)

lemma do_model_turn_shrinks [shrinking]: "shrinks (do_model_turn D w) w"
proof -
  obtain aborted ctx w1 where c: "model_context (upd_state inc_turn w) = ((aborted, ctx), w1)"
    by (metis surj_pair)
  show ?thesis
    using pending_input_model_context [OF c] unfolding do_model_turn_def c Let_def prod.case
    by (intro shrinks_if shrinks_case shrinks_bind shrinks_leaf shrinking [THEN shrinks_op])
      (auto simp: input_kept)
qed

lemma do_model_turn_strict:
  assumes "do_model_turn D w = (Ret (content, tcs), w')" "tcs \<noteq> []"
  shows "pending_input w' < pending_input w"
  using assms
  by (auto simp: do_model_turn_def Let_def input_kept pending_input_model_context
      dest!: send_and_await_strict elim!: bind_out_RetE split: prod.splits if_splits)


lemma shrinks_RetD: "shrinks r w \<Longrightarrow> r = (Ret x, w') \<Longrightarrow> pending_input w' \<le> pending_input w"
  by (simp add: shrinks_def)

lemmas step_inputs =
  check_cancelled_shrinks [THEN shrinks_RetD] check_max_turns_shrinks [THEN shrinks_RetD]
  evaluate_and_dispatch_shrinks [THEN shrinks_RetD] run_tools_shrinks [THEN shrinks_RetD]

lemma run_turn_strict:
  assumes "run_turn D w = (Ret None, w')"
  shows "pending_input w' < pending_input w"
  using assms unfolding run_turn_def
  by (auto elim!: bind_out_RetE split: if_splits dest!: step_inputs do_model_turn_strict)

text \<open>
  The loop of \<^verbatim>\<open>run_inner\<close>. It terminates: each pass that goes on has received a model response.
\<close>

function run_loop :: "('s, 'c) deps \<Rightarrow> ('s, 'c) world \<Rightarrow> (run_error, string) outcome \<times> ('s, 'c) world" where
  "run_loop D w =
     (case run_turn D w of
        (Ret (Some out), w') \<Rightarrow> (Ret out, w')
      | (Ret None, w') \<Rightarrow> run_loop D w'
      | (Fail e, w') \<Rightarrow> (Fail e, w')
      | (Panic, w') \<Rightarrow> (Panic, w')
      | (Hang, w') \<Rightarrow> (Hang, w'))"
  by pat_completeness auto

termination run_loop
  by (relation "measure (\<lambda>(D, w). pending_input w)") (auto dest!: run_turn_strict [OF sym])

declare run_loop.simps [simp del]

end
