(* ===== verification/Engine_Run.thy ===== *)
theory Engine_Run
  imports Engine
begin

text \<open>
  The public operations of the engine (\<^verbatim>\<open>engine.rs\<close>) around the loop, and \<^verbatim>\<open>EngineBuilder\<close>
  (\<^verbatim>\<open>builder.rs\<close>), which validates a configuration against the buses, connects the engine and
  resends the outbox of its predecessor.
\<close>

subsection \<open>Rounds\<close>

definition check_pre_saved :: "('s, 'c) deps \<Rightarrow> ('s, 'c) world \<Rightarrow> (run_error, unit) outcome \<times> ('s, 'c) world" where
  "check_pre_saved D w =
     (case eng_session_store w of
        None \<Rightarrow> (Ret (), w)
      | Some st \<Rightarrow>
          (case so_exists (d_store D) (eng_session_id w) st of
             Inl e \<Rightarrow> (Fail (SnapshotFailed (eng_session_id w) (session_error_display e)), w)
           | Inr present \<Rightarrow>
               (if present then (Ret (), w) else (Fail (SessionNotPreSaved (eng_session_id w)), w))))"

definition run_inner ::
  "('s, 'c) deps \<Rightarrow> string \<Rightarrow> ('s, 'c) world \<Rightarrow> (run_error, string) outcome \<times> ('s, 'c) world" where
  "run_inner D user_input w =
     bind_out (check_pre_saved D w) (\<lambda>_ w. run_loop D (upd_state (prepare_round user_input) w))"

text \<open>A panic or an endless wait leaves no end of the round behind.\<close>

definition run ::
  "('s, 'c) deps \<Rightarrow> string \<Rightarrow> ('s, 'c) world \<Rightarrow> (run_error, string) outcome \<times> ('s, 'c) world" where
  "run D user_input w0 =
     (let round_number = as_u32 (round_count (w_state w0)) + 1;
          started_at = w_now w0;
          (r, w) = run_inner D user_input (maybe_record_round_start D round_number w0)
      in if r = Panic \<or> r = Hang then (r, w)
         else (r, maybe_record_round_end D round_number (w_now w - started_at) w))"

record task_result =
  tr_output :: json
  tr_turns_consumed :: nat
  tr_pending_peer_messages :: "string list"

definition run_once ::
  "('s, 'c) deps \<Rightarrow> string \<Rightarrow> ('s, 'c) world \<Rightarrow> (run_error, task_result) outcome \<times> ('s, 'c) world" where
  "run_once D user_message w0 =
     (let turns_before = turn_count (w_state w0)
      in bind_out (run D user_message w0) (\<lambda>content w.
           (Ret \<lparr>tr_output = JStr content,
                 tr_turns_consumed = as_u32 (turn_count (w_state w) - turns_before),
                 tr_pending_peer_messages = []\<rparr>, w)))"

datatype engine_error = OutboxNotEmpty "string list"

definition collect_outbox_pending :: "('s, 'c) world \<Rightarrow> string list" where
  "collect_outbox_pending w = []"

definition reset_state :: "('s, 'c) world \<Rightarrow> state \<Rightarrow> engine_error + state" where
  "reset_state w s =
     (let pending = collect_outbox_pending w
      in if pending \<noteq> [] then Inl (OutboxNotEmpty pending)
         else Inr (s\<lparr>st_messages := [],
                      st_over_view := (st_over_view s)\<lparr>ov_turn_count := 0, ov_round_count := 0,
                                                       ov_last_user_message := []\<rparr>,
                      st_wait_events := []\<rparr>))"

subsection \<open>Recovery of the outbox\<close>

definition resend_one :: "('s, 'c) deps \<Rightarrow> pending_outbound \<Rightarrow> ('s, 'c) world \<Rightarrow> ('s, 'c) world" where
  "resend_one D p w0 =
     (let attempt = po_attempt p + 1;
          (i, w) = fresh w0
      in case reconstruct_message (d_uuid D) i (w_now w) p (eng_agent_id w) of
           Inl _ \<Rightarrow> w
         | Inr wire \<Rightarrow>
             (let (r, w) = world_send wire w
              in case r of
                   Inl _ \<Rightarrow> w
                 | Inr _ \<Rightarrow>
                     best_effort (so_record_event (d_store D) (eng_session_id w)
                       (OutboundSent (po_msg_type p) (po_correlation_id p) attempt (po_target_nodes p)
                          (po_payload p) (w_now w))) w))"

definition resend_pending_outbound ::
  "('s, 'c) deps \<Rightarrow> ('s, 'c) world \<Rightarrow> (run_error, nat) outcome \<times> ('s, 'c) world" where
  "resend_pending_outbound D w =
     (case eng_session_store w of
        None \<Rightarrow> (Ret 0, w)
      | Some st \<Rightarrow>
          (case so_pending_outbound (d_store D) (eng_session_id w) st of
             Inl e \<Rightarrow> (Fail (SnapshotFailed (eng_session_id w)
                             (''pending_outbound: '' @ session_error_display e)), w)
           | Inr pending \<Rightarrow> (Ret (length pending), fold (resend_one D) pending w)))"

subsection \<open>Handoff to a human\<close>

text \<open>
  The token of the wait is the timeout's own, so a cancellation in the script is the timer.
  Unlike a query, the wait is registered after the send.
\<close>

definition handoff_to_human ::
  "('s, 'c) deps \<Rightarrow> string \<Rightarrow> json \<Rightarrow> string list \<Rightarrow> ('s, 'c) world
    \<Rightarrow> (run_error, human_handoff_reply) outcome \<times> ('s, 'c) world" where
  "handoff_to_human D question context options w0 =
     (let (cid, w) = fresh (w0\<lparr>w_cancelled := False\<rparr>);
          handoff = \<lparr>hh_correlation_id = cid, hh_question = question, hh_context = context,
                     hh_options = options\<rparr>;
          recipients = [NodeId ''ui'']
      in bind_out (maybe_record_outbound D (AHumanHandoff handoff) recipients w) (\<lambda>_ w.
           let (i, w) = fresh w;
               wire = Message_new i (w_now w) ''human_handoff'' (eng_agent_id w) recipients
                        (human_handoff_to_value (d_uuid D) handoff);
               (r, w) = world_send wire w
           in case r of
                Inl e \<Rightarrow> (Fail (BusError e), w)
              | Inr _ \<Rightarrow>
                  (let (eid, w) = register_wait cid WaitAll 1 w
                   in bind_out (wait_for_strategy D eid [''human_handoff_reply''] [] w) (\<lambda>responses w.
                        case responses of
                          [] \<Rightarrow> (Fail (SnapshotFailed (eng_session_id w) ''no human_handoff_reply received''), w)
                        | reply # _ \<Rightarrow>
                            (case human_handoff_reply_of_value (d_uuid D) (msg_payload reply) of
                               Some x \<Rightarrow> (Ret x, w)
                             | None \<Rightarrow> (Fail (SnapshotFailed (eng_session_id w) ''decode reply''), w))))))"

subsection \<open>EngineBuilder\<close>

record engine_builder =
  eb_session_id :: "string option"
  eb_agent_id :: "node_id option"
  eb_auto_subscribe :: "string list"
  eb_ephemeral :: bool

text \<open>The buses and the store are given to \<open>build\<close>.\<close>

definition EngineBuilder_new :: engine_builder where
  "EngineBuilder_new =
     \<lparr>eb_session_id = None, eb_agent_id = None, eb_auto_subscribe = [], eb_ephemeral = False\<rparr>"

definition with_session_id :: "string \<Rightarrow> engine_builder \<Rightarrow> engine_builder" where
  "with_session_id i eb = eb\<lparr>eb_session_id := Some i\<rparr>"

definition with_agent_id :: "node_id \<Rightarrow> engine_builder \<Rightarrow> engine_builder" where
  "with_agent_id n eb = eb\<lparr>eb_agent_id := Some n\<rparr>"

definition auto_subscribe_message_types :: "string list \<Rightarrow> engine_builder \<Rightarrow> engine_builder" where
  "auto_subscribe_message_types types eb = eb\<lparr>eb_auto_subscribe := eb_auto_subscribe eb @ types\<rparr>"

definition builder_ephemeral :: "bool \<Rightarrow> engine_builder \<Rightarrow> engine_builder" where
  "builder_ephemeral on eb = eb\<lparr>eb_ephemeral := on\<rparr>"

text \<open>The nodes of all buses; the first bus that has a node wins.\<close>

definition merged_nodes :: "bus_graph list \<Rightarrow> (node_id \<times> node_info) list" where
  "merged_nodes graphs =
     fold (\<lambda>n acc. if contains_key acc (ni_node_id n) then acc else acc @ [(ni_node_id n, n)])
       (concat (map bg_nodes graphs)) []"

fun missing_strict :: "(node_id \<times> node_info) list \<Rightarrow> (string \<times> route) list \<Rightarrow> string list option" where
  "missing_strict merged [] = None"
| "missing_strict merged ((_, Strict ids) # routes) =
     (let missing = map as_string (filter (\<lambda>i. \<not> contains_key merged i) ids)
      in if missing \<noteq> [] then Some missing else missing_strict merged routes)"
| "missing_strict merged ((_, Discovery c) # routes) = missing_strict merged routes"

fun duplicate_rule :: "string list \<Rightarrow> checkpoint_rule list \<Rightarrow> string option" where
  "duplicate_rule seen [] = None"
| "duplicate_rule seen (r # rs) =
     (if cr_name r \<in> set seen then Some (cr_name r) else duplicate_rule (cr_name r # seen) rs)"

text \<open>\<open>order\<close> is the order in which the merged \<^verbatim>\<open>HashMap\<close> is iterated.\<close>

definition validate ::
  "(node_info list \<Rightarrow> node_info list) \<Rightarrow> agent_config \<Rightarrow> bus_graph list \<Rightarrow> build_error + resource_registry" where
  "validate order config graphs =
     (if graphs = [] then Inl (MissingNodes [''<no bus provided>''])
      else
        (let merged = merged_nodes graphs;
             snapshot = \<lparr>bg_nodes = order (map snd merged), bg_message_count = 0, bg_uptime_ms = 0\<rparr>
         in case registry_build config snapshot of
              Inl e \<Rightarrow> Inl e
            | Inr registry \<Rightarrow>
                (case missing_strict merged (ec_routes (ac_engine config)) of
                   Some missing \<Rightarrow> Inl (MissingNodes missing)
                 | None \<Rightarrow>
                     (case duplicate_rule [] (ec_checkpoint_rules (ac_engine config)) of
                        Some n \<Rightarrow> Inl (DuplicateRuleName n)
                      | None \<Rightarrow> Inr registry))))"

definition engine_info :: "node_id option \<Rightarrow> agent_config \<Rightarrow> node_info" where
  "engine_info agent_id_override config =
     \<lparr>ni_node_id = (case agent_id_override of Some n \<Rightarrow> n
                    | None \<Rightarrow> NodeId (''engine/'' @ md_provider (ac_model config))),
      ni_node_type = ''engine'',
      ni_capabilities = JObj [(''kind'', JStr ''engine''), (''provider'', JStr (md_provider (ac_model config))),
                              (''model'', JStr (md_model_name (ac_model config)))],
      ni_online_since = 0\<rparr>"

fun connect_error_display :: "connect_error \<Rightarrow> string" where
  "connect_error_display (AlreadyConnected n) = ''node already connected: '' @ as_string n"
| "connect_error_display ConnectBusClosed = ''bus closed''"

text \<open>
  \<open>w\<close> supplies the surroundings (the primary bus, the clock, the script); \<open>None\<close> is the panic of
  subscribing to a bus that is shut down. Nobody else acts on the primary bus while the engine connects. The listener that invalidates the cache is part of
  the script.
\<close>

definition Engine_new ::
  "('s, 'c) deps \<Rightarrow> agent_config \<Rightarrow> resource_registry \<Rightarrow> engine_builder \<Rightarrow> ('s, 'c) world
    \<Rightarrow> (build_error + unit) option \<times> ('s, 'c) world" where
  "Engine_new D config registry eb w0 =
     (let info = engine_info (eb_agent_id eb) config;
          (i, w) = fresh w0
      in case connect id i (w_now w) info (engine_filter config (eb_auto_subscribe eb)) (w_bus w) of
           None \<Rightarrow> (None, w)
         | Some (Inl e, b) \<Rightarrow> (Some (Inl (PrimaryBusConnect (connect_error_display e))), w\<lparr>w_bus := b\<rparr>)
         | Some (Inr handle, b) \<Rightarrow>
             (if \<not> bus_has_tx b then (None, w\<lparr>w_bus := b\<rparr>)
              else (Some (Inr ()),
                    w\<lparr>eng_config := config, eng_agent_id := ni_node_id info, eng_handle := handle,
                      eng_discovery_cache := [], eng_registry := registry, eng_handlers := [],
                      eng_session_store := None, eng_session_id := as_string (ni_node_id info),
                      eng_inbound_dedup := InboundDedupCache_new (d_lru D)
                        (ec_inbound_dedup_capacity (ac_engine config)),
                      eng_ephemeral := eb_ephemeral eb, w_bus := b\<rparr>)))"

text \<open>\<open>store\<close> is the store given to the builder, \<open>graphs\<close> what the buses show when \<^verbatim>\<open>build\<close> starts.\<close>

definition build ::
  "('s, 'c) deps \<Rightarrow> (node_info list \<Rightarrow> node_info list) \<Rightarrow> engine_builder \<Rightarrow> 's option \<Rightarrow> bus_graph list
    \<Rightarrow> agent_config \<Rightarrow> ('s, 'c) world \<Rightarrow> (build_error + unit) option \<times> ('s, 'c) world" where
  "build D order eb store graphs config w0 =
     (case validate order config graphs of
        Inl e \<Rightarrow> (Some (Inl e), w0)
      | Inr registry \<Rightarrow>
          (case Engine_new D config registry eb w0 of
             (Some (Inr _), w) \<Rightarrow>
               (case store of
                  None \<Rightarrow> (Some (Inr ()), w)
                | Some st \<Rightarrow>
                    (let sid = (case eb_session_id eb of Some i \<Rightarrow> i | None \<Rightarrow> as_string (eng_agent_id w));
                         w = w\<lparr>eng_session_store := Some st, eng_session_id := sid\<rparr>
                     in (Some (Inr ()), snd (resend_pending_outbound D w))))
           | failed \<Rightarrow> failed))"

end
