(* ===== verification/Engine_Frames.thy ===== *)
theory Engine_Frames
  imports Engine_Run
begin

text \<open>
  What the operations of the engine leave alone. \<open>frame\<close> relates the worlds before and after
  any operation. An operation is \<open>calm\<close> when it does not wait for ever once a cancellation is
  sure to come, and \<open>quiet\<close> when, besides, it succeeds only with the \<^verbatim>\<open>State\<close> as it was: its
  own wait event is gone, every other one is still there.
\<close>

subsection \<open>Relations between worlds\<close>

definition cancel_coming :: "('s, 'c) world \<Rightarrow> bool" where
  "cancel_coming w \<longleftrightarrow> w_cancelled w \<or> list_ex (list_ex ((=) EvCancel)) (w_script w)"

definition ids_fresh :: "('s, 'c) world \<Rightarrow> bool" where
  "ids_fresh w \<longleftrightarrow> list_all (\<lambda>e. we_id e < w_fresh w) (st_wait_events (w_state w))"

definition frame :: "('s, 'c) world \<Rightarrow> ('s, 'c) world \<Rightarrow> bool" where
  "frame w w' \<longleftrightarrow> eng_config w' = eng_config w \<and> w_fresh w \<le> w_fresh w' \<and>
     (cancel_coming w \<longrightarrow> cancel_coming w')"

definition still :: "('s, 'c) world \<Rightarrow> ('s, 'c) world \<Rightarrow> bool" where
  "still w w' \<longleftrightarrow> frame w w' \<and> w_state w' = w_state w"

definition calm :: "('e, 'a) outcome \<times> ('s, 'c) world \<Rightarrow> ('s, 'c) world \<Rightarrow> bool" where
  "calm r w \<longleftrightarrow> frame w (snd r) \<and> (cancel_coming w \<longrightarrow> fst r \<noteq> Hang)"

definition quiet :: "('e, 'a) outcome \<times> ('s, 'c) world \<Rightarrow> ('s, 'c) world \<Rightarrow> bool" where
  "quiet r w \<longleftrightarrow> calm r w \<and> (\<forall>x. fst r = Ret x \<longrightarrow> ids_fresh w \<longrightarrow> w_state (snd r) = w_state w)"

lemma frame_refl [simp]: "frame w w"
  by (simp add: frame_def)

lemma frame_trans [trans]: "frame w w1 \<Longrightarrow> frame w1 w2 \<Longrightarrow> frame w w2"
  by (auto simp: frame_def)

lemma still_refl [simp]: "still w w"
  by (simp add: still_def)

lemma still_trans [trans]: "still w w1 \<Longrightarrow> still w1 w2 \<Longrightarrow> still w w2"
  by (auto simp: still_def intro: frame_trans)

lemma still_ids_fresh: "still w w' \<Longrightarrow> ids_fresh w \<Longrightarrow> ids_fresh w'"
  by (auto simp: still_def frame_def ids_fresh_def list_all_iff)

lemma quiet_calm: "quiet r w \<Longrightarrow> calm r w"
  by (simp add: quiet_def)

lemma quiet_still: "quiet r w \<Longrightarrow> r = (Ret x, w') \<Longrightarrow> ids_fresh w \<Longrightarrow> still w w'"
  by (auto simp: quiet_def calm_def still_def)

subsection \<open>Composition\<close>

lemma calm_bind:
  assumes "calm r w" and "\<And>x w'. r = (Ret x, w') \<Longrightarrow> calm (f x w') w'"
  shows "calm (bind_out r f) w"
  using assms by (cases "(r, f)" rule: bind_out.cases) (auto simp: calm_def frame_def)

lemma quiet_bind:
  assumes r: "quiet r w" and f: "\<And>x w'. r = (Ret x, w') \<Longrightarrow> quiet (f x w') w'"
  shows "quiet (bind_out r f) w"
proof -
  have "calm (bind_out r f) w" by (rule calm_bind) (use assms in \<open>auto intro: quiet_calm\<close>)
  moreover have "w_state (snd (bind_out r f)) = w_state w"
    if "fst (bind_out r f) = Ret y" "ids_fresh w" for y
    using that
  proof (cases "(r, f)" rule: bind_out.cases)
    case (1 x w' f')
    with that have "still w w'" using r by (auto intro: quiet_still)
    with 1 that f [of x w'] show ?thesis
      by (auto simp: quiet_def still_def intro: still_ids_fresh [OF \<open>still w w'\<close>])
  qed auto
  ultimately show ?thesis by (simp add: quiet_def)
qed

lemma calm_case:
  "frame w (snd p) \<Longrightarrow> (\<And>a w'. p = (a, w') \<Longrightarrow> calm (f a w') w') \<Longrightarrow> calm (case p of (a, w) \<Rightarrow> f a w) w"
  by (cases p) (auto simp: calm_def frame_def)

lemma quiet_case:
  assumes "still w (snd p)" and "\<And>a w'. p = (a, w') \<Longrightarrow> quiet (f a w') w'"
  shows "quiet (case p of (a, w) \<Rightarrow> f a w) w"
proof (cases p)
  case (Pair a w')
  with assms have "still w w'" "quiet (f a w') w'" by auto
  with Pair show ?thesis
    by (auto simp: quiet_def calm_def still_def dest: still_ids_fresh [OF \<open>still w w'\<close>]
        intro: frame_trans) (auto simp: frame_def)
qed

lemma calm_if: "(b \<Longrightarrow> calm r w) \<Longrightarrow> (\<not> b \<Longrightarrow> calm r' w) \<Longrightarrow> calm (if b then r else r') w"
  by simp

lemma quiet_if: "(b \<Longrightarrow> quiet r w) \<Longrightarrow> (\<not> b \<Longrightarrow> quiet r' w) \<Longrightarrow> quiet (if b then r else r') w"
  by simp

lemma calm_leaf: "frame w w' \<Longrightarrow> r \<noteq> Hang \<Longrightarrow> calm (r, w') w"
  by (simp add: calm_def)

lemma quiet_leaf: "still w w' \<Longrightarrow> r \<noteq> Hang \<Longrightarrow> quiet (r, w') w"
  by (simp add: quiet_def calm_def still_def)

lemmas calm_intros = calm_if calm_bind calm_case
lemmas quiet_intros = quiet_if quiet_bind quiet_case

subsection \<open>Operations that always succeed\<close>

lemma env_step_keeps [simp]:
  "w_state (env_step ev w) = w_state w" "eng_config (env_step ev w) = eng_config w"
  "w_fresh (env_step ev w) = w_fresh w"
  "w_cancelled (env_step ev w) \<longleftrightarrow> w_cancelled w \<or> ev = EvCancel"
  "eng_session_store (env_step ev w) = eng_session_store w" "eng_agent_id (env_step ev w) = eng_agent_id w"
  "eng_session_id (env_step ev w) = eng_session_id w" "w_may_block (env_step ev w) = w_may_block w"
  by (cases ev; simp)+

lemma fold_env_step_keeps [simp]:
  "w_state (fold env_step evs w) = w_state w" "eng_config (fold env_step evs w) = eng_config w"
  "w_fresh (fold env_step evs w) = w_fresh w"
  "w_cancelled (fold env_step evs w) \<longleftrightarrow> w_cancelled w \<or> EvCancel \<in> set evs"
  "eng_session_store (fold env_step evs w) = eng_session_store w"
  "eng_agent_id (fold env_step evs w) = eng_agent_id w"
  "eng_session_id (fold env_step evs w) = eng_session_id w"
  "w_may_block (fold env_step evs w) = w_may_block w"
  by (induction evs arbitrary: w) auto

lemma tick_keeps [simp]:
  "w_state (tick w) = w_state w" "eng_config (tick w) = eng_config w" "w_fresh (tick w) = w_fresh w"
  "eng_session_store (tick w) = eng_session_store w" "eng_agent_id (tick w) = eng_agent_id w"
  "eng_session_id (tick w) = eng_session_id w" "w_may_block (tick w) = w_may_block w"
  by (simp_all add: tick_def split: list.splits)

lemma cancel_coming_tick [simp]: "cancel_coming (tick w) = cancel_coming w"
  by (auto simp: cancel_coming_def tick_def list_ex_iff split: list.splits)

lemma still_tick [simp]: "still w (tick w)"
  by (simp add: still_def frame_def)

lemma still_fresh [simp]: "still w (snd (fresh w))"
  by (simp add: still_def frame_def fresh_def cancel_coming_def)

lemma still_is_cancelled [simp]: "still w (snd (is_cancelled w))"
  by (simp add: is_cancelled_def)

lemma still_primary_graph [simp]: "still w (snd (primary_graph w))"
  by (simp add: primary_graph_def Let_def)

lemma still_world_send [simp]: "still w (snd (world_send m w))"
proof -
  have "still (tick w) (snd (world_send m w))"
    by (auto simp: world_send_def Let_def fresh_def still_def frame_def cancel_coming_def split: prod.splits)
  with still_tick show ?thesis by (rule still_trans)
qed

lemma still_wire_message [simp]: "still w (snd (wire_message D m to w))"
  by (simp add: wire_message_def Let_def fresh_def still_def frame_def cancel_coming_def)

lemma still_best_effort [simp]: "still w (best_effort op w)"
  by (simp add: still_def frame_def cancel_coming_def)

lemma still_updates [simp]:
  "still w (w\<lparr>eng_registry := reg\<rparr>)" "still w (w\<lparr>eng_discovery_cache := c\<rparr>)"
  "still w (w\<lparr>eng_session_store := st\<rparr>)" "still w (w\<lparr>eng_inbound_dedup := d\<rparr>)"
  by (simp_all add: still_def frame_def cancel_coming_def)

lemma frame_upd_state [simp]: "frame w (upd_state f w)"
  by (simp add: upd_state_def frame_def cancel_coming_def)

lemma still_frame: "still w w' \<Longrightarrow> frame w w'"
  by (simp add: still_def)

lemma still_with_store [simp]: "still w (snd (with_store op st w))"
  by (simp add: with_store_def split: prod.splits)

lemma quiet_snapshot [simp]: "quiet (snapshot_if_configured D cp w) w"
  using still_with_store
  by (auto simp: snapshot_if_configured_def with_store_def Let_def intro: quiet_leaf split: option.splits prod.splits sum.splits)

lemma quiet_record_outbound [simp]: "quiet (maybe_record_outbound D m to w) w"
  by (auto simp: maybe_record_outbound_def with_store_def Let_def intro: quiet_leaf
      split: option.splits prod.splits sum.splits)

subsection \<open>Waiting\<close>

lemma poll_still: "still w (snd (poll w)) \<and> (cancel_coming w \<longrightarrow> fst (poll w) \<noteq> PNever)"
proof (induction w rule: poll.induct)
  case (1 w)
  show ?case
  proof (cases "w_cancelled w \<or> w_inbound w \<noteq> [] \<or> w_closed w \<or> w_script w = []")
    case True
    then show ?thesis
      by (subst (1 2) poll.simps)
        (auto simp: still_def frame_def cancel_coming_def split: list.splits)
  next
    case False
    then have "poll w = poll (tick w)" by (subst poll.simps) simp
    with 1 False still_trans [OF still_tick] show ?thesis by auto
  qed
qed

lemma side_message_still [simp]: "still w (snd (side_message D m w))"
proof -
  have "still w (snd (maybe_record_inbound_reply D m w))"
    by (auto simp: maybe_record_inbound_reply_def Let_def split: option.splits prod.splits
        intro: still_trans [OF still_updates(4) still_best_effort])
  then show ?thesis
    by (auto simp: side_message_def Let_def split: prod.splits dispatch_decision.splits)
qed

lemma note_peer_reply_still [simp]: "still w (note_peer_reply D ev m w)"
  by (simp add: note_peer_reply_def record_peer_reply_event_def)

lemma find_wait_event_id: "find_wait_event eid w = Some ev \<Longrightarrow> we_id ev = eid"
  by (auto simp: find_wait_event_def find_Some_iff)

lemma wait_step_frame:
  "case wait_step D eid types received w of
     Inl (r, w') \<Rightarrow> frame w w' \<and> (cancel_coming w \<longrightarrow> r \<noteq> Hang) \<and>
       (\<forall>ms. r = Ret ms \<longrightarrow> w_state w' = retain_wait_events eid (w_state w))
   | Inr (received', w') \<Rightarrow> still w w'"
proof -
  obtain r w1 where p: "poll (tick w) = (r, w1)" by (metis surj_pair)
  have s: "still w w1" and n: "cancel_coming w \<Longrightarrow> r \<noteq> PNever"
    using poll_still [of "tick w"] still_trans [OF still_tick] by (auto simp: p)
  show ?thesis
  proof (cases r)
    case (PMsg m)
    show ?thesis
    proof (cases "find_wait_event eid w1")
      case (Some ev)
      note eid = find_wait_event_id [OF Some]
      have side: "still w (snd (side_message D m w1))" using s by (rule still_trans) simp
      have note_still: "still w (note_peer_reply D ev m w1)" using s by (rule still_trans) simp
      have retain: "w_state (upd_state f w') = f (w_state w')" for f and w' :: "('a, 'b) world"
        by (simp add: upd_state_def)
      have upd: "frame w (upd_state f w')" if "still w w'" for f and w' :: "('a, 'b) world"
        using still_frame [OF that] by (rule frame_trans) simp
      show ?thesis
        using side note_still s
        by (auto simp: wait_step_def p PMsg Some accept_message_def Let_def eid retain upd still_frame still_def
            split: option.splits bool.splits prod.splits)
    qed (use s in \<open>simp add: wait_step_def p PMsg\<close>)
  next
    case PCancelled
    then show ?thesis using frame_trans [OF still_frame [OF s]] by (simp add: wait_step_def p)
  qed (use s n in \<open>auto simp: wait_step_def p still_frame\<close>)
qed

lemma wait_for_strategy_frame:
  "calm (wait_for_strategy D eid types received w) w \<and>
   (\<forall>ms w'. wait_for_strategy D eid types received w = (Ret ms, w') \<longrightarrow>
      w_state w' = retain_wait_events eid (w_state w))"
proof (induction D eid types received w rule: wait_for_strategy.induct)
  case (1 D eid types received w)
  note step = wait_step_frame [where D = D and eid = eid and types = types and received = received and w = w]
  show ?case
  proof (cases "wait_step D eid types received w")
    case (Inl res)
    then have "wait_for_strategy D eid types received w = res" by (subst wait_for_strategy.simps) simp
    with Inl step show ?thesis by (cases res) (auto simp: calm_def)
  next
    case (Inr b)
    then obtain rec' w1 where b: "wait_step D eid types received w = Inr (rec', w1)" by (cases b) auto
    then have "wait_for_strategy D eid types received w = wait_for_strategy D eid types rec' w1"
      by (subst wait_for_strategy.simps) simp
    moreover have "still w w1" using step b by simp
    ultimately show ?thesis
      using "1.IH" [OF b refl] frame_trans [of w w1] by (auto simp: calm_def still_def frame_def)
  qed
qed

lemmas wait_for_strategy_calm [simp] = wait_for_strategy_frame [THEN conjunct1]

lemma send_registered_calm [simp]: "calm (send_registered eid m w) w"
proof -
  obtain r w1 where s: "world_send m w = (r, w1)" by (metis surj_pair)
  then have "frame w w1" using still_world_send [of w m] by (simp add: still_def)
  then show ?thesis
    by (auto simp: send_registered_def s split: sum.splits
        intro!: calm_leaf frame_trans [OF _ frame_upd_state])
qed

lemma send_registered_Ret: "send_registered eid m w = (Ret u, w') \<Longrightarrow> still w w'"
  using still_world_send [of w m]
  by (cases "world_send m w") (auto simp: send_registered_def split: sum.splits)

lemma register_wait_frame: "frame w (snd (register_wait cid strategy n w))"
  by (simp add: register_wait_def Let_def fresh_def upd_state_def frame_def cancel_coming_def)

lemma retain_pushed:
  "list_all (\<lambda>e. we_id e < i) (st_wait_events s) \<Longrightarrow> we_id e = i \<Longrightarrow>
     retain_wait_events i (push_wait_event e s) = s"
proof -
  assume fresh: "list_all (\<lambda>e. we_id e < i) (st_wait_events s)" and e: "we_id e = i"
  have "filter (\<lambda>e. we_id e \<noteq> i) (st_wait_events s) = st_wait_events s"
    using fresh by (auto simp: list_all_iff intro!: filter_True)
  with e show ?thesis by (simp add: retain_wait_events_def push_wait_event_def)
qed

text \<open>A wait that is registered, filled in by quiet operations, and met, leaves nothing behind.\<close>

lemma registered_wait_quiet:
  assumes w1: "register_wait cid strategy n w = (eid, w1)"
    and c: "calm (f w1) w1"
    and f: "\<And>ms w'. f w1 = (Ret ms, w') \<Longrightarrow> \<exists>w2. still w1 w2 \<and> w_state w' = retain_wait_events eid (w_state w2)"
  shows "quiet (f w1) w"
proof -
  have fr: "frame w w1" using register_wait_frame [of w cid strategy n] by (simp add: w1)
  then have "calm (f w1) w" using c by (auto simp: calm_def frame_def)
  moreover have "w_state (snd (f w1)) = w_state w" if "fst (f w1) = Ret ms" "ids_fresh w" for ms
  proof -
    have "f w1 = (Ret ms, snd (f w1))" using that by (metis prod.collapse)
    from f [OF this] obtain w2 where "still w1 w2" "w_state (snd (f w1)) = retain_wait_events eid (w_state w2)"
      by blast
    moreover have "w_state w1 = push_wait_event (WaitEvent_new (w_fresh w) (w_now w) cid strategy n) (w_state w)"
      and "eid = w_fresh w"
      using w1 by (auto simp: register_wait_def Let_def fresh_def upd_state_def)
    ultimately show ?thesis
      using that(2) by (auto simp: still_def ids_fresh_def WaitEvent_new_def intro!: retain_pushed)
  qed
  ultimately show ?thesis by (simp add: quiet_def)
qed

lemma send_and_await_quiet [simp]: "quiet (send_and_await D cid m w) w"
proof -
  have rf: "calm (remove_first xs w) w" "remove_first xs w = (Ret x, w') \<Longrightarrow> w' = w" for xs x w w'
    by (cases xs; auto simp: calm_def)+
  have "quiet (case register_wait cid WaitAll n w of (eid, w) \<Rightarrow>
      bind_out (send_registered eid m w) (\<lambda>_ w.
        bind_out (wait_for_strategy D eid ts [] w) remove_first)) w" for n ts w
  proof (cases "register_wait cid WaitAll n w")
    case (Pair eid w1)
    let ?f = "\<lambda>w. bind_out (send_registered eid m w) (\<lambda>_ w.
        bind_out (wait_for_strategy D eid ts [] w) remove_first)"
    have "quiet (?f w1) w"
    proof (rule registered_wait_quiet [OF Pair])
      show "calm (?f w1) w1" by (intro calm_bind) (auto simp: rf)
    next
      fix x w' assume "?f w1 = (Ret x, w')"
      then show "\<exists>w2. still w1 w2 \<and> w_state w' = retain_wait_events eid (w_state w2)"
        by (elim bind_out_RetE)
          (use wait_for_strategy_frame send_registered_Ret rf(2) in metis)
    qed
    with Pair show ?thesis by simp
  qed
  note core = this
  show ?thesis
    unfolding send_and_await_def Let_def
    by (rule quiet_case, simp, rule quiet_if) (simp_all add: quiet_leaf core)
qed

lemma publish_and_await_query_quiet [simp]: "quiet (publish_and_await_query D m to s w) w"
proof -
  have "quiet (case register_wait cid s n w of (eid, w) \<Rightarrow>
      bind_out (maybe_record_outbound D m to w) (\<lambda>_ w.
        case wire_message D m to w of (wire, w) \<Rightarrow>
          bind_out (send_registered eid wire w) (\<lambda>_ w. wait_for_strategy D eid ts [] w))) w" for cid n ts w
  proof (cases "register_wait cid s n w")
    case (Pair eid w1)
    let ?f = "\<lambda>w. bind_out (maybe_record_outbound D m to w) (\<lambda>_ w.
        case wire_message D m to w of (wire, w) \<Rightarrow>
          bind_out (send_registered eid wire w) (\<lambda>_ w. wait_for_strategy D eid ts [] w))"
    have "quiet (?f w1) w"
    proof (rule registered_wait_quiet [OF Pair])
      show "calm (?f w1) w1"
        by (intro calm_bind calm_case) (auto intro: quiet_calm still_frame)
    next
      fix ms w' assume "?f w1 = (Ret ms, w')"
      then obtain u w2 where o: "maybe_record_outbound D m to w1 = (Ret u, w2)"
        and rest: "(case wire_message D m to w2 of (wire, w) \<Rightarrow>
          bind_out (send_registered eid wire w) (\<lambda>_ w. wait_for_strategy D eid ts [] w)) = (Ret ms, w')"
        by (rule bind_out_RetE)
      obtain wire w3 where wm: "wire_message D m to w2 = (wire, w3)" by (metis surj_pair)
      from rest [unfolded wm prod.case] obtain u' w4 where s: "send_registered eid wire w3 = (Ret u', w4)"
        and wt: "wait_for_strategy D eid ts [] w4 = (Ret ms, w')" by (rule bind_out_RetE)
      have "still w1 w2" using o
        by (auto simp: maybe_record_outbound_def with_store_def Let_def split: option.splits prod.splits sum.splits)
      also have "still w2 w3" using still_wire_message [of w2 D m to] by (simp add: wm)
      also have "still w3 w4" using s by (rule send_registered_Ret)
      finally show "\<exists>w2. still w1 w2 \<and> w_state w' = retain_wait_events eid (w_state w2)"
        using wait_for_strategy_frame wt by metis
    qed
    with Pair show ?thesis by simp
  qed
  note core = this
  show ?thesis
    unfolding publish_and_await_query_def Let_def
    by (rule quiet_case, simp, rule quiet_if) (simp_all add: quiet_leaf core)
qed

lemma publish_only_command_quiet [simp]: "quiet (publish_only_command D m to w) w"
proof -
  have "quiet (case world_send wire w of (r, w) \<Rightarrow>
      case r of Inl e \<Rightarrow> (Fail (BusError e), w) | Inr _ \<Rightarrow> (Ret (), w)) w" for wire w
    by (rule quiet_case) (auto intro: quiet_leaf split: sum.splits)
  note core = this
  show ?thesis
    unfolding publish_only_command_def Let_def
    by (rule quiet_bind, simp, rule quiet_case) (simp_all add: core)
qed

lemma dispatch_built_quiet [simp]: "quiet (dispatch_built D cms w) w"
proof (induction cms arbitrary: w)
  case Nil
  then show ?case by (simp add: quiet_leaf)
next
  case (Cons cm cms)
  have "quiet (bind_out (publish_and_await_query D m to WaitAll w) (\<lambda>_ w. (Ret (), w))) w" for m to
    by (rule quiet_bind) (simp_all add: quiet_leaf)
  with Cons show ?case by (auto intro!: quiet_bind quiet_leaf split: message_intent.splits)
qed

lemma evaluate_fresh: "evaluate s t rules routes nodes c i acc = (r, c', i') \<Longrightarrow> i \<le> i' \<and> r \<noteq> Hang"
proof (induction s t rules routes nodes c i acc rule: evaluate.induct)
  case (2 s t rule rules routes nodes c i acc)
  then show ?case
    by (auto simp: Let_def split: if_splits option.splits bool.splits prod.splits) fastforce+
qed auto

lemma evaluate_and_dispatch_quiet [simp]: "quiet (evaluate_and_dispatch D cp w) w"
proof -
  have "quiet (case evaluate s cp rules routes nodes c (w_fresh w) [] of (r, cache, i) \<Rightarrow>
      bind_out (r, w\<lparr>eng_discovery_cache := cache, w_fresh := i\<rparr>) (dispatch_built D)) w"
    for s rules routes nodes c w
  proof (cases "evaluate s cp rules routes nodes c (w_fresh w) []")
    case (fields r cache i)
    from evaluate_fresh [OF this] have "quiet (r, w\<lparr>eng_discovery_cache := cache, w_fresh := i\<rparr>) w"
      by (intro quiet_leaf) (auto simp: still_def frame_def cancel_coming_def)
    with fields show ?thesis by (auto intro: quiet_bind)
  qed
  note core = this
  show ?thesis
    unfolding evaluate_and_dispatch_def Let_def
    by (rule quiet_case, simp, rule quiet_if, simp add: quiet_leaf, rule quiet_bind, simp, rule quiet_if,
        simp add: quiet_leaf, rule quiet_case) (simp_all add: core)
qed

lemma check_cancelled_quiet [simp]: "quiet (check_cancelled w) w"
  unfolding check_cancelled_def Let_def by (rule quiet_case) (auto intro: quiet_leaf)

lemma check_max_turns_quiet [simp]: "quiet (check_max_turns w) w"
  by (auto simp: check_max_turns_def Let_def intro: quiet_leaf)

lemma request_permission_quiet [simp]: "quiet (request_permission D tc w) w"
proof -
  have rf: "calm (remove_first xs w) w" "remove_first xs w = (Ret x, w') \<Longrightarrow> w' = w" for xs x w w'
    by (cases xs; auto simp: calm_def)+
  have "quiet (case register_wait cid WaitAll 1 w of (eid, w) \<Rightarrow>
      bind_out (send_registered eid m w) (\<lambda>_ w.
        bind_out (wait_for_strategy D eid ts [] w) (\<lambda>rs w.
          bind_out (remove_first rs w) (\<lambda>resp w. (Ret (g resp), w))))) w" for cid m ts w g
  proof (cases "register_wait cid WaitAll 1 w")
    case (Pair eid w1)
    let ?f = "\<lambda>w. bind_out (send_registered eid m w) (\<lambda>_ w.
        bind_out (wait_for_strategy D eid ts [] w) (\<lambda>rs w.
          bind_out (remove_first rs w) (\<lambda>resp w. (Ret (g resp), w))))"
    have "quiet (?f w1) w"
    proof (rule registered_wait_quiet [OF Pair])
      show "calm (?f w1) w1" by (intro calm_bind) (auto simp: rf calm_leaf)
    next
      fix x w' assume "?f w1 = (Ret x, w')"
      then show "\<exists>w2. still w1 w2 \<and> w_state w' = retain_wait_events eid (w_state w2)"
        by (elim bind_out_RetE)
          (use wait_for_strategy_frame send_registered_Ret rf(2) in \<open>metis prod.inject\<close>)
    qed
    with Pair show ?thesis by simp
  qed
  note core = this
  show ?thesis
    unfolding request_permission_def Let_def
    by (rule quiet_case, simp, rule quiet_case, simp) (rule core)
qed

subsection \<open>Turns\<close>

lemma calm_op: "calm r w' \<Longrightarrow> frame w w' \<Longrightarrow> calm r w"
  by (auto simp: calm_def frame_def)

lemma model_context_still: "model_context w = (x, w') \<Longrightarrow> still w w'"
proof -
  assume c: "model_context w = (x, w')"
  obtain g w1 where g: "primary_graph w = (g, w1)" by (metis surj_pair)
  obtain sk reg where k: "skills_text g (eng_registry w1) = (sk, reg)" by (metis surj_pair)
  have "still w w1" using still_primary_graph [of w] by (simp add: g)
  also have "still w1 (w1\<lparr>eng_registry := reg\<rparr>)" by simp
  also have "still \<dots> w'"
    using c still_primary_graph [of "w1\<lparr>eng_registry := reg\<rparr>"]
    by (cases "primary_graph (w1\<lparr>eng_registry := reg\<rparr>)") (auto simp: model_context_def g k Let_def)
  finally show ?thesis .
qed

lemma frame_best_effort: "frame w w' \<Longrightarrow> frame w (best_effort op w')"
  by (rule frame_trans [OF _ still_frame [OF still_best_effort]])

lemma frame_note_usage [simp]: "frame w (note_usage D pl w)"
  by (auto simp: note_usage_def Let_def maybe_record_model_call_def split: option.splits
      intro!: frame_best_effort)

lemma frame_record_answer [simp]: "frame w (record_answer D pl w)"
  unfolding record_answer_def by (rule frame_trans [OF frame_note_usage frame_upd_state])

lemma calm_model_turn [simp]: "calm (do_model_turn D w) w"
proof -
  obtain aborted ctx w1 where c: "model_context (upd_state inc_turn w) = ((aborted, ctx), w1)"
    by (metis surj_pair)
  have fr: "frame w w1"
    using frame_upd_state still_frame [OF model_context_still [OF c]] by (rule frame_trans)
  have "calm (case fresh w1 of (cid, w) \<Rightarrow>
      case wire_message D (g cid w) (to w) w of (wire, w) \<Rightarrow>
        bind_out (send_and_await D cid wire w) (\<lambda>response w.
          (Ret (h response), record_answer D (msg_payload response) w))) w1" for g to h
    by (rule calm_case, simp add: still_frame, rule calm_case, simp add: still_frame, rule calm_bind)
      (auto intro: quiet_calm calm_leaf)
  note core = calm_op [OF this fr]
  show ?thesis
    unfolding do_model_turn_def c Let_def prod.case
    by (rule calm_if) (use fr core in \<open>simp_all add: calm_leaf\<close>)
qed

lemma calm_finish_tool: "calm r w \<Longrightarrow> calm (finish_tool D tc s t n r) w"
proof -
  have rec: "frame w' (maybe_record_tool_call D a b c d e f w')" for a b c d e f and w' :: "('a, 'b) world"
    by (simp add: maybe_record_tool_call_def still_frame)
  have upd: "frame w (maybe_record_tool_call D a b c d e f (upd_state g w'))" if "frame w w'"
    for a b c d e f g and w' :: "('a, 'b) world"
    by (rule frame_trans [OF that frame_trans [OF frame_upd_state rec]])
  assume "calm r w"
  then show ?thesis
    by (cases "(D, tc, s, t, n, r)" rule: finish_tool.cases)
      (auto simp: calm_def Let_def intro: upd frame_trans [OF _ rec])
qed

lemma calm_exec_tool [simp]: "calm (exec_tool D tc s t n w) w"
  unfolding exec_tool_def Let_def
  by (rule calm_case, simp add: still_frame, rule calm_case, simp add: still_frame, rule calm_finish_tool)
    (simp add: quiet_calm)

lemma calm_deny_tool [simp]: "calm (deny_tool D tc c y s t n w) w"
  unfolding deny_tool_def Let_def maybe_record_tool_call_def
  by (rule calm_leaf) (auto intro: frame_best_effort)

lemma calm_tool_turn [simp]: "calm (do_tool_turn D tc w) w"
proof -
  have "calm (bind_out (request_permission D tc w') (\<lambda>granted w.
      if granted then exec_tool D tc s t n w else deny_tool D tc c y s t n w)) w'" for s t n c y w'
    by (rule calm_bind) (auto intro: quiet_calm)
  note core = this [THEN calm_op]
  show ?thesis
    unfolding do_tool_turn_def Let_def
    by (cases "lookup_tool_permission (eng_config (upd_state inc_turn w)) (tc_name tc)")
      (auto intro: core calm_op [OF calm_exec_tool] calm_op [OF calm_deny_tool])
qed

text \<open>One call of a batch: its result is collected, an error included.\<close>

definition one_tool ::
  "('s, 'c) deps \<Rightarrow> tool_call \<Rightarrow> ('s, 'c) world \<Rightarrow> (run_error, run_error + json) outcome \<times> ('s, 'c) world" where
  "one_tool D tc w =
     (case do_tool_turn D tc w of
        (Ret x, w) \<Rightarrow> (Ret (Inr x), w)
      | (Fail e, w) \<Rightarrow> (Ret (Inl e), w)
      | (Panic, w) \<Rightarrow> (Panic, w)
      | (Hang, w) \<Rightarrow> (Hang, w))"

lemma calm_one_tool [simp]: "calm (one_tool D tc w) w"
  using calm_tool_turn [of D tc w]
  by (cases "do_tool_turn D tc w") (auto simp: one_tool_def calm_def split: outcome.splits)

lemma calm_tool_turns [simp]: "calm (do_tool_turns D tcs w) w"
proof (induction tcs arbitrary: w)
  case Nil
  then show ?case by (simp add: calm_leaf)
next
  case (Cons tc tcs)
  show ?case
    unfolding do_tool_turns.simps Let_def one_tool_def [symmetric]
    by (rule calm_case, simp add: still_frame, rule calm_bind)
      (auto simp: Cons calm_leaf intro!: calm_bind)
qed

lemma calm_run_tools [simp]: "calm (run_tools D tcs w) w"
  unfolding run_tools_def
  by (intro calm_bind) (auto simp: quiet_calm calm_leaf split: option.splits intro!: calm_bind)

lemma calm_run_turn [simp]: "calm (run_turn D w) w"
  unfolding run_turn_def
  by (intro calm_bind) (auto simp: quiet_calm calm_leaf split: prod.splits intro!: calm_bind)

lemma calm_run_loop [simp]: "calm (run_loop D w) w"
proof (induction D w rule: run_loop.induct)
  case (1 D w)
  obtain r w1 where t: "run_turn D w = (r, w1)" by (metis surj_pair)
  have c: "calm (r, w1) w" using calm_run_turn [of D w] by (simp add: t)
  then have fr: "frame w w1" by (simp add: calm_def)
  show ?case
  proof (cases "r = Ret None")
    case True
    with 1 t have "calm (run_loop D w1) w1" by simp
    with t True show ?thesis by (subst run_loop.simps) (auto intro: calm_op [OF _ fr])
  next
    case False
    with t c show ?thesis
      by (subst run_loop.simps) (auto simp: calm_def split: outcome.splits option.splits)
  qed
qed

end
