(* ===== verification/Engine_Demo.thy ===== *)
theory Engine_Demo
  imports Engine_Frames Session_Jsonl
begin

text \<open>
  A small engine on a bus with one model and one tool server, on which the hypotheses of the
  engine's properties are shown to hold.
\<close>

type_synonym demo_world = "(jsonl, nat \<times> uuid list) world"

definition demo_deps :: "(jsonl, nat \<times> uuid list) deps" where
  "demo_deps = \<lparr>d_uuid = unary_uuid, d_store = jsonl_ops, d_lru = list_lru, d_show_nat = (\<lambda>_. [])\<rparr>"

definition demo_node :: "string \<Rightarrow> node_info" where
  "demo_node s = \<lparr>ni_node_id = NodeId s, ni_node_type = s, ni_capabilities = JObj [], ni_online_since = 0\<rparr>"

definition demo_net :: bus where
  "demo_net = snd (handle_connect 0 0 (demo_node ''fs'') demo_filter
     (snd (handle_connect 0 0 (demo_node ''m'') demo_filter (Bus_new 0 0))))"

definition demo_reg :: resource_registry where
  "demo_reg = \<lparr>rr_model = NodeId ''m'', rr_mcp_nodes = [], rr_custom_nodes = [],
               rr_tool_index = [(''read'', NodeId ''fs'')], rr_skills_cache = (0, [])\<rparr>"

definition demo_reply :: "string \<Rightarrow> uuid \<Rightarrow> (string \<times> json) list \<Rightarrow> message" where
  "demo_reply ty cid kvs =
     Message_with_from_bus 0 0 ty (NodeId ''m'') [NodeId ''e'']
       (JObj ((''correlation_id'', JStr (uuid_show unary_uuid cid)) # kvs)) (BusId 0)"

definition demo_world :: "agent_config \<Rightarrow> message list \<Rightarrow> env_event list list \<Rightarrow> demo_world" where
  "demo_world config inbound script =
     \<lparr>eng_config = config, eng_agent_id = NodeId ''e'',
      eng_handle = \<lparr>nh_info = demo_node ''e'', nh_primary_bus_id = BusId 0,
                    nh_subscriptions = [new_subscription demo_net demo_filter]\<rparr>,
      eng_discovery_cache = [], eng_registry = demo_reg, eng_handlers = [],
      eng_session_store = None, eng_session_id = ''s'', eng_inbound_dedup = (8, []),
      eng_ephemeral = False, w_state = State_new, w_bus = demo_net, w_inbound = inbound,
      w_closed = False, w_cancelled = False, w_now = 0, w_fresh = 0, w_may_block = False,
      w_script = script\<rparr>"

subsection \<open>Running it\<close>

text \<open>The world in a given state, with a given bus, next identifier and inbox.\<close>

definition demo_at :: "state \<Rightarrow> bus \<Rightarrow> uuid \<Rightarrow> message list \<Rightarrow> demo_world" where
  "demo_at s b i inbound =
     (demo_world AgentConfig_default inbound [])\<lparr>w_state := s, w_bus := b, w_fresh := i\<rparr>"

lemmas demo_at_defs = demo_at_def demo_world_def AgentConfig_default_def EngineConfig_default_def

named_theorems demo_run \<open>the operations on the demo world\<close>

lemma demo_at_simps [demo_run]:
  "upd_state g (demo_at s b i inb) = demo_at (g s) b i inb"
  "fresh (demo_at s b i inb) = (i, demo_at s b (Suc i) inb)"
  "best_effort op (demo_at s b i inb) = demo_at s b i inb"
  "eng_session_store (demo_at s b i inb) = None" "w_state (demo_at s b i inb) = s"
  "eng_config (demo_at s b i inb) = AgentConfig_default" "tick (demo_at s b i inb) = demo_at s b i inb"
  "eng_registry (demo_at s b i inb) = demo_reg" "w_now (demo_at s b i inb) = 0"
  by (simp_all add: demo_at_defs upd_state_def fresh_def best_effort_def tick_def)

lemma demo_net_bid [simp]: "bus_bid demo_net = BusId 0"
  by (simp add: demo_net_def handle_connect_def demo_node_def Bus_new_def contains_key_def broadcast_def Let_def)

lemma check_cancelled_demo [demo_run]: "check_cancelled (demo_at s b i inb) = (Ret (), demo_at s b i inb)"
  by (simp add: check_cancelled_def is_cancelled_def demo_run) (simp add: demo_at_defs)

lemma is_cancelled_demo [demo_run]: "is_cancelled (demo_at s b i inb) = (False, demo_at s b i inb)"
  by (simp add: is_cancelled_def demo_run) (simp add: demo_at_defs)

lemma evaluate_and_dispatch_demo [demo_run]:
  "evaluate_and_dispatch demo_deps t (demo_at s b i inb) = (Ret (), demo_at s b i inb)"
  by (simp add: evaluate_and_dispatch_def snapshot_if_configured_def demo_run
      AgentConfig_default_def EngineConfig_default_def)

lemma check_max_turns_demo [demo_run]:
  "turn_count s < 10 \<Longrightarrow> check_max_turns (demo_at s b i inb) = (Ret (), demo_at s b i inb)"
  by (simp add: check_max_turns_def demo_run AgentConfig_default_def EngineConfig_default_def as_u32_def
      unat_of_nat)

lemma model_context_demo:
  "\<exists>ctx. model_context (demo_at s b i inb) = ((False, ctx), demo_at s b i inb)"
  by (simp add: model_context_def Let_def primary_graph_def skills_text_def demo_run
      skill_pairs_def skills_hash_def skills_content_def demo_reg_def AgentConfig_default_def
      EngineConfig_default_def) (simp add: demo_at_defs demo_reg_def tick_def)

lemma wire_message_demo [demo_run]:
  "wire_message D m to (demo_at s b i inb) =
     (Message_with_from_bus i 0 (am_msg_type m) (NodeId ''e'') to (am_payload (d_uuid D) m) (BusId 0),
      demo_at s b (Suc i) inb)"
  by (simp add: wire_message_def Let_def fresh_def demo_at_defs)

definition net_ok :: "bus \<Rightarrow> bool" where
  "net_ok b \<longleftrightarrow> bus_bid b = BusId 0 \<and> bus_running b \<and> keys (bus_nodes b) = [NodeId ''m'', NodeId ''fs'']"

lemma world_send_demo:
  assumes "net_ok b" and "msg_to m = [n]" "n = NodeId ''m'' \<or> n = NodeId ''fs''"
  shows "\<exists>r b'. net_ok b' \<and> world_send m (demo_at s b i inb) = (Inr r, demo_at s b' (Suc i) inb)"
proof -
  have k: "contains_key (bus_nodes b) n"
    using assms unfolding net_ok_def contains_key_def by auto
  define m' where "m' = Message_with_from_bus i 0 (msg_type m) (NodeId ''e'') [n] (msg_payload m) (BusId 0)"
  have "msg_to m' = [n]" by (simp add: m'_def Message_with_from_bus_def Message_new_def)
  with assms(1) k obtain r b' where h: "handle_send m' b = (Inr r, b')" and ok: "net_ok b'"
    by (simp add: handle_send_def Let_def net_ok_def broadcast_def)
  have "world_send m (demo_at s b i inb) = (Inr r, demo_at s b' (Suc i) inb)"
    using assms(1,2) h
    by (simp add: world_send_def fresh_def Let_def demo_at_defs tick_def send_message_def send_via_def
        loop_send_def m'_def net_ok_def demo_node_def new_subscription_def)
  with ok show ?thesis by blast
qed

lemma wait_demo:
  assumes "msg_type r = ty" "ty \<noteq> PEER_REPLY" "correlation_id unary_uuid r = Some (we_correlation_id ev)"
    "find (\<lambda>e. we_id e = we_id ev) (st_wait_events s) = Some ev" "we_strategy ev = WaitAll" "we_expected ev = 1"
  shows "wait_for_strategy demo_deps (we_id ev) [ty] [] (demo_at s b i (r # inb)) =
     (Ret [r], demo_at (retain_wait_events (we_id ev) s) b i inb)"
proof -
  have "poll (demo_at s b i (r # inb)) = (PMsg r, demo_at s b i inb)"
    by (subst poll.simps) (simp add: demo_at_defs)
  with assms show ?thesis
    by (subst wait_for_strategy.simps)
      (simp add: wait_step_def demo_run find_wait_event_def accept_message_def processor_error_def
        note_peer_reply_def demo_deps_def AgentConfig_default_def EngineConfig_default_def)
qed

lemma send_and_await_demo:
  assumes net: "net_ok b" and to: "msg_to m = [n]" "n = NodeId ''m'' \<or> n = NodeId ''fs''"
    and r: "msg_type r = predicted_response (msg_type m)" "msg_type r \<noteq> PEER_REPLY"
      "correlation_id unary_uuid r = Some cid" and s: "st_wait_events s = []"
  shows "\<exists>b'. net_ok b' \<and>
    send_and_await demo_deps cid m (demo_at s b i (r # inb)) = (Ret r, demo_at s b' (Suc (Suc i)) inb)"
proof -
  define ev where "ev = WaitEvent_new i 0 cid WaitAll (Suc 0)"
  let ?s = "push_wait_event ev s"
  obtain rc b' where b': "net_ok b'"
    and send: "world_send m (demo_at ?s b (Suc i) (r # inb)) = (Inr rc, demo_at ?s b' (Suc (Suc i)) (r # inb))"
    using world_send_demo [OF net to] by blast
  have ev: "we_id ev = i" "we_strategy ev = WaitAll" "we_expected ev = 1" "we_correlation_id ev = cid"
    by (simp_all add: ev_def WaitEvent_new_def)
  have "wait_for_strategy demo_deps (we_id ev) [msg_type r] [] (demo_at ?s b' (Suc (Suc i)) (r # inb)) =
      (Ret [r], demo_at (retain_wait_events (we_id ev) ?s) b' (Suc (Suc i)) inb)"
    by (rule wait_demo) (use r ev s in \<open>simp_all add: push_wait_event_def\<close>)
  moreover have "retain_wait_events i ?s = s"
    by (rule retain_pushed) (simp_all add: s ev)
  ultimately have "send_and_await demo_deps cid m (demo_at s b i (r # inb)) = (Ret r, demo_at s b' (Suc (Suc i)) inb)"
    using to(1) r(1) send
    by (simp add: send_and_await_def register_wait_def send_registered_def Let_def demo_run ev(1) flip: ev_def)
  with b' show ?thesis by blast
qed

text \<open>A reply to the call with identifier \<open>i\<close>: a model turn, then a tool turn.\<close>

lemma demo_reply_cid [simp]: "correlation_id unary_uuid (demo_reply ty cid kvs) = Some cid"
  by (simp add: demo_reply_def correlation_id_def payload_cid_def Message_with_from_bus_def Message_new_def
      unary_uuid_def)

lemma demo_reply_type [simp]: "msg_type (demo_reply ty cid kvs) = ty"
  by (simp add: demo_reply_def Message_with_from_bus_def Message_new_def)

lemma demo_reply_payload:
  "msg_payload (demo_reply ty cid kvs) = JObj ((''correlation_id'', JStr (uuid_show unary_uuid cid)) # kvs)"
  by (simp_all add: demo_reply_def Message_with_from_bus_def Message_new_def)

lemma do_model_turn_demo:
  fixes i :: uuid and kvs :: "(string \<times> json) list"
  assumes net: "net_ok b" and s: "st_wait_events s = []" and kvs: "map_of kvs ''usage'' = None"
  defines "pl \<equiv> msg_payload (demo_reply MODEL_RESPONSE i kvs)"
  shows "\<exists>b'. net_ok b' \<and>
    do_model_turn demo_deps (demo_at s b i (demo_reply MODEL_RESPONSE i kvs # inb)) =
      (Ret (response_content pl, response_tool_calls pl),
       demo_at (push_message (assistant_message (response_content pl) (response_tool_calls pl)) (inc_turn s))
         b' (i + 4) inb)"
proof -
  let ?r = "demo_reply MODEL_RESPONSE i kvs" and ?s = "inc_turn s"
  obtain ctx where ctx: "model_context (demo_at ?s b i (?r # inb)) = ((False, ctx), demo_at ?s b i (?r # inb))"
    using model_context_demo by blast
  define call where "call = AModelCall (model_call_of (ac_model AgentConfig_default) i ctx)"
  define wire where "wire = Message_with_from_bus (Suc i) 0 (am_msg_type call) (NodeId ''e'') [NodeId ''m'']
    (am_payload (d_uuid demo_deps) call) (BusId 0)"
  have "\<exists>b'. net_ok b' \<and> send_and_await demo_deps i wire (demo_at ?s b (Suc (Suc i)) (?r # inb)) =
      (Ret ?r, demo_at ?s b' (Suc (Suc (Suc (Suc i)))) inb)"
    by (rule send_and_await_demo [OF net, where n = "NodeId ''m''"])
      (simp_all add: wire_def Message_with_from_bus_def Message_new_def call_def predicted_response_def
        response_msg_type_for_def msg_type_defs s inc_turn_def)
  then obtain b' where b': "net_ok b'" and
    sent: "send_and_await demo_deps i wire (demo_at ?s b (Suc (Suc i)) (?r # inb)) =
      (Ret ?r, demo_at ?s b' (Suc (Suc (Suc (Suc i)))) inb)" by blast
  have usage: "json_get (msg_payload ?r) ''usage'' = None" using kvs by (simp add: demo_reply_payload)
  have "do_model_turn demo_deps (demo_at s b i (?r # inb)) =
      (Ret (response_content pl, response_tool_calls pl),
       record_answer demo_deps pl (demo_at ?s b' (Suc (Suc (Suc (Suc i)))) inb))"
    using sent
    by (simp add: do_model_turn_def demo_run ctx Let_def model_target_def pl_def wire_def call_def demo_reg_def)
  also have "record_answer demo_deps pl (demo_at ?s b' (Suc (Suc (Suc (Suc i)))) inb) =
      demo_at (push_message (assistant_message (response_content pl) (response_tool_calls pl)) ?s) b' (i + 4) inb"
    using usage unfolding pl_def
    by (simp add: record_answer_def note_usage_def demo_run assistant_message_def) (simp add: numeral_eq_Suc)
  finally show ?thesis using b' by blast
qed

lemma do_tool_turn_demo:
  fixes i :: uuid and kvs :: "(string \<times> json) list"
  assumes net: "net_ok b" and s: "st_wait_events s = []"
    and tc: "tc_name tc = ''read''" "tc_target tc = None"
  defines "pl \<equiv> msg_payload (demo_reply TOOL_RESULT i kvs)"
  shows "\<exists>b'. net_ok b' \<and>
    do_tool_turn demo_deps tc (demo_at s b i (demo_reply TOOL_RESULT i kvs # inb)) =
      (Ret pl, demo_at (push_message (tool_message tc (tool_result_content pl)) (inc_turn s)) b' (i + 4) inb)"
proof -
  let ?r = "demo_reply TOOL_RESULT i kvs" and ?s = "inc_turn s"
  define ex where "ex = AToolExec \<lparr>te_correlation_id = i, te_tool_name = tc_name tc,
    te_arguments = tc_arguments tc, te_target = Some (NodeId ''fs'')\<rparr>"
  define wire where "wire = Message_with_from_bus (Suc i) 0 (am_msg_type ex) (NodeId ''e'') [NodeId ''fs'']
    (am_payload (d_uuid demo_deps) ex) (BusId 0)"
  have "\<exists>b'. net_ok b' \<and> send_and_await demo_deps i wire (demo_at ?s b (Suc (Suc i)) (?r # inb)) =
      (Ret ?r, demo_at ?s b' (Suc (Suc (Suc (Suc i)))) inb)"
    by (rule send_and_await_demo [OF net, where n = "NodeId ''fs''"])
      (simp_all add: wire_def Message_with_from_bus_def Message_new_def ex_def predicted_response_def
        response_msg_type_for_def msg_type_defs s inc_turn_def)
  then obtain b' where b': "net_ok b'" and
    sent: "send_and_await demo_deps i wire (demo_at ?s b (Suc (Suc i)) (?r # inb)) =
      (Ret ?r, demo_at ?s b' (Suc (Suc (Suc (Suc i)))) inb)" by blast
  have owner: "owner_of_tool demo_reg ''read'' = Some (NodeId ''fs'')"
    by (simp add: owner_of_tool_def demo_reg_def)
  have "do_tool_turn demo_deps tc (demo_at s b i (?r # inb)) =
      (Ret pl, demo_at (push_message (tool_message tc (tool_result_content pl)) ?s) b' (i + 4) inb)"
    using sent
    by (simp add: do_tool_turn_def lookup_tool_permission_def exec_tool_def demo_run Let_def pl_def wire_def
        ex_def tc owner maybe_record_tool_call_def)
      (simp add: AgentConfig_default_def exec_tool_def demo_run Let_def tc owner maybe_record_tool_call_def
        numeral_eq_Suc)
  with b' show ?thesis by blast
qed

text \<open>
  The whole round: a model turn with one tool call (identifiers from 0), its result (from 4)
  and the answer (from 8).
\<close>

definition demo_inbound :: "message list" where
  "demo_inbound =
     [demo_reply MODEL_RESPONSE 0
        [(''message'', JObj [(''content'', JStr ''reading'')]),
         (''tool_calls'', JArr [JObj [(''id'', JStr ''c1''), (''name'', JStr ''read''),
                                  (''arguments'', JObj [])]])],
      demo_reply TOOL_RESULT 4 [(''content'', JStr ''data'')],
      demo_reply MODEL_RESPONSE 8 [(''message'', JObj [(''content'', JStr ''done'')])]]"

abbreviation demo_start :: demo_world where
  "demo_start \<equiv> demo_world AgentConfig_default demo_inbound []"

lemma demo_start_at: "demo_start = demo_at State_new demo_net 0 demo_inbound"
  by (simp add: demo_at_def demo_world_def)

lemma demo_net_ok: "net_ok demo_net"
  by (simp add: net_ok_def demo_net_def handle_connect_def demo_node_def Bus_new_def contains_key_def
      broadcast_def Let_def)

lemma demo_first_turn:
  assumes "net_ok b" "st_wait_events s = []" "turn_count s < 6"
  shows "\<exists>b' s'. net_ok b' \<and> st_wait_events s' = [] \<and> turn_count s' = turn_count s + 2 \<and>
    run_turn demo_deps (demo_at s b 0 demo_inbound) = (Ret None, demo_at s' b' 8 (drop 2 demo_inbound))"
proof -
  define kvs where "kvs = [(''message'', JObj [(''content'', JStr ''reading'')]),
         (''tool_calls'', JArr [JObj [(''id'', JStr ''c1''), (''name'', JStr ''read''),
                                  (''arguments'', JObj [])]])]"
  define tc where "tc = \<lparr>tc_id = ''c1'', tc_name = ''read'', tc_arguments = JObj [], tc_target = None\<rparr>"
  let ?pl = "msg_payload (demo_reply MODEL_RESPONSE 0 kvs)"
  let ?s1 = "push_message (assistant_message (response_content ?pl) (response_tool_calls ?pl)) (inc_turn s)"
  have calls: "response_tool_calls ?pl = [tc]"
    by (simp add: response_tool_calls_def kvs_def tc_def List.map_filter_simps demo_reply_payload)
  obtain b1 where b1: "net_ok b1" and m: "do_model_turn demo_deps (demo_at s b 0 demo_inbound) =
      (Ret (response_content ?pl, response_tool_calls ?pl), demo_at ?s1 b1 4 (drop (Suc 0) demo_inbound))"
    using do_model_turn_demo [OF assms(1,2), of kvs 0 "drop (Suc 0) demo_inbound"]
    by (auto simp: kvs_def demo_inbound_def)
  have s1: "st_wait_events ?s1 = []" "turn_count ?s1 = turn_count s + 1"
    using assms(2) by (simp_all add: assistant_message_def ModelMessage_new_def inc_turn_def)
  let ?res = "msg_payload (demo_reply TOOL_RESULT 4 [(''content'', JStr ''data'')])"
  let ?s2 = "push_message (tool_message tc (tool_result_content ?res)) (inc_turn ?s1)"
  obtain b2 where b2: "net_ok b2" and t: "do_tool_turn demo_deps tc (demo_at ?s1 b1 4 (drop (Suc 0) demo_inbound)) =
      (Ret ?res, demo_at ?s2 b2 8 (drop 2 demo_inbound))"
    using do_tool_turn_demo [OF b1 s1(1), of tc 4 "[(''content'', JStr ''data'')]" "drop 2 demo_inbound"]
    by (auto simp: demo_inbound_def tc_def)
  have s2: "st_wait_events ?s2 = []" "turn_count ?s2 = turn_count s + 2"
    using s1 by (simp_all add: tool_message_def ModelMessage_new_def inc_turn_def)
  have "do_tool_turns demo_deps [tc] (demo_at ?s1 b1 4 (drop (Suc 0) demo_inbound)) =
      (Ret [Inr ?res], demo_at ?s2 b2 8 (drop 2 demo_inbound))"
    using t by (simp add: demo_run)
  moreover have "turn_count ?s1 < 10" "turn_count ?s2 < 10" using s1(2) s2(2) assms(3) by simp_all
  ultimately have "run_turn demo_deps (demo_at s b 0 demo_inbound) =
      (Ret None, demo_at ?s2 b2 8 (drop 2 demo_inbound))"
    using assms(3)
    by (simp add: run_turn_def run_tools_def demo_run m calls check_max_turns_demo del: do_tool_turns.simps)
  with b2 s2 show ?thesis by blast
qed

lemma demo_last_turn:
  assumes "net_ok b" "st_wait_events s = []" "turn_count s < 6"
  shows "\<exists>w. run_turn demo_deps (demo_at s b 8 (drop 2 demo_inbound)) = (Ret (Some ''done''), w)"
proof -
  define kvs where "kvs = [(''message'', JObj [(''content'', JStr ''done'')])]"
  let ?pl = "msg_payload (demo_reply MODEL_RESPONSE 8 kvs)"
  let ?s1 = "push_message (assistant_message (response_content ?pl) (response_tool_calls ?pl)) (inc_turn s)"
  obtain b1 where m: "do_model_turn demo_deps (demo_at s b 8 (drop 2 demo_inbound)) =
      (Ret (response_content ?pl, response_tool_calls ?pl), demo_at ?s1 b1 12 [])"
    using do_model_turn_demo [OF assms(1,2), of kvs 8 "[]"]
    by (auto simp: kvs_def demo_inbound_def)
  have pl: "response_content ?pl = ''done''" "response_tool_calls ?pl = []"
    by (simp_all add: response_content_def response_tool_calls_def kvs_def unwrap_str_def demo_reply_payload)
  have "turn_count ?s1 < 10"
    using assms(3) by (simp add: assistant_message_def ModelMessage_new_def inc_turn_def)
  with assms(3) show ?thesis
    by (simp add: run_turn_def demo_run m pl check_max_turns_demo)
qed

lemma demo_run_done: "\<exists>w. run demo_deps ''hi'' demo_start = (Ret ''done'', w)"
proof -
  let ?s = "prepare_round ''hi'' State_new"
  have s: "st_wait_events ?s = []" "turn_count ?s < 6" "turn_count ?s = 0"
    by (simp_all add: prepare_round_def State_new_def Let_def inc_round_def OverView_default_def)
  from demo_first_turn [OF demo_net_ok s(1,2)] obtain b' s' where n: "net_ok b'" "st_wait_events s' = []"
    "turn_count s' = turn_count ?s + 2"
    and t1: "run_turn demo_deps (demo_at ?s demo_net 0 demo_inbound) = (Ret None, demo_at s' b' 8 (drop 2 demo_inbound))"
    by blast
  from demo_last_turn [OF n(1,2)] n(3) s(3) obtain w where
    t2: "run_turn demo_deps (demo_at s' b' 8 (drop 2 demo_inbound)) = (Ret (Some ''done''), w)" by auto
  have "run_loop demo_deps (demo_at ?s demo_net 0 demo_inbound) = (Ret ''done'', w)"
    by (subst run_loop.simps, simp add: t1, subst run_loop.simps, simp add: t2)
  then show ?thesis
    by (simp add: run_def run_inner_def demo_start_at Let_def check_pre_saved_def maybe_record_round_start_def
        demo_run)
qed

end
