(* ===== verification/Engine_Props.thy ===== *)
theory Engine_Props
  imports Engine_Demo
begin

text \<open>
  What a round of the engine promises: the shape of the conversation it leaves, its turn and
  wait bookkeeping, its answer to a cancellation, and what the wait for replies returns.
\<close>

lemma bind_out_Ret_iff:
  "bind_out r f = (Ret y, w') \<longleftrightarrow> (\<exists>x w1. r = (Ret x, w1) \<and> f x w1 = (Ret y, w'))"
  by (cases "(r, f)" rule: bind_out.cases) auto

subsection \<open>Successful operations extend the conversation\<close>

definition extends :: "('s, 'c) world \<Rightarrow> ('s, 'c) world \<Rightarrow> model_message list \<Rightarrow> nat \<Rightarrow> bool" where
  "extends w w' ms k \<longleftrightarrow> frame w w' \<and>
     st_messages (w_state w') = st_messages (w_state w) @ ms \<and>
     turn_count (w_state w') = turn_count (w_state w) + k \<and>
     round_count (w_state w') = round_count (w_state w) \<and>
     st_wait_events (w_state w') = st_wait_events (w_state w)"

lemma extends_trans:
  "extends w w1 ms k \<Longrightarrow> extends w1 w2 ms' k' \<Longrightarrow> extends w w2 (ms @ ms') (k + k')"
  by (auto simp: extends_def intro: frame_trans)

lemma extends_fresh: "extends w w' ms k \<Longrightarrow> ids_fresh w \<Longrightarrow> ids_fresh w'"
  by (auto simp: extends_def ids_fresh_def frame_def list_all_iff)

lemma extends_still: "still w w' \<Longrightarrow> extends w w' [] 0"
  by (simp add: extends_def still_def)

lemma extends_quiet: "quiet r w \<Longrightarrow> r = (Ret x, w') \<Longrightarrow> ids_fresh w \<Longrightarrow> extends w w' [] 0"
  by (rule extends_still [OF quiet_still])

lemma extends_trans0: "extends w w1 [] 0 \<Longrightarrow> extends w1 w2 ms k \<Longrightarrow> extends w w2 ms k"
  using extends_trans [of w w1 "[]" 0 w2 ms k] by simp

lemma extends_trans0': "extends w w1 ms k \<Longrightarrow> extends w1 w2 [] 0 \<Longrightarrow> extends w w2 ms k"
  using extends_trans [of w w1 ms k w2 "[]" 0] by simp

lemma extends_inc_turn: "extends w (upd_state inc_turn w) [] 1"
  by (simp add: extends_def upd_state_def frame_def cancel_coming_def inc_turn_def)

lemma extends_push:
  "mm_role m \<noteq> ''user'' \<Longrightarrow> extends w (upd_state (push_message m) w) [m] 0"
  by (simp add: extends_def upd_state_def frame_def cancel_coming_def push_message_def Let_def)

lemma extends_best_effort: "extends w w' ms k \<Longrightarrow> extends w (best_effort op w') ms k"
  by (rule extends_trans0' [OF _ extends_still [OF still_best_effort]])

lemma extends_record_answer:
  "extends w (record_answer D pl w) [assistant_message (response_content pl) (response_tool_calls pl)] 0"
proof -
  have ctx: "extends w (upd_state (set_context_tokens n) w) [] 0" for n
    by (simp add: extends_def upd_state_def frame_def cancel_coming_def set_context_tokens_def)
  have "extends w (note_usage D pl w) [] 0"
    by (auto simp: note_usage_def Let_def maybe_record_model_call_def
        intro!: extends_best_effort ctx extends_still [OF still_refl] extends_still [OF still_best_effort]
        split: option.splits)
  then show ?thesis
    unfolding record_answer_def
    by (rule extends_trans0) (rule extends_push, simp add: assistant_message_def ModelMessage_new_def)
qed

lemma do_model_turn_Ret:
  assumes "do_model_turn D w = (Ret (content, tcs), w')" and fresh: "ids_fresh w"
  shows "(content = [] \<and> tcs = [] \<and> extends w w' [] 1) \<or>
     extends w w' [assistant_message content tcs] 1"
proof -
  obtain aborted ctx w1 where c: "model_context (upd_state inc_turn w) = ((aborted, ctx), w1)"
    by (metis surj_pair)
  have w1: "extends w w1 [] 1"
    by (rule extends_trans0' [OF extends_inc_turn extends_still [OF model_context_still [OF c]]])
  show ?thesis
  proof (cases aborted)
    case True
    with assms(1) c w1 show ?thesis by (simp add: do_model_turn_def)
  next
    case False
    obtain cid w2 where f: "fresh w1 = (cid, w2)" by (metis surj_pair)
    define call where "call = AModelCall (model_call_of (ac_model (eng_config w2)) cid ctx)"
    obtain wire w3 where m: "wire_message D call [model_target (eng_registry w2)] w2 = (wire, w3)"
      by (metis surj_pair)
    have "bind_out (send_and_await D cid wire w3) (\<lambda>response w.
        (Ret (response_content (msg_payload response), response_tool_calls (msg_payload response)),
         record_answer D (msg_payload response) w)) = (Ret (content, tcs), w')"
      using assms(1) False by (simp add: do_model_turn_def c f m [unfolded call_def] Let_def)
    then obtain response w4 where s: "send_and_await D cid wire w3 = (Ret response, w4)"
      and w': "content = response_content (msg_payload response)"
        "tcs = response_tool_calls (msg_payload response)" "w' = record_answer D (msg_payload response) w4"
      by (auto elim: bind_out_RetE)
    have "still w1 w2" using still_fresh [of w1] by (simp add: f)
    also have "still w2 w3"
      using still_wire_message [of w2 D call "[model_target (eng_registry w2)]"] by (simp add: m)
    finally have w3: "extends w w3 [] 1" by (rule extends_trans0' [OF w1 extends_still])
    have "extends w3 w4 [] 0"
      by (rule extends_quiet [OF send_and_await_quiet s extends_fresh [OF w3 fresh]])
    from extends_trans [OF extends_trans0' [OF w3 this] extends_record_answer [of w4 D "msg_payload response"]]
    show ?thesis by (simp add: w')
  qed
qed

lemma extends_tool: "extends w (upd_state (push_message (tool_message tc c)) w) [tool_message tc c] 0"
  by (rule extends_push) (simp add: tool_message_def ModelMessage_new_def)

lemma exec_tool_Ret:
  assumes "exec_tool D tc s t n w = (Ret x, w')" and fresh: "ids_fresh w"
  shows "\<exists>c. extends w w' [tool_message tc c] 0"
proof -
  define target where "target = (case tc_target tc of Some t \<Rightarrow> Some t
                    | None \<Rightarrow> owner_of_tool (eng_registry w) (tc_name tc))"
  obtain cid w1 where f: "fresh w = (cid, w1)" by (metis surj_pair)
  define ex where "ex = AToolExec \<lparr>te_correlation_id = cid, te_tool_name = tc_name tc,
    te_arguments = tc_arguments tc, te_target = target\<rparr>"
  define to where "to = (case target of Some t \<Rightarrow> [t] | None \<Rightarrow> [])"
  obtain wire w2 where m: "wire_message D ex to w1 = (wire, w2)" by (metis surj_pair)
  have fin: "finish_tool D tc s t n (send_and_await D cid wire w2) = (Ret x, w')"
    using assms(1) by (simp add: exec_tool_def Let_def f m [unfolded to_def ex_def target_def])
  then obtain response w3 where a: "send_and_await D cid wire w2 = (Ret response, w3)"
    by (cases "(D, tc, s, t, n, send_and_await D cid wire w2)" rule: finish_tool.cases)
      (auto simp: Let_def split: if_splits)
  have "still w w1" using still_fresh [of w] by (simp add: f)
  also have "still w1 w2" using still_wire_message [of w1 D ex to] by (simp add: m)
  finally have w2: "extends w w2 [] 0" by (rule extends_still)
  have "extends w2 w3 [] 0"
    by (rule extends_quiet [OF send_and_await_quiet a extends_fresh [OF w2 fresh]])
  with w2 have "extends w w3 [] 0" by (rule extends_trans0)
  with fin a show ?thesis
    by (auto simp: Let_def maybe_record_tool_call_def
        intro!: exI extends_best_effort extends_trans0 [OF _ extends_tool])
qed

lemma deny_tool_Ret:
  "deny_tool D tc c y s t n w = (Ret x, w') \<Longrightarrow> extends w w' [tool_message tc c] 0"
  by (auto simp: deny_tool_def Let_def maybe_record_tool_call_def intro!: extends_best_effort extends_tool)

lemma do_tool_turn_Ret:
  assumes "do_tool_turn D tc w = (Ret x, w')" and fresh: "ids_fresh w"
  shows "\<exists>c. extends w w' [tool_message tc c] 1"
proof -
  let ?w = "upd_state inc_turn w"
  have fr: "ids_fresh ?w" by (rule extends_fresh [OF extends_inc_turn fresh])
  have "\<exists>c. extends ?w w' [tool_message tc c] 0"
  proof (cases "lookup_tool_permission (eng_config ?w) (tc_name tc)")
    case Ask
    with assms(1) obtain granted w1 where p: "request_permission D tc ?w = (Ret granted, w1)"
      and rest: "(if granted
          then exec_tool D tc (w_now ?w) (as_u32 (turn_count (w_state ?w))) (as_u32 (round_count (w_state ?w))) w1
          else deny_tool D tc (''user denied tool call: '' @ tc_name tc) ''user denied'' (w_now ?w)
                 (as_u32 (turn_count (w_state ?w))) (as_u32 (round_count (w_state ?w))) w1) = (Ret x, w')"
      by (auto simp: do_tool_turn_def Let_def elim: bind_out_RetE)
    have e: "extends ?w w1 [] 0" by (rule extends_quiet [OF request_permission_quiet p fr])
    have "\<exists>c. extends w1 w' [tool_message tc c] 0"
    proof (cases granted)
      case True
      with rest exec_tool_Ret [OF _ extends_fresh [OF e fr]] show ?thesis by auto
    next
      case False
      with rest have "deny_tool D tc (''user denied tool call: '' @ tc_name tc) ''user denied'' (w_now ?w)
                 (as_u32 (turn_count (w_state ?w))) (as_u32 (round_count (w_state ?w))) w1 = (Ret x, w')"
        by simp
      from deny_tool_Ret [OF this] show ?thesis by blast
    qed
    then show ?thesis using extends_trans0 [OF e] by blast
  qed (use assms(1) exec_tool_Ret [OF _ fr] in
      \<open>auto simp: do_tool_turn_def Let_def dest: deny_tool_Ret\<close>)
  with extends_trans [OF extends_inc_turn, of w] show ?thesis by fastforce
qed

lemma do_tool_turns_Ret:
  assumes "do_tool_turns D tcs w = (Ret rs, w')" "first_error rs = None" "ids_fresh w"
  shows "\<exists>cs. length cs = length tcs \<and> extends w w' (map2 tool_message tcs cs) (length tcs)"
  using assms
proof (induction tcs arbitrary: w rs)
  case Nil
  then show ?case by (simp add: extends_still)
next
  case (Cons tc tcs)
  obtain c w1 where c: "is_cancelled w = (c, w1)" by (metis surj_pair)
  have w1: "extends w w1 [] 0" using still_is_cancelled [of w] by (simp add: c extends_still)
  note f1 = extends_fresh [OF w1 Cons.prems(3)]
  from Cons.prems(1) c have "\<exists>r w2 rs'.
      (if c then (Ret (Inl Stopped),
             upd_state (push_message (tool_message tc (''[cancelled by user] '' @ tc_name tc))) w1)
       else one_tool D tc w1) = (Ret r, w2) \<and> do_tool_turns D tcs w2 = (Ret rs', w') \<and> rs = r # rs'"
    unfolding do_tool_turns.simps one_tool_def [symmetric] by (fastforce simp: bind_out_Ret_iff)
  then obtain r w2 rs' where
    one: "(if c then (Ret (Inl Stopped),
             upd_state (push_message (tool_message tc (''[cancelled by user] '' @ tc_name tc))) w1)
           else one_tool D tc w1) = (Ret r, w2)"
    and rest: "do_tool_turns D tcs w2 = (Ret rs', w')" and rs: "rs = r # rs'"
    by blast
  from rs Cons.prems(2) obtain x where r: "r = Inr x" "first_error rs' = None" by (cases r) auto
  from one r(1) have turn: "do_tool_turn D tc w1 = (Ret x, w2)"
    by (auto simp: one_tool_def split: if_splits prod.splits outcome.splits)
  from do_tool_turn_Ret [OF turn f1] obtain cnt where "extends w1 w2 [tool_message tc cnt] 1" by auto
  with w1 have w2: "extends w w2 [tool_message tc cnt] 1" by (rule extends_trans0)
  from Cons.IH [OF rest r(2) extends_fresh [OF w2 Cons.prems(3)]] obtain cs
    where cs: "length cs = length tcs" "extends w2 w' (map2 tool_message tcs cs) (length tcs)" by auto
  have "extends w w' (map2 tool_message (tc # tcs) (cnt # cs)) (length (tc # tcs))"
    using extends_trans [OF w2 cs(2)] by simp
  with cs(1) show ?case by (metis length_Cons)
qed

subsection \<open>Rounds\<close>

text \<open>An assistant message with tool calls, and one answer for each of them, in order.\<close>

fun tool_block :: "model_message list \<Rightarrow> bool" where
  "tool_block [] = False"
| "tool_block (a # answers) =
     (mm_role a = ''assistant'' \<and> mm_tool_calls a \<noteq> [] \<and>
      map mm_role answers = map (\<lambda>_. ''tool'') (mm_tool_calls a) \<and>
      map mm_tool_call_id answers = map (\<lambda>tc. Some (tc_id tc)) (mm_tool_calls a) \<and>
      map mm_name answers = map (\<lambda>tc. Some (tc_name tc)) (mm_tool_calls a))"

lemma tool_block_answers:
  "tcs \<noteq> [] \<Longrightarrow> length cs = length tcs \<Longrightarrow>
     tool_block (assistant_message content tcs # map2 tool_message tcs cs)"
proof -
  assume "tcs \<noteq> []" and "length cs = length tcs"
  from this(2) have "map mm_role (map2 tool_message tcs cs) = map (\<lambda>_. ''tool'') tcs \<and>
      map mm_tool_call_id (map2 tool_message tcs cs) = map (\<lambda>tc. Some (tc_id tc)) tcs \<and>
      map mm_name (map2 tool_message tcs cs) = map (\<lambda>tc. Some (tc_name tc)) tcs"
    by (induction cs tcs rule: list_induct2) (simp_all add: tool_message_def ModelMessage_new_def)
  with \<open>tcs \<noteq> []\<close> show ?thesis by (simp add: assistant_message_def ModelMessage_new_def del: map_map)
qed

text \<open>The end of a successful round: the answer, unless a middleware aborted the call.\<close>

definition closing :: "string \<Rightarrow> model_message list \<Rightarrow> bool" where
  "closing out ms \<longleftrightarrow> ms = [assistant_message out []] \<or> (ms = [] \<and> out = [])"

lemma extends_if_quiet:
  "quiet r w \<Longrightarrow> r = (Ret x, w1) \<Longrightarrow> ids_fresh w0 \<Longrightarrow> extends w0 w ms k \<Longrightarrow> extends w0 w1 ms k"
  using extends_trans0' [of w0 w ms k w1] extends_quiet [of r w x w1] extends_fresh [of w0 w ms k] by blast

lemma check_max_turns_Ret:
  "check_max_turns w = (Ret u, w') \<Longrightarrow>
     w' = w \<and> as_u32 (turn_count (w_state w)) < ec_max_turns (ac_engine (eng_config w))"
  by (auto simp: check_max_turns_def Let_def split: if_splits)

lemma run_tools_Ret:
  assumes "run_tools D tcs w = (Ret r, w')" and fresh: "ids_fresh w"
  shows "r = None \<and> (\<exists>cs. length cs = length tcs \<and> extends w w' (map2 tool_message tcs cs) (length tcs))"
proof -
  from assms(1) have "\<exists>w1 w2 rs w3. check_cancelled w = (Ret (), w1) \<and>
      evaluate_and_dispatch D BeforeToolExec w1 = (Ret (), w2) \<and>
      do_tool_turns D tcs w2 = (Ret rs, w3) \<and> evaluate_and_dispatch D AfterToolExec w3 = (Ret (), w') \<and>
      first_error rs = None \<and> r = None"
    unfolding run_tools_def
    by (fastforce simp: bind_out_Ret_iff dest: check_max_turns_Ret split: option.splits)
  then obtain w1 w2 rs w3 where
    s1: "check_cancelled w = (Ret (), w1)" and s2: "evaluate_and_dispatch D BeforeToolExec w1 = (Ret (), w2)"
    and s3: "do_tool_turns D tcs w2 = (Ret rs, w3)"
    and s4: "evaluate_and_dispatch D AfterToolExec w3 = (Ret (), w')"
    and none: "first_error rs = None" "r = None"
    by blast
  have "extends w w1 [] 0" by (rule extends_quiet [OF check_cancelled_quiet s1 fresh])
  then have w2: "extends w w2 [] 0" by (rule extends_if_quiet [OF evaluate_and_dispatch_quiet s2 fresh])
  from do_tool_turns_Ret [OF s3 none(1) extends_fresh [OF w2 fresh]] obtain cs where
    cs: "length cs = length tcs" "extends w2 w3 (map2 tool_message tcs cs) (length tcs)" by auto
  from extends_trans0 [OF w2 cs(2)] have "extends w w' (map2 tool_message tcs cs) (length tcs)"
    by (rule extends_if_quiet [OF evaluate_and_dispatch_quiet s4 fresh])
  with cs(1) none show ?thesis by blast
qed

lemma run_turn_Ret:
  assumes "run_turn D w = (Ret r, w')" and fresh: "ids_fresh w"
  shows "case r of
     None \<Rightarrow> \<exists>b. tool_block b \<and> extends w w' b (length b)
   | Some out \<Rightarrow> (\<exists>fin. closing out fin \<and> extends w w' fin 1) \<and>
       as_u32 (turn_count (w_state w')) < ec_max_turns (ac_engine (eng_config w'))"
proof -
  from assms(1) have "\<exists>w1 w2 w4 content tcs w5 w6. check_cancelled w = (Ret (), w1) \<and>
      evaluate_and_dispatch D BeforeModelCall w1 = (Ret (), w2) \<and>
      do_model_turn D w2 = (Ret (content, tcs), w4) \<and> check_cancelled w4 = (Ret (), w5) \<and>
      evaluate_and_dispatch D AfterModelCall w5 = (Ret (), w6) \<and>
      check_max_turns w6 = (Ret (), w6) \<and>
      (if tcs = [] then r = Some content \<and> evaluate_and_dispatch D RoundEnd w6 = (Ret (), w')
       else run_tools D tcs w6 = (Ret r, w'))"
    unfolding run_turn_def bind_out_Ret_iff
    by (fastforce dest: check_max_turns_Ret simp: bind_out_Ret_iff split: if_splits)
  then obtain w1 w2 w4 content tcs w5 w6 where
    s1: "check_cancelled w = (Ret (), w1)" and s2: "evaluate_and_dispatch D BeforeModelCall w1 = (Ret (), w2)"
    and s3: "do_model_turn D w2 = (Ret (content, tcs), w4)" and s4: "check_cancelled w4 = (Ret (), w5)"
    and s5: "evaluate_and_dispatch D AfterModelCall w5 = (Ret (), w6)"
    and s6: "check_max_turns w6 = (Ret (), w6)"
    and last: "if tcs = [] then r = Some content \<and> evaluate_and_dispatch D RoundEnd w6 = (Ret (), w')
       else run_tools D tcs w6 = (Ret r, w')"
    by (elim exE conjE)
  have "extends w w1 [] 0" by (rule extends_quiet [OF check_cancelled_quiet s1 fresh])
  then have w2: "extends w w2 [] 0" by (rule extends_if_quiet [OF evaluate_and_dispatch_quiet s2 fresh])
  from do_model_turn_Ret [OF s3 extends_fresh [OF w2 fresh]] obtain ms where
    ms: "(content = [] \<and> tcs = [] \<and> ms = []) \<or> ms = [assistant_message content tcs]" "extends w2 w4 ms 1"
    by blast
  from extends_trans0 [OF w2 ms(2)] have "extends w w5 ms 1"
    by (rule extends_if_quiet [OF check_cancelled_quiet s4 fresh])
  then have w6: "extends w w6 ms 1" by (rule extends_if_quiet [OF evaluate_and_dispatch_quiet s5 fresh])
  show ?thesis
  proof (cases "tcs = []")
    case True
    with last have r: "r = Some content" and e: "evaluate_and_dispatch D RoundEnd w6 = (Ret (), w')" by auto
    have "still w6 w'" by (rule quiet_still [OF evaluate_and_dispatch_quiet e extends_fresh [OF w6 fresh]])
    moreover have "extends w w' ms 1" by (rule extends_if_quiet [OF evaluate_and_dispatch_quiet e fresh w6])
    ultimately show ?thesis
      using check_max_turns_Ret [OF s6] ms(1) True by (auto simp: r closing_def still_def frame_def)
  next
    case False
    with last have "run_tools D tcs w6 = (Ret r, w')" by simp
    from run_tools_Ret [OF this extends_fresh [OF w6 fresh]] obtain cs where
      r: "r = None" and cs: "length cs = length tcs" "extends w6 w' (map2 tool_message tcs cs) (length tcs)"
      by auto
    from False ms(1) have ms: "ms = [assistant_message content tcs]" by auto
    have "extends w w' (assistant_message content tcs # map2 tool_message tcs cs) (1 + length tcs)"
      using extends_trans [OF w6 cs(2)] by (simp add: ms)
    with tool_block_answers [OF False cs(1)] cs(1) show ?thesis
      by (auto simp: r intro!: exI [of _ "assistant_message content tcs # map2 tool_message tcs cs"])
  qed
qed

lemma run_loop_Ret:
  assumes "run_loop D w = (Ret out, w')" and "ids_fresh w"
  shows "\<exists>bs fin. list_all tool_block bs \<and> closing out fin \<and>
    extends w w' (concat bs @ fin) (length (concat bs) + 1) \<and>
    as_u32 (turn_count (w_state w')) < ec_max_turns (ac_engine (eng_config w'))"
  using assms
proof (induction D w rule: run_loop.induct)
  case (1 D w)
  obtain r w1 where t: "run_turn D w = (r, w1)" by (metis surj_pair)
  with "1.prems"(1) consider "r = Ret None" "run_loop D w1 = (Ret out, w')" | "r = Ret (Some out)" "w1 = w'"
    by (subst (asm) run_loop.simps) (auto split: outcome.splits option.splits)
  then show ?case
  proof cases
    case 1
    from run_turn_Ret [OF t [unfolded 1(1)] "1.prems"(2)] obtain b where
      b: "tool_block b" "extends w w1 b (length b)" by auto
    from "1.IH" [OF t [symmetric] 1(1) refl 1(2) extends_fresh [OF b(2) "1.prems"(2)]]
    obtain bs fin where *: "list_all tool_block bs" "closing out fin"
      "extends w1 w' (concat bs @ fin) (length (concat bs) + 1)"
      "as_u32 (turn_count (w_state w')) < ec_max_turns (ac_engine (eng_config w'))" by auto
    from extends_trans [OF b(2) *(3)] have "extends w w' (concat (b # bs) @ fin) (length (concat (b # bs)) + 1)"
      by (simp add: add.assoc)
    moreover have "list_all tool_block (b # bs)" using b(1) *(1) by simp
    ultimately show ?thesis using *(2,4) by blast
  next
    case 2
    from run_turn_Ret [OF t [unfolded 2(1)] "1.prems"(2)] obtain fin where
      "closing out fin" "extends w w1 fin 1"
      "as_u32 (turn_count (w_state w1)) < ec_max_turns (ac_engine (eng_config w1))" by auto
    then show ?thesis using 2(2) by (intro exI [of _ "[]"] exI [of _ fin]) simp
  qed
qed

lemma run_Ret:
  assumes "run D input w = (Ret out, w')" and "ids_fresh w"
  shows "\<exists>blocks fin. list_all tool_block blocks \<and> closing out fin \<and>
    st_messages (w_state w') =
      st_messages (w_state w) @ [ModelMessage_new ''user'' input] @ concat blocks @ fin \<and>
    turn_count (w_state w') = turn_count (w_state w) + length (concat blocks) + 1 \<and>
    as_u32 (turn_count (w_state w')) < ec_max_turns (ac_engine (eng_config w)) \<and>
    round_count (w_state w') = round_count (w_state w) + 1 \<and>
    st_wait_events (w_state w') = st_wait_events (w_state w) \<and>
    eng_config w' = eng_config w \<and> ids_fresh w'"
proof -
  define w0 where "w0 = maybe_record_round_start D (as_u32 (round_count (w_state w)) + 1) w"
  have w0: "still w w0" by (simp add: w0_def maybe_record_round_start_def)
  obtain r w1 where i: "run_inner D input w0 = (r, w1)" by (metis surj_pair)
  from assms(1) have r: "r = Ret out" and e: "\<exists>n d. w' = maybe_record_round_end D n d w1"
    unfolding run_def Let_def i [unfolded w0_def] by (auto split: if_splits)
  have still: "still w1 w'" using e by (auto simp: maybe_record_round_end_def)
  then have w': "w_state w' = w_state w1" "eng_config w' = eng_config w1" by (simp_all add: still_def frame_def)
  let ?p = "upd_state (prepare_round input) w0"
  from i r have "run_loop D ?p = (Ret out, w1)"
    by (auto simp: run_inner_def bind_out_Ret_iff check_pre_saved_def split: option.splits sum.splits if_splits)
  moreover have "ids_fresh ?p"
    using still_ids_fresh [OF w0 assms(2)]
    by (simp add: ids_fresh_def upd_state_def prepare_round_def Let_def inc_round_def)
  ultimately obtain bs fin where *: "list_all tool_block bs" "closing out fin"
    "extends ?p w1 (concat bs @ fin) (length (concat bs) + 1)"
    "as_u32 (turn_count (w_state w1)) < ec_max_turns (ac_engine (eng_config w1))"
    using run_loop_Ret by blast
  have prep: "st_messages (w_state ?p) = st_messages (w_state w) @ [ModelMessage_new ''user'' input]"
    "turn_count (w_state ?p) = turn_count (w_state w)" "round_count (w_state ?p) = round_count (w_state w) + 1"
    "st_wait_events (w_state ?p) = st_wait_events (w_state w)" "eng_config ?p = eng_config w"
    using w0 by (simp_all add: upd_state_def prepare_round_def Let_def inc_round_def still_def frame_def)
  from *(3) have "eng_config w1 = eng_config ?p" by (simp add: extends_def frame_def)
  moreover have "ids_fresh w'"
    using still_ids_fresh [OF still extends_fresh [OF *(3)]] still_ids_fresh [OF w0 assms(2)]
    by (simp add: ids_fresh_def upd_state_def prepare_round_def Let_def inc_round_def)
  ultimately show ?thesis using * prep w' by (auto simp: extends_def)
qed

text \<open>
  C1: what a successful round leaves behind. The conversation is the old one, the user's
  message, any number of complete tool blocks (an assistant message with tool calls followed
  by exactly one answer to each call, in order, with its id and name), and the final answer;
  when a middleware aborted the last model call there is no final message and the output is
  empty. The turn counter grew by one for each of these messages and stays below
  \<open>max_turns\<close>, the round counter by one, and every wait event registered on the way is gone
  while the older ones are kept.
\<close>

theorem run_history:
  assumes "run D input w = (Ret out, w')" and "ids_fresh w"
  shows "\<exists>blocks fin. list_all tool_block blocks \<and> closing out fin \<and>
    st_messages (w_state w') =
      st_messages (w_state w) @ [ModelMessage_new ''user'' input] @ concat blocks @ fin \<and>
    turn_count (w_state w') = turn_count (w_state w) + length (concat blocks) + 1 \<and>
    as_u32 (turn_count (w_state w')) < ec_max_turns (ac_engine (eng_config w)) \<and>
    round_count (w_state w') = round_count (w_state w) + 1 \<and>
    st_wait_events (w_state w') = st_wait_events (w_state w)"
  using run_Ret [OF assms] by blast

theorem run_history_witness:
  "\<exists>w' blocks fin. run demo_deps ''hi'' demo_start = (Ret ''done'', w') \<and>
     list_all tool_block blocks \<and> closing ''done'' fin \<and>
     st_messages (w_state w') = ModelMessage_new ''user'' ''hi'' # concat blocks @ fin"
proof -
  obtain w where w: "run demo_deps ''hi'' demo_start = (Ret ''done'', w)" using demo_run_done by blast
  have "ids_fresh demo_start" by (simp add: ids_fresh_def demo_world_def State_new_def)
  from run_history [OF w this] w show ?thesis
    by (auto simp: demo_world_def State_new_def)
qed

text \<open>
  C3: a cancellation always gets through. If the token is cancelled, or the script will
  cancel it at some point, a round never waits for ever, whatever else happens: it ends with
  an output, an error or a panic.
\<close>

theorem cancelled_run_ends:
  assumes "cancel_coming w"
  shows "fst (run D input w) \<noteq> Hang"
proof -
  have "calm (check_pre_saved D w') w'" for w'
    by (auto simp: check_pre_saved_def intro: calm_leaf split: option.splits sum.splits)
  moreover have "calm (run_loop D (upd_state f w')) w'" for f w'
    by (rule calm_op [OF calm_run_loop]) simp
  ultimately have "calm (run_inner D input w') w'" for w'
    unfolding run_inner_def by (intro calm_bind) auto
  then have "calm (run_inner D input (maybe_record_round_start D n w)) w" for n
    by (rule calm_op) (simp add: maybe_record_round_start_def still_frame)
  with assms show ?thesis
    by (auto simp: run_def Let_def calm_def split: prod.splits) (metis fst_conv)
qed

theorem cancelled_run_ends_witness:
  "cancel_coming (demo_world AgentConfig_default [] [[], [EvCancel]]) \<and>
   fst (run demo_deps ''hi'' (demo_world AgentConfig_default [] [[], [EvCancel]])) \<noteq> Hang"
proof -
  have "cancel_coming (demo_world AgentConfig_default [] [[], [EvCancel]])"
    by (simp add: cancel_coming_def demo_world_def)
  with cancelled_run_ends [OF this] show ?thesis by blast
qed

subsection \<open>Waiting for replies\<close>

definition needed :: "wait_event \<Rightarrow> nat" where
  "needed ev = (case we_strategy ev of WaitAll \<Rightarrow> max 1 (we_expected ev) | WaitAny \<Rightarrow> 1
                | WaitCount k \<Rightarrow> max 1 k)"

text \<open>What a wait may hand back: messages of the right type and correlation id, never too many.\<close>

definition answers :: "('s, 'c) deps \<Rightarrow> string list \<Rightarrow> wait_event \<Rightarrow> message list \<Rightarrow> bool" where
  "answers D types ev ms \<longleftrightarrow>
     list_all (\<lambda>m. msg_type m \<in> set types \<and> correlation_id (d_uuid D) m = Some (we_correlation_id ev)) ms"

lemma triggered_needed: "triggered (we_strategy ev) (we_expected ev) (Suc n) \<longleftrightarrow> needed ev \<le> Suc n"
  by (cases "we_strategy ev") (auto simp: needed_def)

lemma find_wait_event_still: "still w w' \<Longrightarrow> find_wait_event eid w' = find_wait_event eid w"
  by (simp add: find_wait_event_def still_def)

lemma wait_step_Inr:
  assumes "wait_step D eid types received w = Inr (received', w')" "find_wait_event eid w = Some ev"
    "answers D types ev received" "length received < needed ev"
  shows "answers D types ev received' \<and> length received' < needed ev"
proof -
  obtain r w1 where p: "poll (tick w) = (r, w1)" by (metis surj_pair)
  have "still w w1" using poll_still [of "tick w"] still_trans [OF still_tick] by (auto simp: p)
  from find_wait_event_still [OF this] assms(2) have ev: "find_wait_event eid w1 = Some ev" by simp
  from assms(1) show ?thesis
    using assms(3,4) triggered_needed [of ev "length received"]
    by (auto simp: wait_step_def p ev accept_message_def Let_def answers_def
        split: poll_result.splits if_splits bool.splits prod.splits option.splits)
qed

lemma wait_for_strategy_answers:
  assumes "wait_for_strategy D eid types received w = (Ret ms, w')" "find_wait_event eid w = Some ev"
    "answers D types ev received" "length received < needed ev"
  shows "answers D types ev ms \<and> length ms = needed ev"
  using assms
proof (induction D eid types received w rule: wait_for_strategy.induct)
  case (1 D eid types received w)
  show ?case
  proof (cases "wait_step D eid types received w")
    case (Inl res)
    then have "wait_step D eid types received w = Inl (Ret ms, w')"
      using "1.prems"(1) by (subst (asm) wait_for_strategy.simps) simp
    from wait_step_Ret [OF this] obtain m ev' w1 where *: "poll (tick w) = (PMsg m, w1)"
      "find_wait_event eid w1 = Some ev'" "msg_type m \<in> set types"
      "correlation_id (d_uuid D) m = Some (we_correlation_id ev')" "ms = received @ [m]"
      "triggered (we_strategy ev') (we_expected ev') (length ms)" by blast
    have "still w w1" using poll_still [of "tick w"] still_trans [OF still_tick] by (auto simp: *(1))
    with *(2) "1.prems"(2) have "ev' = ev" by (simp add: find_wait_event_still)
    with * "1.prems"(3,4) triggered_needed [of ev "length received"] show ?thesis
      by (auto simp: answers_def)
  next
    case (Inr b)
    then obtain rec' w1 where b: "wait_step D eid types received w = Inr (rec', w1)" by (cases b) auto
    have "wait_for_strategy D eid types rec' w1 = (Ret ms, w')"
      using "1.prems"(1) b by (subst (asm) wait_for_strategy.simps) simp
    moreover have "find_wait_event eid w1 = Some ev"
      using wait_step_frame [where D = D and eid = eid and types = types and received = received and w = w] b "1.prems"(2) by (auto simp: find_wait_event_still)
    ultimately show ?thesis
      using "1.IH" [OF b refl] wait_step_Inr [OF b "1.prems"(2-4)] by blast
  qed
qed

text \<open>
  C2: what a wait returns. For a registered wait event, a successful wait yields exactly as
  many messages as the strategy asks for (all expected replies, one, or \<open>k\<close>), every one
  of an awaited type and carrying the event's correlation id, and the \<^verbatim>\<open>State\<close> is the old one
  without the event. Whatever else arrived in between was not taken for a reply.
\<close>

theorem wait_returns_replies:
  assumes "wait_for_strategy D eid types [] w = (Ret ms, w')" and "find_wait_event eid w = Some ev"
  shows "length ms = needed ev \<and> answers D types ev ms \<and>
    w_state w' = retain_wait_events eid (w_state w)"
proof -
  have "0 < needed ev" by (cases "we_strategy ev") (simp_all add: needed_def)
  moreover have "w_state w' = retain_wait_events eid (w_state w)"
    using wait_for_strategy_frame assms(1) by blast
  ultimately show ?thesis
    using wait_for_strategy_answers [OF assms] by (simp add: answers_def)
qed

theorem wait_returns_replies_witness:
  "\<exists>w ms w'. find_wait_event 3 w = Some (WaitEvent_new 3 0 5 WaitAll 1) \<and>
     wait_for_strategy demo_deps 3 [TOOL_RESULT] [] w = (Ret ms, w') \<and> length ms = 1"
proof -
  let ?ev = "WaitEvent_new 3 0 5 WaitAll 1"
  let ?w = "demo_at (push_wait_event ?ev State_new) demo_net 4 [demo_reply TOOL_RESULT 5 []]"
  have ev: "we_id ?ev = 3" by (simp add: WaitEvent_new_def)
  have f: "find_wait_event 3 ?w = Some ?ev"
    by (simp add: find_wait_event_def demo_run push_wait_event_def State_new_def WaitEvent_new_def)
  have "wait_for_strategy demo_deps (we_id ?ev) [TOOL_RESULT] [] ?w =
      (Ret [demo_reply TOOL_RESULT 5 []], demo_at (retain_wait_events (we_id ?ev) (push_wait_event ?ev State_new))
         demo_net 4 [])"
    by (rule wait_demo)
      (simp_all add: msg_type_defs WaitEvent_new_def push_wait_event_def State_new_def)
  note r = this [unfolded ev]
  from wait_returns_replies [OF r f] r f show ?thesis
    by (auto simp: needed_def WaitEvent_new_def)
qed

end
