(* ===== verification/Outbox_Props.thy ===== *)
theory Outbox_Props
  imports Engine_Props Session_Props
begin

text \<open>
  The outbox across a restart: what \<^verbatim>\<open>resend_pending_outbound\<close> does to a store that keeps the
  contract \<open>session_store\<close>, the order of recording and sending, the deduplication of
  replies, and the check that the session was saved before a round.
\<close>

subsection \<open>What reaches the store\<close>

lemma world_send_keeps:
  "eng_session_store (snd (world_send m w)) = eng_session_store w"
  "eng_session_id (snd (world_send m w)) = eng_session_id w"
  "eng_agent_id (snd (world_send m w)) = eng_agent_id w"
  by (auto simp: world_send_def Let_def fresh_def split: prod.splits)

text \<open>The event that a resend of a pending row records.\<close>

definition resend_event :: "pending_outbound \<Rightarrow> millis \<Rightarrow> event" where
  "resend_event p t =
     OutboundSent (po_msg_type p) (po_correlation_id p) (po_attempt p + 1) (po_target_nodes p)
       (po_payload p) t"

text \<open>
  A message on the wire that repeats a pending row: type, targets and sender are the row's and
  the engine's, and the payload is what the row is reconstructed to.
\<close>

definition repeats :: "uuid_ops \<Rightarrow> node_id \<Rightarrow> pending_outbound \<Rightarrow> message \<Rightarrow> bool" where
  "repeats U n p m \<longleftrightarrow>
     msg_type m = po_msg_type p \<and> msg_to m = map NodeId (po_target_nodes p) \<and> msg_from m = n \<and>
     (\<exists>i t frm. reconstruct_message U i t p frm =
        Inr (Message_new i t (msg_type m) frm (msg_to m) (msg_payload m)))"

definition rebuildable :: "uuid_ops \<Rightarrow> pending_outbound \<Rightarrow> bool" where
  "rebuildable U p \<longleftrightarrow>
     (if po_msg_type p = ''peer_message'' then \<not> isl (reconstruct_peer U p)
      else if po_msg_type p = ''human_handoff'' then \<not> isl (reconstruct_handoff U p) else False)"

text \<open>The row has a target that is online, or is for everybody.\<close>

definition reachable_on :: "bus \<Rightarrow> pending_outbound \<Rightarrow> bool" where
  "reachable_on b p \<longleftrightarrow> po_target_nodes p = [] \<or> (\<exists>t \<in> set (po_target_nodes p). NodeId t \<in> set (online b))"

definition attached :: "node_handle \<Rightarrow> bus \<Rightarrow> bool" where
  "attached h b \<longleftrightarrow> bus_running b \<and> nh_primary_bus_id h = bus_bid b \<and>
     bus_bid b \<in> sub_bus_id ` set (nh_subscriptions h)"

lemma reconstruct_shape:
  "reconstruct_message U i t p frm = Inr m \<Longrightarrow>
     m = Message_new i t (po_msg_type p) frm (map NodeId (po_target_nodes p)) (msg_payload m)"
  by (auto simp: reconstruct_message_def Let_def Message_new_def map_sum_def split: if_splits sum.splits)

lemma rebuildable_iff: "rebuildable U p \<longleftrightarrow> (\<exists>m. reconstruct_message U i t p frm = Inr m)"
  by (cases "reconstruct_peer U p"; cases "reconstruct_handoff U p")
    (auto simp: rebuildable_def reconstruct_message_def Let_def)

lemma bus_step_wire: "prefix (bus_wire b) (bus_wire (snd (bus_step timeout ids now ev b)))"
proof (induction timeout ids now ev b rule: bus_step.induct)
  case (6 timeout ids now b)
  from heartbeat_tick_wire [of ids timeout now b] show ?case by auto
qed (auto simp: handle_send_def handle_connect_def handle_disconnect_def handle_heartbeat_ack_def
      handle_shutdown_def Let_def split: option.splits)

lemma env_step_wire: "prefix (bus_wire (w_bus w)) (bus_wire (w_bus (env_step ev w)))"
  by (cases ev) (simp_all add: bus_step_wire)

lemma tick_wire: "prefix (bus_wire (w_bus w)) (bus_wire (w_bus (tick w)))"
proof -
  have fold: "prefix (bus_wire (w_bus v)) (bus_wire (w_bus (fold env_step evs v)))"
    for evs and v :: "('a, 'b) world"
    by (induction evs arbitrary: v) (auto intro: prefix_order.trans env_step_wire)
  show ?thesis
    using fold [of "w\<lparr>w_script := tl (w_script w)\<rparr>"] by (auto simp: tick_def split: list.splits)
qed

lemma env_step_handle [simp]: "eng_handle (env_step ev w) = eng_handle w"
  by (cases ev) auto

lemma tick_handle [simp]: "eng_handle (tick w) = eng_handle w"
proof -
  have "eng_handle (fold env_step evs v) = eng_handle v" for evs and v :: "('a, 'b) world"
    by (induction evs arbitrary: v) auto
  then show ?thesis by (simp add: tick_def split: list.splits)
qed

text \<open>A send puts the message on the wire and answers, or changes nothing and fails.\<close>

lemma all_filtered: "length (filter P xs) = length xs \<longleftrightarrow> (\<forall>x \<in> set xs. P x)"
  by (metis filter_True length_filter_less less_irrefl)

lemma handle_send_effect:
  assumes "handle_send m b = (r, b')"
  shows "bus_nodes b' = bus_nodes b \<and> bus_bid b' = bus_bid b \<and> bus_running b' = bus_running b \<and>
    bus_wire b' = bus_wire b @ (if \<not> isl r then [m] else []) \<and>
    ((\<not> isl r) \<longleftrightarrow> msg_to m = [] \<or> (\<exists>n \<in> set (msg_to m). n \<in> set (online b)))"
  using assms by (auto simp: handle_send_def Let_def all_filtered contains_key_iff split: if_splits)

lemma world_send_effect:
  assumes "world_send m w = (r, w')"
  defines "t \<equiv> tick w"
  shows "w_script w' = w_script t \<and> eng_handle w' = eng_handle w \<and> w_now w' = w_now t \<and>
    bus_nodes (w_bus w') = bus_nodes (w_bus t) \<and> bus_bid (w_bus w') = bus_bid (w_bus t) \<and>
    bus_running (w_bus w') = bus_running (w_bus t) \<and>
    (\<exists>i. bus_wire (w_bus w') = bus_wire (w_bus t) @
       (if \<not> isl r then [Message_with_from_bus i (w_now t) (msg_type m) (nh_node_id (eng_handle w)) (msg_to m)
                         (msg_payload m) (nh_primary_bus_id (eng_handle w))] else [])) \<and>
    (attached (eng_handle w) (w_bus t) \<longrightarrow>
       ((\<not> isl r) \<longleftrightarrow> msg_to m = [] \<or> (\<exists>n \<in> set (msg_to m). n \<in> set (online (w_bus t)))))"
proof -
  let ?h = "eng_handle w" and ?b = "w_bus t"
  let ?m = "Message_with_from_bus (w_fresh t) (w_now t) (msg_type m) (nh_node_id ?h) (msg_to m)
    (msg_payload m) (nh_primary_bus_id ?h)"
  have h: "eng_handle t = ?h" by (simp add: t_def)
  show ?thesis
  proof (cases "find (\<lambda>s. sub_bus_id s = nh_primary_bus_id ?h) (nh_subscriptions ?h)")
    case None
    then have "\<not> attached ?h ?b" by (auto simp: attached_def find_None_iff)
    with None assms(1) h show ?thesis
      by (auto simp: world_send_def fresh_def Let_def send_message_def send_via_def simp flip: t_def)
  next
    case (Some sub)
    then have sub: "sub_bus_id sub = nh_primary_bus_id ?h" by (auto simp: find_Some_iff)
    show ?thesis
    proof (cases "sub_bus_id sub = bus_bid ?b \<and> bus_running ?b")
      case True
      obtain r' b' where e: "handle_send ?m ?b = (r', b')" by (metis surj_pair)
      then have "r = r'" "w' = t\<lparr>w_fresh := Suc (w_fresh t), w_bus := b'\<rparr>"
        using assms(1) Some True h
        by (auto simp: world_send_def fresh_def Let_def send_message_def send_via_def loop_send_def simp flip: t_def)
      with handle_send_effect [OF e] h show ?thesis by (auto simp: message_defs)
    next
      case False
      then have "\<not> attached ?h ?b" using sub by (auto simp: attached_def)
      moreover have "isl r" "w' = t\<lparr>w_fresh := Suc (w_fresh t)\<rparr>"
        using False Some assms(1) h
        by (auto simp: world_send_def fresh_def Let_def send_message_def send_via_def loop_send_def
            simp flip: t_def split: if_splits)
      ultimately show ?thesis using h by auto
    qed
  qed
qed

text \<open>
  One resend: nothing, or the message on the wire and then its event in the store. When nobody
  else acts, it happens exactly if the row can be rebuilt and has somebody to go to.
\<close>

lemma resend_one_cases:
  "\<exists>w1 sent. eng_session_store w1 = eng_session_store w \<and> eng_session_id w1 = eng_session_id w \<and>
     eng_handle w1 = eng_handle w \<and>
     resend_one D p w = (case sent of None \<Rightarrow> w1
       | Some m \<Rightarrow> best_effort (so_record_event (d_store D) (eng_session_id w) (resend_event p (w_now w1))) w1) \<and>
     (\<exists>others. bus_wire (w_bus w1) = bus_wire (w_bus w) @ others @ (case sent of None \<Rightarrow> [] | Some m \<Rightarrow> [m]) \<and>
       (w_script w = [] \<longrightarrow> others = [])) \<and>
     (\<forall>m. sent = Some m \<longrightarrow> repeats (d_uuid D) (nh_node_id (eng_handle w)) p m) \<and>
     (w_script w = [] \<longrightarrow> w_script w1 = [] \<and> bus_nodes (w_bus w1) = bus_nodes (w_bus w) \<and>
        bus_bid (w_bus w1) = bus_bid (w_bus w) \<and> bus_running (w_bus w1) = bus_running (w_bus w) \<and>
        (attached (eng_handle w) (w_bus w) \<longrightarrow>
           (sent \<noteq> None \<longleftrightarrow> rebuildable (d_uuid D) p \<and> reachable_on (w_bus w) p)))"
proof -
  obtain i w1 where f: "fresh w = (i, w1)" by (metis surj_pair)
  then have w1: "eng_session_store w1 = eng_session_store w" "eng_session_id w1 = eng_session_id w"
    "eng_handle w1 = eng_handle w" "w_bus w1 = w_bus w" "w_script w1 = w_script w"
    by (auto simp: fresh_def)
  show ?thesis
  proof (cases "reconstruct_message (d_uuid D) i (w_now w1) p (eng_agent_id w1)")
    case (Inl e)
    then have "\<not> rebuildable (d_uuid D) p" by (metis rebuildable_iff sum.distinct(1))
    with Inl w1 show ?thesis
      by (intro exI [of _ w1] exI [of _ None]) (simp add: resend_one_def f)
  next
    case (Inr m)
    then have reb: "rebuildable (d_uuid D) p" by (metis rebuildable_iff)
    from reconstruct_shape [OF Inr] have m: "msg_type m = po_msg_type p" "msg_to m = map NodeId (po_target_nodes p)"
      by (metis Message_new_def message.select_convs(2), metis Message_new_def message.select_convs(4))
    obtain r w2 where s: "world_send m w1 = (r, w2)" by (metis surj_pair)
    have keep: "eng_session_store w2 = eng_session_store w" "eng_session_id w2 = eng_session_id w"
      using world_send_keeps [of m w1] w1 by (simp_all add: s)
    note eff = world_send_effect [OF s]
    from eff obtain i' where wire: "bus_wire (w_bus w2) = bus_wire (w_bus (tick w1)) @
        (if \<not> isl r then [Message_with_from_bus i' (w_now (tick w1)) (msg_type m) (nh_node_id (eng_handle w1))
           (msg_to m) (msg_payload m) (nh_primary_bus_id (eng_handle w1))] else [])" by blast
    define sent where "sent = (if \<not> isl r then Some (Message_with_from_bus i' (w_now (tick w1)) (msg_type m)
       (nh_node_id (eng_handle w1)) (msg_to m) (msg_payload m) (nh_primary_bus_id (eng_handle w1))) else None)"
    from tick_wire [of w1] obtain others where o: "bus_wire (w_bus (tick w1)) = bus_wire (w_bus w) @ others"
      by (auto simp: prefix_def w1(4))
    have idle: "tick w1 = w1" if "w_script w = []" using that w1(5) by (simp add: tick_def)
    have "\<exists>others. bus_wire (w_bus w2) = bus_wire (w_bus w) @ others @ (case sent of None \<Rightarrow> [] | Some m \<Rightarrow> [m]) \<and>
        (w_script w = [] \<longrightarrow> others = [])"
      using wire o idle w1(4) by (intro exI [of _ others]) (auto simp: sent_def)
    moreover have "repeats (d_uuid D) (nh_node_id (eng_handle w)) p m'" if "sent = Some m'" for m'
      using that m Inr reconstruct_shape [OF Inr] w1(3)
      by (auto simp: sent_def repeats_def message_defs split: if_splits)
        (metis Message_new_def)
    moreover have "w_script w2 = [] \<and> bus_nodes (w_bus w2) = bus_nodes (w_bus w) \<and>
        bus_bid (w_bus w2) = bus_bid (w_bus w) \<and> bus_running (w_bus w2) = bus_running (w_bus w) \<and>
        (attached (eng_handle w) (w_bus w) \<longrightarrow>
           (sent \<noteq> None \<longleftrightarrow> rebuildable (d_uuid D) p \<and> reachable_on (w_bus w) p))" if "w_script w = []"
      using eff idle [OF that] that w1 m reb
      by (auto simp: sent_def reachable_on_def split: if_splits)
    moreover have "resend_one D p w = (case sent of None \<Rightarrow> w2
       | Some m \<Rightarrow> best_effort (so_record_event (d_store D) (eng_session_id w) (resend_event p (w_now w2))) w2)"
      using keep by (auto simp: resend_one_def f Inr s sent_def resend_event_def split: sum.splits)
    ultimately show ?thesis
      using keep eff w1(3) by (intro exI [of _ w2] exI [of _ sent]) simp
  qed
qed

text \<open>What was resent: the row, the message on the wire, and the time of the event.\<close>

type_synonym resent = "pending_outbound \<times> message \<times> millis"

abbreviation resent_events :: "resent list \<Rightarrow> event list" where
  "resent_events xs \<equiv> map (\<lambda>(p, m, t). resend_event p t) xs"

abbreviation resent_rows :: "resent list \<Rightarrow> pending_outbound list" where
  "resent_rows xs \<equiv> map fst xs"

abbreviation resent_messages :: "resent list \<Rightarrow> message list" where
  "resent_messages xs \<equiv> map (\<lambda>(p, m, t). m) xs"

context session_store
begin

lemma resend_one_log:
  assumes "d_store D = S" and "eng_session_store w = Some st" and "ready st"
  shows "\<exists>st' xs. eng_session_store (resend_one D p w) = Some st' \<and> ready st' \<and>
    eng_session_id (resend_one D p w) = eng_session_id w \<and> eng_handle (resend_one D p w) = eng_handle w \<and>
    olog (eng_session_id w) st' = olog (eng_session_id w) st @ resent_events xs \<and>
    (xs = [] \<or> (\<exists>m t. xs = [(p, m, t)] \<and> repeats (d_uuid D) (nh_node_id (eng_handle w)) p m)) \<and>
    (\<exists>others. bus_wire (w_bus (resend_one D p w)) = bus_wire (w_bus w) @ others @ resent_messages xs \<and>
       (w_script w = [] \<longrightarrow> others = [])) \<and>
    (w_script w = [] \<longrightarrow> w_script (resend_one D p w) = [] \<and>
       bus_nodes (w_bus (resend_one D p w)) = bus_nodes (w_bus w) \<and>
       bus_bid (w_bus (resend_one D p w)) = bus_bid (w_bus w) \<and>
       bus_running (w_bus (resend_one D p w)) = bus_running (w_bus w) \<and>
       (attached (eng_handle w) (w_bus w) \<longrightarrow>
          (xs \<noteq> [] \<longleftrightarrow> rebuildable (d_uuid D) p \<and> reachable_on (w_bus w) p)))"
proof -
  from resend_one_cases [of w D p] obtain w1 sent where
    w1: "eng_session_store w1 = Some st" "eng_session_id w1 = eng_session_id w" "eng_handle w1 = eng_handle w"
    and r: "resend_one D p w = (case sent of None \<Rightarrow> w1 | Some m \<Rightarrow>
      best_effort (so_record_event S (eng_session_id w) (resend_event p (w_now w1))) w1)"
    and rest: "\<exists>others. bus_wire (w_bus w1) = bus_wire (w_bus w) @ others @ (case sent of None \<Rightarrow> [] | Some m \<Rightarrow> [m]) \<and>
        (w_script w = [] \<longrightarrow> others = [])"
      "\<forall>m. sent = Some m \<longrightarrow> repeats (d_uuid D) (nh_node_id (eng_handle w)) p m"
      "w_script w = [] \<longrightarrow> w_script w1 = [] \<and> bus_nodes (w_bus w1) = bus_nodes (w_bus w) \<and>
        bus_bid (w_bus w1) = bus_bid (w_bus w) \<and> bus_running (w_bus w1) = bus_running (w_bus w) \<and>
        (attached (eng_handle w) (w_bus w) \<longrightarrow>
           (sent \<noteq> None \<longleftrightarrow> rebuildable (d_uuid D) p \<and> reachable_on (w_bus w) p))"
    using assms(1,2) by metis
  show ?thesis
  proof (cases sent)
    case None
    with w1 assms(3) rest r show ?thesis by (intro exI [of _ st] exI [of _ "[]"]) simp
  next
    case (Some m)
    let ?ev = "resend_event p (w_now w1)"
    obtain res st' where s: "so_record_event S (eng_session_id w) ?ev st = (res, st')" by (metis surj_pair)
    have log: "olog (eng_session_id w) st' = olog (eng_session_id w) st @ [?ev]"
      using record_log [OF assms(3) s, of "eng_session_id w"] by (simp add: resend_event_def)
    have e: "resend_one D p w = w1\<lparr>eng_session_store := Some st'\<rparr>"
      unfolding r Some using w1(1) s by (simp add: best_effort_def with_store_def)
    show ?thesis
      unfolding e using w1 rest record_ready [OF assms(3) s] log Some
      by (intro exI [of _ st'] exI [of _ "[(p, m, w_now w1)]"]) simp
  qed
qed

lemma resend_all_log:
  assumes "d_store D = S" and "eng_session_store w = Some st" and "ready st"
  shows "\<exists>st' xs. eng_session_store (fold (resend_one D) ps w) = Some st' \<and> ready st' \<and>
    eng_session_id (fold (resend_one D) ps w) = eng_session_id w \<and>
    olog (eng_session_id w) st' = olog (eng_session_id w) st @ resent_events xs \<and>
    subseq (resent_rows xs) ps \<and> (\<forall>(p, m, t) \<in> set xs. repeats (d_uuid D) (nh_node_id (eng_handle w)) p m) \<and>
    (\<exists>added. bus_wire (w_bus (fold (resend_one D) ps w)) = bus_wire (w_bus w) @ added \<and>
       subseq (resent_messages xs) added \<and> (w_script w = [] \<longrightarrow> added = resent_messages xs)) \<and>
    (w_script w = [] \<and> attached (eng_handle w) (w_bus w) \<longrightarrow>
       resent_rows xs = filter (\<lambda>p. rebuildable (d_uuid D) p \<and> reachable_on (w_bus w) p) ps)"
  using assms(2,3)
proof (induction ps arbitrary: w st)
  case Nil
  then show ?case by (intro exI [of _ st] exI [of _ "[]"]) simp
next
  case (Cons p ps)
  let ?w = "resend_one D p w" and ?sid = "eng_session_id w" and ?n = "nh_node_id (eng_handle w)"
  from resend_one_log [OF assms(1) Cons.prems, of p] obtain st1 xs1 others where
    w1: "eng_session_store ?w = Some st1" "ready st1" "eng_session_id ?w = ?sid" "eng_handle ?w = eng_handle w"
    "olog ?sid st1 = olog ?sid st @ resent_events xs1"
    and xs1: "xs1 = [] \<or> (\<exists>m t. xs1 = [(p, m, t)] \<and> repeats (d_uuid D) ?n p m)"
    and wire1: "bus_wire (w_bus ?w) = bus_wire (w_bus w) @ others @ resent_messages xs1"
      "w_script w = [] \<longrightarrow> others = []"
    and calm1: "w_script w = [] \<longrightarrow> w_script ?w = [] \<and> bus_nodes (w_bus ?w) = bus_nodes (w_bus w) \<and>
       bus_bid (w_bus ?w) = bus_bid (w_bus w) \<and> bus_running (w_bus ?w) = bus_running (w_bus w) \<and>
       (attached (eng_handle w) (w_bus w) \<longrightarrow>
          (xs1 \<noteq> [] \<longleftrightarrow> rebuildable (d_uuid D) p \<and> reachable_on (w_bus w) p))"
    by blast
  from Cons.IH [OF w1(1,2)] w1(3,4) obtain st' xs added where
    st': "eng_session_store (fold (resend_one D) ps ?w) = Some st'" "ready st'"
    "eng_session_id (fold (resend_one D) ps ?w) = ?sid"
    "olog ?sid st' = olog ?sid st1 @ resent_events xs" "subseq (resent_rows xs) ps"
    "\<forall>(p, m, t) \<in> set xs. repeats (d_uuid D) ?n p m"
    and wire: "bus_wire (w_bus (fold (resend_one D) ps ?w)) = bus_wire (w_bus ?w) @ added"
      "subseq (resent_messages xs) added" "w_script ?w = [] \<longrightarrow> added = resent_messages xs"
    and calm: "w_script ?w = [] \<and> attached (eng_handle w) (w_bus ?w) \<longrightarrow>
       resent_rows xs = filter (\<lambda>p. rebuildable (d_uuid D) p \<and> reachable_on (w_bus ?w) p) ps"
    by auto
  have "subseq (resent_rows (xs1 @ xs)) (p # ps)"
    using xs1 st'(5) by (auto intro: subseq_Cons')
  moreover have "\<forall>(p, m, t) \<in> set (xs1 @ xs). repeats (d_uuid D) ?n p m"
    using xs1 st'(6) by auto
  moreover have "subseq (resent_messages (xs1 @ xs)) (others @ resent_messages xs1 @ added)"
    using wire(2) by (simp add: list_emb_append_mono subseq_drop_many)
  moreover have "resent_rows (xs1 @ xs) = filter (\<lambda>p. rebuildable (d_uuid D) p \<and> reachable_on (w_bus w) p) (p # ps)"
    if "w_script w = []" "attached (eng_handle w) (w_bus w)"
  proof -
    have same: "attached (eng_handle w) (w_bus ?w)" "reachable_on (w_bus ?w) = reachable_on (w_bus w)"
      using calm1 that by (auto simp: attached_def reachable_on_def fun_eq_iff)
    show ?thesis using calm calm1 that xs1 by (auto simp: same)
  qed
  ultimately show ?case
    using st' w1(5) wire wire1 calm1
    by (intro exI [of _ st'] exI [of _ "xs1 @ xs"]) auto
qed

end

lemma resend_event_sent [simp]:
  "sent_of (resend_event p t) = Some (p\<lparr>po_attempt := po_attempt p + 1\<rparr>, t)" "reply_of (resend_event p t) = None"
  by (simp_all add: resend_event_def)

lemma sents_resent:
  "sents (resent_events xs) = map (\<lambda>(p, m, t). (p\<lparr>po_attempt := po_attempt p + 1\<rparr>, t)) xs"
  "replied (resent_events xs) = {}"
  by (induction xs) (auto simp: sents_Cons replied_Cons)

lemma pending_row_attempt: "pending_row_ok evs p \<Longrightarrow> po_attempt p = max_attempt evs (po_correlation_id p)"
proof -
  assume "pending_row_ok evs p"
  then obtain q where "p = q\<lparr>po_attempt := max_attempt evs (po_correlation_id p)\<rparr>"
    by (auto simp: pending_row_ok_def)
  then show ?thesis by (metis pending_outbound.select_convs(5) pending_outbound.surjective
      pending_outbound.update_convs(5))
qed

lemma max_attempt_resent:
  assumes sent: "sents_of evs c \<noteq> []"
    and rows: "\<And>p m t. (p, m, t) \<in> set xs \<Longrightarrow> po_attempt p = max_attempt evs (po_correlation_id p)"
  shows "max_attempt (evs @ resent_events xs) c =
    max_attempt evs c + (if c \<in> po_correlation_id ` set (resent_rows xs) then 1 else 0)"
proof -
  let ?A = "set (map (po_attempt \<circ> fst) (sents_of evs c))"
  let ?new = "sents_of (resent_events xs) c"
  have A: "finite ?A" "?A \<noteq> {}" "Max ?A = max_attempt evs c" using sent by (auto simp: max_attempt_def)
  have new: "set (map (po_attempt \<circ> fst) ?new) =
      (if c \<in> po_correlation_id ` set (resent_rows xs) then {max_attempt evs c + 1} else {})"
    using rows by (force simp: sents_of_def sents_resent image_iff)
  have "max_attempt (evs @ resent_events xs) c = Max (?A \<union> set (map (po_attempt \<circ> fst) ?new))"
    by (simp add: max_attempt_def image_Un)
  also have "\<dots> = max_attempt evs c + (if c \<in> po_correlation_id ` set (resent_rows xs) then 1 else 0)"
    unfolding new using A Max_insert [of ?A "max_attempt evs c + 1"] by simp
  finally show ?thesis .
qed

context session_store
begin

lemma resend_contract:
  assumes D: "d_store D = S" and w: "eng_session_store w = Some st" and rdy: "ready st"
    and r: "resend_pending_outbound D w = (r, w')"
  defines "past \<equiv> olog (eng_session_id w) st"
  shows "\<exists>ps st' xs. so_pending_outbound S (eng_session_id w) st = Inr ps \<and> pending_ok past ps \<and>
    r = Ret (length ps) \<and> eng_session_store w' = Some st' \<and> ready st' \<and>
    olog (eng_session_id w) st' = past @ resent_events xs \<and> subseq (resent_rows xs) ps \<and>
    (\<forall>(p, m, t) \<in> set xs. repeats (d_uuid D) (nh_node_id (eng_handle w)) p m) \<and>
    (\<exists>added. bus_wire (w_bus w') = bus_wire (w_bus w) @ added \<and> subseq (resent_messages xs) added \<and>
       (w_script w = [] \<longrightarrow> added = resent_messages xs)) \<and>
    (w_script w = [] \<and> attached (eng_handle w) (w_bus w) \<longrightarrow>
       resent_rows xs = filter (\<lambda>p. rebuildable (d_uuid D) p \<and> reachable_on (w_bus w) p) ps) \<and>
    unreplied (olog (eng_session_id w) st') = unreplied past \<and>
    (\<forall>c \<in> unreplied past. max_attempt (olog (eng_session_id w) st') c =
       max_attempt past c + (if c \<in> po_correlation_id ` set (resent_rows xs) then 1 else 0))"
proof -
  let ?sid = "eng_session_id w"
  from pendingE [OF rdy, of ?sid] obtain ps where ps: "so_pending_outbound S ?sid st = Inr ps"
    "pending_ok past ps" unfolding past_def by blast
  from ps(2) have cids: "po_correlation_id ` set ps = unreplied past"
    and rows: "\<And>p. p \<in> set ps \<Longrightarrow> po_attempt p = max_attempt past (po_correlation_id p)"
    by (auto simp: pending_ok_def list_all_iff pending_row_attempt)
  from resend_all_log [OF D w rdy, of ps] obtain st' xs where
    st': "eng_session_store (fold (resend_one D) ps w) = Some st'" "ready st'"
    and log': "olog ?sid st' = past @ resent_events xs" and sub: "subseq (resent_rows xs) ps"
    and wire: "\<forall>(p, m, t) \<in> set xs. repeats (d_uuid D) (nh_node_id (eng_handle w)) p m"
      "\<exists>added. bus_wire (w_bus (fold (resend_one D) ps w)) = bus_wire (w_bus w) @ added \<and>
         subseq (resent_messages xs) added \<and> (w_script w = [] \<longrightarrow> added = resent_messages xs)"
      "w_script w = [] \<and> attached (eng_handle w) (w_bus w) \<longrightarrow>
         resent_rows xs = filter (\<lambda>p. rebuildable (d_uuid D) p \<and> reachable_on (w_bus w) p) ps"
    unfolding past_def by blast
  have rw: "r = Ret (length ps)" "w' = fold (resend_one D) ps w"
    using r w ps(1) D by (simp_all add: resend_pending_outbound_def)
  have in_ps: "p \<in> set ps" if "(p, m, t) \<in> set xs" for p m t
    using list_emb_set [OF sub, of p] that by force
  have sent: "sents_of past c \<noteq> []" if "c \<in> unreplied past" for c
    using that by (simp add: unreplied_iff)
  have same: "unreplied (past @ resent_events xs) = unreplied past"
  proof (intro set_eqI)
    fix c
    have "c \<in> unreplied past" if "sents_of (resent_events xs) c \<noteq> []"
      using that in_ps cids by (fastforce simp: sents_of_def sents_resent filter_empty_conv)
    then show "c \<in> unreplied (past @ resent_events xs) \<longleftrightarrow> c \<in> unreplied past"
      by (auto simp: unreplied_iff sents_resent)
  qed
  have attempts: "max_attempt (past @ resent_events xs) c =
      max_attempt past c + (if c \<in> po_correlation_id ` set (resent_rows xs) then 1 else 0)"
    if "c \<in> unreplied past" for c
    by (rule max_attempt_resent) (use sent that rows in_ps in auto)
  show ?thesis
    using ps st' log' rw sub wire same attempts
    by (intro exI [of _ ps] exI [of _ st'] exI [of _ xs]) simp
qed

text \<open>A store that has no such session stops a round before it starts.\<close>

lemma run_needs_session:
  assumes D: "d_store D = S" and w: "eng_session_store w = Some st" and rdy: "ready st"
    and none: "so_load S (eng_session_id w) st = Inr None"
  shows "\<exists>w'. run D input w = (Fail (SessionNotPreSaved (eng_session_id w)), w') \<and>
    w_state w' = w_state w \<and> w_bus w' = w_bus w \<and> w_inbound w' = w_inbound w"
proof -
  let ?n = "as_u32 (round_count (w_state w)) + 1"
  obtain res st1 where rec: "so_record_event S (eng_session_id w) (RoundStart (Suc (as_u32 (round_count (w_state w)))) (w_now w)) st = (res, st1)"
    by (metis surj_pair)
  have "so_load S (eng_session_id w) st1 = Inr None"
    using record_load [OF rdy rec] none by simp
  moreover have "maybe_record_round_start D ?n w = w\<lparr>eng_session_store := Some st1\<rparr>"
    by (simp add: maybe_record_round_start_def best_effort_def w with_store_def record_round_start_def
        D rec)
  ultimately have "run_inner D input (maybe_record_round_start D ?n w) =
      (Fail (SessionNotPreSaved (eng_session_id w)), w\<lparr>eng_session_store := Some st1\<rparr>)"
    by (simp add: run_inner_def check_pre_saved_def so_exists_def D)
  then show ?thesis
    by (simp add: run_def Let_def maybe_record_round_end_def)
qed

end

subsection \<open>Recovery\<close>

text \<open>
  C32: what a restarted engine does to a SQLite outbox \<open>ps\<close>, the rows of all messages never
  replied to. The recovery returns the number of rows. Some of the rows, in their order, are
  resent: a message with the row's type, targets and payload, sent by the engine, goes on the
  wire, and exactly these rows have an event with the next attempt added to the log, which
  changes in no other way. So no message is resent unrecorded and none is recorded that was
  not resent. The pending correlation ids stay the same, and the highest attempt grows by
  one for the resent rows only. Whatever the other nodes do in the meantime, that holds;
  when they do nothing and the engine is attached to a running bus, the resent rows are all
  those that can be rebuilt (a peer message or a handoff to a human with the fields it needs)
  and have a target that is online, and nothing else reaches the wire.
\<close>

theorem recovery_keeps_outbox:
  assumes "d_store D = sqlite_ops pick" and "eng_session_store w = Some db" and "sqlite_ready db"
    and "resend_pending_outbound D w = (r, w')"
  defines "past \<equiv> sqlite_log (eng_session_id w) db"
  shows "\<exists>ps db' xs. sqlite_pending_outbound pick (eng_session_id w) db = Inr ps \<and> pending_ok past ps \<and>
    r = Ret (length ps) \<and> eng_session_store w' = Some db' \<and> sqlite_ready db' \<and>
    sqlite_log (eng_session_id w) db' = past @ resent_events xs \<and> subseq (resent_rows xs) ps \<and>
    (\<forall>(p, m, t) \<in> set xs. repeats (d_uuid D) (nh_node_id (eng_handle w)) p m) \<and>
    (\<exists>added. bus_wire (w_bus w') = bus_wire (w_bus w) @ added \<and> subseq (resent_messages xs) added \<and>
       (w_script w = [] \<longrightarrow> added = resent_messages xs)) \<and>
    (w_script w = [] \<and> attached (eng_handle w) (w_bus w) \<longrightarrow>
       resent_rows xs = filter (\<lambda>p. rebuildable (d_uuid D) p \<and> reachable_on (w_bus w) p) ps) \<and>
    unreplied (sqlite_log (eng_session_id w) db') = unreplied past \<and>
    (\<forall>c \<in> unreplied past. max_attempt (sqlite_log (eng_session_id w) db') c =
       max_attempt past c + (if c \<in> po_correlation_id ` set (resent_rows xs) then 1 else 0))"
proof -
  have "so_pending_outbound (sqlite_ops pick) = sqlite_pending_outbound pick" by (simp add: sqlite_ops_def)
  with sqlite.resend_contract [OF assms(1-4)] show ?thesis unfolding past_def by simp
qed

definition sql_deps :: "(sqlite, nat \<times> uuid list) deps" where
  "sql_deps = \<lparr>d_uuid = unary_uuid, d_store = sqlite_ops length, d_lru = list_lru, d_show_nat = (\<lambda>_. [])\<rparr>"

definition sql_world :: "sqlite \<Rightarrow> (sqlite, nat \<times> uuid list) world" where
  "sql_world db =
     \<lparr>eng_config = AgentConfig_default, eng_agent_id = NodeId ''e'',
      eng_handle = \<lparr>nh_info = demo_node ''e'', nh_primary_bus_id = BusId 0,
                    nh_subscriptions = [new_subscription demo_net demo_filter]\<rparr>,
      eng_discovery_cache = [], eng_registry = demo_reg, eng_handlers = [],
      eng_session_store = Some db, eng_session_id = ''s'', eng_inbound_dedup = (8, []),
      eng_ephemeral = False, w_state = State_new, w_bus = demo_net, w_inbound = [],
      w_closed = False, w_cancelled = False, w_now = 60, w_fresh = 0, w_may_block = False,
      w_script = []\<rparr>"

text \<open>A peer message to the tool server, which is online, and a question to a human, who is not.\<close>

definition crashed_log :: "(string \<times> event) list" where
  "crashed_log =
     [(''s'', OutboundSent ''peer_message'' 1 1 [''fs'']
         (JObj [(''from_session'', JStr ''a''), (''to_session'', JStr ''b''), (''content'', JStr ''hi'')]) 10),
      (''s'', OutboundSent ''human_handoff'' 2 1 [''ui''] (JObj [(''question'', JStr ''ok?'')]) 20)]"

lemma demo_net_online: "keys (bus_nodes demo_net) = [NodeId ''m'', NodeId ''fs'']" "bus_running demo_net"
  by (simp_all add: demo_net_def handle_connect_def demo_node_def Bus_new_def contains_key_def broadcast_def Let_def)

lemma crashed_outbox: "outbox_of ''s'' crashed_log = map snd crashed_log"
  "unreplied (map snd crashed_log) = {1, 2}"
  "max_attempt (map snd crashed_log) 1 = 1" "max_attempt (map snd crashed_log) 2 = 1"
  by (auto simp: outbox_of_def crashed_log_def unreplied_def sents_Cons replied_Cons max_attempt_def sents_of_def)

definition crashed_row :: "string \<Rightarrow> uuid \<Rightarrow> string \<Rightarrow> (string \<times> json) list \<Rightarrow> pending_outbound" where
  "crashed_row ty c n kvs =
     \<lparr>po_msg_type = ty, po_correlation_id = c, po_target_nodes = [n], po_payload = JObj kvs, po_attempt = 1\<rparr>"

lemma crashed_row_cases:
  assumes "pending_row_ok (map snd crashed_log) p"
  shows "p = crashed_row ''peer_message'' 1 ''fs''
       [(''from_session'', JStr ''a''), (''to_session'', JStr ''b''), (''content'', JStr ''hi'')] \<or>
     p = crashed_row ''human_handoff'' 2 ''ui'' [(''question'', JStr ''ok?'')]"
proof -
  from assms obtain q t where qt: "(q, t) \<in> set (sents_of (map snd crashed_log) (po_correlation_id p))"
    and p: "p = q\<lparr>po_attempt := max_attempt (map snd crashed_log) (po_correlation_id p)\<rparr>"
    by (auto simp: pending_row_ok_def)
  from qt have "(q, t) \<in> set (sents (map snd crashed_log))" by (simp add: sents_of_def)
  then have "q = crashed_row ''peer_message'' 1 ''fs''
       [(''from_session'', JStr ''a''), (''to_session'', JStr ''b''), (''content'', JStr ''hi'')] \<or>
     q = crashed_row ''human_handoff'' 2 ''ui'' [(''question'', JStr ''ok?'')]"
    by (auto simp: crashed_log_def sents_Cons crashed_row_def)
  with p crashed_outbox(3,4) show ?thesis
    by (metis crashed_row_def pending_outbound.select_convs(2) pending_outbound.update_convs(5))
qed

lemma crashed_rows:
  assumes "pending_ok (map snd crashed_log) ps" and "p \<in> set ps"
  shows "(rebuildable U p \<and> reachable_on demo_net p) = (po_correlation_id p = 1)"
proof -
  from assms have "pending_row_ok (map snd crashed_log) p" by (simp add: pending_ok_def list_all_iff)
  from crashed_row_cases [OF this] show ?thesis
  proof
    assume p: "p = crashed_row ''peer_message'' 1 ''fs''
       [(''from_session'', JStr ''a''), (''to_session'', JStr ''b''), (''content'', JStr ''hi'')]"
    have "rebuildable U p"
      by (simp add: p crashed_row_def rebuildable_def reconstruct_peer_def require_str_def get_str_def)
    moreover have "reachable_on demo_net p"
      unfolding reachable_on_def demo_net_online by (simp add: p crashed_row_def)
    ultimately show ?thesis by (simp add: p crashed_row_def)
  next
    assume p: "p = crashed_row ''human_handoff'' 2 ''ui'' [(''question'', JStr ''ok?'')]"
    have "\<not> reachable_on demo_net p"
      unfolding reachable_on_def demo_net_online by (simp add: p crashed_row_def)
    then show ?thesis by (simp add: p crashed_row_def)
  qed
qed

theorem recovery_keeps_outbox_witness:
  "\<exists>w' db' m. resend_pending_outbound sql_deps (sql_world (record_all (sqlite_ops length) crashed_log init_schema))
     = (Ret 2, w') \<and> eng_session_store w' = Some db' \<and>
     bus_wire (w_bus w') = bus_wire demo_net @ [m] \<and> msg_type m = ''peer_message'' \<and> msg_to m = [NodeId ''fs''] \<and>
     unreplied (sqlite_log ''s'' db') = {1, 2} \<and>
     max_attempt (sqlite_log ''s'' db') 1 = 2 \<and> max_attempt (sqlite_log ''s'' db') 2 = 1"
proof -
  let ?db = "record_all (sqlite_ops length) crashed_log init_schema" and ?past = "map snd crashed_log"
  let ?w = "sql_world ?db"
  have r0: "sqlite_ready init_schema" "sqlite_log ''s'' init_schema = []"
    by (simp_all add: sqlite_ready_def init_schema_def rows_ok_def sqlite_log_def)
  have db: "sqlite_ready ?db" "sqlite_log ''s'' ?db = ?past"
    using sqlite.record_all_ready [OF r0(1), of length crashed_log "''s''"] r0(2) crashed_outbox by simp_all
  obtain r w' where e: "resend_pending_outbound sql_deps ?w = (r, w')" by (metis surj_pair)
  have h: "d_store sql_deps = sqlite_ops length" "eng_session_store ?w = Some ?db"
    and sid: "eng_session_id ?w = ''s''" and net: "w_bus ?w = demo_net" "w_script ?w = []"
    by (simp_all add: sql_deps_def sql_world_def)
  have at: "attached (eng_handle ?w) demo_net"
    by (simp add: attached_def sql_world_def new_subscription_def demo_net_online)
  from recovery_keeps_outbox [OF h db(1) e] obtain ps db' xs where
    ps: "pending_ok ?past ps" "r = Ret (length ps)" and db': "eng_session_store w' = Some db'"
    and rep: "\<forall>(p, m, t) \<in> set xs. repeats (d_uuid sql_deps) (nh_node_id (eng_handle ?w)) p m"
    and wire: "bus_wire (w_bus w') = bus_wire demo_net @ resent_messages xs"
    and rows: "resent_rows xs = filter (\<lambda>p. rebuildable (d_uuid sql_deps) p \<and> reachable_on demo_net p) ps"
    and after: "unreplied (sqlite_log ''s'' db') = unreplied ?past"
      "\<forall>c \<in> unreplied ?past. max_attempt (sqlite_log ''s'' db') c =
         max_attempt ?past c + (if c \<in> po_correlation_id ` set (resent_rows xs) then 1 else 0)"
    unfolding sid db(2) net using at by (elim exE conjE) simp
  have ids: "distinct (map po_correlation_id ps)" "po_correlation_id ` set ps = {1, 2}"
    using ps(1) crashed_outbox(2) by (auto simp: pending_ok_def)
  then have n: "length ps = 2"
    using distinct_card [of "map po_correlation_id ps"] by simp
  have "resent_rows xs = filter (\<lambda>p. po_correlation_id p = 1) ps"
    unfolding rows using crashed_rows [OF ps(1)] by (intro filter_cong) auto
  moreover have "length (filter (\<lambda>p. po_correlation_id p = 1) ps) = 1"
    using ids distinct_length_filter [of "map po_correlation_id ps" "\<lambda>c. c = 1"]
    by (simp add: filter_map o_def)
  ultimately obtain p where p': "resent_rows xs = [p]" "filter (\<lambda>p. po_correlation_id p = 1) ps = [p]"
    by (auto simp: length_Suc_conv)
  from p'(2) have "p \<in> {p \<in> set ps. po_correlation_id p = 1}"
    by (metis list.set_intros(1) set_filter)
  with p' have p: "resent_rows xs = [p]" "po_correlation_id p = 1" "p \<in> set ps" by auto
  then obtain m t where xs: "xs = [(p, m, t)]" by auto
  have "pending_row_ok ?past p" using ps(1) p(3) by (simp add: pending_ok_def list_all_iff)
  then have "po_msg_type p = ''peer_message''" "po_target_nodes p = [''fs'']"
    using p(2) by (auto simp: crashed_row_def dest: crashed_row_cases)
  with rep xs have "msg_type m = ''peer_message''" "msg_to m = [NodeId ''fs'']"
    by (auto simp: repeats_def)
  with e ps(2) db' wire xs after crashed_outbox p n show ?thesis by auto
qed

text \<open>
  An engine with a session store refuses to run a session that was never saved. It
  reports \<^verbatim>\<open>SessionNotPreSaved\<close>, and neither the state, nor the bus, nor the inbox has changed.
\<close>

theorem unsaved_session_not_run:
  assumes "d_store D = sqlite_ops pick" and "eng_session_store w = Some db" and "sqlite_ready db"
    and "sqlite_load (eng_session_id w) db = Inr None"
  shows "\<exists>w'. run D input w = (Fail (SessionNotPreSaved (eng_session_id w)), w') \<and>
    w_state w' = w_state w \<and> w_bus w' = w_bus w \<and> w_inbound w' = w_inbound w"
  by (rule sqlite.run_needs_session [OF assms(1-3)]) (use assms(4) in \<open>simp add: sqlite_ops_def\<close>)

theorem unsaved_session_not_run_witness:
  "\<exists>w'. run sql_deps ''hi'' (sql_world init_schema) = (Fail (SessionNotPreSaved ''s''), w')"
proof -
  have "d_store sql_deps = sqlite_ops length" "eng_session_store (sql_world init_schema) = Some init_schema"
    "sqlite_ready init_schema" "sqlite_load (eng_session_id (sql_world init_schema)) init_schema = Inr None"
    by (simp_all add: sql_deps_def sql_world_def sqlite_ready_def init_schema_def rows_ok_def
        sqlite_load_def find_row_def)
  from unsaved_session_not_run [OF this, of "''hi''"] show ?thesis by (auto simp: sql_world_def)
qed

subsection \<open>Recording before sending\<close>

text \<open>
  Nothing goes out that is not in the outbox. When the store refuses the event of an
  outgoing message, a command, a handoff to a human and a query all fail with the store's
  error and the bus is what it was; a command and a handoff have changed nothing but the
  store. A query leaves its wait event registered.
\<close>

theorem unrecorded_never_sent:
  assumes st: "eng_session_store w = Some st"
    and refuse: "\<And>ev. fst (so_record_event (d_store D) (eng_session_id w) ev st) = Inl e"
  defines "failure \<equiv> SnapshotFailed (eng_session_id w) (''record_event: '' @ session_error_display e)"
  shows "fst (publish_only_command D m to w) = Fail failure \<and>
     w_bus (snd (publish_only_command D m to w)) = w_bus w \<and>
     w_state (snd (publish_only_command D m to w)) = w_state w \<and>
     fst (handoff_to_human D q ctx opts w) = Fail failure \<and>
     w_bus (snd (handoff_to_human D q ctx opts w)) = w_bus w \<and>
     w_state (snd (handoff_to_human D q ctx opts w)) = w_state w \<and>
     (if w_cancelled (tick w) then fst (publish_and_await_query D m to strategy w) = Fail Stopped
      else fst (publish_and_await_query D m to strategy w) = Fail failure) \<and>
     w_bus (snd (publish_and_await_query D m to strategy w)) = w_bus (tick w)"
proof -
  have rec: "\<exists>w1. maybe_record_outbound D m' to' w' = (Fail failure, w1) \<and> w_bus w1 = w_bus w' \<and>
      w_state w1 = w_state w'"
    if "eng_session_store w' = Some st" "eng_session_id w' = eng_session_id w" for m' to' w'
  proof -
    obtain st' where "so_record_event (d_store D) (eng_session_id w)
        (OutboundSent (am_msg_type m') (am_correlation_id m') 1 (map as_string to')
          (am_payload (d_uuid D) m') (w_now w')) st = (Inl e, st')"
      using refuse by (metis prod.collapse)
    with that show ?thesis by (simp add: maybe_record_outbound_def with_store_def failure_def)
  qed
  obtain eid w2 where reg: "register_wait (am_correlation_id m) strategy (max (length to) 1) (tick w) = (eid, w2)"
    by (metis surj_pair)
  then have w2: "eng_session_store w2 = Some st" "eng_session_id w2 = eng_session_id w" "w_bus w2 = w_bus (tick w)"
    using st by (auto simp: register_wait_def Let_def fresh_def upd_state_def)
  obtain w3 where c: "maybe_record_outbound D m to w = (Fail failure, w3)" "w_bus w3 = w_bus w"
    "w_state w3 = w_state w" using rec [OF st refl] by blast
  obtain w4 where qw: "maybe_record_outbound D m to w2 = (Fail failure, w4)" "w_bus w4 = w_bus (tick w)"
    using rec [OF w2(1,2), of m to] w2(3) by auto
  let ?h = "AHumanHandoff \<lparr>hh_correlation_id = w_fresh w, hh_question = q, hh_context = ctx, hh_options = opts\<rparr>"
  let ?wh = "w\<lparr>w_cancelled := False, w_fresh := Suc (w_fresh w)\<rparr>"
  obtain w5 where h: "maybe_record_outbound D ?h [NodeId ''ui''] ?wh = (Fail failure, w5)" "w_bus w5 = w_bus w"
    "w_state w5 = w_state w" using rec [of ?wh ?h "[NodeId ''ui'']"] st by auto
  show ?thesis
    using c qw h reg
    by (simp add: publish_only_command_def handoff_to_human_def publish_and_await_query_def is_cancelled_def
        Let_def fresh_def)
qed

theorem unrecorded_never_sent_witness:
  "fst (publish_only_command sql_deps (AHumanHandoff (HumanHandoff_new 1 ''ok?'')) [NodeId ''m'']
     (sql_world (init_schema\<lparr>db_working := False\<rparr>))) =
   Fail (SnapshotFailed ''s'' (''record_event: '' @ session_error_display sqlite_error))"
proof -
  let ?w = "sql_world (init_schema\<lparr>db_working := False\<rparr>)"
  have st: "eng_session_store ?w = Some (init_schema\<lparr>db_working := False\<rparr>)" by (simp add: sql_world_def)
  have "fst (so_record_event (d_store sql_deps) (eng_session_id ?w) ev (init_schema\<lparr>db_working := False\<rparr>))
      = Inl sqlite_error" for ev
    by (simp add: sql_deps_def sqlite_ops_def sqlite_record_event_def)
  from unrecorded_never_sent [OF st this] show ?thesis by (simp add: sql_world_def)
qed

subsection \<open>Replies are handled once\<close>

text \<open>
  A reply is taken at most once. After a reply has passed, another message with the same
  correlation id is dropped as long as the cache still holds it, and dropping touches
  nothing: no event is recorded and no handler runs.
\<close>

theorem duplicate_reply_dropped:
  assumes "lru_ok (d_lru D)" and "correlation_id (d_uuid D) m = Some cid"
    and "correlation_id (d_uuid D) m' = Some cid"
    and "maybe_record_inbound_reply D m w = (decision, w1)"
  shows "maybe_record_inbound_reply D m' w1 = (Drop, w1)"
proof -
  obtain dup c where cr: "check_and_record (d_lru D) cid (eng_inbound_dedup w) = (dup, c)" by (metis surj_pair)
  have "lru_contains (d_lru D) c cid"
    using cr assms(1) by (auto simp: check_and_record_def lru_ok_def split: if_splits)
  moreover have "eng_inbound_dedup w1 = c"
    using assms(2,4) cr
    by (auto simp: maybe_record_inbound_reply_def Let_def best_effort_def with_store_def
        split: if_splits option.splits prod.splits)
  ultimately show ?thesis
    using assms(3) by (simp add: maybe_record_inbound_reply_def check_and_record_def Let_def)
qed

theorem duplicate_reply_dropped_witness:
  "maybe_record_inbound_reply demo_deps (demo_reply PEER_REPLY 7 [])
     (snd (maybe_record_inbound_reply demo_deps (demo_reply PEER_REPLY 7 []) demo_start)) =
   (Drop, snd (maybe_record_inbound_reply demo_deps (demo_reply PEER_REPLY 7 []) demo_start))"
proof -
  have "lru_ok (d_lru demo_deps)" "correlation_id (d_uuid demo_deps) (demo_reply PEER_REPLY 7 []) = Some 7"
    by (simp_all add: demo_deps_def list_lru_ok)
  from duplicate_reply_dropped [OF this(1,2,2) prod.collapse [symmetric]] show ?thesis .
qed

end
