(* ===== verification/Builder_Props.thy ===== *)
theory Builder_Props
  imports Engine_Props Registry_Props
begin

text \<open>
  What the builder guarantees of an engine and what the engine hears: the validation of a
  configuration, the message types of the subscription, the evaluation of checkpoint rules,
  and the tools that policy keeps off the bus.
\<close>

subsection \<open>Validation\<close>

definition strict_ok :: "(node_id \<times> node_info) list \<Rightarrow> string \<times> route \<Rightarrow> bool" where
  "strict_ok merged r =
     (case snd r of Strict ids \<Rightarrow> list_all (contains_key merged) ids | Discovery c \<Rightarrow> True)"

lemma missing_strict_None: "missing_strict merged routes = None \<longleftrightarrow> list_all (strict_ok merged) routes"
  by (induction merged routes rule: missing_strict.induct)
    (auto simp: strict_ok_def Let_def filter_empty_conv list_all_iff)

lemma duplicate_rule_None:
  "duplicate_rule seen rs = None \<longleftrightarrow> distinct (map cr_name rs) \<and> set (map cr_name rs) \<inter> set seen = {}"
  by (induction seen rs rule: duplicate_rule.induct) auto

lemma merged_fold:
  "contains_key (fold (\<lambda>n acc. if contains_key acc (ni_node_id n) then acc else acc @ [(ni_node_id n, n)]) ns acc) i
     \<longleftrightarrow> contains_key acc i \<or> i \<in> ni_node_id ` set ns"
proof (induction ns arbitrary: acc)
  case (Cons n ns)
  have "contains_key (acc @ [(ni_node_id n, n)]) i \<longleftrightarrow> contains_key acc i \<or> i = ni_node_id n"
    by (auto simp: contains_key_iff)
  with Cons show ?case by auto
qed simp

lemma merged_nodes_keys:
  "contains_key (merged_nodes graphs) i \<longleftrightarrow> (\<exists>g \<in> set graphs. \<exists>n \<in> set (bg_nodes g). ni_node_id n = i)"
  unfolding merged_nodes_def merged_fold by (auto simp: contains_key_iff)

definition known_node :: "bus_graph list \<Rightarrow> node_id \<Rightarrow> bool" where
  "known_node graphs i = list_ex (\<lambda>g. list_ex (\<lambda>n. ni_node_id n = i) (bg_nodes g)) graphs"

definition route_online :: "bus_graph list \<Rightarrow> string \<times> route \<Rightarrow> bool" where
  "route_online graphs r =
     (case snd r of Strict ids \<Rightarrow> list_all (known_node graphs) ids | Discovery c \<Rightarrow> True)"

lemma strict_ok_merged: "strict_ok (merged_nodes graphs) = route_online graphs"
  by (rule ext) (auto simp: strict_ok_def route_online_def known_node_def merged_nodes_keys
      list_all_iff list_ex_iff split: route.splits)

text \<open>
  The builder accepts a configuration exactly when there is a bus, the registry can be
  built from the nodes of all buses, every node of a strict route is online on one of them,
  and the names of the checkpoint rules are distinct; the registry it hands on is that one.
\<close>

theorem validate_sound_complete:
  "validate order config graphs = Inr registry \<longleftrightarrow>
     graphs \<noteq> [] \<and>
     registry_build config \<lparr>bg_nodes = order (map snd (merged_nodes graphs)), bg_message_count = 0,
                            bg_uptime_ms = 0\<rparr> = Inr registry \<and>
     list_all (route_online graphs) (ec_routes (ac_engine config)) \<and>
     distinct (map cr_name (ec_checkpoint_rules (ac_engine config)))"
proof -
  note strict = missing_strict_None [of "merged_nodes graphs", unfolded strict_ok_merged]
  note names = duplicate_rule_None [of "[]", simplified]
  show ?thesis
    using strict [of "ec_routes (ac_engine config)"] names [of "ec_checkpoint_rules (ac_engine config)"]
    by (auto simp: validate_def Let_def split: sum.splits option.splits)
qed

text \<open>
  A build that validation refuses leaves no trace: the engine is not connected, the bus
  and the rest of the world are as they were.
\<close>

theorem refused_build_changes_nothing:
  assumes "validate order config graphs = Inl e"
  shows "build D order eb store graphs config w = (Some (Inl e), w)"
  using assms by (simp add: build_def)

theorem refused_build_changes_nothing_witness:
  "build demo_deps id \<lparr>eb_session_id = None, eb_agent_id = None, eb_auto_subscribe = [], eb_ephemeral = False\<rparr>
     None [] AgentConfig_default demo_start =
   (Some (Inl (MissingNodes [''<no bus provided>''])), demo_start)"
  by (rule refused_build_changes_nothing) (simp add: validate_def)

subsection \<open>What the engine hears\<close>

lemma fold_add_new: "set (fold (\<lambda>t ts. if t \<in> set ts then ts else ts @ [t]) new ts) = set ts \<union> set new"
  by (induction new arbitrary: ts) auto

definition response_types :: "string \<Rightarrow> string list" where
  "response_types ty =
     (case response_msg_type_for ty of
        Some t \<Rightarrow> if t \<noteq> MODEL_RESPONSE \<and> t \<noteq> TOOL_RESULT then [t] else []
      | None \<Rightarrow> [ty @ ''_result''])"

lemma response_types_set:
  "set (response_types ty) \<union> {MODEL_RESPONSE, TOOL_RESULT} = {predicted_response ty, MODEL_RESPONSE, TOOL_RESULT}"
  by (auto simp: response_types_def predicted_response_def split: option.splits)

lemma engine_response_types_set:
  "set (engine_response_types c) =
     {MODEL_RESPONSE, TOOL_RESULT} \<union> predicted_response ` set (keys (ec_routes (ac_engine c)))"
proof -
  have "set (engine_response_types c) =
      {MODEL_RESPONSE, TOOL_RESULT} \<union> (\<Union>ty \<in> set (keys (ec_routes (ac_engine c))). set (response_types ty))"
    unfolding engine_response_types_def response_types_def [symmetric] by (simp add: set_insort_key)
  also have "\<dots> = {MODEL_RESPONSE, TOOL_RESULT} \<union> predicted_response ` set (keys (ec_routes (ac_engine c)))"
    using response_types_set by blast
  finally show ?thesis .
qed

text \<open>
  An engine hears exactly this: messages that are broadcast or directed to it, and whose
  type is \<^verbatim>\<open>model_response\<close>, \<^verbatim>\<open>tool_result\<close>, the response type of a configured route, or one it
  was told to subscribe to. So with the default routes the reply to a permission request or
  to a handoff never reaches it.
\<close>

theorem engine_hears:
  "filter_matches (engine_filter c auto_subscribe) m me \<longleftrightarrow>
     msg_type m \<in> {MODEL_RESPONSE, TOOL_RESULT} \<union> set auto_subscribe \<union>
       predicted_response ` set (keys (ec_routes (ac_engine c))) \<and>
     (msg_to m = [] \<or> me \<in> set (msg_to m))"
proof -
  let ?ts = "fold (\<lambda>t ts. if t \<in> set ts then ts else ts @ [t]) auto_subscribe (engine_response_types c)"
  have s: "set ?ts = {MODEL_RESPONSE, TOOL_RESULT} \<union> predicted_response ` set (keys (ec_routes (ac_engine c)))
      \<union> set auto_subscribe"
    by (simp add: fold_add_new engine_response_types_set)
  then have "?ts \<noteq> []" by (metis Un_insert_left insert_not_empty list.set(1))
  then show ?thesis
    using s by (auto simp: engine_filter_def Let_def filter_matches_def)
qed

lemma predicted_permission: "predicted_response ty = PERMISSION_RESPONSE \<longleftrightarrow> ty = PERMISSION_REQUEST"
proof -
  have "ty @ ''_result'' \<noteq> ''permission_response''"
  proof
    assume "ty @ ''_result'' = ''permission_response''"
    then have "rev (ty @ ''_result'') = rev ''permission_response''" by simp
    then show False by simp
  qed
  then show ?thesis
    by (auto simp: predicted_response_def response_msg_type_for_def msg_type_defs)
qed

text \<open>No message of type \<open>ty\<close> is in the inbox or will be delivered.\<close>

definition never_delivered :: "string \<Rightarrow> ('s, 'c) world \<Rightarrow> bool" where
  "never_delivered ty w \<longleftrightarrow> list_all (\<lambda>m. msg_type m \<noteq> ty) (w_inbound w) \<and>
     list_all (list_all (\<lambda>ev. case ev of EvDeliver m \<Rightarrow> msg_type m \<noteq> ty | _ \<Rightarrow> True)) (w_script w)"

lemma never_delivered_fold:
  "w_inbound (fold env_step evs w) = w_inbound w @ List.map_filter (\<lambda>ev. case ev of EvDeliver m \<Rightarrow> Some m | _ \<Rightarrow> None) evs"
proof (induction evs arbitrary: w)
  case Nil
  then show ?case by (simp add: List.map_filter_simps)
next
  case (Cons ev evs)
  then show ?case by (cases ev) (simp_all add: List.map_filter_simps)
qed

lemma never_delivered_tick: "never_delivered ty w \<Longrightarrow> never_delivered ty (tick w)"
proof (cases "w_script w")
  case (Cons evs rest)
  assume n: "never_delivered ty w"
  have "list_all (\<lambda>m. msg_type m \<noteq> ty) (List.map_filter (\<lambda>ev. case ev of EvDeliver m \<Rightarrow> Some m | _ \<Rightarrow> None) evs)"
    using n Cons by (force simp: never_delivered_def List.map_filter_def list_all_iff split: env_event.splits)
  with n Cons show ?thesis by (simp add: never_delivered_def tick_def never_delivered_fold)
qed (simp add: tick_def)

lemma never_delivered_poll:
  "never_delivered ty w \<Longrightarrow> poll w = (r, w') \<Longrightarrow>
     never_delivered ty w' \<and> (case r of PMsg m \<Rightarrow> msg_type m \<noteq> ty | _ \<Rightarrow> True)"
proof (induction w rule: poll.induct)
  case (1 w)
  show ?case
  proof (cases "w_cancelled w \<or> w_inbound w \<noteq> [] \<or> w_closed w \<or> w_script w = []")
    case True
    with "1.prems" show ?thesis
      by (subst (asm) poll.simps) (auto simp: never_delivered_def split: list.splits if_splits)
  next
    case False
    with "1.prems" have "poll (tick w) = (r, w')" by (subst (asm) poll.simps) simp
    with False 1 never_delivered_tick show ?thesis by blast
  qed
qed

lemma never_delivered_keeps:
  "w_inbound w' = w_inbound w \<Longrightarrow> w_script w' = w_script w \<Longrightarrow> never_delivered ty w' = never_delivered ty w"
  by (simp add: never_delivered_def)

lemma never_delivered_wait_step:
  assumes n: "never_delivered ty w"
  shows "case wait_step D eid [ty] received w of
    Inl (r, w') \<Rightarrow> (\<forall>ms. r \<noteq> Ret ms) | Inr (received', w') \<Rightarrow> never_delivered ty w'"
proof -
  obtain r w1 where p: "poll (tick w) = (r, w1)" by (metis surj_pair)
  from never_delivered_poll [OF never_delivered_tick [OF n] p]
  have w1: "never_delivered ty w1" and r: "case r of PMsg m \<Rightarrow> msg_type m \<noteq> ty | _ \<Rightarrow> True" by auto
  show ?thesis
  proof (cases r)
    case (PMsg m)
    obtain ok w2 where s: "side_message D m w1 = (ok, w2)" by (metis surj_pair)
    have "never_delivered ty w2" using w1 side_message_simps(2,3) [OF s] never_delivered_keeps [of w2 w1] by simp
    moreover have "msg_type m \<noteq> ty" using r PMsg by simp
    ultimately show ?thesis
      using w1 by (cases "find_wait_event eid w1"; cases ok) (simp_all add: wait_step_def p PMsg s)
  qed (use w1 p in \<open>auto simp: wait_step_def\<close>)
qed

lemma never_delivered_wait:
  "never_delivered ty w \<Longrightarrow> fst (wait_for_strategy D eid [ty] received w) \<noteq> Ret ms"
proof (induction D eid "[ty]" received w rule: wait_for_strategy.induct)
  case (1 D eid received w)
  note step = never_delivered_wait_step [OF "1.prems", of D eid received]
  show ?case
  proof (cases "wait_step D eid [ty] received w")
    case (Inl res)
    with step show ?thesis by (subst wait_for_strategy.simps) (auto split: prod.splits)
  next
    case (Inr b)
    then obtain rec' w1 where b: "wait_step D eid [ty] received w = Inr (rec', w1)" by (cases b) auto
    with step "1.hyps" [OF b refl] show ?thesis by (subst wait_for_strategy.simps) simp
  qed
qed

text \<open>
  An engine whose routes do not name \<^verbatim>\<open>permission_request\<close>, as by default, can never be
  granted or refused a permission: whatever messages its filter lets through, now or later,
  a permission prompt never returns an answer.
\<close>

theorem default_prompt_never_answered:
  assumes "PERMISSION_REQUEST \<notin> set (keys (ec_routes (ac_engine config)))"
    and "PERMISSION_RESPONSE \<notin> set auto_subscribe"
    and "list_all (\<lambda>m. filter_matches (engine_filter config auto_subscribe) m me) (w_inbound w)"
    and "list_all (list_all (\<lambda>ev. case ev of
           EvDeliver m \<Rightarrow> filter_matches (engine_filter config auto_subscribe) m me | _ \<Rightarrow> True)) (w_script w)"
  shows "fst (request_permission D tc w) \<noteq> Ret granted"
proof -
  have no: "msg_type m \<noteq> PERMISSION_RESPONSE" if "filter_matches (engine_filter config auto_subscribe) m me" for m
  proof
    assume "msg_type m = PERMISSION_RESPONSE"
    moreover have "PERMISSION_RESPONSE \<notin> predicted_response ` set (keys (ec_routes (ac_engine config)))"
      using assms(1) predicted_permission by (metis imageE)
    moreover have "PERMISSION_RESPONSE \<noteq> MODEL_RESPONSE" "PERMISSION_RESPONSE \<noteq> TOOL_RESULT"
      by (simp_all add: msg_type_defs)
    ultimately show False using that assms(2) unfolding engine_hears by auto
  qed
  with assms(3,4) have n: "never_delivered PERMISSION_RESPONSE w"
    by (auto simp: never_delivered_def list_all_iff split: env_event.splits)
  obtain cid w1 where f1: "fresh w = (cid, w1)" by (metis surj_pair)
  obtain i w2 where f2: "fresh w1 = (i, w2)" by (metis surj_pair)
  obtain eid w3 where reg: "register_wait cid WaitAll (Suc 0) w2 = (eid, w3)" by (metis surj_pair)
  have "never_delivered PERMISSION_RESPONSE w3"
    using n f1 f2 reg by (auto simp: fresh_def register_wait_def Let_def upd_state_def never_delivered_def)
  then have "never_delivered PERMISSION_RESPONSE (snd (world_send m w3))" for m
    using never_delivered_tick [of PERMISSION_RESPONSE w3]
    by (auto simp: world_send_def Let_def fresh_def never_delivered_def split: prod.splits)
  then have sent: "never_delivered PERMISSION_RESPONSE w4" if "send_registered eid m w3 = (Ret u, w4)" for m u w4
    using that by (auto simp: send_registered_def split: prod.splits sum.splits) (metis snd_conv)
  show ?thesis
  proof
    assume "fst (request_permission D tc w) = Ret granted"
    then have "request_permission D tc w = (Ret granted, snd (request_permission D tc w))"
      by (metis prod.collapse)
    then obtain m u w4 ms w5 where "send_registered eid m w3 = (Ret u, w4)"
      "wait_for_strategy D eid [PERMISSION_RESPONSE] [] w4 = (Ret ms, w5)"
      unfolding request_permission_def by (auto simp: f1 f2 reg Let_def bind_out_Ret_iff)
    with sent never_delivered_wait [of PERMISSION_RESPONSE w4 D eid "[]" ms] show False by auto
  qed
qed

theorem default_prompt_never_answered_witness:
  "fst (request_permission demo_deps
     \<lparr>tc_id = ''c1'', tc_name = ''read'', tc_arguments = JObj [], tc_target = None\<rparr> demo_start) \<noteq> Ret True"
proof (rule default_prompt_never_answered [where auto_subscribe = "[]"])
  show "list_all (\<lambda>m. filter_matches (engine_filter AgentConfig_default []) m (NodeId ''e'')) (w_inbound demo_start)"
    unfolding list_all_iff engine_hears
    by (simp add: demo_world_def demo_inbound_def demo_reply_def Message_with_from_bus_def Message_new_def
        AgentConfig_default_def EngineConfig_default_def)
qed (simp_all add: AgentConfig_default_def EngineConfig_default_def demo_world_def)

subsection \<open>Checkpoint rules\<close>

text \<open>The names of the rules that fire at a checkpoint, in the order of the configuration.\<close>

definition fired :: "state \<Rightarrow> checkpoint \<Rightarrow> checkpoint_rule list \<Rightarrow> checkpoint_rule list" where
  "fired s trigger rules = filter (\<lambda>r. cr_trigger r = trigger \<and> fires r s = Some True) rules"

definition routed :: "(string \<times> route) list \<Rightarrow> node_info list \<Rightarrow> checkpoint_msg \<Rightarrow> bool" where
  "routed routes nodes cm =
     (case map_of routes (am_msg_type (cm_msg cm)) of
        None \<Rightarrow> False | Some r \<Rightarrow> cm_recipients cm = resolve_route_pure r nodes)"

lemma evaluate_acc:
  assumes "evaluate s trigger rules routes nodes cache i acc = (Ret cms, cache', i')"
    and "cache_current nodes cache" and "list_all (routed routes nodes) acc"
  shows "cache_current nodes cache' \<and> list_all (routed routes nodes) cms \<and>
    map cm_rule_name cms = map cm_rule_name acc @ map cr_name (fired s trigger rules)"
  using assms
proof (induction s trigger rules routes nodes cache i acc rule: evaluate.induct)
  case (1 s trigger routes nodes cache i acc)
  then show ?case by (simp add: fired_def)
next
  case (2 s trigger rule rules routes nodes cache i acc)
  show ?case
  proof (cases "cr_trigger rule = trigger")
    case False
    with 2 show ?thesis by (simp add: fired_def)
  next
    case True
    note trig = this
    show ?thesis
    proof (cases "fires rule s")
      case None
      with trig "2.prems" show ?thesis by simp
    next
      case (Some b)
      show ?thesis
      proof (cases b)
        case False
        with trig Some 2 show ?thesis by (simp add: fired_def)
      next
        case b: True
        let ?msg = "build_msg rule i s"
        from trig Some b "2.prems"(1) obtain route where rt: "map_of routes (am_msg_type ?msg) = Some route"
          by (auto split: option.splits simp: Let_def)
        obtain ids cache1 where rr: "resolve_route route nodes cache = (ids, cache1)" by (metis surj_pair)
        from resolve_route_current [OF "2.prems"(2) rr]
        have ids: "ids = resolve_route_pure route nodes" and c1: "cache_current nodes cache1" by auto
        let ?cm = "\<lparr>cm_msg = ?msg, cm_recipients = ids, cm_rule_name = cr_name rule\<rparr>"
        have "evaluate s trigger rules routes nodes cache1 (Suc i) (acc @ [?cm]) = (Ret cms, cache', i')"
          using trig Some b rt rr "2.prems"(1) by (simp add: Let_def)
        moreover have "list_all (routed routes nodes) (acc @ [?cm])"
        proof -
          have "routed routes nodes ?cm" using rt ids by (simp add: routed_def)
          with "2.prems"(3) show ?thesis by simp
        qed
        ultimately show ?thesis
          using "2.IH"(2) [OF _ Some _ refl rt refl rr [symmetric]] trig Some b c1
          by (simp add: fired_def)
      qed
    qed
  qed
qed

text \<open>
  A checkpoint sends what its rules say. When the evaluation succeeds, there is one
  message for each rule of this checkpoint whose condition holds, in the order of the
  configuration, each addressed to exactly what its route gives on the current graph; with a
  current cache the cached routes make no difference and stay current.
\<close>

theorem checkpoint_sends_fired_rules:
  assumes "evaluate s trigger rules routes nodes cache i [] = (Ret cms, cache', i')"
    and "cache_current nodes cache"
  shows "map cm_rule_name cms = map cr_name (fired s trigger rules) \<and>
    list_all (routed routes nodes) cms \<and> cache_current nodes cache'"
  using evaluate_acc [OF assms] by simp

definition demo_rule :: checkpoint_rule where
  "demo_rule = CheckpointRule_new ''ask'' RoundEnd (\<lambda>_. Some True)
     (\<lambda>i s. AHumanHandoff (HumanHandoff_new i ''ok?''))"

theorem checkpoint_sends_fired_rules_witness:
  "\<exists>cms. map cm_rule_name cms = [''ask''] \<and>
     list_all (routed [(''human_handoff'', Strict [NodeId ''ui''])] []) cms"
proof -
  let ?cm = "\<lparr>cm_msg = AHumanHandoff (HumanHandoff_new 3 ''ok?''), cm_recipients = [NodeId ''ui''],
             cm_rule_name = ''ask''\<rparr>"
  have e: "evaluate State_new RoundEnd [demo_rule] [(''human_handoff'', Strict [NodeId ''ui''])] [] [] 3 []
    = (Ret [?cm], [], 4)"
    by (simp add: demo_rule_def CheckpointRule_new_def fires_def build_msg_def)
  from checkpoint_sends_fired_rules [OF e cache_current_Nil] show ?thesis
    by (intro exI [of _ "[?cm]"]) simp
qed

subsection \<open>Denied tools\<close>

text \<open>
  A tool call that policy denies stays local. It is answered by one tool message that
  says so and one turn is counted; nothing is put on the bus, no identifier is drawn, no
  message is consumed. A call whose permission prompt was refused goes no further than the
  prompt.
\<close>

theorem denied_tool_stays_local:
  "(if lookup_tool_permission (eng_config w) (tc_name tc) = Deny
    then w_bus (snd (do_tool_turn D tc w)) = w_bus w \<and> w_fresh (snd (do_tool_turn D tc w)) = w_fresh w \<and>
         w_inbound (snd (do_tool_turn D tc w)) = w_inbound w \<and>
         fst (do_tool_turn D tc w) = Ret (denied_result (''tool call denied by policy: '' @ tc_name tc)) \<and>
         st_messages (w_state (snd (do_tool_turn D tc w))) =
           st_messages (w_state w) @ [tool_message tc (''tool call denied by policy: '' @ tc_name tc)] \<and>
         turn_count (w_state (snd (do_tool_turn D tc w))) = turn_count (w_state w) + 1
    else if lookup_tool_permission (eng_config w) (tc_name tc) = Ask \<and>
            fst (request_permission D tc (upd_state inc_turn w)) = Ret False
    then w_bus (snd (do_tool_turn D tc w)) = w_bus (snd (request_permission D tc (upd_state inc_turn w))) \<and>
         fst (do_tool_turn D tc w) = Ret (denied_result (''user denied tool call: '' @ tc_name tc))
    else True)"
proof -
  let ?w = "upd_state inc_turn w"
  have cfg: "eng_config ?w = eng_config w" by (simp add: upd_state_def)
  have deny: "w_bus (snd (deny_tool D tc c y s t n w')) = w_bus w' \<and> w_fresh (snd (deny_tool D tc c y s t n w')) = w_fresh w' \<and>
      w_inbound (snd (deny_tool D tc c y s t n w')) = w_inbound w' \<and>
      fst (deny_tool D tc c y s t n w') = Ret (denied_result c) \<and>
      st_messages (w_state (snd (deny_tool D tc c y s t n w'))) = st_messages (w_state w') @ [tool_message tc c] \<and>
      turn_count (w_state (snd (deny_tool D tc c y s t n w'))) = turn_count (w_state w')"
    for c y s t n and w' :: "('a, 'b) world"
    by (simp add: deny_tool_def Let_def maybe_record_tool_call_def upd_state_def tool_message_def
        ModelMessage_new_def)
  have bind: "bind_out r f = f x (snd r)" if "fst r = Ret x"
    for r :: "(run_error, bool) outcome \<times> ('a, 'b) world" and f and x
    using that by (cases "(r, f)" rule: bind_out.cases) auto
  show ?thesis
  proof (cases "lookup_tool_permission (eng_config w) (tc_name tc)")
    case Deny
    have "st_messages (w_state ?w) = st_messages (w_state w)" "turn_count (w_state ?w) = turn_count (w_state w) + 1"
      "w_bus ?w = w_bus w" "w_fresh ?w = w_fresh w" "w_inbound ?w = w_inbound w"
      by (simp_all add: upd_state_def inc_turn_def)
    with Deny show ?thesis by (simp add: do_tool_turn_def Let_def cfg deny)
  next
    case Ask
    show ?thesis
    proof (cases "fst (request_permission D tc ?w) = Ret False")
      case True
      with Ask show ?thesis by (simp add: do_tool_turn_def Let_def cfg deny bind [OF True])
    qed (use Ask in simp)
  qed simp
qed

end
