(* ===== verification/Mcp_Executor.thy ===== *)
theory Mcp_Executor
  imports Json
begin

text \<open>
  The tool executor of \<^verbatim>\<open>crates/arf-mcp\<close> (\<^verbatim>\<open>types.rs\<close>, \<^verbatim>\<open>executor.rs\<close>): a set of tool calls with
  dependencies is validated, sorted into layers and run layer by layer.

  Tools are code of the application. An invocation either never ends or ends after some
  time with a value, an error or a panic; it is a function of the parameters and of the
  call's id, which stands for everything else an invocation may depend on. The \<^verbatim>\<open>cancel\<close> of a
  tool, awaited when an invocation has exceeded the timeout, returns, never ends or panics.
  The calls of a layer run concurrently and are joined, so what they do is one completion for
  each, in any order. Besides the results the model returns the layers that were started.
  A \<^verbatim>\<open>HashMap\<close> with unobserved order is a partial function, a \<^verbatim>\<open>HashSet\<close> a set.
\<close>

subsection \<open>Calls and results\<close>

record tool_call_item =
  ci_id :: string
  ci_tool :: string
  ci_params :: json
  ci_blocked_by :: "string list"
  ci_blocking :: "string list"

record tool_call_set =
  cs_session_id :: string
  cs_calls :: "tool_call_item list"
  cs_timeout_ms :: "millis option"

record tool_result_item =
  ri_call_id :: string
  ri_name :: string
  ri_status :: string
  ri_result :: json
  ri_error :: "string option"

record tool_result_set =
  rs_session_id :: string
  rs_results :: "tool_result_item list"

datatype tool_outcome = Value json | ToolError string | Unwind "string option"

datatype completion = Never | After millis tool_outcome

datatype cancel_end = CancelReturns | CancelBlocks | CancelPanics

record tool =
  tool_execute :: "string \<Rightarrow> json \<Rightarrow> completion"
  tool_cancel :: "string \<Rightarrow> cancel_end"

text \<open>A tool with the \<^verbatim>\<open>cancel\<close> of the trait, which does nothing.\<close>

definition plain_tool :: "(string \<Rightarrow> json \<Rightarrow> completion) \<Rightarrow> tool" where
  "plain_tool f = \<lparr>tool_execute = f, tool_cancel = (\<lambda>_. CancelReturns)\<rparr>"

abbreviation succeeded :: "tool_result_item \<Rightarrow> bool" where
  "succeeded r \<equiv> ri_status r = ''success''"

definition find_call :: "tool_call_item list \<Rightarrow> string \<Rightarrow> tool_call_item option" where
  "find_call calls i = find (\<lambda>c. ci_id c = i) calls"

definition error_all :: "tool_call_item list \<Rightarrow> string \<Rightarrow> tool_result_item list" where
  "error_all calls message =
     map (\<lambda>c. \<lparr>ri_call_id = ci_id c, ri_name = ci_tool c, ri_status = ''error'', ri_result = JNull,
               ri_error = Some message\<rparr>) calls"

subsection \<open>Validation\<close>

definition lock_error :: "tool_call_item list \<Rightarrow> tool_call_item \<Rightarrow> string \<Rightarrow> string option" where
  "lock_error calls a b_id =
     (case find_call calls b_id of
        None \<Rightarrow> None
      | Some b \<Rightarrow>
          (if ci_id a \<in> set (ci_blocked_by b) then None
           else Some (''inconsistent lock: '' @ quoted (ci_id a) @ '' .blocking includes '' @ quoted b_id
                      @ '' but '' @ quoted b_id @ '' .blocked_by does not include '' @ quoted (ci_id a))))"

definition validate_bidirectional_lock :: "tool_call_item list \<Rightarrow> tool_result_item list option" where
  "validate_bidirectional_lock calls =
     (case concat (map (\<lambda>a. List.map_filter (lock_error calls a) (ci_blocking a)) calls) of
        [] \<Rightarrow> None
      | e # _ \<Rightarrow> Some (error_all calls e))"

fun build_in_degree :: "tool_call_item list \<Rightarrow> (string \<rightharpoonup> nat) \<Rightarrow> string \<rightharpoonup> nat" where
  "build_in_degree [] deg = deg"
| "build_in_degree (c # cs) deg =
     build_in_degree cs
       (deg(ci_id c \<mapsto> (case deg (ci_id c) of None \<Rightarrow> 0 | Some n \<Rightarrow> n) + length (ci_blocked_by c)))"

definition unknown_refs :: "tool_call_item list \<Rightarrow> (string \<times> string) list" where
  "unknown_refs calls =
     concat (map (\<lambda>c. map (\<lambda>d. (ci_id c, d))
                          (filter (\<lambda>d. d \<notin> set (map ci_id calls)) (ci_blocked_by c))) calls)"

text \<open>
  The depth-first search with its recursion stack. \<open>dfs_deps\<close> is the loop over the blockers
  of a node. The sets are threaded through, as the code mutates them.
\<close>

function dfs_cycle ::
  "tool_call_item list \<Rightarrow> string \<Rightarrow> string set \<Rightarrow> string set \<Rightarrow> bool \<times> string set \<times> string set"
  and dfs_deps ::
  "tool_call_item list \<Rightarrow> string list \<Rightarrow> string set \<Rightarrow> string set \<Rightarrow> bool \<times> string set \<times> string set"
  where
  "dfs_cycle calls node visited stack =
     (if node \<in> stack then (True, visited, stack)
      else if node \<in> visited then (False, visited, stack)
      else (case dfs_deps calls (case find_call calls node of None \<Rightarrow> [] | Some c \<Rightarrow> ci_blocked_by c)
                   (insert node visited) (insert node stack) of
              (found, visited', stack') \<Rightarrow>
                (if found then (True, visited', stack') else (False, visited', stack' - {node}))))"
| "dfs_deps calls [] visited stack = (False, visited, stack)"
| "dfs_deps calls (dep # deps) visited stack =
     (case dfs_cycle calls dep visited stack of
        (found, visited', stack') \<Rightarrow>
          (if found then (True, visited', stack') else dfs_deps calls deps visited' stack'))"
  by pat_completeness auto

lemma dfs_visited_grows:
  "dfs_cycle_dfs_deps_dom (Inl (calls, node, visited, stack)) \<Longrightarrow>
     visited \<subseteq> fst (snd (dfs_cycle calls node visited stack))"
  "dfs_cycle_dfs_deps_dom (Inr (calls, deps, visited, stack)) \<Longrightarrow>
     visited \<subseteq> fst (snd (dfs_deps calls deps visited stack))"
proof (induction rule: dfs_cycle_dfs_deps.pinduct)
  case (1 calls node visited stack)
  obtain f v s where d: "dfs_deps calls (case find_call calls node of None \<Rightarrow> [] | Some c \<Rightarrow> ci_blocked_by c)
      (insert node visited) (insert node stack) = (f, v, s)" by (metis prod_cases3)
  from 1(2) d show ?case by (auto simp: dfs_cycle.psimps [OF 1(1)])
next
  case (2 calls visited stack)
  then show ?case by (simp add: dfs_deps.psimps(1))
next
  case (3 calls dep deps visited stack)
  obtain f v s where d: "dfs_cycle calls dep visited stack = (f, v, s)" by (metis prod_cases3)
  from 3(2) d have "visited \<subseteq> v" by simp
  moreover have "\<not> f \<Longrightarrow> v \<subseteq> fst (snd (dfs_deps calls deps v s))" using 3(3) [OF d [symmetric]] by auto
  ultimately show ?case by (simp add: dfs_deps.psimps(2) [OF 3(1)] d) blast
qed

lemma find_call_in: "find_call calls i = Some c \<Longrightarrow> c \<in> set calls \<and> ci_id c = i"
  by (auto simp: find_call_def dest: find_SomeD)

termination dfs_cycle
proof (relation "inv_image (less_than <*lex*> less_than)
    (case_sum (\<lambda>(calls, node, visited, stack). (card (set (map ci_id calls) - visited), 1))
              (\<lambda>(calls, deps, visited, stack). (card (set (map ci_id calls) - visited), 2 * length deps)))",
    goal_cases)
  case 1
  then show ?case by (intro wf_inv_image wf_lex_prod wf_less_than)
next
  case (2 calls node visited stack)
  show ?case
  proof (cases "find_call calls node")
    case None
    then have "node \<notin> set (map ci_id calls)" by (auto simp: find_call_def find_None_set)
    then have "set (map ci_id calls) - insert node visited = set (map ci_id calls) - visited" by blast
    with None show ?thesis by simp
  next
    case (Some c)
    with 2(2) have "node \<in> set (map ci_id calls) - visited" by (auto dest: find_call_in)
    then have "card (set (map ci_id calls) - insert node visited) < card (set (map ci_id calls) - visited)"
      by (intro psubset_card_mono) auto
    then show ?thesis by simp
  qed
next
  case (3 calls dep deps visited stack)
  then show ?case by simp
next
  case (4 calls dep deps visited stack f p v s)
  from 4(1-3) have "dfs_cycle calls dep visited stack = (f, v, s)" by simp
  with dfs_visited_grows(1) [OF 4(4)] have "visited \<subseteq> v" by simp
  then have "card (set (map ci_id calls) - v) \<le> card (set (map ci_id calls) - visited)"
    by (intro card_mono) auto
  then show ?case by auto
qed

declare dfs_cycle.simps [simp del] dfs_deps.simps [simp del]

fun dfs_roots :: "tool_call_item list \<Rightarrow> tool_call_item list \<Rightarrow> string set \<Rightarrow> string set \<Rightarrow> bool" where
  "dfs_roots calls [] visited stack = False"
| "dfs_roots calls (c # cs) visited stack =
     (if ci_id c \<in> visited then dfs_roots calls cs visited stack
      else (case dfs_cycle calls (ci_id c) visited stack of
              (found, visited', stack') \<Rightarrow> found \<or> dfs_roots calls cs visited' stack'))"

definition detect_cycle :: "tool_call_item list \<Rightarrow> string option" where
  "detect_cycle calls =
     (case unknown_refs calls of
        (c, dep) # _ \<Rightarrow> Some (''call '' @ quoted c @ '' depends on unknown call '' @ quoted dep)
      | [] \<Rightarrow> (if dfs_roots calls calls {} {} then Some ''dependency cycle detected'' else None))"

subsection \<open>Kahn's layers\<close>

definition dependents :: "tool_call_item list \<Rightarrow> string \<Rightarrow> string list" where
  "dependents calls node =
     concat (map (\<lambda>c. map (\<lambda>_. ci_id c) (filter (\<lambda>b. b = node) (ci_blocked_by c))) calls)"

text \<open>
  \<^verbatim>\<open>*count -= 1\<close> on a \<^verbatim>\<open>usize\<close>: below zero it panics, which is \<open>None\<close>. A dependent without an
  entry is skipped.
\<close>

fun lower_all :: "string list \<Rightarrow> (string \<rightharpoonup> nat) \<Rightarrow> string list \<Rightarrow> ((string \<rightharpoonup> nat) \<times> string list) option" where
  "lower_all [] deg next_queue = Some (deg, next_queue)"
| "lower_all (d # ds) deg next_queue =
     (case deg d of
        None \<Rightarrow> lower_all ds deg next_queue
      | Some 0 \<Rightarrow> None
      | Some (Suc n) \<Rightarrow> lower_all ds (deg(d \<mapsto> n)) (if n = 0 then next_queue @ [d] else next_queue))"

fun process_layer ::
  "tool_call_item list \<Rightarrow> string list \<Rightarrow> (string \<rightharpoonup> nat) \<Rightarrow> string list
    \<Rightarrow> ((string \<rightharpoonup> nat) \<times> string list) option" where
  "process_layer calls [] deg next_queue = Some (deg, next_queue)"
| "process_layer calls (node # queue) deg next_queue =
     Option.bind (lower_all (dependents calls node) deg next_queue)
       (\<lambda>(deg', next_queue'). process_layer calls queue deg' next_queue')"

definition total_degree :: "tool_call_item list \<Rightarrow> (string \<rightharpoonup> nat) \<Rightarrow> nat" where
  "total_degree calls deg =
     (\<Sum>i \<in> set (map ci_id calls). case deg i of None \<Rightarrow> 0 | Some n \<Rightarrow> n)"

lemma total_degree_upd:
  "i \<in> set (map ci_id calls) \<Longrightarrow> deg i = Some (Suc n) \<Longrightarrow>
     total_degree calls (deg(i \<mapsto> n)) + 1 = total_degree calls deg"
  unfolding total_degree_def
  by (subst (1 2) sum.remove [where x = i]) (auto intro!: sum.cong)

lemma lower_all_degree:
  "lower_all ds deg q = Some (deg', q') \<Longrightarrow> set ds \<subseteq> set (map ci_id calls) \<Longrightarrow>
     total_degree calls deg' + length q' \<le> total_degree calls deg + length q"
proof (induction ds deg q rule: lower_all.induct)
  case (2 d ds deg q)
  show ?case
  proof (cases "deg d")
    case None
    with 2 show ?thesis by simp
  next
    case (Some k)
    with 2(3) obtain n where n: "deg d = Some (Suc n)" by (cases k) auto
    have "total_degree calls (deg(d \<mapsto> n)) + 1 = total_degree calls deg"
      using 2(4) n by (intro total_degree_upd) auto
    moreover have "total_degree calls deg' + length q' \<le>
        total_degree calls (deg(d \<mapsto> n)) + length (if n = 0 then q @ [d] else q)"
      using 2(2) [OF n refl] 2(3,4) n by (simp add: fun_upd_def)
    ultimately show ?thesis by (simp split: if_splits)
  qed
qed simp

lemma dependents_ids: "set (dependents calls node) \<subseteq> set (map ci_id calls)"
  by (auto simp: dependents_def)

lemma process_layer_degree:
  "process_layer calls queue deg q = Some (deg', q') \<Longrightarrow>
     total_degree calls deg' + length q' \<le> total_degree calls deg + length q"
proof (induction queue arbitrary: deg q)
  case (Cons node queue)
  then obtain deg1 q1 where l: "lower_all (dependents calls node) deg q = Some (deg1, q1)"
    and p: "process_layer calls queue deg1 q1 = Some (deg', q')"
    by (auto split: Option.bind_split_asm)
  from lower_all_degree [OF l dependents_ids] Cons.IH [OF p] show ?case by linarith
qed simp

function kahn_layers ::
  "tool_call_item list \<Rightarrow> string list \<Rightarrow> (string \<rightharpoonup> nat) \<Rightarrow> string list list option" where
  "kahn_layers calls queue deg =
     (if queue = [] then Some []
      else (case process_layer calls queue deg [] of
              None \<Rightarrow> None
            | Some (deg', next_queue) \<Rightarrow> map_option ((#) queue) (kahn_layers calls next_queue deg')))"
  by pat_completeness auto

termination kahn_layers
proof (relation "measure (\<lambda>(calls, queue, deg). total_degree calls deg + length queue)", goal_cases)
  case (2 calls queue deg p deg' q')
  then have "process_layer calls queue deg [] = Some (deg', q')" by simp
  from process_layer_degree [OF this] 2(1) show ?case by (cases queue) auto
qed simp

declare kahn_layers.simps [simp del]

definition kahn_sort :: "tool_call_item list \<Rightarrow> (string \<rightharpoonup> nat) \<Rightarrow> string list list option" where
  "kahn_sort calls deg =
     kahn_layers calls
       (map ci_id (filter (\<lambda>c. (case deg (ci_id c) of None \<Rightarrow> 0 | Some n \<Rightarrow> n) = 0) calls)) deg"

subsection \<open>Running a call\<close>

definition result_of :: "string \<Rightarrow> string \<Rightarrow> tool_outcome \<Rightarrow> tool_result_item" where
  "result_of i n out =
     (case out of
        Value v \<Rightarrow> \<lparr>ri_call_id = i, ri_name = n, ri_status = ''success'', ri_result = v, ri_error = None\<rparr>
      | ToolError e \<Rightarrow>
          \<lparr>ri_call_id = i, ri_name = n, ri_status = ''error'', ri_result = JNull, ri_error = Some e\<rparr>
      | Unwind payload \<Rightarrow>
          \<lparr>ri_call_id = i, ri_name = n, ri_status = ''error'', ri_result = JNull,
           ri_error = Some (''panic: '' @ (case payload of None \<Rightarrow> ''<unknown>'' | Some s \<Rightarrow> s))\<rparr>)"

text \<open>
  A timeout ends an invocation that takes longer, and then waits for the tool's \<^verbatim>\<open>cancel\<close>:
  \<open>Hang\<close> is a call that never returns, \<open>Panic\<close> a task that ends with a panic of \<^verbatim>\<open>cancel\<close>, which
  nothing catches.
\<close>

definition timed_out :: "string \<Rightarrow> string \<Rightarrow> tool_result_item" where
  "timed_out i n =
     \<lparr>ri_call_id = i, ri_name = n, ri_status = ''cancelled'', ri_result = JNull, ri_error = Some ''timeout''\<rparr>"

definition execute_one ::
  "string \<Rightarrow> string \<Rightarrow> tool option \<Rightarrow> json \<Rightarrow> millis option \<Rightarrow> (unit, tool_result_item) outcome" where
  "execute_one i n tool params timeout_ms =
     (case tool of
        None \<Rightarrow> Ret \<lparr>ri_call_id = i, ri_name = n, ri_status = ''error'', ri_result = JNull,
                     ri_error = Some (''tool not found: '' @ n)\<rparr>
      | Some tool \<Rightarrow>
          (let elapsed = (case tool_cancel tool i of
                            CancelReturns \<Rightarrow> Ret (timed_out i n)
                          | CancelBlocks \<Rightarrow> Hang
                          | CancelPanics \<Rightarrow> Panic)
           in case (tool_execute tool i params, timeout_ms) of
                (Never, None) \<Rightarrow> Hang
              | (After _ out, None) \<Rightarrow> Ret (result_of i n out)
              | (Never, Some _) \<Rightarrow> elapsed
              | (After d out, Some ms) \<Rightarrow> if d \<le> ms then Ret (result_of i n out) else elapsed))"

subsection \<open>Cascading cancellation\<close>

definition cancelled_by :: "tool_call_item list \<Rightarrow> string \<Rightarrow> string \<Rightarrow> tool_result_item" where
  "cancelled_by calls failed i =
     \<lparr>ri_call_id = i, ri_name = (case find_call calls i of None \<Rightarrow> [] | Some c \<Rightarrow> ci_tool c),
      ri_status = ''cancelled'', ri_result = JNull,
      ri_error = Some (''cancelled: upstream dependency '' @ quoted failed @ '' failed'')\<rparr>"

text \<open>The inner loop, over what one failed call blocks: the results and what is enqueued.\<close>

fun cancel_blocked ::
  "tool_call_item list \<Rightarrow> string \<Rightarrow> string list \<Rightarrow> (string \<rightharpoonup> tool_result_item) \<Rightarrow> string list
    \<Rightarrow> (string \<rightharpoonup> tool_result_item) \<times> string list" where
  "cancel_blocked calls failed [] completed queue = (completed, queue)"
| "cancel_blocked calls failed (b # bs) completed queue =
     (if completed b = None
      then cancel_blocked calls failed bs (completed(b \<mapsto> cancelled_by calls failed b)) (queue @ [b])
      else cancel_blocked calls failed bs completed queue)"

definition open_blocked :: "tool_call_item list \<Rightarrow> (string \<rightharpoonup> tool_result_item) \<Rightarrow> nat" where
  "open_blocked calls completed = card (\<Union> (set ` ci_blocking ` set calls) - dom completed)"

lemma cancel_blocked_count:
  "cancel_blocked calls failed bs completed queue = (completed', queue') \<Longrightarrow>
     set bs \<subseteq> \<Union> (set ` ci_blocking ` set calls) \<Longrightarrow>
     open_blocked calls completed' + length queue' = open_blocked calls completed + length queue"
proof (induction calls failed bs completed queue rule: cancel_blocked.induct)
  case (2 calls failed b bs completed queue)
  show ?case
  proof (cases "completed b")
    case None
    let ?B = "\<Union> (set ` ci_blocking ` set calls)"
    have "b \<in> ?B - dom completed" using 2(4) None by auto
    then have "card (?B - dom completed) = Suc (card (?B - dom completed - {b}))"
      by (intro card.remove) auto
    moreover have "?B - dom (completed(b \<mapsto> cancelled_by calls failed b)) = ?B - dom completed - {b}" by auto
    moreover from 2(1) [OF None] 2(3,4) None
    have "open_blocked calls completed' + length queue' =
        open_blocked calls (completed(b \<mapsto> cancelled_by calls failed b)) + length (queue @ [b])"
      by (simp add: fun_upd_def)
    ultimately show ?thesis by (simp add: open_blocked_def)
  next
    case (Some r)
    with 2 show ?thesis by simp
  qed
qed simp

function cascade_loop ::
  "tool_call_item list \<Rightarrow> string list \<Rightarrow> (string \<rightharpoonup> tool_result_item) \<Rightarrow> string \<rightharpoonup> tool_result_item" where
  "cascade_loop calls [] completed = completed"
| "cascade_loop calls (failed # queue) completed =
     (case cancel_blocked calls failed
             (case find_call calls failed of None \<Rightarrow> [] | Some c \<Rightarrow> ci_blocking c) completed queue of
        (completed', queue') \<Rightarrow> cascade_loop calls queue' completed')"
  by pat_completeness auto

termination cascade_loop
proof (relation "measure (\<lambda>(calls, queue, completed). open_blocked calls completed + length queue)", goal_cases)
  case (2 calls failed queue completed completed' queue')
  have "set (case find_call calls failed of None \<Rightarrow> [] | Some c \<Rightarrow> ci_blocking c)
      \<subseteq> \<Union> (set ` ci_blocking ` set calls)" by (cases "find_call calls failed") (auto dest: find_call_in)
  from cancel_blocked_count [OF _ this, of failed completed queue completed' queue'] 2
  show ?case by simp
qed simp

declare cascade_loop.simps(2) [simp del]

definition cascade_cancel ::
  "tool_call_item list \<Rightarrow> (string \<rightharpoonup> tool_result_item) \<Rightarrow> string \<rightharpoonup> tool_result_item" where
  "cascade_cancel calls completed =
     cascade_loop calls
       (map ci_id (filter (\<lambda>c. case completed (ci_id c) of None \<Rightarrow> False
                               | Some r \<Rightarrow> \<not> succeeded r) calls)) completed"

subsection \<open>Running a set of calls\<close>

definition start_call ::
  "tool_call_item list \<Rightarrow> (string \<rightharpoonup> tool) \<Rightarrow> millis option \<Rightarrow> string \<Rightarrow> (unit, tool_result_item) outcome" where
  "start_call calls tools timeout_ms i =
     (case find_call calls i of
        None \<Rightarrow> Panic
      | Some c \<Rightarrow> execute_one i (ci_tool c) (tools (ci_tool c)) (ci_params c) timeout_ms)"

text \<open>
  \<^verbatim>\<open>join_all\<close> waits for every task of the layer; then the results are unwrapped, and the panic of
  a task is one of the executor.
\<close>

fun join_calls :: "(unit, tool_result_item) outcome list \<Rightarrow> (unit, tool_result_item list) outcome" where
  "join_calls [] = Ret []"
| "join_calls (r # rs) =
     (case (r, join_calls rs) of
        (Hang, _) \<Rightarrow> Hang
      | (_, Hang) \<Rightarrow> Hang
      | (Ret x, Ret xs) \<Rightarrow> Ret (x # xs)
      | _ \<Rightarrow> Panic)"

definition complete_layer ::
  "(string \<rightharpoonup> tool_result_item) \<Rightarrow> tool_result_item list \<Rightarrow> string \<rightharpoonup> tool_result_item" where
  "complete_layer completed items = fold (\<lambda>r m. m(ri_call_id r \<mapsto> r)) items completed"

text \<open>
  The layers in turn; the second component is the list of the layers that were started.
  \<open>Hang\<close> is a \<^verbatim>\<open>join_all\<close> that waits for ever, \<open>Panic\<close> the \<^verbatim>\<open>unwrap\<close> of an id without a call or the
  panic of a task.
\<close>

fun run_layers ::
  "tool_call_item list \<Rightarrow> (string \<rightharpoonup> tool) \<Rightarrow> millis option \<Rightarrow> string list list
    \<Rightarrow> (string \<rightharpoonup> tool_result_item) \<Rightarrow> (unit, string \<rightharpoonup> tool_result_item) outcome \<times> string list list" where
  "run_layers calls tools timeout_ms [] completed = (Ret completed, [])"
| "run_layers calls tools timeout_ms (layer # layers) completed =
     (if list_ex (\<lambda>i. find_call calls i = None) layer then (Panic, [])
      else case join_calls (map (start_call calls tools timeout_ms) layer) of
        Hang \<Rightarrow> (Hang, [layer])
      | Panic \<Rightarrow> (Panic, [layer])
      | Fail e \<Rightarrow> (Fail e, [layer])
      | Ret items \<Rightarrow>
          (let completed' = complete_layer completed items
           in if list_all succeeded items
              then (case run_layers calls tools timeout_ms layers completed' of
                      (r, started) \<Rightarrow> (r, layer # started))
              else (Ret (cascade_cancel calls completed'), [layer])))"

definition not_run :: "tool_call_item \<Rightarrow> tool_result_item" where
  "not_run c =
     \<lparr>ri_call_id = ci_id c, ri_name = ci_tool c, ri_status = ''cancelled'', ri_result = JNull,
      ri_error = Some ''cancelled: upstream dependency failed''\<rparr>"

definition assemble ::
  "tool_call_item list \<Rightarrow> (string \<rightharpoonup> tool_result_item) \<Rightarrow> tool_result_item list" where
  "assemble calls completed =
     map (\<lambda>c. case completed (ci_id c) of Some r \<Rightarrow> r | None \<Rightarrow> not_run c) calls"

definition execute ::
  "tool_call_set \<Rightarrow> (string \<rightharpoonup> tool) \<Rightarrow> (unit, tool_result_set) outcome \<times> string list list" where
  "execute call_set tools =
     (let calls = cs_calls call_set;
          done = (\<lambda>rs. Ret \<lparr>rs_session_id = cs_session_id call_set, rs_results = rs\<rparr>)
      in if calls = [] then (done [], [])
         else (case validate_bidirectional_lock calls of
                 Some errors \<Rightarrow> (done errors, [])
               | None \<Rightarrow>
                   (let in_degree = build_in_degree calls Map.empty
                    in case detect_cycle calls of
                         Some message \<Rightarrow> (done (error_all calls message), [])
                       | None \<Rightarrow>
                           (case kahn_sort calls in_degree of
                              None \<Rightarrow> (Panic, [])
                            | Some layers \<Rightarrow>
                                (case run_layers calls tools (cs_timeout_ms call_set) layers Map.empty of
                                   (Ret completed, started) \<Rightarrow> (done (assemble calls completed), started)
                                 | (Fail e, started) \<Rightarrow> (Fail e, started)
                                 | (Panic, started) \<Rightarrow> (Panic, started)
                                 | (Hang, started) \<Rightarrow> (Hang, started))))))"

end
