(* ===== verification/Mcp_Executor_Props.thy ===== *)
theory Mcp_Executor_Props
  imports Mcp_Executor
begin

text \<open>
  Properties of the tool executor: the depth-first search finds a cycle exactly when there
  is one, the layers of an accepted set of calls respect every dependency, and what the
  results say about each call.
\<close>

subsection \<open>Dependencies\<close>

text \<open>\<open>(c, b)\<close>: call \<open>c\<close> waits for \<open>b\<close>.\<close>

definition waits :: "tool_call_item list \<Rightarrow> (string \<times> string) set" where
  "waits calls = {(ci_id c, b) |c b. c \<in> set calls \<and> b \<in> set (ci_blocked_by c)}"

lemma waits_UN: "waits calls = (\<Union>c \<in> set calls. {ci_id c} \<times> set (ci_blocked_by c))"
  by (auto simp: waits_def)

abbreviation ids :: "tool_call_item list \<Rightarrow> string set" where
  "ids calls \<equiv> set (map ci_id calls)"

lemma find_call_self:
  "distinct (map ci_id calls) \<Longrightarrow> c \<in> set calls \<Longrightarrow> find_call calls (ci_id c) = Some c"
  by (induction calls) (auto simp: find_call_def)

lemma find_call_None: "find_call calls i = None \<longleftrightarrow> i \<notin> ids calls"
  by (auto simp: find_call_def find_None_set)

definition blockers :: "tool_call_item list \<Rightarrow> string \<Rightarrow> string list" where
  "blockers calls i = (case find_call calls i of None \<Rightarrow> [] | Some c \<Rightarrow> ci_blocked_by c)"

lemma waits_iff:
  assumes "distinct (map ci_id calls)"
  shows "(i, b) \<in> waits calls \<longleftrightarrow> b \<in> set (blockers calls i)"
proof
  assume "(i, b) \<in> waits calls"
  then show "b \<in> set (blockers calls i)"
    by (auto simp: waits_def blockers_def find_call_self [OF assms])
next
  assume "b \<in> set (blockers calls i)"
  then obtain c where "find_call calls i = Some c" "b \<in> set (ci_blocked_by c)"
    by (cases "find_call calls i") (auto simp: blockers_def)
  then show "(i, b) \<in> waits calls" by (auto simp: waits_def dest!: find_call_in)
qed

lemma waits_domain: "(i, b) \<in> waits calls \<Longrightarrow> i \<in> ids calls"
  by (auto simp: waits_def)

subsection \<open>The depth-first search\<close>

text \<open>
  While the search runs, the finished nodes (visited, off the stack) lead only to finished
  nodes and lie on no cycle.
\<close>

definition finished_ok :: "tool_call_item list \<Rightarrow> string set \<Rightarrow> string set \<Rightarrow> bool" where
  "finished_ok calls visited stack \<longleftrightarrow> stack \<subseteq> visited \<and>
     (\<forall>x \<in> visited - stack. set (blockers calls x) \<subseteq> visited - stack \<and> (x, x) \<notin> (waits calls)\<^sup>+)"

lemma closed_trancl:
  assumes "(x, y) \<in> r\<^sup>+" and "x \<in> A" and "\<And>a b. a \<in> A \<Longrightarrow> (a, b) \<in> r \<Longrightarrow> b \<in> A"
  shows "y \<in> A"
  using assms by (induction rule: trancl_induct) blast+

lemma dfs_cycle_unfold:
  "dfs_cycle calls node visited stack =
     (if node \<in> stack then (True, visited, stack)
      else if node \<in> visited then (False, visited, stack)
      else (case dfs_deps calls (blockers calls node) (insert node visited) (insert node stack) of
              (found, visited', stack') \<Rightarrow>
                (if found then (True, visited', stack') else (False, visited', stack' - {node}))))"
  by (subst dfs_cycle.simps) (simp add: blockers_def)

lemma finished_ok_enter:
  "finished_ok calls visited stack \<Longrightarrow> node \<notin> visited \<Longrightarrow>
     finished_ok calls (insert node visited) (insert node stack)"
proof -
  assume ok: "finished_ok calls visited stack" and new: "node \<notin> visited"
  then have "insert node visited - insert node stack = visited - stack" by (auto simp: finished_ok_def)
  with ok show ?thesis unfolding finished_ok_def by (metis insert_mono)
qed

lemma finished_ok_leave:
  assumes d: "distinct (map ci_id calls)" and ok: "finished_ok calls visited (insert node stack)"
    and new: "node \<notin> stack" and deps: "set (blockers calls node) \<subseteq> visited - insert node stack"
  shows "finished_ok calls visited stack"
proof -
  let ?D = "visited - insert node stack"
  have closed: "b \<in> ?D" if "a \<in> ?D" "(a, b) \<in> waits calls" for a b
    using ok that unfolding waits_iff [OF d] finished_ok_def by blast
  have "(node, node) \<notin> (waits calls)\<^sup>+"
  proof
    assume "(node, node) \<in> (waits calls)\<^sup>+"
    then obtain b where b: "(node, b) \<in> waits calls" "b = node \<or> (b, node) \<in> (waits calls)\<^sup>+"
      by (meson tranclD rtranclD)
    from b(1) deps have D: "b \<in> ?D" by (auto simp: waits_iff [OF d])
    from b(2) have "node \<in> ?D"
    proof
      assume "(b, node) \<in> (waits calls)\<^sup>+"
      then show ?thesis by (rule closed_trancl [OF _ D]) (rule closed)
    qed (use D in simp)
    then show False by simp
  qed
  moreover have D: "visited - stack = insert node ?D" using ok new by (auto simp: finished_ok_def)
  moreover have "stack \<subseteq> visited" using ok by (simp add: finished_ok_def)
  moreover have "\<forall>x \<in> ?D. set (blockers calls x) \<subseteq> ?D \<and> (x, x) \<notin> (waits calls)\<^sup>+"
    using ok by (simp add: finished_ok_def)
  ultimately show ?thesis using deps unfolding finished_ok_def D by fast
qed

lemma dfs_no_cycle:
  shows "dfs_cycle calls node visited stack = (False, visited', stack') \<Longrightarrow>
      distinct (map ci_id calls) \<Longrightarrow> finished_ok calls visited stack \<Longrightarrow>
      stack' = stack \<and> finished_ok calls visited' stack \<and> visited \<subseteq> visited' \<and> node \<in> visited' - stack"
    and "dfs_deps calls deps visited stack = (False, visited', stack') \<Longrightarrow>
      distinct (map ci_id calls) \<Longrightarrow> finished_ok calls visited stack \<Longrightarrow>
      stack' = stack \<and> finished_ok calls visited' stack \<and> visited \<subseteq> visited' \<and>
      set deps \<subseteq> visited' - stack"
proof (induction calls node visited stack and calls deps visited stack
    arbitrary: visited' stack' and visited' stack' rule: dfs_cycle_dfs_deps.induct)
  case (1 calls node visited stack)
  from 1(2) have new: "node \<notin> stack" by (auto simp: dfs_cycle_unfold)
  show ?case
  proof (cases "node \<in> visited")
    case True
    with 1(2,4) new show ?thesis by (auto simp: dfs_cycle_unfold)
  next
    case False
    with 1(2) new obtain s where s: "stack' = s - {node}"
      and d: "dfs_deps calls (blockers calls node) (insert node visited) (insert node stack) = (False, visited', s)"
      by (auto simp: dfs_cycle_unfold split: prod.splits if_splits)
    from 1(1) [OF new False d [unfolded blockers_def] 1(3) finished_ok_enter [OF 1(4) False]]
    have r: "s = insert node stack" "finished_ok calls visited' (insert node stack)"
      "insert node visited \<subseteq> visited'" "set (blockers calls node) \<subseteq> visited' - insert node stack"
      by (auto simp: blockers_def)
    with finished_ok_leave [OF 1(3) r(2) new r(4)] s new show ?thesis by auto
  qed
next
  case (2 calls visited stack)
  then show ?case by (simp add: dfs_deps.simps)
next
  case (3 calls dep deps visited stack)
  from 3(3) obtain v s where c: "dfs_cycle calls dep visited stack = (False, v, s)"
    and d: "dfs_deps calls deps v s = (False, visited', stack')"
    by (auto simp: dfs_deps.simps(2) split: prod.splits if_splits)
  from 3(1) [OF c 3(4,5)] have r: "s = stack" "finished_ok calls v stack" "visited \<subseteq> v" "dep \<in> v - stack"
    by auto
  from 3(2) [OF c [symmetric] refl _ d 3(4)] r show ?case by auto
qed

text \<open>Conversely, every node on the stack waits for the node at hand, so meeting it again closes a cycle.\<close>

lemma dfs_found:
  shows "dfs_cycle calls node visited stack = (True, visited', stack') \<Longrightarrow>
      distinct (map ci_id calls) \<Longrightarrow> finished_ok calls visited stack \<Longrightarrow>
      \<forall>x \<in> stack. (x, node) \<in> (waits calls)\<^sup>+ \<Longrightarrow> \<exists>x. (x, x) \<in> (waits calls)\<^sup>+"
    and "dfs_deps calls deps visited stack = (True, visited', stack') \<Longrightarrow>
      distinct (map ci_id calls) \<Longrightarrow> finished_ok calls visited stack \<Longrightarrow>
      \<forall>x \<in> stack. \<forall>d \<in> set deps. (x, d) \<in> (waits calls)\<^sup>+ \<Longrightarrow> \<exists>x. (x, x) \<in> (waits calls)\<^sup>+"
proof (induction calls node visited stack and calls deps visited stack
    arbitrary: visited' stack' and visited' stack' rule: dfs_cycle_dfs_deps.induct)
  case (1 calls node visited stack)
  show ?case
  proof (cases "node \<in> stack")
    case True
    with 1(5) show ?thesis by blast
  next
    case False
    with 1(2) have v: "node \<notin> visited"
      and d: "dfs_deps calls (blockers calls node) (insert node visited) (insert node stack) = (True, visited', stack')"
      by (auto simp: dfs_cycle_unfold split: prod.splits if_splits)
    have "\<forall>x \<in> insert node stack. \<forall>d \<in> set (blockers calls node). (x, d) \<in> (waits calls)\<^sup>+"
      using 1(5) by (auto simp: waits_iff [OF 1(3), symmetric] intro: trancl_into_trancl)
    with 1(1) [OF False v d [unfolded blockers_def] 1(3) finished_ok_enter [OF 1(4) v]]
    show ?thesis by (simp add: blockers_def)
  qed
next
  case (2 calls visited stack)
  then show ?case by (simp add: dfs_deps.simps)
next
  case (3 calls dep deps visited stack)
  obtain f v s where c: "dfs_cycle calls dep visited stack = (f, v, s)" by (metis prod_cases3)
  show ?case
  proof (cases f)
    case True
    with 3(1) [of v s] c 3(4-6) show ?thesis by simp
  next
    case False
    with dfs_no_cycle(1) [of calls dep visited stack v s] c 3(4,5)
    have r: "s = stack" "finished_ok calls v stack" by auto
    from False 3(3) c have d: "dfs_deps calls deps v s = (True, visited', stack')"
      by (simp add: dfs_deps.simps(2))
    from 3(2) [OF c [symmetric] refl _ d 3(4)] False r 3(6) show ?thesis by simp
  qed
qed

lemma dfs_roots_sound:
  "dfs_roots calls cs visited {} \<Longrightarrow> distinct (map ci_id calls) \<Longrightarrow> finished_ok calls visited {} \<Longrightarrow>
     \<exists>x. (x, x) \<in> (waits calls)\<^sup>+"
proof (induction cs arbitrary: visited)
  case (Cons c cs)
  obtain f v s where d: "dfs_cycle calls (ci_id c) visited {} = (f, v, s)" by (metis prod_cases3)
  show ?case
  proof (cases "ci_id c \<in> visited \<or> f")
    case True
    with Cons dfs_found(1) [of calls "ci_id c" visited "{}" v s] d show ?thesis by (auto split: if_splits)
  next
    case False
    with dfs_no_cycle(1) [of calls "ci_id c" visited "{}" v s] d Cons(3,4)
    have "s = {}" "finished_ok calls v {}" by auto
    with Cons False d show ?thesis by (auto split: if_splits)
  qed
qed simp

lemma dfs_roots_complete:
  "\<not> dfs_roots calls cs visited {} \<Longrightarrow> distinct (map ci_id calls) \<Longrightarrow> finished_ok calls visited {} \<Longrightarrow>
     c \<in> set cs \<Longrightarrow> (ci_id c, ci_id c) \<notin> (waits calls)\<^sup>+"
proof (induction cs arbitrary: visited)
  case (Cons c' cs)
  obtain f v s where d: "dfs_cycle calls (ci_id c') visited {} = (f, v, s)" by (metis prod_cases3)
  show ?case
  proof (cases "ci_id c' \<in> visited")
    case True
    with Cons show ?thesis by (auto simp: finished_ok_def)
  next
    case False
    with Cons(2) d have f: "\<not> f" by auto
    with dfs_no_cycle(1) [of calls "ci_id c'" visited "{}" v s] d Cons(3,4)
    have "s = {}" "finished_ok calls v {}" "ci_id c' \<in> v" by auto
    with Cons False d f show ?thesis by (auto simp: finished_ok_def)
  qed
qed simp

lemma detect_cycle_iff:
  assumes "distinct (map ci_id calls)"
  shows "detect_cycle calls = None \<longleftrightarrow> Range (waits calls) \<subseteq> ids calls \<and> acyclic (waits calls)"
proof -
  have refs: "unknown_refs calls = [] \<longleftrightarrow> Range (waits calls) \<subseteq> ids calls"
    unfolding waits_UN by (force simp: unknown_refs_def filter_empty_conv)
  have ok: "finished_ok calls {} {}" by (simp add: finished_ok_def)
  have "dfs_roots calls calls {} {} \<longleftrightarrow> \<not> acyclic (waits calls)"
  proof
    assume "dfs_roots calls calls {} {}"
    from dfs_roots_sound [OF this assms ok] show "\<not> acyclic (waits calls)" by (simp add: acyclic_def)
  next
    assume "\<not> acyclic (waits calls)"
    then obtain x where x: "(x, x) \<in> (waits calls)\<^sup>+" by (auto simp: acyclic_def)
    then obtain c where "c \<in> set calls" "x = ci_id c" by (auto simp: waits_def dest: tranclD)
    with dfs_roots_complete [OF _ assms ok] x show "dfs_roots calls calls {} {}" by blast
  qed
  with refs show ?thesis by (auto simp: detect_cycle_def split: list.splits)
qed

text \<open>
  C31: cycle detection is exact. For calls with different ids, \<^verbatim>\<open>detect_cycle\<close> accepts them
  exactly when every blocker is one of the calls and the relation \<open>waits\<close> has no cycle.
\<close>

theorem detect_cycle_exact:
  assumes "distinct (map ci_id calls)"
  shows "detect_cycle calls = None \<longleftrightarrow> Range (waits calls) \<subseteq> ids calls \<and> acyclic (waits calls)"
  using assms by (rule detect_cycle_iff)

definition call :: "string \<Rightarrow> string list \<Rightarrow> string list \<Rightarrow> tool_call_item" where
  "call i bs qs =
     \<lparr>ci_id = i, ci_tool = ''t'', ci_params = JNull, ci_blocked_by = bs, ci_blocking = qs\<rparr>"

theorem detect_cycle_exact_witness:
  "detect_cycle [call ''a'' [''b''] [], call ''b'' [''a''] []] \<noteq> None \<and>
   detect_cycle [call ''a'' [''b''] [], call ''b'' [] []] = None"
proof -
  let ?w = "waits [call ''a'' [''b''] [], call ''b'' [''a''] []]"
  have "(''a'', ''b'') \<in> ?w" "(''b'', ''a'') \<in> ?w" by (auto simp: waits_UN call_def)
  then have "(''a'', ''a'') \<in> ?w\<^sup>+" by (meson trancl.r_into_trancl trancl_into_trancl)
  then have n: "\<not> acyclic ?w" by (auto simp: acyclic_def)
  have v: "waits [call ''a'' [''b''] [], call ''b'' [] []] = {(''a'', ''b'')}" by (simp add: waits_UN call_def)
  have "acyclic {(''a'', ''b'')}" by (simp add: acyclic_insert) (simp add: acyclic_def)
  with n v detect_cycle_exact [of "[call ''a'' [''b''] [], call ''b'' [''a''] []]"]
    detect_cycle_exact [of "[call ''a'' [''b''] [], call ''b'' [] []]"]
  show ?thesis by (auto simp: call_def)
qed

subsection \<open>The layers\<close>

text \<open>What a call still waits for when the calls of \<open>P\<close> are done, and which calls may start then.\<close>

definition remaining :: "tool_call_item list \<Rightarrow> string set \<Rightarrow> string \<Rightarrow> nat" where
  "remaining calls P i = length (filter (\<lambda>b. b \<notin> P) (blockers calls i))"

definition ready :: "tool_call_item list \<Rightarrow> string set \<Rightarrow> string set" where
  "ready calls P = {i \<in> ids calls. i \<notin> P \<and> set (blockers calls i) \<subseteq> P}"

text \<open>The reference: every layer is the set of all calls that may start, until all are done.\<close>

fun layers_ok :: "tool_call_item list \<Rightarrow> string set \<Rightarrow> string list list \<Rightarrow> bool" where
  "layers_ok calls P [] \<longleftrightarrow> P = ids calls"
| "layers_ok calls P (l # ls) \<longleftrightarrow>
     l \<noteq> [] \<and> distinct l \<and> set l = ready calls P \<and> layers_ok calls (P \<union> set l) ls"

definition deg_ok :: "tool_call_item list \<Rightarrow> string set \<Rightarrow> (string \<rightharpoonup> nat) \<Rightarrow> bool" where
  "deg_ok calls P deg \<longleftrightarrow> (\<forall>i. deg i = (if i \<in> ids calls then Some (remaining calls P i) else None))"

lemma remaining_0: "remaining calls P i = 0 \<longleftrightarrow> set (blockers calls i) \<subseteq> P"
  by (auto simp: remaining_def filter_empty_conv)

lemma length_filter_insert:
  "n \<notin> P \<Longrightarrow> length (filter (\<lambda>b. b \<notin> P) xs) = length (filter (\<lambda>b. b \<notin> insert n P) xs) + count_list xs n"
  by (induction xs) auto

lemma remaining_insert:
  "n \<notin> P \<Longrightarrow> remaining calls P i = remaining calls (insert n P) i + count_list (blockers calls i) n"
  unfolding remaining_def by (rule length_filter_insert)

lemma build_in_degree_at:
  "distinct (map ci_id cs) \<Longrightarrow> (\<And>i. i \<in> ids cs \<Longrightarrow> deg i = None) \<Longrightarrow>
     build_in_degree cs deg i = (if i \<in> ids cs then Some (length (blockers cs i)) else deg i)"
proof (induction cs arbitrary: deg)
  case (Cons c cs)
  have "build_in_degree cs (deg(ci_id c \<mapsto> length (ci_blocked_by c))) i =
      (if i \<in> ids cs then Some (length (blockers cs i)) else (deg(ci_id c \<mapsto> length (ci_blocked_by c))) i)"
  proof (rule Cons.IH)
    fix j assume j: "j \<in> ids cs"
    with Cons.prems(1) have "j \<noteq> ci_id c" by (metis distinct.simps(2) list.simps(9))
    with j Cons.prems(2) show "(deg(ci_id c \<mapsto> length (ci_blocked_by c))) j = None" by simp
  qed (use Cons.prems(1) in simp)
  with Cons.prems show ?case by (auto simp: blockers_def find_call_def)
qed simp

lemma build_in_degree_ok:
  "distinct (map ci_id calls) \<Longrightarrow> deg_ok calls {} (build_in_degree calls Map.empty)"
  by (simp add: deg_ok_def build_in_degree_at remaining_def)

lemma count_list_concat: "count_list (concat xss) x = (\<Sum>xs \<leftarrow> xss. count_list xs x)"
  by (induction xss) auto

lemma sum_list_0: "(\<And>x. x \<in> set xs \<Longrightarrow> f x = 0) \<Longrightarrow> (\<Sum>x \<leftarrow> xs. f x) = (0::nat)"
  by (induction xs) auto

lemma count_dependents:
  assumes "distinct (map ci_id calls)"
  shows "count_list (dependents calls n) i = count_list (blockers calls i) n"
proof -
  have one: "count_list (map (\<lambda>_. ci_id c) (filter (\<lambda>b. b = n) bs)) i =
      (if ci_id c = i then count_list bs n else 0)" for c :: tool_call_item and bs
    by (induction bs) auto
  have "count_list (dependents calls n) i =
      (\<Sum>c \<leftarrow> calls. if ci_id c = i then count_list (ci_blocked_by c) n else 0)"
    by (simp add: dependents_def count_list_concat o_def one)
  also have "\<dots> = count_list (blockers calls i) n" using assms
  proof (induction calls)
    case (Cons c calls)
    have "(\<Sum>c \<leftarrow> calls. if ci_id c = i then count_list (ci_blocked_by c) n else 0) = 0"
      if "ci_id c = i" using Cons.prems that by (intro sum_list_0) (auto simp: rev_image_eqI)
    with Cons show ?case by (auto simp: blockers_def find_call_def)
  qed (simp add: blockers_def find_call_def)
  finally show ?thesis .
qed

lemma lower_all_spec:
  assumes "\<And>d. d \<in> set ds \<Longrightarrow> \<exists>k. deg d = Some k \<and> count_list ds d \<le> k"
  shows "\<exists>deg' new. lower_all ds deg q = Some (deg', q @ new) \<and>
    (\<forall>i. deg' i = map_option (\<lambda>k. k - count_list ds i) (deg i)) \<and>
    distinct new \<and> set new = {i \<in> set ds. deg i = Some (count_list ds i)}"
  using assms
proof (induction ds arbitrary: deg q)
  case (Cons d ds)
  from Cons.prems [of d] obtain k' where "deg d = Some k'" "Suc (count_list ds d) \<le> k'" by auto
  then obtain k where k: "deg d = Some (Suc k)" "count_list ds d \<le> k" by (cases k') auto
  let ?deg = "deg(d \<mapsto> k)" and ?q = "if k = 0 then q @ [d] else q"
  have "\<exists>k'. ?deg d' = Some k' \<and> count_list ds d' \<le> k'" if "d' \<in> set ds" for d'
    using Cons.prems [of d'] that k by (cases "d' = d") auto
  from Cons.IH [of ?deg ?q, OF this] obtain deg' new where
    n: "lower_all ds ?deg ?q = Some (deg', ?q @ new)" "distinct new"
      "\<forall>i. deg' i = map_option (\<lambda>k. k - count_list ds i) (?deg i)"
      "set new = {i \<in> set ds. ?deg i = Some (count_list ds i)}" by blast
  have deg': "\<forall>i. deg' i = map_option (\<lambda>k. k - count_list (d # ds) i) (deg i)"
    using n(3) k by auto
  show ?case
  proof (cases "k = 0")
    case True
    with k have "d \<notin> set ds" by (simp add: count_list_0_iff)
    with n k True deg' show ?thesis
      by (intro exI [of _ deg'] exI [of _ "d # new"]) auto
  next
    case False
    with k have "count_list ds d = k \<Longrightarrow> d \<in> set ds" by (metis count_list_0_iff)
    with n k False deg' show ?thesis
      by (intro exI [of _ deg'] exI [of _ new]) auto
  qed
qed (simp add: option.map_ident)

lemma remaining_mono: "P \<subseteq> Q \<Longrightarrow> remaining calls Q i = 0 \<or> remaining calls P i > 0"
  using remaining_0 [of calls P i] remaining_0 [of calls Q i] by fastforce

lemma process_layer_spec:
  assumes "distinct (map ci_id calls)"
  shows "distinct queue \<Longrightarrow> set queue \<inter> P = {} \<Longrightarrow> deg_ok calls P deg \<Longrightarrow>
    \<exists>deg' new. process_layer calls queue deg q = Some (deg', q @ new) \<and>
      deg_ok calls (P \<union> set queue) deg' \<and> distinct new \<and>
      set new = {i \<in> ids calls. remaining calls P i > 0 \<and> remaining calls (P \<union> set queue) i = 0}"
proof (induction queue arbitrary: P deg q)
  case (Cons n queue)
  from Cons.prems(2) have n: "n \<notin> P" by simp
  note rem = remaining_insert [OF n] and cnt = count_dependents [OF assms]
  have pos: "i \<in> set (dependents calls n) \<longleftrightarrow> 0 < count_list (blockers calls i) n" for i
    using cnt count_list_0_iff [of "dependents calls n" i] by (metis neq0_conv)
  have "\<exists>k. deg d = Some k \<and> count_list (dependents calls n) d \<le> k"
    if "d \<in> set (dependents calls n)" for d
  proof -
    from that dependents_ids have "d \<in> ids calls" by blast
    then show ?thesis using Cons.prems(3) rem [of calls d] cnt by (simp add: deg_ok_def)
  qed
  from lower_all_spec [of "dependents calls n" deg q, OF this] obtain deg1 new1 where
    l: "lower_all (dependents calls n) deg q = Some (deg1, q @ new1)" "distinct new1"
      "\<forall>i. deg1 i = map_option (\<lambda>k. k - count_list (dependents calls n) i) (deg i)"
      "set new1 = {i \<in> set (dependents calls n). deg i = Some (count_list (dependents calls n) i)}"
    by blast
  have ok1: "deg_ok calls (insert n P) deg1"
    using Cons.prems(3) l(3) rem cnt by (simp add: deg_ok_def)
  have new1: "set new1 = {i \<in> ids calls. remaining calls P i > 0 \<and> remaining calls (insert n P) i = 0}"
    using Cons.prems(3) rem cnt pos dependents_ids [of calls n] unfolding l(4) deg_ok_def by auto
  from Cons.IH [OF _ _ ok1, of "q @ new1"] Cons.prems(1,2) obtain deg' new2 where
    p: "process_layer calls queue deg1 (q @ new1) = Some (deg', q @ new1 @ new2)" "distinct new2"
      "deg_ok calls (insert n P \<union> set queue) deg'"
      "set new2 = {i \<in> ids calls. remaining calls (insert n P) i > 0 \<and>
                                  remaining calls (insert n P \<union> set queue) i = 0}" by auto
  have m: "remaining calls (insert n P) i = 0 \<or> 0 < remaining calls P i"
    "remaining calls (insert n P \<union> set queue) i = 0 \<or> 0 < remaining calls (insert n P) i" for i
    by (rule remaining_mono; blast)+
  have "set new1 \<inter> set new2 = {}" using new1 p(4) by auto
  moreover have "set new1 \<union> set new2 =
      {i \<in> ids calls. remaining calls P i > 0 \<and> remaining calls (insert n P \<union> set queue) i = 0}"
    unfolding new1 p(4) using m by (auto simp del: Un_insert_left) (metis less_irrefl)+
  ultimately show ?case using l p by (intro exI [of _ deg'] exI [of _ "new1 @ new2"]) auto
qed (auto simp: deg_ok_def)

lemma ready_empty:
  assumes d: "distinct (map ci_id calls)" and "Range (waits calls) \<subseteq> ids calls" "acyclic (waits calls)"
    and "ready calls P = {}" "P \<subseteq> ids calls"
  shows "P = ids calls"
proof (rule ccontr)
  assume "P \<noteq> ids calls"
  with assms(5) obtain x where x: "x \<in> ids calls - P" by blast
  have "finite (waits calls)" unfolding waits_UN by auto
  then have "wf ((waits calls)\<inverse>)" using assms(3) by (rule finite_acyclic_wf_converse)
  from wfE_min [OF this x] obtain z where z: "z \<in> ids calls - P"
    "\<And>y. (y, z) \<in> (waits calls)\<inverse> \<Longrightarrow> y \<notin> ids calls - P" by blast
  have "set (blockers calls z) \<subseteq> P"
    using z(2) assms(2) by (auto simp: waits_iff [OF d] Range_iff subset_iff)
  with z(1) assms(4) show False by (auto simp: ready_def)
qed

lemma kahn_layers_ok:
  assumes d: "distinct (map ci_id calls)" and valid: "Range (waits calls) \<subseteq> ids calls" "acyclic (waits calls)"
  shows "distinct queue \<Longrightarrow> set queue = ready calls P \<Longrightarrow> P \<subseteq> ids calls \<Longrightarrow>
    (\<forall>i \<in> P. set (blockers calls i) \<subseteq> P) \<Longrightarrow> deg_ok calls P deg \<Longrightarrow>
    \<exists>layers. kahn_layers calls queue deg = Some layers \<and> layers_ok calls P layers"
proof (induction "card (ids calls - P)" arbitrary: queue P deg rule: less_induct)
  case less
  show ?case
  proof (cases "queue = []")
    case True
    with less.prems ready_empty [OF d valid _ less.prems(3)] show ?thesis
      by (subst kahn_layers.simps) auto
  next
    case False
    let ?P = "P \<union> set queue"
    from less.prems(2) have q: "set queue \<inter> P = {}" "set queue \<subseteq> ids calls" by (auto simp: ready_def)
    from process_layer_spec [OF d less.prems(1) q(1) less.prems(5), of "[]"] obtain deg' new where
      p: "process_layer calls queue deg [] = Some (deg', new)" "deg_ok calls ?P deg'" "distinct new"
        "set new = {i \<in> ids calls. remaining calls P i > 0 \<and> remaining calls ?P i = 0}" by auto
    have closed: "\<forall>i \<in> ?P. set (blockers calls i) \<subseteq> P" using less.prems(2,4) by (auto simp: ready_def)
    have "set new = {i \<in> ids calls. \<not> set (blockers calls i) \<subseteq> P \<and> set (blockers calls i) \<subseteq> ?P}"
      unfolding p(4) by (simp add: remaining_0 flip: neq0_conv)
    then have "set new = ready calls ?P" using closed less.prems(2) unfolding ready_def by blast
    moreover have "card (ids calls - ?P) < card (ids calls - P)"
      using False q by (intro psubset_card_mono) (auto simp: neq_Nil_conv)
    moreover have "?P \<subseteq> ids calls" using q less.prems(3) by simp
    ultimately obtain layers where "kahn_layers calls new deg' = Some layers" "layers_ok calls ?P layers"
      using less.hyps [of ?P new deg'] p(2,3) closed by auto
    with False p(1) less.prems(1,2) show ?thesis by (subst kahn_layers.simps) auto
  qed
qed

lemma kahn_sort_ok:
  assumes d: "distinct (map ci_id calls)" and "Range (waits calls) \<subseteq> ids calls" "acyclic (waits calls)"
  shows "\<exists>layers. kahn_sort calls (build_in_degree calls Map.empty) = Some layers \<and> layers_ok calls {} layers"
proof -
  let ?deg = "build_in_degree calls Map.empty"
  let ?q = "map ci_id (filter (\<lambda>c. (case ?deg (ci_id c) of None \<Rightarrow> 0 | Some n \<Rightarrow> n) = 0) calls)"
  note ok = build_in_degree_ok [OF d]
  have "distinct ?q" using d by (simp add: distinct_map_filter)
  moreover have "set ?q = ready calls {}"
    using ok remaining_0 [of calls "{}"] by (auto simp: ready_def deg_ok_def)
  ultimately show ?thesis
    using kahn_layers_ok [OF assms _ _ _ _ ok, of ?q] by (simp add: kahn_sort_def)
qed

subsection \<open>Running the layers\<close>

lemma execute_one_id: "execute_one i n tool params t = Ret r \<Longrightarrow> ri_call_id r = i \<and> ri_name r = n"
  by (auto simp: execute_one_def result_of_def timed_out_def Let_def
      split: option.splits completion.splits tool_outcome.splits cancel_end.splits if_splits)

lemma execute_one_status:
  "execute_one i n tool params t = Ret r \<Longrightarrow> ri_status r \<in> {''success'', ''error'', ''cancelled''}"
  by (auto simp: execute_one_def result_of_def timed_out_def Let_def
      split: option.splits completion.splits tool_outcome.splits cancel_end.splits if_splits)

lemma start_call_id:
  "start_call calls tools t i = Ret r \<Longrightarrow>
     \<exists>c. find_call calls i = Some c \<and> ri_call_id r = i \<and> ri_name r = ci_tool c"
  by (auto simp: start_call_def dest: execute_one_id split: option.splits)



lemma join_calls_map [simp]: "join_calls (map Ret xs) = Ret xs"
  by (induction xs) auto

lemma join_calls_Ret: "join_calls rs = Ret xs \<longleftrightarrow> rs = map Ret xs"
proof
  show "join_calls rs = Ret xs \<Longrightarrow> rs = map Ret xs"
    by (induction rs arbitrary: xs) (auto split: outcome.splits)
qed simp

lemma complete_layer_at:
  assumes "map (start_call calls tools t) layer = map Ret items"
  shows "complete_layer completed items i =
    (if i \<in> set layer then (case start_call calls tools t i of Ret r \<Rightarrow> Some r | _ \<Rightarrow> None) else completed i)"
  using assms
proof (induction layer arbitrary: items completed)
  case (Cons j layer)
  then obtain r rs where r: "items = r # rs" "start_call calls tools t j = Ret r"
    "map (start_call calls tools t) layer = map Ret rs" by (auto simp: map_eq_Cons_conv)
  have "complete_layer completed items = complete_layer (completed(j \<mapsto> r)) rs"
    using r(1) start_call_id [OF r(2)] by (auto simp: complete_layer_def)
  with Cons.IH [OF r(3), of "completed(j \<mapsto> r)"] r(2) show ?case by (simp add: fun_upd_def)
qed (simp add: complete_layer_def)

subsection \<open>The blocking chain\<close>

text \<open>\<open>(f, b)\<close>: call \<open>f\<close> names \<open>b\<close> among the calls it blocks.\<close>

definition blocking_chain :: "tool_call_item list \<Rightarrow> (string \<times> string) set" where
  "blocking_chain calls =
     {(f, b). b \<in> set (case find_call calls f of None \<Rightarrow> [] | Some c \<Rightarrow> ci_blocking c)}"

abbreviation downstream :: "tool_call_item list \<Rightarrow> string set \<Rightarrow> string set" where
  "downstream calls F \<equiv> (blocking_chain calls)\<^sup>+ `` F"

lemma cancel_blocked_new:
  assumes "cancel_blocked calls failed bs completed queue = (completed', queue')"
  shows "completed \<subseteq>\<^sub>m completed' \<and> set bs \<subseteq> dom completed' \<and>
    (\<forall>i \<in> dom completed' - dom completed. i \<in> set bs \<and> completed' i = Some (cancelled_by calls failed i)) \<and>
    (\<exists>new. queue' = queue @ new \<and> set new = dom completed' - dom completed)"
  using assms
proof (induction calls failed bs completed queue rule: cancel_blocked.induct)
  case (2 calls failed b bs completed queue)
  show ?case
  proof (cases "completed b")
    case None
    let ?m = "completed(b \<mapsto> cancelled_by calls failed b)"
    from 2(1) [OF None] 2(3) None have ih: "?m \<subseteq>\<^sub>m completed'" "set bs \<subseteq> dom completed'"
      "\<forall>i \<in> dom completed' - dom ?m. i \<in> set bs \<and> completed' i = Some (cancelled_by calls failed i)"
      "\<exists>new. queue' = queue @ [b] @ new \<and> set new = dom completed' - dom ?m"
      by (auto simp: fun_upd_def)
    from ih(1) have b: "completed' b = Some (cancelled_by calls failed b)" by (auto simp: map_le_def)
    have "completed \<subseteq>\<^sub>m completed'"
      using ih(1) None by (auto simp: map_le_def split: if_splits) (metis domI fun_upd_other option.distinct(1))
    moreover have "dom completed' - dom completed = insert b (dom completed' - dom ?m)"
      using b None by auto
    ultimately show ?thesis using ih b None by auto
  next
    case (Some r)
    with 2(2) 2(3) have "completed \<subseteq>\<^sub>m completed'" and rest: "set bs \<subseteq> dom completed' \<and>
      (\<forall>i \<in> dom completed' - dom completed. i \<in> set bs \<and> completed' i = Some (cancelled_by calls failed i)) \<and>
      (\<exists>new. queue' = queue @ new \<and> set new = dom completed' - dom completed)" by simp_all
    moreover from this(1) Some have "b \<in> dom completed'" by (metis domI map_le_def)
    ultimately show ?thesis by auto
  qed
qed simp

text \<open>
  The cascade: every new entry is a cancellation by a call of the chain, and the chain is
  followed from every call that failed or was cancelled.
\<close>

lemma cascade_loop_spec:
  fixes calls queue m
  defines "m' \<equiv> cascade_loop calls queue m"
  shows "m \<subseteq>\<^sub>m m' \<and> dom m' - dom m \<subseteq> downstream calls (set queue) \<and>
    (\<forall>i \<in> dom m' - dom m. \<exists>f. m' i = Some (cancelled_by calls f i) \<and> (f, i) \<in> blocking_chain calls \<and>
       (f \<in> set queue \<or> f \<in> dom m' - dom m)) \<and>
    (\<forall>x \<in> set queue \<union> (dom m' - dom m). \<forall>b. (x, b) \<in> blocking_chain calls \<longrightarrow> b \<in> dom m')"
  unfolding m'_def
proof (induction calls queue m rule: cascade_loop.induct)
  case (2 calls failed queue m)
  let ?C = "blocking_chain calls"
  obtain m1 q1 where c: "cancel_blocked calls failed
      (case find_call calls failed of None \<Rightarrow> [] | Some c \<Rightarrow> ci_blocking c) m queue = (m1, q1)"
    by (metis surj_pair)
  from cancel_blocked_new [OF c] obtain new where le1: "m \<subseteq>\<^sub>m m1" and new: "q1 = queue @ new" "set new = dom m1 - dom m"
    and one: "\<And>i. i \<in> dom m1 - dom m \<Longrightarrow> (failed, i) \<in> ?C \<and> m1 i = Some (cancelled_by calls failed i)"
    and all: "\<And>b. (failed, b) \<in> ?C \<Longrightarrow> b \<in> dom m1"
    by (auto simp: blocking_chain_def)
  define m' where "m' = cascade_loop calls q1 m1"
  from 2 [OF c [symmetric]] have le: "m1 \<subseteq>\<^sub>m m'" and down: "dom m' - dom m1 \<subseteq> downstream calls (set q1)"
    and via: "\<And>i. i \<in> dom m' - dom m1 \<Longrightarrow> \<exists>f. m' i = Some (cancelled_by calls f i) \<and> (f, i) \<in> ?C \<and>
       (f \<in> set q1 \<or> f \<in> dom m' - dom m1)"
    and closed: "\<And>x b. x \<in> set q1 \<union> (dom m' - dom m1) \<Longrightarrow> (x, b) \<in> ?C \<Longrightarrow> b \<in> dom m'"
    unfolding m'_def by blast+
  have e: "cascade_loop calls (failed # queue) m = m'" using c by (simp add: cascade_loop.simps(2) m'_def)
  from le1 le have doms: "dom m \<subseteq> dom m1" "dom m1 \<subseteq> dom m'" by (auto dest: map_le_implies_dom_le)
  have split: "i \<in> dom m' - dom m \<Longrightarrow> i \<in> dom m' - dom m1 \<or> i \<in> dom m1 - dom m" for i by blast
  have reach1: "i \<in> downstream calls (set (failed # queue))" if "i \<in> dom m1 - dom m" for i
    using one [OF that] by auto
  have "dom m' - dom m \<subseteq> downstream calls (set (failed # queue))"
  proof
    fix i assume "i \<in> dom m' - dom m"
    with split consider "i \<in> dom m1 - dom m" | "i \<in> downstream calls (set q1)" using down by blast
    then show "i \<in> downstream calls (set (failed # queue))"
    proof cases
      case 2
      then obtain x where x: "x \<in> set q1" "(x, i) \<in> ?C\<^sup>+" by blast
      show ?thesis
      proof (cases "x \<in> set queue")
        case False
        with x(1) new reach1 have "x \<in> downstream calls (set (failed # queue))" by simp
        with x(2) show ?thesis by (meson ImageE ImageI trancl_trans)
      qed (use x in auto)
    qed (rule reach1)
  qed
  moreover have "\<exists>f. m' i = Some (cancelled_by calls f i) \<and> (f, i) \<in> ?C \<and> (f \<in> set (failed # queue) \<or> f \<in> dom m' - dom m)"
    if "i \<in> dom m' - dom m" for i
  proof (cases "i \<in> dom m1 - dom m")
    case True
    with one [OF this] le show ?thesis by (intro exI [of _ failed]) (auto simp: map_le_def)
  next
    case False
    with that via obtain f where "m' i = Some (cancelled_by calls f i)" "(f, i) \<in> ?C" "f \<in> set q1 \<or> f \<in> dom m' - dom m1"
      by blast
    with new doms show ?thesis by (intro exI [of _ f]) auto
  qed
  moreover have "b \<in> dom m'" if "x \<in> set (failed # queue) \<union> (dom m' - dom m)" "(x, b) \<in> ?C" for x b
  proof (cases "x = failed")
    case True
    with that(2) all doms show ?thesis by blast
  next
    case False
    with that(1) new doms have "x \<in> set q1 \<union> (dom m' - dom m1)" by auto
    with closed that(2) show ?thesis by blast
  qed
  moreover have "m \<subseteq>\<^sub>m m'" using le1 le by (rule map_le_trans)
  ultimately show ?case unfolding e by blast
qed simp

subsection \<open>What the layers leave\<close>

text \<open>The results of exactly the calls \<open>S\<close>, each its own run's.\<close>

definition ran ::
  "tool_call_item list \<Rightarrow> (string \<rightharpoonup> tool) \<Rightarrow> millis option \<Rightarrow> string set
    \<Rightarrow> (string \<rightharpoonup> tool_result_item) \<Rightarrow> bool" where
  "ran calls tools t S m \<longleftrightarrow> dom m = S \<and> (\<forall>i \<in> S. \<exists>r. start_call calls tools t i = Ret r \<and> m i = Some r)"

abbreviation good :: "(string \<rightharpoonup> tool_result_item) \<Rightarrow> string \<Rightarrow> bool" where
  "good m i \<equiv> (\<exists>r. m i = Some r \<and> succeeded r)"

text \<open>
  Either all layers ran and every call succeeded, or the last layer started has a failed call
  and the rest is left to the cascade.
\<close>

lemma run_layers_spec:
  assumes "run_layers calls tools t layers m0 = (Ret m', started)" and "ran calls tools t P m0"
  shows "prefix started layers \<and> (\<exists>m. ran calls tools t (P \<union> set (concat started)) m \<and>
    (\<forall>i \<in> set (concat (butlast started)). good m i) \<and>
    (if \<forall>i \<in> set (concat started). good m i then started = layers \<and> m' = m
     else started \<noteq> [] \<and> m' = cascade_cancel calls m))"
  using assms
proof (induction layers arbitrary: P m0 started)
  case (Cons layer layers)
  from Cons.prems(1) obtain items where i: "map (start_call calls tools t) layer = map Ret items"
    by (auto simp: join_calls_Ret split: if_splits outcome.splits)
  let ?m = "complete_layer m0 items"
  have one: "\<exists>r \<in> set items. start_call calls tools t j = Ret r" if "j \<in> set layer" for j
    using i that by (metis (no_types, lifting) image_eqI image_iff set_map)
  have ran: "ran calls tools t (P \<union> set layer) ?m"
    using Cons.prems(2) one unfolding ran_def
    by (auto simp: complete_layer_at [OF i] split: if_splits) (fastforce split: outcome.splits)+
  have good: "good ?m j \<longleftrightarrow> (\<exists>r \<in> set items. start_call calls tools t j = Ret r \<and> succeeded r)" if "j \<in> set layer" for j
    using one [OF that] that by (auto simp: complete_layer_at [OF i])
  have items: "\<exists>j \<in> set layer. start_call calls tools t j = Ret r" if "r \<in> set items" for r
    using i that by (metis (no_types, lifting) image_eqI image_iff set_map)
  show ?case
  proof (cases "list_all succeeded items")
    case True
    with Cons.prems(1) i obtain started' where s: "started = layer # started'"
      and r: "run_layers calls tools t layers ?m = (Ret m', started')"
      by (auto simp: Let_def split: if_splits prod.splits)
    from Cons.IH [OF r ran] obtain m where ih: "prefix started' layers"
      "ran calls tools t (P \<union> set layer \<union> set (concat started')) m"
      "\<forall>i \<in> set (concat (butlast started')). good m i"
      "if \<forall>i \<in> set (concat started'). good m i then started' = layers \<and> m' = m
       else started' \<noteq> [] \<and> m' = cascade_cancel calls m" by blast
    have layer: "good m j" if "j \<in> set layer" for j
      using one [OF that] that ih(2) True by (fastforce simp: ran_def list_all_iff)
    have "ran calls tools t (P \<union> set (concat started)) m" using ih(2) s by (simp add: Un_assoc)
    moreover have "\<forall>i \<in> set (concat (butlast started)). good m i" using ih(3) layer s by auto
    moreover have "(\<forall>i \<in> set (concat started). good m i) \<longleftrightarrow> (\<forall>i \<in> set (concat started'). good m i)"
      using layer s by auto
    moreover from ih(4) s calculation(3) have "if \<forall>i \<in> set (concat started). good m i
        then started = layer # layers \<and> m' = m else started \<noteq> [] \<and> m' = cascade_cancel calls m"
      by (auto split: if_splits)
    ultimately show ?thesis using ih(1) s by (intro conjI exI [of _ m]) simp_all
  next
    case False
    with Cons.prems(1) i have s: "started = [layer]" and c: "m' = cascade_cancel calls ?m"
      by (auto simp: Let_def split: if_splits)
    from False obtain r where "r \<in> set items" "\<not> succeeded r" by (auto simp: list_all_iff)
    with items obtain j where "j \<in> set layer" "start_call calls tools t j = Ret r" by blast
    with good \<open>\<not> succeeded r\<close> s have bad: "\<not> (\<forall>i \<in> set (concat started). good ?m i)" by force
    have "if \<forall>i \<in> set (concat started). good ?m i then started = layer # layers \<and> m' = ?m
        else started \<noteq> [] \<and> m' = cascade_cancel calls ?m"
      unfolding if_not_P [OF bad] using s c by simp
    moreover have "prefix started (layer # layers)" "ran calls tools t (P \<union> set (concat started)) ?m"
      "\<forall>i \<in> set (concat (butlast started)). good ?m i" using ran s by simp_all
    ultimately show ?thesis by blast
  qed
qed simp

lemma layers_ok_nth:
  "layers_ok calls P ls \<Longrightarrow> k < length ls \<Longrightarrow> set (ls ! k) = ready calls (P \<union> set (concat (take k ls)))"
proof (induction ls arbitrary: P k)
  case (Cons l ls)
  then show ?case by (cases k) (auto simp: Un_assoc)
qed simp

lemma layers_ok_ids: "layers_ok calls P ls \<Longrightarrow> set (concat ls) \<subseteq> ids calls"
  by (induction ls arbitrary: P) (auto simp: ready_def)

lemma layers_ok_all: "layers_ok calls P ls \<Longrightarrow> P \<union> set (concat ls) = ids calls"
proof (induction ls arbitrary: P)
  case (Cons l ls)
  then have "P \<union> set l \<union> set (concat ls) = ids calls" by (metis layers_ok.simps(2))
  then show ?case by (simp add: Un_assoc)
qed simp

lemma layers_ok_distinct: "layers_ok calls P ls \<Longrightarrow> distinct (concat ls) \<and> set (concat ls) \<inter> P = {}"
proof (induction ls arbitrary: P)
  case (Cons l ls)
  from Cons.prems have l: "distinct l" "set l \<inter> P = {}" by (auto simp: ready_def)
  from Cons.prems have "layers_ok calls (P \<union> set l) ls" by (metis layers_ok.simps(2))
  note ls = conjunct1 [OF Cons.IH [OF this]] conjunct2 [OF Cons.IH [OF this]]
  from ls(2) l have "set l \<inter> set (concat ls) = {}" "(set l \<union> set (concat ls)) \<inter> P = {}" by blast+
  with l ls show ?case by simp
qed simp

text \<open>The three ways through \<^verbatim>\<open>execute\<close>: nothing to do, the set is refused, the layers are run.\<close>

lemma execute_cases:
  assumes d: "distinct (map ci_id (cs_calls cset))" and e: "execute cset tools = (r, started)"
  obtains
    (refused) msg where "started = []"
      "r = Ret \<lparr>rs_session_id = cs_session_id cset, rs_results = error_all (cs_calls cset) msg\<rparr>"
      "cs_calls cset = [] \<or> validate_bidirectional_lock (cs_calls cset) \<noteq> None \<or> detect_cycle (cs_calls cset) \<noteq> None"
  | (layered) layers m where "layers_ok (cs_calls cset) {} layers"
      "validate_bidirectional_lock (cs_calls cset) = None" "detect_cycle (cs_calls cset) = None"
      "run_layers (cs_calls cset) tools (cs_timeout_ms cset) layers Map.empty = (Ret m, started)"
      "r = Ret \<lparr>rs_session_id = cs_session_id cset, rs_results = assemble (cs_calls cset) m\<rparr>"
  | (stuck) layers x where "layers_ok (cs_calls cset) {} layers"
      "run_layers (cs_calls cset) tools (cs_timeout_ms cset) layers Map.empty = (x, started)"
      "\<And>m. x \<noteq> Ret m" "\<And>rs. r \<noteq> Ret rs"
proof (cases "cs_calls cset = [] \<or> validate_bidirectional_lock (cs_calls cset) \<noteq> None \<or>
               detect_cycle (cs_calls cset) \<noteq> None")
  case True
  then have "\<exists>msg. started = [] \<and>
      r = Ret \<lparr>rs_session_id = cs_session_id cset, rs_results = error_all (cs_calls cset) msg\<rparr>"
    using e by (auto simp: execute_def Let_def error_all_def validate_bidirectional_lock_def
        split: if_splits option.splits list.splits)
  with refused True show ?thesis by blast
next
  case False
  from False detect_cycle_iff [OF d] kahn_sort_ok [OF d] obtain layers where
    l: "kahn_sort (cs_calls cset) (build_in_degree (cs_calls cset) Map.empty) = Some layers"
      "layers_ok (cs_calls cset) {} layers" by auto
  obtain x s where x: "run_layers (cs_calls cset) tools (cs_timeout_ms cset) layers Map.empty = (x, s)"
    by (metis surj_pair)
  from e False l x show ?thesis
    by (cases x) (auto simp: execute_def Let_def intro: layered stuck [where x = x])
qed

lemma cascade_cancel_le: "m \<subseteq>\<^sub>m cascade_cancel calls m"
  using cascade_loop_spec unfolding cascade_cancel_def by blast

lemma run_from_start:
  assumes "run_layers calls tools t layers Map.empty = (Ret m, started)"
  shows "\<exists>m1 rest. layers = started @ rest \<and> ran calls tools t (set (concat started)) m1 \<and> m1 \<subseteq>\<^sub>m m \<and>
    (\<forall>i \<in> set (concat (butlast started)). good m1 i) \<and>
    ((rest = [] \<and> m = m1 \<and> (\<forall>i \<in> set (concat started). good m1 i)) \<or>
     (started \<noteq> [] \<and> (\<exists>i \<in> set (concat started). \<not> good m1 i) \<and> m = cascade_cancel calls m1))"
proof -
  have "ran calls tools t {} Map.empty" by (simp add: ran_def)
  from run_layers_spec [OF assms this] obtain m1 where p: "prefix started layers"
    and ran: "ran calls tools t (set (concat started)) m1"
    and succ: "\<forall>i \<in> set (concat (butlast started)). good m1 i"
    and m: "if \<forall>i \<in> set (concat started). good m1 i then started = layers \<and> m = m1
            else started \<noteq> [] \<and> m = cascade_cancel calls m1" by (simp only: Un_empty_left) blast
  from p obtain rest where rest: "layers = started @ rest" by (auto simp: prefix_def)
  show ?thesis
  proof (cases "\<forall>i \<in> set (concat started). good m1 i")
    case True
    with m rest have e: "rest = []" "m = m1" by simp_all
    then have "m1 \<subseteq>\<^sub>m m" by simp
    with rest ran succ e True show ?thesis by blast
  next
    case False
    from m [unfolded if_not_P [OF False]] have e: "started \<noteq> []" "m = cascade_cancel calls m1" by simp_all
    with rest ran succ False cascade_cancel_le show ?thesis by blast
  qed
qed

text \<open>
  C6: no call starts before what it waits for. For calls with different ids: a call of
  layer \<open>k\<close> has all its blockers in earlier layers, and each of them has succeeded. No call
  is started twice, and only calls of the set are started.
\<close>

theorem executor_respects_dependencies:
  assumes d: "distinct (map ci_id (cs_calls cset))" and e: "execute cset tools = (Ret rs, started)"
    and k: "k < length started" "ci_id c \<in> set (started ! k)" "c \<in> set (cs_calls cset)"
    and b: "b \<in> set (ci_blocked_by c)"
  shows "(\<exists>j < k. b \<in> set (started ! j)) \<and> (\<exists>r \<in> set (rs_results rs). ri_call_id r = b \<and> succeeded r) \<and>
    distinct (concat started) \<and> set (concat started) \<subseteq> ids (cs_calls cset)"
  using d e
proof (cases rule: execute_cases)
  case (layered layers m)
  let ?calls = "cs_calls cset"
  from run_from_start [OF layered(4)] obtain m1 rest where rest: "layers = started @ rest"
    and ran: "ran ?calls tools (cs_timeout_ms cset) (set (concat started)) m1" and le: "m1 \<subseteq>\<^sub>m m"
    and succ: "\<forall>i \<in> set (concat (butlast started)). good m1 i" by blast
  have "set (started ! k) = ready ?calls (set (concat (take k started)))"
    using layers_ok_nth [OF layered(1), of k] k(1) rest by (simp add: nth_append)
  with k(2) b have "b \<in> set (concat (take k started))"
    by (auto simp: ready_def blockers_def find_call_self [OF d k(3)])
  then obtain l where "l \<in> set (take k started)" "b \<in> set l" by auto
  then obtain j where j: "j < k" "b \<in> set (started ! j)"
    by (auto simp: in_set_conv_nth [where xs = "take k started"])
  with k(1) have "j < length (butlast started)" by simp
  from nth_mem [OF this] nth_butlast [OF this] have "started ! j \<in> set (butlast started)" by simp
  with succ j obtain r where r: "m1 b = Some r" "succeeded r" by fastforce
  with ran have rid: "ri_call_id r = b" by (force simp: ran_def dest!: start_call_id)
  from j k(1) have "started ! j \<in> set started" by simp
  with j(2) have bs: "b \<in> set (concat started)" by (simp only: set_concat) blast
  with layers_ok_ids [OF layered(1)] rest have "b \<in> ids ?calls" by auto
  then obtain c' where c': "c' \<in> set ?calls" "ci_id c' = b" by auto
  from r(1) le have "m b = Some r" by (metis domI map_le_def)
  with c' have "r \<in> set (rs_results rs)"
    using layered(5) by (force simp: assemble_def)
  moreover have "distinct (concat started)" "set (concat started) \<subseteq> ids ?calls"
    using layers_ok_distinct [OF layered(1)] layers_ok_ids [OF layered(1)] rest by auto
  ultimately show ?thesis using j r(2) rid by blast
qed (use k(1) in auto)

text \<open>
  The lock of the blocking chain: a call named as blocked by a call that has not succeeded
  was not started.
\<close>

lemma chain_not_started:
  assumes d: "distinct (map ci_id calls)" and ok: "layers_ok calls {} (started @ rest)"
    and lock: "validate_bidirectional_lock calls = None"
    and f: "f \<notin> set (concat (butlast started))" and fb: "(f, b) \<in> blocking_chain calls"
  shows "b \<notin> set (concat started)"
proof
  assume "b \<in> set (concat started)"
  then obtain k where k: "k < length started" "b \<in> set (started ! k)" by (auto simp: in_set_conv_nth [where xs = started])
  have "set (started ! k) = ready calls (set (concat (take k started)))"
    using layers_ok_nth [OF ok, of k] k(1) by (simp add: nth_append)
  with k(2) have deps: "set (blockers calls b) \<subseteq> set (concat (take k started))" "b \<in> ids calls" by (auto simp: ready_def)
  from fb obtain c where c: "find_call calls f = Some c" "b \<in> set (ci_blocking c)"
    by (cases "find_call calls f") (auto simp: blocking_chain_def)
  then have cin: "c \<in> set calls" "ci_id c = f" by (auto dest: find_call_in)
  from deps(2) obtain cb where cb: "find_call calls b = Some cb"
    using find_call_None [of calls b] by auto
  have "lock_error calls c b = None"
  proof (rule ccontr)
    assume "lock_error calls c b \<noteq> None"
    then obtain e where "e \<in> set (List.map_filter (lock_error calls c) (ci_blocking c))"
      using c(2) by (force simp: List.map_filter_def)
    with cin(1) lock show False
      by (force simp: validate_bidirectional_lock_def split: list.splits)
  qed
  with cb cin have "f \<in> set (ci_blocked_by cb)" by (simp add: lock_error_def split: if_splits)
  with deps(1) cb have "f \<in> set (concat (take k started))" by (auto simp: blockers_def)
  moreover from k(1) have "take k started = take k (butlast started)" by (simp add: take_butlast)
  then have "set (take k started) \<subseteq> set (butlast started)" by (metis set_take_subset)
  ultimately show False using f by auto
qed

text \<open>After a failure the cascade reaches exactly what is downstream of the failed calls.\<close>

lemma cascade_downstream:
  assumes d: "distinct (map ci_id calls)" and ok: "layers_ok calls {} (started @ rest)"
    and lock: "validate_bidirectional_lock calls = None" and dom: "dom m = set (concat started)"
    and succ: "\<forall>i \<in> set (concat (butlast started)). good m i"
  defines "F \<equiv> {i \<in> dom m. \<not> good m i}"
  shows "dom (cascade_cancel calls m) - dom m = downstream calls F"
    and "i \<in> downstream calls F \<Longrightarrow> \<exists>f \<in> F \<union> downstream calls F. (f, i) \<in> blocking_chain calls \<and>
      cascade_cancel calls m i = Some (cancelled_by calls f i)"
proof -
  let ?q = "map ci_id (filter (\<lambda>c. case m (ci_id c) of None \<Rightarrow> False | Some r \<Rightarrow> \<not> succeeded r) calls)"
  let ?m = "cascade_cancel calls m"
  have "dom m \<subseteq> ids calls" using layers_ok_ids [OF ok] dom by auto
  have q: "set ?q = F"
  proof (intro set_eqI iffI)
    fix i assume "i \<in> set ?q"
    then show "i \<in> F" by (auto simp: F_def split: option.splits)
  next
    fix i assume i: "i \<in> F"
    with \<open>dom m \<subseteq> ids calls\<close> obtain c where c: "c \<in> set calls" "ci_id c = i" by (auto simp: F_def)
    from i obtain r where "m i = Some r" "\<not> succeeded r" by (auto simp: F_def)
    with c show "i \<in> set ?q" by force
  qed
  note spec = cascade_loop_spec [of m calls ?q, folded cascade_cancel_def, unfolded q]
  have "x \<in> F \<union> (dom ?m - dom m) \<and> (x, b) \<in> blocking_chain calls \<longrightarrow> b \<in> dom ?m - dom m" for x b
  proof (intro impI)
    assume x: "x \<in> F \<union> (dom ?m - dom m) \<and> (x, b) \<in> blocking_chain calls"
    with spec have "b \<in> dom ?m" by blast
    moreover have "x \<notin> set (concat (butlast started))"
    proof
      assume b: "x \<in> set (concat (butlast started))"
      then have "x \<in> set (concat started)" by (auto dest: in_set_butlastD)
      with x succ b show False unfolding dom F_def by auto
    qed
    then have "b \<notin> dom m" using chain_not_started [OF d ok lock] x unfolding dom by blast
    ultimately show "b \<in> dom ?m - dom m" by blast
  qed
  then have closed: "x \<in> F \<union> (dom ?m - dom m) \<Longrightarrow> (x, b) \<in> blocking_chain calls \<Longrightarrow> b \<in> dom ?m - dom m" for x b
    by blast
  have "y \<in> dom ?m - dom m" if "(x, y) \<in> (blocking_chain calls)\<^sup>+" "x \<in> F" for x y
    using that
  proof (induction rule: trancl_induct)
    case (base y)
    then show ?case using closed [OF UnI1, of x y] by simp
  next
    case (step y z)
    then show ?case using closed [OF UnI2, of y z] by simp
  qed
  then have "downstream calls F \<subseteq> dom ?m - dom m" by blast
  moreover from spec have "dom ?m - dom m \<subseteq> downstream calls F" by (elim conjE)
  ultimately show eq: "dom ?m - dom m = downstream calls F" by (rule equalityI [rotated])
  show "\<exists>f \<in> F \<union> downstream calls F. (f, i) \<in> blocking_chain calls \<and> ?m i = Some (cancelled_by calls f i)"
    if "i \<in> downstream calls F"
  proof -
    from that have "i \<in> dom ?m - dom m" by (simp only: eq)
    with spec obtain f where "?m i = Some (cancelled_by calls f i)" "(f, i) \<in> blocking_chain calls"
      "f \<in> F \<or> f \<in> dom ?m - dom m" by blast
    then show ?thesis unfolding eq by blast
  qed
qed

text \<open>
  C7: what the results say. For calls with different ids, when \<^verbatim>\<open>execute\<close> returns, there is one
  result for each call, in the order of the calls and with its id and tool: a success, an error or
  a cancellation. A set with an inconsistent lock, an unknown dependency or a cycle starts nothing and
  every result is the same error. Otherwise a call that was started has the result of its own run;
  all calls are started if none that was started failed; and if some failed, they are in the last
  layer started, a call that was not started and is downstream of a failure along the blocking chain is
  cancelled in the name of a call that blocks it and failed or was cancelled itself, and every other
  call that was not started is reported as not run.
\<close>

theorem executor_results:
  assumes d: "distinct (map ci_id (cs_calls cset))" and e: "execute cset tools = (Ret rs, started)"
  defines "calls \<equiv> cs_calls cset"
  defines "runs \<equiv> set (concat started)"
  defines "failed \<equiv> {i \<in> runs. \<exists>r \<in> set (rs_results rs). ri_call_id r = i \<and> \<not> succeeded r}"
  shows "map ri_call_id (rs_results rs) = map ci_id calls \<and> map ri_name (rs_results rs) = map ci_tool calls \<and>
    (\<forall>r \<in> set (rs_results rs). ri_status r \<in> {''success'', ''error'', ''cancelled''}) \<and>
    (if validate_bidirectional_lock calls \<noteq> None \<or> detect_cycle calls \<noteq> None
     then started = [] \<and> (\<exists>msg. rs_results rs = error_all calls msg)
     else (if failed = {} then runs = ids calls else failed \<subseteq> set (last started)) \<and>
       (\<forall>k < length calls.
          (let c = calls ! k; r = rs_results rs ! k
           in if ci_id c \<in> runs
              then execute_one (ci_id c) (ci_tool c) (tools (ci_tool c)) (ci_params c) (cs_timeout_ms cset) = Ret r
              else if ci_id c \<in> downstream calls failed
              then \<exists>f \<in> failed \<union> downstream calls failed.
                     (f, ci_id c) \<in> blocking_chain calls \<and> r = cancelled_by calls f (ci_id c)
              else r = not_run c)))"
  using d e
proof (cases rule: execute_cases)
  case (refused msg)
  have "detect_cycle [] = None" "validate_bidirectional_lock [] = None"
    by (simp_all add: detect_cycle_def unknown_refs_def validate_bidirectional_lock_def)
  with refused show ?thesis by (auto simp: error_all_def calls_def runs_def failed_def)
next
  case (layered layers m)
  have dc: "distinct (map ci_id calls)" using d by (simp add: calls_def)
  from run_from_start [OF layered(4)] obtain m1 rest where rest: "layers = started @ rest"
    and ran: "ran calls tools (cs_timeout_ms cset) runs m1" and le: "m1 \<subseteq>\<^sub>m m"
    and succ: "\<forall>i \<in> set (concat (butlast started)). good m1 i"
    and m: "(rest = [] \<and> m = m1 \<and> (\<forall>i \<in> runs. good m1 i)) \<or>
      (started \<noteq> [] \<and> (\<exists>i \<in> runs. \<not> good m1 i) \<and> m = cascade_cancel calls m1)"
    unfolding calls_def runs_def by blast
  have ok: "layers_ok calls {} (started @ rest)" using layered(1) rest by (simp add: calls_def)
  have dom1: "dom m1 = runs" using ran by (simp add: ran_def)
  have runs_ids: "runs \<subseteq> ids calls" using layers_ok_ids [OF ok] by (auto simp: runs_def)
  define res where "res c = (case m (ci_id c) of Some r \<Rightarrow> r | None \<Rightarrow> not_run c)" for c
  have rs: "rs_results rs = map res calls" using layered(5) by (simp add: assemble_def res_def calls_def)
  have valid: "validate_bidirectional_lock calls = None" "detect_cycle calls = None"
    using layered(2,3) by (simp_all add: calls_def)
  have own: "execute_one (ci_id c) (ci_tool c) (tools (ci_tool c)) (ci_params c) (cs_timeout_ms cset) = Ret (res c) \<and>
      m1 (ci_id c) = Some (res c)" if "c \<in> set calls" "ci_id c \<in> runs" for c
  proof -
    from ran that(2) obtain r where r: "start_call calls tools (cs_timeout_ms cset) (ci_id c) = Ret r" "m1 (ci_id c) = Some r"
      unfolding ran_def by blast
    with le have "m (ci_id c) = Some r" by (metis domI map_le_def)
    with r that(1) show ?thesis by (simp add: res_def start_call_def find_call_self [OF dc])
  qed
  define F where "F = {i \<in> dom m1. \<not> good m1 i}"
  have rest_of: "if ci_id c \<in> downstream calls F
      then \<exists>f \<in> F \<union> downstream calls F. (f, ci_id c) \<in> blocking_chain calls \<and> res c = cancelled_by calls f (ci_id c)
      else res c = not_run c" if c: "c \<in> set calls" "ci_id c \<notin> runs" for c
  proof (cases "F = {}")
    case True
    then have "\<forall>i \<in> runs. good m1 i" by (auto simp: F_def dom1)
    with m have "rest = []" by blast
    with ok layers_ok_all [of calls "{}" started] have "runs = ids calls" by (simp add: runs_def)
    with c show ?thesis by auto
  next
    case False
    then have "\<not> (\<forall>i \<in> runs. good m1 i)" by (auto simp: F_def dom1)
    with m have "m = cascade_cancel calls m1" by blast
    note down = cascade_downstream [OF dc ok valid(1) dom1 [unfolded runs_def] succ, folded F_def this]
    show ?thesis
    proof (cases "ci_id c \<in> downstream calls F")
      case True
      from down(2) [OF this] obtain f where "f \<in> F \<union> downstream calls F" "(f, ci_id c) \<in> blocking_chain calls"
        "m (ci_id c) = Some (cancelled_by calls f (ci_id c))" by blast
      then have "\<exists>f \<in> F \<union> downstream calls F. (f, ci_id c) \<in> blocking_chain calls \<and> res c = cancelled_by calls f (ci_id c)"
        unfolding res_def by (intro bexI [of _ f]) simp_all
      with True show ?thesis by (simp only: if_True)
    next
      case False
      with down(1) c(2) dom1 have "ci_id c \<notin> dom m" by blast
      then have "res c = not_run c" by (simp add: res_def domIff)
      with False show ?thesis by (simp only: if_False)
    qed
  qed
  have ids: "ri_call_id (res c) = ci_id c \<and> ri_name (res c) = ci_tool c \<and>
      ri_status (res c) \<in> {''success'', ''error'', ''cancelled''}" if c: "c \<in> set calls" for c
  proof (cases "ci_id c \<in> runs")
    case True
    with own [OF c] execute_one_id execute_one_status show ?thesis by metis
  next
    case False
    with rest_of [OF c False] show ?thesis
      by (auto simp: not_run_def cancelled_by_def find_call_self [OF dc c] split: if_splits)
  qed
  have failed: "failed = F"
  proof (intro set_eqI iffI)
    fix i assume "i \<in> failed"
    then obtain c where c: "i \<in> runs" "c \<in> set calls" "ri_call_id (res c) = i" "\<not> succeeded (res c)"
      by (auto simp: failed_def rs)
    with ids have i: "ci_id c = i" by simp
    with own [OF c(2)] c(1) have "m1 i = Some (res c)" by simp
    with c(1,4) show "i \<in> F" by (simp add: F_def dom1)
  next
    fix i assume i: "i \<in> F"
    then have "i \<in> runs" by (simp add: F_def dom1)
    with runs_ids obtain c where c: "c \<in> set calls" "ci_id c = i" by auto
    with own [of c] i \<open>i \<in> runs\<close> have "\<not> succeeded (res c)" by (auto simp: F_def)
    with c ids \<open>i \<in> runs\<close> show "i \<in> failed" by (auto simp: failed_def rs)
  qed
  have "if failed = {} then runs = ids calls else failed \<subseteq> set (last started)"
  proof (cases "F = {}")
    case True
    then have "\<forall>i \<in> runs. good m1 i" by (auto simp: F_def dom1)
    with m have "rest = []" by blast
    with ok True failed show ?thesis using layers_ok_all [of calls "{}" started] by (simp add: runs_def)
  next
    case False
    have "F \<subseteq> set (last started)"
    proof
      fix i assume i: "i \<in> F"
      then have "i \<notin> set (concat (butlast started))" "i \<in> set (concat started)"
        using succ dom1 by (auto simp: F_def runs_def)
      then show "i \<in> set (last started)" by (cases started rule: rev_cases) auto
    qed
    with False failed show ?thesis by simp
  qed
  moreover have "\<forall>k < length calls. (let c = calls ! k; r = rs_results rs ! k
      in if ci_id c \<in> runs
         then execute_one (ci_id c) (ci_tool c) (tools (ci_tool c)) (ci_params c) (cs_timeout_ms cset) = Ret r
         else if ci_id c \<in> downstream calls failed
         then \<exists>f \<in> failed \<union> downstream calls failed. (f, ci_id c) \<in> blocking_chain calls \<and> r = cancelled_by calls f (ci_id c)
         else r = not_run c)"
    using own rest_of unfolding failed rs Let_def by (simp add: nth_mem)
  ultimately show ?thesis
    using ids valid by (simp add: rs)
qed blast


subsection \<open>Examples\<close>

text \<open>Two calls in a row and one that fails beside them.\<close>

definition demo_set :: "millis option \<Rightarrow> tool_call_set" where
  "demo_set t =
     \<lparr>cs_session_id = ''s'',
      cs_calls = [\<lparr>ci_id = ''a'', ci_tool = ''bad'', ci_params = JNull, ci_blocked_by = [], ci_blocking = []\<rparr>,
                  call ''b'' [] [''c''], call ''c'' [''b''] []],
      cs_timeout_ms = t\<rparr>"

definition demo_tools :: "string \<rightharpoonup> tool" where
  "demo_tools = [''t'' \<mapsto> plain_tool (\<lambda>i p. After 5 (Value (JStr i))), ''bad'' \<mapsto> plain_tool (\<lambda>i p. Never)]"

definition demo_good :: "tool_call_set" where
  "demo_good = \<lparr>cs_session_id = ''s'', cs_calls = [call ''c'' [''b''] [], call ''b'' [] [''c'']], cs_timeout_ms = None\<rparr>"

lemma demo_good_runs:
  "snd (execute demo_good demo_tools) = [[''b''], [''c'']] \<and>
   (case fst (execute demo_good demo_tools) of Ret rs \<Rightarrow> map ri_status (rs_results rs) = [''success'', ''success'']
    | _ \<Rightarrow> False)"
  by code_simp

theorem executor_respects_dependencies_witness:
  "\<exists>rs. execute demo_good demo_tools = (Ret rs, [[''b''], [''c'']]) \<and>
     (\<exists>r \<in> set (rs_results rs). ri_call_id r = ''b'' \<and> succeeded r)"
proof -
  obtain rs where e: "execute demo_good demo_tools = (Ret rs, [[''b''], [''c'']])"
    using demo_good_runs by (cases "execute demo_good demo_tools") (auto split: outcome.splits)
  have d: "distinct (map ci_id (cs_calls demo_good))" by (simp add: demo_good_def call_def)
  have "(\<exists>r \<in> set (rs_results rs). ri_call_id r = ''b'' \<and> succeeded r)"
    using executor_respects_dependencies [OF d e, of 1 "call ''c'' [''b''] []" "''b''"]
    by (simp add: demo_good_def call_def)
  with e show ?thesis by blast
qed

text \<open>A failing call, one it blocks, one that this one blocks in turn, and one that only waits for a success.\<close>

definition chain_set :: "tool_call_set" where
  "chain_set =
     \<lparr>cs_session_id = ''s'',
      cs_calls = [\<lparr>ci_id = ''a'', ci_tool = ''bad'', ci_params = JNull, ci_blocked_by = [], ci_blocking = [''b'']\<rparr>,
                  call ''b'' [''a''] [''c''], call ''c'' [''b''] [], call ''d'' [] [''e''], call ''e'' [''d''] []],
      cs_timeout_ms = Some 9\<rparr>"

lemma chain_set_runs:
  "snd (execute chain_set demo_tools) = [[''a'', ''d'']] \<and> (\<exists>rs. fst (execute chain_set demo_tools) = Ret rs)"
proof -
  have "(case fst (execute chain_set demo_tools) of Ret _ \<Rightarrow> True | _ \<Rightarrow> False) \<and>
      snd (execute chain_set demo_tools) = [[''a'', ''d'']]" by code_simp
  then show ?thesis by (auto split: outcome.splits)
qed

theorem executor_results_witness:
  "\<exists>rs. execute chain_set demo_tools = (Ret rs, [[''a'', ''d'']]) \<and>
     map ri_call_id (rs_results rs) = [''a'', ''b'', ''c'', ''d'', ''e''] \<and>
     rs_results rs ! 3 = result_of ''d'' ''t'' (Value (JStr ''d'')) \<and> \<not> succeeded (rs_results rs ! 1)"
proof -
  obtain rs where e: "execute chain_set demo_tools = (Ret rs, [[''a'', ''d'']])"
    using chain_set_runs by (cases "execute chain_set demo_tools") auto
  have d: "distinct (map ci_id (cs_calls chain_set))" by (simp add: chain_set_def call_def)
  have v: "validate_bidirectional_lock (cs_calls chain_set) = None" "detect_cycle (cs_calls chain_set) = None"
    by code_simp+
  from executor_results [OF d e] v have ids: "map ri_call_id (rs_results rs) = map ci_id (cs_calls chain_set)"
    and all: "\<forall>k < length (cs_calls chain_set). (let c = cs_calls chain_set ! k; r = rs_results rs ! k
      in if ci_id c \<in> {''a'', ''d''}
         then execute_one (ci_id c) (ci_tool c) (demo_tools (ci_tool c)) (ci_params c) (cs_timeout_ms chain_set) = Ret r
         else \<not> succeeded r)"
    by (auto simp: Let_def not_run_def cancelled_by_def split: if_splits)
  from all [rule_format, of 3] have "rs_results rs ! 3 = result_of ''d'' ''t'' (Value (JStr ''d''))"
    by (simp add: chain_set_def call_def execute_one_def demo_tools_def plain_tool_def Let_def)
  moreover from all [rule_format, of 1] have "\<not> succeeded (rs_results rs ! 1)"
    by (simp add: chain_set_def call_def Let_def)
  ultimately show ?thesis using e ids by (simp add: chain_set_def call_def)
qed


text \<open>
  A failure stops all later layers, not only the calls along the blocking chain: call \<open>c\<close>
  waits for \<open>b\<close> alone, \<open>b\<close> succeeded, and \<open>c\<close> is reported as cancelled because an upstream
  dependency failed.
\<close>

lemma independent_call_cancelled:
  "snd (execute (demo_set (Some 9)) demo_tools) = [[''a'', ''b'']] \<and>
   (case fst (execute (demo_set (Some 9)) demo_tools) of
      Ret rs \<Rightarrow> map ri_status (rs_results rs) = [''cancelled'', ''success'', ''cancelled''] \<and>
                map ri_error (rs_results rs) =
                  [Some ''timeout'', None, Some ''cancelled: upstream dependency failed'']
    | _ \<Rightarrow> False)"
  by code_simp

text \<open>Without a timeout a tool that never ends blocks the whole set.\<close>

lemma no_timeout_hangs: "fst (execute (demo_set None) demo_tools) = Hang"
  by code_simp

text \<open>
  A timeout does not bound the run either: the executor awaits the tool's \<^verbatim>\<open>cancel\<close> after it, and a
  \<^verbatim>\<open>cancel\<close> that blocks or panics does so to the executor.
\<close>

lemma blocking_cancel_hangs:
  "fst (execute (demo_set (Some 9)) (demo_tools(''bad'' \<mapsto> \<lparr>tool_execute = (\<lambda>i p. Never), tool_cancel = (\<lambda>_. CancelBlocks)\<rparr>)))
     = Hang \<and>
   fst (execute (demo_set (Some 9)) (demo_tools(''bad'' \<mapsto> \<lparr>tool_execute = (\<lambda>i p. Never), tool_cancel = (\<lambda>_. CancelPanics)\<rparr>)))
     = Panic"
  by code_simp

end
