(* ===== verification/Mcp_Node.thy ===== *)
theory Mcp_Node
  imports Mcp_Executor Node_Handle
begin

text \<open>
  The tool node of \<^verbatim>\<open>crates/arf-mcp\<close>: the wire format of the executor's types, discovery of
  tools (\<^verbatim>\<open>discovery.rs\<close>, \<^verbatim>\<open>remote.rs\<close>), the rules for skill resources (\<^verbatim>\<open>skill.rs\<close>), and the
  node's message handling (\<^verbatim>\<open>node.rs\<close>, \<^verbatim>\<open>runtime.rs\<close>).

  The file system, subprocesses, HTTP and the TOML, YAML and JSON parsers are not code of
  the repository: what they return is an argument of the definitions that use it.
\<close>

subsection \<open>Wire format\<close>

text \<open>
  The derived \<^verbatim>\<open>Deserialize\<close> on the object form: required keys, \<^verbatim>\<open>#[serde(default)]\<close> for absent
  ones, wrong types refused.
\<close>

fun strs_of_value :: "json \<Rightarrow> string list option" where
  "strs_of_value (JArr xs) = those (map as_str xs)"
| "strs_of_value _ = None"

definition strs_or_empty :: "json \<Rightarrow> string \<Rightarrow> string list option" where
  "strs_or_empty j k = (case json_get j k of None \<Rightarrow> Some [] | Some v \<Rightarrow> strs_of_value v)"

definition tool_call_item_of_value :: "json \<Rightarrow> tool_call_item option" where
  "tool_call_item_of_value j =
     (case (get_str j ''id'', get_str j ''tool'', json_get j ''params'',
            strs_or_empty j ''blocked_by'', strs_or_empty j ''blocking'') of
        (Some i, Some n, Some p, Some by, Some bl) \<Rightarrow>
          Some \<lparr>ci_id = i, ci_tool = n, ci_params = p, ci_blocked_by = by, ci_blocking = bl\<rparr>
      | _ \<Rightarrow> None)"

definition opt_u64_of_value :: "json option \<Rightarrow> nat option option" where
  "opt_u64_of_value v =
     (case v of None \<Rightarrow> Some None | Some JNull \<Rightarrow> Some None | Some x \<Rightarrow> map_option Some (as_u64 x))"

definition tool_call_set_of_value :: "json \<Rightarrow> tool_call_set option" where
  "tool_call_set_of_value j =
     (case (get_str j ''session_id'', Option.bind (get_array j ''calls'') (\<lambda>xs. those (map tool_call_item_of_value xs)),
            opt_u64_of_value (json_get j ''timeout_ms'')) of
        (Some s, Some cs, Some t) \<Rightarrow> Some \<lparr>cs_session_id = s, cs_calls = cs, cs_timeout_ms = t\<rparr>
      | _ \<Rightarrow> None)"

definition tool_call_item_to_value :: "tool_call_item \<Rightarrow> json" where
  "tool_call_item_to_value c =
     JObj [(''id'', JStr (ci_id c)), (''tool'', JStr (ci_tool c)), (''params'', ci_params c),
           (''blocked_by'', strs_to_value (ci_blocked_by c)), (''blocking'', strs_to_value (ci_blocking c))]"

definition tool_call_set_to_value :: "tool_call_set \<Rightarrow> json" where
  "tool_call_set_to_value s =
     JObj [(''session_id'', JStr (cs_session_id s)),
           (''calls'', JArr (map tool_call_item_to_value (cs_calls s))),
           (''timeout_ms'', case cs_timeout_ms s of None \<Rightarrow> JNull | Some t \<Rightarrow> JInt (int t))]"

definition tool_result_item_to_value :: "tool_result_item \<Rightarrow> json" where
  "tool_result_item_to_value r =
     JObj ([(''call_id'', JStr (ri_call_id r)), (''name'', JStr (ri_name r)),
            (''status'', JStr (ri_status r)), (''result'', ri_result r)]
           @ (case ri_error r of None \<Rightarrow> [] | Some e \<Rightarrow> [(''error'', JStr e)]))"

definition tool_result_set_to_value :: "tool_result_set \<Rightarrow> json" where
  "tool_result_set_to_value s =
     JObj [(''session_id'', JStr (rs_session_id s)),
           (''results'', JArr (map tool_result_item_to_value (rs_results s)))]"

lemma those_map_as_str [simp]: "those (map (as_str \<circ> JStr) xs) = Some xs"
  by (induction xs) simp_all

lemma strs_of_value_strs [simp]: "strs_of_value (strs_to_value xs) = Some xs"
  by (simp add: strs_to_value_def)

lemma tool_call_item_roundtrip [simp]: "tool_call_item_of_value (tool_call_item_to_value c) = Some c"
  by (simp add: tool_call_item_of_value_def tool_call_item_to_value_def strs_or_empty_def get_str_def)

lemma those_map_inverse: "(\<And>x. f (g x) = Some x) \<Longrightarrow> those (map (f \<circ> g) xs) = Some xs"
  by (induction xs) simp_all

lemma tool_call_set_roundtrip:
  "(\<And>t. cs_timeout_ms s = Some t \<Longrightarrow> t < 2 ^ 64) \<Longrightarrow>
     tool_call_set_of_value (tool_call_set_to_value s) = Some s"
  by (cases "cs_timeout_ms s")
    (simp_all add: tool_call_set_of_value_def tool_call_set_to_value_def get_str_def get_array_def
      opt_u64_of_value_def those_map_inverse)

subsection \<open>Discovery\<close>

record tool_info =
  ti_name :: string
  ti_description :: string
  ti_parameters_schema :: json

record skill_entry =
  sk_name :: string
  sk_description :: string

record skill_resources =
  sr_tools :: "string list"
  sr_references :: "string list"
  sr_assets :: "string list"

record loaded_resource =
  lr_content :: string
  lr_description :: "string option"
  lr_params_schema :: "json option"

text \<open>\<^verbatim>\<open>DiscoveryBackend\<close>: what a node has found, as the functions of the trait.\<close>

record discovery =
  di_tools :: "tool_info list"
  di_tool_map :: "string \<rightharpoonup> tool"
  di_skills :: "skill_entry list"
  di_skill_body :: "string \<Rightarrow> string option"
  di_skill_resources :: "string \<Rightarrow> skill_resources option"
  di_resource_file :: "string \<Rightarrow> string \<Rightarrow> string + loaded_resource"
  di_run_skill_tool :: "string \<Rightarrow> string \<Rightarrow> json \<Rightarrow> (string, json) outcome"

definition resolve_tool :: "discovery \<Rightarrow> string \<Rightarrow> tool option" where
  "resolve_tool d name = di_tool_map d name"

definition resolve_skill :: "discovery \<Rightarrow> string \<Rightarrow> skill_entry option" where
  "resolve_skill d name = find (\<lambda>s. sk_name s = name) (di_skills d)"

datatype script_runtime = Python | Bash | RustScript

record tool_config =
  tg_name :: string
  tg_description :: string
  tg_runtime :: script_runtime
  tg_entrypoint :: string
  tg_timeout_ms :: "millis option"
  tg_params_schema :: json

text \<open>
  \<^verbatim>\<open>FsDiscovery::scan\<close> over the entries of the \<^verbatim>\<open>tools\<close> directory: for each subdirectory the
  parsed \<^verbatim>\<open>tool.toml\<close>, or \<open>None\<close> when it is missing or invalid and skipped. \<open>script\<close> is the
  subprocess tool a configuration describes.
\<close>

fun scan_tools ::
  "(tool_config \<Rightarrow> tool) \<Rightarrow> tool_config option list \<Rightarrow> tool_info list \<Rightarrow> (string \<rightharpoonup> tool)
    \<Rightarrow> tool_info list \<times> (string \<rightharpoonup> tool)" where
  "scan_tools script [] infos tools = (infos, tools)"
| "scan_tools script (None # es) infos tools = scan_tools script es infos tools"
| "scan_tools script (Some c # es) infos tools =
     scan_tools script es
       (infos @ [\<lparr>ti_name = tg_name c, ti_description = tg_description c, ti_parameters_schema = tg_params_schema c\<rparr>])
       (tools(tg_name c \<mapsto> script c))"

subsection \<open>Skills\<close>

definition is_kebab_case :: "string \<Rightarrow> bool" where
  "is_kebab_case s \<longleftrightarrow> s \<noteq> [] \<and>
     list_all (\<lambda>c. (CHR ''a'' \<le> c \<and> c \<le> CHR ''z'') \<or> (CHR ''0'' \<le> c \<and> c \<le> CHR ''9'') \<or> c = CHR ''-'') s \<and>
     hd s \<noteq> CHR ''-'' \<and> last s \<noteq> CHR ''-''"

text \<open>
  \<^verbatim>\<open>resolve_safe_path\<close>: the checks on the text of the path, then on the canonical path, which
  the file system computes from the joined one (\<open>Inl\<close> is its error). A path is its
  components and whether it is absolute, which a canonical one is.
\<close>

record fs_path =
  fp_absolute :: bool
  fp_components :: "string list"

definition path_starts_with :: "fs_path \<Rightarrow> fs_path \<Rightarrow> bool" where
  "path_starts_with p base \<longleftrightarrow>
     fp_absolute p = fp_absolute base \<and> prefix (fp_components base) (fp_components p)"

definition resolve_safe_path ::
  "(fs_path \<Rightarrow> string \<Rightarrow> string + fs_path) \<Rightarrow> fs_path \<Rightarrow> string \<Rightarrow> string + fs_path" where
  "resolve_safe_path canonicalize source_dir path =
     (if sublist ''..'' path then Inl (''path traversal rejected: '' @ quoted ''..'' @ '' not allowed'')
      else if starts_with ''/'' path then Inl ''absolute path rejected''
      else if \<not> list_ex (\<lambda>p. starts_with p path) [''tools/'', ''references/'', ''assets/'']
      then Inl (''resource path must start with tools/, references/, or assets/. Got: '' @ path)
      else (case canonicalize source_dir path of
              Inl e \<Rightarrow> Inl (''file not found: '' @ e)
            | Inr canonical \<Rightarrow>
                (if path_starts_with canonical source_dir then Inr canonical
                 else Inl ''path traversal rejected after canonicalize'')))"

text \<open>
  The directory of a skill is not made canonical itself, so under a relative root no
  resource is ever found.
\<close>

lemma relative_root_refused:
  assumes "\<And>p. canonicalize dir path = Inr p \<Longrightarrow> fp_absolute p" and "\<not> fp_absolute dir"
  shows "\<exists>e. resolve_safe_path canonicalize dir path = Inl e"
  using assms by (auto simp: resolve_safe_path_def path_starts_with_def split: sum.splits)

subsection \<open>Remote tools\<close>

record tool_content =
  tco_type :: string
  tco_text :: "string option"

definition call_result_to_output :: "tool_content list \<Rightarrow> bool \<Rightarrow> string \<Rightarrow> string + json" where
  "call_result_to_output contents is_error tool_name =
     (let text_out = join [CHR 0x0A]
            (List.map_filter (\<lambda>c. if tco_type c = ''text'' then tco_text c else None) contents)
      in if is_error
         then Inl (''MCP tool '' @ quoted tool_name @ '' returned isError: '' @ text_out)
         else Inr (JStr text_out))"

record json_rpc_response =
  rpc_result :: "json option"
  rpc_error :: "(int \<times> string) option"

text \<open>The first line that is an event with a response; \<open>parse\<close> is \<^verbatim>\<open>serde_json\<close>.\<close>

definition parse_sse_or_json ::
  "(string \<Rightarrow> json_rpc_response option) \<Rightarrow> string \<Rightarrow> json_rpc_response" where
  "parse_sse_or_json parse body =
     (case parse body of
        Some r \<Rightarrow> r
      | None \<Rightarrow>
          (case List.map_filter (\<lambda>l. Option.bind (strip_prefix ''data: '' l) parse) (lines body) of
             r # _ \<Rightarrow> r
           | [] \<Rightarrow> \<lparr>rpc_result = None, rpc_error = Some (- 32000, ''parse failed: '' @ body)\<rparr>))"

record remote_tool_def =
  rd_name :: string
  rd_description :: string
  rd_input_schema :: json

text \<open>\<^verbatim>\<open>HttpDiscovery::connect\<close> after the two requests: one proxy for every listed tool.\<close>

fun remote_tools ::
  "(remote_tool_def \<Rightarrow> tool) \<Rightarrow> remote_tool_def list \<Rightarrow> tool_info list \<Rightarrow> (string \<rightharpoonup> tool)
    \<Rightarrow> tool_info list \<times> (string \<rightharpoonup> tool)" where
  "remote_tools proxy [] infos tools = (infos, tools)"
| "remote_tools proxy (d # ds) infos tools =
     remote_tools proxy ds
       (infos @ [\<lparr>ti_name = rd_name d, ti_description = rd_description d,
                  ti_parameters_schema = rd_input_schema d\<rparr>])
       (tools(rd_name d \<mapsto> proxy d))"

subsection \<open>The node\<close>

record mcp_node =
  mn_namespace :: string
  mn_node_id :: node_id
  mn_discovery :: discovery
  mn_capabilities :: json

definition McpNode_new :: "string \<Rightarrow> discovery \<Rightarrow> json \<Rightarrow> mcp_node" where
  "McpNode_new namespace d caps =
     \<lparr>mn_namespace = namespace, mn_node_id = NodeId (''mcp/'' @ namespace), mn_discovery = d,
      mn_capabilities = caps\<rparr>"

definition local_capabilities :: json where
  "local_capabilities = JObj [(''runtime'', JStr ''local''), (''concurrency'', JStr ''layer-parallel'')]"

definition build_node_info :: "mcp_node \<Rightarrow> millis \<Rightarrow> node_info" where
  "build_node_info n now =
     \<lparr>ni_node_id = mn_node_id n, ni_node_type = ''mcp'',
      ni_capabilities = JObj
        [(''runtime'', mn_capabilities n),
         (''tools'', JArr (map (\<lambda>t. JObj [(''name'', JStr (ti_name t)), (''description'', JStr (ti_description t)),
                                       (''params_schema'', ti_parameters_schema t)])
                            (di_tools (mn_discovery n)))),
         (''skills'', JArr (map (\<lambda>s. JObj [(''name'', JStr (sk_name s)), (''description'', JStr (sk_description s))])
                             (di_skills (mn_discovery n))))],
      ni_online_since = now\<rparr>"

definition opt_str :: "string option \<Rightarrow> json" where
  "opt_str s = (case s of None \<Rightarrow> JNull | Some x \<Rightarrow> JStr x)"

definition str_or_empty :: "json \<Rightarrow> string \<Rightarrow> string" where
  "str_or_empty j k = (case get_str j k of None \<Rightarrow> [] | Some s \<Rightarrow> s)"

definition value_or_null :: "json \<Rightarrow> string \<Rightarrow> json" where
  "value_or_null j k = (case json_get j k of None \<Rightarrow> JNull | Some v \<Rightarrow> v)"

text \<open>Running a set on the node: \<^verbatim>\<open>RuntimeModule::execute\<close> by default.\<close>

definition runtime_execute :: "tool_call_set \<Rightarrow> (string \<rightharpoonup> tool) \<Rightarrow> (unit, tool_result_set) outcome" where
  "runtime_execute cs tools = fst (execute cs tools)"

definition bind_result :: "('e, 'a) outcome \<Rightarrow> ('a \<Rightarrow> 'b) \<Rightarrow> ('e, 'b) outcome" where
  "bind_result r f = (case r of Ret x \<Rightarrow> Ret (f x) | Fail e \<Rightarrow> Fail e | Panic \<Rightarrow> Panic | Hang \<Rightarrow> Hang)"

definition single_call :: "string \<Rightarrow> string \<Rightarrow> json \<Rightarrow> tool_call_set" where
  "single_call cid tool_name arguments =
     \<lparr>cs_session_id = cid,
      cs_calls = [\<lparr>ci_id = ''call_0'', ci_tool = tool_name, ci_params = arguments, ci_blocked_by = [],
                   ci_blocking = []\<rparr>],
      cs_timeout_ms = None\<rparr>"

definition tool_reply :: "string \<Rightarrow> string \<Rightarrow> tool_result_set \<Rightarrow> json" where
  "tool_reply cid tool_name rs =
     (case rs_results rs of
        r # _ \<Rightarrow> JObj [(''correlation_id'', JStr cid), (''name'', JStr (ri_name r)),
                      (''ok'', JBool (succeeded r)), (''content'', ri_result r), (''error'', opt_str (ri_error r))]
      | [] \<Rightarrow> JObj [(''correlation_id'', JStr cid), (''name'', JStr tool_name), (''ok'', JBool False),
                   (''error'', JStr ''executor returned no result'')])"

definition on_tool_exec :: "mcp_node \<Rightarrow> json \<Rightarrow> (unit, (string \<times> json) option) outcome" where
  "on_tool_exec n pl =
     (let tool_name = str_or_empty pl ''tool_name'';
          cid = str_or_empty pl ''correlation_id''
      in if tool_name = []
         then Ret (Some (''tool_result'',
                JObj [(''correlation_id'', JStr cid), (''name'', JStr []), (''ok'', JBool False),
                      (''error'', JStr ''missing tool_name in tool_exec payload'')]))
         else if resolve_tool (mn_discovery n) tool_name = None then Ret None
         else bind_result
                (runtime_execute (single_call cid tool_name (value_or_null pl ''arguments''))
                   (di_tool_map (mn_discovery n)))
                (\<lambda>rs. Some (''tool_result'', tool_reply cid tool_name rs)))"

definition on_tool_call_set :: "(json \<Rightarrow> string) \<Rightarrow> mcp_node \<Rightarrow> json \<Rightarrow> (unit, (string \<times> json) option) outcome" where
  "on_tool_call_set serde_error n pl =
     (case tool_call_set_of_value pl of
        None \<Rightarrow> Ret (Some (''tool_result_set'', JObj
          [(''session_id'', JStr []),
           (''results'', JArr [JObj [(''call_id'', JStr []), (''name'', JStr []), (''status'', JStr ''error''),
                                 (''result'', JNull), (''error'', JStr (''invalid payload: '' @ serde_error pl))]])]))
      | Some cs \<Rightarrow>
          bind_result (runtime_execute cs (di_tool_map (mn_discovery n)))
            (\<lambda>rs. Some (''tool_result_set'', tool_result_set_to_value rs)))"

definition on_use_skill :: "mcp_node \<Rightarrow> json \<Rightarrow> string \<times> json" where
  "on_use_skill n pl =
     (let name = str_or_empty pl ''name''; d = mn_discovery n
      in case (di_skill_body d name, di_skill_resources d name) of
           (Some b, Some r) \<Rightarrow>
             (''skill_loaded'', JObj
                [(''namespace'', JStr (mn_namespace n)), (''name'', JStr name),
                 (''description'', JStr (case resolve_skill d name of None \<Rightarrow> [] | Some e \<Rightarrow> sk_description e)),
                 (''body'', JStr b),
                 (''resources'', JObj [(''tools'', strs_to_value (sr_tools r)),
                                   (''references'', strs_to_value (sr_references r)),
                                   (''assets'', strs_to_value (sr_assets r))])])
         | _ \<Rightarrow> (''skill_error'', JObj [(''namespace'', JStr (mn_namespace n)), (''name'', JStr name),
                                     (''error'', JStr (''skill not found: '' @ name))]))"

definition on_load_skill_resource :: "mcp_node \<Rightarrow> json \<Rightarrow> string \<times> json" where
  "on_load_skill_resource n pl =
     (let sn = str_or_empty pl ''skill_name''; rp = str_or_empty pl ''resource_path'';
          who = [(''namespace'', JStr (mn_namespace n)), (''skill_name'', JStr sn), (''resource_path'', JStr rp)]
      in case di_resource_file (mn_discovery n) sn rp of
           Inr l \<Rightarrow> (''skill_resource_loaded'', JObj (who @
                      [(''content'', JStr (lr_content l)), (''description'', opt_str (lr_description l)),
                       (''params_schema'', case lr_params_schema l of None \<Rightarrow> JNull | Some p \<Rightarrow> p)]))
         | Inl e \<Rightarrow> (''skill_resource_error'', JObj (who @ [(''error'', JStr e)])))"

definition on_run_skill_script :: "mcp_node \<Rightarrow> json \<Rightarrow> (unit, string \<times> json) outcome" where
  "on_run_skill_script n pl =
     (let sn = str_or_empty pl ''skill_name''; tn = str_or_empty pl ''tool_name'';
          cid = str_or_empty pl ''call_id'';
          reply = (\<lambda>status result error. (''skill_script_result'', JObj
            [(''session_id'', value_or_null pl ''session_id''), (''call_id'', JStr cid),
             (''name'', JStr (sn @ ''/'' @ tn)), (''status'', JStr status), (''result'', result),
             (''error'', opt_str error)]))
      in case di_run_skill_tool (mn_discovery n) sn tn (value_or_null pl ''params'') of
           Ret v \<Rightarrow> Ret (reply ''success'' v None)
         | Fail e \<Rightarrow> Ret (reply ''error'' JNull (Some e))
         | Panic \<Rightarrow> Panic
         | Hang \<Rightarrow> Hang)"

definition mcp_dispatch :: "(json \<Rightarrow> string) \<Rightarrow> mcp_node \<Rightarrow> message \<Rightarrow> (unit, (string \<times> json) option) outcome" where
  "mcp_dispatch serde_error n m =
     (if msg_type m = ''tool_call_set'' then on_tool_call_set serde_error n (msg_payload m)
      else if msg_type m = ''tool_exec'' then on_tool_exec n (msg_payload m)
      else if msg_type m = ''use_skill'' then Ret (Some (on_use_skill n (msg_payload m)))
      else if msg_type m = ''load_skill_resource'' then Ret (Some (on_load_skill_resource n (msg_payload m)))
      else if msg_type m = ''run_skill_script'' then bind_result (on_run_skill_script n (msg_payload m)) Some
      else Ret None)"

text \<open>
  One turn of \<^verbatim>\<open>message_loop\<close>: the message is answered to its sender, a failed send is only
  printed. \<open>i\<close> is the identifier the reply draws.
\<close>

definition message_turn ::
  "(json \<Rightarrow> string) \<Rightarrow> mcp_node \<Rightarrow> node_handle \<Rightarrow> uuid \<Rightarrow> millis \<Rightarrow> message \<Rightarrow> buses
    \<Rightarrow> (unit, unit) outcome \<times> buses" where
  "message_turn serde_error n h i now m bs =
     (if \<not> is_for m (mn_node_id n) \<and> \<not> is_broadcast m then (Ret (), bs)
      else (case mcp_dispatch serde_error n m of
              Ret None \<Rightarrow> (Ret (), bs)
            | Ret (Some (ty, pl)) \<Rightarrow> (Ret (), snd (send i now h ty [msg_from m] pl bs))
            | Fail e \<Rightarrow> (Fail e, bs)
            | Panic \<Rightarrow> (Panic, bs)
            | Hang \<Rightarrow> (Hang, bs)))"

end
