(* ===== verification/Mcp_Node_Props.thy ===== *)
theory Mcp_Node_Props
  imports Mcp_Executor_Props Mcp_Node Engine
begin

text \<open>
  The tool node against its users: how the engine reads the node's answers, and how the
  engine's registry reads what the node advertises.
\<close>

subsection \<open>Answers to the engine\<close>

lemma execute_one_no_timeout: "execute_one i n tool params None = Hang \<or> (\<exists>r. execute_one i n tool params None = Ret r)"
  by (auto simp: execute_one_def Let_def split: option.splits completion.splits)

lemma execute_single:
  "execute (single_call cid name args) tools =
     (case execute_one ''call_0'' name (tools name) args None of
        Ret r \<Rightarrow> (Ret \<lparr>rs_session_id = cid, rs_results = [r]\<rparr>, [[''call_0'']])
      | _ \<Rightarrow> (Hang, [[''call_0'']]))"
proof -
  let ?c = "\<lparr>ci_id = ''call_0'', ci_tool = name, ci_params = args, ci_blocked_by = [], ci_blocking = []\<rparr>"
  have valid: "validate_bidirectional_lock [?c] = None" by (simp add: validate_bidirectional_lock_def List.map_filter_simps)
  have "detect_cycle [?c] = None"
    by (simp add: detect_cycle_def unknown_refs_def dfs_cycle.simps dfs_deps.simps find_call_def)
  moreover have "kahn_sort [?c] (build_in_degree [?c] Map.empty) = Some [[''call_0'']]"
    by (simp add: kahn_sort_def kahn_layers.simps dependents_def)
  ultimately show ?thesis using valid execute_one_no_timeout [of "''call_0''" name "tools name" args]
    by (auto simp: execute_def single_call_def Let_def start_call_def find_call_def complete_layer_def
        assemble_def cascade_cancel_def cascade_loop.simps dest: execute_one_id split: outcome.splits)
qed

text \<open>The text the engine makes of an answered value: only a string survives.\<close>

definition read_back :: "json \<Rightarrow> string" where
  "read_back v = (case v of JStr s \<Rightarrow> s | _ \<Rightarrow> [])"

lemma on_tool_exec_value:
  assumes "te_tool_name ex \<noteq> []" and "resolve_tool (mn_discovery n) (te_tool_name ex) = Some f"
    and "tool_execute f ''call_0'' (te_arguments ex) = After t (Value v)"
  shows "on_tool_exec n (tool_exec_to_value U ex) = Ret (Some (''tool_result'',
    JObj [(''correlation_id'', JStr (uuid_show U (te_correlation_id ex))), (''name'', JStr (te_tool_name ex)),
          (''ok'', JBool True), (''content'', v), (''error'', JNull)]))"
  using assms
  by (simp add: on_tool_exec_def tool_exec_to_value_def cid_field_def str_or_empty_def value_or_null_def
      runtime_execute_def execute_single resolve_tool_def execute_one_def result_of_def bind_result_def
      tool_reply_def opt_str_def)

text \<open>
  What becomes of a successful tool call. The node that owns the tool answers the
  engine's \<^verbatim>\<open>tool_exec\<close> with the value the tool returned, under the engine's correlation id.
  The engine keeps the value only when it is a string (any other value becomes the empty
  string in the conversation), and, since the answer always carries an \<^verbatim>\<open>error\<close> key, which is
  null here, it records the call as failed.
\<close>

theorem tool_success_misread:
  assumes "uuid_ok U" and "te_tool_name ex \<noteq> []"
    and "resolve_tool (mn_discovery n) (te_tool_name ex) = Some f"
    and "tool_execute f ''call_0'' (te_arguments ex) = After t (Value v)"
    and "msg_type m = ''tool_exec''" and "msg_payload m = tool_exec_to_value U ex"
  shows "\<exists>pl. mcp_dispatch se n m = Ret (Some (TOOL_RESULT, pl)) \<and>
    payload_cid U pl = Some (te_correlation_id ex) \<and> json_get pl ''content'' = Some v \<and>
    (\<forall>D tc started turn k response w. msg_payload response = pl \<longrightarrow>
       finish_tool D tc started turn k (Ret response, w) =
         (Ret pl, maybe_record_tool_call D (tc_name tc) (w_now w - started) False None turn k
                    (upd_state (push_message (tool_message tc (read_back v))) w)))"
proof -
  let ?pl = "JObj [(''correlation_id'', JStr (uuid_show U (te_correlation_id ex))), (''name'', JStr (te_tool_name ex)),
          (''ok'', JBool True), (''content'', v), (''error'', JNull)]"
  have "mcp_dispatch se n m = Ret (Some (TOOL_RESULT, ?pl))"
    using on_tool_exec_value [OF assms(2-4)] assms(5,6) by (simp add: mcp_dispatch_def TOOL_RESULT_def)
  moreover have "tool_result_content ?pl = read_back v"
    by (cases v) (simp_all add: tool_result_content_def unwrap_str_def read_back_def)
  ultimately show ?thesis using assms(1)
    by (intro exI [of _ ?pl]) (simp add: payload_cid_def upd_state_def)
qed

definition demo_mcp_node :: mcp_node where
  "demo_mcp_node = McpNode_new ''fs''
     \<lparr>di_tools = [\<lparr>ti_name = ''stat'', ti_description = ''size'', ti_parameters_schema = JObj []\<rparr>],
      di_tool_map = [''stat'' \<mapsto> plain_tool (\<lambda>i p. After 1 (Value (JObj [(''size'', JInt 7)])))],
      di_skills = [\<lparr>sk_name = ''review'', sk_description = ''r''\<rparr>],
      di_skill_body = (\<lambda>_. None), di_skill_resources = (\<lambda>_. None),
      di_resource_file = (\<lambda>_ _. Inl ''none''), di_run_skill_tool = (\<lambda>_ _ _. Fail ''none'')\<rparr> local_capabilities"

theorem tool_success_misread_witness:
  "\<exists>pl. mcp_dispatch (\<lambda>_. []) demo_mcp_node
      (Message_new 1 0 ''tool_exec'' (NodeId ''e'') []
         (tool_exec_to_value unary_uuid (ToolExec_new 3 ''stat'' JNull))) = Ret (Some (TOOL_RESULT, pl)) \<and>
    payload_cid unary_uuid pl = Some 3 \<and> json_get pl ''content'' = Some (JObj [(''size'', JInt 7)])"
proof -
  let ?ex = "ToolExec_new 3 ''stat'' JNull"
  let ?m = "Message_new 1 0 ''tool_exec'' (NodeId ''e'') [] (tool_exec_to_value unary_uuid ?ex)"
  have "uuid_ok unary_uuid" by (simp add: uuid_ok_def unary_uuid_def)
  moreover have "te_tool_name ?ex \<noteq> []" by (simp add: ToolExec_new_def)
  moreover have "resolve_tool (mn_discovery demo_mcp_node) (te_tool_name ?ex) =
      Some (plain_tool (\<lambda>i p. After 1 (Value (JObj [(''size'', JInt 7)]))))"
    by (simp add: ToolExec_new_def resolve_tool_def demo_mcp_node_def McpNode_new_def)
  moreover have "msg_type ?m = ''tool_exec''" "msg_payload ?m = tool_exec_to_value unary_uuid ?ex"
    by (simp_all add: Message_new_def)
  moreover have "te_correlation_id ?ex = 3" by (simp add: ToolExec_new_def)
  moreover have "tool_execute (plain_tool (\<lambda>i p. After 1 (Value (JObj [(''size'', JInt 7)])))) ''call_0''
      (te_arguments ?ex) = After 1 (Value (JObj [(''size'', JInt 7)]))" by (simp add: plain_tool_def)
  ultimately show ?thesis
    using tool_success_misread [of unary_uuid ?ex demo_mcp_node _ 1 _ ?m "\<lambda>_. []"] by metis
qed

text \<open>A node that does not own the tool stays silent.\<close>

lemma not_owner_silent:
  "te_tool_name ex \<noteq> [] \<Longrightarrow> di_tool_map (mn_discovery n) (te_tool_name ex) = None \<Longrightarrow>
     on_tool_exec n (tool_exec_to_value U ex) = Ret None"
  by (simp add: on_tool_exec_def tool_exec_to_value_def cid_field_def str_or_empty_def resolve_tool_def)

subsection \<open>What the registry sees\<close>

text \<open>
  How the engine's registry reads a tool node. It sees every tool the node has found,
  but none of its skills: the node advertises skills as objects and the registry expects
  strings, so a resource that asks for a skill never matches the node, and the skills never
  reach the system prompt.
\<close>

theorem registry_misses_skills:
  "node_tools (build_node_info n now) = filter (\<lambda>s. s \<noteq> []) (map ti_name (di_tools (mn_discovery n))) \<and>
   node_skills (build_node_info n now) = [] \<and>
   (set names \<inter> set (map ti_name (di_tools (mn_discovery n))) \<subseteq> {[]} \<longrightarrow>
      \<not> node_has_any_of (build_node_info n now) names) \<and>
   (bg_nodes g = [build_node_info n now] \<longrightarrow> skill_pairs reg g = [])"
proof -
  have tools: "node_tools (build_node_info n now) = filter (\<lambda>s. s \<noteq> []) (map ti_name (di_tools (mn_discovery n)))"
    by (simp add: node_tools_def build_node_info_def List.map_filter_def o_def)
  have skills: "node_skills (build_node_info n now) = []"
    by (simp add: node_skills_def build_node_info_def strs_of_array_def List.map_filter_def)
  have "skill_pairs reg g = []" if "bg_nodes g = [build_node_info n now]"
  proof -
    have "set (skill_pairs reg g) = {}" using that
      by (auto simp: skill_pairs_def graph_node_def build_node_info_def unwrap_str_def split: if_splits)
    then show ?thesis by simp
  qed
  with tools skills show ?thesis by (auto simp: node_has_any_of_def list_ex_iff)
qed

theorem registry_misses_skills_witness:
  "\<not> node_has_any_of (build_node_info demo_mcp_node 0) [''review'']"
  using registry_misses_skills [of demo_mcp_node 0 "[''review'']"]
  by (simp add: demo_mcp_node_def McpNode_new_def)

end
