(* ===== verification/Backend.thy ===== *)
theory Backend
  imports Json
begin

text \<open>
  The file backends of \<^verbatim>\<open>crates/arf-backend\<close>: normalised paths (\<^verbatim>\<open>path.rs\<close>), the error and result
  types (\<^verbatim>\<open>error.rs\<close>, \<^verbatim>\<open>types.rs\<close>), the in-memory backend (\<^verbatim>\<open>state.rs\<close>), the routing backend
  (\<^verbatim>\<open>composite.rs\<close>) and the choice of a backend (\<^verbatim>\<open>factory.rs\<close>).

  Text is a list of bytes. The \<^verbatim>\<open>DashMap\<close> of files is an association list with distinct keys,
  whose order stands for the unspecified iteration order.
\<close>

subsection \<open>Errors and results\<close>

datatype backend_error =
    FileNotFound string
  | IsDirectory string
  | InvalidPath string
  | NotADirectory string
  | PermissionDenied string string
  | EditMatch string
  | BackendIo string
  | BackendTimeout millis
  | Unsupported string
  | BackendOther string

fun backend_error_code :: "backend_error \<Rightarrow> string option" where
  "backend_error_code (FileNotFound p) = Some ''file_not_found''"
| "backend_error_code (IsDirectory p) = Some ''is_directory''"
| "backend_error_code (InvalidPath p) = Some ''invalid_path''"
| "backend_error_code (PermissionDenied p r) = Some ''permission_denied''"
| "backend_error_code (EditMatch r) = Some ''edit_match''"
| "backend_error_code (BackendTimeout t) = Some ''timeout''"
| "backend_error_code (NotADirectory p) = None"
| "backend_error_code (BackendIo e) = None"
| "backend_error_code (Unsupported e) = None"
| "backend_error_code (BackendOther e) = None"

record file_info =
  fi_path :: string
  fi_is_dir :: bool
  fi_size :: nat
  fi_modified_at :: "millis option"

record file_data =
  fd_content :: string
  fd_encoding :: string
  fd_created_at :: "millis option"
  fd_modified_at :: "millis option"

record read_result =
  rr_error :: "string option"
  rr_file_data :: "file_data option"

record write_result =
  wr_error :: "string option"
  wr_path :: "string option"

record edit_result =
  er_error :: "string option"
  er_path :: "string option"
  er_occurrences :: nat

record delete_result =
  dr_error :: "string option"
  dr_path :: "string option"

record ls_result =
  lr_error :: "string option"
  lr_entries :: "file_info list option"

record grep_match =
  gm_path :: string
  gm_line :: nat
  gm_text :: string

record grep_result =
  gr_error :: "string option"
  gr_matches :: "grep_match list option"
  gr_truncated :: bool

record glob_result =
  gl_error :: "string option"
  gl_matches :: "file_info list option"
  gl_truncated :: bool

subsection \<open>Paths\<close>

datatype backend_path = BackendPath (as_path: string)

fun keep_components :: "string list \<Rightarrow> string list option" where
  "keep_components [] = Some []"
| "keep_components (c # cs) =
     (if c = [] \<or> c = ''.'' then keep_components cs
      else if c = ''..'' then None
      else map_option ((#) c) (keep_components cs))"

definition BackendPath_new :: "string \<Rightarrow> backend_error + backend_path" where
  "BackendPath_new raw =
     (if raw = [] \<or> CHR 0x00 \<in> set raw \<or> CHR 0x5C \<in> set raw then Inl (InvalidPath raw)
      else (case keep_components (split_on (CHR ''/'') raw) of
              None \<Rightarrow> Inl (InvalidPath raw)
            | Some cs \<Rightarrow> Inr (BackendPath (CHR ''/'' # join ''/'' cs))))"

definition is_ancestor_of :: "backend_path \<Rightarrow> backend_path \<Rightarrow> bool" where
  "is_ancestor_of p q \<longleftrightarrow> p = q \<or>
     (starts_with (as_path p) (as_path q) \<and>
      ((as_path p \<noteq> [] \<and> last (as_path p) = CHR ''/'') \<or>
       starts_with ''/'' (drop (length (as_path p)) (as_path q))))"

definition path_suffix :: "backend_path \<Rightarrow> backend_path \<Rightarrow> string option" where
  "path_suffix q p = map_option (dropWhile (\<lambda>c. c = CHR ''/'')) (strip_prefix (as_path p) (as_path q))"

text \<open>A path in normal form, and its components.\<close>

definition normal_components :: "string list \<Rightarrow> bool" where
  "normal_components cs \<longleftrightarrow>
     (\<forall>c \<in> set cs. c \<noteq> [] \<and> c \<noteq> ''.'' \<and> c \<noteq> ''..'' \<and> {CHR ''/'', CHR 0x00, CHR 0x5C} \<inter> set c = {})"

lemma keep_components_Some:
  "keep_components cs = Some ds \<Longrightarrow>
     ds = filter (\<lambda>c. c \<noteq> [] \<and> c \<noteq> ''.'') cs \<and> ''..'' \<notin> set cs"
  by (induction cs arbitrary: ds) (auto split: if_splits)

lemma keep_components_normal: "normal_components cs \<Longrightarrow> keep_components cs = Some cs"
  by (induction cs) (auto simp: normal_components_def)

lemma set_join: "set (join sep cs) \<subseteq> set sep \<union> \<Union> (set ` set cs)"
  by (induction sep cs rule: join.induct) auto

lemma BackendPath_new_components:
  assumes "BackendPath_new raw = Inr p"
  shows "\<exists>cs. normal_components cs \<and> p = BackendPath (CHR ''/'' # join ''/'' cs)"
proof -
  from assms obtain cs where r: "CHR 0x00 \<notin> set raw" "CHR 0x5C \<notin> set raw"
    and k: "keep_components (split_on (CHR ''/'') raw) = Some cs"
    and p: "p = BackendPath (CHR ''/'' # join ''/'' cs)"
    by (auto simp: BackendPath_new_def split: if_splits option.splits)
  have "c \<noteq> [] \<and> c \<noteq> ''.'' \<and> c \<noteq> ''..'' \<and> {CHR ''/'', CHR 0x00, CHR 0x5C} \<inter> set c = {}" if "c \<in> set cs" for c
  proof -
    from that keep_components_Some [OF k]
    have "c \<in> set (split_on (CHR ''/'') raw)" "c \<noteq> []" "c \<noteq> ''.''" "c \<noteq> ''..''" by auto
    with split_on_free [OF this(1)] split_on_chars [OF this(1)] r show ?thesis by auto
  qed
  with p show ?thesis by (auto simp: normal_components_def)
qed

lemma BackendPath_new_normal:
  assumes "normal_components cs"
  shows "BackendPath_new (CHR ''/'' # join ''/'' cs) = Inr (BackendPath (CHR ''/'' # join ''/'' cs))"
proof -
  have "split_on (CHR ''/'') (join ''/'' cs) = (if cs = [] then [[]] else cs)"
    using assms by (auto simp: normal_components_def intro!: split_on_join)
  then have "keep_components (split_on (CHR ''/'') (CHR ''/'' # join ''/'' cs)) = Some cs"
    using keep_components_normal [OF assms] by auto
  moreover have "CHR 0x00 \<notin> set (join ''/'' cs)" "CHR 0x5C \<notin> set (join ''/'' cs)"
    using set_join [of "''/''" cs] assms by (auto simp: normal_components_def)
  ultimately show ?thesis by (auto simp: BackendPath_new_def)
qed

text \<open>
  C40: the type of backend paths. A path that the constructor accepts is a slash followed by
  components joined with slashes, none of them empty, a dot or two dots, and without a NUL
  byte, a slash or a backslash in it; and the constructor maps the path to itself.
\<close>

theorem backend_path_type:
  assumes "BackendPath_new raw = Inr p"
  shows "(\<exists>cs. normal_components cs \<and> as_path p = CHR ''/'' # join ''/'' cs) \<and>
    BackendPath_new (as_path p) = Inr p"
  using BackendPath_new_components [OF assms] BackendPath_new_normal by auto

theorem backend_path_type_witness:
  "BackendPath_new ''a//./b'' = Inr (BackendPath ''/a/b'') \<and>
   BackendPath_new ''/a/b'' = Inr (BackendPath ''/a/b'')"
proof -
  have "BackendPath_new ''a//./b'' = Inr (BackendPath ''/a/b'')" by (simp add: BackendPath_new_def)
  from this backend_path_type [OF this] show ?thesis by simp
qed

subsection \<open>Matching and replacing text\<close>

text \<open>
  \<^verbatim>\<open>str::matches\<close>, \<^verbatim>\<open>replace\<close> and \<^verbatim>\<open>replacen(.., 1)\<close>: occurrences are found from the left and do
  not overlap. The empty pattern occurs before every character and at the end.
\<close>

definition continuation_byte :: "char \<Rightarrow> bool" where
  "continuation_byte c \<longleftrightarrow> 128 \<le> (of_char c :: nat) \<and> (of_char c :: nat) < 192"

function count_matches :: "string \<Rightarrow> string \<Rightarrow> nat" where
  "count_matches old s =
     (if old = [] then 1 + length (filter (\<lambda>c. \<not> continuation_byte c) s)
      else if s = [] then 0
      else if starts_with old s then 1 + count_matches old (drop (length old) s)
      else count_matches old (tl s))"
  by pat_completeness auto
termination by (relation "measure (\<lambda>(old, s). length s)") auto

fun insert_everywhere :: "string \<Rightarrow> string \<Rightarrow> string" where
  "insert_everywhere new [] = new"
| "insert_everywhere new (c # s) =
     (if continuation_byte c then c # insert_everywhere new s else new @ c # insert_everywhere new s)"

function replace_all :: "string \<Rightarrow> string \<Rightarrow> string \<Rightarrow> string" where
  "replace_all old new s =
     (if old = [] then insert_everywhere new s
      else if s = [] then []
      else if starts_with old s then new @ replace_all old new (drop (length old) s)
      else hd s # replace_all old new (tl s))"
  by pat_completeness auto
termination by (relation "measure (\<lambda>(old, new, s). length s)") auto

fun replace_first :: "string \<Rightarrow> string \<Rightarrow> string \<Rightarrow> string" where
  "replace_first old new [] = (if old = [] then new else [])"
| "replace_first old new (c # s) =
     (if starts_with old (c # s) then new @ drop (length old) (c # s) else c # replace_first old new s)"

declare count_matches.simps [simp del] replace_all.simps [simp del]

text \<open>\<^verbatim>\<open>glob_match_simple\<close>.\<close>

fun char_match :: "string \<Rightarrow> string \<Rightarrow> bool" where
  "char_match [] path = (path = [])"
| "char_match (a # pat) path =
     (if a = CHR ''*''
      then (if pat \<noteq> [] \<and> hd pat = CHR ''*''
            then (case path of
                    [] \<Rightarrow> char_match (tl pat) path
                  | b # rest \<Rightarrow> char_match (tl pat) path \<or> char_match (a # pat) rest)
            else (case path of
                    [] \<Rightarrow> char_match pat path
                  | b # rest \<Rightarrow>
                      (if b = CHR ''/'' then char_match pat path
                       else char_match pat path \<or> char_match (a # pat) rest)))
      else (case path of
              [] \<Rightarrow> False
            | b # rest \<Rightarrow> (a = CHR ''?'' \<or> a = b) \<and> char_match pat rest))"

declare char_match.simps [simp del]

definition glob_match_simple :: "string \<Rightarrow> string \<Rightarrow> bool" where
  "glob_match_simple pattern path = char_match pattern path"

subsection \<open>The in-memory backend\<close>

record state_backend =
  sb_files :: "(backend_path \<times> file_data) list"
  sb_id :: string

definition StateBackend_new :: state_backend where
  "StateBackend_new = \<lparr>sb_files = [], sb_id = ''state-default''\<rparr>"

definition StateBackend_with_seed :: "millis \<Rightarrow> (backend_path \<times> string) list \<Rightarrow> state_backend" where
  "StateBackend_with_seed now seed =
     StateBackend_new\<lparr>sb_files :=
       fold (\<lambda>(p, c). AList.update p \<lparr>fd_content = c, fd_encoding = ''utf-8'', fd_created_at = Some now,
                                      fd_modified_at = Some now\<rparr>) seed []\<rparr>"

definition info_of :: "backend_path \<Rightarrow> file_data \<Rightarrow> file_info" where
  "info_of p d =
     \<lparr>fi_path = as_path p, fi_is_dir = False, fi_size = length (fd_content d),
      fi_modified_at = fd_modified_at d\<rparr>"

definition listed_under :: "string \<Rightarrow> string \<Rightarrow> bool" where
  "listed_under pre key \<longleftrightarrow> key \<noteq> pre \<and> starts_with pre key \<and>
     ((pre \<noteq> [] \<and> last pre = CHR ''/'') \<or> starts_with ''/'' (drop (length pre) key))"

definition state_ls :: "backend_path \<Rightarrow> state_backend \<Rightarrow> ls_result" where
  "state_ls p b =
     \<lparr>lr_error = None,
      lr_entries = Some (map (\<lambda>(k, d). info_of k d)
        (filter (\<lambda>(k, d). listed_under (as_path p) (as_path k)) (sb_files b)))\<rparr>"

definition state_read :: "backend_path \<Rightarrow> nat \<Rightarrow> nat \<Rightarrow> state_backend \<Rightarrow> read_result" where
  "state_read p offset limit b =
     (case map_of (sb_files b) p of
        None \<Rightarrow> \<lparr>rr_error = Some ''file_not_found'', rr_file_data = None\<rparr>
      | Some d \<Rightarrow>
          (let ls = lines (fd_content d);
               start = min offset (length ls);
               stop = (if limit = 0 then length ls else min (start + limit) (length ls))
           in \<lparr>rr_error = None,
               rr_file_data = Some (d\<lparr>fd_content := join [CHR 0x0A] (drop start (take stop ls))\<rparr>)\<rparr>))"

definition state_write :: "millis \<Rightarrow> backend_path \<Rightarrow> string \<Rightarrow> state_backend \<Rightarrow> write_result \<times> state_backend" where
  "state_write now p content b =
     (let created_at = (case map_of (sb_files b) p of
                          None \<Rightarrow> None
                        | Some d \<Rightarrow> Some (case fd_created_at d of None \<Rightarrow> now | Some t \<Rightarrow> t))
      in (\<lparr>wr_error = None, wr_path = Some (as_path p)\<rparr>,
          b\<lparr>sb_files := AList.update p \<lparr>fd_content = content, fd_encoding = ''utf-8'', fd_created_at = created_at,
                                        fd_modified_at = Some now\<rparr> (sb_files b)\<rparr>))"

definition state_edit ::
  "(nat \<Rightarrow> string) \<Rightarrow> millis \<Rightarrow> backend_path \<Rightarrow> string \<Rightarrow> string \<Rightarrow> bool \<Rightarrow> state_backend
    \<Rightarrow> (backend_error + edit_result) \<times> state_backend" where
  "state_edit show_nat now p old new all b =
     (case map_of (sb_files b) p of
        None \<Rightarrow> (Inl (FileNotFound (as_path p)), b)
      | Some d \<Rightarrow>
          (let n = count_matches old (fd_content d)
           in if n = 0 then (Inl (EditMatch (''old_string not found in '' @ as_path p)), b)
              else if \<not> all \<and> n > 1
              then (Inl (EditMatch (''old_string matched '' @ show_nat n @ '' times in '' @ as_path p
                                    @ '' (not unique; pass replace_all=true)'')), b)
              else (Inr \<lparr>er_error = None, er_path = Some (as_path p), er_occurrences = (if all then as_u32 n else 1)\<rparr>,
                    b\<lparr>sb_files := AList.update p
                        (d\<lparr>fd_content := (if all then replace_all old new (fd_content d)
                                           else replace_first old new (fd_content d)),
                           fd_modified_at := Some now\<rparr>) (sb_files b)\<rparr>)))"

definition state_delete :: "backend_path \<Rightarrow> state_backend \<Rightarrow> (backend_error + delete_result) \<times> state_backend" where
  "state_delete p b =
     (let gone = filter (\<lambda>k. k = p \<or> starts_with (as_path p @ ''/'') (as_path k)) (keys (sb_files b))
      in if gone = [] then (Inl (FileNotFound (as_path p)), b)
         else (Inr \<lparr>dr_error = None, dr_path = Some (as_path p)\<rparr>, b\<lparr>sb_files := fold AList.delete gone (sb_files b)\<rparr>))"

definition state_glob :: "string \<Rightarrow> backend_path option \<Rightarrow> state_backend \<Rightarrow> glob_result" where
  "state_glob pattern base b =
     \<lparr>gl_error = None,
      gl_matches = Some (map (\<lambda>(k, d). info_of k d)
        (filter (\<lambda>(k, d). glob_match_simple pattern (as_path k)) (sb_files b))),
      gl_truncated = False\<rparr>"

fun grep_lines :: "string \<Rightarrow> string \<Rightarrow> nat \<Rightarrow> string list \<Rightarrow> grep_match list" where
  "grep_lines path pattern idx [] = []"
| "grep_lines path pattern idx (l # ls) =
     (if sublist pattern l then [\<lparr>gm_path = path, gm_line = as_u32 (idx + 1), gm_text = l\<rparr>] else [])
     @ grep_lines path pattern (idx + 1) ls"

definition state_grep ::
  "string \<Rightarrow> backend_path option \<Rightarrow> string option \<Rightarrow> state_backend \<Rightarrow> grep_result" where
  "state_grep pattern path glob_filter b =
     (let pre = (case path of None \<Rightarrow> [] | Some p \<Rightarrow> as_path p)
      in \<lparr>gr_error = None,
          gr_matches = Some (concat (map (\<lambda>(k, d).
           if pre \<noteq> [] \<and> \<not> starts_with pre (as_path k) then []
           else if (case glob_filter of None \<Rightarrow> False | Some f \<Rightarrow> \<not> glob_match_simple f (as_path k)) then []
           else grep_lines (as_path k) pattern 0 (lines (fd_content d))) (sb_files b))),
          gr_truncated = False\<rparr>)"

text \<open>\<open>utf8_valid\<close> is \<^verbatim>\<open>String::from_utf8\<close>.\<close>

fun state_upload ::
  "(string \<Rightarrow> bool) \<Rightarrow> millis \<Rightarrow> (backend_path \<times> string) list \<Rightarrow> state_backend
    \<Rightarrow> (backend_error + unit) list \<times> state_backend" where
  "state_upload utf8_valid now [] b = ([], b)"
| "state_upload utf8_valid now ((p, bytes) # fs) b =
     (if utf8_valid bytes
      then (let (rs, b') = state_upload utf8_valid now fs (snd (state_write now p bytes b)) in (Inr () # rs, b'))
      else (let (rs, b') = state_upload utf8_valid now fs b
            in (Inl (BackendIo (''non-UTF8 bytes at '' @ as_path p @ '' (base64 encoding not yet supported)'')) # rs, b')))"

subsection \<open>The protocol\<close>

text \<open>
  A trait object of \<^verbatim>\<open>BackendProtocol\<close> over the state \<open>'b\<close>: the methods of \<^verbatim>\<open>protocol.rs\<close> a file tool
  calls. Each returns its result and, where it writes, the new state.
\<close>

record 'b backend_protocol =
  bp_ls :: "backend_path \<Rightarrow> 'b \<Rightarrow> backend_error + ls_result"
  bp_read :: "backend_path \<Rightarrow> nat \<Rightarrow> nat \<Rightarrow> 'b \<Rightarrow> backend_error + read_result"
  bp_write :: "backend_path \<Rightarrow> string \<Rightarrow> 'b \<Rightarrow> (backend_error + write_result) \<times> 'b"
  bp_edit :: "backend_path \<Rightarrow> string \<Rightarrow> string \<Rightarrow> bool \<Rightarrow> 'b \<Rightarrow> (backend_error + edit_result) \<times> 'b"
  bp_delete :: "backend_path \<Rightarrow> 'b \<Rightarrow> (backend_error + delete_result) \<times> 'b"
  bp_glob :: "string \<Rightarrow> backend_path option \<Rightarrow> 'b \<Rightarrow> backend_error + glob_result"
  bp_grep :: "string \<Rightarrow> backend_path option \<Rightarrow> string option \<Rightarrow> 'b \<Rightarrow> backend_error + grep_result"
  bp_upload :: "(backend_path \<times> string) list \<Rightarrow> 'b \<Rightarrow> (backend_error + (backend_error + unit) list) \<times> 'b"

definition state_protocol ::
  "(nat \<Rightarrow> string) \<Rightarrow> (string \<Rightarrow> bool) \<Rightarrow> millis \<Rightarrow> state_backend backend_protocol" where
  "state_protocol show_nat utf8_valid now =
     \<lparr>bp_ls = (\<lambda>p b. Inr (state_ls p b)),
      bp_read = (\<lambda>p offset limit b. Inr (state_read p offset limit b)),
      bp_write = (\<lambda>p s b. let (r, b') = state_write now p s b in (Inr r, b')),
      bp_edit = state_edit show_nat now,
      bp_delete = state_delete,
      bp_glob = (\<lambda>pattern base b. Inr (state_glob pattern base b)),
      bp_grep = (\<lambda>pattern p f b. Inr (state_grep pattern p f b)),
      bp_upload = (\<lambda>fs b. let (rs, b') = state_upload utf8_valid now fs b in (Inr rs, b'))\<rparr>"

text \<open>The sandbox extension: the in-memory backend refuses to run a command.\<close>

definition state_execute :: "string \<Rightarrow> millis option \<Rightarrow> state_backend \<Rightarrow> backend_error + string" where
  "state_execute command timeout b = Inl (Unsupported ''execute'')"

end
