(* ===== verification/Backend_Composite.thy ===== *)
theory Backend_Composite
  imports Backend
begin

text \<open>
  The routing backend of \<^verbatim>\<open>composite.rs\<close> and the choice of a backend of \<^verbatim>\<open>factory.rs\<close>.

  The shared children (\<^verbatim>\<open>Arc<dyn BackendProtocol>\<close>) live in a heap, a function from addresses to
  the state of a backend; a route holds the address of its child, so that two routes may share
  one. The composite is itself a backend, whose state is the heap.
\<close>

record composite_backend =
  cb_routes :: "(backend_path \<times> nat) list"
  cb_default :: nat

definition CompositeBackend_new :: "nat \<Rightarrow> composite_backend" where
  "CompositeBackend_new dflt = \<lparr>cb_routes = [], cb_default = dflt\<rparr>"

definition with_route :: "backend_path \<Rightarrow> nat \<Rightarrow> composite_backend \<Rightarrow> composite_backend" where
  "with_route pre child c =
     c\<lparr>cb_routes := sort_key (\<lambda>(p, _). - int (length (as_path p))) (cb_routes c @ [(pre, child)])\<rparr>"

fun child_route :: "(backend_path \<times> nat) list \<Rightarrow> backend_path \<Rightarrow> (nat \<times> backend_path) option" where
  "child_route [] path = None"
| "child_route ((pre, child) # rs) path =
     (if is_ancestor_of pre path
      then (let suf = (case path_suffix path pre of None \<Rightarrow> as_path path | Some s \<Rightarrow> s);
                translated = (if suf = [] then pre
                              else case BackendPath_new (''/'' @ suf) of Inl _ \<Rightarrow> path | Inr q \<Rightarrow> q)
            in Some (child, translated))
      else child_route rs path)"

definition resolve :: "composite_backend \<Rightarrow> backend_path \<Rightarrow> nat \<times> backend_path" where
  "resolve c path = (case child_route (cb_routes c) path of None \<Rightarrow> (cb_default c, path) | Some r \<Rightarrow> r)"

text \<open>A call of a method that reads, and of one that writes, on the child a path resolves to.\<close>

definition reading :: "composite_backend \<Rightarrow> (backend_path \<Rightarrow> 'b \<Rightarrow> 'r) \<Rightarrow> backend_path \<Rightarrow> (nat \<Rightarrow> 'b) \<Rightarrow> 'r" where
  "reading c f path h = (let (child, q) = resolve c path in f q (h child))"

definition writing ::
  "composite_backend \<Rightarrow> (backend_path \<Rightarrow> 'b \<Rightarrow> 'r \<times> 'b) \<Rightarrow> backend_path \<Rightarrow> (nat \<Rightarrow> 'b) \<Rightarrow> 'r \<times> (nat \<Rightarrow> 'b)" where
  "writing c f path h = (let (child, q) = resolve c path; (r, b) = f q (h child) in (r, h(child := b)))"

definition rebuild_composite_path :: "string \<Rightarrow> string \<Rightarrow> string" where
  "rebuild_composite_path pre child_path =
     (if child_path = ''/'' \<or> child_path = [] then pre
      else rev (dropWhile (\<lambda>c. c = CHR ''/'') (rev pre)) @ child_path)"

definition entries_of :: "'a list option \<Rightarrow> 'a list" where
  "entries_of = case_option [] id"

fun glob_routes ::
  "'b backend_protocol \<Rightarrow> string \<Rightarrow> (nat \<Rightarrow> 'b) \<Rightarrow> (backend_path \<times> nat) list \<Rightarrow> file_info list \<Rightarrow> bool
    \<Rightarrow> backend_error + glob_result" where
  "glob_routes P pattern h [] merged truncated =
     Inr \<lparr>gl_error = None, gl_matches = Some merged, gl_truncated = truncated\<rparr>"
| "glob_routes P pattern h ((pre, child) # rs) merged truncated =
     (case bp_glob P pattern None (h child) of
        Inl e \<Rightarrow> Inl e
      | Inr r \<Rightarrow> glob_routes P pattern h rs
          (merged @ map (\<lambda>i. i\<lparr>fi_path := rebuild_composite_path (as_path pre) (fi_path i)\<rparr>)
                      (entries_of (gl_matches r)))
          (truncated \<or> gl_truncated r))"

definition composite_glob ::
  "'b backend_protocol \<Rightarrow> composite_backend \<Rightarrow> string \<Rightarrow> backend_path option \<Rightarrow> (nat \<Rightarrow> 'b)
    \<Rightarrow> backend_error + glob_result" where
  "composite_glob P c pattern base h =
     (case base of
        Some p \<Rightarrow> reading c (\<lambda>q. bp_glob P pattern (Some q)) p h
      | None \<Rightarrow>
          (case bp_glob P pattern None (h (cb_default c)) of
             Inl e \<Rightarrow> Inl e
           | Inr r \<Rightarrow> glob_routes P pattern h (cb_routes c) (entries_of (gl_matches r)) (gl_truncated r)))"

fun grep_routes ::
  "'b backend_protocol \<Rightarrow> string \<Rightarrow> string option \<Rightarrow> (nat \<Rightarrow> 'b) \<Rightarrow> (backend_path \<times> nat) list
    \<Rightarrow> grep_match list \<Rightarrow> bool \<Rightarrow> backend_error + grep_result" where
  "grep_routes P pattern flt h [] merged truncated =
     Inr \<lparr>gr_error = None, gr_matches = Some merged, gr_truncated = truncated\<rparr>"
| "grep_routes P pattern flt h ((pre, child) # rs) merged truncated =
     (case bp_grep P pattern None flt (h child) of
        Inl e \<Rightarrow> Inl e
      | Inr r \<Rightarrow> grep_routes P pattern flt h rs
          (merged @ map (\<lambda>m. m\<lparr>gm_path := rebuild_composite_path (as_path pre) (gm_path m)\<rparr>)
                      (entries_of (gr_matches r)))
          (truncated \<or> gr_truncated r))"

definition composite_grep ::
  "'b backend_protocol \<Rightarrow> composite_backend \<Rightarrow> string \<Rightarrow> backend_path option \<Rightarrow> string option
    \<Rightarrow> (nat \<Rightarrow> 'b) \<Rightarrow> backend_error + grep_result" where
  "composite_grep P c pattern path flt h =
     (case path of
        Some p \<Rightarrow> reading c (\<lambda>q. bp_grep P pattern (Some q) flt) p h
      | None \<Rightarrow>
          (case bp_grep P pattern None flt (h (cb_default c)) of
             Inl e \<Rightarrow> Inl e
           | Inr r \<Rightarrow> grep_routes P pattern flt h (cb_routes c) (entries_of (gr_matches r)) (gr_truncated r)))"

text \<open>
  \<^verbatim>\<open>upload_files\<close>: the files are put into one bucket per child, in the order in which the children
  first occur, and each bucket is uploaded in one call; the results are joined bucket by bucket.
\<close>

definition bucket_order :: "nat list \<Rightarrow> nat list" where
  "bucket_order ks = rev (remdups (rev ks))"

fun upload_buckets ::
  "'b backend_protocol \<Rightarrow> (nat \<times> backend_path \<times> string) list \<Rightarrow> nat list \<Rightarrow> (nat \<Rightarrow> 'b)
    \<Rightarrow> (backend_error + (backend_error + unit) list) \<times> (nat \<Rightarrow> 'b)" where
  "upload_buckets P routed [] h = (Inr [], h)"
| "upload_buckets P routed (k # ks) h =
     (let (r, b) = bp_upload P (map snd (filter (\<lambda>f. fst f = k) routed)) (h k) in
      case r of
        Inl e \<Rightarrow> (Inl e, h(k := b))
      | Inr rs \<Rightarrow>
          (case upload_buckets P routed ks (h(k := b)) of
             (Inl e, h') \<Rightarrow> (Inl e, h')
           | (Inr rs', h') \<Rightarrow> (Inr (rs @ rs'), h')))"

definition composite_upload ::
  "'b backend_protocol \<Rightarrow> composite_backend \<Rightarrow> (backend_path \<times> string) list \<Rightarrow> (nat \<Rightarrow> 'b)
    \<Rightarrow> (backend_error + (backend_error + unit) list) \<times> (nat \<Rightarrow> 'b)" where
  "composite_upload P c files h =
     (let routed = map (\<lambda>(p, bytes). let (child, q) = resolve c p in (child, q, bytes)) files
      in upload_buckets P routed (bucket_order (map fst routed)) h)"

definition composite_protocol :: "'b backend_protocol \<Rightarrow> composite_backend \<Rightarrow> (nat \<Rightarrow> 'b) backend_protocol" where
  "composite_protocol P c =
     \<lparr>bp_ls = reading c (bp_ls P),
      bp_read = (\<lambda>p offset limit. reading c (\<lambda>q. bp_read P q offset limit) p),
      bp_write = (\<lambda>p s. writing c (\<lambda>q. bp_write P q s) p),
      bp_edit = (\<lambda>p old new all. writing c (\<lambda>q. bp_edit P q old new all) p),
      bp_delete = writing c (bp_delete P),
      bp_glob = composite_glob P c,
      bp_grep = composite_grep P c,
      bp_upload = composite_upload P c\<rparr>"

subsection \<open>Choosing a backend\<close>

datatype backend_spec = SpecState | SpecFilesystem string | SpecUnknown string

definition split_once :: "char \<Rightarrow> string \<Rightarrow> (string \<times> string) option" where
  "split_once c s =
     (if c \<in> set s then Some (takeWhile (\<lambda>x. x \<noteq> c) s, tl (dropWhile (\<lambda>x. x \<noteq> c) s)) else None)"

definition BackendSpec_parse :: "string \<Rightarrow> backend_spec" where
  "BackendSpec_parse raw =
     (let (ty, cfg) = (case split_once (CHR '':'') raw of None \<Rightarrow> (raw, []) | Some tc \<Rightarrow> tc)
      in if ty = ''state'' then SpecState
         else if ty = ''filesystem'' then SpecFilesystem cfg
         else SpecUnknown ty)"

text \<open>
  \<open>fs_new\<close> is \<^verbatim>\<open>FilesystemBackend::new\<close>, which looks at the disk; the result is one of the two kinds
  of backend.
\<close>

definition from_spec :: "(string \<Rightarrow> backend_error + 'f) \<Rightarrow> backend_spec \<Rightarrow> backend_error + (state_backend + 'f)" where
  "from_spec fs_new spec =
     (case spec of
        SpecState \<Rightarrow> Inr (Inl StateBackend_new)
      | SpecFilesystem dir \<Rightarrow>
          (case fs_new dir of Inl e \<Rightarrow> Inl e | Inr b \<Rightarrow> Inr (Inr b))
      | SpecUnknown ty \<Rightarrow> Inl (BackendOther (''unknown backend type: '' @ ty)))"

text \<open>\<open>env\<close> is the value of \<^verbatim>\<open>ARF_BACKEND\<close>, when it is set.\<close>

definition from_env :: "(string \<Rightarrow> backend_error + 'f) \<Rightarrow> string option \<Rightarrow> backend_error + (state_backend + 'f)" where
  "from_env fs_new env =
     (let raw = (case env of None \<Rightarrow> [] | Some s \<Rightarrow> s)
      in from_spec fs_new (if raw = [] then SpecState else BackendSpec_parse raw))"

end
