(* ===== verification/Backend_Props.thy ===== *)
theory Backend_Props
  imports Backend_Composite
begin

text \<open>
  What the file backends promise: the glob matcher against a reference language, the
  edit operation, and the contract of a store of files, proved once over an interface and
  interpreted on the in-memory backend and on the routing backend above it.
\<close>

subsection \<open>Glob patterns\<close>

text \<open>
  The reference: a pattern is a list of tokens, and a token stands for a language, any text for
  two stars, any text without a slash for one star, one byte for a question mark.
\<close>

datatype glob_token = AnyText | AnySegment | AnyByte | Byte char

fun glob_tokens :: "string \<Rightarrow> glob_token list" where
  "glob_tokens [] = []"
| "glob_tokens (a # pat) =
     (if a = CHR ''*''
      then (if pat \<noteq> [] \<and> hd pat = CHR ''*'' then AnyText # glob_tokens (tl pat) else AnySegment # glob_tokens pat)
      else if a = CHR ''?'' then AnyByte # glob_tokens pat
      else Byte a # glob_tokens pat)"

fun token_language :: "glob_token \<Rightarrow> string set" where
  "token_language AnyText = UNIV"
| "token_language AnySegment = {s. CHR ''/'' \<notin> set s}"
| "token_language AnyByte = {s. length s = 1}"
| "token_language (Byte c) = {[c]}"

definition seq_language :: "string set \<Rightarrow> string set \<Rightarrow> string set" where
  "seq_language A B = {u @ v | u v. u \<in> A \<and> v \<in> B}"

fun glob_language :: "glob_token list \<Rightarrow> string set" where
  "glob_language [] = {[]}"
| "glob_language (t # ts) = seq_language (token_language t) (glob_language ts)"

lemma seq_Nil: "[] \<in> seq_language A L \<longleftrightarrow> [] \<in> A \<and> [] \<in> L"
  by (auto simp: seq_language_def)

text \<open>The derivative of a sequence.\<close>

lemma seq_Cons: "b # s \<in> seq_language A L \<longleftrightarrow> ([] \<in> A \<and> b # s \<in> L) \<or> s \<in> seq_language {u. b # u \<in> A} L"
proof
  assume "b # s \<in> seq_language A L"
  then obtain u v where uv: "b # s = u @ v" "u \<in> A" "v \<in> L" by (auto simp: seq_language_def)
  then show "([] \<in> A \<and> b # s \<in> L) \<or> s \<in> seq_language {u. b # u \<in> A} L"
    by (cases u) (auto simp: seq_language_def)
next
  assume "([] \<in> A \<and> b # s \<in> L) \<or> s \<in> seq_language {u. b # u \<in> A} L"
  then show "b # s \<in> seq_language A L"
    unfolding seq_language_def by (smt (verit) append_Cons append_Nil mem_Collect_eq)
qed

lemma seq_Eps: "s \<in> seq_language {[]} L \<longleftrightarrow> s \<in> L"
  by (simp add: seq_language_def)

lemma seq_empty: "s \<notin> seq_language {} L"
  by (simp add: seq_language_def)

lemma derivatives:
  "{u. b # u \<in> token_language AnyText} = token_language AnyText"
  "{u. b # u \<in> token_language AnySegment} = (if b = CHR ''/'' then {} else token_language AnySegment)"
  "{u. b # u \<in> token_language AnyByte} = {[]}"
  "{u. b # u \<in> token_language (Byte c)} = (if b = c then {[]} else {})"
  by auto

lemma empty_tokens:
  "[] \<in> token_language AnyText" "[] \<in> token_language AnySegment"
  "[] \<notin> token_language AnyByte" "[] \<notin> token_language (Byte c)"
  by auto

lemma glob_language_Nil: "[] \<in> glob_language (t # ts) \<longleftrightarrow> [] \<in> token_language t \<and> [] \<in> glob_language ts"
  by (simp only: glob_language.simps seq_Nil)

lemma glob_language_Cons:
  "b # s \<in> glob_language (AnyText # ts) \<longleftrightarrow> b # s \<in> glob_language ts \<or> s \<in> glob_language (AnyText # ts)"
  "b # s \<in> glob_language (AnySegment # ts) \<longleftrightarrow>
     b # s \<in> glob_language ts \<or> b \<noteq> CHR ''/'' \<and> s \<in> glob_language (AnySegment # ts)"
  "b # s \<in> glob_language (AnyByte # ts) \<longleftrightarrow> s \<in> glob_language ts"
  "b # s \<in> glob_language (Byte c # ts) \<longleftrightarrow> b = c \<and> s \<in> glob_language ts"
  by (simp_all only: glob_language.simps seq_Cons [where b = b] derivatives empty_tokens seq_Eps seq_empty simp_thms
      split: if_split) (simp_all add: seq_empty)

text \<open>
  C39: the matcher of the in-memory backend, which walks pattern and path together and tries both
  ways at a star, decides exactly the language of the pattern.
\<close>

theorem glob_equivalence: "glob_match_simple pattern path \<longleftrightarrow> path \<in> glob_language (glob_tokens pattern)"
proof -
  have "char_match pattern path \<longleftrightarrow> path \<in> glob_language (glob_tokens pattern)"
  proof (induction pattern path rule: char_match.induct)
    case (2 a pat path)
    then show ?case
      by (subst char_match.simps, cases path)
        (auto simp add: glob_language_Nil glob_language_Cons empty_tokens
          simp del: glob_language.simps token_language.simps)
  qed (simp add: char_match.simps)
  then show ?thesis by (simp add: glob_match_simple_def)
qed

subsection \<open>Edits\<close>

text \<open>The pieces of a text between the occurrences of a pattern, found from the left.\<close>

function cut :: "string \<Rightarrow> string \<Rightarrow> string list" where
  "cut old s =
     (if old = [] \<or> s = [] then [s]
      else if starts_with old s then [] # cut old (drop (length old) s)
      else (let ps = cut old (tl s) in (hd s # hd ps) # tl ps))"
  by pat_completeness auto
termination by (relation "measure (\<lambda>(old, s). length s)") auto

declare cut.simps [simp del]

lemma cut_Nil [simp]: "cut old [] = [[]]"
  by (simp add: cut.simps)

lemma cut_not_Nil [simp]: "cut old s \<noteq> []"
  by (simp add: cut.simps Let_def)

lemma cut_hit: "old \<noteq> [] \<Longrightarrow> cut old (old @ s) = [] # cut old s"
  by (subst cut.simps) (simp add: starts_with_def)

lemma cut_miss:
  "old \<noteq> [] \<Longrightarrow> \<not> starts_with old (c # s) \<Longrightarrow> cut old (c # s) = (c # hd (cut old s)) # tl (cut old s)"
  by (subst cut.simps) (simp add: Let_def)

text \<open>The induction a scan from the left follows.\<close>

lemma scan_induct [consumes 1, case_names Nil Hit Miss]:
  assumes "old \<noteq> []" and "old \<noteq> [] \<Longrightarrow> P []"
    and "\<And>s. old \<noteq> [] \<Longrightarrow> P s \<Longrightarrow> P (old @ s)"
    and "\<And>c s. old \<noteq> [] \<Longrightarrow> \<not> starts_with old (c # s) \<Longrightarrow> P s \<Longrightarrow> P (c # s)"
  shows "P s"
proof (induction s rule: length_induct)
  case (1 s)
  show ?case
  proof (cases "starts_with old s")
    case True
    then obtain r where "s = old @ r" by (auto simp: starts_with_iff)
    with 1 assms show ?thesis by auto
  next
    case False
    with 1 assms show ?thesis by (cases s) auto
  qed
qed

lemma join_Cons: "ps \<noteq> [] \<Longrightarrow> join sep (p # ps) = p @ sep @ join sep ps"
  by (cases ps) auto

lemma join_head: "ps \<noteq> [] \<Longrightarrow> join sep ((c # hd ps) # tl ps) = c # join sep ps"
  by (cases ps; cases "tl ps") auto

lemma join_cut: "old \<noteq> [] \<Longrightarrow> join old (cut old s) = s"
  by (induction s rule: scan_induct) (auto simp: cut_hit cut_miss join_Cons join_head)

lemma replace_all_scan:
  "old \<noteq> [] \<Longrightarrow> replace_all old new [] = []"
  "old \<noteq> [] \<Longrightarrow> replace_all old new (old @ s) = new @ replace_all old new s"
  "old \<noteq> [] \<Longrightarrow> \<not> starts_with old (c # s) \<Longrightarrow> replace_all old new (c # s) = c # replace_all old new s"
  using replace_all.simps [of old new "[]"] replace_all.simps [of old new "old @ s"]
    replace_all.simps [of old new "c # s"]
  by (auto simp: starts_with_def)

lemma count_matches_scan:
  "old \<noteq> [] \<Longrightarrow> count_matches old [] = 0"
  "old \<noteq> [] \<Longrightarrow> count_matches old (old @ s) = 1 + count_matches old s"
  "old \<noteq> [] \<Longrightarrow> \<not> starts_with old (c # s) \<Longrightarrow> count_matches old (c # s) = count_matches old s"
  using count_matches.simps [of old "[]"] count_matches.simps [of old "old @ s"]
    count_matches.simps [of old "c # s"]
  by (auto simp: starts_with_def)

lemma replace_first_hit: "old \<noteq> [] \<Longrightarrow> replace_first old new (old @ s) = new @ s"
  by (cases old) (simp_all add: starts_with_def)

lemma replace_all_cut: "old \<noteq> [] \<Longrightarrow> replace_all old new s = join new (cut old s)"
  by (induction s rule: scan_induct) (simp_all add: replace_all_scan cut_hit cut_miss join_Cons join_head)

lemma count_matches_cut: "old \<noteq> [] \<Longrightarrow> count_matches old s + 1 = length (cut old s)"
  by (induction s rule: scan_induct) (simp_all add: count_matches_scan cut_hit cut_miss)

lemma replace_first_cut:
  "old \<noteq> [] \<Longrightarrow> tl (cut old s) \<noteq> [] \<Longrightarrow> replace_first old new s = hd (cut old s) @ new @ join old (tl (cut old s))"
  by (induction s rule: scan_induct) (simp_all add: cut_hit cut_miss join_cut replace_first_hit)

lemma hd_cut_prefix: "old \<noteq> [] \<Longrightarrow> \<exists>r. s = hd (cut old s) @ r"
  by (induction s rule: scan_induct) (auto simp: cut_hit cut_miss)

lemma cut_free:
  assumes "old \<noteq> []"
  shows "p \<in> set (cut old s) \<Longrightarrow> \<not> sublist old p"
  using assms
proof (induction s arbitrary: p rule: scan_induct)
  case (Miss c s)
  obtain r where r: "s = hd (cut old s) @ r" using hd_cut_prefix Miss.hyps(1) by blast
  have "\<not> sublist old (c # hd (cut old s))"
  proof
    assume "sublist old (c # hd (cut old s))"
    then consider "prefix old (c # hd (cut old s))" | "sublist old (hd (cut old s))"
      by (auto simp: sublist_Cons_right)
    then show False
    proof cases
      case 1
      then obtain q where "c # hd (cut old s) = old @ q" by (auto simp: prefix_def)
      with r have "c # s = old @ q @ r" by (metis append_Cons append_assoc)
      with Miss.hyps show False by (auto simp: starts_with_iff)
    next
      case 2
      moreover have "hd (cut old s) \<in> set (cut old s)" by simp
      ultimately show False using Miss.IH by blast
    qed
  qed
  moreover have "p = c # hd (cut old s) \<or> p \<in> set (cut old s)"
    using Miss.prems Miss.hyps list.set_sel(2) [OF cut_not_Nil] by (auto simp: cut_miss)
  ultimately show ?case using Miss.IH by blast
qed (use assms in \<open>auto simp: cut_hit\<close>)

text \<open>
  An edit in the in-memory backend. A successful edit cuts the text of the file at the
  occurrences of the old string, found from the left: the pieces hold no occurrence, and the new
  text has the new string between them. Without \<^verbatim>\<open>replace_all\<close> there is exactly one occurrence.
  The reported number is the number of occurrences (modulo the width of \<^verbatim>\<open>u32\<close>) and every other
  file stays as it is.
\<close>

theorem edit_spec:
  assumes "state_edit show_nat now p old new all b = (Inr r, b')" and "old \<noteq> []"
  shows "\<exists>d ps. map_of (sb_files b) p = Some d \<and> fd_content d = join old ps \<and>
    (\<forall>x \<in> set ps. \<not> sublist old x) \<and> 2 \<le> length ps \<and> (\<not> all \<longrightarrow> length ps = 2) \<and>
    er_occurrences r = as_u32 (length ps - 1) \<and>
    map_of (sb_files b') = (map_of (sb_files b))(p \<mapsto> d\<lparr>fd_content := join new ps, fd_modified_at := Some now\<rparr>)"
proof -
  from assms(1) obtain d where d: "map_of (sb_files b) p = Some d"
    by (auto simp: state_edit_def split: option.splits)
  let ?s = "fd_content d" let ?ps = "cut old ?s"
  from assms d have n: "count_matches old ?s \<noteq> 0" "\<not> all \<Longrightarrow> count_matches old ?s = 1"
    by (auto simp: state_edit_def Let_def split: if_splits)
  then have l: "2 \<le> length ?ps" "\<not> all \<Longrightarrow> length ?ps = 2" "length ?ps - 1 = count_matches old ?s"
    using count_matches_cut [OF assms(2), of ?s] by auto
  then have two: "\<not> all \<Longrightarrow> join new ?ps = hd ?ps @ new @ join old (tl ?ps)"
    by (auto simp: length_Suc_conv numeral_2_eq_2)
  have tl: "tl ?ps \<noteq> []" using l(1) by (cases ?ps) auto
  have "map_of (sb_files b') = (map_of (sb_files b))(p \<mapsto> d\<lparr>fd_content := join new ?ps, fd_modified_at := Some now\<rparr>)
      \<and> er_occurrences r = as_u32 (length ?ps - 1)"
    using assms d n l(3) two tl
    by (auto simp: state_edit_def Let_def replace_all_cut replace_first_cut update_conv' as_u32_small
        split: if_splits)
  with d l cut_free [OF assms(2)] join_cut [OF assms(2), of ?s] show ?thesis by metis
qed

definition demo_files :: state_backend where
  "demo_files = StateBackend_with_seed 0 [(BackendPath ''/a'', ''x = 1, x = 2'')]"

lemma edit_demo:
  "state_edit (\<lambda>_. ''2'') 7 (BackendPath ''/a'') ''x'' ''yy'' True demo_files =
    (Inr \<lparr>er_error = None, er_path = Some ''/a'', er_occurrences = 2\<rparr>,
     StateBackend_new\<lparr>sb_files := [(BackendPath ''/a'', \<lparr>fd_content = ''yy = 1, yy = 2'', fd_encoding = ''utf-8'',
        fd_created_at = Some 0, fd_modified_at = Some 7\<rparr>)]\<rparr>)"
  by code_simp

theorem edit_spec_witness:
  "\<exists>d ps. map_of (sb_files demo_files) (BackendPath ''/a'') = Some d \<and> fd_content d = join ''x'' ps \<and>
     (\<forall>x \<in> set ps. \<not> sublist ''x'' x) \<and> as_u32 (length ps - 1) = 2"
  using edit_spec [OF edit_demo] by (auto 0 4 dest: sym)

text \<open>Occurrences that overlap are counted once: an edit may be ambiguous and still go through.\<close>

lemma overlapping_counted_once: "count_matches ''aa'' ''aaa'' = 1 \<and> replace_first ''aa'' ''b'' ''aaa'' = ''ba''"
  by code_simp

end
