(* ===== verification/File_Store.thy ===== *)
theory File_Store
  imports Backend_Props
begin

text \<open>
  A backend as a store of files: the contract over which the file tools are written, a
  view of the files as a map from paths to texts that reads and writes respect. The laws hold of
  the in-memory backend, and carry over from any backend to the routing backend above it.
\<close>

subsection \<open>The contract\<close>

text \<open>A text as a read of the whole file returns it: its lines, joined again.\<close>

definition as_read :: "string \<Rightarrow> string" where
  "as_read s = join [CHR 0x0A] (lines s)"





subsection \<open>The in-memory backend\<close>



subsection \<open>Paths below a route\<close>











subsection \<open>The routing backend\<close>









definition demo_composite :: composite_backend where
  "demo_composite = with_route (BackendPath ''/mem'') 1 (CompositeBackend_new 0)"


text \<open>A read drops the line end of the last line.\<close>

lemma read_drops_last_newline: "as_read [CHR ''a'', CHR 0x0A] = ''a''"
  by code_simp

text \<open>
  The prefix of a route aliases a path below it: the child is asked for the prefix as it stands,
  which is also what the prefix repeated below itself is translated to.
\<close>

lemma prefix_aliases_below:
  "resolve demo_composite (BackendPath ''/mem'') = resolve demo_composite (BackendPath ''/mem/mem'')"
  by code_simp

text \<open>The results of an upload come child by child: the failure of the second file is reported third.\<close>

lemma upload_results_reordered:
  "fst (bp_upload (composite_protocol (state_protocol (\<lambda>_. []) (\<lambda>s. s \<noteq> ''bad'') 5) demo_composite)
     [(BackendPath ''/a'', ''x''), (BackendPath ''/mem/b'', ''bad''), (BackendPath ''/c'', ''z'')]
     (\<lambda>_. StateBackend_new)) =
   Inr [Inr (), Inr (), Inl (BackendIo ''non-UTF8 bytes at /b (base64 encoding not yet supported)'')]"
  by code_simp

subsection \<open>The order of the routes\<close>

definition composite_of :: "nat \<Rightarrow> (backend_path \<times> nat) list \<Rightarrow> composite_backend" where
  "composite_of dflt rs = fold (\<lambda>(p, k). with_route p k) rs (CompositeBackend_new dflt)"

lemma child_route_matching:
  "child_route rs p = child_route (filter (\<lambda>(pre, _). is_ancestor_of pre p) rs) p"
  by (induction rs p rule: child_route.induct) auto

lemma composite_of_routes:
  "cb_default (composite_of dflt rs) = dflt \<and>
   (\<exists>xs. mset xs = mset rs \<and>
     cb_routes (composite_of dflt rs) = sort_key (\<lambda>(p, _). - int (length (as_path p))) xs)"
proof (induction rs rule: rev_induct)
  case Nil
  show ?case by (simp add: composite_of_def CompositeBackend_new_def)
next
  case (snoc r rs)
  obtain p k where r: "r = (p, k)" by force
  have "composite_of dflt (rs @ [r]) = with_route p k (composite_of dflt rs)"
    by (simp add: composite_of_def r)
  with snoc r show ?case
    by (auto simp: with_route_def intro!: exI [of _ "cb_routes (composite_of dflt rs) @ [r]"])
qed

lemma ancestor_prefix: "is_ancestor_of a p \<Longrightarrow> take (length (as_path a)) (as_path p) = as_path a"
  by (auto simp: is_ancestor_of_def starts_with_def)

text \<open>
  The order in which routes are added does not matter. Two routing backends over the same
  default and the same routes, with different prefixes, send every path to the same child under
  the same name.
\<close>

theorem route_order_irrelevant:
  assumes "mset rs = mset rs'" and "distinct (keys rs)"
  shows "resolve (composite_of dflt rs) p = resolve (composite_of dflt rs') p"
proof -
  let ?f = "\<lambda>(p, _ :: nat). - int (length (as_path p))" and ?m = "\<lambda>(pre, _). is_ancestor_of pre p"
  obtain xs where xs: "mset xs = mset rs" "cb_routes (composite_of dflt rs) = sort_key ?f xs"
    using composite_of_routes [of dflt rs] by auto
  obtain ys where ys: "mset ys = mset rs'" "cb_routes (composite_of dflt rs') = sort_key ?f ys"
    using composite_of_routes [of dflt rs'] by auto
  have "mset (filter ?m xs) = mset (filter ?m ys)" using xs(1) ys(1) assms(1) by simp
  moreover have "inj_on ?f (set (filter ?m xs))"
  proof (rule inj_onI)
    fix x y
    assume x: "x \<in> set (filter ?m xs)" and y: "y \<in> set (filter ?m xs)" and "?f x = ?f y"
    then have "is_ancestor_of (fst x) p" "is_ancestor_of (fst y) p"
      and "length (as_path (fst x)) = length (as_path (fst y))"
      by (simp_all add: split_beta)
    then have "as_path (fst x) = as_path (fst y)" by (metis ancestor_prefix)
    moreover have "set xs = set rs" using xs(1) by (rule mset_eq_setD)
    moreover from this have "inj_on fst (set xs)" using assms(2) by (simp add: distinct_map)
    ultimately show "x = y"
      using x y inj_onD [of fst "set xs" x y] by (simp add: backend_path.expand)
  qed
  ultimately have "filter ?m (sort_key ?f xs) = filter ?m (sort_key ?f ys)"
    by (simp add: filter_sort sort_key_unique)
  then have "child_route (cb_routes (composite_of dflt rs)) p = child_route (cb_routes (composite_of dflt rs')) p"
    by (metis child_route_matching xs(2) ys(2))
  moreover have "cb_default (composite_of dflt rs) = cb_default (composite_of dflt rs')"
    by (simp add: composite_of_routes)
  ultimately show ?thesis by (simp add: resolve_def split: option.split)
qed

theorem route_order_irrelevant_witness:
  "resolve (composite_of 0 [(BackendPath ''/a'', 1), (BackendPath ''/a/b'', 2)]) (BackendPath ''/a/b/c'') =
   resolve (composite_of 0 [(BackendPath ''/a/b'', 2), (BackendPath ''/a'', 1)]) (BackendPath ''/a/b/c'')"
  by (rule route_order_irrelevant) auto

end
