(* ===== verification/Pool.thy ===== *)
theory Pool
  imports Arf_Prelude
begin

text \<open>
  The bounded pool of resources of \<^verbatim>\<open>crates/arf-pool\<close>: the life of one resource (\<^verbatim>\<open>manager.rs\<close>) and
  the pool with its leases and overflow strategies (\<^verbatim>\<open>lib.rs\<close>, \<^verbatim>\<open>overflow.rs\<close>).

  The pool is shared by tasks, so its operations are cut into the pieces between their awaits:
  a step relation interleaves them. The tokio semaphore and \<^verbatim>\<open>Notify\<close> are modelled by what their
  documentation says: a semaphore hands out its permits, to any waiting task; \<^verbatim>\<open>notify_one\<close> wakes
  the first waiting task or, when none waits, stores one permit, and at most one.
\<close>

subsection \<open>The life of a resource\<close>

datatype resource_state = NilState | Idle | Busy | Draining

definition is_leaseable :: "resource_state \<Rightarrow> bool" where
  "is_leaseable s \<longleftrightarrow> s = Idle"

record resource_manager =
  rm_state :: resource_state
  rm_last_used_ms :: millis
  rm_idle_since_ms :: millis

definition ResourceManager_new :: resource_manager where
  "ResourceManager_new = \<lparr>rm_state = NilState, rm_last_used_ms = 0, rm_idle_since_ms = 0\<rparr>"

definition may_change :: "resource_state \<Rightarrow> resource_state \<Rightarrow> bool" where
  "may_change s t \<longleftrightarrow>
     (s, t) \<in> set [(NilState, Idle), (NilState, Draining), (Idle, Busy), (Idle, Draining),
                  (Busy, Idle), (Busy, Draining), (Draining, Idle)]"

definition rm_transition ::
  "millis \<Rightarrow> resource_state \<Rightarrow> resource_manager \<Rightarrow> (string + unit) \<times> resource_manager" where
  "rm_transition now_ms t m =
     (if \<not> may_change (rm_state m) t then (Inl ''invalid state transition'', m)
      else (Inr (),
            (if t = Busy then m\<lparr>rm_last_used_ms := now_ms\<rparr>
             else if t = Idle then m\<lparr>rm_idle_since_ms := now_ms\<rparr> else m)\<lparr>rm_state := t\<rparr>))"

subsection \<open>The pool\<close>

datatype overflow = Queue nat | Reject | Block millis

datatype pool_error = Full | Timeout millis | Closed | Acquire string

record pool_config =
  pc_max_size :: nat
  pc_overflow :: overflow
  pc_idle_timeout :: "millis option"
  pc_min_size :: nat

definition PoolConfig_default :: pool_config where
  "PoolConfig_default = \<lparr>pc_max_size = 4, pc_overflow = Queue 0, pc_idle_timeout = None, pc_min_size = 0\<rparr>"

text \<open>
  \<open>pool_state\<close> is the part behind the mutex (\<^verbatim>\<open>idle\<close> is a stack whose top is the last element).
\<close>

record 'r pool_state =
  ps_idle :: "'r list"
  ps_total :: nat
  ps_pending :: nat

text \<open>
  Where a task inside \<^verbatim>\<open>acquire\<close> is: about to take a permit, about to count itself as pending,
  waiting for a notification, notified, waiting for a permit, holding a permit, holding a lease,
  or dropping it; or it is done with an error.
\<close>

datatype 'r stage =
    Starting
  | Counting
  | Counted
  | Waiting
  | Notified
  | Queued
  | Holding
  | Leased 'r
  | Dropping
  | Done "pool_error option"

text \<open>
  \<open>pl_permits\<close> and \<open>pl_notified\<close> are the semaphore and the stored permit of \<^verbatim>\<open>Notify\<close>, \<open>pl_waiters\<close> the
  tasks registered with it; \<open>pl_returning\<close> are the resources whose spawned release task has not
  run yet, \<open>pl_outside\<close> those handed to a caller of \<^verbatim>\<open>provision\<close>. \<open>pl_provisioner\<close> tells whether a
  provisioner is registered.
\<close>

record 'r pool =
  pl_config :: pool_config
  pl_provisioner :: bool
  pl_state :: "'r pool_state"
  pl_permits :: nat
  pl_notified :: bool
  pl_waiters :: "nat list"
  pl_tasks :: "'r stage list"
  pl_returning :: "'r list"
  pl_outside :: "'r list"

definition Pool_new :: "pool_config \<Rightarrow> 'r pool" where
  "Pool_new config =
     \<lparr>pl_config = config, pl_provisioner = False, pl_state = \<lparr>ps_idle = [], ps_total = 0, ps_pending = 0\<rparr>,
      pl_permits = pc_max_size config, pl_notified = False, pl_waiters = [], pl_tasks = [],
      pl_returning = [], pl_outside = []\<rparr>"

definition with_resources :: "pool_config \<Rightarrow> 'r list \<Rightarrow> 'r pool" where
  "with_resources config resources =
     (let p = Pool_new config
      in p\<lparr>pl_state := (pl_state p)\<lparr>ps_idle := resources, ps_total := length resources\<rparr>\<rparr>)"

definition provision_internal :: "'r \<Rightarrow> 'r pool_state \<Rightarrow> 'r pool_state" where
  "provision_internal r s = s\<lparr>ps_idle := ps_idle s @ [r], ps_total := ps_total s + 1\<rparr>"

text \<open>\<open>prov i\<close> is the resource that the provisioner makes at its \<open>i\<close>-th call.\<close>

definition with_provisioner :: "pool_config \<Rightarrow> (nat \<Rightarrow> 'r) \<Rightarrow> 'r pool" where
  "with_provisioner config prov =
     (let p = Pool_new config
      in p\<lparr>pl_state := fold (\<lambda>i. provision_internal (prov i)) [0..<pc_min_size config] (pl_state p),
           pl_provisioner := True\<rparr>)"

subsection \<open>Taking a resource\<close>

text \<open>
  The second half of \<^verbatim>\<open>acquire\<close>, under the lock and with a permit: \<open>valid\<close> is \<^verbatim>\<open>try_acquire().is_ok()\<close>,
  \<open>made\<close> what the provisioner would make. A total of zero with an idle resource that is refused
  underflows: the build with overflow checks panics, after the resource was popped.
\<close>

fun reuse :: "('r \<Rightarrow> bool) \<Rightarrow> 'r list \<Rightarrow> nat \<Rightarrow> (unit, 'r option) outcome \<times> 'r list \<times> nat" where
  "reuse valid [] n = (Ret None, [], n)"
| "reuse valid (r # rs) n =
     (if valid r then (Ret (Some r), rev rs, n)
      else if n = 0 then (Panic, rev rs, 0)
      else reuse valid rs (n - 1))"

definition find_resource ::
  "pool_config \<Rightarrow> bool \<Rightarrow> ('r \<Rightarrow> bool) \<Rightarrow> 'r \<Rightarrow> 'r pool_state \<Rightarrow> ((pool_error, 'r) outcome \<times> 'r pool_state)" where
  "find_resource config provisioner valid made s =
     (case reuse valid (rev (ps_idle s)) (ps_total s) of (found, idle, tot) \<Rightarrow>
        (let s' = s\<lparr>ps_idle := idle, ps_total := tot\<rparr>
         in case found of
              Ret (Some r) \<Rightarrow> (Ret r, s')
            | Ret None \<Rightarrow>
                if tot < pc_max_size config
                then (if provisioner then (Ret made, s'\<lparr>ps_total := tot + 1\<rparr>)
                      else (Fail (Acquire ''no idle resource and no provisioner registered''), s'))
                else (Fail Closed, s')
            | _ \<Rightarrow> (Panic, s')))"

subsection \<open>The pieces of the operations\<close>

abbreviation stage_of :: "'r pool \<Rightarrow> nat \<Rightarrow> 'r stage" where
  "stage_of p t \<equiv> pl_tasks p ! t"

definition go :: "nat \<Rightarrow> 'r stage \<Rightarrow> 'r pool \<Rightarrow> 'r pool" where
  "go t s p = p\<lparr>pl_tasks := (pl_tasks p)[t := s]\<rparr>"

definition notify_one :: "'r pool \<Rightarrow> 'r pool" where
  "notify_one p =
     (case pl_waiters p of
        [] \<Rightarrow> p\<lparr>pl_notified := True\<rparr>
      | w # ws \<Rightarrow> go w Notified (p\<lparr>pl_waiters := ws\<rparr>))"

definition give_permit :: "'r pool \<Rightarrow> 'r pool" where
  "give_permit p = p\<lparr>pl_permits := pl_permits p + 1\<rparr>"

definition take_permit :: "nat \<Rightarrow> 'r pool \<Rightarrow> 'r pool" where
  "take_permit t p = go t Holding (p\<lparr>pl_permits := pl_permits p - 1\<rparr>)"

text \<open>The choice by overflow strategy, up to its first await.\<close>

definition acquire_start :: "nat \<Rightarrow> 'r pool \<Rightarrow> 'r pool" where
  "acquire_start t p =
     (case pc_overflow (pl_config p) of
        Block timeout \<Rightarrow> go t Queued p
      | Reject \<Rightarrow> if pl_permits p > 0 then take_permit t p else go t (Done (Some Full)) p
      | Queue max_pending \<Rightarrow> if pl_permits p > 0 then take_permit t p else go t Counting p)"

definition count_pending :: "nat \<Rightarrow> nat \<Rightarrow> 'r pool \<Rightarrow> 'r pool" where
  "count_pending max_pending t p =
     (if ps_pending (pl_state p) \<ge> max_pending then go t (Done (Some Full)) p
      else go t Counted (p\<lparr>pl_state := (pl_state p)\<lparr>ps_pending := ps_pending (pl_state p) + 1\<rparr>\<rparr>))"

definition await_notify :: "nat \<Rightarrow> 'r pool \<Rightarrow> 'r pool" where
  "await_notify t p =
     (if pl_notified p then go t Notified (p\<lparr>pl_notified := False\<rparr>)
      else go t Waiting (p\<lparr>pl_waiters := pl_waiters p @ [t]\<rparr>))"

definition uncount :: "nat \<Rightarrow> 'r pool \<Rightarrow> 'r pool" where
  "uncount t p = go t Queued (p\<lparr>pl_state := (pl_state p)\<lparr>ps_pending := ps_pending (pl_state p) - 1\<rparr>\<rparr>)"

text \<open>A permit that is not put into a lease goes back when \<^verbatim>\<open>acquire\<close> returns.\<close>

definition take_resource :: "('r \<Rightarrow> bool) \<Rightarrow> 'r \<Rightarrow> nat \<Rightarrow> 'r pool \<Rightarrow> 'r pool" where
  "take_resource valid made t p =
     (let (res, s) = find_resource (pl_config p) (pl_provisioner p) valid made (pl_state p);
          p' = p\<lparr>pl_state := s\<rparr>
      in case res of
           Ret r \<Rightarrow> go t (Leased r) p'
         | Fail e \<Rightarrow> go t (Done (Some e)) (give_permit p')
         | _ \<Rightarrow> go t (Done None) (give_permit p'))"

text \<open>
  Dropping a lease spawns the release task, and then drops the permit. The release task pushes
  the resource and notifies.
\<close>

definition drop_lease :: "nat \<Rightarrow> 'r \<Rightarrow> 'r pool \<Rightarrow> 'r pool" where
  "drop_lease t r p = go t Dropping (p\<lparr>pl_returning := pl_returning p @ [r]\<rparr>)"

definition drop_permit :: "nat \<Rightarrow> 'r pool \<Rightarrow> 'r pool" where
  "drop_permit t p = go t (Done None) (give_permit p)"

definition push_idle :: "'r \<Rightarrow> 'r pool_state \<Rightarrow> 'r pool_state" where
  "push_idle r s = s\<lparr>ps_idle := ps_idle s @ [r]\<rparr>"

definition release_task :: "'r \<Rightarrow> 'r pool \<Rightarrow> 'r pool" where
  "release_task r p =
     notify_one (p\<lparr>pl_returning := remove1 r (pl_returning p), pl_state := push_idle r (pl_state p)\<rparr>)"

text \<open>\<^verbatim>\<open>Pool::release\<close> takes any \<^verbatim>\<open>Arc\<close> of the resource type.\<close>

definition release :: "'r \<Rightarrow> 'r pool \<Rightarrow> 'r pool" where
  "release r p = p\<lparr>pl_outside := remove1 r (pl_outside p), pl_returning := pl_returning p @ [r]\<rparr>"

definition provision_one :: "'r \<Rightarrow> 'r pool \<Rightarrow> (pool_error + unit) \<times> 'r pool" where
  "provision_one made p =
     (if \<not> pl_provisioner p then (Inl (Acquire ''no provisioner registered''), p)
      else if ps_total (pl_state p) \<ge> pc_max_size (pl_config p) then (Inl Full, p)
      else (Inr (), notify_one (p\<lparr>pl_state := provision_internal made (pl_state p)\<rparr>)))"

text \<open>\<open>res\<close> is what the caller's construction function returns.\<close>

definition provision :: "string + 'r \<Rightarrow> 'r pool \<Rightarrow> (pool_error + 'r) \<times> 'r pool" where
  "provision res p =
     (if ps_total (pl_state p) \<ge> pc_max_size (pl_config p) then (Inl Full, p)
      else (case res of
              Inl e \<Rightarrow> (Inl (Acquire e), p)
            | Inr r \<Rightarrow> (Inr r, p\<lparr>pl_state := (pl_state p)\<lparr>ps_total := ps_total (pl_state p) + 1\<rparr>,
                                pl_outside := pl_outside p @ [r]\<rparr>)))"

text \<open>A task whose future is dropped in \<^verbatim>\<open>acquire\<close>: nothing takes back what it counted.\<close>

definition cancel :: "nat \<Rightarrow> 'r pool \<Rightarrow> 'r pool" where
  "cancel t p =
     (case stage_of p t of
        Waiting \<Rightarrow> go t (Done None) (p\<lparr>pl_waiters := filter (\<lambda>w. w \<noteq> t) (pl_waiters p)\<rparr>)
      | Holding \<Rightarrow> go t (Done None) (give_permit p)
      | _ \<Rightarrow> go t (Done None) p)"

subsection \<open>The steps\<close>

text \<open>Every resource the pool knows of.\<close>

fun leased_of :: "'r stage \<Rightarrow> 'r multiset" where
  "leased_of (Leased r) = {#r#}"
| "leased_of _ = {#}"

definition leased :: "'r pool \<Rightarrow> 'r multiset" where
  "leased p = sum_list (map leased_of (pl_tasks p))"

definition members :: "'r pool \<Rightarrow> 'r multiset" where
  "members p = mset (ps_idle (pl_state p)) + leased p + mset (pl_returning p) + mset (pl_outside p)"

text \<open>
  \<open>made\<close> is always a new resource: it gets an \<^verbatim>\<open>Arc\<close> of its own. A careful run calls \<^verbatim>\<open>release\<close> only
  on what \<^verbatim>\<open>provision\<close> has returned, once for each; the code accepts every resource at any time, one
  that is leased, one that is idle already, and one that never was in the pool.
\<close>

inductive pool_move :: "bool \<Rightarrow> 'r pool \<Rightarrow> 'r pool \<Rightarrow> bool" for careful where
  call: "pool_move careful p (p\<lparr>pl_tasks := pl_tasks p @ [Starting]\<rparr>)"
| start: "t < length (pl_tasks p) \<Longrightarrow> stage_of p t = Starting \<Longrightarrow> pool_move careful p (acquire_start t p)"
| count: "t < length (pl_tasks p) \<Longrightarrow> stage_of p t = Counting \<Longrightarrow> pc_overflow (pl_config p) = Queue n \<Longrightarrow>
    pool_move careful p (count_pending n t p)"
| await: "t < length (pl_tasks p) \<Longrightarrow> stage_of p t = Counted \<Longrightarrow> pool_move careful p (await_notify t p)"
| uncount: "t < length (pl_tasks p) \<Longrightarrow> stage_of p t = Notified \<Longrightarrow> pool_move careful p (uncount t p)"
| permit: "t < length (pl_tasks p) \<Longrightarrow> stage_of p t = Queued \<Longrightarrow> pl_permits p > 0 \<Longrightarrow> pool_move careful p (take_permit t p)"
| time_out: "t < length (pl_tasks p) \<Longrightarrow> stage_of p t = Queued \<Longrightarrow> pc_overflow (pl_config p) = Block d \<Longrightarrow>
    pool_move careful p (go t (Done (Some (Timeout d))) p)"
| resource: "t < length (pl_tasks p) \<Longrightarrow> stage_of p t = Holding \<Longrightarrow> made \<notin># members p \<Longrightarrow>
    pool_move careful p (take_resource valid made t p)"
| drop: "t < length (pl_tasks p) \<Longrightarrow> stage_of p t = Leased r \<Longrightarrow> pool_move careful p (drop_lease t r p)"
| drop_permit: "t < length (pl_tasks p) \<Longrightarrow> stage_of p t = Dropping \<Longrightarrow> pool_move careful p (drop_permit t p)"
| return: "r \<in> set (pl_returning p) \<Longrightarrow> pool_move careful p (release_task r p)"
| release: "(careful \<longrightarrow> r \<in> set (pl_outside p)) \<Longrightarrow> pool_move careful p (release r p)"
| provision: "(\<And>r. res = Inr r \<Longrightarrow> r \<notin># members p) \<Longrightarrow> pool_move careful p (snd (provision res p))"
| provision_one: "made \<notin># members p \<Longrightarrow> pool_move careful p (snd (provision_one made p))"
| cancel: "t < length (pl_tasks p) \<Longrightarrow>
    stage_of p t \<in> {Starting, Counting, Counted, Waiting, Notified, Queued, Holding} \<Longrightarrow> pool_move careful p (cancel t p)"
| forward: "t < length (pl_tasks p) \<Longrightarrow> stage_of p t = Notified \<Longrightarrow> pool_move careful p (notify_one (cancel t p))"

abbreviation pool_step :: "'r pool \<Rightarrow> 'r pool \<Rightarrow> bool" where
  "pool_step \<equiv> pool_move False"

abbreviation careful_step :: "'r pool \<Rightarrow> 'r pool \<Rightarrow> bool" where
  "careful_step \<equiv> pool_move True"

lemma careful_step_is_step: "careful_step p q \<Longrightarrow> pool_step p q"
  by (induction rule: pool_move.induct) (auto intro: pool_move.intros)

end
