(* ===== verification/Pool_Props.thy ===== *)
theory Pool_Props
  imports Pool
begin

text \<open>
  What the resource pool guarantees under every interleaving of its tasks: the bounds on leases,
  resources and pending callers, that no resource is leased twice, and that a caller with a
  permit gets a resource unless one is just being returned.
\<close>

subsection \<open>Sums over the tasks\<close>

fun weight :: "'r stage \<Rightarrow> nat" where
  "weight Holding = 1"
| "weight (Leased r) = 1"
| "weight Dropping = 1"
| "weight _ = 0"

fun counted :: "'r stage \<Rightarrow> nat" where
  "counted Counted = 1"
| "counted Waiting = 1"
| "counted Notified = 1"
| "counted _ = 0"

definition held :: "'r pool \<Rightarrow> nat" where
  "held p = sum_list (map weight (pl_tasks p))"

definition pending_tasks :: "'r pool \<Rightarrow> nat" where
  "pending_tasks p = sum_list (map counted (pl_tasks p))"

lemmas sums = leased_def held_def pending_tasks_def

text \<open>What changing the stage of one task does to the sums.\<close>

lemma sums_go:
  assumes "t < length (pl_tasks p)"
  shows "leased (go t s p) + leased_of (stage_of p t) = leased p + leased_of s"
    and "held (go t s p) + weight (stage_of p t) = held p + weight s"
    and "pending_tasks (go t s p) + counted (stage_of p t) = pending_tasks p + counted s"
  using assms by (simp_all add: sums go_def sum_list_replace)

lemma go_simps [simp]:
  "pl_config (go t s p) = pl_config p" "pl_provisioner (go t s p) = pl_provisioner p"
  "pl_state (go t s p) = pl_state p" "pl_permits (go t s p) = pl_permits p"
  "pl_notified (go t s p) = pl_notified p" "pl_waiters (go t s p) = pl_waiters p"
  "pl_tasks (go t s p) = (pl_tasks p)[t := s]"
  "pl_returning (go t s p) = pl_returning p" "pl_outside (go t s p) = pl_outside p"
  by (simp_all add: go_def)

lemma sums_cong:
  "pl_tasks p = pl_tasks q \<Longrightarrow> leased p = leased q"
  "pl_tasks p = pl_tasks q \<Longrightarrow> held p = held q"
  "pl_tasks p = pl_tasks q \<Longrightarrow> pending_tasks p = pending_tasks q"
  by (simp_all add: sums)

subsection \<open>The invariant\<close>

text \<open>
  The books of the pool: permits and permit holders, resources, pending callers, and the tasks
  registered for a notification.
\<close>

definition permits_ok :: "'r pool \<Rightarrow> bool" where
  "permits_ok p \<longleftrightarrow> pl_permits p + held p = pc_max_size (pl_config p)"

definition pending_ok :: "'r pool \<Rightarrow> bool" where
  "pending_ok p \<longleftrightarrow> pending_tasks p \<le> ps_pending (pl_state p) \<and>
     (\<forall>n. pc_overflow (pl_config p) = Queue n \<longrightarrow> ps_pending (pl_state p) \<le> n)"

definition waiters_ok :: "'r pool \<Rightarrow> bool" where
  "waiters_ok p \<longleftrightarrow> distinct (pl_waiters p) \<and>
     set (pl_waiters p) = {t. t < length (pl_tasks p) \<and> stage_of p t = Waiting}"

definition pool_ok :: "'r pool \<Rightarrow> bool" where
  "pool_ok p \<longleftrightarrow> permits_ok p \<and> pending_ok p \<and> waiters_ok p"

text \<open>The books of the resources, which only careful callers leave in order.\<close>

definition members_ok :: "'r pool \<Rightarrow> bool" where
  "members_ok p \<longleftrightarrow> ps_total (pl_state p) = size (members p) \<and> (\<forall>r. count (members p) r \<le> 1)"

text \<open>An operation that changes one task, and the rest of the pool before it.\<close>

lemma permits_ok_go:
  assumes "t < length (pl_tasks p)"
    and "pl_permits p + held p + weight s = pc_max_size (pl_config p) + weight (stage_of p t)"
  shows "permits_ok (go t s p)"
  using assms sums_go(2) [of t p s] by (simp add: permits_ok_def)

lemma pending_ok_go:
  assumes "t < length (pl_tasks p)"
    and "pending_tasks p + counted s \<le> ps_pending (pl_state p) + counted (stage_of p t)"
    and "\<And>n. pc_overflow (pl_config p) = Queue n \<Longrightarrow> ps_pending (pl_state p) \<le> n"
  shows "pending_ok (go t s p)"
  using assms sums_go(3) [of t p s] by (simp add: pending_ok_def)

lemma waiters_ok_go:
  assumes "t < length (pl_tasks p)" "stage_of p t \<noteq> Waiting" "s \<noteq> Waiting"
  shows "waiters_ok (go t s p) = waiters_ok p"
proof -
  have "{u. u < length (pl_tasks p) \<and> (pl_tasks p)[t := s] ! u = Waiting} =
      {u. u < length (pl_tasks p) \<and> stage_of p u = Waiting}"
    using assms by (auto simp: nth_list_update split: if_splits)
  then show ?thesis by (simp add: waiters_ok_def)
qed

lemma pending_tasks_in:
  "t < length (pl_tasks p) \<Longrightarrow> counted (stage_of p t) \<le> pending_tasks p"
  by (auto simp: pending_tasks_def intro!: member_le_sum_list)

lemma held_in: "t < length (pl_tasks p) \<Longrightarrow> weight (stage_of p t) \<le> held p"
  by (auto simp: held_def intro!: member_le_sum_list)

lemma notify_one_ok:
  assumes "pool_ok p"
  shows "pool_ok (notify_one p)"
proof (cases "pl_waiters p")
  case Nil
  then have "notify_one p = p\<lparr>pl_notified := True\<rparr>" by (simp add: notify_one_def)
  with assms show ?thesis
    by (simp add: pool_ok_def permits_ok_def pending_ok_def waiters_ok_def sums)
next
  case (Cons w ws)
  let ?q = "p\<lparr>pl_waiters := ws\<rparr>"
  have ok: "permits_ok p" "pending_ok p" "waiters_ok p" using assms by (simp_all add: pool_ok_def)
  have w: "w < length (pl_tasks p)" "stage_of p w = Waiting" and ws: "set ws = set (pl_waiters p) - {w}" "distinct ws"
    using ok(3) Cons by (auto simp: waiters_ok_def)
  have n: "notify_one p = go w Notified ?q" by (simp add: notify_one_def Cons)
  have "permits_ok (go w Notified ?q)"
    using ok(1) w by (intro permits_ok_go) (simp_all add: permits_ok_def sums)
  moreover have "pending_ok (go w Notified ?q)"
    using ok(2) w by (intro pending_ok_go) (simp_all add: pending_ok_def sums)
  moreover have "waiters_ok (go w Notified ?q)"
    using ok(3) w ws by (auto simp: waiters_ok_def nth_list_update)
  ultimately show ?thesis by (simp add: n pool_ok_def)
qed

subsection \<open>The steps keep the invariant\<close>

lemmas books = permits_ok_def pending_ok_def sums

lemma pool_okD:
  assumes "pool_ok p"
  shows "pl_permits p + held p = pc_max_size (pl_config p)" "waiters_ok p"
    "pending_tasks p \<le> ps_pending (pl_state p)"
    "pc_overflow (pl_config p) = Queue n \<Longrightarrow> ps_pending (pl_state p) \<le> n"
  using assms by (auto simp: pool_ok_def permits_ok_def pending_ok_def)

text \<open>
  A step that changes one task, which is not waiting before or after, and next to its stage the
  permits, the counter and the resources.
\<close>

lemma go_ok:
  assumes p: "pool_ok p" and t: "t < length (pl_tasks p)"
    and same: "pl_tasks q = pl_tasks p" "pl_config q = pl_config p" "pl_waiters q = pl_waiters p"
    and s: "stage_of p t \<noteq> Waiting" "s \<noteq> Waiting"
    and "pl_permits q + weight s = pl_permits p + weight (stage_of p t)"
    and "ps_pending (pl_state p) + counted s \<le> ps_pending (pl_state q) + counted (stage_of p t)"
    and "\<And>n. pc_overflow (pl_config p) = Queue n \<Longrightarrow> ps_pending (pl_state q) \<le> n"
  shows "pool_ok (go t s q)"
  unfolding pool_ok_def
proof (intro conjI)
  note sums_q = sums_cong [OF same(1)]
  show "permits_ok (go t s q)"
    using assms pool_okD(1) [OF p] sums_q by (intro permits_ok_go) simp_all
  show "pending_ok (go t s q)"
    using assms pool_okD(3) [OF p] sums_q by (intro pending_ok_go) simp_all
  show "waiters_ok (go t s q)"
    using pool_okD(2) [OF p] assms by (subst waiters_ok_go) (simp_all add: waiters_ok_def)
qed

lemma plain_go_ok:
  assumes "pool_ok p" "t < length (pl_tasks p)"
    and "weight (stage_of p t) = weight s" "counted s \<le> counted (stage_of p t)"
    and "stage_of p t \<noteq> Waiting" "s \<noteq> Waiting"
  shows "pool_ok (go t s p)"
  using assms pool_okD [OF assms(1)] by (intro go_ok [of p]) auto

lemma take_permit_ok:
  assumes "pool_ok p" "t < length (pl_tasks p)" "pl_permits p > 0" "stage_of p t \<in> {Starting, Queued}"
  shows "pool_ok (take_permit t p)"
  using assms pool_okD [OF assms(1)] unfolding take_permit_def by (intro go_ok [of p]) auto

lemma give_permit_ok:
  assumes "pool_ok p" "t < length (pl_tasks p)" "stage_of p t \<in> {Holding, Dropping}"
    and "pl_tasks q = pl_tasks p" "pl_config q = pl_config p" "pl_waiters q = pl_waiters p"
    and "pl_permits q = pl_permits p" "ps_pending (pl_state q) = ps_pending (pl_state p)"
  shows "pool_ok (go t (Done e) (give_permit q))"
  using assms pool_okD [OF assms(1)] unfolding give_permit_def by (intro go_ok [of p]) auto

lemma acquire_start_ok:
  assumes "pool_ok p" "t < length (pl_tasks p)" "stage_of p t = Starting"
  shows "pool_ok (acquire_start t p)"
  using assms unfolding acquire_start_def
  by (auto intro!: plain_go_ok take_permit_ok split: overflow.splits)

lemma count_pending_ok:
  assumes "pool_ok p" "t < length (pl_tasks p)" "stage_of p t = Counting" "pc_overflow (pl_config p) = Queue n"
  shows "pool_ok (count_pending n t p)"
proof (cases "ps_pending (pl_state p) \<ge> n")
  case True
  with assms show ?thesis by (auto simp: count_pending_def intro!: plain_go_ok)
next
  case False
  with assms pool_okD [OF assms(1)] show ?thesis
    unfolding count_pending_def by (simp, intro go_ok [of p]) auto
qed

lemma await_notify_ok:
  assumes "pool_ok p" "t < length (pl_tasks p)" "stage_of p t = Counted"
  shows "pool_ok (await_notify t p)"
proof (cases "pl_notified p")
  case True
  with assms pool_okD [OF assms(1)] show ?thesis
    unfolding await_notify_def by (simp, intro go_ok [of p]) auto
next
  case False
  let ?q = "p\<lparr>pl_waiters := pl_waiters p @ [t]\<rparr>"
  have "permits_ok (go t Waiting ?q)"
    using assms pool_okD [OF assms(1)] by (intro permits_ok_go) (simp_all add: sums)
  moreover have "pending_ok (go t Waiting ?q)"
    using assms pool_okD [OF assms(1)] by (intro pending_ok_go) (simp_all add: sums)
  moreover have "waiters_ok (go t Waiting ?q)"
    using pool_okD(2) [OF assms(1)] assms by (auto simp: waiters_ok_def nth_list_update)
  ultimately show ?thesis using False by (simp add: await_notify_def pool_ok_def)
qed

lemma uncount_ok:
  assumes "pool_ok p" "t < length (pl_tasks p)" "stage_of p t = Notified"
  shows "pool_ok (uncount t p)"
proof -
  have "ps_pending (pl_state p) \<ge> 1"
    using pending_tasks_in [OF assms(2)] assms(3) pool_okD(3) [OF assms(1)] by simp
  moreover have "ps_pending (pl_state p) - 1 \<le> n" if "pc_overflow (pl_config p) = Queue n" for n
    using pool_okD(4) [OF assms(1) that] by simp
  ultimately show ?thesis
    using assms unfolding uncount_def by (intro go_ok [of p]) auto
qed

lemma cancel_ok:
  assumes "pool_ok p" "t < length (pl_tasks p)"
    and "stage_of p t \<in> {Starting, Counting, Counted, Waiting, Notified, Queued, Holding}"
  shows "pool_ok (cancel t p)"
proof (cases "stage_of p t = Waiting")
  case True
  let ?q = "p\<lparr>pl_waiters := filter (\<lambda>w. w \<noteq> t) (pl_waiters p)\<rparr>"
  have "permits_ok (go t (Done None) ?q)"
    using True assms pool_okD [OF assms(1)] by (intro permits_ok_go) (simp_all add: sums)
  moreover have "pending_ok (go t (Done None) ?q)"
    using True assms pool_okD [OF assms(1)] by (intro pending_ok_go) (simp_all add: sums)
  moreover have "waiters_ok (go t (Done None) ?q)"
    using pool_okD(2) [OF assms(1)] assms by (auto simp: waiters_ok_def nth_list_update split: if_splits)
  ultimately show ?thesis using True by (simp add: cancel_def pool_ok_def)
next
  case False
  have "pool_ok (go t (Done None) (give_permit p))" if "stage_of p t = Holding"
    by (rule give_permit_ok [of p]) (use assms that in auto)
  with False assms show ?thesis
    by (auto simp: cancel_def intro!: plain_go_ok split: stage.splits)
qed

lemma find_resource_keeps:
  assumes "find_resource config prov valid made s = (res, s')"
  shows "ps_pending s' = ps_pending s" "ps_total s' \<le> max (pc_max_size config) (ps_total s)"
proof -
  have r: "n' \<le> n" if "reuse valid rs n = (x, idle, n')" for rs n x idle n'
    using that by (induction valid rs n rule: reuse.induct) (auto split: if_splits)
  obtain x idle tot where x: "reuse valid (rev (ps_idle s)) (ps_total s) = (x, idle, tot)" by (metis prod_cases3)
  with assms r [OF x] show "ps_pending s' = ps_pending s" "ps_total s' \<le> max (pc_max_size config) (ps_total s)"
    by (auto simp: find_resource_def Let_def split: outcome.splits option.splits if_splits)
qed

lemma take_resource_ok:
  assumes "pool_ok p" "t < length (pl_tasks p)" "stage_of p t = Holding"
  shows "pool_ok (take_resource valid made t p)"
proof -
  obtain res s where f: "find_resource (pl_config p) (pl_provisioner p) valid made (pl_state p) = (res, s)" by force
  note keep = find_resource_keeps(1) [OF f]
  have "pool_ok (go t (Leased r) (p\<lparr>pl_state := s\<rparr>))" for r
    using assms keep pool_okD [OF assms(1)] by (intro go_ok [of p]) auto
  moreover have "pool_ok (go t (Done e) (give_permit (p\<lparr>pl_state := s\<rparr>)))" for e
    using assms keep by (intro give_permit_ok [of p]) auto
  ultimately show ?thesis by (auto simp: take_resource_def f Let_def split: outcome.splits)
qed

lemma same_books:
  assumes "pl_tasks q = pl_tasks p" "pl_config q = pl_config p" "pl_waiters q = pl_waiters p"
    and "pl_permits q = pl_permits p" "ps_pending (pl_state q) = ps_pending (pl_state p)"
  shows "pool_ok q = pool_ok p"
  using assms sums_cong [OF assms(1)] by (simp add: pool_ok_def permits_ok_def pending_ok_def waiters_ok_def)

lemma drop_lease_ok:
  assumes "pool_ok p" "t < length (pl_tasks p)" "stage_of p t = Leased r"
  shows "pool_ok (drop_lease t r p)"
  using assms pool_okD [OF assms(1)] unfolding drop_lease_def by (intro go_ok [of p]) auto

lemma release_task_ok: "pool_ok p \<Longrightarrow> pool_ok (release_task r p)"
  unfolding release_task_def
  by (rule notify_one_ok) (subst same_books [of _ p]; simp add: push_idle_def)

lemma release_ok: "pool_ok p \<Longrightarrow> pool_ok (release r p)"
  by (subst same_books [of _ p]) (simp_all add: release_def)

lemma provision_ok: "pool_ok p \<Longrightarrow> pool_ok (snd (provision res p))"
  by (subst same_books [of _ p]) (simp_all add: provision_def split: sum.splits)

lemma provision_one_ok: "pool_ok p \<Longrightarrow> pool_ok (snd (provision_one made p))"
  by (auto simp: provision_one_def provision_internal_def same_books [of "p\<lparr>pl_state := x\<rparr>" p for x]
      intro!: notify_one_ok)

lemma call_ok:
  assumes "pool_ok p"
  shows "pool_ok (p\<lparr>pl_tasks := pl_tasks p @ [Starting]\<rparr>)"
proof -
  have "{t. t < Suc (length (pl_tasks p)) \<and> (pl_tasks p @ [Starting]) ! t = Waiting} =
      {t. t < length (pl_tasks p) \<and> stage_of p t = Waiting}"
    by (auto simp: nth_append less_Suc_eq split: if_splits)
  with assms show ?thesis
    by (simp add: pool_ok_def permits_ok_def pending_ok_def waiters_ok_def sums)
qed

lemma pool_step_ok: "pool_move careful p q \<Longrightarrow> pool_ok p \<Longrightarrow> pool_ok q"
proof (induction rule: pool_move.induct)
  case (forward t p)
  then have "pool_ok (cancel t p)" by (intro cancel_ok) auto
  then show ?case by (rule notify_one_ok)
next
  case (drop_permit t p)
  then show ?case unfolding drop_permit_def by (intro give_permit_ok [of p]) auto
next
  case (time_out t p d)
  then show ?case by (intro plain_go_ok) auto
qed (auto intro: call_ok acquire_start_ok count_pending_ok await_notify_ok uncount_ok take_permit_ok
  take_resource_ok drop_lease_ok release_task_ok release_ok provision_ok provision_one_ok cancel_ok)


lemma notify_one_simps [simp]:
  "pl_config (notify_one p) = pl_config p" "pl_state (notify_one p) = pl_state p"
  "pl_permits (notify_one p) = pl_permits p" "pl_returning (notify_one p) = pl_returning p"
  "pl_outside (notify_one p) = pl_outside p" "pl_provisioner (notify_one p) = pl_provisioner p"
  by (simp_all add: notify_one_def split: list.split)



subsection \<open>Resources that move\<close>

lemma members_go:
  assumes "t < length (pl_tasks p)"
  shows "members (go t s p) + leased_of (stage_of p t) = members p + leased_of s"
  using sums_go(1) [OF assms, of s] by (simp add: members_def union_assoc union_commute union_lcomm)

lemma members_ok_go:
  assumes "t < length (pl_tasks p)" and "leased_of (stage_of p t) = {#}" "leased_of s = {#}"
  shows "members_ok (go t s p) = members_ok p"
  using members_go [OF assms(1), of s] assms(2,3) by (simp add: members_ok_def)

lemma members_notify [simp]: "waiters_ok p \<Longrightarrow> members (notify_one p) = members p"
proof (cases "pl_waiters p")
  case (Cons w ws)
  assume "waiters_ok p"
  with Cons have "w < length (pl_tasks p)" "stage_of p w = Waiting" by (auto simp: waiters_ok_def)
  with members_go [of w "p\<lparr>pl_waiters := ws\<rparr>" Notified] show ?thesis
    by (simp add: notify_one_def Cons) (simp add: members_def sums)
qed (simp add: notify_one_def members_def sums)

lemma reuse_cases:
  assumes "reuse valid rs n = x" "length rs \<le> n"
  obtains (found) gone r rest where "rs = gone @ r # rest" "valid r" "\<forall>g \<in> set gone. \<not> valid g"
      "x = (Ret (Some r), rev rest, n - length gone)"
    | (none) "\<forall>g \<in> set rs. \<not> valid g" "x = (Ret None, [], n - length rs)"
proof -
  have "(\<exists>gone r rest. rs = gone @ r # rest \<and> valid r \<and> (\<forall>g \<in> set gone. \<not> valid g) \<and>
        reuse valid rs n = (Ret (Some r), rev rest, n - length gone)) \<or>
      (\<forall>g \<in> set rs. \<not> valid g) \<and> reuse valid rs n = (Ret None, [], n - length rs)"
    using assms(2)
  proof (induction valid rs n rule: reuse.induct)
    case (2 valid r rs n)
    show ?case
    proof (cases "valid r")
      case True
      then show ?thesis by (intro disjI1 exI [of _ "[]"]) auto
    next
      case False
      with 2 consider (f) gone r' rest where "rs = gone @ r' # rest" "valid r'" "\<forall>g \<in> set gone. \<not> valid g"
          "reuse valid rs (n - 1) = (Ret (Some r'), rev rest, n - 1 - length gone)"
        | (n) "\<forall>g \<in> set rs. \<not> valid g" "reuse valid rs (n - 1) = (Ret None, [], n - 1 - length rs)"
        by fastforce
      then show ?thesis
      proof cases
        case f
        with False 2 show ?thesis by (intro disjI1 exI [of _ "r # gone"]) auto
      next
        case n
        with False 2 show ?thesis by auto
      qed
    qed
  qed simp
  with assms(1) found none show ?thesis by blast
qed

text \<open>The outcomes of \<^verbatim>\<open>find_resource\<close>; it does not panic.\<close>

lemma find_resource_cases:
  assumes "find_resource config prov valid made s = (res, s')" and "length (ps_idle s) \<le> ps_total s"
  obtains (reused) r gone where "res = Ret r" "mset (ps_idle s) = gone + {#r#} + mset (ps_idle s')"
      "ps_total s' + size gone = ps_total s" "ps_pending s' = ps_pending s" "valid r"
    | (new) "res = Ret made" "ps_idle s' = []" "prov" "\<forall>r \<in> set (ps_idle s). \<not> valid r"
      "ps_total s' + length (ps_idle s) = ps_total s + 1" "ps_total s' \<le> pc_max_size config"
      "ps_pending s' = ps_pending s"
    | (failed) e where "res = Fail e" "ps_idle s' = []" "\<forall>r \<in> set (ps_idle s). \<not> valid r"
      "ps_total s' + length (ps_idle s) = ps_total s" "ps_pending s' = ps_pending s"
      "e = Closed \<and> pc_max_size config \<le> ps_total s' \<or> \<not> prov \<and> e \<noteq> Closed"
proof (rule reuse_cases [of valid "rev (ps_idle s)" "ps_total s" _ thesis, OF refl])
  show "length (rev (ps_idle s)) \<le> ps_total s" using assms(2) by simp
next
  fix gone r rest
  assume idle: "rev (ps_idle s) = gone @ r # rest" and v: "valid r"
    and x: "reuse valid (rev (ps_idle s)) (ps_total s) = (Ret (Some r), rev rest, ps_total s - length gone)"
  have "mset (ps_idle s) = mset gone + {#r#} + mset rest"
    using arg_cong [OF idle, of mset] by simp
  moreover have "length (ps_idle s) = length gone + length rest + 1"
    using arg_cong [OF idle, of length] by simp
  ultimately show thesis
    using reused [of r "mset gone"] assms x v by (auto simp: find_resource_def)
next
  assume none: "\<forall>g \<in> set (rev (ps_idle s)). \<not> valid g"
    and x: "reuse valid (rev (ps_idle s)) (ps_total s) = (Ret None, [], ps_total s - length (rev (ps_idle s)))"
  from x assms none show thesis
    using new failed by (auto simp: find_resource_def Let_def split: if_splits)
qed

lemma idle_members: "length (ps_idle (pl_state p)) \<le> size (members p)"
  by (simp add: members_def)

lemma members_okI:
  assumes "ps_total (pl_state p) = size (members p)" and "members p \<subseteq># M" "\<forall>r. count M r \<le> 1"
  shows "members_ok p"
  using assms mset_subset_eq_count [of "members p" M] by (auto simp: members_ok_def intro: order_trans)

lemma take_resource_members:
  assumes "members_ok p" "t < length (pl_tasks p)" "stage_of p t = Holding" "made \<notin># members p"
  shows "members_ok (take_resource valid made t p)"
proof -
  obtain res s where f: "find_resource (pl_config p) (pl_provisioner p) valid made (pl_state p) = (res, s)"
    by force
  let ?q = "p\<lparr>pl_state := s\<rparr>"
  have tot: "ps_total (pl_state p) = size (members p)" "\<forall>r. count (members p) r \<le> 1"
    using assms(1) by (auto simp: members_ok_def)
  define rest where "rest = leased p + mset (pl_returning p) + mset (pl_outside p)"
  have p: "members p = mset (ps_idle (pl_state p)) + rest"
    and q: "members ?q = mset (ps_idle s) + rest"
    by (simp_all add: members_def rest_def sums ac_simps)
  have leased: "members (go t (Leased r) ?q) = members ?q + {#r#}" for r
    using members_go [of t ?q "Leased r"] assms(2,3) by simp
  have le: "length (ps_idle (pl_state p)) \<le> ps_total (pl_state p)" using idle_members [of p] tot(1) by simp
  from f le show ?thesis
  proof (cases rule: find_resource_cases)
    case (reused r gone)
    have "members_ok (go t (Leased r) ?q)"
    proof (rule members_okI [of _ "members p"])
      show "ps_total (pl_state (go t (Leased r) ?q)) = size (members (go t (Leased r) ?q))"
        using reused(2,3) tot(1) by (simp add: leased q p)
      show "members (go t (Leased r) ?q) \<subseteq># members p" using reused(2) by (simp add: leased q p)
    qed (rule tot(2))
    with reused f show ?thesis by (simp add: take_resource_def)
  next
    case new
    have "members_ok (go t (Leased made) ?q)"
    proof (rule members_okI [of _ "members p + {#made#}"])
      show "ps_total (pl_state (go t (Leased made) ?q)) = size (members (go t (Leased made) ?q))"
        using new tot(1) by (simp add: leased q p)
      show "members (go t (Leased made) ?q) \<subseteq># members p + {#made#}" using new(2) by (simp add: leased q p)
      show "\<forall>r. count (members p + {#made#}) r \<le> 1"
        using tot(2) assms(4) by (simp add: not_in_iff)
    qed
    with new f show ?thesis by (simp add: take_resource_def)
  next
    case (failed e)
    have "members_ok (go t (Done (Some e)) (give_permit ?q))"
    proof (rule members_okI [of _ "members p"])
      have m: "members (go t (Done (Some e)) (give_permit ?q)) = members ?q"
        using members_go [of t "give_permit ?q" "Done (Some e)"] assms(2,3)
        by (simp add: give_permit_def members_def sums)
      show "ps_total (pl_state (go t (Done (Some e)) (give_permit ?q))) =
          size (members (go t (Done (Some e)) (give_permit ?q)))"
        using failed tot(1) by (simp add: m q p) (simp add: give_permit_def)
      show "members (go t (Done (Some e)) (give_permit ?q)) \<subseteq># members p"
        using failed(2) by (simp add: m q p)
    qed (rule tot(2))
    with failed(1) f show ?thesis by (simp add: take_resource_def)
  qed
qed

lemma same_members_ok:
  "members_ok p \<Longrightarrow> members q = members p \<Longrightarrow> ps_total (pl_state q) = ps_total (pl_state p) \<Longrightarrow> members_ok q"
  by (simp add: members_ok_def)

lemma new_member_ok:
  assumes "members_ok p" "r \<notin># members p" "members q = members p + {#r#}"
    and "ps_total (pl_state q) = ps_total (pl_state p) + 1"
  shows "members_ok q"
  using assms by (auto simp: members_ok_def not_in_iff)

text \<open>Operations that move no resource.\<close>

definition unmoved :: "'r pool \<Rightarrow> 'r pool \<Rightarrow> bool" where
  "unmoved p q \<longleftrightarrow> members q = members p \<and> ps_total (pl_state q) = ps_total (pl_state p)"

lemma unmoved_go:
  assumes "t < length (pl_tasks p)" "pl_tasks q = pl_tasks p" "ps_idle (pl_state q) = ps_idle (pl_state p)"
    and "ps_total (pl_state q) = ps_total (pl_state p)" "pl_returning q = pl_returning p" "pl_outside q = pl_outside p"
    and "leased_of (stage_of p t) = {#}" "leased_of s = {#}"
  shows "unmoved p (go t s q)"
  using assms members_go [of t q s] sums_cong(1) [OF assms(2)] by (simp add: unmoved_def members_def)

lemma unmoved_steps:
  assumes "t < length (pl_tasks p)" "leased_of (stage_of p t) = {#}"
  shows "unmoved p (acquire_start t p)" "unmoved p (count_pending n t p)" "unmoved p (await_notify t p)"
    "unmoved p (uncount t p)" "unmoved p (take_permit t p)" "unmoved p (drop_permit t p)" "unmoved p (cancel t p)"
    "unmoved p (go t (Done e) p)"
proof -
  have go: "unmoved p (go t s q)"
    if "leased_of s = {#}" "pl_tasks q = pl_tasks p" "ps_idle (pl_state q) = ps_idle (pl_state p)"
      "ps_total (pl_state q) = ps_total (pl_state p)" "pl_returning q = pl_returning p" "pl_outside q = pl_outside p" for s q
    by (rule unmoved_go) (use assms that in simp_all)
  show "unmoved p (acquire_start t p)"
    unfolding acquire_start_def take_permit_def by (auto split: overflow.split intro!: go)
  show "unmoved p (count_pending n t p)" unfolding count_pending_def by (auto intro!: go)
  show "unmoved p (await_notify t p)" unfolding await_notify_def by (auto intro!: go)
  show "unmoved p (uncount t p)" unfolding uncount_def by (auto intro!: go)
  show "unmoved p (take_permit t p)" unfolding take_permit_def by (auto intro!: go)
  show "unmoved p (drop_permit t p)" unfolding drop_permit_def give_permit_def by (auto intro!: go)
  show "unmoved p (cancel t p)" unfolding cancel_def give_permit_def by (auto split: stage.split intro!: go)
  show "unmoved p (go t (Done e) p)" by (auto intro!: go)
qed

lemma unmoved_ok: "unmoved p q \<Longrightarrow> members_ok p \<Longrightarrow> members_ok q"
  by (simp add: unmoved_def members_ok_def)

lemma notify_members_ok: "pool_ok p \<Longrightarrow> members_ok p \<Longrightarrow> members_ok (notify_one p)"
  by (rule same_members_ok [of p]) (simp_all add: pool_ok_def)

lemma careful_members_ok: "careful_step p q \<Longrightarrow> pool_ok p \<Longrightarrow> members_ok p \<Longrightarrow> members_ok q"
proof (induction rule: pool_move.induct)
  case (call p)
  then show ?case by (simp add: members_ok_def members_def sums)
next
  case (resource t p made valid)
  then show ?case by (intro take_resource_members) auto
next
  case (drop t p r)
  have "members (drop_lease t r p) + {#r#} = members p + {#r#}"
    using members_go [of t "p\<lparr>pl_returning := pl_returning p @ [r]\<rparr>" Dropping] drop
    by (simp add: drop_lease_def members_def sums ac_simps)
  with drop(4) show ?case by - (rule same_members_ok [of p], simp_all add: drop_lease_def)
next
  case (return r p)
  let ?q = "p\<lparr>pl_returning := remove1 r (pl_returning p), pl_state := push_idle r (pl_state p)\<rparr>"
  have "members_ok ?q"
    using return by - (rule same_members_ok [of p], simp_all add: members_def push_idle_def sums)
  moreover have "pool_ok ?q" using return(2) by (subst same_books [of _ p]) (simp_all add: push_idle_def)
  ultimately show ?case unfolding release_task_def by (rule notify_members_ok [rotated])
next
  case (release r p)
  then show ?case by - (rule same_members_ok [of p], simp_all add: members_def release_def sums)
next
  case (provision res p)
  show ?case
  proof (cases "ps_total (pl_state p) \<ge> pc_max_size (pl_config p) \<or> isl res")
    case True
    with provision show ?thesis by (auto simp: provision_def split: sum.splits)
  next
    case False
    then obtain r where r: "res = Inr r" by (cases res) auto
    show ?thesis
      by (rule new_member_ok [of p r]) (use False r provision in \<open>simp_all add: provision_def members_def sums\<close>)
  qed
next
  case (provision_one made p)
  let ?q = "p\<lparr>pl_state := provision_internal made (pl_state p)\<rparr>"
  have "pool_ok ?q" using provision_one(2) by (subst same_books [of _ p]) (simp_all add: provision_internal_def)
  moreover have "members_ok ?q"
    by (rule new_member_ok [of p made]) (use provision_one in \<open>simp_all add: provision_internal_def members_def sums\<close>)
  ultimately have "members_ok (notify_one ?q)" by (rule notify_members_ok)
  with provision_one show ?case by (simp add: provision_one_def)
next
  case (forward t p)
  have "pool_ok (cancel t p)" using forward by (intro cancel_ok) auto
  moreover have "members_ok (cancel t p)"
    by (rule unmoved_ok [OF unmoved_steps(7)]) (use forward in auto)
  ultimately show ?case by (rule notify_members_ok)
qed (auto intro: unmoved_ok [OF unmoved_steps(1)] unmoved_ok [OF unmoved_steps(2)] unmoved_ok [OF unmoved_steps(3)]
  unmoved_ok [OF unmoved_steps(4)] unmoved_ok [OF unmoved_steps(5)] unmoved_ok [OF unmoved_steps(6)]
  unmoved_ok [OF unmoved_steps(7)] unmoved_ok [OF unmoved_steps(8)])

subsection \<open>Reachable pools\<close>

text \<open>
  The constructors: resources given at the start, each in an \<^verbatim>\<open>Arc\<close> of its own, or a provisioner that
  never repeats itself. Neither looks at \<^verbatim>\<open>max_size\<close>.
\<close>

inductive pool_start :: "'r pool \<Rightarrow> bool" where
  resources: "distinct rs \<Longrightarrow> pool_start (with_resources config rs)"
| provisioner: "inj prov \<Longrightarrow> pool_start (with_provisioner config prov)"

lemma fold_provision:
  "fold (\<lambda>i. provision_internal (prov i)) is s =
     s\<lparr>ps_idle := ps_idle s @ map prov is, ps_total := ps_total s + length is\<rparr>"
  by (induction "is" arbitrary: s) (simp_all add: provision_internal_def)

lemma fresh_pool_ok:
  assumes "distinct rs"
  shows "pool_ok ((Pool_new config)\<lparr>pl_provisioner := b, pl_state := \<lparr>ps_idle = rs, ps_total = length rs, ps_pending = 0\<rparr>\<rparr>)"
    and "members_ok ((Pool_new config)\<lparr>pl_provisioner := b, pl_state := \<lparr>ps_idle = rs, ps_total = length rs, ps_pending = 0\<rparr>\<rparr>)"
  using assms distinct_count_atmost_1 [of rs]
  by (auto simp: Pool_new_def pool_ok_def permits_ok_def members_ok_def pending_ok_def waiters_ok_def members_def sums)

lemma pool_start_ok: "pool_start p \<Longrightarrow> pool_ok p \<and> members_ok p"
proof (induction rule: pool_start.induct)
  case (resources rs config)
  then show ?case using fresh_pool_ok [where rs = rs and config = config and b = False] by (simp add: with_resources_def Pool_new_def Let_def)
next
  case (provisioner prov config)
  then have "distinct (map prov [0..<pc_min_size config])" by (auto simp: distinct_map intro: inj_on_subset)
  from fresh_pool_ok [OF this, where config = config and b = True] provisioner show ?case
    by (simp add: with_provisioner_def Pool_new_def Let_def fold_provision)
qed

lemma reachable_ok: "(pool_move careful)\<^sup>*\<^sup>* p q \<Longrightarrow> pool_start p \<Longrightarrow> pool_ok q"
  by (induction rule: rtranclp_induct) (auto intro: pool_step_ok dest: pool_start_ok)

lemma reachable_members: "careful_step\<^sup>*\<^sup>* p q \<Longrightarrow> pool_start p \<Longrightarrow> members_ok q"
proof (induction rule: rtranclp_induct)
  case base
  then show ?case by (simp add: pool_start_ok)
next
  case (step y z)
  with reachable_ok [of True p y] show ?case by (blast intro: careful_members_ok)
qed

lemma leased_le_held: "size (leased p) \<le> held p"
proof -
  have "size (leased_of s) \<le> weight s" for s :: "'a stage" by (cases s) auto
  then have "size (sum_list (map leased_of xs)) \<le> sum_list (map weight xs)" for xs :: "'a stage list"
    by (induction xs) (auto intro: add_mono)
  then show ?thesis by (simp add: sums)
qed

lemma leased_held_other:
  assumes "t < length (pl_tasks p)" "stage_of p t = Holding"
  shows "size (leased p) + 1 \<le> held p"
proof -
  have "size (leased (go t (Done None) p)) \<le> held (go t (Done None) p)" by (rule leased_le_held)
  then show ?thesis using sums_go [OF assms(1), of "Done None"] assms(2) by simp
qed


text \<open>
  A permit is worth a resource. In a pool with a provisioner and careful callers, a caller that holds
  a permit gets a lease; the one exception is the error \<^verbatim>\<open>Closed\<close>, and then some resource is on its way back
  to the pool or in the hands of a caller of \<^verbatim>\<open>provision\<close>.
\<close>

theorem permit_gets_resource:
  assumes "pool_start p0" "careful_step\<^sup>*\<^sup>* p0 p"
    and "t < length (pl_tasks p)" "stage_of p t = Holding" "pl_provisioner p"
  shows "(\<exists>r. stage_of (take_resource valid made t p) t = Leased r) \<or>
    (stage_of (take_resource valid made t p) t = Done (Some Closed) \<and> pl_returning p @ pl_outside p \<noteq> [])"
proof -
  note ok = pool_okD [OF reachable_ok [OF assms(2,1)]] and mem = reachable_members [OF assms(2,1)]
  obtain res s where f: "find_resource (pl_config p) (pl_provisioner p) valid made (pl_state p) = (res, s)"
    by force
  have le: "length (ps_idle (pl_state p)) \<le> ps_total (pl_state p)"
    using idle_members [of p] mem by (simp add: members_ok_def)
  from f le show ?thesis
  proof (cases rule: find_resource_cases)
    case (failed e)
    then have e: "e = Closed" and "pc_max_size (pl_config p) + length (ps_idle (pl_state p)) \<le> size (members p)"
      using assms(5) mem by (auto simp: members_ok_def)
    then have "pl_returning p @ pl_outside p \<noteq> []"
      using ok(1) leased_held_other [OF assms(3,4)] by (auto simp: members_def)
    with f failed e assms(3) show ?thesis by (auto simp: take_resource_def give_permit_def)
  qed (use f assms(3) in \<open>simp_all add: take_resource_def\<close>)
qed

subsection \<open>Runs\<close>

definition demo_pool :: "overflow \<Rightarrow> nat \<Rightarrow> pool_config" where
  "demo_pool ov n = \<lparr>pc_max_size = 1, pc_overflow = ov, pc_idle_timeout = None, pc_min_size = n\<rparr>"

text \<open>A pool of one, with the first caller holding the permit.\<close>

definition one_holding :: "nat pool" where
  "one_holding = acquire_start 0 ((with_provisioner (demo_pool Reject 1) id)\<lparr>pl_tasks := [Starting]\<rparr>)"

lemma demo_pool_start: "pool_start (with_provisioner (demo_pool ov n) (id :: nat \<Rightarrow> nat))"
  by (rule pool_start.provisioner) simp

lemma demo_tasks [simp]: "pl_tasks (with_provisioner config prov) = []"
  by (simp add: with_provisioner_def Pool_new_def Let_def)

lemma careful_run: "careful_step\<^sup>*\<^sup>* p q \<Longrightarrow> pool_step\<^sup>*\<^sup>* p q"
  by (induction rule: rtranclp_induct) (auto intro: rtranclp.rtrancl_into_rtrancl careful_step_is_step)

lemma one_holding_reached: "careful_step\<^sup>*\<^sup>* (with_provisioner (demo_pool Reject 1) id) one_holding"
proof -
  let ?p = "with_provisioner (demo_pool Reject 1) (id :: nat \<Rightarrow> nat)"
  have "careful_step ?p (?p\<lparr>pl_tasks := [Starting]\<rparr>)" using pool_move.call [of True ?p] by simp
  moreover have "careful_step (?p\<lparr>pl_tasks := [Starting]\<rparr>) one_holding"
    unfolding one_holding_def by (rule pool_move.start) simp_all
  ultimately show ?thesis by (meson converse_rtranclp_into_rtranclp r_into_rtranclp)
qed

definition one_leased :: "nat pool" where
  "one_leased = take_resource (\<lambda>_. True) 7 0 one_holding"

lemma one_leased_reached: "careful_step\<^sup>*\<^sup>* (with_provisioner (demo_pool Reject 1) id) one_leased"
proof -
  have "careful_step one_holding one_leased" unfolding one_leased_def by (rule pool_move.resource; code_simp)
  with one_holding_reached show ?thesis by (rule rtranclp.rtrancl_into_rtrancl)
qed


text \<open>
  What careless callers get: a resource released while it is leased is idle at the same time. And a
  pool made with two resources has two although \<^verbatim>\<open>max_size\<close> is one.
\<close>

lemma released_while_leased:
  "pool_step\<^sup>*\<^sup>* (with_provisioner (demo_pool Reject 1) id) (release_task 0 (release 0 one_leased)) \<and>
   count (members (release_task 0 (release 0 one_leased))) 0 = 2"
proof
  have "pool_step one_leased (release 0 one_leased)" by (rule pool_move.release) simp
  moreover have "pool_step (release 0 one_leased) (release_task 0 (release 0 one_leased))"
    by (rule pool_move.return) (simp add: release_def)
  ultimately show "pool_step\<^sup>*\<^sup>* (with_provisioner (demo_pool Reject 1) id) (release_task 0 (release 0 one_leased))"
    using careful_run [OF one_leased_reached] by (meson rtranclp.rtrancl_into_rtrancl)
  show "count (members (release_task 0 (release 0 one_leased))) 0 = 2" by code_simp
qed

lemma more_than_max_size:
  "pool_start (with_resources (demo_pool Reject 0) [1, 2 :: nat]) \<and>
   ps_total (pl_state (with_resources (demo_pool Reject 0) [1, 2 :: nat])) = 2"
proof
  show "pool_start (with_resources (demo_pool Reject 0) [1, 2 :: nat])" by (rule pool_start.resources) simp
qed (simp add: with_resources_def Pool_new_def Let_def)

theorem permit_gets_resource_witness:
  "\<exists>r. stage_of (take_resource (\<lambda>_. True) 7 0 one_holding) 0 = Leased r"
proof -
  have "0 < length (pl_tasks one_holding)" "stage_of one_holding 0 = Holding" "pl_provisioner one_holding"
    "pl_returning one_holding @ pl_outside one_holding = []"
    by code_simp+
  with permit_gets_resource [OF demo_pool_start one_holding_reached] show ?thesis by blast
qed

text \<open>
  The exception happens. The permit of a lease is free as soon as the lease is dropped, its
  resource only when the spawned task has run: a caller in between gets \<^verbatim>\<open>Closed\<close> from a pool that
  is neither closed nor full.
\<close>

definition between :: "nat pool" where
  "between = drop_permit 0 (drop_lease 0 0 (take_resource (\<lambda>_. True) 7 0 one_holding))"

lemma between_reached: "careful_step\<^sup>*\<^sup>* one_holding between"
proof -
  let ?l = "take_resource (\<lambda>_. True) 7 0 one_holding" let ?d = "drop_lease 0 0 ?l"
  have "careful_step one_holding ?l" by (rule pool_move.resource; code_simp)
  moreover have "careful_step ?l ?d" by (rule pool_move.drop; code_simp)
  moreover have "careful_step ?d between" unfolding between_def by (rule pool_move.drop_permit; code_simp)
  ultimately show ?thesis by (meson converse_rtranclp_into_rtranclp r_into_rtranclp)
qed

lemma closed_while_returning:
  "stage_of (take_resource (\<lambda>_. True) 7 1 (acquire_start 1 (between\<lparr>pl_tasks := pl_tasks between @ [Starting]\<rparr>))) 1 =
     Done (Some Closed)"
  by code_simp

text \<open>
  A permit that comes back without a lease wakes nobody: a caller whose acquire fails leaves the
  pending caller asleep beside a free permit.
\<close>

definition asleep :: "nat pool" where
  "asleep = take_resource (\<lambda>_. True) 7 0 (await_notify 1 (count_pending 1 1 (acquire_start 1
     (acquire_start 0 ((Pool_new (demo_pool (Queue 1) 0))\<lparr>pl_tasks := [Starting, Starting]\<rparr>)))))"

lemma failed_acquire_wakes_nobody:
  "stage_of asleep 0 = Done (Some (Acquire ''no idle resource and no provisioner registered'')) \<and>
   stage_of asleep 1 = Waiting \<and> pl_permits asleep = pc_max_size (pl_config asleep) \<and> pl_returning asleep = []"
  by code_simp

subsection \<open>The life of a resource\<close>

text \<open>A leased resource comes from the idle ones, and a transition that is refused changes nothing.\<close>

lemma busy_from_idle:
  "rm_transition now Busy m = (Inr u, m') \<Longrightarrow> is_leaseable (rm_state m) \<and> rm_last_used_ms m' = now"
  by (auto simp: rm_transition_def may_change_def is_leaseable_def split: if_splits)

lemma refused_transition: "rm_transition now t m = (Inl e, m') \<Longrightarrow> m' = m"
  by (auto simp: rm_transition_def split: if_splits)

end
