(* ===== verification/Model_Adapter.thy ===== *)
theory Model_Adapter
  imports Core_Messages Mcp_Executor
begin

text \<open>
  The shared part of \<^verbatim>\<open>crates/arf-model-adapter\<close>: the payload types with their wire forms
  (\<^verbatim>\<open>types.rs\<close>), errors (\<^verbatim>\<open>error.rs\<close>), and the conversions of \<^verbatim>\<open>convert.rs\<close>, the parser of the event
  stream of a provider among them.

  \<^verbatim>\<open>serde_json::from_str\<close> on text is the parameter \<open>parse\<close>, and the narrowing of a number to \<^verbatim>\<open>f32\<close>
  the parameter \<open>f32\<close>. Blanks that are not ASCII are not blanks here.
\<close>

subsection \<open>Payloads\<close>

record model_params =
  mp_temperature :: "rat option"
  mp_max_tokens :: "nat option"
  mp_thinking_enabled :: bool
  mp_extra :: json

definition ModelParams_default :: model_params where
  "ModelParams_default =
     \<lparr>mp_temperature = None, mp_max_tokens = None, mp_thinking_enabled = False, mp_extra = JNull\<rparr>"

record tool_def =
  td_name :: string
  td_description :: string
  td_parameters :: json

record model_call_payload =
  cp_messages :: "model_message list"
  cp_tools :: "tool_def list"
  cp_params :: model_params
  cp_stream :: bool

record usage =
  us_input_tokens :: nat
  us_output_tokens :: nat
  us_total_tokens :: nat

record stream_tool_delta =
  sd_index :: nat
  sd_id :: "string option"
  sd_name :: "string option"
  sd_arguments_delta :: "string option"

record stream_chunk =
  sc_chunk_type :: string
  sc_content :: "string option"
  sc_reasoning :: "string option"
  sc_tool_call :: "stream_tool_delta option"
  sc_usage :: "usage option"

record model_tool_call =
  mt_id :: string
  mt_name :: string
  mt_arguments :: json

record model_response_payload =
  mr_message :: model_message
  mr_tool_calls :: "model_tool_call list option"
  mr_finish_reason :: string
  mr_usage :: "usage option"
  mr_id :: string
  mr_model :: string

datatype provider_error =
    Transport string
  | Api nat string
  | RetryExhausted nat string
  | ParseError string

fun provider_error_display :: "(nat \<Rightarrow> string) \<Rightarrow> provider_error \<Rightarrow> string" where
  "provider_error_display show_nat (Transport msg) = ''transport error: '' @ msg"
| "provider_error_display show_nat (Api status msg) = ''API error '' @ show_nat status @ '': '' @ msg"
| "provider_error_display show_nat (RetryExhausted n e) =
     ''retry exhausted after '' @ show_nat n @ '' attempts: '' @ e"
| "provider_error_display show_nat (ParseError msg) = ''parse error: '' @ msg"

fun is_retryable :: "provider_error \<Rightarrow> bool" where
  "is_retryable (Api status msg) \<longleftrightarrow> status = 429 \<or> (500 \<le> status \<and> status < 600)"
| "is_retryable (Transport msg) \<longleftrightarrow> True"
| "is_retryable _ \<longleftrightarrow> False"

subsection \<open>Reading a call\<close>

text \<open>
  The derived \<^verbatim>\<open>Deserialize\<close>: an absent or null \<^verbatim>\<open>Option\<close> is \<^verbatim>\<open>None\<close>, a field with \<^verbatim>\<open>default\<close> may be
  absent, a field that is not declared is ignored, and everything else is an error.
\<close>

fun opt_str_of_value :: "json option \<Rightarrow> string option option" where
  "opt_str_of_value None = Some None"
| "opt_str_of_value (Some JNull) = Some None"
| "opt_str_of_value (Some (JStr s)) = Some (Some s)"
| "opt_str_of_value (Some _) = None"

fun opt_u32_of_value :: "json option \<Rightarrow> nat option option" where
  "opt_u32_of_value None = Some None"
| "opt_u32_of_value (Some JNull) = Some None"
| "opt_u32_of_value (Some (JInt i)) = (if 0 \<le> i \<and> i < 2 ^ 32 then Some (Some (nat i)) else None)"
| "opt_u32_of_value (Some _) = None"

fun opt_f32_of_value :: "(rat \<Rightarrow> rat) \<Rightarrow> json option \<Rightarrow> rat option option" where
  "opt_f32_of_value f32 None = Some None"
| "opt_f32_of_value f32 (Some JNull) = Some None"
| "opt_f32_of_value f32 (Some (JInt i)) = Some (Some (f32 (of_int i)))"
| "opt_f32_of_value f32 (Some (JFloat x)) = Some (Some (f32 x))"
| "opt_f32_of_value f32 (Some _) = None"

fun tool_calls_of_value :: "json option \<Rightarrow> tool_call list option" where
  "tool_calls_of_value None = Some []"
| "tool_calls_of_value (Some (JArr xs)) = those (map tool_call_of_value xs)"
| "tool_calls_of_value (Some _) = None"

definition model_message_of_value :: "json \<Rightarrow> model_message option" where
  "model_message_of_value j =
     (case (get_str j ''role'', get_str j ''content'', opt_str_of_value (json_get j ''tool_call_id''),
            opt_str_of_value (json_get j ''name''), tool_calls_of_value (json_get j ''tool_calls'')) of
        (Some r, Some c, Some i, Some n, Some ts) \<Rightarrow>
          Some \<lparr>mm_role = r, mm_content = c, mm_tool_call_id = i, mm_name = n, mm_tool_calls = ts,
                mm_extra = (case json_get j ''extra'' of None \<Rightarrow> JNull | Some e \<Rightarrow> e)\<rparr>
      | _ \<Rightarrow> None)"

definition tool_def_of_value :: "json \<Rightarrow> tool_def option" where
  "tool_def_of_value j =
     (case (get_str j ''name'', get_str j ''description'', json_get j ''parameters'') of
        (Some n, Some d, Some p) \<Rightarrow> Some \<lparr>td_name = n, td_description = d, td_parameters = p\<rparr>
      | _ \<Rightarrow> None)"

definition model_params_of_value :: "(rat \<Rightarrow> rat) \<Rightarrow> json \<Rightarrow> model_params option" where
  "model_params_of_value f32 j =
     (case (opt_f32_of_value f32 (json_get j ''temperature''), opt_u32_of_value (json_get j ''max_tokens''),
            Option.bind (json_get j ''thinking_enabled'') as_bool) of
        (Some t, Some m, Some b) \<Rightarrow>
          Some \<lparr>mp_temperature = t, mp_max_tokens = m, mp_thinking_enabled = b,
                mp_extra = (case json_get j ''extra'' of None \<Rightarrow> JNull | Some e \<Rightarrow> e)\<rparr>
      | _ \<Rightarrow> None)"

definition model_call_payload_of_value :: "(rat \<Rightarrow> rat) \<Rightarrow> json \<Rightarrow> model_call_payload option" where
  "model_call_payload_of_value f32 j =
     (case (Option.bind (get_array j ''messages'') (\<lambda>xs. those (map model_message_of_value xs)),
            Option.bind (get_array j ''tools'') (\<lambda>xs. those (map tool_def_of_value xs)),
            (case json_get j ''model_params'' of
               None \<Rightarrow> Some ModelParams_default | Some p \<Rightarrow> model_params_of_value f32 p),
            (case json_get j ''stream'' of None \<Rightarrow> Some True | Some s \<Rightarrow> as_bool s)) of
        (Some ms, Some ts, Some p, Some s) \<Rightarrow>
          Some \<lparr>cp_messages = ms, cp_tools = ts, cp_params = p, cp_stream = s\<rparr>
      | _ \<Rightarrow> None)"

subsection \<open>Writing a response\<close>

definition usage_to_value :: "usage \<Rightarrow> json" where
  "usage_to_value u =
     JObj [(''input_tokens'', JInt (int (us_input_tokens u))),
           (''output_tokens'', JInt (int (us_output_tokens u))),
           (''total_tokens'', JInt (int (us_total_tokens u)))]"

definition model_tool_call_to_value :: "model_tool_call \<Rightarrow> json" where
  "model_tool_call_to_value t =
     JObj [(''id'', JStr (mt_id t)), (''name'', JStr (mt_name t)), (''arguments'', mt_arguments t)]"

definition value_of_opt :: "('a \<Rightarrow> json) \<Rightarrow> 'a option \<Rightarrow> json" where
  "value_of_opt f x = (case x of None \<Rightarrow> JNull | Some y \<Rightarrow> f y)"

definition model_response_to_value :: "model_response_payload \<Rightarrow> json" where
  "model_response_to_value r =
     JObj [(''message'', model_message_to_value (mr_message r)),
           (''tool_calls'', value_of_opt (\<lambda>ts. JArr (map model_tool_call_to_value ts)) (mr_tool_calls r)),
           (''finish_reason'', JStr (mr_finish_reason r)),
           (''usage'', value_of_opt usage_to_value (mr_usage r)),
           (''id'', JStr (mr_id r)), (''model'', JStr (mr_model r))]"

definition some_field :: "string \<Rightarrow> ('a \<Rightarrow> json) \<Rightarrow> 'a option \<Rightarrow> (string \<times> json) list" where
  "some_field k f x = (case x of None \<Rightarrow> [] | Some y \<Rightarrow> [(k, f y)])"

definition stream_tool_delta_to_value :: "stream_tool_delta \<Rightarrow> json" where
  "stream_tool_delta_to_value d =
     JObj ([(''index'', JInt (int (sd_index d)))] @ some_field ''id'' JStr (sd_id d)
           @ some_field ''name'' JStr (sd_name d) @ some_field ''arguments_delta'' JStr (sd_arguments_delta d))"

definition stream_chunk_to_value :: "stream_chunk \<Rightarrow> json" where
  "stream_chunk_to_value c =
     JObj ([(''chunk_type'', JStr (sc_chunk_type c))] @ some_field ''content'' JStr (sc_content c)
           @ some_field ''reasoning'' JStr (sc_reasoning c)
           @ some_field ''tool_call'' stream_tool_delta_to_value (sc_tool_call c)
           @ some_field ''usage'' usage_to_value (sc_usage c))"

subsection \<open>The event stream of a provider\<close>

record sse =
  se_chunks :: "stream_chunk list"
  se_content :: string
  se_reasoning :: string
  se_tool_calls :: "model_tool_call list"
  se_finish_reason :: string
  se_model :: string
  se_response_id :: string
  se_usage :: "usage option"

definition sse_start :: sse where
  "sse_start =
     \<lparr>se_chunks = [], se_content = [], se_reasoning = [], se_tool_calls = [], se_finish_reason = [],
      se_model = [], se_response_id = [], se_usage = None\<rparr>"

definition emit :: "stream_chunk \<Rightarrow> sse \<Rightarrow> sse" where
  "emit c s = s\<lparr>se_chunks := se_chunks s @ [c]\<rparr>"

definition empty_chunk :: "string \<Rightarrow> stream_chunk" where
  "empty_chunk ty =
     \<lparr>sc_chunk_type = ty, sc_content = None, sc_reasoning = None, sc_tool_call = None, sc_usage = None\<rparr>"

definition add_text :: "json \<Rightarrow> sse \<Rightarrow> sse" where
  "add_text delta s =
     (case get_str delta ''content'' of
        None \<Rightarrow> s
      | Some c \<Rightarrow> if c = [] then s
          else emit ((empty_chunk ''text'')\<lparr>sc_content := Some c\<rparr>) (s\<lparr>se_content := se_content s @ c\<rparr>))"

definition add_reasoning :: "json \<Rightarrow> sse \<Rightarrow> sse" where
  "add_reasoning delta s =
     (case get_str delta ''reasoning_content'' of
        None \<Rightarrow> s
      | Some c \<Rightarrow> if c = [] then s
          else emit ((empty_chunk ''reasoning'')\<lparr>sc_reasoning := Some c\<rparr>) (s\<lparr>se_reasoning := se_reasoning s @ c\<rparr>))"

definition delta_of_json :: "json \<Rightarrow> stream_tool_delta" where
  "delta_of_json tc =
     \<lparr>sd_index = as_u32 (case Option.bind (json_get tc ''index'') as_u64 of None \<Rightarrow> 0 | Some n \<Rightarrow> n),
      sd_id = get_str tc ''id'',
      sd_name = Option.bind (json_get tc ''function'') (\<lambda>f. get_str f ''name''),
      sd_arguments_delta = Option.bind (json_get tc ''function'') (\<lambda>f. get_str f ''arguments'')\<rparr>"

text \<open>A text that parses is the value, and one that does not is a string.\<close>

definition value_or_string :: "(string \<Rightarrow> json option) \<Rightarrow> string \<Rightarrow> json" where
  "value_or_string parse s = (case parse s of Some v \<Rightarrow> v | None \<Rightarrow> JStr s)"

fun append_arguments :: "string \<Rightarrow> string \<Rightarrow> model_tool_call list \<Rightarrow> model_tool_call list" where
  "append_arguments i d [] = []"
| "append_arguments i d (tc # tcs) =
     (if mt_id tc = i
      then (case mt_arguments tc of JStr s \<Rightarrow> tc\<lparr>mt_arguments := JStr (s @ d)\<rparr> | _ \<Rightarrow> tc) # tcs
      else tc # append_arguments i d tcs)"

definition accumulate ::
  "(string \<Rightarrow> json option) \<Rightarrow> stream_tool_delta \<Rightarrow> model_tool_call list \<Rightarrow> model_tool_call list" where
  "accumulate parse d acc =
     (case (sd_id d, sd_name d) of
        (Some i, Some n) \<Rightarrow>
          (if i \<in> mt_id ` set acc
           then (case sd_arguments_delta d of None \<Rightarrow> acc | Some a \<Rightarrow> append_arguments i a acc)
           else acc @ [\<lparr>mt_id = i, mt_name = n,
                        mt_arguments = value_or_string parse
                          (case sd_arguments_delta d of None \<Rightarrow> [] | Some a \<Rightarrow> a)\<rparr>])
      | _ \<Rightarrow> acc)"

definition add_tool_delta :: "(string \<Rightarrow> json option) \<Rightarrow> json \<Rightarrow> sse \<Rightarrow> sse" where
  "add_tool_delta parse tc s =
     (let d = delta_of_json tc
      in emit ((empty_chunk ''tool_call'')\<lparr>sc_tool_call := Some d\<rparr>)
           (s\<lparr>se_tool_calls := accumulate parse d (se_tool_calls s)\<rparr>))"

definition add_delta :: "(string \<Rightarrow> json option) \<Rightarrow> json \<Rightarrow> sse \<Rightarrow> sse" where
  "add_delta parse delta s =
     (let s = add_reasoning delta (add_text delta s)
      in case get_array delta ''tool_calls'' of None \<Rightarrow> s | Some tcs \<Rightarrow> fold (add_tool_delta parse) tcs s)"

definition add_choice :: "(string \<Rightarrow> json option) \<Rightarrow> json \<Rightarrow> sse \<Rightarrow> sse" where
  "add_choice parse choice s =
     (let s = (case get_str choice ''finish_reason'' of
                 Some fr \<Rightarrow> if fr = [] then s else s\<lparr>se_finish_reason := fr\<rparr>
               | None \<Rightarrow> s)
      in case json_get choice ''delta'' of None \<Rightarrow> s | Some delta \<Rightarrow> add_delta parse delta s)"

definition count_field :: "json \<Rightarrow> string \<Rightarrow> nat" where
  "count_field u k = as_u32 (case Option.bind (json_get u k) as_u64 of None \<Rightarrow> 0 | Some n \<Rightarrow> n)"

definition add_usage :: "json \<Rightarrow> sse \<Rightarrow> sse" where
  "add_usage u s =
     (let us = \<lparr>us_input_tokens = count_field u ''prompt_tokens'',
                us_output_tokens = count_field u ''completion_tokens'',
                us_total_tokens = count_field u ''total_tokens''\<rparr>
      in emit ((empty_chunk ''usage'')\<lparr>sc_usage := Some us\<rparr>) (s\<lparr>se_usage := Some us\<rparr>))"

definition add_event :: "(string \<Rightarrow> json option) \<Rightarrow> json \<Rightarrow> sse \<Rightarrow> sse" where
  "add_event parse chunk s =
     (let s = (case get_str chunk ''model'' of Some m \<Rightarrow> s\<lparr>se_model := m\<rparr> | None \<Rightarrow> s);
          s = (case get_str chunk ''id'' of Some i \<Rightarrow> s\<lparr>se_response_id := i\<rparr> | None \<Rightarrow> s);
          s = (case get_array chunk ''choices'' of None \<Rightarrow> s | Some cs \<Rightarrow> fold (add_choice parse) cs s)
      in case json_get chunk ''usage'' of None \<Rightarrow> s | Some u \<Rightarrow> add_usage u s)"

definition is_blank :: "char \<Rightarrow> bool" where
  "is_blank c \<longleftrightarrow> c \<in> set [CHR '' '', CHR 0x09, CHR 0x0A, CHR 0x0B, CHR 0x0C, CHR 0x0D]"

definition trim :: "string \<Rightarrow> string" where
  "trim s = rev (dropWhile is_blank (rev (dropWhile is_blank s)))"

fun read_events :: "(string \<Rightarrow> json option) \<Rightarrow> string list \<Rightarrow> sse \<Rightarrow> sse" where
  "read_events parse [] s = s"
| "read_events parse (l # ls) s =
     (let line = trim l in
      if line = [] \<or> starts_with '':'' line then read_events parse ls s
      else (case strip_prefix ''data: '' line of
              None \<Rightarrow> read_events parse ls s
            | Some data \<Rightarrow>
                (if data = ''[DONE]'' then s
                 else (case parse data of
                         None \<Rightarrow> read_events parse ls s
                       | Some chunk \<Rightarrow> read_events parse ls (add_event parse chunk s)))))"

definition sse_payload :: "sse \<Rightarrow> model_response_payload" where
  "sse_payload s =
     (let extra = (if se_reasoning s = [] then JNull else JObj [(''reasoning_content'', JStr (se_reasoning s))])
      in \<lparr>mr_message = with_extra (ModelMessage_new ''assistant'' (se_content s)) extra,
          mr_tool_calls = (if se_tool_calls s = [] then None else Some (se_tool_calls s)),
          mr_finish_reason = (if se_finish_reason s = [] then ''stop'' else se_finish_reason s),
          mr_usage = se_usage s, mr_id = se_response_id s, mr_model = se_model s\<rparr>)"

definition parse_sse :: "(string \<Rightarrow> json option) \<Rightarrow> string \<Rightarrow> stream_chunk list \<times> model_response_payload" where
  "parse_sse parse raw =
     (let s = read_events parse (lines raw) sse_start in (se_chunks s, sse_payload s))"

subsection \<open>Tool results as messages\<close>

text \<open>\<open>render\<close> is \<^verbatim>\<open>Value::to_string\<close>.\<close>

definition tool_result_to_model_message :: "(json \<Rightarrow> string) \<Rightarrow> tool_result_item \<Rightarrow> model_message" where
  "tool_result_to_model_message render item =
     (let or_else = (\<lambda>e. JObj [(''error'', JStr (case ri_error item of None \<Rightarrow> e | Some m \<Rightarrow> m))]);
          content =
            (if ri_status item = ''success'' then render (ri_result item)
             else if ri_status item = ''error'' then render (or_else ''unknown error'')
             else if ri_status item = ''cancelled'' then render (or_else ''cancelled'')
             else render (JObj [(''error'', JStr (''unknown status: '' @ ri_status item))]))
      in with_name (with_tool_call_id (ModelMessage_new ''tool'' content) (ri_call_id item)) (ri_name item))"

end
