(* ===== verification/Model_Node.thy ===== *)
theory Model_Node
  imports Model_Adapter Node_Handle
begin

text \<open>
  The OpenAI provider (\<^verbatim>\<open>openai.rs\<close>), the interface of providers (\<^verbatim>\<open>provider.rs\<close>) and the node that
  answers the model calls of the engines (\<^verbatim>\<open>node.rs\<close>). The HTTP client is a parameter.
\<close>

subsection \<open>Requests of the OpenAI provider\<close>

record openai_config =
  oc_endpoint :: string
  oc_api_key :: string
  oc_models :: "string list"
  oc_timeout_secs :: nat
  oc_max_retries :: nat

definition OpenAIConfig_default :: openai_config where
  "OpenAIConfig_default =
     \<lparr>oc_endpoint = ''https://api.openai.com/v1/chat/completions'', oc_api_key = [], oc_models = [],
      oc_timeout_secs = 320, oc_max_retries = 3\<rparr>"

definition OpenAIConfig_new :: "string \<Rightarrow> string list \<Rightarrow> openai_config" where
  "OpenAIConfig_new key models = OpenAIConfig_default\<lparr>oc_api_key := key, oc_models := models\<rparr>"

definition extra_tool_calls :: "model_message \<Rightarrow> json list" where
  "extra_tool_calls m = (case get_array (mm_extra m) ''tool_calls'' of None \<Rightarrow> [] | Some tcs \<Rightarrow> tcs)"

definition convert_message :: "model_message \<Rightarrow> json" where
  "convert_message m =
     JObj ([(''role'', JStr (mm_role m))]
           @ (if mm_role m = ''assistant'' \<and> extra_tool_calls m \<noteq> []
              then [(''content'', JNull), (''tool_calls'', JArr (extra_tool_calls m))]
              else [(''content'', JStr (mm_content m))])
           @ some_field ''tool_call_id'' JStr (mm_tool_call_id m)
           @ some_field ''name'' JStr (mm_name m))"

definition tool_entry :: "tool_def \<Rightarrow> json" where
  "tool_entry t =
     JObj [(''type'', JStr ''function''),
           (''function'', JObj [(''name'', JStr (td_name t)), (''description'', JStr (td_description t)),
                                (''parameters'', td_parameters t)])]"

fun merge_extra :: "string list \<Rightarrow> (string \<times> json) list \<Rightarrow> (string \<times> json) list \<Rightarrow> (string \<times> json) list" where
  "merge_extra skip [] body = body"
| "merge_extra skip ((k, v) # kvs) body =
     merge_extra skip kvs (if k \<in> set skip then body else AList.update k v body)"

definition build_request_body ::
  "string \<Rightarrow> model_message list \<Rightarrow> tool_def list \<Rightarrow> model_params \<Rightarrow> bool \<Rightarrow> json" where
  "build_request_body model_name messages tools params stream =
     JObj (merge_extra [''reasoning_effort'', ''reasoning_content'']
       (case mp_extra params of JObj kvs \<Rightarrow> kvs | _ \<Rightarrow> [])
       ([(''model'', JStr model_name), (''messages'', JArr (map convert_message messages)),
         (''stream'', JBool stream)]
        @ (if tools = [] then [] else [(''tools'', JArr (map tool_entry tools))])
        @ some_field ''temperature'' JFloat (mp_temperature params)
        @ some_field ''max_tokens'' (\<lambda>n. JInt (int n)) (mp_max_tokens params)))"

subsection \<open>Responses of the OpenAI provider\<close>

record api_message =
  am_content :: "string option"
  am_tool_calls :: "(string \<times> string \<times> string) list option"

definition api_tool_call_of_value :: "json \<Rightarrow> (string \<times> string \<times> string) option" where
  "api_tool_call_of_value j =
     (case (get_str j ''id'', get_str j ''type'', Option.bind (json_get j ''function'') (\<lambda>f. get_str f ''name''),
            Option.bind (json_get j ''function'') (\<lambda>f. get_str f ''arguments'')) of
        (Some i, Some ty, Some n, Some a) \<Rightarrow> Some (i, n, a)
      | _ \<Rightarrow> None)"

fun api_tool_calls_of_value :: "json option \<Rightarrow> (string \<times> string \<times> string) list option option" where
  "api_tool_calls_of_value None = Some None"
| "api_tool_calls_of_value (Some JNull) = Some None"
| "api_tool_calls_of_value (Some (JArr xs)) = map_option Some (those (map api_tool_call_of_value xs))"
| "api_tool_calls_of_value (Some _) = None"

definition api_message_of_value :: "json \<Rightarrow> api_message option" where
  "api_message_of_value j =
     (case (get_str j ''role'', opt_str_of_value (json_get j ''content''),
            api_tool_calls_of_value (json_get j ''tool_calls'')) of
        (Some r, Some c, Some ts) \<Rightarrow> Some \<lparr>am_content = c, am_tool_calls = ts\<rparr>
      | _ \<Rightarrow> None)"

definition api_choice_of_value :: "json \<Rightarrow> (string option \<times> api_message) option" where
  "api_choice_of_value j =
     (case (opt_str_of_value (json_get j ''finish_reason''), Option.bind (json_get j ''message'') api_message_of_value) of
        (Some fr, Some m) \<Rightarrow> Some (fr, m)
      | _ \<Rightarrow> None)"

fun u32_of_value :: "json option \<Rightarrow> nat option" where
  "u32_of_value (Some (JInt i)) = (if 0 \<le> i \<and> i < 2 ^ 32 then Some (nat i) else None)"
| "u32_of_value _ = None"

fun api_usage_of_value :: "json option \<Rightarrow> usage option option" where
  "api_usage_of_value None = Some None"
| "api_usage_of_value (Some JNull) = Some None"
| "api_usage_of_value (Some j) =
     (case (u32_of_value (json_get j ''prompt_tokens''), u32_of_value (json_get j ''completion_tokens''),
            u32_of_value (json_get j ''total_tokens'')) of
        (Some p, Some c, Some t) \<Rightarrow>
          Some (Some \<lparr>us_input_tokens = p, us_output_tokens = c, us_total_tokens = t\<rparr>)
      | _ \<Rightarrow> None)"

record api_response =
  ar_id :: string
  ar_model :: string
  ar_choices :: "(string option \<times> api_message) list"
  ar_usage :: "usage option"

definition api_response_of_value :: "json \<Rightarrow> api_response option" where
  "api_response_of_value j =
     (case (get_str j ''id'', get_str j ''model'',
            Option.bind (get_array j ''choices'') (\<lambda>xs. those (map api_choice_of_value xs)),
            api_usage_of_value (json_get j ''usage'')) of
        (Some i, Some m, Some cs, Some u) \<Rightarrow> Some \<lparr>ar_id = i, ar_model = m, ar_choices = cs, ar_usage = u\<rparr>
      | _ \<Rightarrow> None)"

text \<open>\<open>why\<close> is the message of a failed deserialization.\<close>

definition parse_response ::
  "(string \<Rightarrow> json option) \<Rightarrow> (string \<Rightarrow> string) \<Rightarrow> string \<Rightarrow> provider_error + model_response_payload" where
  "parse_response parse why raw =
     (case Option.bind (parse raw) api_response_of_value of
        None \<Rightarrow> Inl (ParseError (why raw))
      | Some api \<Rightarrow>
          (case ar_choices api of
             [] \<Rightarrow> Inl (ParseError ''no choices in response'')
           | (fr, m) # _ \<Rightarrow>
               Inr \<lparr>mr_message = ModelMessage_new ''assistant''
                      (case am_content m of None \<Rightarrow> [] | Some c \<Rightarrow> c),
                    mr_tool_calls = map_option (map (\<lambda>(i, n, a).
                      \<lparr>mt_id = i, mt_name = n, mt_arguments = value_or_string parse a\<rparr>)) (am_tool_calls m),
                    mr_finish_reason = (case fr of None \<Rightarrow> ''unknown'' | Some r \<Rightarrow> r),
                    mr_usage = ar_usage api, mr_id = ar_id api, mr_model = ar_model api\<rparr>))"

text \<open>
  What the HTTP client returns for a request: no answer, or a status and a body that may fail to
  arrive.
\<close>

datatype http_result = NoAnswer string | Answer nat "string + string"

definition is_success :: "nat \<Rightarrow> bool" where
  "is_success status \<longleftrightarrow> 200 \<le> status \<and> status < 300"

definition send_request :: "(json \<Rightarrow> http_result) \<Rightarrow> json \<Rightarrow> provider_error + string" where
  "send_request http body =
     (case http body of
        NoAnswer e \<Rightarrow> Inl (Transport e)
      | Answer status (Inl e) \<Rightarrow> Inl (Transport e)
      | Answer status (Inr txt) \<Rightarrow> if is_success status then Inr txt else Inl (Api status txt))"

definition openai_chat ::
  "(string \<Rightarrow> json option) \<Rightarrow> (string \<Rightarrow> string) \<Rightarrow> (json \<Rightarrow> http_result) \<Rightarrow> string \<Rightarrow> model_message list
    \<Rightarrow> tool_def list \<Rightarrow> model_params \<Rightarrow> provider_error + model_response_payload" where
  "openai_chat parse why http model_name messages tools params =
     (case send_request http (build_request_body model_name messages tools params False) of
        Inl e \<Rightarrow> Inl e
      | Inr raw \<Rightarrow> parse_response parse why raw)"

definition openai_chat_stream ::
  "(string \<Rightarrow> json option) \<Rightarrow> (json \<Rightarrow> http_result) \<Rightarrow> string \<Rightarrow> model_message list
    \<Rightarrow> tool_def list \<Rightarrow> model_params \<Rightarrow> provider_error + (stream_chunk list \<times> model_response_payload)" where
  "openai_chat_stream parse http model_name messages tools params =
     (case http (build_request_body model_name messages tools params True) of
        NoAnswer e \<Rightarrow> Inl (Transport e)
      | Answer status txt \<Rightarrow>
          (if \<not> is_success status then Inl (Api status (case txt of Inl _ \<Rightarrow> [] | Inr t \<Rightarrow> t))
           else (case txt of Inl e \<Rightarrow> Inl (Transport e) | Inr t \<Rightarrow> Inr (parse_sse parse t))))"

subsection \<open>The node\<close>

record provider =
  pv_name :: string
  pv_models :: "string list"
  pv_chat :: "string \<Rightarrow> model_message list \<Rightarrow> tool_def list \<Rightarrow> model_params
    \<Rightarrow> provider_error + model_response_payload"
  pv_chat_stream :: "string \<Rightarrow> model_message list \<Rightarrow> tool_def list \<Rightarrow> model_params
    \<Rightarrow> provider_error + (stream_chunk list \<times> model_response_payload)"

text \<open>The default of \<^verbatim>\<open>chat_stream\<close>: the whole response without chunks.\<close>

definition default_chat_stream ::
  "('m \<Rightarrow> 'a \<Rightarrow> 't \<Rightarrow> 'p \<Rightarrow> provider_error + model_response_payload) \<Rightarrow> 'm \<Rightarrow> 'a \<Rightarrow> 't \<Rightarrow> 'p
    \<Rightarrow> provider_error + (stream_chunk list \<times> model_response_payload)" where
  "default_chat_stream chat m ms ts ps = (case chat m ms ts ps of Inl e \<Rightarrow> Inl e | Inr r \<Rightarrow> Inr ([], r))"

definition openai_provider ::
  "(string \<Rightarrow> json option) \<Rightarrow> (string \<Rightarrow> string) \<Rightarrow> (json \<Rightarrow> http_result) \<Rightarrow> openai_config \<Rightarrow> provider" where
  "openai_provider parse why http config =
     \<lparr>pv_name = ''openai'', pv_models = oc_models config, pv_chat = openai_chat parse why http,
      pv_chat_stream = openai_chat_stream parse http\<rparr>"

definition model_node_info :: "provider \<Rightarrow> node_id \<Rightarrow> millis \<Rightarrow> node_info" where
  "model_node_info P n now =
     \<lparr>ni_node_id = n, ni_node_type = ''model'',
      ni_capabilities = JObj [(''provider'', JStr (pv_name P)), (''models'', strs_to_value (pv_models P))],
      ni_online_since = now\<rparr>"

definition model_node_filter :: message_filter where
  "model_node_filter = \<lparr>mf_types = Some [MODEL_CALL], mf_to_match = BroadcastAndDirectedToMe\<rparr>"

definition resolve_model_name :: "provider \<Rightarrow> string" where
  "resolve_model_name P = (case pv_models P of [] \<Rightarrow> ''unknown'' | m # _ \<Rightarrow> m)"

definition with_cid :: "uuid_ops \<Rightarrow> uuid option \<Rightarrow> json \<Rightarrow> json" where
  "with_cid U cid pl =
     (case cid of None \<Rightarrow> pl | Some c \<Rightarrow> obj_insert ''correlation_id'' (JStr (uuid_show U c)) pl)"

definition error_response :: "(nat \<Rightarrow> string) \<Rightarrow> provider_error \<Rightarrow> json" where
  "error_response show_nat e =
     JObj [(''error'', JStr (provider_error_display show_nat e)), (''finish_reason'', JStr ''error'')]"

text \<open>
  What \<^verbatim>\<open>process_model_call\<close> sends to the engine, in order: message types and payloads.
  \<open>why\<close> is the message of a payload that does not deserialize.
\<close>

definition answer_model_call ::
  "uuid_ops \<Rightarrow> (rat \<Rightarrow> rat) \<Rightarrow> (nat \<Rightarrow> string) \<Rightarrow> (json \<Rightarrow> string) \<Rightarrow> provider \<Rightarrow> json \<Rightarrow> (string \<times> json) list" where
  "answer_model_call U f32 show_nat why P pl =
     (let cid = Option.bind (get_str pl ''correlation_id'') (uuid_parse U)
      in case model_call_payload_of_value f32 pl of
           None \<Rightarrow> [(MODEL_RESPONSE,
                     JObj [(''error'', JStr (''invalid payload: '' @ why pl)),
                           (''correlation_id'', value_of_opt (\<lambda>c. JStr (uuid_show U c)) cid)])]
         | Some p \<Rightarrow>
             (if cp_stream p
              then (case pv_chat_stream P (resolve_model_name P) (cp_messages p) (cp_tools p) (cp_params p) of
                      Inl e \<Rightarrow> [(MODEL_RESPONSE, with_cid U cid (error_response show_nat e))]
                    | Inr (chunks, r) \<Rightarrow>
                        map (\<lambda>c. (MODEL_RESPONSE_CHUNK, stream_chunk_to_value c)) chunks
                        @ [(MODEL_RESPONSE, with_cid U cid (model_response_to_value r))])
              else (case pv_chat P (resolve_model_name P) (cp_messages p) (cp_tools p) (cp_params p) of
                      Inl e \<Rightarrow> [(MODEL_RESPONSE, with_cid U cid (error_response show_nat e))]
                    | Inr r \<Rightarrow> [(MODEL_RESPONSE, with_cid U cid (model_response_to_value r))])))"

fun send_each ::
  "(nat \<Rightarrow> uuid) \<Rightarrow> millis \<Rightarrow> node_handle \<Rightarrow> node_id \<Rightarrow> nat \<Rightarrow> (string \<times> json) list \<Rightarrow> buses \<Rightarrow> buses" where
  "send_each ids now h dest n [] bs = bs"
| "send_each ids now h dest n ((ty, pl) # rs) bs =
     send_each ids now h dest (Suc n) rs (snd (send (ids n) now h ty [dest] pl bs))"

definition process_model_call ::
  "uuid_ops \<Rightarrow> (rat \<Rightarrow> rat) \<Rightarrow> (nat \<Rightarrow> string) \<Rightarrow> (json \<Rightarrow> string) \<Rightarrow> provider \<Rightarrow> (nat \<Rightarrow> uuid) \<Rightarrow> millis
    \<Rightarrow> node_handle \<Rightarrow> message \<Rightarrow> buses \<Rightarrow> buses" where
  "process_model_call U f32 show_nat why P ids now h m bs =
     send_each ids now h (msg_from m) 0 (answer_model_call U f32 show_nat why P (msg_payload m)) bs"

text \<open>One turn of the listen loop.\<close>

definition listen_turn ::
  "uuid_ops \<Rightarrow> (rat \<Rightarrow> rat) \<Rightarrow> (nat \<Rightarrow> string) \<Rightarrow> (json \<Rightarrow> string) \<Rightarrow> provider \<Rightarrow> (nat \<Rightarrow> uuid) \<Rightarrow> millis
    \<Rightarrow> node_handle \<Rightarrow> message \<Rightarrow> buses \<Rightarrow> buses" where
  "listen_turn U f32 show_nat why P ids now h m bs =
     (if msg_type m = MODEL_CALL \<and> (is_for m (nh_node_id h) \<or> is_broadcast m)
      then process_model_call U f32 show_nat why P ids now h m bs else bs)"

end
