(* ===== verification/Model_Props.thy ===== *)
theory Model_Props
  imports Model_Node Engine_Frames
begin

text \<open>
  What the model adapter and the engine make of each other's messages, and what the parser of
  event streams returns.
\<close>

subsection \<open>The call of the engine, read by the adapter\<close>

lemma opt_str_of_field: "opt_str_of_value (map_of (opt_field k v) k) = Some v"
  by (cases v) (simp_all add: opt_field_def)

lemma map_of_opt_field: "k' \<noteq> k \<Longrightarrow> map_of (opt_field k v) k' = None"
  by (simp add: opt_field_def split: option.split)

lemma those_map: "(\<And>x. x \<in> set xs \<Longrightarrow> f (g x) = Some (h x)) \<Longrightarrow> those (map f (map g xs)) = Some (map h xs)"
  by (induction xs) auto

lemma model_message_roundtrip: "model_message_of_value (model_message_to_value m) = Some m"
proof -
  have "those (map tool_call_of_value (map tool_call_to_value ts)) = Some ts" for ts
    using those_map [of ts tool_call_of_value tool_call_to_value id] by simp
  then show ?thesis
    by (cases m)
      (auto simp: model_message_of_value_def model_message_to_value_def opt_field_def nonnull_field_def
        split: option.splits)
qed

definition tool_def_of_spec :: "tool_spec \<Rightarrow> tool_def" where
  "tool_def_of_spec t = \<lparr>td_name = ts_name t, td_description = ts_description t, td_parameters = ts_parameters t\<rparr>"

definition params_of_core :: "(rat \<Rightarrow> rat) \<Rightarrow> core_model_params \<Rightarrow> model_params" where
  "params_of_core f32 p =
     \<lparr>mp_temperature = map_option f32 (cp_temperature p), mp_max_tokens = cp_max_tokens p,
      mp_thinking_enabled = cp_thinking_enabled p, mp_extra = cp_extra p\<rparr>"

lemma tool_spec_read: "tool_def_of_value (tool_spec_to_value t) = Some (tool_def_of_spec t)"
  by (simp add: tool_def_of_value_def tool_spec_to_value_def tool_def_of_spec_def)

lemma params_read:
  assumes "\<And>n. cp_max_tokens p = Some n \<Longrightarrow> n < 2 ^ 32"
  shows "model_params_of_value f32 (core_model_params_to_value p) = Some (params_of_core f32 p)"
  using assms
  by (cases "cp_temperature p"; cases "cp_max_tokens p")
    (auto simp: model_params_of_value_def core_model_params_to_value_def params_of_core_def nonnull_field_def)

text \<open>
  C16: the adapter reads what the engine writes. The payload of a model call deserializes into
  the same messages, the same tools (without their permissions) and the same parameters, and it
  always asks for a stream, because the engine has no field to say otherwise.
\<close>

theorem model_call_understood:
  assumes "\<And>n. cp_max_tokens (mc_model_params c) = Some n \<Longrightarrow> n < 2 ^ 32"
  shows "model_call_payload_of_value f32 (am_payload U (AModelCall c)) =
    Some \<lparr>cp_messages = mc_messages c, cp_tools = map tool_def_of_spec (mc_tools c),
          cp_params = params_of_core f32 (mc_model_params c), cp_stream = True\<rparr>"
proof -
  have "those (map model_message_of_value (map model_message_to_value (mc_messages c))) = Some (mc_messages c)"
    using those_map [of "mc_messages c" model_message_of_value model_message_to_value id]
    by (simp add: model_message_roundtrip)
  moreover have "those (map tool_def_of_value (map tool_spec_to_value (mc_tools c))) =
      Some (map tool_def_of_spec (mc_tools c))"
    by (rule those_map) (rule tool_spec_read)
  ultimately show ?thesis
    using params_read [OF assms]
    by (simp add: model_call_payload_of_value_def model_call_to_value_def cid_field_def)
qed

definition demo_call :: model_call where
  "demo_call = ModelCall_new 4 [ModelMessage_new ''user'' ''hi'']"

theorem model_call_understood_witness:
  "model_call_payload_of_value id (am_payload unary_uuid (AModelCall demo_call)) =
    Some \<lparr>cp_messages = [ModelMessage_new ''user'' ''hi''], cp_tools = [],
          cp_params = params_of_core id CoreModelParams_default, cp_stream = True\<rparr>"
  using model_call_understood [of demo_call id unary_uuid]
  by (simp add: demo_call_def ModelCall_new_def CoreModelParams_default_def)

subsection \<open>The answer of the adapter, read by the engine\<close>

definition engine_call :: "model_tool_call \<Rightarrow> tool_call" where
  "engine_call t = \<lparr>tc_id = mt_id t, tc_name = mt_name t, tc_arguments = mt_arguments t, tc_target = None\<rparr>"

lemma tool_call_read: "tool_call_of_value (model_tool_call_to_value t) = Some (engine_call t)"
  by (simp add: model_tool_call_to_value_def engine_call_def)

lemma with_cid_get:
  "k \<noteq> ''correlation_id'' \<Longrightarrow> json_get (with_cid U cid (JObj kvs)) k = map_of kvs k"
  by (simp add: with_cid_def update_conv' split: option.split)

lemma with_cid_arr:
  "k \<noteq> ''correlation_id'' \<Longrightarrow> get_array (with_cid U cid (JObj kvs)) k = Option.bind (map_of kvs k) as_array"
  by (simp add: get_array_def with_cid_get)

text \<open>
  The engine reads what the adapter answers. From the response of a provider, with or
  without a correlation id, the engine takes the content of its message and its tool calls.
\<close>

theorem model_answer_understood:
  "response_content (with_cid U cid (model_response_to_value r)) = mm_content (mr_message r) \<and>
   response_tool_calls (with_cid U cid (model_response_to_value r)) =
     map engine_call (case mr_tool_calls r of None \<Rightarrow> [] | Some ts \<Rightarrow> ts)"
proof -
  have "List.map_filter tool_call_of_value (map model_tool_call_to_value ts) = map engine_call ts" for ts
    by (induction ts) (simp_all add: List.map_filter_simps tool_call_read)
  then show ?thesis
    by (auto simp: response_content_def response_tool_calls_def model_response_to_value_def with_cid_get
        with_cid_arr model_message_to_value_def value_of_opt_def unwrap_str_def split: option.split)
qed

lemma usage_key: "json_get (usage_to_value u) ''prompt_tokens'' = None"
  by (simp add: usage_to_value_def)

text \<open>
  The context size is never learned. The adapter writes the usage of a call under
  \<^verbatim>\<open>input_tokens\<close>, the engine looks for \<^verbatim>\<open>prompt_tokens\<close>: whatever the provider reports, recording the
  answer leaves the view of the State as it is, and a rule that watches the context size keeps
  seeing the old one.
\<close>

theorem context_usage_never_read:
  "st_over_view (w_state (record_answer D (with_cid U cid (model_response_to_value r)) w)) =
   st_over_view (w_state w)"
proof -
  have "st_over_view (w_state (note_usage D (with_cid U cid (model_response_to_value r)) w)) = st_over_view (w_state w)"
    by (auto simp: note_usage_def model_response_to_value_def with_cid_get value_of_opt_def usage_key Let_def
        maybe_record_model_call_def best_effort_def with_store_def split: option.splits prod.splits)
  then show ?thesis
    by (simp add: record_answer_def upd_state_def push_message_def assistant_message_def ModelMessage_new_def Let_def)
qed

text \<open>
  The tool calls of the conversation do not reach the provider. The engine keeps them in
  \<^verbatim>\<open>tool_calls\<close>, the OpenAI conversion looks into \<^verbatim>\<open>extra\<close>: the request has an assistant message
  without calls, followed by the tool messages that answer them.
\<close>

theorem history_loses_tool_calls:
  "convert_message (assistant_message content tcs) = JObj [(''role'', JStr ''assistant''), (''content'', JStr content)] \<and>
   json_get (convert_message (tool_message tc result)) ''tool_call_id'' = Some (JStr (tc_id tc))"
  by (simp add: convert_message_def assistant_message_def tool_message_def ModelMessage_new_def
      extra_tool_calls_def get_array_def some_field_def)

subsection \<open>One response per call\<close>

lemma payload_cid_with_cid:
  assumes "uuid_ok U" "map_of kvs ''correlation_id'' = None"
  shows "payload_cid U (with_cid U cid (JObj kvs)) = cid"
  using assms by (cases cid) (simp_all add: payload_cid_def with_cid_def update_conv')

text \<open>
  C37: every model call is answered once. Whatever the payload and whatever the provider returns,
  the node sends chunks and then exactly one response, and the response carries the correlation
  id of the call, when the call has one.
\<close>

theorem answered_once:
  assumes "uuid_ok U"
  shows "\<exists>chunks pl. answer_model_call U f32 show_nat why P req = map (Pair MODEL_RESPONSE_CHUNK) chunks @ [(MODEL_RESPONSE, pl)]
    \<and> payload_cid U pl = payload_cid U req"
proof -
  let ?cid = "payload_cid U req"
  have bad: "payload_cid U (JObj [(''error'', e), (''correlation_id'', value_of_opt (\<lambda>c. JStr (uuid_show U c)) ?cid)]) = ?cid" for e
    using assms by (cases ?cid) (simp_all add: payload_cid_def value_of_opt_def)
  have ok: "payload_cid U (with_cid U ?cid (model_response_to_value r)) = ?cid" for r
    unfolding model_response_to_value_def using assms by (rule payload_cid_with_cid) simp
  have err: "payload_cid U (with_cid U ?cid (error_response show_nat e)) = ?cid" for e
    unfolding error_response_def using assms by (rule payload_cid_with_cid) simp
  have one: "\<exists>chunks pl'. [(MODEL_RESPONSE, pl)] = map (Pair MODEL_RESPONSE_CHUNK) chunks @ [(MODEL_RESPONSE, pl')] \<and>
      payload_cid U pl' = ?cid" if "payload_cid U pl = ?cid" for pl
    using that by (intro exI [of _ "[]"] exI [of _ pl]) simp
  have pairs: "\<exists>chunks. map (\<lambda>c. (MODEL_RESPONSE_CHUNK, stream_chunk_to_value c)) cs = map (Pair MODEL_RESPONSE_CHUNK) chunks" for cs
    by (intro exI [of _ "map stream_chunk_to_value cs"]) simp
  show ?thesis
    unfolding answer_model_call_def payload_cid_def [symmetric] Let_def
    by (auto intro!: one pairs bad ok err split: option.split sum.split)
qed

definition echo_provider :: provider where
  "echo_provider =
     \<lparr>pv_name = ''echo'', pv_models = [''m''], pv_chat = (\<lambda>m ms ts ps. Inl (Transport ''down'')),
      pv_chat_stream = (\<lambda>m ms ts ps. Inl (Transport ''down''))\<rparr>"

theorem answered_once_witness:
  "\<exists>chunks pl. answer_model_call unary_uuid id (\<lambda>_. []) (\<lambda>_. []) echo_provider (am_payload unary_uuid (AModelCall demo_call)) =
     map (Pair MODEL_RESPONSE_CHUNK) chunks @ [(MODEL_RESPONSE, pl)] \<and>
     payload_cid unary_uuid pl = payload_cid unary_uuid (am_payload unary_uuid (AModelCall demo_call))"
  by (rule answered_once) (rule unary_uuid_ok)

subsection \<open>Event streams\<close>

definition texts :: "stream_chunk list \<Rightarrow> string" where
  "texts cs = concat (List.map_filter sc_content cs)"

definition reasonings :: "stream_chunk list \<Rightarrow> string" where
  "reasonings cs = concat (List.map_filter sc_reasoning cs)"

definition last_usage :: "stream_chunk list \<Rightarrow> usage option" where
  "last_usage cs = (let us = List.map_filter sc_usage cs in if us = [] then None else Some (last us))"

text \<open>The accumulators agree with the chunks emitted so far.\<close>

definition sse_ok :: "sse \<Rightarrow> bool" where
  "sse_ok s \<longleftrightarrow> texts (se_chunks s) = se_content s \<and> reasonings (se_chunks s) = se_reasoning s \<and>
     last_usage (se_chunks s) = se_usage s"

lemma map_filter_snoc:
  "List.map_filter f (xs @ [x]) = List.map_filter f xs @ (case f x of None \<Rightarrow> [] | Some y \<Rightarrow> [y])"
  by (simp add: List.map_filter_def split: option.split)

lemmas chunk_views = texts_def reasonings_def last_usage_def map_filter_snoc emit_def empty_chunk_def

lemma sse_ok_text: "sse_ok s \<Longrightarrow> sse_ok (add_text delta s)"
  by (auto simp: sse_ok_def add_text_def chunk_views split: option.split)

lemma sse_ok_reasoning: "sse_ok s \<Longrightarrow> sse_ok (add_reasoning delta s)"
  by (auto simp: sse_ok_def add_reasoning_def chunk_views split: option.split)

lemma sse_ok_tool: "sse_ok s \<Longrightarrow> sse_ok (add_tool_delta parse tc s)"
  by (auto simp: sse_ok_def add_tool_delta_def Let_def chunk_views)

lemma sse_ok_usage: "sse_ok s \<Longrightarrow> sse_ok (add_usage u s)"
  by (auto simp: sse_ok_def add_usage_def Let_def chunk_views)

lemma fold_ok: "(\<And>x s. sse_ok s \<Longrightarrow> sse_ok (f x s)) \<Longrightarrow> sse_ok s \<Longrightarrow> sse_ok (fold f xs s)"
  by (induction xs arbitrary: s) auto

lemma sse_ok_fields [simp]:
  "sse_ok (s\<lparr>se_finish_reason := x\<rparr>) = sse_ok s" "sse_ok (s\<lparr>se_model := x\<rparr>) = sse_ok s"
  "sse_ok (s\<lparr>se_response_id := x\<rparr>) = sse_ok s"
  by (simp_all add: sse_ok_def)

lemma sse_ok_delta: "sse_ok s \<Longrightarrow> sse_ok (add_delta parse delta s)"
  by (auto simp: add_delta_def Let_def intro!: fold_ok sse_ok_tool sse_ok_text sse_ok_reasoning split: option.split)

lemma sse_ok_choice: "sse_ok s \<Longrightarrow> sse_ok (add_choice parse choice s)"
  by (auto simp: add_choice_def Let_def intro!: sse_ok_delta split: option.split)

lemma sse_ok_event: "sse_ok s \<Longrightarrow> sse_ok (add_event parse chunk s)"
  by (auto simp: add_event_def Let_def intro!: sse_ok_usage fold_ok sse_ok_choice split: option.split)

lemma sse_ok_read: "sse_ok s \<Longrightarrow> sse_ok (read_events parse ls s)"
  by (induction parse ls s rule: read_events.induct) (auto simp: Let_def sse_ok_event split: option.split)

text \<open>
  The chunks of a stream and its final response agree. Whatever the provider sends, the
  content of the response is the text chunks joined, its reasoning is the reasoning chunks
  joined, and its usage is that of the last usage chunk.
\<close>

theorem stream_agrees:
  "let (chunks, r) = parse_sse parse raw in
     mm_content (mr_message r) = texts chunks \<and>
     mm_extra (mr_message r) =
       (if reasonings chunks = [] then JNull else JObj [(''reasoning_content'', JStr (reasonings chunks))]) \<and>
     mr_usage r = last_usage chunks"
proof -
  have "sse_ok sse_start"
    by (simp add: sse_ok_def sse_start_def texts_def reasonings_def last_usage_def List.map_filter_def)
  from sse_ok_read [OF this, of parse "lines raw"] show ?thesis
    by (auto simp: parse_sse_def sse_payload_def sse_ok_def Let_def with_extra_def ModelMessage_new_def)
qed

lemma accumulate_without_id: "sd_id d = None \<Longrightarrow> accumulate parse d acc = acc"
  by (simp add: accumulate_def split: option.split)

lemma fragments_dropped:
  "\<forall>tc \<in> set tcs. get_str tc ''id'' = None \<Longrightarrow> se_tool_calls (fold (add_tool_delta parse) tcs s) = se_tool_calls s"
  by (induction tcs arbitrary: s)
    (auto simp: add_tool_delta_def Let_def emit_def accumulate_without_id delta_of_json_def)

text \<open>
  The arguments of a streamed tool call are cut off. A provider sends the id and the name of a
  call with its first fragment and only the index with the others: the response then has the
  call with the arguments of the first fragment alone.
\<close>

theorem streamed_arguments_lost:
  assumes "get_str tc ''id'' = Some i" "sd_name (delta_of_json tc) = Some n"
    and "sd_arguments_delta (delta_of_json tc) = Some a"
    and "\<forall>f \<in> set fragments. get_str f ''id'' = None"
  shows "se_tool_calls (fold (add_tool_delta parse) (tc # fragments) sse_start) =
    [\<lparr>mt_id = i, mt_name = n, mt_arguments = value_or_string parse a\<rparr>]"
proof -
  have "sd_id (delta_of_json tc) = Some i" using assms(1) by (simp add: delta_of_json_def)
  then have "se_tool_calls (add_tool_delta parse tc sse_start) =
      [\<lparr>mt_id = i, mt_name = n, mt_arguments = value_or_string parse a\<rparr>]"
    using assms(2,3) by (simp add: add_tool_delta_def Let_def emit_def accumulate_def sse_start_def)
  then show ?thesis using fragments_dropped [OF assms(4)] by simp
qed

definition first_fragment :: json where
  "first_fragment = JObj [(''index'', JInt 0), (''id'', JStr ''c1''),
     (''function'', JObj [(''name'', JStr ''read''), (''arguments'', JStr [])])]"

definition later_fragment :: json where
  "later_fragment = JObj [(''index'', JInt 0), (''function'', JObj [(''arguments'', JStr ''1234'')])]"

theorem streamed_arguments_lost_witness:
  "se_tool_calls (fold (add_tool_delta (\<lambda>_. None)) [first_fragment, later_fragment] sse_start) =
    [\<lparr>mt_id = ''c1'', mt_name = ''read'', mt_arguments = JStr []\<rparr>]"
proof -
  have "get_str first_fragment ''id'' = Some ''c1''" "sd_name (delta_of_json first_fragment) = Some ''read''"
    "sd_arguments_delta (delta_of_json first_fragment) = Some []" "\<forall>f \<in> set [later_fragment]. get_str f ''id'' = None"
    by (simp_all add: first_fragment_def later_fragment_def delta_of_json_def)
  from streamed_arguments_lost [OF this, of "\<lambda>_. None"] show ?thesis by (simp add: value_or_string_def)
qed

end
