(* ===== verification/Providers.thy ===== *)
theory Providers
  imports Model_Node
begin

text \<open>
  The providers with code of their own: DeepSeek (\<^verbatim>\<open>deepseek.rs\<close>), MiniMax (\<^verbatim>\<open>minimax.rs\<close>) and Anthropic
  (\<^verbatim>\<open>anthropic.rs\<close>), with their conversion of messages, their parsers and the retry loop the three share.

  The HTTP client is a parameter that sees the number of the attempt. \<open>env\<close> is the environment of the
  process, \<open>render\<close> is \<^verbatim>\<open>Value::to_string\<close>. Sums of 32-bit counters wrap, as in a release build.
\<close>

subsection \<open>Configurations\<close>

record api_config =
  pc_endpoint :: string
  pc_api_key :: string
  pc_models :: "string list"
  pc_timeout_secs :: nat
  pc_max_retries :: nat

definition with_api_key_and_models :: "string \<Rightarrow> string list \<Rightarrow> api_config \<Rightarrow> api_config" where
  "with_api_key_and_models key models c = c\<lparr>pc_api_key := key, pc_models := models\<rparr>"

definition DeepSeekConfig_default :: api_config where
  "DeepSeekConfig_default =
     \<lparr>pc_endpoint = ''https://api.deepseek.com/chat/completions'', pc_api_key = [], pc_models = [],
      pc_timeout_secs = 320, pc_max_retries = 3\<rparr>"

definition DeepSeekConfig_from_env :: "(string \<Rightarrow> string option) \<Rightarrow> provider_error + api_config" where
  "DeepSeekConfig_from_env env =
     (case env ''DEEPSEEK_API_KEY'' of
        None \<Rightarrow> Inl (ParseError ''DEEPSEEK_API_KEY not set'')
      | Some key \<Rightarrow> Inr (with_api_key_and_models key [] DeepSeekConfig_default))"

definition AnthropicConfig_default :: api_config where
  "AnthropicConfig_default =
     \<lparr>pc_endpoint = ''https://api.anthropic.com/v1/messages'', pc_api_key = [], pc_models = [],
      pc_timeout_secs = 320, pc_max_retries = 3\<rparr>"

definition AnthropicConfig_from_env :: "(string \<Rightarrow> string option) \<Rightarrow> provider_error + api_config" where
  "AnthropicConfig_from_env env =
     (case env ''ANTHROPIC_API_KEY'' of
        None \<Rightarrow> Inl (ParseError ''ANTHROPIC_API_KEY not set'')
      | Some key \<Rightarrow> Inr (with_api_key_and_models key [] AnthropicConfig_default))"

definition MiniMaxConfig_default :: api_config where
  "MiniMaxConfig_default =
     \<lparr>pc_endpoint = ''https://api.minimaxi.com/v1/chat/completions'', pc_api_key = [],
      pc_models = [''MiniMax-M3''], pc_timeout_secs = 320, pc_max_retries = 3\<rparr>"

definition MiniMaxConfig_from_env :: "(string \<Rightarrow> string option) \<Rightarrow> provider_error + api_config" where
  "MiniMaxConfig_from_env env =
     (case (case env ''MINIMAX_API_KEY'' of None \<Rightarrow> env ''MINIMAX_TOKEN'' | Some key \<Rightarrow> Some key) of
        None \<Rightarrow> Inl (ParseError ''MINIMAX_API_KEY not set'')
      | Some key \<Rightarrow> Inr (MiniMaxConfig_default\<lparr>pc_api_key := key\<rparr>))"

subsection \<open>The retry loop\<close>

text \<open>
  \<open>request\<close> is one request, which sees the number of the attempt. The result comes with the seconds
  slept between the attempts.
\<close>

function retry_loop ::
  "(nat \<Rightarrow> string) \<Rightarrow> (nat \<Rightarrow> provider_error + string) \<Rightarrow> nat \<Rightarrow> nat \<Rightarrow> string
    \<Rightarrow> (provider_error + string) \<times> nat list" where
  "retry_loop show_nat request max_retries attempt last_error =
     (if attempt > max_retries then (Inl (RetryExhausted (max_retries + 1) last_error), [])
      else (case request attempt of
              Inr raw \<Rightarrow> (Inr raw, [])
            | Inl e \<Rightarrow>
                (if \<not> is_retryable e \<or> attempt = max_retries then (Inl e, [])
                 else (let (r, delays) = retry_loop show_nat request max_retries (Suc attempt)
                                           (provider_error_display show_nat e)
                       in (r, 2 ^ (attempt + 1) mod 2 ^ 64 # delays)))))"
  by pat_completeness auto
termination by (relation "measure (\<lambda>(_, _, m, a, _). Suc m - a)") auto

declare retry_loop.simps [simp del]

definition call_with_retry ::
  "(nat \<Rightarrow> string) \<Rightarrow> (nat \<Rightarrow> json \<Rightarrow> http_result) \<Rightarrow> api_config \<Rightarrow> (string \<Rightarrow> provider_error + 'r) \<Rightarrow> json
    \<Rightarrow> (provider_error + 'r) \<times> nat list" where
  "call_with_retry show_nat http config parse_resp body =
     (let (r, delays) = retry_loop show_nat (\<lambda>n. send_request (http n) body) (pc_max_retries config) 0 []
      in (case r of Inl e \<Rightarrow> Inl e | Inr raw \<Rightarrow> parse_resp raw, delays))"

text \<open>A streaming request: one attempt, and the status decides whether the body is read as events.\<close>

definition call_stream ::
  "(nat \<Rightarrow> json \<Rightarrow> http_result) \<Rightarrow> (string \<Rightarrow> stream_chunk list \<times> model_response_payload) \<Rightarrow> json
    \<Rightarrow> provider_error + (stream_chunk list \<times> model_response_payload)" where
  "call_stream http read_stream body =
     (case http 0 body of
        NoAnswer e \<Rightarrow> Inl (Transport e)
      | Answer status txt \<Rightarrow>
          (if \<not> is_success status then Inl (Api status (case txt of Inl _ \<Rightarrow> [] | Inr t \<Rightarrow> t))
           else (case txt of Inl e \<Rightarrow> Inl (Transport e) | Inr t \<Rightarrow> Inr (read_stream t))))"

subsection \<open>DeepSeek\<close>

definition deepseek_convert_message :: "model_message \<Rightarrow> json" where
  "deepseek_convert_message m =
     JObj ([(''role'', JStr (mm_role m))]
           @ (if mm_role m = ''assistant'' \<and> extra_tool_calls m \<noteq> []
              then [(''content'', JNull), (''tool_calls'', JArr (extra_tool_calls m))]
              else [(''content'', JStr (mm_content m))])
           @ some_field ''tool_call_id'' JStr (mm_tool_call_id m)
           @ some_field ''name'' JStr (mm_name m)
           @ some_field ''reasoning_content'' id (json_get (mm_extra m) ''reasoning_content''))"

definition deepseek_request_body ::
  "string \<Rightarrow> model_message list \<Rightarrow> tool_def list \<Rightarrow> model_params \<Rightarrow> bool \<Rightarrow> json" where
  "deepseek_request_body model_name messages tools params stream =
     JObj ([(''model'', JStr model_name), (''messages'', JArr (map deepseek_convert_message messages)),
            (''stream'', JBool stream)]
           @ (if tools = [] then [] else [(''tools'', JArr (map tool_entry tools))])
           @ some_field ''temperature'' JFloat (mp_temperature params)
           @ some_field ''max_tokens'' (\<lambda>n. JInt (int n)) (mp_max_tokens params)
           @ [(''thinking'',
               JObj [(''type'', JStr (if mp_thinking_enabled params then ''enabled'' else ''disabled''))])]
           @ (if mp_thinking_enabled params
              then some_field ''reasoning_effort'' JStr (get_str (mp_extra params) ''reasoning_effort'')
              else []))"

record ds_message =
  dm_content :: "string option"
  dm_tool_calls :: "(string \<times> string \<times> string) list option"
  dm_reasoning_content :: "string option"

definition ds_message_of_value :: "json \<Rightarrow> ds_message option" where
  "ds_message_of_value j =
     (case (get_str j ''role'', opt_str_of_value (json_get j ''content''),
            api_tool_calls_of_value (json_get j ''tool_calls''),
            opt_str_of_value (json_get j ''reasoning_content'')) of
        (Some r, Some c, Some ts, Some rc) \<Rightarrow>
          Some \<lparr>dm_content = c, dm_tool_calls = ts, dm_reasoning_content = rc\<rparr>
      | _ \<Rightarrow> None)"

definition ds_choice_of_value :: "json \<Rightarrow> (string option \<times> ds_message) option" where
  "ds_choice_of_value j =
     (case (opt_str_of_value (json_get j ''finish_reason''), Option.bind (json_get j ''message'') ds_message_of_value) of
        (Some fr, Some m) \<Rightarrow> Some (fr, m)
      | _ \<Rightarrow> None)"

record ds_response =
  ds_id :: string
  ds_model :: string
  ds_choices :: "(string option \<times> ds_message) list"
  ds_usage :: "usage option"

definition ds_response_of_value :: "json \<Rightarrow> ds_response option" where
  "ds_response_of_value j =
     (case (get_str j ''id'', get_str j ''model'',
            Option.bind (get_array j ''choices'') (\<lambda>xs. those (map ds_choice_of_value xs)),
            api_usage_of_value (json_get j ''usage'')) of
        (Some i, Some m, Some cs, Some u) \<Rightarrow> Some \<lparr>ds_id = i, ds_model = m, ds_choices = cs, ds_usage = u\<rparr>
      | _ \<Rightarrow> None)"

definition reasoning_extra :: "string \<Rightarrow> json" where
  "reasoning_extra rc = (if rc = [] then JNull else JObj [(''reasoning_content'', JStr rc)])"

definition deepseek_parse_response ::
  "(string \<Rightarrow> json option) \<Rightarrow> (string \<Rightarrow> string) \<Rightarrow> string \<Rightarrow> provider_error + model_response_payload" where
  "deepseek_parse_response parse why raw =
     (case Option.bind (parse raw) ds_response_of_value of
        None \<Rightarrow> Inl (ParseError (why raw))
      | Some api \<Rightarrow>
          (case ds_choices api of
             [] \<Rightarrow> Inl (ParseError ''no choices in response'')
           | (fr, m) # _ \<Rightarrow>
               Inr \<lparr>mr_message =
                      with_extra (ModelMessage_new ''assistant'' (case dm_content m of None \<Rightarrow> [] | Some c \<Rightarrow> c))
                        (case dm_reasoning_content m of None \<Rightarrow> JNull | Some rc \<Rightarrow> reasoning_extra rc),
                    mr_tool_calls = map_option (map (\<lambda>(i, n, a).
                      \<lparr>mt_id = i, mt_name = n, mt_arguments = value_or_string parse a\<rparr>)) (dm_tool_calls m),
                    mr_finish_reason = (case fr of None \<Rightarrow> ''unknown'' | Some r \<Rightarrow> r),
                    mr_usage = ds_usage api, mr_id = ds_id api, mr_model = ds_model api\<rparr>))"

definition deepseek_provider ::
  "(nat \<Rightarrow> string) \<Rightarrow> (string \<Rightarrow> json option) \<Rightarrow> (string \<Rightarrow> string) \<Rightarrow> (nat \<Rightarrow> json \<Rightarrow> http_result) \<Rightarrow> api_config
    \<Rightarrow> provider" where
  "deepseek_provider show_nat parse why http config =
     \<lparr>pv_name = ''deepseek'', pv_models = pc_models config,
      pv_chat = (\<lambda>model ms ts ps. fst (call_with_retry show_nat http config (deepseek_parse_response parse why)
                                         (deepseek_request_body model ms ts ps False))),
      pv_chat_stream = (\<lambda>model ms ts ps. call_stream http (parse_sse parse)
                                         (deepseek_request_body model ms ts ps True))\<rparr>"

subsection \<open>MiniMax\<close>

definition minimax_tool_call :: "(json \<Rightarrow> string) \<Rightarrow> tool_call \<Rightarrow> json" where
  "minimax_tool_call render tc =
     JObj [(''id'', JStr (tc_id tc)), (''type'', JStr ''function''),
           (''function'', JObj [(''name'', JStr (tc_name tc)), (''arguments'', JStr (render (tc_arguments tc)))])]"

definition minimax_message :: "(json \<Rightarrow> string) \<Rightarrow> model_message \<Rightarrow> json" where
  "minimax_message render m =
     JObj ([(''role'', JStr (mm_role m)), (''content'', JStr (mm_content m))]
           @ (if mm_tool_calls m = [] then []
              else [(''tool_calls'', JArr (map (minimax_tool_call render) (mm_tool_calls m)))])
           @ some_field ''tool_call_id'' JStr (mm_tool_call_id m)
           @ some_field ''name'' JStr (mm_name m))"

definition minimax_request_body ::
  "(json \<Rightarrow> string) \<Rightarrow> string \<Rightarrow> model_message list \<Rightarrow> tool_def list \<Rightarrow> model_params \<Rightarrow> json" where
  "minimax_request_body render model_name messages tools params =
     JObj ([(''model'', JStr model_name), (''messages'', JArr (map (minimax_message render) messages))]
           @ some_field ''temperature'' JFloat (mp_temperature params)
           @ some_field ''max_tokens'' (\<lambda>n. JInt (int n)) (mp_max_tokens params)
           @ (if tools = [] then [] else [(''tools'', JArr (map tool_entry tools))]))"

definition minimax_tool_call_of_value :: "(string \<Rightarrow> json option) \<Rightarrow> json \<Rightarrow> model_tool_call option" where
  "minimax_tool_call_of_value parse t =
     (case (get_str t ''id'', Option.bind (json_get t ''function'') (\<lambda>f. get_str f ''name''),
            Option.bind (json_get t ''function'') (\<lambda>f. get_str f ''arguments'')) of
        (Some i, Some n, Some a) \<Rightarrow>
          Some \<lparr>mt_id = i, mt_name = n, mt_arguments = (case parse a of None \<Rightarrow> JNull | Some v \<Rightarrow> v)\<rparr>
      | _ \<Rightarrow> None)"

definition str_or_empty :: "string option \<Rightarrow> string" where
  "str_or_empty s = (case s of None \<Rightarrow> [] | Some t \<Rightarrow> t)"

definition minimax_parse_response ::
  "(string \<Rightarrow> json option) \<Rightarrow> (string \<Rightarrow> string) \<Rightarrow> string \<Rightarrow> provider_error + model_response_payload" where
  "minimax_parse_response parse why raw =
     (case parse raw of
        None \<Rightarrow> Inl (ParseError (why raw))
      | Some v \<Rightarrow>
          (case get_array v ''choices'' of
             Some (choice # _) \<Rightarrow>
               (case json_get choice ''message'' of
                  None \<Rightarrow> Inl (ParseError ''missing message'')
                | Some message \<Rightarrow>
                    (let tool_calls = (case get_array message ''tool_calls'' of
                                         None \<Rightarrow> []
                                       | Some tcs \<Rightarrow> List.map_filter (minimax_tool_call_of_value parse) tcs)
                     in Inr \<lparr>mr_message = ModelMessage_new ''assistant'' (str_or_empty (get_str message ''content'')),
                             mr_tool_calls = (if tool_calls = [] then None else Some tool_calls),
                             mr_finish_reason = (case get_str choice ''finish_reason'' of None \<Rightarrow> ''stop'' | Some r \<Rightarrow> r),
                             mr_usage = map_option (\<lambda>u.
                               \<lparr>us_input_tokens = count_field u ''prompt_tokens'',
                                us_output_tokens = count_field u ''completion_tokens'',
                                us_total_tokens = count_field u ''total_tokens''\<rparr>) (json_get v ''usage''),
                             mr_id = str_or_empty (get_str v ''id''), mr_model = str_or_empty (get_str v ''model'')\<rparr>))
           | _ \<Rightarrow> Inl (ParseError ''missing choices[0]'')))"

definition minimax_provider ::
  "(nat \<Rightarrow> string) \<Rightarrow> (json \<Rightarrow> string) \<Rightarrow> (string \<Rightarrow> json option) \<Rightarrow> (string \<Rightarrow> string) \<Rightarrow> (nat \<Rightarrow> json \<Rightarrow> http_result)
    \<Rightarrow> api_config \<Rightarrow> provider" where
  "minimax_provider show_nat render parse why http config =
     (let chat = (\<lambda>model ms ts ps. fst (call_with_retry show_nat http config (minimax_parse_response parse why)
                                          (minimax_request_body render model ms ts ps)))
      in \<lparr>pv_name = ''minimax'', pv_models = pc_models config, pv_chat = chat,
          pv_chat_stream = default_chat_stream chat\<rparr>)"

end
