(* ===== verification/Anthropic.thy ===== *)
theory Anthropic
  imports Providers
begin

text \<open>
  The Anthropic provider (\<^verbatim>\<open>anthropic.rs\<close>): messages as content blocks with the system prompt apart,
  the parser of a response and the parser of the event stream with its named events.
\<close>

subsection \<open>Requests\<close>

definition text_content_block :: "string \<Rightarrow> json" where
  "text_content_block txt = JArr [JObj [(''type'', JStr ''text''), (''text'', JStr txt)]]"

text \<open>\<^verbatim>\<open>tc["id"]\<close>: null when the key is missing.\<close>

definition index_or_null :: "json \<Rightarrow> string \<Rightarrow> json" where
  "index_or_null j k = (case json_get j k of None \<Rightarrow> JNull | Some v \<Rightarrow> v)"

definition role_message :: "string \<Rightarrow> json \<Rightarrow> json" where
  "role_message role content = JObj [(''role'', JStr role), (''content'', content)]"

definition tool_use_block :: "json \<Rightarrow> json" where
  "tool_use_block tc =
     JObj [(''type'', JStr ''tool_use''), (''id'', index_or_null tc ''id''),
           (''name'', index_or_null tc ''name''), (''input'', index_or_null tc ''arguments'')]"

definition assistant_entry :: "model_message \<Rightarrow> json" where
  "assistant_entry m =
     (case get_array (mm_extra m) ''tool_calls'' of
        Some tcs \<Rightarrow>
          role_message ''assistant''
            (JArr ((if mm_content m = [] then [] else [JObj [(''type'', JStr ''text''), (''text'', JStr (mm_content m))]])
                   @ map tool_use_block tcs))
      | None \<Rightarrow> role_message ''assistant'' (text_content_block (mm_content m)))"

definition tool_entry_of_message :: "model_message \<Rightarrow> json" where
  "tool_entry_of_message m =
     role_message ''user''
       (JArr [JObj [(''type'', JStr ''tool_result''), (''tool_use_id'', JStr (str_or_empty (mm_tool_call_id m))),
                    (''content'', JStr (mm_content m))]])"

definition system_entry :: "model_message \<Rightarrow> json" where
  "system_entry m =
     role_message ''user'' (text_content_block (''<system>'' @ mm_content m @ ''</system>''))"

definition api_entry :: "model_message \<Rightarrow> json" where
  "api_entry m =
     (if mm_role m = ''system'' then system_entry m
      else if mm_role m = ''assistant'' then assistant_entry m
      else if mm_role m = ''tool'' then tool_entry_of_message m
      else role_message ''user'' (text_content_block (mm_content m)))"

fun convert_messages_from :: "string option \<Rightarrow> json list \<Rightarrow> model_message list \<Rightarrow> string option \<times> json list" where
  "convert_messages_from system api [] = (system, api)"
| "convert_messages_from system api (m # ms) =
     (if mm_role m = ''system'' \<and> system = None then convert_messages_from (Some (mm_content m)) api ms
      else convert_messages_from system (api @ [api_entry m]) ms)"

definition convert_messages :: "model_message list \<Rightarrow> string option \<times> json list" where
  "convert_messages ms = convert_messages_from None [] ms"

definition anthropic_tool :: "tool_def \<Rightarrow> json" where
  "anthropic_tool t =
     JObj [(''name'', JStr (td_name t)), (''description'', JStr (td_description t)),
           (''input_schema'', td_parameters t)]"

definition anthropic_request_body ::
  "string \<Rightarrow> model_message list \<Rightarrow> tool_def list \<Rightarrow> model_params \<Rightarrow> bool \<Rightarrow> json" where
  "anthropic_request_body model_name messages tools params stream =
     (let (system, api) = convert_messages messages
      in JObj ([(''model'', JStr model_name),
                (''max_tokens'', JInt (int (case mp_max_tokens params of None \<Rightarrow> 4096 | Some n \<Rightarrow> n))),
                (''messages'', JArr api), (''stream'', JBool stream)]
               @ some_field ''system'' JStr system
               @ some_field ''temperature'' JFloat (mp_temperature params)
               @ (if tools = [] then [] else [(''tools'', JArr (map anthropic_tool tools))])))"

subsection \<open>Responses\<close>

datatype content_block =
    TextBlock string
  | ToolUseBlock string string json
  | ThinkingBlock string
  | UnknownBlock

definition content_block_of_value :: "json \<Rightarrow> content_block option" where
  "content_block_of_value j =
     (case get_str j ''type'' of
        None \<Rightarrow> None
      | Some ty \<Rightarrow>
          (if ty = ''text'' then map_option TextBlock (get_str j ''text'')
           else if ty = ''tool_use''
           then (case (get_str j ''id'', get_str j ''name'', json_get j ''input'') of
                   (Some i, Some n, Some v) \<Rightarrow> Some (ToolUseBlock i n v)
                 | _ \<Rightarrow> None)
           else if ty = ''thinking'' then map_option ThinkingBlock (get_str j ''thinking'')
           else Some UnknownBlock))"

record anthropic_usage =
  au_input_tokens :: nat
  au_output_tokens :: nat

fun anthropic_usage_of_value :: "json option \<Rightarrow> anthropic_usage option option" where
  "anthropic_usage_of_value None = Some None"
| "anthropic_usage_of_value (Some JNull) = Some None"
| "anthropic_usage_of_value (Some j) =
     (case (u32_of_value (json_get j ''input_tokens''), u32_of_value (json_get j ''output_tokens'')) of
        (Some i, Some n) \<Rightarrow> Some (Some \<lparr>au_input_tokens = i, au_output_tokens = n\<rparr>)
      | _ \<Rightarrow> None)"

record anthropic_response =
  an_id :: string
  an_model :: string
  an_content :: "content_block list"
  an_stop_reason :: "string option"
  an_usage :: "anthropic_usage option"

definition anthropic_response_of_value :: "json \<Rightarrow> anthropic_response option" where
  "anthropic_response_of_value j =
     (case (get_str j ''id'', get_str j ''model'',
            Option.bind (get_array j ''content'') (\<lambda>xs. those (map content_block_of_value xs)),
            opt_str_of_value (json_get j ''stop_reason''), anthropic_usage_of_value (json_get j ''usage'')) of
        (Some i, Some m, Some bs, Some sr, Some u) \<Rightarrow>
          Some \<lparr>an_id = i, an_model = m, an_content = bs, an_stop_reason = sr, an_usage = u\<rparr>
      | _ \<Rightarrow> None)"

definition map_stop_reason :: "string \<Rightarrow> string" where
  "map_stop_reason stop =
     (if stop = ''end_turn'' then ''stop''
      else if stop = ''max_tokens'' then ''length''
      else if stop = ''stop_sequence'' then ''stop''
      else if stop = ''tool_use'' then ''tool_calls''
      else stop)"

text \<open>One block of a response: the text parts, the tool calls and the reasoning so far.\<close>

fun add_block ::
  "content_block \<Rightarrow> string list \<times> model_tool_call list \<times> string \<Rightarrow> string list \<times> model_tool_call list \<times> string" where
  "add_block (TextBlock t) (ts, tcs, r) = (ts @ [t], tcs, r)"
| "add_block (ToolUseBlock i n v) (ts, tcs, r) = (ts, tcs @ [\<lparr>mt_id = i, mt_name = n, mt_arguments = v\<rparr>], r)"
| "add_block (ThinkingBlock th) (ts, tcs, r) = (ts, tcs, th)"
| "add_block UnknownBlock acc = acc"

definition anthropic_parse_response ::
  "(string \<Rightarrow> json option) \<Rightarrow> (string \<Rightarrow> string) \<Rightarrow> string \<Rightarrow> provider_error + model_response_payload" where
  "anthropic_parse_response parse why raw =
     (case Option.bind (parse raw) anthropic_response_of_value of
        None \<Rightarrow> Inl (ParseError (why raw))
      | Some api \<Rightarrow>
          (let (text_parts, tool_calls, reasoning) = fold add_block (an_content api) ([], [], [])
           in Inr \<lparr>mr_message = with_extra (ModelMessage_new ''assistant'' (concat text_parts)) (reasoning_extra reasoning),
                   mr_tool_calls = (if tool_calls = [] then None else Some tool_calls),
                   mr_finish_reason = (case an_stop_reason api of None \<Rightarrow> ''unknown'' | Some s \<Rightarrow> map_stop_reason s),
                   mr_usage = map_option (\<lambda>u.
                     \<lparr>us_input_tokens = au_input_tokens u, us_output_tokens = au_output_tokens u,
                      us_total_tokens = as_u32 (au_input_tokens u + au_output_tokens u)\<rparr>) (an_usage api),
                   mr_id = an_id api, mr_model = an_model api\<rparr>))"

subsection \<open>The event stream\<close>

definition anthropic_usage_of_event :: "json \<Rightarrow> usage" where
  "anthropic_usage_of_event u =
     \<lparr>us_input_tokens = count_field u ''input_tokens'', us_output_tokens = count_field u ''output_tokens'',
      us_total_tokens = as_u32 (count_field u ''input_tokens'' + count_field u ''output_tokens'')\<rparr>"

definition on_message_start :: "json \<Rightarrow> sse \<Rightarrow> sse" where
  "on_message_start j s =
     (let m = json_get j ''message'';
          s = (case Option.bind m (\<lambda>v. get_str v ''model'') of Some n \<Rightarrow> s\<lparr>se_model := n\<rparr> | None \<Rightarrow> s);
          s = (case Option.bind m (\<lambda>v. get_str v ''id'') of Some i \<Rightarrow> s\<lparr>se_response_id := i\<rparr> | None \<Rightarrow> s)
      in case Option.bind m (\<lambda>v. json_get v ''usage'') of
           Some u \<Rightarrow> s\<lparr>se_usage := Some (anthropic_usage_of_event u)\<rparr> | None \<Rightarrow> s)"

definition on_block_delta :: "json \<Rightarrow> sse \<Rightarrow> sse" where
  "on_block_delta j s =
     (case Option.bind (json_get j ''delta'') (\<lambda>d. get_str d ''text'') of
        None \<Rightarrow> s
      | Some t \<Rightarrow> emit ((empty_chunk ''text'')\<lparr>sc_content := Some t\<rparr>) (s\<lparr>se_content := se_content s @ t\<rparr>))"

definition on_block_start :: "json \<Rightarrow> sse \<Rightarrow> sse" where
  "on_block_start j s =
     (case json_get j ''content_block'' of
        None \<Rightarrow> s
      | Some block \<Rightarrow>
          (if get_str block ''type'' \<noteq> Some ''tool_use'' then s
           else (case (get_str block ''id'', get_str block ''name'') of
                   (Some i, Some n) \<Rightarrow>
                     (let tcs = se_tool_calls s @ [\<lparr>mt_id = i, mt_name = n, mt_arguments = index_or_null block ''input''\<rparr>]
                      in emit ((empty_chunk ''tool_call'')\<lparr>sc_tool_call :=
                                 Some \<lparr>sd_index = as_u32 (length tcs) - 1, sd_id = Some i, sd_name = Some n,
                                       sd_arguments_delta = None\<rparr>\<rparr>)
                           (s\<lparr>se_tool_calls := tcs\<rparr>))
                 | _ \<Rightarrow> s)))"

definition on_message_delta :: "json \<Rightarrow> sse \<Rightarrow> sse" where
  "on_message_delta j s =
     (let s = (case Option.bind (json_get j ''delta'') (\<lambda>d. get_str d ''stop_reason'') of
                 Some sr \<Rightarrow> s\<lparr>se_finish_reason := map_stop_reason sr\<rparr> | None \<Rightarrow> s)
      in case json_get j ''usage'' of
           Some u \<Rightarrow> s\<lparr>se_usage := Some (anthropic_usage_of_event u)\<rparr> | None \<Rightarrow> s)"

definition process_anthropic_event :: "(string \<Rightarrow> json option) \<Rightarrow> string \<Rightarrow> string \<Rightarrow> sse \<Rightarrow> sse" where
  "process_anthropic_event parse event data s =
     (case parse data of
        None \<Rightarrow> s
      | Some j \<Rightarrow>
          (if event = ''message_start'' then on_message_start j s
           else if event = ''content_block_delta'' then on_block_delta j s
           else if event = ''content_block_start'' then on_block_start j s
           else if event = ''message_delta'' then on_message_delta j s
           else s))"

fun anthropic_events :: "(string \<Rightarrow> json option) \<Rightarrow> string list \<Rightarrow> string \<Rightarrow> string \<Rightarrow> sse \<Rightarrow> sse" where
  "anthropic_events parse [] event data s =
     (if data = [] then s else process_anthropic_event parse event data s)"
| "anthropic_events parse (l # ls) event data s =
     (let line = trim l in
      if line = []
      then anthropic_events parse ls [] [] (if data = [] then s else process_anthropic_event parse event data s)
      else (case strip_prefix ''event: '' line of
              Some e \<Rightarrow> anthropic_events parse ls e data s
            | None \<Rightarrow> (case strip_prefix ''data: '' line of
                         Some d \<Rightarrow> anthropic_events parse ls event d s
                       | None \<Rightarrow> anthropic_events parse ls event data s)))"

definition anthropic_payload :: "sse \<Rightarrow> model_response_payload" where
  "anthropic_payload s =
     \<lparr>mr_message = ModelMessage_new ''assistant'' (se_content s),
      mr_tool_calls = (if se_tool_calls s = [] then None else Some (se_tool_calls s)),
      mr_finish_reason = (if se_finish_reason s = [] then ''stop'' else se_finish_reason s),
      mr_usage = se_usage s, mr_id = se_response_id s, mr_model = se_model s\<rparr>"

definition parse_anthropic_sse ::
  "(string \<Rightarrow> json option) \<Rightarrow> string \<Rightarrow> stream_chunk list \<times> model_response_payload" where
  "parse_anthropic_sse parse raw =
     (let s = anthropic_events parse (lines raw) [] [] sse_start in (se_chunks s, anthropic_payload s))"

definition anthropic_provider ::
  "(nat \<Rightarrow> string) \<Rightarrow> (string \<Rightarrow> json option) \<Rightarrow> (string \<Rightarrow> string) \<Rightarrow> (nat \<Rightarrow> json \<Rightarrow> http_result) \<Rightarrow> api_config
    \<Rightarrow> provider" where
  "anthropic_provider show_nat parse why http config =
     \<lparr>pv_name = ''anthropic'', pv_models = pc_models config,
      pv_chat = (\<lambda>model ms ts ps. fst (call_with_retry show_nat http config (anthropic_parse_response parse why)
                                         (anthropic_request_body model ms ts ps False))),
      pv_chat_stream = (\<lambda>model ms ts ps. call_stream http (parse_anthropic_sse parse)
                                         (anthropic_request_body model ms ts ps True))\<rparr>"

end
