(* ===== verification/Provider_Props.thy ===== *)
theory Provider_Props
  imports Anthropic Model_Props
begin

text \<open>
  What the providers guarantee: the retry loop against its specification, the conversation as each
  of them sends it, tool calls that survive the round trip, and what the Anthropic event stream
  keeps and drops.
\<close>

subsection \<open>Retries\<close>

definition retryable_failure :: "provider_error + string \<Rightarrow> bool" where
  "retryable_failure r = (case r of Inl e \<Rightarrow> is_retryable e | Inr _ \<Rightarrow> False)"

definition backoff :: "nat \<Rightarrow> nat" where
  "backoff attempt = 2 ^ (attempt + 1) mod 2 ^ 64"

lemma retry_loop_step:
  "attempt \<le> m \<Longrightarrow> retry_loop sn request m attempt le =
     (if retryable_failure (request attempt) \<and> attempt < m
      then (let (r, ds) = retry_loop sn request m (Suc attempt)
                            (case request attempt of Inl e \<Rightarrow> provider_error_display sn e | Inr _ \<Rightarrow> le)
            in (r, backoff attempt # ds))
      else (request attempt, []))"
  by (subst retry_loop.simps) (auto simp: retryable_failure_def backoff_def split: sum.splits prod.splits)

text \<open>The attempt at which the loop stops.\<close>

fun stop_at :: "(nat \<Rightarrow> provider_error + string) \<Rightarrow> nat \<Rightarrow> nat \<Rightarrow> nat" where
  "stop_at request attempt 0 = attempt"
| "stop_at request attempt (Suc left) =
     (if retryable_failure (request attempt) then stop_at request (Suc attempt) left else attempt)"

lemma stop_at_bounds: "attempt \<le> stop_at request attempt left \<and> stop_at request attempt left \<le> attempt + left"
  by (induction request attempt left rule: stop_at.induct) auto

lemma retry_loop_stop:
  "retry_loop sn request (attempt + left) attempt le =
     (request (stop_at request attempt left), map backoff [attempt..<stop_at request attempt left])"
proof (induction request attempt left arbitrary: le rule: stop_at.induct)
  case (1 request attempt)
  then show ?case by (simp add: retry_loop_step)
next
  case (2 request attempt left)
  show ?case
  proof (cases "retryable_failure (request attempt)")
    case True
    from 2 [OF True] have "retry_loop sn request (attempt + Suc left) (Suc attempt) le' =
        (request (stop_at request (Suc attempt) left), map backoff [Suc attempt..<stop_at request (Suc attempt) left])" for le'
      by simp
    moreover have "attempt < stop_at request (Suc attempt) left"
      using stop_at_bounds [of "Suc attempt" request left] by simp
    ultimately show ?thesis using True by (simp add: retry_loop_step upt_conv_Cons)
  qed (simp add: retry_loop_step)
qed

lemma before_stop:
  "attempt \<le> i \<Longrightarrow> i < stop_at request attempt left \<Longrightarrow> retryable_failure (request i)"
proof (induction request attempt left rule: stop_at.induct)
  case (2 request attempt left)
  then show ?case by (cases "i = attempt") (auto split: if_splits)
qed simp

lemma at_stop:
  "retryable_failure (request (stop_at request attempt left)) \<Longrightarrow> stop_at request attempt left = attempt + left"
  by (induction request attempt left rule: stop_at.induct) (auto split: if_splits)

text \<open>
  A call is retried exactly while it fails with a transport error, a 429 or a 5xx. It stops at
  some attempt \<open>k\<close>, at most the configured number; every attempt before failed in that way, and
  attempt \<open>k\<close> itself does so only if it is the last allowed; the result is that of attempt \<open>k\<close>, and
  the pauses are 2, 4, 8, \<open>\<dots>\<close> seconds. So the error for exhausted retries is never returned.
\<close>

theorem retries_spec:
  "\<exists>k \<le> max_retries. (\<forall>i < k. retryable_failure (request i)) \<and>
     (retryable_failure (request k) \<longrightarrow> k = max_retries) \<and>
     retry_loop show_nat request max_retries 0 last_error = (request k, map backoff [0..<k])"
proof (intro exI conjI)
  let ?k = "stop_at request 0 max_retries"
  show "?k \<le> max_retries" using stop_at_bounds [of 0 request max_retries] by simp
  show "\<forall>i < ?k. retryable_failure (request i)" "retryable_failure (request ?k) \<longrightarrow> ?k = max_retries"
    using before_stop [of 0 _ request max_retries] at_stop [of request 0 max_retries] by auto
  show "retry_loop show_nat request max_retries 0 last_error = (request ?k, map backoff [0..<?k])"
    using retry_loop_stop [of show_nat request 0 max_retries] by simp
qed

theorem retries_spec_witness:
  "\<exists>k \<le> 3. (\<forall>i < k. retryable_failure ([Inl (Api 429 []), Inl (Transport []), Inr ''ok''] ! i)) \<and>
     (retryable_failure ([Inl (Api 429 []), Inl (Transport []), Inr ''ok''] ! k) \<longrightarrow> k = 3) \<and>
     retry_loop (\<lambda>_. []) ((!) [Inl (Api 429 []), Inl (Transport []), Inr ''ok'']) 3 0 [] =
       ([Inl (Api 429 []), Inl (Transport []), Inr ''ok''] ! k, map backoff [0..<k])"
  by (rule retries_spec)

subsection \<open>The conversation of the engine\<close>

lemma extra_of_engine [simp]:
  "mm_extra (assistant_message c tcs) = JNull" "mm_role (assistant_message c tcs) = ''assistant''"
  "mm_content (assistant_message c tcs) = c" "mm_tool_calls (assistant_message c tcs) = tcs"
  "mm_tool_call_id (assistant_message c tcs) = None" "mm_name (assistant_message c tcs) = None"
  "mm_role (tool_message tc r) = ''tool''" "mm_tool_call_id (tool_message tc r) = Some (tc_id tc)"
  by (simp_all add: assistant_message_def tool_message_def ModelMessage_new_def with_name_def with_tool_call_id_def)

text \<open>
  What the model is shown of its own tool calls. Of an assistant message that the engine
  recorded, MiniMax is sent every tool call; DeepSeek and Anthropic are sent the text alone, although
  both are then sent the result of the call under its id.
\<close>

theorem tool_calls_shown:
  "get_array (minimax_message render (assistant_message c tcs)) ''tool_calls'' =
     (if tcs = [] then None else Some (map (minimax_tool_call render) tcs)) \<and>
   deepseek_convert_message (assistant_message c tcs) =
     JObj [(''role'', JStr ''assistant''), (''content'', JStr c)] \<and>
   api_entry (assistant_message c tcs) = role_message ''assistant'' (text_content_block c) \<and>
   json_get (deepseek_convert_message (tool_message tc r)) ''tool_call_id'' = Some (JStr (tc_id tc)) \<and>
   (\<exists>txt. api_entry (tool_message tc r) = role_message ''user''
     (JArr [JObj [(''type'', JStr ''tool_result''), (''tool_use_id'', JStr (tc_id tc)), (''content'', JStr txt)]]))"
  by (auto simp: minimax_message_def deepseek_convert_message_def api_entry_def assistant_entry_def
      tool_entry_of_message_def extra_tool_calls_def some_field_def get_array_def str_or_empty_def)

text \<open>
  A tool call of MiniMax survives the round trip. The engine takes it from the response and
  sends it back in the next request; reading it there gives the same id, name and arguments.
\<close>

theorem minimax_tool_call_roundtrip:
  assumes "parse (render (mt_arguments t)) = Some (mt_arguments t)"
  shows "minimax_tool_call_of_value parse (minimax_tool_call render (engine_call t)) = Some t"
  using assms by (simp add: minimax_tool_call_of_value_def minimax_tool_call_def engine_call_def)

theorem minimax_tool_call_roundtrip_witness:
  "minimax_tool_call_of_value (\<lambda>s. if s = ''{}'' then Some (JObj []) else None)
     (minimax_tool_call (\<lambda>_. ''{}'') (engine_call \<lparr>mt_id = ''c1'', mt_name = ''read'', mt_arguments = JObj []\<rparr>)) =
   Some \<lparr>mt_id = ''c1'', mt_name = ''read'', mt_arguments = JObj []\<rparr>"
  by (rule minimax_tool_call_roundtrip) simp

text \<open>The conversation as Anthropic takes it: the first system message apart, the others in order.\<close>

fun drop_first :: "('a \<Rightarrow> bool) \<Rightarrow> 'a list \<Rightarrow> 'a list" where
  "drop_first P [] = []"
| "drop_first P (x # xs) = (if P x then xs else x # drop_first P xs)"

lemma convert_messages_after_system:
  "convert_messages_from (Some s) api ms = (Some s, api @ map api_entry ms)"
  by (induction ms arbitrary: api) auto

lemma convert_messages_before_system:
  "convert_messages_from None api ms =
     (map_option mm_content (find is_system ms), api @ map api_entry (drop_first is_system ms))"
  by (induction ms arbitrary: api) (auto simp: is_system_def convert_messages_after_system)

text \<open>
  The conversation of an Anthropic request is the conversation of the engine: the first system
  message is the system prompt, every other message becomes one entry, in the same order, and its
  role is that of the assistant for messages of the assistant and that of the user for all others.
\<close>

theorem anthropic_conversation:
  "convert_messages ms =
     (map_option mm_content (find is_system ms), map api_entry (drop_first is_system ms)) \<and>
   get_str (api_entry m) ''role'' = Some (if mm_role m = ''assistant'' then ''assistant'' else ''user'')"
  by (auto simp: convert_messages_def convert_messages_before_system api_entry_def system_entry_def
      assistant_entry_def tool_entry_of_message_def role_message_def split: option.split)

subsection \<open>The Anthropic event stream\<close>

text \<open>The events of a stream: the name and the data of each block of lines.\<close>

fun events_of :: "string \<Rightarrow> string \<Rightarrow> string list \<Rightarrow> (string \<times> string) list" where
  "events_of event data [] = (if data = [] then [] else [(event, data)])"
| "events_of event data (l # ls) =
     (let line = trim l in
      if line = [] then (if data = [] then [] else [(event, data)]) @ events_of [] [] ls
      else (case strip_prefix ''event: '' line of
              Some e \<Rightarrow> events_of e data ls
            | None \<Rightarrow> (case strip_prefix ''data: '' line of
                         Some d \<Rightarrow> events_of event d ls
                       | None \<Rightarrow> events_of event data ls)))"

lemma anthropic_events_fold:
  "anthropic_events parse ls event data s =
     fold (\<lambda>(e, d). process_anthropic_event parse e d) (events_of event data ls) s"
  by (induction parse ls event data s rule: anthropic_events.induct)
    (auto simp: Let_def split: option.split)

definition parsed_events :: "(string \<Rightarrow> json option) \<Rightarrow> string \<Rightarrow> (string \<times> json) list" where
  "parsed_events parse raw =
     List.map_filter (\<lambda>(e, d). map_option (Pair e) (parse d)) (events_of [] [] (lines raw))"

definition on_event :: "string \<times> json \<Rightarrow> sse \<Rightarrow> sse" where
  "on_event ev s =
     (case ev of (event, j) \<Rightarrow>
        if event = ''message_start'' then on_message_start j s
        else if event = ''content_block_delta'' then on_block_delta j s
        else if event = ''content_block_start'' then on_block_start j s
        else if event = ''message_delta'' then on_message_delta j s
        else s)"

lemma parse_anthropic_fold:
  "anthropic_events parse (lines raw) [] [] s = fold on_event (parsed_events parse raw) s"
proof -
  have "process_anthropic_event parse e d s = (case parse d of None \<Rightarrow> s | Some j \<Rightarrow> on_event (e, j) s)" for e d s
    by (simp add: process_anthropic_event_def on_event_def split: option.split)
  then have "fold (\<lambda>(e, d). process_anthropic_event parse e d) evs s =
      fold on_event (List.map_filter (\<lambda>(e, d). map_option (Pair e) (parse d)) evs) s" for evs
    by (induction evs arbitrary: s)
      (simp_all add: List.map_filter_simps split: option.split prod.split)
  then show ?thesis by (simp add: anthropic_events_fold parsed_events_def)
qed

text \<open>The tool call an event announces, and the usage it reports.\<close>

definition tool_of_event :: "string \<times> json \<Rightarrow> model_tool_call option" where
  "tool_of_event ev =
     (case ev of (event, j) \<Rightarrow>
        if event \<noteq> ''content_block_start'' then None
        else Option.bind (json_get j ''content_block'') (\<lambda>b.
          if get_str b ''type'' \<noteq> Some ''tool_use'' then None
          else Option.bind (get_str b ''id'') (\<lambda>i.
            map_option (\<lambda>n. \<lparr>mt_id = i, mt_name = n, mt_arguments = index_or_null b ''input''\<rparr>) (get_str b ''name''))))"

definition text_of_event :: "string \<times> json \<Rightarrow> string option" where
  "text_of_event ev =
     (case ev of (event, j) \<Rightarrow>
        if event \<noteq> ''content_block_delta'' then None
        else Option.bind (json_get j ''delta'') (\<lambda>d. get_str d ''text''))"

definition usage_of_event :: "string \<times> json \<Rightarrow> usage option" where
  "usage_of_event ev =
     (case ev of (event, j) \<Rightarrow>
        map_option anthropic_usage_of_event
          (if event = ''message_start'' then Option.bind (json_get j ''message'') (\<lambda>m. json_get m ''usage'')
           else if event = ''message_delta'' then json_get j ''usage''
           else None))"

lemmas event_handlers = on_message_start_def on_block_delta_def on_block_start_def on_message_delta_def
  emit_def Let_def

lemma handler_tools:
  "se_tool_calls (on_message_start j s) = se_tool_calls s" "se_tool_calls (on_block_delta j s) = se_tool_calls s"
  "se_tool_calls (on_message_delta j s) = se_tool_calls s"
  by (simp_all add: event_handlers split: option.split)

lemma handler_content:
  "se_content (on_message_start j s) = se_content s" "se_content (on_block_start j s) = se_content s"
  "se_content (on_message_delta j s) = se_content s"
  by (simp_all add: event_handlers split: option.split)

lemma handler_usage:
  "se_usage (on_block_delta j s) = se_usage s" "se_usage (on_block_start j s) = se_usage s"
  by (simp_all add: event_handlers split: option.split)

lemma on_event_tools:
  "se_tool_calls (on_event ev s) = se_tool_calls s @ (case tool_of_event ev of None \<Rightarrow> [] | Some t \<Rightarrow> [t])"
proof -
  have "se_tool_calls (on_block_start j s) =
      se_tool_calls s @ (case tool_of_event (''content_block_start'', j) of None \<Rightarrow> [] | Some t \<Rightarrow> [t])" for j
    by (simp add: on_block_start_def emit_def Let_def tool_of_event_def split: option.split)
  then show ?thesis by (cases ev) (simp add: on_event_def handler_tools tool_of_event_def)
qed

lemma on_event_content:
  "se_content (on_event ev s) = se_content s @ (case text_of_event ev of None \<Rightarrow> [] | Some t \<Rightarrow> t)"
proof -
  have "se_content (on_block_delta j s) =
      se_content s @ (case text_of_event (''content_block_delta'', j) of None \<Rightarrow> [] | Some t \<Rightarrow> t)" for j
    by (simp add: on_block_delta_def emit_def text_of_event_def split: option.split)
  then show ?thesis by (cases ev) (simp add: on_event_def handler_content text_of_event_def)
qed

lemma on_event_usage:
  "se_usage (on_event ev s) = (case usage_of_event ev of None \<Rightarrow> se_usage s | Some u \<Rightarrow> Some u)"
proof -
  have "se_usage (on_message_start j s) =
      (case usage_of_event (''message_start'', j) of None \<Rightarrow> se_usage s | Some u \<Rightarrow> Some u)" for j
    by (simp add: on_message_start_def Let_def usage_of_event_def split: option.split)
  moreover have "se_usage (on_message_delta j s) =
      (case usage_of_event (''message_delta'', j) of None \<Rightarrow> se_usage s | Some u \<Rightarrow> Some u)" for j
    by (simp add: on_message_delta_def Let_def usage_of_event_def split: option.split)
  ultimately show ?thesis by (cases ev) (simp add: on_event_def handler_usage usage_of_event_def)
qed

lemma fold_tools: "se_tool_calls (fold on_event evs s) = se_tool_calls s @ List.map_filter tool_of_event evs"
  by (induction evs arbitrary: s) (auto simp: on_event_tools List.map_filter_simps split: option.split)

lemma fold_content: "se_content (fold on_event evs s) = se_content s @ concat (List.map_filter text_of_event evs)"
  by (induction evs arbitrary: s) (auto simp: on_event_content List.map_filter_simps split: option.split)

definition last_of :: "'a list \<Rightarrow> 'a option" where
  "last_of xs = (if xs = [] then None else Some (last xs))"

lemma last_of_Cons: "last_of (x # xs) = (case last_of xs of None \<Rightarrow> Some x | Some y \<Rightarrow> Some y)"
  by (simp add: last_of_def)

lemma fold_usage:
  "se_usage (fold on_event evs s) =
     (case last_of (List.map_filter usage_of_event evs) of None \<Rightarrow> se_usage s | Some u \<Rightarrow> Some u)"
proof (induction evs arbitrary: s)
  case (Cons ev evs)
  then show ?case
    by (cases "usage_of_event ev")
      (simp_all add: on_event_usage List.map_filter_simps last_of_Cons split: option.split)
qed (simp add: last_of_def List.map_filter_simps)

text \<open>
  C30: what an Anthropic stream amounts to, whatever its events are. The content is the text of the
  block deltas, joined. The tool calls are those announced by the block starts, each with the
  input announced there: the deltas that carry the arguments (\<^verbatim>\<open>input_json_delta\<close>) have no text and
  count for nothing. The usage is that of the last event that has one.
\<close>

theorem anthropic_stream_result:
  "let r = snd (parse_anthropic_sse parse raw); evs = parsed_events parse raw in
     mm_content (mr_message r) = concat (List.map_filter text_of_event evs) \<and>
     mm_extra (mr_message r) = JNull \<and>
     mr_tool_calls r =
       (let tcs = List.map_filter tool_of_event evs in if tcs = [] then None else Some tcs) \<and>
     mr_usage r = last_of (List.map_filter usage_of_event evs)"
  by (simp add: parse_anthropic_sse_def anthropic_payload_def parse_anthropic_fold fold_tools fold_content
      fold_usage sse_start_def ModelMessage_new_def Let_def split: option.split)

text \<open>
  The counts of the input do not survive: the last event of a stream reports the output alone, and
  the usage of the response is then that the input had no tokens.
\<close>

lemma input_tokens_lost:
  assumes "last_of (List.map_filter usage_of_event (parsed_events parse raw)) =
      usage_of_event (''message_delta'', JObj [(''usage'', JObj [(''output_tokens'', JInt n)])])"
  shows "\<exists>k. mr_usage (snd (parse_anthropic_sse parse raw)) =
    Some \<lparr>us_input_tokens = 0, us_output_tokens = k, us_total_tokens = k\<rparr>"
  using anthropic_stream_result [of parse raw] assms
  by (auto simp: usage_of_event_def anthropic_usage_of_event_def count_field_def Let_def as_u32_mod)

end
