(* ===== verification/Middlewares.thy ===== *)
theory Middlewares
  imports Engine Backend
begin

text \<open>
  The middlewares that come with the engine (\<^verbatim>\<open>crates/arf-engine/src/middleware\<close>): the memory file in the
  system prompt (\<^verbatim>\<open>memory.rs\<close>), the file tools (\<^verbatim>\<open>filesystem.rs\<close>) and the advice to compact
  (\<^verbatim>\<open>summarization.rs\<close>). A backend is the table of its operations and the state it is in when the model
  is called; the middlewares only read it. Logging is left out.
\<close>

subsection \<open>Memory\<close>

record memory_middleware =
  mem_path :: backend_path
  mem_header :: string
  mem_warn_if_missing :: bool

definition MEMORY_HEADER :: string where
  "MEMORY_HEADER = [newline, newline] @ ''# AGENTS.md (Persistent Memory)'' @ [newline, newline]"

definition MemoryMiddleware_new :: memory_middleware where
  "MemoryMiddleware_new =
     \<lparr>mem_path = BackendPath ''/AGENTS.md'', mem_header = MEMORY_HEADER, mem_warn_if_missing = False\<rparr>"

definition load_memory ::
  "'b backend_protocol \<Rightarrow> 'b \<Rightarrow> memory_middleware \<Rightarrow> backend_error + string option" where
  "load_memory P b m =
     (case bp_read P (mem_path m) 0 0 b of
        Inl e \<Rightarrow> Inl e
      | Inr r \<Rightarrow> (case rr_error r of
                    Some _ \<Rightarrow> Inr None
                  | None \<Rightarrow> Inr (map_option fd_content (rr_file_data r))))"

definition memory_before_model_call ::
  "'b backend_protocol \<Rightarrow> 'b \<Rightarrow> memory_middleware \<Rightarrow> model_request \<Rightarrow> state \<Rightarrow> model_request" where
  "memory_before_model_call P b m r s =
     (case load_memory P b m of
        Inr (Some content) \<Rightarrow> extend_system_suffix (mem_header m @ content) r
      | _ \<Rightarrow> r)"

definition memory_mw :: "'b backend_protocol \<Rightarrow> 'b \<Rightarrow> memory_middleware \<Rightarrow> middleware" where
  "memory_mw P b m = \<lparr>mw_name = ''memory'', mw_before_model_call = memory_before_model_call P b m\<rparr>"

subsection \<open>File tools\<close>

record filesystem_middleware =
  fsm_allowed :: "string list option"
  fsm_denied :: "string list"

definition FilesystemMiddleware_new :: filesystem_middleware where
  "FilesystemMiddleware_new = \<lparr>fsm_allowed = None, fsm_denied = []\<rparr>"

definition with_allowed :: "string list \<Rightarrow> filesystem_middleware \<Rightarrow> filesystem_middleware" where
  "with_allowed names m = m\<lparr>fsm_allowed := Some names\<rparr>"

definition deny_tool_name :: "string \<Rightarrow> filesystem_middleware \<Rightarrow> filesystem_middleware" where
  "deny_tool_name name m = m\<lparr>fsm_denied := fsm_denied m @ [name]\<rparr>"

text \<open>A property of a JSON schema: its type and, where there is one, its description.\<close>

definition prop_plain :: "string \<Rightarrow> string \<Rightarrow> string \<times> json" where
  "prop_plain k ty = (k, JObj [(''type'', JStr ty)])"

definition prop_desc :: "string \<Rightarrow> string \<Rightarrow> string \<Rightarrow> string \<times> json" where
  "prop_desc k ty desc = (k, JObj [(''type'', JStr ty), (''description'', JStr desc)])"

definition object_schema :: "(string \<times> json) list \<Rightarrow> string list \<Rightarrow> json" where
  "object_schema props required =
     JObj [(''type'', JStr ''object''), (''properties'', JObj props), (''required'', strs_to_value required)]"

definition fs_tools :: "(string \<times> string \<times> json) list" where
  "fs_tools =
     [(''ls'', ''List files and directories at a backend path.'',
       object_schema [prop_desc ''path'' ''string''
         (''Backend path to list, e.g. '' @ quoted ''/workspace'')] [''path'']),
      (''read_file'', ''Read file contents with optional line range.'',
       object_schema [prop_desc ''file_path'' ''string'' ''Absolute backend path of the file'',
                      prop_desc ''offset'' ''integer'' ''0-indexed line offset (default 0)'',
                      prop_desc ''limit'' ''integer'' ''Maximum lines to read (default 2000, 0 = all)'']
         [''file_path'']),
      (''write_file'', ''Write content to a file, creating or overwriting it.'',
       object_schema [prop_desc ''file_path'' ''string'' ''Absolute backend path'',
                      prop_desc ''content'' ''string'' ''Content to write''] [''file_path'', ''content'']),
      (''edit_file'', ''Exact-string replacement in an existing file.'',
       object_schema [prop_plain ''file_path'' ''string'', prop_plain ''old_string'' ''string'', prop_plain ''new_string'' ''string'',
                      prop_desc ''replace_all'' ''boolean'' ''Replace all occurrences (default false)'']
         [''file_path'', ''old_string'', ''new_string'']),
      (''glob_files'', ''Find files matching a glob pattern.'',
       object_schema [prop_desc ''pattern'' ''string'' (''Glob pattern, e.g. '' @ quoted ''**/*.rs''),
                      prop_desc ''base'' ''string'' ''Optional base directory''] [''pattern'']),
      (''grep_files'', ''Search for a literal text pattern in files.'',
       object_schema [prop_plain ''pattern'' ''string'', prop_plain ''path'' ''string'', prop_plain ''glob_filter'' ''string'']
         [''pattern''])]"

definition keeps_tool :: "filesystem_middleware \<Rightarrow> string \<Rightarrow> bool" where
  "keeps_tool m name \<longleftrightarrow>
     (case fsm_allowed m of Some allow \<Rightarrow> name \<in> set allow | None \<Rightarrow> True) \<and> name \<notin> set (fsm_denied m)"

definition standard_tools :: "filesystem_middleware \<Rightarrow> tool_spec list" where
  "standard_tools m =
     map (\<lambda>(name, desc, params). ToolSpec_new name desc params)
       (filter (\<lambda>(name, desc, params). keeps_tool m name) fs_tools)"

definition capabilities_text :: string where
  "capabilities_text =
     concat (map (\<lambda>l. l @ [newline])
       [[], [], ''# Filesystem Backend'', [], ''You have access to a backend with these operations:'',
        ''- `ls(path)`: list directory entries'',
        ''- `read_file(path, offset?, limit?)`: read file content with line range'',
        ''- `write_file(path, content)`: create or overwrite file'',
        ''- `edit_file(path, old, new, replace_all?)`: exact-string replace'',
        ''- `glob_files(pattern, base?)`: find files by glob pattern'',
        ''- `grep_files(pattern, path?, glob_filter?)`: search file contents'', [],
        ''All paths are absolute backend paths starting with `/`.''])
     @ ''Use these tools to interact with the user'' @ [CHR 0x27] @ ''s workspace.''"

definition filesystem_before_model_call ::
  "filesystem_middleware \<Rightarrow> model_request \<Rightarrow> state \<Rightarrow> model_request" where
  "filesystem_before_model_call m r s = extend_system_suffix capabilities_text (fold add_tool (standard_tools m) r)"

definition filesystem_mw :: "filesystem_middleware \<Rightarrow> middleware" where
  "filesystem_mw m = \<lparr>mw_name = ''filesystem'', mw_before_model_call = filesystem_before_model_call m\<rparr>"

text \<open>The helpers for whoever runs the tools. \<open>show_nat\<close> prints a number.\<close>

fun backend_error_display :: "(nat \<Rightarrow> string) \<Rightarrow> backend_error \<Rightarrow> string" where
  "backend_error_display show_nat (FileNotFound p) = ''file not found: '' @ p"
| "backend_error_display show_nat (IsDirectory p) = ''path is a directory: '' @ p"
| "backend_error_display show_nat (InvalidPath p) = ''invalid path: '' @ p"
| "backend_error_display show_nat (NotADirectory p) = ''not a directory: '' @ p"
| "backend_error_display show_nat (PermissionDenied p r) =
     ''permission denied: '' @ p @ '' '' @ utf8 [0xE2, 0x80, 0x94] @ '' '' @ r"
| "backend_error_display show_nat (EditMatch r) = ''edit match error: '' @ r"
| "backend_error_display show_nat (BackendIo e) = ''io error: '' @ e"
| "backend_error_display show_nat (BackendTimeout t) = ''operation timed out after '' @ show_nat t @ ''ms''"
| "backend_error_display show_nat (Unsupported e) = ''unsupported operation: '' @ e"
| "backend_error_display show_nat (BackendOther e) = ''backend error: '' @ e"

definition parse_backend_path :: "(nat \<Rightarrow> string) \<Rightarrow> string \<Rightarrow> string + backend_path" where
  "parse_backend_path show_nat raw =
     (case BackendPath_new raw of Inl e \<Rightarrow> Inl (backend_error_display show_nat e) | Inr p \<Rightarrow> Inr p)"

definition backend_error_to_json :: "(nat \<Rightarrow> string) \<Rightarrow> backend_error \<Rightarrow> json" where
  "backend_error_to_json show_nat e =
     JObj [(''error'', JStr (backend_error_display show_nat e)),
           (''code'', case backend_error_code e of None \<Rightarrow> JNull | Some c \<Rightarrow> JStr c)]"

subsection \<open>Summarization\<close>

record summarization_middleware =
  sm_trigger_ratio :: rat
  sm_keep_tail :: nat

text \<open>\<open>rnd\<close> rounds to \<^verbatim>\<open>f64\<close>; the default ratio is the number nearest to 0.8.\<close>

definition SummarizationMiddleware_new :: "(rat \<Rightarrow> rat) \<Rightarrow> summarization_middleware" where
  "SummarizationMiddleware_new rnd = \<lparr>sm_trigger_ratio = rnd (8 / 10), sm_keep_tail = 6\<rparr>"

definition with_trigger_ratio :: "rat \<Rightarrow> summarization_middleware \<Rightarrow> summarization_middleware" where
  "with_trigger_ratio ratio m = m\<lparr>sm_trigger_ratio := (if ratio < 0 then 0 else if ratio > 1 then 1 else ratio)\<rparr>"

definition with_keep_tail :: "nat \<Rightarrow> summarization_middleware \<Rightarrow> summarization_middleware" where
  "with_keep_tail n m = m\<lparr>sm_keep_tail := n\<rparr>"

definition should_compact :: "(rat \<Rightarrow> rat) \<Rightarrow> summarization_middleware \<Rightarrow> state \<Rightarrow> bool" where
  "should_compact rnd m s =
     (let window = ov_model_context_window (st_over_view s)
      in if window = 0 then False
         else rnd (rnd (of_nat (ov_context_tokens (st_over_view s))) / rnd (of_nat window)) \<ge> sm_trigger_ratio m)"

text \<open>Over the threshold the middleware writes to the log; the request stays as it is either way.\<close>

definition summarization_before_model_call ::
  "summarization_middleware \<Rightarrow> model_request \<Rightarrow> state \<Rightarrow> model_request" where
  "summarization_before_model_call m r s = r"

definition summarization_mw :: "summarization_middleware \<Rightarrow> middleware" where
  "summarization_mw m = \<lparr>mw_name = ''summarization'', mw_before_model_call = summarization_before_model_call m\<rparr>"

end
