(* ===== verification/Middleware_Props.thy ===== *)
theory Middleware_Props
  imports Middlewares Builder_Props Mcp_Node_Props
begin

text \<open>
  What the middlewares do to a model call, together with the engine that runs them, the backend
  they read and the tool nodes that would have to answer.
\<close>

subsection \<open>The tools that are offered\<close>

lemma add_tool_fold:
  "distinct (map ts_name ts) \<Longrightarrow>
     rq_tools (fold add_tool ts r) =
       rq_tools r @ filter (\<lambda>t. ts_name t \<notin> ts_name ` set (rq_tools r)) ts"
proof (induction ts arbitrary: r)
  case (Cons t ts)
  then have d: "distinct (map ts_name ts)" "ts_name t \<notin> ts_name ` set ts" by auto
  show ?case
  proof (cases "ts_name t \<in> ts_name ` set (rq_tools r)")
    case True
    then have "add_tool t r = r" by (auto simp: add_tool_def list_ex_iff)
    with True Cons.IH [OF d(1)] show ?thesis by simp
  next
    case False
    then have "\<not> list_ex (\<lambda>t'. ts_name t' = ts_name t) (rq_tools r)"
      unfolding list_ex_iff image_iff by (metis (mono_tags))
    then have a: "rq_tools (add_tool t r) = rq_tools r @ [t]" by (simp add: add_tool_def)
    have "filter (\<lambda>x. ts_name x \<notin> ts_name ` set (rq_tools r @ [t])) ts =
        filter (\<lambda>x. ts_name x \<notin> ts_name ` set (rq_tools r)) ts"
      using d(2) by (intro filter_cong) (auto, metis image_eqI)
    with False a Cons.IH [OF d(1), of "add_tool t r"] show ?thesis by simp
  qed
qed simp

lemma add_tool_frame:
  "rq_messages (fold add_tool ts r) = rq_messages r" "rq_abort (fold add_tool ts r) = rq_abort r"
  "rq_system_prompt_suffix (fold add_tool ts r) = rq_system_prompt_suffix r"
  by (induction ts arbitrary: r) (simp_all add: add_tool_def)

lemma fs_tool_names:
  "map fst fs_tools = [''ls'', ''read_file'', ''write_file'', ''edit_file'', ''glob_files'', ''grep_files'']"
  by (simp add: fs_tools_def)

lemma standard_tool_names: "map ts_name (standard_tools m) = filter (keeps_tool m) (map fst fs_tools)"
proof -
  have "map ts_name (map (\<lambda>(name, desc, params). ToolSpec_new name desc params)
      (filter (\<lambda>(name, desc, params). keeps_tool m name) xs)) = filter (keeps_tool m) (map fst xs)" for xs
    by (induction xs) (auto simp: ToolSpec_new_def)
  then show ?thesis by (simp only: standard_tools_def)
qed

lemma standard_tools_distinct: "distinct (map ts_name (standard_tools m))"
  unfolding standard_tool_names fs_tool_names by (rule distinct_filter) simp

text \<open>
  What the file middleware adds to a request. The tools the request had stay first and as they
  were; behind them come, once each and in the fixed order, the file tools that are allowed, not
  denied and not already there; messages are not touched.
\<close>

theorem filesystem_tools_offered:
  "rq_tools (filesystem_before_model_call m r s) =
     rq_tools r @ filter (\<lambda>t. ts_name t \<notin> ts_name ` set (rq_tools r)) (standard_tools m) \<and>
   map ts_name (standard_tools m) =
     filter (keeps_tool m) [''ls'', ''read_file'', ''write_file'', ''edit_file'', ''glob_files'', ''grep_files''] \<and>
   rq_messages (filesystem_before_model_call m r s) = rq_messages r"
  using standard_tool_names [of m] fs_tool_names
  by (simp add: filesystem_before_model_call_def extend_system_suffix_def add_tool_fold
      standard_tools_distinct add_tool_frame)

subsection \<open>Memory in the prompt\<close>

lemma run_memory:
  "rq_abort r = None \<Longrightarrow> run_middlewares [memory_mw P b m] r s = (False, memory_before_model_call P b m r s)"
  by (simp add: memory_mw_def memory_before_model_call_def extend_system_suffix_def
      split: sum.splits option.splits)

lemma append_system_split:
  "\<exists>pre post. rq_messages r = pre @ post \<and> (pre = [] \<or> is_system (last pre)) \<and> \<not> list_ex is_system post \<and>
     rq_messages (append_system c r) = pre @ ModelMessage_new ''system'' c # post"
proof -
  define k where "k = (case rposition is_system (rq_messages r) of Some i \<Rightarrow> i + 1 | None \<Rightarrow> 0)"
  let ?pre = "take k (rq_messages r)" and ?post = "drop k (rq_messages r)"
  have "(?pre = [] \<or> is_system (last ?pre)) \<and> \<not> list_ex is_system ?post"
  proof (cases "rposition is_system (rq_messages r)")
    case None
    then show ?thesis using rposition_None [of is_system "rq_messages r"] by (simp add: k_def list_ex_iff)
  next
    case (Some i)
    from rposition_Some [OF this] have "i < length (rq_messages r)" "is_system (rq_messages r ! i)"
      "\<forall>x \<in> set (drop (Suc i) (rq_messages r)). \<not> is_system x" by auto
    moreover from this have "last (take (Suc i) (rq_messages r)) = rq_messages r ! i"
      by (simp add: take_Suc_conv_app_nth)
    ultimately show ?thesis using Some by (auto simp: k_def list_ex_iff)
  qed
  moreover have "rq_messages (append_system c r) = ?pre @ ModelMessage_new ''system'' c # ?post"
    by (simp add: append_system_def k_def Let_def)
  ultimately show ?thesis by (metis append_take_drop_id)
qed

text \<open>
  The memory file reaches the model. Whenever the backend holds it, the model call has one more
  system message, the header followed by the content, right behind the last system message;
  everything else of the conversation and the tools are as without the middleware. When the backend
  does not hold it, or fails, the call is the same as without the middleware.
\<close>

theorem memory_reaches_model:
  assumes "rq_abort r = None" and "rq_system_prompt_suffix r = []" and "mem_header m \<noteq> []"
  shows "case load_memory P b m of
     Inr (Some content) \<Rightarrow>
       (\<exists>pre post. rq_messages r = pre @ post \<and> (pre = [] \<or> is_system (last pre)) \<and> \<not> list_ex is_system post \<and>
          mc_messages (model_call_of d cid (snd (run_middlewares [memory_mw P b m] r s))) =
            pre @ ModelMessage_new ''system'' (mem_header m @ content) # post \<and>
          mc_tools (model_call_of d cid (snd (run_middlewares [memory_mw P b m] r s))) = rq_tools r)
   | _ \<Rightarrow> snd (run_middlewares [memory_mw P b m] r s) = r"
proof (cases "\<exists>content. load_memory P b m = Inr (Some content)")
  case True
  then obtain content where l: "load_memory P b m = Inr (Some content)" by blast
  let ?c = "mem_header m @ content"
  let ?r = "r\<lparr>rq_system_prompt_suffix := ?c\<rparr>"
  have run: "snd (run_middlewares [memory_mw P b m] r s) = ?r"
    using assms(2) unfolding run_memory [OF assms(1)] by (simp add: memory_before_model_call_def l extend_system_suffix_def)
  have "mc_messages (model_call_of d cid ?r) = rq_messages (append_system ?c ?r)"
    "mc_tools (model_call_of d cid ?r) = rq_tools r"
    using assms(3) by (simp_all add: model_call_of_def Let_def ModelCall_with_model_params_def
        ModelCall_with_tools_def ModelCall_new_def append_system_def)
  with append_system_split [of ?r ?c] run l show ?thesis by simp
next
  case False
  then show ?thesis
    unfolding run_memory [OF assms(1)]
    by (auto simp: memory_before_model_call_def split: sum.splits option.splits)
qed

definition demo_files :: state_backend where
  "demo_files = snd (state_write 0 (BackendPath ''/AGENTS.md'') ''use tabs'' StateBackend_new)"

definition demo_request :: model_request where
  "demo_request = ModelRequest_new [ModelMessage_new ''system'' ''s'', ModelMessage_new ''user'' ''hi''] []"

lemma demo_load_memory:
  "load_memory (state_protocol (\<lambda>_. []) (\<lambda>_. True) 0) demo_files MemoryMiddleware_new = Inr (Some ''use tabs'')"
  by (simp add: load_memory_def state_protocol_def demo_files_def state_write_def StateBackend_new_def
      MemoryMiddleware_new_def state_read_def lines_def chop_line_ending_def)

theorem memory_reaches_model_witness:
  "\<exists>pre post. rq_messages demo_request = pre @ post \<and> (pre = [] \<or> is_system (last pre)) \<and> \<not> list_ex is_system post \<and>
     mc_messages (model_call_of (ac_model AgentConfig_default) 1
       (snd (run_middlewares [memory_mw (state_protocol (\<lambda>_. []) (\<lambda>_. True) 0) demo_files MemoryMiddleware_new]
          demo_request State_new))) =
       pre @ ModelMessage_new ''system'' (MEMORY_HEADER @ ''use tabs'') # post"
proof -
  have "rq_abort demo_request = None" "rq_system_prompt_suffix demo_request = []"
    "mem_header MemoryMiddleware_new \<noteq> []"
    by (simp_all add: demo_request_def ModelRequest_new_def MemoryMiddleware_new_def MEMORY_HEADER_def)
  from memory_reaches_model [OF this, of "state_protocol (\<lambda>_. []) (\<lambda>_. True) 0" demo_files
      State_new "ac_model AgentConfig_default" 1]
  show ?thesis unfolding demo_load_memory by (auto simp: MemoryMiddleware_new_def)
qed

subsection \<open>When to compact\<close>

text \<open>
  The summarization middleware and the checkpoint rule for the context size are the same test.
  For a positive ratio the middleware finds the context too large exactly when the rule with that
  ratio fires.
\<close>

theorem summarization_is_rule:
  assumes "0 < sm_trigger_ratio m"
  shows "fires (when_context_over rnd n t (sm_trigger_ratio m) b) s = Some (should_compact rnd m s)"
  using assms
  by (simp add: fires_def when_context_over_def CheckpointRule_new_def should_compact_def Let_def
      context_utilization_def)

theorem summarization_is_rule_witness:
  "fires (when_context_over id n t (8 / 10) b) State_new = Some (should_compact id (SummarizationMiddleware_new id) State_new)"
  using summarization_is_rule [of "SummarizationMiddleware_new id" id n t b State_new]
  by (simp add: SummarizationMiddleware_new_def)

subsection \<open>Calling a tool nobody owns\<close>

lemma never_delivered_keep:
  "never_delivered ty w \<Longrightarrow> fresh w = (i, w') \<Longrightarrow> never_delivered ty w'"
  by (auto simp: fresh_def never_delivered_def)

lemma never_delivered_wire:
  "never_delivered ty w \<Longrightarrow> wire_message D m to w = (wire, w') \<Longrightarrow> never_delivered ty w'"
  by (auto simp: wire_message_def fresh_def never_delivered_def Let_def)

lemma never_delivered_world_send:
  "never_delivered ty w \<Longrightarrow> never_delivered ty (snd (world_send m w))"
  using never_delivered_tick [of ty w]
  by (auto simp: world_send_def Let_def fresh_def never_delivered_def split: prod.splits)

lemma never_delivered_send_registered:
  "never_delivered ty w \<Longrightarrow> send_registered eid m w = (Ret u, w') \<Longrightarrow> never_delivered ty w'"
  using never_delivered_world_send [of ty w m]
  by (auto simp: send_registered_def split: prod.splits sum.splits)

lemma never_delivered_await:
  assumes "never_delivered (predicted_response (msg_type m)) w"
  shows "fst (send_and_await D cid m w) \<noteq> Ret r"
proof
  let ?ty = "predicted_response (msg_type m)"
  assume "fst (send_and_await D cid m w) = Ret r"
  then have run: "send_and_await D cid m w = (Ret r, snd (send_and_await D cid m w))" by (metis prod.collapse)
  obtain c w1 where c: "is_cancelled w = (c, w1)" by (metis surj_pair)
  have w1: "never_delivered ?ty w1" using assms c never_delivered_tick by (auto simp: is_cancelled_def Let_def)
  let ?n = "if msg_to m = [] then 1 else length (msg_to m)"
  obtain eid w2 where g: "register_wait cid WaitAll ?n w1 = (eid, w2)" by (metis surj_pair)
  have w2: "never_delivered ?ty w2" using w1 g
    by (auto simp: register_wait_def fresh_def Let_def upd_state_def never_delivered_def)
  from run c g obtain u w3 ms w4 where "send_registered eid m w2 = (Ret u, w3)"
    and wait: "wait_for_strategy D eid [?ty] [] w3 = (Ret ms, w4)"
    unfolding send_and_await_def by (auto simp: Let_def bind_out_Ret_iff split: if_splits)
  with w2 have "never_delivered ?ty w3" using never_delivered_send_registered by blast
  with never_delivered_wait [of ?ty w3 D eid "[]" ms] wait show False by simp
qed

text \<open>
  The file tools that the middleware offers cannot be called. Tool nodes that do not have the
  tool stay silent when they see the call, so no \<^verbatim>\<open>tool_result\<close> ever arrives, and then the call does not
  return a result: the engine waits until it is stopped, since nothing bounds the wait.
\<close>

theorem file_tool_unanswered:
  assumes "t \<in> set (standard_tools fm)" and "tc_name tc = ts_name t"
    and "\<forall>n \<in> nodes. di_tool_map (mn_discovery n) (tc_name tc) = None"
    and "never_delivered TOOL_RESULT w"
  shows "(\<forall>n \<in> nodes. \<forall>cid target. on_tool_exec n (tool_exec_to_value U
       \<lparr>te_correlation_id = cid, te_tool_name = tc_name tc, te_arguments = tc_arguments tc, te_target = target\<rparr>) = Ret None) \<and>
    fst (exec_tool D tc started turn k w) \<noteq> Ret x"
proof
  from assms(1) have "ts_name t \<in> set (map ts_name (standard_tools fm))" by simp
  then have "ts_name t \<in> set (map fst fs_tools)" unfolding standard_tool_names by simp
  then have ne: "tc_name tc \<noteq> []" unfolding fs_tool_names assms(2) by auto
  show "\<forall>n \<in> nodes. \<forall>cid target. on_tool_exec n (tool_exec_to_value U
       \<lparr>te_correlation_id = cid, te_tool_name = tc_name tc, te_arguments = tc_arguments tc, te_target = target\<rparr>) = Ret None"
    using assms(3) ne by (auto intro!: not_owner_silent)
  have no: "fst (send_and_await D cid wire w2) \<noteq> Ret r"
    if "fresh w = (cid, w1)" "wire_message D (AToolExec ex) to w1 = (wire, w2)" for cid w1 ex to wire w2 r
  proof (rule never_delivered_await)
    have "msg_type wire = ''tool_exec''"
      using that(2) by (auto simp: wire_message_def Let_def Message_with_from_bus_def Message_new_def
          split: prod.splits)
    then have "predicted_response (msg_type wire) = TOOL_RESULT"
      by (simp add: predicted_response_def response_msg_type_for_def msg_type_defs)
    then show "never_delivered (predicted_response (msg_type wire)) w2"
      using never_delivered_wire [OF never_delivered_keep [OF assms(4) that(1)] that(2)] by simp
  qed
  obtain cid w1 where f: "fresh w = (cid, w1)" by (metis surj_pair)
  let ?target = "case tc_target tc of Some t \<Rightarrow> Some t | None \<Rightarrow> owner_of_tool (eng_registry w) (tc_name tc)"
  let ?ex = "\<lparr>te_correlation_id = cid, te_tool_name = tc_name tc, te_arguments = tc_arguments tc, te_target = ?target\<rparr>"
  obtain wire w2 where g: "wire_message D (AToolExec ?ex) (case ?target of Some t \<Rightarrow> [t] | None \<Rightarrow> []) w1 = (wire, w2)"
    by (metis surj_pair)
  have "exec_tool D tc started turn k w = finish_tool D tc started turn k (send_and_await D cid wire w2)"
    by (simp add: exec_tool_def f g Let_def)
  with no [OF f g] show "fst (exec_tool D tc started turn k w) \<noteq> Ret x"
    by (cases "(D, tc, started, turn, k, send_and_await D cid wire w2)" rule: finish_tool.cases)
      (auto simp: Let_def split: if_splits)
qed

theorem file_tool_unanswered_witness:
  "on_tool_exec demo_mcp_node (tool_exec_to_value unary_uuid
     \<lparr>te_correlation_id = 0, te_tool_name = ''ls'', te_arguments = JObj [], te_target = None\<rparr>) = Ret None \<and>
   (\<forall>x. fst (exec_tool demo_deps \<lparr>tc_id = ''c1'', tc_name = ''ls'', tc_arguments = JObj [], tc_target = None\<rparr> 0 1 1
     (demo_world AgentConfig_default [] [])) \<noteq> Ret x)"
proof -
  let ?tc = "\<lparr>tc_id = ''c1'', tc_name = ''ls'', tc_arguments = JObj [], tc_target = None\<rparr>"
  have t: "ToolSpec_new ''ls'' ''List files and directories at a backend path.''
      (object_schema [prop_desc ''path'' ''string'' (''Backend path to list, e.g. '' @ quoted ''/workspace'')] [''path''])
      \<in> set (standard_tools FilesystemMiddleware_new)"
    by (simp add: standard_tools_def fs_tools_def keeps_tool_def FilesystemMiddleware_new_def)
  have "tc_name ?tc = ts_name (ToolSpec_new ''ls'' ''List files and directories at a backend path.''
      (object_schema [prop_desc ''path'' ''string'' (''Backend path to list, e.g. '' @ quoted ''/workspace'')] [''path'']))"
    by (simp add: ToolSpec_new_def)
  moreover have "\<forall>n \<in> {demo_mcp_node}. di_tool_map (mn_discovery n) (tc_name ?tc) = None"
    by (simp add: demo_mcp_node_def McpNode_new_def)
  moreover have "never_delivered TOOL_RESULT (demo_world AgentConfig_default [] [])"
    by (simp add: never_delivered_def demo_world_def)
  ultimately show ?thesis
    using file_tool_unanswered [OF t, of ?tc "{demo_mcp_node}" "demo_world AgentConfig_default [] []" unary_uuid]
    by auto
qed

end
