(* ===== verification/Subagent_Pool.thy ===== *)
theory Subagent_Pool
  imports Engine_Run
begin

text \<open>
  The pool of ephemeral engines of \<^verbatim>\<open>crates/arf-subagent-pool\<close>. A slot is an engine with its \<^verbatim>\<open>State\<close>; the
  operations of the engine that the pool calls are a record, which the engine's model fills.

  The pool is shared by tasks, so \<^verbatim>\<open>delegate\<close> is cut into the pieces between its awaits and a step
  relation interleaves them. \<open>mk\<close> is \<^verbatim>\<open>EngineBuilder::build\<close> with the agent id drawn for the slot,
  \<open>show_err\<close> is the \<^verbatim>\<open>Display\<close> of \<^verbatim>\<open>RunError\<close>.
\<close>

subsection \<open>The pool\<close>

datatype outbox_strategy = TimeoutAbort millis | HandoffOutbox string | SyncWait

definition OutboxStrategy_default :: outbox_strategy where
  "OutboxStrategy_default = TimeoutAbort 5000"

record pool_metrics =
  pm_total_delegations :: nat
  pm_active_count :: nat
  pm_idle_count :: nat
  pm_last_error :: "string option"

definition PoolMetrics_default :: pool_metrics where
  "PoolMetrics_default =
     \<lparr>pm_total_delegations = 0, pm_active_count = 0, pm_idle_count = 0, pm_last_error = None\<rparr>"

record 'e engine_ops =
  eo_run_once :: "string \<Rightarrow> 'e \<Rightarrow> (run_error, task_result) outcome \<times> 'e"
  eo_reset_state :: "'e \<Rightarrow> engine_error + 'e"

text \<open>
  Where a task inside \<^verbatim>\<open>delegate\<close> is: waiting for a permit, holding one, running a slot, done with
  it, past the recycling, or finished; a panic of the engine unwinds it.
\<close>

type_synonym delegate_result = "run_error + task_result"

datatype 'e delegate_stage =
    Asking
  | Permitted
  | Running 'e
  | Ran delegate_result 'e
  | Recycled delegate_result
  | Finished delegate_result
  | Unwound

record 'e subagent_pool =
  sp_config :: agent_config
  sp_size :: nat
  sp_idle :: "'e option list"
  sp_permits :: nat
  sp_strategy :: outbox_strategy
  sp_metrics :: pool_metrics
  sp_tasks :: "(string \<times> 'e delegate_stage) list"

definition new_with_strategy :: "agent_config \<Rightarrow> nat \<Rightarrow> outbox_strategy \<Rightarrow> 'e subagent_pool" where
  "new_with_strategy config sz strategy =
     \<lparr>sp_config = config, sp_size = sz, sp_idle = [], sp_permits = sz, sp_strategy = strategy,
      sp_metrics = PoolMetrics_default, sp_tasks = []\<rparr>"

definition SubagentPool_new :: "agent_config \<Rightarrow> nat \<Rightarrow> 'e subagent_pool" where
  "SubagentPool_new config sz = new_with_strategy config sz OutboxStrategy_default"

subsection \<open>Building a slot\<close>

definition rebuild_config_from_arc :: "agent_config \<Rightarrow> agent_config option" where
  "rebuild_config_from_arc c =
     (if ec_processors (ac_engine c) \<noteq> [] \<or> ec_on_member_failed (ac_engine c) \<noteq> None then None
      else Some (c\<lparr>ac_engine := (ac_engine c)\<lparr>ec_checkpoint_rules := [], ec_processors := [],
                                              ec_on_member_failed := None, ec_middlewares := []\<rparr>\<rparr>))"

text \<open>\<^verbatim>\<open>Arc::try_unwrap\<close> gives the value only to the last of its owners.\<close>

definition try_unwrap :: "nat \<Rightarrow> 'a \<Rightarrow> 'a option" where
  "try_unwrap owners x = (if owners = 1 then Some x else None)"

text \<open>The pool is one owner of the configuration, the clone that is unwrapped is another.\<close>

definition slot_config :: "nat \<Rightarrow> agent_config \<Rightarrow> agent_config option" where
  "slot_config others c =
     (case try_unwrap (others + 1 + 1) c of Some d \<Rightarrow> Some d | None \<Rightarrow> rebuild_config_from_arc c)"

definition slot_agent_id :: "uuid_ops \<Rightarrow> uuid \<Rightarrow> agent_config \<Rightarrow> node_id" where
  "slot_agent_id U u c =
     NodeId (''subagent-pool/'' @ md_provider (ac_model c) @ ''/'' @ uuid_show U u)"

definition build_slot ::
  "uuid_ops \<Rightarrow> (agent_config \<Rightarrow> node_id \<Rightarrow> string + 'e) \<Rightarrow> uuid \<Rightarrow> 'e subagent_pool \<Rightarrow> string + 'e" where
  "build_slot U mk u p =
     (case slot_config 0 (sp_config p) of
        None \<Rightarrow> Inl ''AgentConfig holds non-cloneable trait objects and is shared''
      | Some cfg \<Rightarrow> mk cfg (slot_agent_id U u cfg))"

definition record_error :: "string \<Rightarrow> 'e subagent_pool \<Rightarrow> 'e subagent_pool" where
  "record_error msg p = p\<lparr>sp_metrics := (sp_metrics p)\<lparr>pm_last_error := Some msg\<rparr>\<rparr>"

text \<open>The front of the queue, past the entries that hold no slot.\<close>

fun pop_idle :: "'e option list \<Rightarrow> 'e option \<times> 'e option list" where
  "pop_idle [] = (None, [])"
| "pop_idle (Some e # q) = (Some e, q)"
| "pop_idle (None # q) = pop_idle q"

definition take_slot ::
  "uuid_ops \<Rightarrow> (agent_config \<Rightarrow> node_id \<Rightarrow> string + 'e) \<Rightarrow> uuid \<Rightarrow> 'e subagent_pool \<Rightarrow> (run_error + 'e) \<times> 'e subagent_pool" where
  "take_slot U mk u p0 =
     (let (found, q) = pop_idle (sp_idle p0);
          p = p0\<lparr>sp_idle := q\<rparr>
      in case found of
           Some e \<Rightarrow> (Inr e, p)
         | None \<Rightarrow> (case build_slot U mk u p of
                      Inr e \<Rightarrow> (Inr e, p)
                    | Inl msg \<Rightarrow> (Inl (Internal msg), record_error (''build failed: '' @ msg) p)))"

definition recycle_slot :: "'e \<Rightarrow> 'e subagent_pool \<Rightarrow> 'e subagent_pool" where
  "recycle_slot e p = (if length (sp_idle p) < sp_size p then p\<lparr>sp_idle := sp_idle p @ [Some e]\<rparr> else p)"

text \<open>
  \<open>missing\<close> is how many slots the queue lacks; \<open>us\<close> are the identifiers drawn for them. The lock on
  the queue is held throughout.
\<close>

fun populate_loop ::
  "uuid_ops \<Rightarrow> (agent_config \<Rightarrow> node_id \<Rightarrow> string + 'e) \<Rightarrow> (nat \<Rightarrow> uuid) \<Rightarrow> nat \<Rightarrow> 'e subagent_pool
    \<Rightarrow> (run_error + unit) \<times> 'e subagent_pool" where
  "populate_loop U mk us 0 p = (Inr (), p)"
| "populate_loop U mk us (Suc missing) p =
     (case build_slot U mk (us missing) p of
        Inl msg \<Rightarrow> (Inl (Internal msg), record_error (''populate: build failed: '' @ msg) p)
      | Inr e \<Rightarrow> populate_loop U mk us missing (p\<lparr>sp_idle := sp_idle p @ [Some e]\<rparr>))"

definition populate ::
  "uuid_ops \<Rightarrow> (agent_config \<Rightarrow> node_id \<Rightarrow> string + 'e) \<Rightarrow> (nat \<Rightarrow> uuid) \<Rightarrow> 'e subagent_pool
    \<Rightarrow> (run_error + unit) \<times> 'e subagent_pool" where
  "populate U mk us p = populate_loop U mk us (sp_size p - length (sp_idle p)) p"

definition available :: "'e subagent_pool \<Rightarrow> nat" where
  "available p = length (sp_idle p)"

definition shutdown :: "'e subagent_pool \<Rightarrow> 'e subagent_pool" where
  "shutdown p = p\<lparr>sp_idle := []\<rparr>"

subsection \<open>Delegating a task\<close>

text \<open>How long the strategy makes the caller wait; it does nothing else.\<close>

definition apply_outbox_strategy :: "outbox_strategy \<Rightarrow> millis" where
  "apply_outbox_strategy s = (case s of TimeoutAbort t \<Rightarrow> t | HandoffOutbox path \<Rightarrow> 0 | SyncWait \<Rightarrow> 0)"

text \<open>What becomes of the slot: kept after a success, reset after an error, as far as that goes.\<close>

definition clean_slot :: "'e engine_ops \<Rightarrow> delegate_result \<Rightarrow> 'e \<Rightarrow> 'e" where
  "clean_slot EO r e =
     (case r of
        Inr _ \<Rightarrow> e
      | Inl err \<Rightarrow>
          (if (case err of Internal reason \<Rightarrow> sublist ''OutboxNotEmpty'' reason | _ \<Rightarrow> False) then e
           else (case eo_reset_state EO e of Inl _ \<Rightarrow> e | Inr e' \<Rightarrow> e')))"

abbreviation task_stage :: "'e subagent_pool \<Rightarrow> nat \<Rightarrow> 'e delegate_stage" where
  "task_stage p t \<equiv> snd (sp_tasks p ! t)"

abbreviation task_input :: "'e subagent_pool \<Rightarrow> nat \<Rightarrow> string" where
  "task_input p t \<equiv> fst (sp_tasks p ! t)"

definition advance :: "nat \<Rightarrow> 'e delegate_stage \<Rightarrow> 'e subagent_pool \<Rightarrow> 'e subagent_pool" where
  "advance t s p = p\<lparr>sp_tasks := (sp_tasks p)[t := (task_input p t, s)]\<rparr>"

definition call_delegate :: "string \<Rightarrow> 'e subagent_pool \<Rightarrow> 'e subagent_pool" where
  "call_delegate input p = p\<lparr>sp_tasks := sp_tasks p @ [(input, Asking)]\<rparr>"

definition get_permit :: "nat \<Rightarrow> 'e subagent_pool \<Rightarrow> 'e subagent_pool" where
  "get_permit t p = advance t Permitted (p\<lparr>sp_permits := sp_permits p - 1\<rparr>)"

definition drop_guard :: "'e subagent_pool \<Rightarrow> 'e subagent_pool" where
  "drop_guard p = p\<lparr>sp_permits := sp_permits p + 1\<rparr>"

definition lease ::
  "uuid_ops \<Rightarrow> (agent_config \<Rightarrow> node_id \<Rightarrow> string + 'e) \<Rightarrow> uuid \<Rightarrow> nat \<Rightarrow> 'e subagent_pool \<Rightarrow> 'e subagent_pool" where
  "lease U mk u t p =
     (case take_slot U mk u p of
        (Inr e, p') \<Rightarrow> advance t (Running e) p'
      | (Inl err, p') \<Rightarrow> advance t (Finished (Inl err)) (drop_guard p'))"

text \<open>A round that never ends leaves the task where it is.\<close>

definition run_slot :: "'e engine_ops \<Rightarrow> nat \<Rightarrow> 'e \<Rightarrow> 'e subagent_pool \<Rightarrow> 'e subagent_pool" where
  "run_slot EO t e p =
     (case eo_run_once EO (task_input p t) e of
        (Ret r, e') \<Rightarrow> advance t (Ran (Inr r) (clean_slot EO (Inr r) e')) p
      | (Fail err, e') \<Rightarrow> advance t (Ran (Inl err) (clean_slot EO (Inl err) e')) p
      | (Panic, e') \<Rightarrow> advance t Unwound (drop_guard p)
      | (Hang, e') \<Rightarrow> p)"

definition recycle :: "nat \<Rightarrow> delegate_result \<Rightarrow> 'e \<Rightarrow> 'e subagent_pool \<Rightarrow> 'e subagent_pool" where
  "recycle t r e p = advance t (Recycled r) (recycle_slot e p)"

definition update_metrics :: "(run_error \<Rightarrow> string) \<Rightarrow> delegate_result \<Rightarrow> 'e subagent_pool \<Rightarrow> 'e subagent_pool" where
  "update_metrics show_err r p =
     (let m = (sp_metrics p)\<lparr>pm_total_delegations := pm_total_delegations (sp_metrics p) + 1,
                             pm_idle_count := length (sp_idle p),
                             pm_active_count := sp_size p - sp_permits p\<rparr>
      in p\<lparr>sp_metrics := (case r of Inl e \<Rightarrow> m\<lparr>pm_last_error := Some (show_err e)\<rparr> | Inr _ \<Rightarrow> m)\<rparr>)"

definition finish :: "(run_error \<Rightarrow> string) \<Rightarrow> nat \<Rightarrow> delegate_result \<Rightarrow> 'e subagent_pool \<Rightarrow> 'e subagent_pool" where
  "finish show_err t r p = advance t (Finished r) (drop_guard (update_metrics show_err r p))"

inductive subagent_step ::
  "uuid_ops \<Rightarrow> 'e engine_ops \<Rightarrow> (agent_config \<Rightarrow> node_id \<Rightarrow> string + 'e) \<Rightarrow> (run_error \<Rightarrow> string)
    \<Rightarrow> 'e subagent_pool \<Rightarrow> 'e subagent_pool \<Rightarrow> bool"
  for U EO mk show_err where
  call: "subagent_step U EO mk show_err p (call_delegate input p)"
| permit: "t < length (sp_tasks p) \<Longrightarrow> task_stage p t = Asking \<Longrightarrow> sp_permits p > 0 \<Longrightarrow>
    subagent_step U EO mk show_err p (get_permit t p)"
| lease: "t < length (sp_tasks p) \<Longrightarrow> task_stage p t = Permitted \<Longrightarrow>
    subagent_step U EO mk show_err p (lease U mk u t p)"
| run: "t < length (sp_tasks p) \<Longrightarrow> task_stage p t = Running e \<Longrightarrow>
    subagent_step U EO mk show_err p (run_slot EO t e p)"
| recycle: "t < length (sp_tasks p) \<Longrightarrow> task_stage p t = Ran r e \<Longrightarrow>
    subagent_step U EO mk show_err p (recycle t r e p)"
| finish: "t < length (sp_tasks p) \<Longrightarrow> task_stage p t = Recycled r \<Longrightarrow>
    subagent_step U EO mk show_err p (finish show_err t r p)"
| populate: "subagent_step U EO mk show_err p (snd (populate U mk us p))"

text \<open>
  One \<^verbatim>\<open>delegate\<close> with nobody else around: the same pieces in a row. It has no result when there is
  no permit to be had, or when the engine panics or never returns.
\<close>

definition delegate ::
  "uuid_ops \<Rightarrow> 'e engine_ops \<Rightarrow> (agent_config \<Rightarrow> node_id \<Rightarrow> string + 'e) \<Rightarrow> (run_error \<Rightarrow> string) \<Rightarrow> uuid \<Rightarrow> string
    \<Rightarrow> 'e subagent_pool \<Rightarrow> (delegate_result \<times> 'e subagent_pool) option" where
  "delegate U EO mk show_err u input p0 =
     (if sp_permits p0 = 0 then None
      else
        (let p = p0\<lparr>sp_permits := sp_permits p0 - 1\<rparr>
         in case take_slot U mk u p of
              (Inl err, p) \<Rightarrow> Some (Inl err, drop_guard p)
            | (Inr e, p) \<Rightarrow>
                (case (case eo_run_once EO input e of
                         (Ret r, e) \<Rightarrow> Some (Inr r, e) | (Fail err, e) \<Rightarrow> Some (Inl err, e) | _ \<Rightarrow> None) of
                   None \<Rightarrow> None
                 | Some (r, e) \<Rightarrow>
                     Some (r, drop_guard (update_metrics show_err r (recycle_slot (clean_slot EO r e) p))))))"

subsection \<open>The pool on the bus\<close>

definition pool_node_info :: "'e subagent_pool \<Rightarrow> string \<Rightarrow> millis \<Rightarrow> node_info" where
  "pool_node_info p pool_id now =
     \<lparr>ni_node_id = NodeId (''subagent-pool/'' @ pool_id), ni_node_type = ''subagent-pool'',
      ni_capabilities = JObj [(''kind'', JStr ''subagent-pool''), (''pool_id'', JStr pool_id),
                              (''size'', JInt (int (sp_size p))), (''msg_types'', strs_to_value [SUBAGENT_DELEGATE])],
      ni_online_since = now\<rparr>"

definition pool_node_filter :: message_filter where
  "pool_node_filter = \<lparr>mf_types = Some [SUBAGENT_DELEGATE], mf_to_match = DirectedToMe\<rparr>"

text \<open>The text of the task, out of either of the two payloads.\<close>

definition delegate_input :: "json \<Rightarrow> run_error + string" where
  "delegate_input pl =
     (case Option.bind (case json_get pl ''task'' of None \<Rightarrow> json_get pl ''user_message'' | Some v \<Rightarrow> Some v) as_str of
        None \<Rightarrow> Inl (Internal (''subagent_delegate payload missing '' @ quoted ''task'' @ '' / '' @ quoted ''user_message''
                               @ '' string field''))
      | Some s \<Rightarrow> Inr s)"

definition handle_delegate_msg ::
  "uuid_ops \<Rightarrow> 'e engine_ops \<Rightarrow> (agent_config \<Rightarrow> node_id \<Rightarrow> string + 'e) \<Rightarrow> (run_error \<Rightarrow> string) \<Rightarrow> uuid \<Rightarrow> message
    \<Rightarrow> 'e subagent_pool \<Rightarrow> (delegate_result \<times> 'e subagent_pool) option" where
  "handle_delegate_msg U EO mk show_err u m p =
     (case delegate_input (msg_payload m) of
        Inl e \<Rightarrow> Some (Inl e, p)
      | Inr input \<Rightarrow> delegate U EO mk show_err u input p)"

definition cid_value :: "uuid_ops \<Rightarrow> uuid option \<Rightarrow> json" where
  "cid_value U cid = (case cid of None \<Rightarrow> JNull | Some c \<Rightarrow> JStr (uuid_show U c))"

definition delegate_reply :: "uuid_ops \<Rightarrow> (run_error \<Rightarrow> string) \<Rightarrow> uuid option \<Rightarrow> delegate_result \<Rightarrow> json" where
  "delegate_reply U show_err cid r =
     (case r of
        Inr tr \<Rightarrow> JObj [(''correlation_id'', cid_value U cid), (''ok'', JBool True), (''output'', tr_output tr),
                       (''turns_consumed'', JInt (int (tr_turns_consumed tr))),
                       (''pending_peer_messages'', strs_to_value (tr_pending_peer_messages tr))]
      | Inl e \<Rightarrow> JObj [(''correlation_id'', cid_value U cid), (''ok'', JBool False), (''error'', JStr (show_err e))])"

text \<open>One turn of the listener: the reply it sends, to whom, and the pool after it.\<close>

definition listener_turn ::
  "uuid_ops \<Rightarrow> 'e engine_ops \<Rightarrow> (agent_config \<Rightarrow> node_id \<Rightarrow> string + 'e) \<Rightarrow> (run_error \<Rightarrow> string) \<Rightarrow> uuid \<Rightarrow> message
    \<Rightarrow> 'e subagent_pool \<Rightarrow> ((string \<times> node_id list \<times> json) \<times> 'e subagent_pool) option" where
  "listener_turn U EO mk show_err u m p =
     map_option (\<lambda>(r, p'). ((SUBAGENT_RESULT, [msg_from m], delegate_reply U show_err (correlation_id U m) r), p'))
       (handle_delegate_msg U EO mk show_err u m p)"

subsection \<open>The engine's model as the engine of a slot\<close>

definition world_engine :: "('s, 'c) deps \<Rightarrow> ('s, 'c) world engine_ops" where
  "world_engine D =
     \<lparr>eo_run_once = run_once D,
      eo_reset_state = (\<lambda>w. case reset_state w (w_state w) of Inl e \<Rightarrow> Inl e | Inr s \<Rightarrow> Inr (w\<lparr>w_state := s\<rparr>))\<rparr>"

end
