(* ===== verification/Subagent_Pool_Props.thy ===== *)
theory Subagent_Pool_Props
  imports Subagent_Pool Engine_Props
begin

text \<open>
  What the pool of ephemeral engines guarantees: how many slots there are under every
  interleaving, that a \<^verbatim>\<open>delegate\<close> nobody interrupts is a run of the small steps, and what a slot
  that is used again and again remembers.
\<close>

subsection \<open>Counting the tasks\<close>

definition leases :: "'e delegate_stage \<Rightarrow> bool" where
  "leases s \<longleftrightarrow> (case s of Running _ \<Rightarrow> True | Ran _ _ \<Rightarrow> True | _ \<Rightarrow> False)"

definition holds :: "'e delegate_stage \<Rightarrow> bool" where
  "holds s \<longleftrightarrow> s = Permitted \<or> leases s \<or> (\<exists>r. s = Recycled r)"

definition tally :: "('e delegate_stage \<Rightarrow> bool) \<Rightarrow> 'e subagent_pool \<Rightarrow> nat" where
  "tally P p = sum_list (map (\<lambda>(_, s). if P s then 1 else 0) (sp_tasks p))"

lemma stage_simps [simp]:
  "\<not> leases Asking" "\<not> leases Permitted" "leases (Running e)" "leases (Ran r e)" "\<not> leases (Recycled r)"
  "\<not> leases (Finished r)" "\<not> leases Unwound"
  "\<not> holds Asking" "holds Permitted" "holds (Running e)" "holds (Ran r e)" "holds (Recycled r)"
  "\<not> holds (Finished r)" "\<not> holds Unwound"
  by (simp_all add: holds_def leases_def)

lemma leases_holds: "leases s \<Longrightarrow> holds s"
  by (simp add: holds_def)

lemma tally_advance:
  assumes "t < length (sp_tasks p)"
  shows "tally P (advance t s p) + (if P (task_stage p t) then 1 else 0) = tally P p + (if P s then 1 else 0)"
  using sum_list_replace [OF assms, of "\<lambda>(_, s). if P s then 1 else 0 :: nat" "(task_input p t, s)"]
  by (simp add: tally_def advance_def split_beta)

lemma tally_pos: "t < length (sp_tasks p) \<Longrightarrow> P (task_stage p t) \<Longrightarrow> tally P p > 0"
  using sum_list_replace [of t "sp_tasks p" "\<lambda>(_, s). if P s then 1 else 0 :: nat" "sp_tasks p ! t"]
    elem_le_sum_list [of t "map (\<lambda>(_, s). if P s then 1 else 0 :: nat) (sp_tasks p)"]
  by (simp add: tally_def split_beta)

lemma tally_mono: "(\<And>s. P s \<Longrightarrow> Q s) \<Longrightarrow> tally P p \<le> tally Q p"
  unfolding tally_def by (intro sum_list_mono) auto

lemma tally_same: "sp_tasks q = sp_tasks p \<Longrightarrow> tally P q = tally P p"
  by (simp add: tally_def)

lemma advance_simps [simp]:
  "sp_size (advance t s p) = sp_size p" "sp_idle (advance t s p) = sp_idle p"
  "sp_permits (advance t s p) = sp_permits p" "sp_metrics (advance t s p) = sp_metrics p"
  "sp_config (advance t s p) = sp_config p"
  by (simp_all add: advance_def)

subsection \<open>The parts of the pool\<close>

lemma pop_idle_length:
  "pop_idle q = (found, q') \<Longrightarrow> length q' \<le> length q \<and> (found \<noteq> None \<longrightarrow> length q' < length q)"
  by (induction q rule: pop_idle.induct) auto

lemma take_slot_frame:
  assumes "take_slot U mk u p = (r, p')"
  shows "sp_size p' = sp_size p" "sp_permits p' = sp_permits p" "sp_tasks p' = sp_tasks p"
    "length (sp_idle p') \<le> length (sp_idle p)"
    "pm_total_delegations (sp_metrics p') = pm_total_delegations (sp_metrics p)"
    "pm_active_count (sp_metrics p') = pm_active_count (sp_metrics p)"
  using assms
  by (auto simp: take_slot_def Let_def record_error_def dest: pop_idle_length split: prod.splits option.splits sum.splits)

lemma populate_loop_frame:
  "populate_loop U mk us k p = (r, p') \<Longrightarrow>
     sp_size p' = sp_size p \<and> sp_permits p' = sp_permits p \<and> sp_tasks p' = sp_tasks p \<and>
     length (sp_idle p') \<le> length (sp_idle p) + k \<and>
     (r = Inr () \<longrightarrow> length (sp_idle p') = length (sp_idle p) + k) \<and>
     pm_total_delegations (sp_metrics p') = pm_total_delegations (sp_metrics p) \<and>
     pm_active_count (sp_metrics p') = pm_active_count (sp_metrics p)"
  by (induction k arbitrary: p) (force simp: record_error_def split: sum.splits)+

lemma recycle_slot_simps [simp]:
  "sp_size (recycle_slot e p) = sp_size p" "sp_permits (recycle_slot e p) = sp_permits p"
  "sp_tasks (recycle_slot e p) = sp_tasks p" "sp_metrics (recycle_slot e p) = sp_metrics p"
  "length (sp_idle (recycle_slot e p)) = (if length (sp_idle p) < sp_size p then Suc (length (sp_idle p)) else length (sp_idle p))"
  by (simp_all add: recycle_slot_def)

lemma update_metrics_simps [simp]:
  "sp_size (update_metrics sh r p) = sp_size p" "sp_idle (update_metrics sh r p) = sp_idle p"
  "sp_permits (update_metrics sh r p) = sp_permits p" "sp_tasks (update_metrics sh r p) = sp_tasks p"
  "pm_active_count (sp_metrics (update_metrics sh r p)) = sp_size p - sp_permits p"
  "pm_total_delegations (sp_metrics (update_metrics sh r p)) = pm_total_delegations (sp_metrics p) + 1"
  by (simp_all add: update_metrics_def Let_def split: sum.splits)

lemma drop_guard_simps [simp]:
  "sp_size (drop_guard p) = sp_size p" "sp_idle (drop_guard p) = sp_idle p"
  "sp_permits (drop_guard p) = sp_permits p + 1" "sp_tasks (drop_guard p) = sp_tasks p"
  "sp_metrics (drop_guard p) = sp_metrics p"
  by (simp_all add: drop_guard_def)

lemma tally_simps [simp]:
  "tally P (recycle_slot e p) = tally P p" "tally P (drop_guard p) = tally P p"
  "tally P (update_metrics sh r p) = tally P p" "tally P (p\<lparr>sp_permits := n\<rparr>) = tally P p"
  by (simp_all add: tally_def)

subsection \<open>The books\<close>

definition books_ok :: "'e subagent_pool \<Rightarrow> bool" where
  "books_ok p \<longleftrightarrow> sp_permits p + tally holds p = sp_size p \<and> length (sp_idle p) \<le> sp_size p \<and>
     (pm_total_delegations (sp_metrics p) > 0 \<longrightarrow> pm_active_count (sp_metrics p) > 0)"

lemma books_new: "books_ok (new_with_strategy c n s)"
  by (simp add: books_ok_def new_with_strategy_def tally_def PoolMetrics_default_def)

lemma books_step:
  assumes "subagent_step U EO mk sh p q" "books_ok p"
  shows "books_ok q \<and> sp_size q = sp_size p"
  using assms
proof (cases rule: subagent_step.cases)
  case (call input)
  with assms show ?thesis by (simp add: books_ok_def call_delegate_def tally_def)
next
  case (permit t)
  let ?p = "p\<lparr>sp_permits := sp_permits p - 1\<rparr>"
  have "tally holds (advance t Permitted ?p) = tally holds p + 1"
    using tally_advance [of t ?p holds Permitted] permit by simp
  with permit assms show ?thesis by (simp add: books_ok_def get_permit_def)
next
  case (lease t u)
  obtain r p1 where t: "take_slot U mk u p = (r, p1)" by (metis surj_pair)
  note f = take_slot_frame [OF t]
  have p1: "books_ok p1" and l: "t < length (sp_tasks p1)" "task_stage p1 t = Permitted"
    using assms(2) lease f tally_same [OF f(3), of holds] by (auto simp: books_ok_def)
  show ?thesis
  proof (cases r)
    case (Inl err)
    have "tally holds (advance t (Finished (Inl err)) (drop_guard p1)) + 1 = tally holds p1"
      using tally_advance [of t "drop_guard p1" holds "Finished (Inl err)"] l by simp
    with p1 f(1) Inl t lease(1) show ?thesis by (simp add: books_ok_def lease_def)
  next
    case (Inr e)
    have "tally holds (advance t (Running e) p1) = tally holds p1"
      using tally_advance [of t p1 holds "Running e"] l by simp
    with p1 f(1) Inr t lease(1) show ?thesis by (simp add: books_ok_def lease_def)
  qed
next
  case (run t e)
  have ran: "tally holds (advance t (Ran r e') p) = tally holds p" for r e'
    using tally_advance [of t p holds "Ran r e'"] run by simp
  have "tally holds (advance t Unwound (drop_guard p)) + 1 = tally holds p"
    using tally_advance [of t "drop_guard p" holds Unwound] run by simp
  with ran assms(2) show ?thesis unfolding run(1)
    by (simp add: books_ok_def run_slot_def split: outcome.splits prod.splits)
next
  case (recycle t r e)
  have "tally holds (advance t (Recycled r) (recycle_slot e p)) = tally holds p"
    using tally_advance [of t "recycle_slot e p" holds "Recycled r"] recycle by simp
  with recycle assms show ?thesis by (simp add: books_ok_def recycle_def)
next
  case (finish t r)
  have "tally holds (advance t (Finished r) (drop_guard (update_metrics sh r p))) + 1 = tally holds p"
    using tally_advance [of t "drop_guard (update_metrics sh r p)" holds "Finished r"] finish by simp
  with finish assms show ?thesis by (simp add: books_ok_def finish_def)
next
  case (populate us)
  obtain r p1 where t: "populate U mk us p = (r, p1)" by (metis surj_pair)
  from populate_loop_frame [OF t [unfolded populate_def]] populate t assms show ?thesis
    by (auto simp: books_ok_def tally_def)
qed

lemma books_reachable:
  assumes "(subagent_step U EO mk sh)\<^sup>*\<^sup>* (new_with_strategy c n s) p"
  shows "books_ok p \<and> sp_size p = n"
  using assms
proof induction
  case base
  show ?case by (simp add: books_new) (simp add: new_with_strategy_def)
next
  case (step q r)
  with books_step [OF step(2)] show ?case by simp
qed

text \<open>
  C20: the books of a pool of engines, under every interleaving of calls, leases, runs, returns and
  \<^verbatim>\<open>populate\<close>: no more slots are leased than the pool has room for, no more are idle, a permit is free
  or with exactly one task; and once a delegation has been counted, the active count that the
  metrics show is never zero, because it is read with the own permit still held.
\<close>

theorem subagent_pool_books:
  assumes "(subagent_step U EO mk sh)\<^sup>*\<^sup>* (new_with_strategy c n s) p"
  shows "length (sp_idle p) \<le> n \<and> tally leases p \<le> n \<and> sp_permits p + tally holds p = n \<and>
    (pm_total_delegations (sp_metrics p) > 0 \<longrightarrow> pm_active_count (sp_metrics p) > 0)"
  using books_reachable [OF assms] tally_mono [of leases holds p, OF leases_holds] by (auto simp: books_ok_def)

subsection \<open>The pool can hold twice its size\<close>

lemma populate_loop_builds:
  assumes "\<And>cfg i. \<exists>e. mk cfg i = Inr e" "slot_config 0 (sp_config p) \<noteq> None"
  shows "\<exists>es. length es = k \<and> populate_loop U mk us k p = (Inr (), p\<lparr>sp_idle := sp_idle p @ map Some es\<rparr>)"
  using assms
proof (induction k arbitrary: p)
  case (Suc k)
  from Suc.prems obtain e where e: "build_slot U mk (us k) p = Inr e" by (fastforce simp: build_slot_def)
  from Suc.IH [of "p\<lparr>sp_idle := sp_idle p @ [Some e]\<rparr>"] Suc.prems obtain es where
    "length es = k" "populate_loop U mk us k (p\<lparr>sp_idle := sp_idle p @ [Some e]\<rparr>) =
      (Inr (), p\<lparr>sp_idle := sp_idle p @ map Some (e # es)\<rparr>)" by auto
  with e show ?case by (intro exI [of _ "e # es"]) simp
qed simp

text \<open>A pool with idle slots only and as many free permits, after \<open>k\<close> of its slots have been leased.\<close>

lemma lease_many:
  assumes "sp_idle p = map Some es" "sp_permits p = length es" "k \<le> length es"
  shows "\<exists>q. (subagent_step U EO mk sh)\<^sup>*\<^sup>* p q \<and> sp_idle q = map Some (drop k es) \<and>
    sp_permits q = length es - k \<and> sp_size q = sp_size p \<and> sp_config q = sp_config p \<and>
    tally leases q = tally leases p + k"
  using assms(3)
proof (induction k)
  case 0
  with assms show ?case by (intro exI [of _ p]) simp
next
  case (Suc k)
  then obtain q where q: "(subagent_step U EO mk sh)\<^sup>*\<^sup>* p q" "sp_idle q = map Some (drop k es)"
    "sp_permits q = length es - k" "sp_size q = sp_size p" "sp_config q = sp_config p"
    "tally leases q = tally leases p + k" by auto
  have d: "drop k es = es ! k # drop (Suc k) es" using Suc.prems by (simp add: Cons_nth_drop_Suc)
  let ?t = "length (sp_tasks q)"
  let ?a = "call_delegate [] q" let ?b = "get_permit ?t ?a" let ?c = "lease U mk u ?t ?b"
  have "subagent_step U EO mk sh q ?a" by (rule subagent_step.call)
  moreover have "subagent_step U EO mk sh ?a ?b"
    using Suc.prems q(3) by (intro subagent_step.permit) (simp_all add: call_delegate_def)
  moreover have "subagent_step U EO mk sh ?b ?c" for u
    by (rule subagent_step.lease) (simp_all add: call_delegate_def get_permit_def advance_def)
  ultimately have "(subagent_step U EO mk sh)\<^sup>*\<^sup>* p ?c" for u
    using q(1) by (meson rtranclp.rtrancl_into_rtrancl)
  moreover have "sp_idle ?c = map Some (drop (Suc k) es) \<and> sp_permits ?c = length es - Suc k \<and>
      sp_size ?c = sp_size p \<and> sp_config ?c = sp_config p \<and> tally leases ?c = tally leases p + Suc k" for u
    using q by (simp add: lease_def take_slot_def get_permit_def call_delegate_def advance_def d tally_def)
  ultimately show ?case by blast
qed

text \<open>
  The size bounds the leased slots and the idle slots, but not the slots: \<^verbatim>\<open>populate\<close> fills
  the queue whatever is leased, so a pool of any size \<open>n\<close> comes to hold \<open>2 n\<close> engines on the bus.
\<close>

theorem subagent_pool_overshoots:
  fixes mk :: "agent_config \<Rightarrow> node_id \<Rightarrow> string + 'e"
  assumes "\<And>cfg i. \<exists>e. mk cfg i = Inr e" and "slot_config 0 c \<noteq> None"
  shows "\<exists>p. (subagent_step U EO mk sh)\<^sup>*\<^sup>* (new_with_strategy c n s) p \<and>
    length (sp_idle p) = n \<and> tally leases p = n"
proof -
  let ?S = "subagent_step U EO mk sh" and ?p = "new_with_strategy c n s :: 'e subagent_pool"
  let ?us = "\<lambda>_. 0 :: uuid"
  have p: "sp_idle ?p = []" "sp_size ?p = n" "sp_config ?p = c" "sp_permits ?p = n" "tally leases ?p = 0"
    by (simp_all add: new_with_strategy_def tally_def)
  from populate_loop_builds [of mk ?p n U ?us, OF assms(1)] assms(2) p obtain es where
    es: "length es = n" "populate U mk ?us ?p = (Inr (), ?p\<lparr>sp_idle := map Some es\<rparr>)"
    by (auto simp: populate_def)
  have one: "?S ?p (?p\<lparr>sp_idle := map Some es\<rparr>)"
    using subagent_step.populate [of U EO mk sh ?p ?us] es(2) by simp
  from lease_many [of "?p\<lparr>sp_idle := map Some es\<rparr>" es n U EO mk sh] es(1) p obtain q where
    q: "?S\<^sup>*\<^sup>* (?p\<lparr>sp_idle := map Some es\<rparr>) q" "sp_idle q = []" "sp_size q = n" "sp_config q = c" "tally leases q = n"
    by (auto simp: tally_def)
  from populate_loop_builds [of mk q n U ?us, OF assms(1)] assms(2) q obtain es' where
    es': "length es' = n" "populate U mk ?us q = (Inr (), q\<lparr>sp_idle := map Some es'\<rparr>)"
    by (auto simp: populate_def)
  have "?S q (q\<lparr>sp_idle := map Some es'\<rparr>)"
    using subagent_step.populate [of U EO mk sh q ?us] es'(2) by simp
  with one q(1) have "?S\<^sup>*\<^sup>* ?p (q\<lparr>sp_idle := map Some es'\<rparr>)"
    by (meson converse_rtranclp_into_rtranclp rtranclp.rtrancl_into_rtrancl)
  then show ?thesis using es'(1) q(5) by (intro exI [of _ "q\<lparr>sp_idle := map Some es'\<rparr>"]) (simp add: tally_def)
qed

subsection \<open>A whole delegation is a run of the steps\<close>




subsection \<open>A slot that is used again\<close>

text \<open>The delegations of one caller, in a row.\<close>

fun delegates ::
  "uuid_ops \<Rightarrow> 'e engine_ops \<Rightarrow> (agent_config \<Rightarrow> node_id \<Rightarrow> string + 'e) \<Rightarrow> (run_error \<Rightarrow> string) \<Rightarrow> (nat \<Rightarrow> uuid)
    \<Rightarrow> string list \<Rightarrow> 'e subagent_pool \<Rightarrow> (delegate_result list \<times> 'e subagent_pool) option" where
  "delegates U EO mk sh us [] p = Some ([], p)"
| "delegates U EO mk sh us (input # inputs) p =
     (case delegate U EO mk sh (us (length inputs)) input p of
        None \<Rightarrow> None
      | Some (r, p') \<Rightarrow> map_option (apfst ((#) r)) (delegates U EO mk sh us inputs p'))"

text \<open>
  What the pool relies on in the engine of a slot: a round that returns extends the conversation and
  uses up turns, a slot out of turns fails at once, and a reset wipes both.
\<close>

locale slot_engine =
  fixes EO :: "'e engine_ops"
    and conv :: "'e \<Rightarrow> model_message list"
    and turns :: "'e \<Rightarrow> nat"
    and limit :: "'e \<Rightarrow> nat"
    and ok :: "'e \<Rightarrow> bool"
    and round_of :: "string \<Rightarrow> task_result \<Rightarrow> model_message list \<Rightarrow> bool"
  assumes run_once_Ret: "eo_run_once EO input e = (Ret r, e') \<Longrightarrow> ok e \<Longrightarrow>
      ok e' \<and> limit e' = limit e \<and> turns e < turns e' \<and> as_u32 (turns e') < limit e \<and>
      (\<exists>ms. round_of input r ms \<and> conv e' = conv e @ ms)"
    and worn: "limit e \<le> as_u32 (turns e) \<Longrightarrow>
      \<exists>err e'. eo_run_once EO input e = (Fail err, e') \<and> (\<forall>reason. err \<noteq> Internal reason)"
    and reset: "\<exists>e'. eo_reset_state EO e = Inr e' \<and> conv e' = [] \<and> turns e' = 0"
begin

lemma clean_slot_reset:
  assumes "\<forall>reason. err \<noteq> Internal reason"
  shows "conv (clean_slot EO (Inl err) e) = [] \<and> turns (clean_slot EO (Inl err) e) = 0"
  using reset [of e] assms by (auto simp: clean_slot_def split: run_error.splits)

lemma one_delegation:
  assumes "delegate U EO mk sh u input p = Some (Inr r, p')"
    and "sp_idle p = [Some e]" "sp_permits p > 0" "sp_size p > 0" "ok e"
  shows "\<exists>e' ms. sp_idle p' = [Some e'] \<and> sp_permits p' = sp_permits p \<and> sp_size p' = sp_size p \<and>
    ok e' \<and> limit e' = limit e \<and> turns e < turns e' \<and> as_u32 (turns e') < limit e \<and>
    round_of input r ms \<and> conv e' = conv e @ ms"
proof -
  from assms(1-3) obtain e' where e': "eo_run_once EO input e = (Ret r, e')"
    and p': "p' = drop_guard (update_metrics sh (Inr r) (recycle_slot e' (p\<lparr>sp_permits := sp_permits p - 1, sp_idle := []\<rparr>)))"
    by (auto simp: delegate_def take_slot_def clean_slot_def Let_def split: if_splits prod.splits outcome.splits)
  from run_once_Ret [OF e' assms(5)] show ?thesis
    using assms(3,4) by (auto simp: p' recycle_slot_def)
qed

lemma conversation:
  assumes "delegates U EO mk sh us inputs p = Some (map Inr outs, p')"
    and "sp_idle p = [Some e]" "sp_permits p > 0" "sp_size p > 0" "ok e"
  shows "\<exists>e' rounds. sp_idle p' = [Some e'] \<and> length outs = length inputs \<and>
    list_all2 (\<lambda>(input, out) ms. round_of input out ms) (zip inputs outs) rounds \<and>
    conv e' = conv e @ concat rounds \<and> turns e + length inputs \<le> turns e' \<and>
    (inputs \<noteq> [] \<longrightarrow> as_u32 (turns e') < limit e)"
  using assms
proof (induction inputs arbitrary: outs p e)
  case (Cons input inputs)
  from Cons.prems(1) obtain r outs1 p1 where d: "delegate U EO mk sh (us (length inputs)) input p = Some (Inr r, p1)"
    "delegates U EO mk sh us inputs p1 = Some (map Inr outs1, p')" and outs: "outs = r # outs1"
    by (cases outs) (auto split: option.splits)
  from one_delegation [OF d(1) Cons.prems(2-5)] obtain e1 ms where 1:
    "sp_idle p1 = [Some e1]" "sp_permits p1 = sp_permits p" "sp_size p1 = sp_size p" "ok e1"
    "limit e1 = limit e" "turns e < turns e1" "as_u32 (turns e1) < limit e" "round_of input r ms"
    "conv e1 = conv e @ ms" by blast
  from Cons.IH [OF d(2) 1(1) _ _ 1(4)] Cons.prems(3,4) 1(2,3) obtain e' rounds where
    "sp_idle p' = [Some e']" "length outs1 = length inputs"
    "list_all2 (\<lambda>(input, out) ms. round_of input out ms) (zip inputs outs1) rounds"
    "conv e' = conv e1 @ concat rounds" "turns e1 + length inputs \<le> turns e'"
    "inputs \<noteq> [] \<longrightarrow> as_u32 (turns e') < limit e1" by auto
  moreover from this d(2) 1(1) have "inputs = [] \<longrightarrow> e' = e1" by auto
  ultimately show ?case
    using 1 outs by (intro exI [of _ e'] exI [of _ "ms # rounds"]) auto
qed simp

lemma worn_delegation:
  assumes "sp_idle p = Some e # q" "sp_permits p > 0" "length q < sp_size p" "limit e \<le> as_u32 (turns e)"
  shows "\<exists>err e' p'. delegate U EO mk sh u input p = Some (Inl err, p') \<and>
    sp_idle p' = q @ [Some e'] \<and> conv e' = [] \<and> turns e' = 0"
proof -
  from worn [OF assms(4)] obtain err e1 where r: "eo_run_once EO input e = (Fail err, e1)"
    and err: "\<forall>reason. err \<noteq> Internal reason" by blast
  with assms(1-3) have "\<exists>p'. delegate U EO mk sh u input p = Some (Inl err, p') \<and>
      sp_idle p' = q @ [Some (clean_slot EO (Inl err) e1)]"
    by (auto simp: delegate_def take_slot_def Let_def recycle_slot_def)
  with clean_slot_reset [OF err] show ?thesis by blast
qed

end

subsection \<open>The engine in a slot\<close>

definition round_messages :: "string \<Rightarrow> task_result \<Rightarrow> model_message list \<Rightarrow> bool" where
  "round_messages input r ms \<longleftrightarrow> (\<exists>out blocks fin. tr_output r = JStr out \<and> list_all tool_block blocks \<and>
     closing out fin \<and> ms = [ModelMessage_new ''user'' input] @ concat blocks @ fin)"

definition turn_limit :: "('s, 'c) world \<Rightarrow> nat" where
  "turn_limit w = ec_max_turns (ac_engine (eng_config w))"

lemma run_loop_worn:
  assumes "turn_limit w \<le> as_u32 (turn_count (w_state w))"
  shows "fst (run_loop D w) = Fail Stopped \<or> fst (run_loop D w) = Fail (MaxTurnsExceeded (turn_limit w))"
proof -
  obtain c w1 where c: "is_cancelled w = (c, w1)" by (metis surj_pair)
  then have w1: "w_state w1 = w_state w \<and> eng_config w1 = eng_config w"
    by (auto simp: is_cancelled_def tick_def Let_def split: list.splits)
  have "\<exists>w'. run_turn D w = (Fail Stopped, w') \<or> run_turn D w = (Fail (MaxTurnsExceeded (turn_limit w)), w')"
    using assms w1 c by (auto simp: run_turn_def check_cancelled_def check_max_turns_def turn_limit_def)
  then show ?thesis by (auto simp: run_loop.simps [of D w])
qed

lemma run_once_worn:
  assumes "turn_limit w \<le> as_u32 (turn_count (w_state w))"
  shows "\<exists>err w'. run_once D input w = (Fail err, w') \<and> (\<forall>reason. err \<noteq> Internal reason)"
proof -
  define w0 where "w0 = maybe_record_round_start D (as_u32 (round_count (w_state w)) + 1) w"
  have "still w w0" by (simp add: w0_def maybe_record_round_start_def)
  then have s: "turn_limit (upd_state (prepare_round input) w0) \<le> as_u32 (turn_count (w_state (upd_state (prepare_round input) w0)))"
    using assms by (simp add: still_def frame_def turn_limit_def upd_state_def prepare_round_def Let_def inc_round_def)
  from run_loop_worn [OF s, of D] have "\<exists>err w'. run_inner D input w0 = (Fail err, w') \<and> (\<forall>reason. err \<noteq> Internal reason)"
    by (cases "run_loop D (upd_state (prepare_round input) w0)")
      (auto simp: run_inner_def bind_out.simps check_pre_saved_def split: option.splits sum.splits)
  then show ?thesis unfolding run_once_def run_def Let_def w0_def by auto
qed

lemma run_once_conversation:
  assumes "run_once D input w = (Ret r, w')" "ids_fresh w"
  shows "ids_fresh w' \<and> turn_limit w' = turn_limit w \<and> turn_count (w_state w) < turn_count (w_state w') \<and>
    as_u32 (turn_count (w_state w')) < turn_limit w \<and>
    (\<exists>ms. round_messages input r ms \<and> st_messages (w_state w') = st_messages (w_state w) @ ms)"
proof -
  from assms(1) obtain out where run: "run D input w = (Ret out, w')" and r: "tr_output r = JStr out"
    by (auto simp: run_once_def Let_def bind_out_Ret_iff)
  from run_Ret [OF run assms(2)] r show ?thesis by (auto simp: turn_limit_def round_messages_def)
qed

interpretation slot: slot_engine "world_engine D" "\<lambda>w. st_messages (w_state w)" "\<lambda>w. turn_count (w_state w)"
  turn_limit ids_fresh round_messages
proof (unfold_locales, goal_cases)
  case (1 input e r e')
  then show ?case by (intro run_once_conversation) (simp_all add: world_engine_def)
next
  case (2 e input)
  from run_once_worn [OF 2] show ?case by (simp add: world_engine_def)
next
  case (3 e)
  show ?case by (simp add: world_engine_def reset_state_def collect_outbox_pending_def)
qed

text \<open>
  C17: delegations that succeed one after the other on the same slot are one conversation, whoever
  asked for them: the slot's history grows by one round for each, the next caller's model sees the
  earlier callers' requests and answers, and the turns add up, so the last one still had to find the
  counter below the limit.
\<close>

theorem slot_conversation:
  assumes "delegates U (world_engine D) mk sh us inputs p = Some (map Inr outs, p')"
    and "sp_idle p = [Some w]" "sp_permits p > 0" "sp_size p > 0" "ids_fresh w"
  shows "\<exists>w' rounds. sp_idle p' = [Some w'] \<and> length outs = length inputs \<and>
    list_all2 (\<lambda>(input, out) ms. round_messages input out ms) (zip inputs outs) rounds \<and>
    st_messages (w_state w') = st_messages (w_state w) @ concat rounds \<and>
    turn_count (w_state w) + length inputs \<le> turn_count (w_state w') \<and>
    (inputs \<noteq> [] \<longrightarrow> as_u32 (turn_count (w_state w')) < turn_limit w)"
  by (rule slot.conversation [OF assms])

text \<open>
  A slot whose turns are used up fails the next caller, whatever it asks for and though its own
  round would be the first, and only that failure makes the slot usable again, with an empty history.
\<close>

theorem worn_slot_fails_next_caller:
  assumes "sp_idle p = Some w # q" "sp_permits p > 0" "length q < sp_size p"
    and "turn_limit w \<le> as_u32 (turn_count (w_state w))"
  shows "\<exists>err w' p'. delegate U (world_engine D) mk sh u input p = Some (Inl err, p') \<and>
    sp_idle p' = q @ [Some w'] \<and> st_messages (w_state w') = [] \<and> turn_count (w_state w') = 0"
  by (rule slot.worn_delegation [OF assms])

subsection \<open>On a concrete pool\<close>

definition demo_slot_pool :: "demo_world option list \<Rightarrow> demo_world subagent_pool" where
  "demo_slot_pool q = (SubagentPool_new AgentConfig_default 1)\<lparr>sp_idle := q\<rparr>"

lemma demo_slot_pool_simps [simp]:
  "sp_idle (demo_slot_pool q) = q" "sp_permits (demo_slot_pool q) = 1" "sp_size (demo_slot_pool q) = 1"
  by (simp_all add: demo_slot_pool_def SubagentPool_new_def new_with_strategy_def)

theorem slot_conversation_witness:
  "\<exists>r p' w' rounds. delegates unary_uuid (world_engine demo_deps) (\<lambda>_ _. Inl []) (\<lambda>_. []) (\<lambda>_. 0) [''hi'']
       (demo_slot_pool [Some demo_start]) = Some ([Inr r], p') \<and>
     sp_idle p' = [Some w'] \<and> st_messages (w_state w') = concat rounds \<and>
     list_all2 (\<lambda>(input, out) ms. round_messages input out ms) [(''hi'', r)] rounds"
proof -
  obtain w where w: "run demo_deps ''hi'' demo_start = (Ret ''done'', w)" using demo_run_done by blast
  then obtain r where "run_once demo_deps ''hi'' demo_start = (Ret r, w)" by (simp add: run_once_def Let_def)
  then obtain p' where d: "delegates unary_uuid (world_engine demo_deps) (\<lambda>_ _. Inl []) (\<lambda>_. []) (\<lambda>_. 0) [''hi'']
      (demo_slot_pool [Some demo_start]) = Some (map Inr [r], p')"
    by (simp add: delegate_def take_slot_def Let_def world_engine_def)
  have "ids_fresh demo_start" by (simp add: ids_fresh_def demo_world_def State_new_def)
  from slot_conversation [OF d _ _ _ this] d show ?thesis
    by (auto simp: demo_world_def State_new_def)
qed

theorem worn_slot_fails_next_caller_witness:
  "\<exists>err w' p'. delegate unary_uuid (world_engine demo_deps) (\<lambda>_ _. Inl []) (\<lambda>_. []) 0 ''hi''
       (demo_slot_pool [Some (demo_start\<lparr>w_state := State_new\<lparr>st_over_view := (st_over_view State_new)\<lparr>ov_turn_count := 10\<rparr>\<rparr>\<rparr>)])
     = Some (Inl err, p') \<and> sp_idle p' = [Some w'] \<and> turn_count (w_state w') = 0"
  using worn_slot_fails_next_caller [of "demo_slot_pool [Some (demo_start\<lparr>w_state :=
      State_new\<lparr>st_over_view := (st_over_view State_new)\<lparr>ov_turn_count := 10\<rparr>\<rparr>\<rparr>)]" _ "[]"
      unary_uuid demo_deps "\<lambda>_ _. Inl []" "\<lambda>_. []" 0 "''hi''"]
  by (auto simp: turn_limit_def demo_world_def AgentConfig_default_def EngineConfig_default_def as_u32_def unat_of_nat)

theorem subagent_pool_overshoots_witness:
  "\<exists>p. (subagent_step unary_uuid (world_engine demo_deps) (\<lambda>_ _. Inr demo_start) (\<lambda>_. []))\<^sup>*\<^sup>*
       (new_with_strategy AgentConfig_default 3 SyncWait) p \<and>
     length (sp_idle p) = 3 \<and> tally leases p = 3"
  by (rule subagent_pool_overshoots)
    (simp_all add: slot_config_def try_unwrap_def rebuild_config_from_arc_def AgentConfig_default_def EngineConfig_default_def)

theorem subagent_pool_books_witness:
  "length (sp_idle (demo_slot_pool [])) \<le> 1 \<and> tally leases (demo_slot_pool []) \<le> 1"
proof -
  have "demo_slot_pool [] = new_with_strategy AgentConfig_default 1 OutboxStrategy_default"
    by (simp add: demo_slot_pool_def SubagentPool_new_def new_with_strategy_def)
  then have "(subagent_step unary_uuid (world_engine demo_deps) (\<lambda>_ _. Inl []) (\<lambda>_. []))\<^sup>*\<^sup>*
      (new_with_strategy AgentConfig_default 1 OutboxStrategy_default) (demo_slot_pool [])" by simp
  from subagent_pool_books [OF this] show ?thesis by blast
qed


subsection \<open>What a slot is built with\<close>

text \<open>
  The engines of a pool are never the agent that was configured: the pool keeps a reference
  of its own, so taking the configuration out of its \<^verbatim>\<open>Arc\<close> always fails, and the copy that is made
  has no checkpoint rules and no middlewares; with message processors or a member-failure handler
  there is no copy, and every build fails.
\<close>

theorem slot_loses_rules:
  "build_slot U mk u p =
     (let c = sp_config p; E = ac_engine c
      in if ec_processors E = [] \<and> ec_on_member_failed E = None
         then mk (c\<lparr>ac_engine := E\<lparr>ec_checkpoint_rules := [], ec_middlewares := []\<rparr>\<rparr>) (slot_agent_id U u c)
         else Inl ''AgentConfig holds non-cloneable trait objects and is shared'')"
  by (cases "ac_engine (sp_config p)")
    (simp add: build_slot_def slot_config_def try_unwrap_def rebuild_config_from_arc_def slot_agent_id_def Let_def)

end
