(* ===== verification/Py_Agent.thy ===== *)
theory Py_Agent
  imports Engine_Run Model_Adapter
begin

text \<open>
  How an agent is declared from Python (\<^verbatim>\<open>py-arf/src/engine.rs\<close>): the YAML file of an agent, the
  constructors of \<^verbatim>\<open>AgentConfig\<close>, \<^verbatim>\<open>EngineConfig\<close> and \<^verbatim>\<open>CheckpointRule\<close>, and the objects that hold an
  engine and its \<^verbatim>\<open>State\<close> between calls.

  Reading text into a YAML value is \<^verbatim>\<open>serde_yaml\<close>'s: a parameter. \<open>read\<close> is \<^verbatim>\<open>read_to_string\<close> and \<open>dbg\<close>
  the \<^verbatim>\<open>Debug\<close> rendering of a path. A Python exception is its class with its text.
\<close>

subsection \<open>YAML values\<close>

text \<open>\<^verbatim>\<open>serde_yaml::Value\<close>; its accessors look through tags, which are left out. Floats are finite.\<close>

datatype yaml =
    YNull
  | YBool bool
  | YInt int
  | YFloat rat
  | YStr string
  | YSeq "yaml list"
  | YMap "(yaml \<times> yaml) list"

fun yaml_get :: "yaml \<Rightarrow> string \<Rightarrow> yaml option" where
  "yaml_get (YMap kvs) k = map_of kvs (YStr k)"
| "yaml_get _ k = None"

fun yaml_str :: "yaml \<Rightarrow> string option" where
  "yaml_str (YStr s) = Some s"
| "yaml_str _ = None"

fun yaml_seq :: "yaml \<Rightarrow> yaml list option" where
  "yaml_seq (YSeq xs) = Some xs"
| "yaml_seq _ = None"

fun yaml_bool :: "yaml \<Rightarrow> bool option" where
  "yaml_bool (YBool b) = Some b"
| "yaml_bool _ = None"

fun yaml_u64 :: "yaml \<Rightarrow> nat option" where
  "yaml_u64 (YInt i) = (if 0 \<le> i \<and> i < 2 ^ 64 then Some (nat i) else None)"
| "yaml_u64 _ = None"

text \<open>\<^verbatim>\<open>as_f64\<close> rounds an integer to the nearest float.\<close>

fun yaml_f64 :: "(rat \<Rightarrow> rat) \<Rightarrow> yaml \<Rightarrow> rat option" where
  "yaml_f64 rnd (YFloat r) = Some r"
| "yaml_f64 rnd (YInt i) = Some (rnd (of_int i))"
| "yaml_f64 rnd _ = None"

definition yaml_field :: "(yaml \<Rightarrow> 'a option) \<Rightarrow> yaml \<Rightarrow> string \<Rightarrow> 'a option" where
  "yaml_field conv v k = Option.bind (yaml_get v k) conv"

definition or_else :: "'a \<Rightarrow> 'a option \<Rightarrow> 'a" where
  "or_else d r = (case r of None \<Rightarrow> d | Some x \<Rightarrow> x)"

definition yaml_strs :: "yaml \<Rightarrow> string \<Rightarrow> string list" where
  "yaml_strs v k = or_else [] (map_option (List.map_filter yaml_str) (yaml_field yaml_seq v k))"

text \<open>\<^verbatim>\<open>serde_json::to_value\<close>: the keys of a JSON object are text; \<open>key_text\<close> prints a number.\<close>

fun key_of_yaml :: "(yaml \<Rightarrow> string) \<Rightarrow> yaml \<Rightarrow> string option" where
  "key_of_yaml key_text (YStr s) = Some s"
| "key_of_yaml key_text (YBool b) = Some (if b then ''true'' else ''false'')"
| "key_of_yaml key_text (YInt i) = Some (key_text (YInt i))"
| "key_of_yaml key_text (YFloat r) = Some (key_text (YFloat r))"
| "key_of_yaml key_text _ = None"

fun json_of_yaml :: "(yaml \<Rightarrow> string) \<Rightarrow> yaml \<Rightarrow> json option"
  and json_of_items :: "(yaml \<Rightarrow> string) \<Rightarrow> yaml list \<Rightarrow> json list option"
  and json_of_entries :: "(yaml \<Rightarrow> string) \<Rightarrow> (yaml \<times> yaml) list \<Rightarrow> json \<Rightarrow> json option" where
  "json_of_yaml key_text YNull = Some JNull"
| "json_of_yaml key_text (YBool b) = Some (JBool b)"
| "json_of_yaml key_text (YInt i) = Some (JInt i)"
| "json_of_yaml key_text (YFloat r) = Some (JFloat r)"
| "json_of_yaml key_text (YStr s) = Some (JStr s)"
| "json_of_yaml key_text (YSeq xs) = map_option JArr (json_of_items key_text xs)"
| "json_of_yaml key_text (YMap kvs) = json_of_entries key_text kvs (JObj [])"
| "json_of_items key_text [] = Some []"
| "json_of_items key_text (x # xs) =
     Option.bind (json_of_yaml key_text x) (\<lambda>j. map_option ((#) j) (json_of_items key_text xs))"
| "json_of_entries key_text [] obj = Some obj"
| "json_of_entries key_text ((k, v) # kvs) obj =
     Option.bind (key_of_yaml key_text k) (\<lambda>s. Option.bind (json_of_yaml key_text v) (\<lambda>j.
       json_of_entries key_text kvs (obj_insert s j obj)))"

subsection \<open>Exceptions and files\<close>

datatype py_err =
    PyValueError string
  | PyTypeError string
  | PyKeyError string
  | PyFileNotFoundError string
  | PyIOError string
  | PyRuntimeError string
  | PyConnectionError string
  | PyException string
  | PyStopAsyncIteration

type_synonym read_file = "string \<Rightarrow> string + string"

abbreviation slash :: char where "slash \<equiv> CHR ''/''"

text \<open>
  \<^verbatim>\<open>Path::parent\<close> and \<^verbatim>\<open>join\<close> of the path of a file (which has been read, so it ends in a name), up to
  \<^verbatim>\<open>.\<close> components, which the operating system skips.
\<close>

definition path_parent :: "string \<Rightarrow> string" where
  "path_parent p =
     (let d = rev (dropWhile (\<lambda>c. c \<noteq> slash) (rev p));
          t = rev (dropWhile (\<lambda>c. c = slash) (rev d))
      in if d \<noteq> [] \<and> t = [] then [slash] else t)"

definition path_join :: "string \<Rightarrow> string \<Rightarrow> string" where
  "path_join p rel =
     (if starts_with [slash] rel \<or> p = [] then rel
      else if last p = slash then p @ rel else p @ [slash] @ rel)"

subsection \<open>The agent file\<close>

record agent_yaml_fields =
  ay_model_provider :: string
  ay_model_name :: string
  ay_endpoint :: "string option"
  ay_api_key_env :: "string option"
  ay_thinking_enabled :: bool
  ay_temperature :: "rat option"
  ay_max_output_tokens :: "nat option"
  ay_system_prompt :: string
  ay_max_turns :: "nat option"
  ay_initial_memory :: "string list"
  ay_allowed_paths :: "string list"
  ay_tools :: "tool_spec list"
  ay_resources :: "resource_spec list"

text \<open>\<^verbatim>\<open>to_lowercase\<close> on ASCII text.\<close>

definition lower_char :: "char \<Rightarrow> char" where
  "lower_char c = (if CHR ''A'' \<le> c \<and> c \<le> CHR ''Z'' then char_of (of_char c + 32 :: nat) else c)"

definition parse_permission :: "string \<Rightarrow> tool_permission" where
  "parse_permission s =
     (let t = map lower_char (trim s)
      in if t = ''ask'' then Ask else if t = ''deny'' then Deny else Allow)"

text \<open>The prompt inline, or out of a file next to the agent's, or the default.\<close>

definition yaml_prompt :: "read_file \<Rightarrow> (string \<Rightarrow> string) \<Rightarrow> string \<Rightarrow> yaml \<Rightarrow> py_err + string" where
  "yaml_prompt read dbg source agent =
     (case yaml_field yaml_str agent ''system_prompt'' of
        Some s \<Rightarrow> Inr s
      | None \<Rightarrow>
          (case yaml_field yaml_str agent ''system_prompt_file'' of
             None \<Rightarrow> Inr ''You are a helpful assistant.''
           | Some rel \<Rightarrow>
               (let path = path_join (path_parent source) rel
                in case read path of
                     Inr s \<Rightarrow> Inr s
                   | Inl e \<Rightarrow> Inl (PyFileNotFoundError (''read system_prompt_file '' @ dbg path @ '': '' @ e)))))"

fun is_mapping :: "yaml \<Rightarrow> bool" where
  "is_mapping (YMap _) = True"
| "is_mapping _ = False"

definition yaml_get_or :: "yaml \<Rightarrow> string \<Rightarrow> string \<Rightarrow> yaml option" where
  "yaml_get_or m k k' = (case yaml_get m k of Some v \<Rightarrow> Some v | None \<Rightarrow> yaml_get m k')"

definition yaml_resource :: "(yaml \<Rightarrow> string) \<Rightarrow> yaml \<Rightarrow> resource_spec option" where
  "yaml_resource key_text m =
     (if \<not> is_mapping m then None
      else map_option (\<lambda>name.
             \<lparr>rs_resource_name = name,
              rs_node_type = or_else ''mcp'' (Option.bind (yaml_get_or m ''node_type'' ''type'') yaml_str),
              rs_capabilities = map_option (\<lambda>v. or_else JNull (json_of_yaml key_text v)) (yaml_get m ''capabilities'')\<rparr>)
           (Option.bind (yaml_get_or m ''resource_name'' ''name'') yaml_str))"

definition yaml_tool :: "yaml \<Rightarrow> tool_spec option" where
  "yaml_tool v =
     (case yaml_str v of
        Some name \<Rightarrow> Some (ToolSpec_new name [] (JObj []))
      | None \<Rightarrow>
          if is_mapping v
          then map_option (\<lambda>name. (ToolSpec_new name [] (JObj []))
                 \<lparr>ts_permission := or_else Allow (map_option parse_permission (yaml_field yaml_str v ''permission''))\<rparr>)
               (yaml_field yaml_str v ''name'')
          else None)"

definition parse_agent_yaml ::
  "(string \<Rightarrow> string + yaml) \<Rightarrow> (yaml \<Rightarrow> string) \<Rightarrow> (rat \<Rightarrow> rat) \<Rightarrow> read_file \<Rightarrow> (string \<Rightarrow> string) \<Rightarrow> string \<Rightarrow> string
    \<Rightarrow> py_err + agent_yaml_fields" where
  "parse_agent_yaml parse key_text rnd read dbg raw source =
     (case parse raw of
        Inl e \<Rightarrow> Inl (PyValueError (''parse agent config '' @ dbg source @ '': '' @ e))
      | Inr v \<Rightarrow>
          (case yaml_get v ''agent'' of
             None \<Rightarrow> Inl (PyValueError (''agent config '' @ dbg source @ '': missing top-level `agent:` key''))
           | Some agent \<Rightarrow>
               (case yaml_get agent ''model'' of
                  None \<Rightarrow> Inl (PyValueError (''agent config '' @ dbg source @ '': missing `agent.model:` key''))
                | Some model \<Rightarrow>
                    (case yaml_prompt read dbg source agent of
                       Inl e \<Rightarrow> Inl e
                     | Inr prompt \<Rightarrow> Inr
                         \<lparr>ay_model_provider = or_else ''deepseek'' (yaml_field yaml_str model ''provider''),
                          ay_model_name = or_else ''deepseek-v4-flash'' (yaml_field yaml_str model ''model_name''),
                          ay_endpoint = yaml_field yaml_str model ''endpoint'',
                          ay_api_key_env = yaml_field yaml_str model ''api_key_env'',
                          ay_thinking_enabled = or_else False (yaml_field yaml_bool model ''thinking_enabled''),
                          ay_temperature = yaml_field (yaml_f64 rnd) model ''temperature'',
                          ay_max_output_tokens = map_option as_u32 (yaml_field yaml_u64 model ''max_output_tokens''),
                          ay_system_prompt = prompt,
                          ay_max_turns = map_option as_u32 (yaml_field yaml_u64 agent ''max_turns''),
                          ay_initial_memory = yaml_strs agent ''initial_memory'',
                          ay_allowed_paths = yaml_strs agent ''allowed_paths'',
                          ay_tools = or_else [] (map_option (List.map_filter yaml_tool) (yaml_field yaml_seq agent ''tools'')),
                          ay_resources = or_else [] (map_option (List.map_filter (yaml_resource key_text))
                                           (yaml_field yaml_seq agent ''resources''))\<rparr>))))"

definition build_agent_config_from_yaml_fields :: "agent_yaml_fields \<Rightarrow> agent_config" where
  "build_agent_config_from_yaml_fields f =
     \<lparr>ac_model = \<lparr>md_provider = ay_model_provider f, md_model_name = ay_model_name f,
                  md_endpoint = ay_endpoint f, md_api_key_env = ay_api_key_env f,
                  md_thinking_enabled = ay_thinking_enabled f, md_temperature = ay_temperature f,
                  md_max_output_tokens = ay_max_output_tokens f, md_extra = JNull\<rparr>,
      ac_resources = ay_resources f, ac_system_prompt_template = ay_system_prompt f,
      ac_initial_memory = ay_initial_memory f, ac_allowed_paths = ay_allowed_paths f, ac_tools = ay_tools f,
      ac_engine = (case ay_max_turns f of
                     None \<Rightarrow> EngineConfig_default | Some mt \<Rightarrow> EngineConfig_default\<lparr>ec_max_turns := mt\<rparr>)\<rparr>"

text \<open>\<open>dbg_err\<close> is the \<^verbatim>\<open>Debug\<close> rendering of an exception.\<close>

definition parse_agent_config_yaml ::
  "(string \<Rightarrow> string + yaml) \<Rightarrow> (yaml \<Rightarrow> string) \<Rightarrow> (rat \<Rightarrow> rat) \<Rightarrow> read_file \<Rightarrow> (string \<Rightarrow> string) \<Rightarrow> (py_err \<Rightarrow> string)
    \<Rightarrow> string \<Rightarrow> string \<Rightarrow> string + agent_config" where
  "parse_agent_config_yaml parse key_text rnd read dbg dbg_err raw source =
     (case parse_agent_yaml parse key_text rnd read dbg raw source of
        Inl e \<Rightarrow> Inl (dbg_err e) | Inr f \<Rightarrow> Inr (build_agent_config_from_yaml_fields f))"

definition PyAgentConfig_from_yaml ::
  "(string \<Rightarrow> string + yaml) \<Rightarrow> (yaml \<Rightarrow> string) \<Rightarrow> (rat \<Rightarrow> rat) \<Rightarrow> read_file \<Rightarrow> (string \<Rightarrow> string) \<Rightarrow> string
    \<Rightarrow> py_err + agent_config" where
  "PyAgentConfig_from_yaml parse key_text rnd read dbg path =
     (case read path of
        Inl e \<Rightarrow> Inl (PyFileNotFoundError (''read agent config '' @ dbg path @ '': '' @ e))
      | Inr raw \<Rightarrow>
          (case parse_agent_yaml parse key_text rnd read dbg raw path of
             Inl e \<Rightarrow> Inl e | Inr f \<Rightarrow> Inr (build_agent_config_from_yaml_fields f)))"

subsection \<open>The constructors\<close>

record py_action_message =
  pa_msg_type :: string
  pa_correlation_id :: uuid
  pa_payload :: json

text \<open>\<open>fresh_id\<close> is \<^verbatim>\<open>Uuid::new_v4\<close>, \<open>perr\<close> the text of a failed parse.\<close>

definition PyActionMessage_new ::
  "uuid_ops \<Rightarrow> uuid \<Rightarrow> string \<Rightarrow> string \<Rightarrow> string option \<Rightarrow> json option \<Rightarrow> py_err + py_action_message" where
  "PyActionMessage_new U fresh_id perr ty cid payload =
     (case (case cid of None \<Rightarrow> Some fresh_id | Some s \<Rightarrow> uuid_parse U s) of
        None \<Rightarrow> Inl (PyValueError (''invalid correlation_id UUID: '' @ perr))
      | Some i \<Rightarrow> Inr
          \<lparr>pa_msg_type = ty, pa_correlation_id = i,
           pa_payload = (case payload of
              Some j \<Rightarrow> j | None \<Rightarrow> JObj [(''correlation_id'', JStr (uuid_show U i))])\<rparr>)"

record py_checkpoint_rule =
  pr_name :: string
  pr_trigger :: checkpoint
  pr_actions :: "py_action_message list"

text \<open>
  The rule always fires and sends its first action, always the same message. Without actions building
  the message panics; the test, which comes just before, panics in its place.
\<close>

definition into_rust_rule :: "py_checkpoint_rule \<Rightarrow> checkpoint_rule" where
  "into_rust_rule r =
     CheckpointRule_new (pr_name r) (pr_trigger r)
       (\<lambda>_. if pr_actions r = [] then None else Some True)
       (\<lambda>_ _. let a = hd (pr_actions r) in ACustom (pa_msg_type a) (pa_correlation_id a) (pa_payload a) Command)"

definition PyEngineConfig_new ::
  "nat \<Rightarrow> nat option \<Rightarrow> (string \<times> route) list option \<Rightarrow> py_checkpoint_rule list option \<Rightarrow> engine_config" where
  "PyEngineConfig_new max_turns tool_timeout_ms routes rules =
     EngineConfig_default\<lparr>ec_routes := or_else [] routes,
       ec_checkpoint_rules := map into_rust_rule (or_else [] rules),
       ec_max_turns := max_turns, ec_tool_timeout_ms := tool_timeout_ms\<rparr>"

text \<open>What \<^verbatim>\<open>AgentConfig(engine=\<dots>)\<close> takes over: what the getters give out.\<close>

definition build_engine_config_from_py :: "engine_config \<Rightarrow> engine_config" where
  "build_engine_config_from_py ec =
     (let c = EngineConfig_default\<lparr>ec_max_turns := ec_max_turns ec\<rparr>
      in case ec_tool_timeout_ms ec of None \<Rightarrow> c | Some t \<Rightarrow> c\<lparr>ec_tool_timeout_ms := Some t\<rparr>)"

text \<open>The argument \<open>model\<close>: nothing, a \<^verbatim>\<open>ModelDecl\<close>, the name of a model, or something else.\<close>

datatype py_model_arg = NoModel | ModelDeclArg model_decl | ModelNameArg string | OtherArg

record py_agent_args =
  pk_provider :: "string option"
  pk_model :: py_model_arg
  pk_endpoint :: "string option"
  pk_api_key_env :: "string option"
  pk_system_prompt_template :: string
  pk_initial_memory :: "string list option"
  pk_allowed_paths :: "string list option"
  pk_resources :: "resource_spec list option"
  pk_max_turns :: "nat option"
  pk_tool_timeout_ms :: "nat option"
  pk_routes :: "(string \<times> route) list option"
  pk_checkpoint_rules :: "py_checkpoint_rule list option"
  pk_engine :: "engine_config option"

definition resolve_model_arg ::
  "py_agent_args \<Rightarrow> py_err + (string \<times> string \<times> string option \<times> string option)" where
  "resolve_model_arg k =
     (let p = or_else ''deepseek'' (pk_provider k)
      in case pk_model k of
           ModelDeclArg d \<Rightarrow> Inr (md_provider d, md_model_name d, md_endpoint d, md_api_key_env d)
         | ModelNameArg s \<Rightarrow> Inr (p, s, pk_endpoint k, pk_api_key_env k)
         | OtherArg \<Rightarrow> Inl (PyTypeError ''model must be str (model_name) or ModelDecl instance'')
         | NoModel \<Rightarrow> Inr (p, ''deepseek-v4-flash'', pk_endpoint k, pk_api_key_env k))"

definition resolve_engine_arg :: "py_agent_args \<Rightarrow> engine_config" where
  "resolve_engine_arg k =
     (case pk_engine k of
        Some ec \<Rightarrow> build_engine_config_from_py ec
      | None \<Rightarrow>
          (let c = EngineConfig_default\<lparr>ec_max_turns := or_else 10 (pk_max_turns k)\<rparr>;
               c = (case pk_tool_timeout_ms k of None \<Rightarrow> c | Some t \<Rightarrow> c\<lparr>ec_tool_timeout_ms := Some t\<rparr>)
           in c\<lparr>ec_routes := or_else [] (pk_routes k),
                ec_checkpoint_rules := map into_rust_rule (or_else [] (pk_checkpoint_rules k))\<rparr>))"

definition PyAgentConfig_new :: "py_agent_args \<Rightarrow> py_err + agent_config" where
  "PyAgentConfig_new k =
     (case resolve_model_arg k of
        Inl e \<Rightarrow> Inl e
      | Inr (provider, model_name, endpoint, api_key_env) \<Rightarrow> Inr
          \<lparr>ac_model = (ac_model AgentConfig_default)\<lparr>md_provider := provider, md_model_name := model_name,
                        md_endpoint := endpoint, md_api_key_env := api_key_env\<rparr>,
           ac_resources = or_else [] (pk_resources k),
           ac_system_prompt_template = pk_system_prompt_template k,
           ac_initial_memory = or_else [] (pk_initial_memory k),
           ac_allowed_paths = or_else [] (pk_allowed_paths k), ac_tools = [],
           ac_engine = resolve_engine_arg k\<rparr>)"

subsection \<open>Engines and states between calls\<close>

text \<open>
  \<^verbatim>\<open>Engine\<close> and \<^verbatim>\<open>EngineState\<close>: cells that are empty while a round has what they hold. The state cells
  are numbered. The engine of the model comes with a state of its own, which a round replaces.
\<close>

record ('s, 'c) py_cells =
  pc_engine :: "('s, 'c) world option"
  pc_states :: "nat \<Rightarrow> state option"

definition PyEngine_run_begin ::
  "nat \<Rightarrow> ('s, 'c) py_cells \<Rightarrow> (py_err + ('s, 'c) world) \<times> ('s, 'c) py_cells" where
  "PyEngine_run_begin sid c =
     (case pc_engine c of
        None \<Rightarrow> (Inl (PyRuntimeError ''engine already consumed by a previous run''), c)
      | Some w \<Rightarrow>
          (let c = c\<lparr>pc_engine := None\<rparr>
           in case pc_states c sid of
                None \<Rightarrow> (Inl (PyRuntimeError ''state already consumed by a previous run''), c)
              | Some s \<Rightarrow> (Inr (w\<lparr>w_state := s\<rparr>), c\<lparr>pc_states := (pc_states c)(sid := None)\<rparr>)))"

definition PyEngine_run_end :: "nat \<Rightarrow> ('s, 'c) world \<Rightarrow> ('s, 'c) py_cells \<Rightarrow> ('s, 'c) py_cells" where
  "PyEngine_run_end sid w c = c\<lparr>pc_engine := Some w, pc_states := (pc_states c)(sid := Some (w_state w))\<rparr>"

definition py_result :: "(run_error \<Rightarrow> string) \<Rightarrow> (run_error, 'a) outcome \<Rightarrow> (py_err, 'a) outcome" where
  "py_result show_err r =
     (case r of Ret x \<Rightarrow> Ret x | Fail e \<Rightarrow> Fail (PyException (show_err e)) | Panic \<Rightarrow> Panic | Hang \<Rightarrow> Hang)"

text \<open>A round that panics or never ends does not give back what it has taken.\<close>

definition PyEngine_run ::
  "('s, 'c) deps \<Rightarrow> (run_error \<Rightarrow> string) \<Rightarrow> nat \<Rightarrow> string \<Rightarrow> ('s, 'c) py_cells
    \<Rightarrow> (py_err, string) outcome \<times> ('s, 'c) py_cells" where
  "PyEngine_run D show_err sid input c0 =
     (case PyEngine_run_begin sid c0 of
        (Inl e, c) \<Rightarrow> (Fail e, c)
      | (Inr w, c) \<Rightarrow>
          (let (r, w') = run D input w
           in if r = Panic \<or> r = Hang then (py_result show_err r, c)
              else (py_result show_err r, PyEngine_run_end sid w' c)))"

text \<open>\<^verbatim>\<open>EngineHandle\<close>: the engine shared with the other handles, a state of its own.\<close>

record ('s, 'c) py_handle =
  ph_engine :: "('s, 'c) world"
  ph_default_state :: state

definition PyEngineHandle_from_arc :: "('s, 'c) world \<Rightarrow> ('s, 'c) py_handle" where
  "PyEngineHandle_from_arc w = \<lparr>ph_engine = w, ph_default_state = State_new\<rparr>"

definition chat_begin :: "('s, 'c) py_handle \<Rightarrow> state \<times> ('s, 'c) py_handle" where
  "chat_begin h = (ph_default_state h, h\<lparr>ph_default_state := State_new\<rparr>)"

definition chat_end ::
  "('s, 'c) deps \<Rightarrow> (run_error \<Rightarrow> string) \<Rightarrow> string \<Rightarrow> state \<Rightarrow> ('s, 'c) py_handle
    \<Rightarrow> (py_err, string) outcome \<times> ('s, 'c) py_handle" where
  "chat_end D show_err input s h =
     (let (r, w) = run D input ((ph_engine h)\<lparr>w_state := s\<rparr>);
          h = h\<lparr>ph_engine := w\<rparr>
      in if r = Panic \<or> r = Hang then (py_result show_err r, h)
         else (py_result show_err r, h\<lparr>ph_default_state := w_state w\<rparr>))"

definition chat ::
  "('s, 'c) deps \<Rightarrow> (run_error \<Rightarrow> string) \<Rightarrow> string \<Rightarrow> ('s, 'c) py_handle
    \<Rightarrow> (py_err, string) outcome \<times> ('s, 'c) py_handle" where
  "chat D show_err input h = (let (s, h) = chat_begin h in chat_end D show_err input s h)"

text \<open>\<^verbatim>\<open>chat_with_state\<close> takes the state out of the cell of the application.\<close>

definition chat_with_state ::
  "('s, 'c) deps \<Rightarrow> (run_error \<Rightarrow> string) \<Rightarrow> string \<Rightarrow> state option \<Rightarrow> ('s, 'c) py_handle
    \<Rightarrow> (py_err, string) outcome \<times> state option \<times> ('s, 'c) py_handle" where
  "chat_with_state D show_err input cell h =
     (case cell of
        None \<Rightarrow> (Fail (PyRuntimeError ''state already consumed by a previous run''), None, h)
      | Some s \<Rightarrow>
          (let (r, w) = run D input ((ph_engine h)\<lparr>w_state := s\<rparr>);
               h = h\<lparr>ph_engine := w\<rparr>
           in if r = Panic \<or> r = Hang then (py_result show_err r, None, h)
              else (py_result show_err r, Some (w_state w), h)))"

text \<open>\<^verbatim>\<open>EngineState.messages\<close>, as Python dictionaries.\<close>

definition py_opt_str :: "string option \<Rightarrow> json" where
  "py_opt_str s = (case s of None \<Rightarrow> JNull | Some t \<Rightarrow> JStr t)"

definition py_tool_call :: "tool_call \<Rightarrow> json" where
  "py_tool_call tc =
     JObj [(''id'', JStr (tc_id tc)), (''name'', JStr (tc_name tc)), (''arguments'', tc_arguments tc),
           (''target'', py_opt_str (map_option as_string (tc_target tc)))]"

definition py_message :: "model_message \<Rightarrow> json" where
  "py_message m =
     JObj [(''role'', JStr (mm_role m)), (''content'', JStr (mm_content m)),
           (''tool_call_id'', py_opt_str (mm_tool_call_id m)), (''name'', py_opt_str (mm_name m)),
           (''tool_calls'', JArr (map py_tool_call (mm_tool_calls m)))]"

definition PyState_messages :: "state option \<Rightarrow> py_err + json list" where
  "PyState_messages cell =
     (case cell of None \<Rightarrow> Inl (PyRuntimeError ''state already consumed'')
      | Some s \<Rightarrow> Inr (map py_message (st_messages s)))"

end
