(* ===== verification/Py_Team.thy ===== *)
theory Py_Team
  imports Py_Agent Subagent_Pool
begin

text \<open>
  Teams of engines and pools (\<^verbatim>\<open>py-arf/src/team\<close>) and who belongs to one
  (\<^verbatim>\<open>py-arf/src/relay/team_membership.rs\<close>): the team file, building and stopping a team, and
  \<^verbatim>\<open>PoolHandle.delegate\<close>, which reaches a pool over the bus. \<open>sn\<close> prints a number.
\<close>

subsection \<open>TeamConfig\<close>

record engine_spec =
  es_engine_id :: string
  es_config_path :: string
  es_auto_subscribe :: "string list"

record pool_spec =
  ps_pool_id :: string
  ps_config_path :: string
  ps_size :: nat
  ps_max_queue_wait_ms :: "nat option"

record team_config =
  tm_team_id :: string
  tm_description :: "string option"
  tm_bus_id :: string
  tm_persistent_engines :: "engine_spec list"
  tm_subagent_pools :: "pool_spec list"
  tm_peer_topology :: "string option"

definition PyEngineSpec_new :: "string \<Rightarrow> string \<Rightarrow> string list \<Rightarrow> engine_spec" where
  "PyEngineSpec_new i path subs = \<lparr>es_engine_id = i, es_config_path = path, es_auto_subscribe = subs\<rparr>"

definition PyPoolSpec_new :: "string \<Rightarrow> string \<Rightarrow> nat \<Rightarrow> nat option \<Rightarrow> pool_spec" where
  "PyPoolSpec_new i path sz wait =
     \<lparr>ps_pool_id = i, ps_config_path = path, ps_size = sz, ps_max_queue_wait_ms = wait\<rparr>"

definition PyTeamConfig_new :: "string \<Rightarrow> string \<Rightarrow> team_config" where
  "PyTeamConfig_new team_id bus_id =
     \<lparr>tm_team_id = team_id, tm_description = None, tm_bus_id = bus_id, tm_persistent_engines = [],
      tm_subagent_pools = [], tm_peer_topology = None\<rparr>"

definition add_persistent_engine :: "string \<Rightarrow> string \<Rightarrow> string list \<Rightarrow> team_config \<Rightarrow> team_config" where
  "add_persistent_engine i path subs c =
     c\<lparr>tm_persistent_engines := tm_persistent_engines c @ [PyEngineSpec_new i path subs]\<rparr>"

definition add_subagent_pool :: "string \<Rightarrow> string \<Rightarrow> nat \<Rightarrow> nat option \<Rightarrow> team_config \<Rightarrow> team_config" where
  "add_subagent_pool i path sz wait c =
     c\<lparr>tm_subagent_pools := tm_subagent_pools c @ [PyPoolSpec_new i path sz wait]\<rparr>"

definition engine_spec_of_yaml :: "yaml \<Rightarrow> engine_spec" where
  "engine_spec_of_yaml item =
     \<lparr>es_engine_id = or_else [] (yaml_field yaml_str item ''id''),
      es_config_path = or_else [] (yaml_field yaml_str item ''config''),
      es_auto_subscribe = yaml_strs item ''auto_subscribe''\<rparr>"

definition pool_spec_of_yaml :: "yaml \<Rightarrow> pool_spec" where
  "pool_spec_of_yaml item =
     \<lparr>ps_pool_id = or_else [] (yaml_field yaml_str item ''id''),
      ps_config_path = or_else [] (yaml_field yaml_str item ''config''),
      ps_size = or_else 1 (yaml_field yaml_u64 item ''size''),
      ps_max_queue_wait_ms = yaml_field yaml_u64 item ''max_queue_wait_ms''\<rparr>"

definition team_config_of_yaml :: "yaml \<Rightarrow> team_config" where
  "team_config_of_yaml v =
     (let team = (\<lambda>k. Option.bind (yaml_get v ''team'') (\<lambda>t. yaml_field yaml_str t k))
      in \<lparr>tm_team_id = or_else ''default'' (team ''id''), tm_description = team ''description'',
          tm_bus_id = or_else ''shared'' (team ''bus''),
          tm_persistent_engines = map engine_spec_of_yaml (or_else [] (yaml_field yaml_seq v ''persistent_engines'')),
          tm_subagent_pools = map pool_spec_of_yaml (or_else [] (yaml_field yaml_seq v ''subagent_pools'')),
          tm_peer_topology = None\<rparr>)"

definition read_team_yaml ::
  "(string \<Rightarrow> string + yaml) \<Rightarrow> read_file \<Rightarrow> (string \<Rightarrow> string) \<Rightarrow> string \<Rightarrow> py_err + yaml" where
  "read_team_yaml parse read dbg path =
     (case read path of
        Inl e \<Rightarrow> Inl (PyFileNotFoundError (''read team config '' @ dbg path @ '': '' @ e))
      | Inr raw \<Rightarrow>
          (case parse raw of
             Inl e \<Rightarrow> Inl (PyValueError (''parse team config '' @ dbg path @ '': '' @ e))
           | Inr v \<Rightarrow> Inr v))"

definition PyTeamConfig_from_yaml ::
  "(string \<Rightarrow> string + yaml) \<Rightarrow> read_file \<Rightarrow> (string \<Rightarrow> string) \<Rightarrow> string \<Rightarrow> py_err + team_config" where
  "PyTeamConfig_from_yaml parse read dbg path = map_sum id team_config_of_yaml (read_team_yaml parse read dbg path)"

text \<open>The text of \<^verbatim>\<open>to_yaml\<close>; nothing is quoted.\<close>

abbreviation line_end :: string where "line_end \<equiv> [CHR 0x0A]"

definition engine_yaml :: "engine_spec \<Rightarrow> string" where
  "engine_yaml e =
     ''  - id: '' @ es_engine_id e @ line_end @ ''    config: '' @ es_config_path e @ line_end @
     (if es_auto_subscribe e = [] then []
      else ''    auto_subscribe:'' @ line_end @
           concat (map (\<lambda>s. ''      - '' @ s @ line_end) (es_auto_subscribe e)))"

definition pool_yaml :: "(nat \<Rightarrow> string) \<Rightarrow> pool_spec \<Rightarrow> string" where
  "pool_yaml sn p =
     ''  - id: '' @ ps_pool_id p @ line_end @ ''    config: '' @ ps_config_path p @ line_end @
     ''    size: '' @ sn (ps_size p) @ line_end @
     (case ps_max_queue_wait_ms p of
        None \<Rightarrow> [] | Some ms \<Rightarrow> ''    max_queue_wait_ms: '' @ sn ms @ line_end)"

definition PyTeamConfig_to_yaml :: "(nat \<Rightarrow> string) \<Rightarrow> team_config \<Rightarrow> string" where
  "PyTeamConfig_to_yaml sn c =
     ''team:'' @ line_end @ ''  id: '' @ tm_team_id c @ line_end @ ''  bus: '' @ tm_bus_id c @ line_end @
     (if tm_persistent_engines c = [] then []
      else line_end @ ''persistent_engines:'' @ line_end @ concat (map engine_yaml (tm_persistent_engines c))) @
     (if tm_subagent_pools c = [] then []
      else line_end @ ''subagent_pools:'' @ line_end @ concat (map (pool_yaml sn) (tm_subagent_pools c)))"

subsection \<open>TeamMembership\<close>

text \<open>The identifiers of one section of the file, as the loop over its items collects them.\<close>

definition section_ids :: "yaml \<Rightarrow> string \<Rightarrow> string list" where
  "section_ids v sec =
     List.map_filter (\<lambda>item. yaml_field yaml_str item ''id'') (or_else [] (yaml_field yaml_seq v sec))"

definition PyTeamMembership_new ::
  "(string \<Rightarrow> string + yaml) \<Rightarrow> read_file \<Rightarrow> (string \<Rightarrow> string) \<Rightarrow> string \<Rightarrow> py_err + string set" where
  "PyTeamMembership_new parse read dbg path =
     map_sum id (\<lambda>v. set (section_ids v ''persistent_engines'') \<union> set (section_ids v ''subagent_pools''))
       (read_team_yaml parse read dbg path)"

subsection \<open>Building a team\<close>

text \<open>
  \<open>mk\<close> is \<^verbatim>\<open>EngineBuilder::build\<close> on the shared bus: from the builder and the configuration it makes an
  engine or an error text, and changes the bus; \<open>drop_engine\<close> is what becomes of the bus when an
  engine is dropped. \<open>load\<close> is \<open>parse_agent_config_yaml\<close> on the text of a file.
\<close>

record ('e, 'b) team_ops =
  to_mk :: "engine_builder \<Rightarrow> agent_config \<Rightarrow> 'b \<Rightarrow> (string + 'e) \<times> 'b"
  to_drop_engine :: "'e \<Rightarrow> 'b \<Rightarrow> 'b"
  to_read :: read_file
  to_load :: "string \<Rightarrow> string \<Rightarrow> string + agent_config"
  to_dbg :: "string \<Rightarrow> string"

definition load_agent_config :: "('e, 'b) team_ops \<Rightarrow> string \<Rightarrow> string + agent_config" where
  "load_agent_config T path =
     (case to_read T path of
        Inl e \<Rightarrow> Inl (''read agent config '' @ to_dbg T path @ '': '' @ e)
      | Inr raw \<Rightarrow>
          (case to_load T raw path of
             Inl e \<Rightarrow> Inl (''parse agent config '' @ to_dbg T path @ '': '' @ e)
           | Inr cfg \<Rightarrow> Inr cfg))"

definition team_engine_id :: "agent_config \<Rightarrow> engine_spec \<Rightarrow> node_id" where
  "team_engine_id cfg spec = NodeId (''engine/'' @ md_provider (ac_model cfg) @ ''/'' @ es_engine_id spec)"

definition build_engine_from_spec :: "('e, 'b) team_ops \<Rightarrow> engine_spec \<Rightarrow> 'b \<Rightarrow> (string + 'e) \<times> 'b" where
  "build_engine_from_spec T spec b =
     (case load_agent_config T (es_config_path spec) of
        Inl e \<Rightarrow> (Inl e, b)
      | Inr cfg \<Rightarrow>
          (case to_mk T \<lparr>eb_session_id = None, eb_agent_id = Some (team_engine_id cfg spec),
                         eb_auto_subscribe = es_auto_subscribe spec, eb_ephemeral = False\<rparr> cfg b of
             (Inl e, b) \<Rightarrow> (Inl (''EngineBuilder::build failed: '' @ e), b)
           | (Inr e, b) \<Rightarrow> (Inr e, b)))"

definition build_pool_from_spec :: "('e, 'b) team_ops \<Rightarrow> pool_spec \<Rightarrow> string + 'p subagent_pool" where
  "build_pool_from_spec T spec =
     (case load_agent_config T (ps_config_path spec) of
        Inl e \<Rightarrow> Inl e | Inr cfg \<Rightarrow> Inr (SubagentPool_new cfg (max (ps_size spec) 1)))"

record ('e, 'p) team =
  te_config :: team_config
  te_persistent_engines :: "(string \<times> 'e) list"
  te_subagent_pools :: "(string \<times> 'p subagent_pool) list"
  te_started :: bool

definition drop_engines :: "('e, 'b) team_ops \<Rightarrow> (string \<times> 'e) list \<Rightarrow> 'b \<Rightarrow> 'b" where
  "drop_engines T es b = fold (\<lambda>(_, e). to_drop_engine T e) es b"

text \<open>A second engine under the same id takes the place of the first, which is dropped.\<close>

fun build_engines ::
  "('e, 'b) team_ops \<Rightarrow> engine_spec list \<Rightarrow> (string \<times> 'e) list \<Rightarrow> 'b \<Rightarrow> (py_err + (string \<times> 'e) list) \<times> 'b" where
  "build_engines T [] es b = (Inr es, b)"
| "build_engines T (spec # specs) es b =
     (case build_engine_from_spec T spec b of
        (Inl e, b) \<Rightarrow> (Inl (PyRuntimeError (''build engine '' @ quoted (es_engine_id spec) @ '': '' @ e)), drop_engines T es b)
      | (Inr e, b) \<Rightarrow>
          build_engines T specs (AList.update (es_engine_id spec) e es)
            (case map_of es (es_engine_id spec) of None \<Rightarrow> b | Some old \<Rightarrow> to_drop_engine T old b))"

fun build_pools ::
  "('e, 'b) team_ops \<Rightarrow> pool_spec list \<Rightarrow> (string \<times> 'p subagent_pool) list \<Rightarrow> py_err + (string \<times> 'p subagent_pool) list" where
  "build_pools T [] ps = Inr ps"
| "build_pools T (spec # specs) ps =
     (case build_pool_from_spec T spec of
        Inl e \<Rightarrow> Inl (PyRuntimeError (''build pool '' @ quoted (ps_pool_id spec) @ '': '' @ e))
      | Inr p \<Rightarrow> build_pools T specs (AList.update (ps_pool_id spec) p ps))"

definition TeamBuilder_build :: "('e, 'b) team_ops \<Rightarrow> team_config \<Rightarrow> 'b \<Rightarrow> (py_err + ('e, 'p) team) \<times> 'b" where
  "TeamBuilder_build T c b0 =
     (case build_engines T (tm_persistent_engines c) [] b0 of
        (Inl e, b) \<Rightarrow> (Inl e, b)
      | (Inr es, b) \<Rightarrow>
          (case build_pools T (tm_subagent_pools c) [] of
             Inl e \<Rightarrow> (Inl e, drop_engines T es b)
           | Inr ps \<Rightarrow> (Inr \<lparr>te_config = c, te_persistent_engines = es, te_subagent_pools = ps, te_started = False\<rparr>, b)))"

text \<open>
  \<^verbatim>\<open>start\<close> marks the team started and then fills the pools, in the order of the hash map, until one fails.
\<close>

fun populate_all ::
  "('p subagent_pool \<Rightarrow> (run_error + unit) \<times> 'p subagent_pool) \<Rightarrow> (run_error \<Rightarrow> string)
    \<Rightarrow> (string \<times> 'p subagent_pool) list \<Rightarrow> (py_err + unit) \<times> (string \<times> 'p subagent_pool) list" where
  "populate_all fill show_err [] = (Inr (), [])"
| "populate_all fill show_err ((i, p) # ps) =
     (case fill p of
        (Inl e, p') \<Rightarrow> (Inl (PyRuntimeError (''populate pool failed: '' @ show_err e)), (i, p') # ps)
      | (Inr _, p') \<Rightarrow> apsnd ((#) (i, p')) (populate_all fill show_err ps))"

definition Team_start ::
  "('p subagent_pool \<Rightarrow> (run_error + unit) \<times> 'p subagent_pool) \<Rightarrow> (run_error \<Rightarrow> string) \<Rightarrow> ('e, 'p) team
    \<Rightarrow> (py_err + unit) \<times> ('e, 'p) team" where
  "Team_start fill show_err t =
     (let (r, ps) = populate_all fill show_err (te_subagent_pools t)
      in (r, t\<lparr>te_subagent_pools := ps, te_started := True\<rparr>))"

definition Team_stop :: "('e, 'b) team_ops \<Rightarrow> ('e, 'p) team \<Rightarrow> 'b \<Rightarrow> ('e, 'p) team \<times> 'b" where
  "Team_stop T t b =
     (t\<lparr>te_persistent_engines := [], te_subagent_pools := [], te_started := False\<rparr>,
      drop_engines T (te_persistent_engines t) b)"

definition Team_engine :: "('e, 'p) team \<Rightarrow> string \<Rightarrow> 'e option" where
  "Team_engine t i = map_of (te_persistent_engines t) i"

definition Team_subagent_pool :: "('e, 'p) team \<Rightarrow> string \<Rightarrow> 'p subagent_pool option" where
  "Team_subagent_pool t i = map_of (te_subagent_pools t) i"

subsection \<open>PoolHandle.delegate\<close>

text \<open>
  The call up to the message that is sent, with nobody else acting on the bus meanwhile. \<open>i\<close>, \<open>j\<close> and \<open>cid\<close> are fresh identifiers; the bus that panics
  is \<open>None\<close>. A handle has no destructor: on an error after the connection, as at the end of the call, it is
  dropped, and its node stays in the registry of the bus until a heartbeat finds it silent.
\<close>

definition pool_target :: "string \<Rightarrow> node_id" where
  "pool_target pool_id = NodeId (''subagent-pool/'' @ pool_id)"

definition pool_client :: "string \<Rightarrow> node_id" where
  "pool_client pool_id = NodeId (''py-arf/pool-handle/'' @ pool_id)"

definition delegate_request :: "uuid_ops \<Rightarrow> uuid \<Rightarrow> uuid \<Rightarrow> millis \<Rightarrow> string \<Rightarrow> string \<Rightarrow> bus_id \<Rightarrow> message" where
  "delegate_request U j cid now pool_id user_message b =
     Message_with_from_bus j now SUBAGENT_DELEGATE (pool_client pool_id) [pool_target pool_id]
       (JObj [(''correlation_id'', JStr (uuid_show U cid)), (''task'', JStr user_message),
              (''parent_session_id'', JStr pool_id)]) b"

definition not_registered :: "string \<Rightarrow> string" where
  "not_registered pool_id =
     ''pool '' @ quoted pool_id @ '' is not registered on the bus. Call `await pool.connect_to_bus('' @ quoted pool_id @
     '')` once at startup before `delegate()`. (Legacy `pool.delegate()` direct path was removed; the pool now only '' @
     ''operates as a bus actor '' @ utf8 [0xE2, 0x80, 0x94] @ '' see Phase 7 architecture note.)''"

definition pool_delegate_send ::
  "uuid_ops \<Rightarrow> (bus_id \<Rightarrow> string) \<Rightarrow> uuid \<Rightarrow> uuid \<Rightarrow> uuid \<Rightarrow> millis \<Rightarrow> string \<Rightarrow> string \<Rightarrow> bus
    \<Rightarrow> ((py_err + node_handle) \<times> bus) option" where
  "pool_delegate_send U sb i j cid now pool_id user_message b0 =
     (if \<not> list_ex (\<lambda>n. ni_node_id n = pool_target pool_id \<and> ni_node_type n = ''subagent-pool'')
           (bg_nodes (graph now b0))
      then Some (Inl (PyRuntimeError (not_registered pool_id)), b0)
      else
        (case connect id i now \<lparr>ni_node_id = pool_client pool_id, ni_node_type = ''engine'', ni_capabilities = JObj [],
                             ni_online_since = 0\<rparr>
                \<lparr>mf_types = Some [SUBAGENT_RESULT], mf_to_match = DirectedToMe\<rparr> b0 of
           None \<Rightarrow> None
         | Some (Inl e, b) \<Rightarrow> Some (Inl (PyRuntimeError (''subscribe failed: '' @ connect_error_display e)), b)
         | Some (Inr sub, b) \<Rightarrow>
             (case Bus_send (delegate_request U j cid now pool_id user_message (bus_bid b)) b of
                (Inl e, b) \<Rightarrow> Some (Inl (PyRuntimeError (''send subagent_delegate failed: '' @ send_error_display sb e)), b)
              | (Inr _, b) \<Rightarrow> Some (Inr sub, b))))"

text \<open>
  The wait for the reply: what the handle receives, its closing, or the end of 60 seconds, whichever
  comes next. \<open>None\<close> is a call that still waits.
\<close>

datatype delegate_event = DelegateMsg message | DelegateClosed | DelegateDeadline

fun pool_delegate_wait :: "delegate_event list \<Rightarrow> (py_err + message) option" where
  "pool_delegate_wait [] = None"
| "pool_delegate_wait (DelegateMsg m # evs) = (if msg_type m = SUBAGENT_RESULT then Some (Inr m) else pool_delegate_wait evs)"
| "pool_delegate_wait (DelegateClosed # evs) =
     Some (Inl (PyRuntimeError ''subagent_result recv closed: channel closed''))"
| "pool_delegate_wait (DelegateDeadline # evs) = Some (Inl (PyRuntimeError ''subagent_delegate timed out (60s)''))"

record py_delegate_result =
  pd_output :: string
  pd_turns_consumed :: nat
  pd_pending_peer_messages :: "string list"

text \<open>What is read out of the reply; \<open>render\<close> prints a JSON value.\<close>

definition pool_delegate_result ::
  "uuid_ops \<Rightarrow> (json \<Rightarrow> string) \<Rightarrow> uuid \<Rightarrow> json \<Rightarrow> py_err + py_delegate_result" where
  "pool_delegate_result U render cid pl =
     (if get_str pl ''correlation_id'' \<noteq> Some (uuid_show U cid)
      then Inl (PyRuntimeError (''subagent_result correlation_id mismatch: expected '' @ uuid_show U cid @ '', got '' @
             (case get_str pl ''correlation_id'' of
                None \<Rightarrow> ''None'' | Some s \<Rightarrow> ''Some('' @ render (JStr s) @ '')'')))
      else if Option.bind (json_get pl ''ok'') as_bool \<noteq> Some True
      then Inl (PyRuntimeError (or_else ''(no error message)'' (get_str pl ''error'')))
      else Inr
        \<lparr>pd_output = (case or_else JNull (json_get pl ''output'') of JStr s \<Rightarrow> s | j \<Rightarrow> render j),
         pd_turns_consumed = as_u32 (or_else 0 (Option.bind (json_get pl ''turns_consumed'') as_u64)),
         pd_pending_peer_messages = or_else [] (map_option strs_of_array (get_array pl ''pending_peer_messages''))\<rparr>)"

text \<open>
  The whole call: what it returns, if it has ended, and the bus after the message was sent. The first
  reply decides, whichever call it answers.
\<close>

definition pool_delegate ::
  "uuid_ops \<Rightarrow> (bus_id \<Rightarrow> string) \<Rightarrow> (json \<Rightarrow> string) \<Rightarrow> uuid \<Rightarrow> uuid \<Rightarrow> uuid \<Rightarrow> millis \<Rightarrow> string \<Rightarrow> string
    \<Rightarrow> delegate_event list \<Rightarrow> bus \<Rightarrow> ((py_err + py_delegate_result) option \<times> bus) option" where
  "pool_delegate U sb render i j cid now pool_id user_message evs b0 =
     (case pool_delegate_send U sb i j cid now pool_id user_message b0 of
        None \<Rightarrow> None
      | Some (Inl e, b) \<Rightarrow> Some (Some (Inl e), b)
      | Some (Inr sub, b) \<Rightarrow>
          Some (case pool_delegate_wait evs of
                  None \<Rightarrow> None
                | Some (Inl e) \<Rightarrow> Some (Inl e)
                | Some (Inr m) \<Rightarrow> Some (pool_delegate_result U render cid (msg_payload m)), b))"

end
