(* ===== verification/Py_Props.thy ===== *)
theory Py_Props
  imports Py_Team Subagent_Pool_Props
begin

text \<open>
  What an application sees through the Python classes: what becomes of a declared agent, engines and
  states between calls, teams, and delegation over the bus.
\<close>

subsection \<open>Declaring an agent\<close>

text \<open>
  The two forms of \<^verbatim>\<open>AgentConfig(\<dots>)\<close> do not make the same agent. Given an \<^verbatim>\<open>EngineConfig\<close> object, the
  routes and checkpoint rules it was made with are gone and a tool timeout that was switched off is
  30 seconds; given a \<^verbatim>\<open>ModelDecl\<close>, so are thinking, temperature, output limit and extra parameters.
  Given as arguments of \<^verbatim>\<open>AgentConfig\<close> itself, routes and rules arrive.
\<close>

theorem nested_form_loses:
  "(\<exists>c. PyAgentConfig_new (k\<lparr>pk_model := ModelDeclArg d, pk_engine := Some (PyEngineConfig_new mt tmo routes rules)\<rparr>) = Inr c \<and>
      ec_routes (ac_engine c) = [] \<and> ec_checkpoint_rules (ac_engine c) = [] \<and> ec_max_turns (ac_engine c) = mt \<and>
      ec_tool_timeout_ms (ac_engine c) = Some (or_else 30000 tmo) \<and>
      ac_model c = d\<lparr>md_thinking_enabled := False, md_temperature := None, md_max_output_tokens := None, md_extra := JNull\<rparr>) \<and>
   (\<exists>c. PyAgentConfig_new (k\<lparr>pk_model := ModelDeclArg d, pk_engine := None, pk_routes := routes, pk_checkpoint_rules := rules\<rparr>) = Inr c \<and>
      ec_routes (ac_engine c) = or_else [] routes \<and>
      ec_checkpoint_rules (ac_engine c) = map into_rust_rule (or_else [] rules))"
  by (cases d) (simp add: PyAgentConfig_new_def resolve_model_arg_def resolve_engine_arg_def Let_def
      PyEngineConfig_new_def build_engine_config_from_py_def AgentConfig_default_def EngineConfig_default_def
      or_else_def split: option.split)

lemma run_worn:
  assumes "turn_limit w \<le> as_u32 (turn_count (w_state w))"
  shows "\<exists>err. fst (run D input w) = Fail err"
  using run_once_worn [OF assms, of D input]
  by (cases "run D input w"; cases "fst (run D input w)") (auto simp: run_once_def Let_def)

text \<open>
  A limit of turns in an agent file that is a multiple of \<open>2\<^sup>3\<^sup>2\<close> becomes 0, and an engine with that
  configuration fails every round, whatever the state and the input.
\<close>

theorem max_turns_wraps:
  assumes "parse raw = Inr v" "yaml_get v ''agent'' = Some agent" "yaml_field yaml_u64 agent ''max_turns'' = Some n"
    and "2 ^ 32 dvd n"
    and "parse_agent_config_yaml parse key_text rnd read dbg dbg_err raw source = Inr c" and "eng_config w = c"
  shows "ec_max_turns (ac_engine c) = 0 \<and> (\<exists>err. fst (run D input w) = Fail err)"
proof -
  from assms(4) have "as_u32 n = 0" by (simp add: as_u32_mod mod_eq_0_iff_dvd)
  with assms(1-3,5) have "ec_max_turns (ac_engine c) = 0"
    by (auto simp: parse_agent_config_yaml_def parse_agent_yaml_def build_agent_config_from_yaml_fields_def
        split: sum.splits option.splits)
  with run_worn [of w D input] assms(6) show ?thesis by (simp add: turn_limit_def)
qed

definition demo_agent_yaml :: "int \<Rightarrow> yaml" where
  "demo_agent_yaml n = YMap [(YStr ''agent'', YMap [(YStr ''model'', YMap []), (YStr ''max_turns'', YInt n)])]"

theorem max_turns_wraps_witness:
  "\<exists>c err. parse_agent_config_yaml (\<lambda>_. Inr (demo_agent_yaml 4294967296)) (\<lambda>_. []) id (\<lambda>_. Inl []) id (\<lambda>_. []) [] [] = Inr c \<and>
     ec_max_turns (ac_engine c) = 0 \<and> fst (run demo_deps ''hi'' (demo_world c demo_inbound [])) = Fail err"
proof -
  let ?p = "parse_agent_config_yaml (\<lambda>_. Inr (demo_agent_yaml 4294967296)) (\<lambda>_. []) id (\<lambda>_. Inl []) id (\<lambda>_. []) [] []"
  obtain c where c: "?p = Inr c"
    by (simp add: parse_agent_config_yaml_def parse_agent_yaml_def demo_agent_yaml_def yaml_field_def yaml_prompt_def)
  have "yaml_get (demo_agent_yaml 4294967296) ''agent'' =
      Some (YMap [(YStr ''model'', YMap []), (YStr ''max_turns'', YInt 4294967296)])"
    by (simp add: demo_agent_yaml_def)
  moreover have "yaml_field yaml_u64 (YMap [(YStr ''model'', YMap []), (YStr ''max_turns'', YInt 4294967296)]) ''max_turns''
      = Some 4294967296"
    by (simp add: yaml_field_def)
  moreover have "eng_config (demo_world c demo_inbound []) = c" by (simp add: demo_world_def)
  ultimately show ?thesis
    using max_turns_wraps [OF refl _ _ _ c, of _ 4294967296 "demo_world c demo_inbound []" demo_deps "''hi''"] c
    by auto
qed

text \<open>A permission that is misspelt grants the tool.\<close>

lemma misspelt_permission_allows: "parse_permission ''denied'' = Allow"
  by (simp add: parse_permission_def trim_def is_blank_def lower_char_def)

subsection \<open>Engines and states between calls\<close>

text \<open>
  An engine is lost to a state that is in use. A call of \<^verbatim>\<open>run\<close> whose state another round has
  taken fails, and it has taken the engine out of its cell by then and does not put it back: every
  later call fails, whatever its state. With both cells full, a round that ends fills both again.
\<close>

theorem engine_lost_with_state:
  assumes "pc_engine c = Some w"
  shows "(pc_states c sid = None \<longrightarrow>
       fst (PyEngine_run D show_err sid input c) = Fail (PyRuntimeError ''state already consumed by a previous run'') \<and>
       (\<forall>sid' input'. PyEngine_run D show_err sid' input' (snd (PyEngine_run D show_err sid input c)) =
          (Fail (PyRuntimeError ''engine already consumed by a previous run''), snd (PyEngine_run D show_err sid input c)))) \<and>
    (\<forall>s. pc_states c sid = Some s \<longrightarrow> fst (run D input (w\<lparr>w_state := s\<rparr>)) \<noteq> Panic \<longrightarrow> fst (run D input (w\<lparr>w_state := s\<rparr>)) \<noteq> Hang \<longrightarrow>
       pc_engine (snd (PyEngine_run D show_err sid input c)) \<noteq> None \<and>
       pc_states (snd (PyEngine_run D show_err sid input c)) sid \<noteq> None)"
  using assms by (auto simp: PyEngine_run_def PyEngine_run_begin_def PyEngine_run_end_def Let_def split: prod.splits)

theorem engine_lost_with_state_witness:
  "fst (PyEngine_run demo_deps (\<lambda>_. []) 1 ''hi''
     (snd (PyEngine_run demo_deps (\<lambda>_. []) 0 ''hi'' \<lparr>pc_engine = Some demo_start, pc_states = [1 \<mapsto> State_new]\<rparr>))) =
   Fail (PyRuntimeError ''engine already consumed by a previous run'')"
  using engine_lost_with_state [of "\<lparr>pc_engine = Some demo_start, pc_states = [1 \<mapsto> State_new]\<rparr>" demo_start 0
      demo_deps "\<lambda>_. []" "''hi''"] by simp

lemma chat_Ret:
  assumes "chat D show_err input h = (Ret out, h')"
    and "ids_fresh ((ph_engine h)\<lparr>w_state := ph_default_state h\<rparr>)"
  shows "\<exists>blocks fin. list_all tool_block blocks \<and> closing out fin \<and>
    st_messages (ph_default_state h') =
      st_messages (ph_default_state h) @ [ModelMessage_new ''user'' input] @ concat blocks @ fin \<and>
    ids_fresh ((ph_engine h')\<lparr>w_state := ph_default_state h'\<rparr>)"
proof -
  obtain r w where run: "run D input ((ph_engine h)\<lparr>w_state := ph_default_state h\<rparr>) = (r, w)" by (metis surj_pair)
  with assms(1) have "r = Ret out" and h': "ph_default_state h' = w_state w" "ph_engine h' = w"
    by (auto simp: chat_def chat_begin_def chat_end_def Let_def py_result_def split: outcome.splits if_splits)
  with run_Ret [of D input "(ph_engine h)\<lparr>w_state := ph_default_state h\<rparr>" out w] run assms(2) show ?thesis by auto
qed

text \<open>
  \<^verbatim>\<open>chat\<close> is not single-turn. On a new handle, the second call continues the conversation of the first:
  the state it leaves behind holds both requests, each with its answer, so the model has seen the
  first request when it answers the second.
\<close>

theorem chat_remembers:
  assumes "chat D show_err a (PyEngineHandle_from_arc w) = (Ret out1, h1)" and "chat D show_err b h1 = (Ret out2, h2)"
  shows "\<exists>blocks1 fin1 blocks2 fin2. list_all tool_block (blocks1 @ blocks2) \<and> closing out1 fin1 \<and> closing out2 fin2 \<and>
    st_messages (ph_default_state h2) =
      ModelMessage_new ''user'' a # concat blocks1 @ fin1 @ ModelMessage_new ''user'' b # concat blocks2 @ fin2"
proof -
  let ?h = "PyEngineHandle_from_arc w"
  have "ids_fresh ((ph_engine ?h)\<lparr>w_state := ph_default_state ?h\<rparr>)" and "st_messages (ph_default_state ?h) = []"
    by (simp_all add: PyEngineHandle_from_arc_def ids_fresh_def State_new_def)
  with chat_Ret [OF assms(1)] obtain blocks1 fin1 where 1: "list_all tool_block blocks1" "closing out1 fin1"
    "st_messages (ph_default_state h1) = ModelMessage_new ''user'' a # concat blocks1 @ fin1"
    "ids_fresh ((ph_engine h1)\<lparr>w_state := ph_default_state h1\<rparr>)" by auto
  from chat_Ret [OF assms(2) 1(4)] 1 show ?thesis by (force simp: list_all_append)
qed

text \<open>A round that the demo model answers at once.\<close>

lemma demo_answer:
  fixes i :: uuid
  assumes "net_ok b" "st_wait_events s = []" "turn_count s < 6"
  shows "\<exists>b' s'. net_ok b' \<and> st_wait_events s' = [] \<and> turn_count s' = turn_count s + 1 \<and>
    run demo_deps input (demo_at s b i (demo_reply MODEL_RESPONSE i [(''message'', JObj [(''content'', JStr ''done'')])] # inb)) =
      (Ret ''done'', demo_at s' b' (i + 4) inb)"
proof -
  define kvs where "kvs = [(''message'', JObj [(''content'', JStr ''done'')])]"
  let ?pl = "msg_payload (demo_reply MODEL_RESPONSE i kvs)" and ?s = "prepare_round input s"
  let ?s1 = "push_message (assistant_message (response_content ?pl) (response_tool_calls ?pl)) (inc_turn ?s)"
  have s: "st_wait_events ?s = []" "turn_count ?s = turn_count s"
    using assms(2) by (simp_all add: prepare_round_def Let_def inc_round_def)
  obtain b1 where b1: "net_ok b1" and m: "do_model_turn demo_deps (demo_at ?s b i (demo_reply MODEL_RESPONSE i kvs # inb)) =
      (Ret (response_content ?pl, response_tool_calls ?pl), demo_at ?s1 b1 (i + 4) inb)"
    using do_model_turn_demo [OF assms(1) s(1), of kvs i inb] by (auto simp: kvs_def)
  have pl: "response_content ?pl = ''done''" "response_tool_calls ?pl = []"
    by (simp_all add: response_content_def response_tool_calls_def kvs_def unwrap_str_def demo_reply_payload)
  have s1: "st_wait_events ?s1 = []" "turn_count ?s1 = turn_count s + 1"
    using s by (simp_all add: assistant_message_def ModelMessage_new_def inc_turn_def)
  with assms(3) s(2) have "run_turn demo_deps (demo_at ?s b i (demo_reply MODEL_RESPONSE i kvs # inb)) =
      (Ret (Some ''done''), demo_at ?s1 b1 (i + 4) inb)"
    by (simp add: run_turn_def demo_run m pl check_max_turns_demo)
  then have "run_loop demo_deps (demo_at ?s b i (demo_reply MODEL_RESPONSE i kvs # inb)) =
      (Ret ''done'', demo_at ?s1 b1 (i + 4) inb)"
    by (subst run_loop.simps) simp
  then have "run demo_deps input (demo_at s b i (demo_reply MODEL_RESPONSE i kvs # inb)) =
      (Ret ''done'', demo_at ?s1 b1 (i + 4) inb)"
    by (simp add: run_def run_inner_def Let_def check_pre_saved_def maybe_record_round_start_def
        maybe_record_round_end_def demo_run)
  with b1 s1 show ?thesis unfolding kvs_def by blast
qed

lemma demo_at_state: "(demo_at s b i inb)\<lparr>w_state := s'\<rparr> = demo_at s' b i inb"
  by (simp add: demo_at_def)

theorem chat_remembers_witness:
  "\<exists>w h1 h2 fin1 fin2. chat demo_deps (\<lambda>_. []) ''a'' (PyEngineHandle_from_arc w) = (Ret ''done'', h1) \<and>
     chat demo_deps (\<lambda>_. []) ''b'' h1 = (Ret ''done'', h2) \<and>
     (\<exists>pre. st_messages (ph_default_state h2) = ModelMessage_new ''user'' ''a'' # pre @ ModelMessage_new ''user'' ''b'' # fin2)"
proof -
  let ?r = "\<lambda>i. demo_reply MODEL_RESPONSE i [(''message'', JObj [(''content'', JStr ''done'')])]"
  let ?w = "demo_at State_new demo_net 0 [?r 0, ?r 4]"
  have "st_wait_events State_new = []" "turn_count State_new = 0"
    by (simp_all add: State_new_def OverView_default_def)
  with demo_answer [OF demo_net_ok, of State_new "''a''" 0 "[?r 4]"] obtain b1 s1 where
    1: "net_ok b1" "st_wait_events s1 = []" "turn_count s1 = 1"
      "run demo_deps ''a'' ?w = (Ret ''done'', demo_at s1 b1 4 [?r 4])" by auto
  from demo_answer [OF 1(1,2), of "''b''" 4 "[]"] 1(3) obtain b2 s2 where
    2: "run demo_deps ''b'' (demo_at s1 b1 4 [?r 4]) = (Ret ''done'', demo_at s2 b2 8 [])" by auto
  let ?h1 = "\<lparr>ph_engine = demo_at s1 b1 4 [?r 4], ph_default_state = s1\<rparr>"
  let ?h2 = "\<lparr>ph_engine = demo_at s2 b2 8 [], ph_default_state = s2\<rparr>"
  have c1: "chat demo_deps (\<lambda>_. []) ''a'' (PyEngineHandle_from_arc ?w) = (Ret ''done'', ?h1)"
    using 1(4) by (simp add: chat_def chat_begin_def chat_end_def PyEngineHandle_from_arc_def demo_at_state
        py_result_def demo_run)
  have c2: "chat demo_deps (\<lambda>_. []) ''b'' ?h1 = (Ret ''done'', ?h2)"
    using 2 by (simp add: chat_def chat_begin_def chat_end_def demo_at_state py_result_def demo_run)
  from chat_remembers [OF c1 c2] obtain blocks1 fin1 blocks2 fin2 where
    "st_messages (ph_default_state ?h2) =
       ModelMessage_new ''user'' ''a'' # concat blocks1 @ fin1 @ ModelMessage_new ''user'' ''b'' # concat blocks2 @ fin2"
    by blast
  then have "\<exists>pre fin2. st_messages (ph_default_state ?h2) =
      ModelMessage_new ''user'' ''a'' # pre @ ModelMessage_new ''user'' ''b'' # fin2" by (metis append_assoc)
  with c1 c2 show ?thesis by blast
qed

subsection \<open>Teams\<close>

lemma ids_or_empty:
  "set (List.map_filter g xs) \<subseteq> set (map (\<lambda>x. or_else [] (g x)) xs) \<and>
   set (map (\<lambda>x. or_else [] (g x)) xs) \<subseteq> set (List.map_filter g xs) \<union> {[]}"
  by (induction xs) (auto simp: List.map_filter_simps or_else_def split: option.splits)

text \<open>
  Who the relay takes for members of a team are its engines and pools. Of a readable team file,
  every member is the id of an engine or pool that the builder would make; an engine or pool that
  is not a member has no id in the file, and the builder makes it under the empty name.
\<close>

theorem members_are_team:
  "case PyTeamConfig_from_yaml parse read dbg path of
     Inl e \<Rightarrow> PyTeamMembership_new parse read dbg path = Inl e
   | Inr c \<Rightarrow> (\<exists>members. PyTeamMembership_new parse read dbg path = Inr members \<and>
       members \<subseteq> set (map es_engine_id (tm_persistent_engines c)) \<union> set (map ps_pool_id (tm_subagent_pools c)) \<and>
       set (map es_engine_id (tm_persistent_engines c)) \<union> set (map ps_pool_id (tm_subagent_pools c)) \<subseteq> members \<union> {[]})"
proof (cases "read_team_yaml parse read dbg path")
  case (Inr v)
  note ids = ids_or_empty [of "\<lambda>item. yaml_field yaml_str item ''id''"]
  have "section_ids v sec = List.map_filter (\<lambda>item. yaml_field yaml_str item ''id'') (or_else [] (yaml_field yaml_seq v sec))"
    for sec by (rule section_ids_def)
  moreover have "map es_engine_id (map engine_spec_of_yaml xs) = map (\<lambda>item. or_else [] (yaml_field yaml_str item ''id'')) xs"
    and "map ps_pool_id (map pool_spec_of_yaml xs) = map (\<lambda>item. or_else [] (yaml_field yaml_str item ''id'')) xs" for xs
    by (simp_all add: engine_spec_of_yaml_def pool_spec_of_yaml_def)
  ultimately show ?thesis
    using Inr ids [of "or_else [] (yaml_field yaml_seq v ''persistent_engines'')"]
      ids [of "or_else [] (yaml_field yaml_seq v ''subagent_pools'')"]
    by (simp add: PyTeamConfig_from_yaml_def PyTeamMembership_new_def team_config_of_yaml_def Let_def del: map_map) blast
qed (simp add: PyTeamConfig_from_yaml_def PyTeamMembership_new_def)

text \<open>
  What \<^verbatim>\<open>to_yaml\<close> writes does not determine the team: nothing is quoted, so an id with line ends in it
  reads as two engines. No reader, \<^verbatim>\<open>from_yaml\<close> or any other, gets every team back.
\<close>

theorem team_yaml_ambiguous:
  "PyTeamConfig_to_yaml sn (c\<lparr>tm_persistent_engines :=
      [PyEngineSpec_new (a @ line_end @ ''    config: '' @ p @ line_end @ ''  - id: '' @ b) q subs]\<rparr>) =
    PyTeamConfig_to_yaml sn (c\<lparr>tm_persistent_engines := [PyEngineSpec_new a p [], PyEngineSpec_new b q subs]\<rparr>) \<and>
   \<not> (\<exists>reader. \<forall>c. reader (PyTeamConfig_to_yaml sn c) = c)"
proof
  show eq: "PyTeamConfig_to_yaml sn (c\<lparr>tm_persistent_engines :=
      [PyEngineSpec_new (a @ line_end @ ''    config: '' @ p @ line_end @ ''  - id: '' @ b) q subs]\<rparr>) =
    PyTeamConfig_to_yaml sn (c\<lparr>tm_persistent_engines := [PyEngineSpec_new a p [], PyEngineSpec_new b q subs]\<rparr>)"
    for c :: team_config and a p b q subs
    by (simp add: PyTeamConfig_to_yaml_def engine_yaml_def PyEngineSpec_new_def)
  show "\<not> (\<exists>reader. \<forall>c. reader (PyTeamConfig_to_yaml sn c) = c)"
  proof
    assume "\<exists>reader. \<forall>c. reader (PyTeamConfig_to_yaml sn c) = c"
    then obtain reader where r: "\<And>c. reader (PyTeamConfig_to_yaml sn c) = c" by blast
    let ?c = "PyTeamConfig_new [] []"
    have "?c\<lparr>tm_persistent_engines := [PyEngineSpec_new ([] @ line_end @ ''    config: '' @ [] @ line_end @ ''  - id: '' @ []) [] []]\<rparr> =
        ?c\<lparr>tm_persistent_engines := [PyEngineSpec_new [] [] [], PyEngineSpec_new [] [] []]\<rparr>"
      by (metis eq r)
    then have "length (tm_persistent_engines (?c\<lparr>tm_persistent_engines :=
          [PyEngineSpec_new ([] @ line_end @ ''    config: '' @ [] @ line_end @ ''  - id: '' @ []) [] []]\<rparr>)) =
        length (tm_persistent_engines (?c\<lparr>tm_persistent_engines := [PyEngineSpec_new [] [] [], PyEngineSpec_new [] [] []]\<rparr>))"
      by (rule arg_cong)
    then show False by simp
  qed
qed

lemma build_engines_keys:
  "build_engines T specs es b = (Inr es', b') \<Longrightarrow> set (keys es') = set (keys es) \<union> set (map es_engine_id specs)"
  by (induction specs arbitrary: es b) (auto simp: dom_update split: prod.splits sum.splits)

lemma build_pools_keys:
  "build_pools T specs ps = Inr ps' \<Longrightarrow> set (keys ps') = set (keys ps) \<union> set (map ps_pool_id specs)"
  by (induction specs arbitrary: ps) (auto simp: dom_update split: sum.splits)

lemma build_pools_sizes:
  "build_pools T specs ps = Inr ps' \<Longrightarrow> \<forall>(_, p) \<in> set ps. sp_size p \<ge> 1 \<and> sp_idle p = [] \<Longrightarrow>
     \<forall>(_, p) \<in> set ps'. sp_size p \<ge> 1 \<and> sp_idle p = []"
proof (induction specs arbitrary: ps)
  case (Cons spec specs)
  then obtain p where p: "build_pool_from_spec T spec = Inr p" "build_pools T specs (AList.update (ps_pool_id spec) p ps) = Inr ps'"
    by (auto split: sum.splits)
  then have "sp_size p \<ge> 1 \<and> sp_idle p = []"
    by (auto simp: build_pool_from_spec_def SubagentPool_new_def new_with_strategy_def split: sum.splits)
  with Cons.prems(2) have "\<forall>(_, p) \<in> set (AList.update (ps_pool_id spec) p ps). sp_size p \<ge> 1 \<and> sp_idle p = []"
    by (auto dest!: in_update_D)
  from Cons.IH [OF p(2) this] show ?case .
qed simp

text \<open>
  A team that was built has an engine for every engine of its file and a pool for every pool, and no
  others; the pools are empty and have room for a slot at least, also when the file says 0. A
  stopped team has none of them, whether it was ever started or not.
\<close>

theorem built_team:
  assumes "TeamBuilder_build T c b = (Inr t, b')"
  shows "(Team_engine t i \<noteq> None \<longleftrightarrow> i \<in> set (map es_engine_id (tm_persistent_engines c))) \<and>
    (Team_subagent_pool t i \<noteq> None \<longleftrightarrow> i \<in> set (map ps_pool_id (tm_subagent_pools c))) \<and>
    (\<forall>p. Team_subagent_pool t i = Some p \<longrightarrow> sp_size p \<ge> 1 \<and> sp_idle p = []) \<and>
    Team_engine (fst (Team_stop T t b')) i = None \<and> Team_subagent_pool (fst (Team_stop T t b')) i = None"
proof -
  from assms obtain es ps where t: "build_engines T (tm_persistent_engines c) [] b = (Inr es, b')"
    "build_pools T (tm_subagent_pools c) [] = Inr ps" "te_persistent_engines t = es" "te_subagent_pools t = ps"
    by (auto simp: TeamBuilder_build_def split: prod.splits sum.splits)
  show ?thesis
    using build_engines_keys [OF t(1)] build_pools_keys [OF t(2)] build_pools_sizes [OF t(2)] t(3,4)
    by (auto simp: Team_engine_def Team_subagent_pool_def Team_stop_def map_of_eq_None_iff dest!: map_of_SomeD)
qed

definition demo_team_ops :: "(nat, nat) team_ops" where
  "demo_team_ops = \<lparr>to_mk = (\<lambda>_ _ b. (Inr b, Suc b)), to_drop_engine = (\<lambda>_ b. b), to_read = (\<lambda>_. Inr []),
     to_load = (\<lambda>_ _. Inr AgentConfig_default), to_dbg = id\<rparr>"

definition demo_team :: team_config where
  "demo_team = add_subagent_pool ''tc'' ''tc.yaml'' 0 None
     (add_persistent_engine ''pm'' ''pm.yaml'' [] (PyTeamConfig_new ''dev'' ''shared''))"

theorem built_team_witness:
  "\<exists>t b p. TeamBuilder_build demo_team_ops demo_team 0 = (Inr (t :: (nat, demo_world) team), b) \<and>
     Team_engine t ''pm'' \<noteq> None \<and> Team_subagent_pool t ''tc'' = Some p \<and> sp_size p \<ge> 1"
proof -
  obtain t :: "(nat, demo_world) team" and b where t: "TeamBuilder_build demo_team_ops demo_team 0 = (Inr t, b)"
    by (simp add: TeamBuilder_build_def demo_team_def demo_team_ops_def add_subagent_pool_def add_persistent_engine_def
        PyTeamConfig_new_def PyEngineSpec_new_def PyPoolSpec_new_def build_engine_from_spec_def build_pool_from_spec_def
        load_agent_config_def)
  have "''pm'' \<in> set (map es_engine_id (tm_persistent_engines demo_team))"
    "''tc'' \<in> set (map ps_pool_id (tm_subagent_pools demo_team))"
    by (simp_all add: demo_team_def add_subagent_pool_def add_persistent_engine_def PyTeamConfig_new_def
        PyEngineSpec_new_def PyPoolSpec_new_def)
  with built_team [OF t, of "''pm''"] built_team [OF t, of "''tc''"] t show ?thesis by blast
qed

subsection \<open>Delegation over the bus\<close>

lemma reply_understood:
  assumes "tr_turns_consumed r < 2 ^ 32"
  shows "pool_delegate_result U render cid (delegate_reply U show_err (Some cid) (Inr r)) =
    Inr \<lparr>pd_output = (case tr_output r of JStr s \<Rightarrow> s | j \<Rightarrow> render j), pd_turns_consumed = tr_turns_consumed r,
         pd_pending_peer_messages = tr_pending_peer_messages r\<rparr>"
  using assms by (simp add: pool_delegate_result_def delegate_reply_def cid_value_def or_else_def as_u32_small
      strs_to_value_def)

text \<open>
  C29: a delegation over the bus arrives and comes back. The pool runs the task that the caller named,
  sends its reply to the caller's node alone, and the caller reads out of it the output, the turns and
  the pending messages of the result, or raises the text of the error.
\<close>

theorem delegation_roundtrip:
  assumes "uuid_ok U"
    and "listener_turn U EO mk show_err u (delegate_request U j cid now pool_id task b) p = Some ((ty, to, reply), p')"
  shows "\<exists>r. delegate U EO mk show_err u task p = Some (r, p') \<and> ty = SUBAGENT_RESULT \<and> to = [pool_client pool_id] \<and>
    (case r of
       Inl e \<Rightarrow> pool_delegate_result U render cid reply = Inl (PyRuntimeError (show_err e))
     | Inr tr \<Rightarrow> tr_turns_consumed tr < 2 ^ 32 \<longrightarrow> pool_delegate_result U render cid reply =
         Inr \<lparr>pd_output = (case tr_output tr of JStr s \<Rightarrow> s | j \<Rightarrow> render j), pd_turns_consumed = tr_turns_consumed tr,
              pd_pending_peer_messages = tr_pending_peer_messages tr\<rparr>)"
proof -
  let ?m = "delegate_request U j cid now pool_id task b"
  have m: "correlation_id U ?m = Some cid" "delegate_input (msg_payload ?m) = Inr task" "msg_from ?m = pool_client pool_id"
    using assms(1) by (simp_all add: delegate_request_def Message_with_from_bus_def Message_new_def correlation_id_def
        payload_cid_def delegate_input_def)
  with assms(2) obtain r where r: "delegate U EO mk show_err u task p = Some (r, p')" "ty = SUBAGENT_RESULT"
    "to = [pool_client pool_id]" "reply = delegate_reply U show_err (Some cid) r"
    by (auto simp: listener_turn_def handle_delegate_msg_def)
  moreover have "pool_delegate_result U render cid (delegate_reply U show_err (Some cid) (Inl e)) =
      Inl (PyRuntimeError (show_err e))" for e
    by (simp add: pool_delegate_result_def delegate_reply_def cid_value_def or_else_def)
  ultimately show ?thesis using reply_understood by (auto split: sum.split)
qed

theorem delegation_roundtrip_witness:
  "\<exists>r reply p'. listener_turn unary_uuid (world_engine demo_deps) (\<lambda>_ _. Inl []) (\<lambda>_. []) 0
       (delegate_request unary_uuid 1 2 0 ''p'' ''hi'' (BusId 0)) (demo_slot_pool [Some demo_start]) =
     Some ((SUBAGENT_RESULT, [pool_client ''p''], reply), p') \<and>
     pool_delegate_result unary_uuid (\<lambda>_. []) 2 reply = Inr r \<and> pd_output r = ''done''"
proof -
  obtain w where w: "run demo_deps ''hi'' demo_start = (Ret ''done'', w)" using demo_run_done by blast
  define tr where "tr = \<lparr>tr_output = JStr ''done'', tr_turns_consumed = as_u32 (turn_count (w_state w) - turn_count (w_state demo_start)),
    tr_pending_peer_messages = []\<rparr>"
  have "run_once demo_deps ''hi'' demo_start = (Ret tr, w)" using w by (simp add: run_once_def Let_def tr_def)
  then obtain p' where d: "delegate unary_uuid (world_engine demo_deps) (\<lambda>_ _. Inl []) (\<lambda>_. []) 0 ''hi''
      (demo_slot_pool [Some demo_start]) = Some (Inr tr, p')"
    by (simp add: delegate_def take_slot_def Let_def world_engine_def)
  let ?m = "delegate_request unary_uuid 1 2 0 ''p'' ''hi'' (BusId 0)"
  have "delegate_input (msg_payload ?m) = Inr ''hi''" "msg_from ?m = pool_client ''p''"
    by (simp_all add: delegate_request_def Message_with_from_bus_def Message_new_def delegate_input_def)
  with d have l: "listener_turn unary_uuid (world_engine demo_deps) (\<lambda>_ _. Inl []) (\<lambda>_. []) 0 ?m (demo_slot_pool [Some demo_start]) =
      Some ((SUBAGENT_RESULT, [pool_client ''p''], delegate_reply unary_uuid (\<lambda>_. []) (correlation_id unary_uuid ?m) (Inr tr)), p')"
    by (simp add: listener_turn_def handle_delegate_msg_def)
  have "tr_turns_consumed tr < 2 ^ 32" by (simp add: tr_def as_u32_mod)
  with delegation_roundtrip [OF unary_uuid_ok l, of "\<lambda>_. []"] d l show ?thesis by (auto simp: tr_def)
qed











definition demo_reply :: message where
  "demo_reply = Message_with_from_bus 9 0 SUBAGENT_RESULT (pool_target ''p'') [pool_client ''p'']
     (JObj [(''correlation_id'', JStr (uuid_show unary_uuid 4)), (''ok'', JBool True), (''output'', JStr ''done'')]) (BusId 0)"


end
