(* ===== verification/Relay.thy ===== *)
theory Relay
  imports Py_Agent
begin

text \<open>
  The relay of trace files to Server-Sent Events (\<^verbatim>\<open>py-arf/src/relay\<close>). One driver per engine reads the
  lines of a file that others append to and puts them into a bounded channel; the consumer filters
  and numbers what comes out. A file is its bytes; \<open>valid\<close> says which are UTF-8. Parsing JSON is a
  parameter, \<open>sn\<close> prints a number.
\<close>

subsection \<open>EventFilter and SseFormatter\<close>

record event_filter =
  ef_engine_ids :: "string list option"
  ef_msg_types :: "string list option"
  ef_since_event_seq :: "(string \<times> nat) list"

definition EventFilter_new ::
  "string list option \<Rightarrow> string list option \<Rightarrow> (string \<times> nat) list option \<Rightarrow> event_filter" where
  "EventFilter_new ids types since =
     \<lparr>ef_engine_ids = ids, ef_msg_types = types, ef_since_event_seq = or_else [] since\<rparr>"

definition matches_rust :: "event_filter \<Rightarrow> string \<Rightarrow> string \<Rightarrow> bool" where
  "matches_rust f engine_id ty =
     (if (case ef_engine_ids f of None \<Rightarrow> False | Some ids \<Rightarrow> engine_id \<notin> set ids) then False
      else if (case ef_msg_types f of None \<Rightarrow> False | Some types \<Rightarrow> ty \<notin> set types) then False
      else True)"

definition format_rust :: "(nat \<Rightarrow> string) \<Rightarrow> string \<Rightarrow> nat \<Rightarrow> string \<Rightarrow> string" where
  "format_rust sn event_json event_seq ty =
     ''id: '' @ sn event_seq @ newline # ''event: '' @ ty @ newline # ''data: '' @ event_json @ [newline, newline]"

text \<open>\<^verbatim>\<open>str::parse::<u64>\<close>: an optional plus sign, then digits, no overflow.\<close>

definition digit_value :: "char \<Rightarrow> nat option" where
  "digit_value c = (if CHR ''0'' \<le> c \<and> c \<le> CHR ''9'' then Some (of_char c - 48) else None)"

fun parse_digits :: "nat \<Rightarrow> string \<Rightarrow> nat option" where
  "parse_digits n [] = Some n"
| "parse_digits n (c # cs) =
     (case digit_value c of
        None \<Rightarrow> None
      | Some d \<Rightarrow> if n * 10 + d < 2 ^ 64 then parse_digits (n * 10 + d) cs else None)"

definition parse_u64 :: "string \<Rightarrow> nat option" where
  "parse_u64 s =
     (let ds = (case s of c # cs \<Rightarrow> if c = CHR ''+'' then cs else s | [] \<Rightarrow> [])
      in if ds = [] then None else parse_digits 0 ds)"

definition parse_last_event_id :: "string \<Rightarrow> string \<times> nat" where
  "parse_last_event_id s =
     (if CHR '':'' \<in> set s
      then (takeWhile (\<lambda>c. c \<noteq> CHR '':'') s, or_else 0 (parse_u64 (tl (dropWhile (\<lambda>c. c \<noteq> CHR '':'') s))))
      else (s, 0))"

subsection \<open>JsonlTailer\<close>

text \<open>The reader is its position. Files only grow, so what the buffer holds is still in the file.\<close>

record tailer =
  tl_path :: string
  tl_since_event_seq :: nat
  tl_poll_interval_ms :: millis
  tl_reader :: "nat option"

definition tailer_new :: "string \<Rightarrow> nat \<Rightarrow> millis \<Rightarrow> tailer" where
  "tailer_new path since interval =
     \<lparr>tl_path = path, tl_since_event_seq = since, tl_poll_interval_ms = interval, tl_reader = None\<rparr>"

definition tailer_aexit :: "tailer \<Rightarrow> tailer" where
  "tailer_aexit t = t\<lparr>tl_reader := None\<rparr>"

text \<open>\<^verbatim>\<open>read_line\<close>: up to and with the next newline, or what there is.\<close>

definition first_line :: "string \<Rightarrow> string" where
  "first_line s = takeWhile (\<lambda>c. c \<noteq> newline) s @ (if newline \<in> set s then [newline] else [])"

definition trim_line_end :: "string \<Rightarrow> string" where
  "trim_line_end s = rev (dropWhile (\<lambda>c. c = newline \<or> c = CHR 0x0D) (rev s))"

definition tailer_open :: "(string \<Rightarrow> string option) \<Rightarrow> tailer \<Rightarrow> string + tailer" where
  "tailer_open fs t =
     (case tl_reader t of
        Some _ \<Rightarrow> Inr t
      | None \<Rightarrow> (case fs (tl_path t) of None \<Rightarrow> Inl ''No such file or directory (os error 2)''
                                  | Some _ \<Rightarrow> Inr (t\<lparr>tl_reader := Some 0\<rparr>)))"

text \<open>One pass of the loop over the file as it is: an error, the raw line, or nothing yet.\<close>

definition read_pass :: "(string \<Rightarrow> bool) \<Rightarrow> string \<Rightarrow> tailer \<Rightarrow> (string + string option) \<times> tailer" where
  "read_pass valid content t =
     (case tl_reader t of
        None \<Rightarrow> (Inr None, t)
      | Some pos \<Rightarrow>
          (let line = first_line (drop pos content);
               t' = t\<lparr>tl_reader := Some (pos + length line)\<rparr>
           in if line = [] then (Inr None, t)
              else if \<not> valid line then (Inl ''stream did not contain valid UTF-8'', t')
              else (Inr (Some line), t')))"

text \<open>
  \<^verbatim>\<open>next_line\<close> after the file has been opened: the list holds the content of the file at each pass. It has
  no value when the list is used up, the tailer then still waits.
\<close>

fun next_line :: "(string \<Rightarrow> bool) \<Rightarrow> string list \<Rightarrow> tailer \<Rightarrow> ((string + string) \<times> tailer) option" where
  "next_line valid [] t = None"
| "next_line valid (content # later) t =
     (case read_pass valid content t of
        (Inl e, t') \<Rightarrow> Some (Inl e, t')
      | (Inr (Some line), t') \<Rightarrow> Some (Inr (trim_line_end line), t')
      | (Inr None, t') \<Rightarrow> next_line valid later t')"

subsection \<open>SseRelay and its stream\<close>

text \<open>
  A driver reads, holds a line until the channel has room, or has stopped. \<open>dr_read\<close> is a history
  variable, the raw lines it has read.
\<close>

datatype driver_stage = Reading | Sending string | Stopped

record driver =
  dr_engine_id :: string
  dr_tailer :: tailer
  dr_stage :: driver_stage
  dr_read :: "string list"

text \<open>\<open>rs_sent\<close> and \<open>rs_out\<close> are history variables: all that went into the channel, all chunks given out.\<close>

record relay_stream =
  rs_files :: "string \<Rightarrow> string option"
  rs_tailers :: "(string \<times> tailer) list option"
  rs_drivers :: "driver list"
  rs_channel :: "(string \<times> string) list"
  rs_capacity :: nat
  rs_filter :: event_filter
  rs_event_seq :: nat
  rs_sent :: "(string \<times> string) list"
  rs_out :: "string list"

definition events_path :: "string \<Rightarrow> string \<Rightarrow> string" where
  "events_path storage_root m = path_join storage_root (''events.'' @ m @ ''.jsonl'')"

text \<open>\<open>members\<close> lists the set of the team in the order of its iteration.\<close>

definition SseRelay_stream ::
  "(string \<Rightarrow> string option) \<Rightarrow> string \<Rightarrow> nat \<Rightarrow> string list \<Rightarrow> event_filter \<Rightarrow> relay_stream" where
  "SseRelay_stream fs storage_root buffer_size members f =
     \<lparr>rs_files = fs,
      rs_tailers = Some (map (\<lambda>m. (m, tailer_new (events_path storage_root m) 0 0))
                           (filter (\<lambda>m. fs (events_path storage_root m) \<noteq> None) members)),
      rs_drivers = [], rs_channel = [], rs_capacity = max buffer_size 1, rs_filter = f, rs_event_seq = 0,
      rs_sent = [], rs_out = []\<rparr>"

definition ensure_drivers_spawned :: "relay_stream \<Rightarrow> relay_stream" where
  "ensure_drivers_spawned s =
     (case rs_tailers s of
        None \<Rightarrow> s
      | Some ts \<Rightarrow> s\<lparr>rs_tailers := None,
          rs_drivers := map (\<lambda>(e, t). \<lparr>dr_engine_id = e, dr_tailer = t, dr_stage = Reading, dr_read = []\<rparr>) ts\<rparr>)"

text \<open>One pass of a driver that reads: the file is opened if need be.\<close>

definition driver_read :: "(string \<Rightarrow> bool) \<Rightarrow> (string \<Rightarrow> string option) \<Rightarrow> driver \<Rightarrow> driver" where
  "driver_read valid fs d =
     (case tailer_open fs (dr_tailer d) of
        Inl _ \<Rightarrow> d\<lparr>dr_stage := Stopped\<rparr>
      | Inr t \<Rightarrow>
          (case read_pass valid (or_else [] (fs (tl_path t))) t of
             (Inl _, t) \<Rightarrow> d\<lparr>dr_tailer := t, dr_stage := Stopped\<rparr>
           | (Inr None, t) \<Rightarrow> d\<lparr>dr_tailer := t\<rparr>
           | (Inr (Some line), t) \<Rightarrow>
               d\<lparr>dr_tailer := t, dr_stage := Sending (trim_line_end line), dr_read := dr_read d @ [line]\<rparr>))"

text \<open>What \<^verbatim>\<open>__anext__\<close> makes of one item of the channel: a chunk, or nothing.\<close>

definition relay_item ::
  "(nat \<Rightarrow> string) \<Rightarrow> (string \<Rightarrow> json option) \<Rightarrow> event_filter \<Rightarrow> nat \<Rightarrow> string \<times> string \<Rightarrow> string option \<times> nat" where
  "relay_item sn parse f seq item =
     (let (engine_id, line) = item
      in case parse line of
           None \<Rightarrow> (None, seq)
         | Some parsed \<Rightarrow>
             (let ty = or_else [] (get_str parsed ''event_type'')
              in if \<not> matches_rust f engine_id ty then (None, seq)
                 else (Some (format_rust sn line (seq + 1) ty), seq + 1)))"

text \<open>
  \<^verbatim>\<open>__anext__\<close> on what the channel holds: the chunk, the next number, and the rest. With nothing left it
  waits; the channel is never closed, because the stream holds a sender itself.
\<close>

fun anext ::
  "(nat \<Rightarrow> string) \<Rightarrow> (string \<Rightarrow> json option) \<Rightarrow> event_filter \<Rightarrow> nat \<Rightarrow> (string \<times> string) list
    \<Rightarrow> (string \<times> nat \<times> (string \<times> string) list) option" where
  "anext sn parse f seq [] = None"
| "anext sn parse f seq (item # q) =
     (case relay_item sn parse f seq item of
        (Some chunk, seq') \<Rightarrow> Some (chunk, seq', q)
      | (None, seq') \<Rightarrow> anext sn parse f seq' q)"

definition consume :: "(nat \<Rightarrow> string) \<Rightarrow> (string \<Rightarrow> json option) \<Rightarrow> relay_stream \<Rightarrow> relay_stream" where
  "consume sn parse s =
     (case rs_channel s of
        [] \<Rightarrow> s
      | item # q \<Rightarrow>
          (let (chunk, seq) = relay_item sn parse (rs_filter s) (rs_event_seq s) item
           in s\<lparr>rs_channel := q, rs_event_seq := seq,
                rs_out := rs_out s @ (case chunk of None \<Rightarrow> [] | Some c \<Rightarrow> [c])\<rparr>))"

definition driver_push :: "nat \<Rightarrow> string \<Rightarrow> relay_stream \<Rightarrow> relay_stream" where
  "driver_push k line s =
     (let item = (dr_engine_id (rs_drivers s ! k), line)
      in s\<lparr>rs_channel := rs_channel s @ [item], rs_sent := rs_sent s @ [item],
           rs_drivers := (rs_drivers s)[k := (rs_drivers s ! k)\<lparr>dr_stage := Reading\<rparr>]\<rparr>)"

inductive relay_step ::
  "(nat \<Rightarrow> string) \<Rightarrow> (string \<Rightarrow> json option) \<Rightarrow> (string \<Rightarrow> bool) \<Rightarrow> relay_stream \<Rightarrow> relay_stream \<Rightarrow> bool"
  for sn parse valid where
  append: "rs_files s path = Some content \<Longrightarrow>
    relay_step sn parse valid s (s\<lparr>rs_files := (rs_files s)(path := Some (content @ added))\<rparr>)"
| spawn: "relay_step sn parse valid s (ensure_drivers_spawned s)"
| read: "k < length (rs_drivers s) \<Longrightarrow> dr_stage (rs_drivers s ! k) = Reading \<Longrightarrow>
    relay_step sn parse valid s
      (s\<lparr>rs_drivers := (rs_drivers s)[k := driver_read valid (rs_files s) (rs_drivers s ! k)]\<rparr>)"
| push: "k < length (rs_drivers s) \<Longrightarrow> dr_stage (rs_drivers s ! k) = Sending line \<Longrightarrow>
    length (rs_channel s) < rs_capacity s \<Longrightarrow> relay_step sn parse valid s (driver_push k line s)"
| consume: "relay_step sn parse valid s (consume sn parse s)"

end
