(* ===== verification/Relay_Props.thy ===== *)
theory Relay_Props
  imports Relay
begin

text \<open>
  What the relay guarantees under every interleaving of writers, drivers and consumer: no line is
  lost, repeated or reordered between a file and the channel, the chunks are numbered without gaps;
  and what it does not: a line that is written in two pieces is taken for two.
\<close>

subsection \<open>Lines\<close>

lemma first_line_prefix: "prefix (first_line s) s"
  by (induction s) (auto simp: first_line_def)

subsection \<open>What a driver has read\<close>

text \<open>
  The raw lines of a driver are the file up to its position, the lines it has sent and holds are
  those lines without their ends.
\<close>

definition read_ok :: "(string \<Rightarrow> string option) \<Rightarrow> driver \<Rightarrow> bool" where
  "read_ok fs d \<longleftrightarrow>
     (case tl_reader (dr_tailer d) of
        None \<Rightarrow> dr_read d = []
      | Some pos \<Rightarrow> \<exists>content. fs (tl_path (dr_tailer d)) = Some content \<and> pos \<le> length content \<and>
          prefix (concat (dr_read d)) content \<and>
          (dr_stage d \<noteq> Stopped \<longrightarrow> length (concat (dr_read d)) = pos))"

definition held_line :: "driver \<Rightarrow> string list" where
  "held_line d = (case dr_stage d of Sending line \<Rightarrow> [line] | _ \<Rightarrow> [])"

definition lines_of :: "string \<Rightarrow> (string \<times> string) list \<Rightarrow> string list" where
  "lines_of e items = map snd (filter (\<lambda>(e', _). e' = e) items)"

definition sent_ok :: "(string \<times> string) list \<Rightarrow> driver \<Rightarrow> bool" where
  "sent_ok sent d \<longleftrightarrow> lines_of (dr_engine_id d) sent @ held_line d = map trim_line_end (dr_read d)"

lemma lines_of_simps [simp]:
  "lines_of e [] = []" "lines_of e (xs @ ys) = lines_of e xs @ lines_of e ys"
  "lines_of e ((e', l) # xs) = (if e' = e then [l] else []) @ lines_of e xs"
  by (simp_all add: lines_of_def)

lemma read_ok_append:
  assumes "read_ok fs d" "fs path = Some content"
  shows "read_ok (fs(path := Some (content @ added))) d"
  using assms unfolding read_ok_def by (auto split: option.splits)

lemma read_ok_stage:
  "read_ok fs d \<Longrightarrow> dr_stage d \<noteq> Stopped \<Longrightarrow> read_ok fs (d\<lparr>dr_stage := st\<rparr>)"
  by (auto simp: read_ok_def split: option.splits)

lemma read_pass_ok:
  assumes "read_ok fs d" "dr_stage d = Reading" "tl_reader (dr_tailer d) = Some pos"
    and "line = first_line (drop pos (or_else [] (fs (tl_path (dr_tailer d)))))"
  shows "read_ok fs (d\<lparr>dr_tailer := (dr_tailer d)\<lparr>tl_reader := Some (pos + length line)\<rparr>,
      dr_stage := Sending x, dr_read := dr_read d @ [line]\<rparr>)"
    and "read_ok fs (d\<lparr>dr_tailer := (dr_tailer d)\<lparr>tl_reader := Some (pos + length line)\<rparr>, dr_stage := Stopped\<rparr>)"
proof -
  from assms obtain content where c: "fs (tl_path (dr_tailer d)) = Some content" "pos \<le> length content"
    "prefix (concat (dr_read d)) content" "length (concat (dr_read d)) = pos"
    by (auto simp: read_ok_def)
  have line: "line = first_line (drop pos content)" using assms(4) c by (simp add: or_else_def)
  obtain r where r: "content = concat (dr_read d) @ r" using c(3) by (auto elim: prefixE)
  then have "drop pos content = r" using c(4) by auto
  with line first_line_prefix [of r] r have "prefix (concat (dr_read d) @ line) content" by simp
  moreover from this have "pos + length line \<le> length content" using c(4) by (auto dest!: prefix_length_le)
  ultimately show "read_ok fs (d\<lparr>dr_tailer := (dr_tailer d)\<lparr>tl_reader := Some (pos + length line)\<rparr>,
      dr_stage := Sending x, dr_read := dr_read d @ [line]\<rparr>)"
    and "read_ok fs (d\<lparr>dr_tailer := (dr_tailer d)\<lparr>tl_reader := Some (pos + length line)\<rparr>, dr_stage := Stopped\<rparr>)"
    using c by (simp_all add: read_ok_def)
qed

text \<open>A reading driver that passes over its file once.\<close>

lemma driver_read_ok:
  assumes "read_ok fs d" "sent_ok sent d" "dr_stage d = Reading"
  shows "read_ok fs (driver_read valid fs d) \<and> sent_ok sent (driver_read valid fs d) \<and>
    dr_engine_id (driver_read valid fs d) = dr_engine_id d"
proof (cases "tailer_open fs (dr_tailer d)")
  case (Inl e)
  with assms show ?thesis by (simp add: driver_read_def read_ok_stage sent_ok_def held_line_def)
next
  case (Inr t)
  let ?d = "d\<lparr>dr_tailer := t\<rparr>"
  from Inr assms have t: "read_ok fs ?d" "sent_ok sent ?d" "dr_stage ?d = Reading" "dr_tailer ?d = t"
    by (auto simp: tailer_open_def read_ok_def sent_ok_def held_line_def split: option.splits)
  from Inr obtain pos where pos: "tl_reader t = Some pos" by (auto simp: tailer_open_def split: option.splits)
  let ?line = "first_line (drop pos (or_else [] (fs (tl_path t))))"
  note ok = read_pass_ok [OF t(1,3), of pos ?line, unfolded t(4), OF pos refl]
  show ?thesis
  proof (cases "?line = []")
    case True
    with t Inr pos show ?thesis by (simp add: driver_read_def read_pass_def Let_def sent_ok_def held_line_def)
  next
    case False
    with ok t assms(3) Inr pos show ?thesis
      by (simp add: driver_read_def read_pass_def Let_def sent_ok_def held_line_def)
  qed
qed

subsection \<open>The stream\<close>

text \<open>The chunks that a sequence of items gives, numbered from \<open>seq + 1\<close>.\<close>

fun chunks ::
  "(nat \<Rightarrow> string) \<Rightarrow> (string \<Rightarrow> json option) \<Rightarrow> event_filter \<Rightarrow> nat \<Rightarrow> (string \<times> string) list \<Rightarrow> string list" where
  "chunks sn parse f seq [] = []"
| "chunks sn parse f seq (item # items) =
     (case relay_item sn parse f seq item of
        (Some c, seq') \<Rightarrow> c # chunks sn parse f seq' items
      | (None, seq') \<Rightarrow> chunks sn parse f seq' items)"

lemma relay_item_seq:
  "relay_item sn parse f seq item = (c, seq') \<Longrightarrow> seq' = seq + (if c = None then 0 else 1)"
  by (auto simp: relay_item_def Let_def split: prod.splits option.splits if_splits)

lemma chunks_append:
  "chunks sn parse f seq (xs @ ys) = chunks sn parse f seq xs @ chunks sn parse f (seq + length (chunks sn parse f seq xs)) ys"
  by (induction xs arbitrary: seq) (auto split: prod.splits option.splits dest!: relay_item_seq)

text \<open>The events among the items that parse and pass the filter, each with its type.\<close>

definition accepted ::
  "(string \<Rightarrow> json option) \<Rightarrow> event_filter \<Rightarrow> (string \<times> string) list \<Rightarrow> (string \<times> string) list" where
  "accepted parse f = List.map_filter (\<lambda>(e, line).
     Option.bind (parse line) (\<lambda>v.
       let ty = or_else [] (get_str v ''event_type'') in if matches_rust f e ty then Some (line, ty) else None))"

lemma chunks_accepted:
  "chunks sn parse f seq items =
     map (\<lambda>(k, line, ty). format_rust sn line (Suc k) ty) (enumerate seq (accepted parse f items))"
  by (induction items arbitrary: seq)
    (auto simp: accepted_def List.map_filter_simps relay_item_def Let_def split: option.splits)

definition stream_ok :: "(nat \<Rightarrow> string) \<Rightarrow> (string \<Rightarrow> json option) \<Rightarrow> relay_stream \<Rightarrow> bool" where
  "stream_ok sn parse s \<longleftrightarrow>
     (\<forall>d \<in> set (rs_drivers s). read_ok (rs_files s) d \<and> sent_ok (rs_sent s) d) \<and>
     distinct (map dr_engine_id (rs_drivers s)) \<and>
     (\<forall>ts. rs_tailers s = Some ts \<longrightarrow> distinct (map fst ts) \<and> rs_drivers s = [] \<and> rs_sent s = [] \<and>
        (\<forall>(e, t) \<in> set ts. tl_reader t = None)) \<and>
     length (rs_channel s) \<le> rs_capacity s \<and>
     (\<exists>taken. rs_sent s = taken @ rs_channel s \<and> rs_out s = chunks sn parse (rs_filter s) 0 taken \<and>
        rs_event_seq s = length (rs_out s))"

lemma stream_start: "distinct members \<Longrightarrow> stream_ok sn parse (SseRelay_stream fs dir n members f)"
  by (auto simp: stream_ok_def SseRelay_stream_def tailer_new_def comp_def)

lemma set_list_update_nth:
  "d \<in> set (ds[k := x]) \<Longrightarrow> distinct (map g ds) \<Longrightarrow> k < length ds \<Longrightarrow> d = x \<or> (d \<in> set ds \<and> g d \<noteq> g (ds ! k))"
  by (auto simp: in_set_conv_nth nth_list_update distinct_conv_nth split: if_splits)

lemma sent_ok_other:
  "dr_engine_id d \<noteq> e \<Longrightarrow> sent_ok (sent @ [(e, line)]) d = sent_ok sent d"
  by (simp add: sent_ok_def)

lemma stream_step:
  assumes "relay_step sn parse valid s s'" "stream_ok sn parse s"
  shows "stream_ok sn parse s' \<and> rs_filter s' = rs_filter s \<and> rs_capacity s' = rs_capacity s"
  using assms
proof (cases rule: relay_step.cases)
  case (append path content added)
  with assms(2) show ?thesis by (auto simp: stream_ok_def intro: read_ok_append)
next
  case spawn
  with assms(2) show ?thesis
    by (auto simp: stream_ok_def ensure_drivers_spawned_def read_ok_def sent_ok_def held_line_def comp_def
        split_beta split: option.splits)
next
  case (read k)
  let ?d = "driver_read valid (rs_files s) (rs_drivers s ! k)"
  from read assms(2) have d: "read_ok (rs_files s) ?d" "sent_ok (rs_sent s) ?d"
    "dr_engine_id ?d = dr_engine_id (rs_drivers s ! k)"
    using driver_read_ok [of "rs_files s" "rs_drivers s ! k" "rs_sent s" valid] by (auto simp: stream_ok_def)
  have ids: "map dr_engine_id ((rs_drivers s)[k := ?d]) = map dr_engine_id (rs_drivers s)"
    using d(3) read(2) by (metis list_update_id map_update nth_map)
  have "\<forall>d \<in> set ((rs_drivers s)[k := ?d]). read_ok (rs_files s) d \<and> sent_ok (rs_sent s) d"
    using d(1,2) assms(2) by (auto simp: stream_ok_def dest!: set_update_subset_insert [THEN subsetD])
  moreover have "rs_tailers s = None" using read(2) assms(2) by (cases "rs_tailers s") (auto simp: stream_ok_def)
  ultimately show ?thesis using read(1) ids assms(2) by (simp add: stream_ok_def)
next
  case (push k line)
  let ?o = "rs_drivers s ! k" let ?d = "?o\<lparr>dr_stage := Reading\<rparr>"
  have o: "read_ok (rs_files s) ?o" "sent_ok (rs_sent s) ?o" "distinct (map dr_engine_id (rs_drivers s))"
    using push(2) assms(2) by (auto simp: stream_ok_def)
  have ids: "map dr_engine_id ((rs_drivers s)[k := ?d]) = map dr_engine_id (rs_drivers s)"
    using push(2) by (simp add: map_update list_update_same_conv)
  have "\<forall>d \<in> set ((rs_drivers s)[k := ?d]). read_ok (rs_files s) d \<and> sent_ok (rs_sent s @ [(dr_engine_id ?o, line)]) d"
  proof
    fix d assume "d \<in> set ((rs_drivers s)[k := ?d])"
    with o(3) push(2) consider "d = ?d" | "d \<in> set (rs_drivers s)" "dr_engine_id d \<noteq> dr_engine_id ?o"
      by (auto dest!: set_list_update_nth [where g = dr_engine_id])
    then show "read_ok (rs_files s) d \<and> sent_ok (rs_sent s @ [(dr_engine_id ?o, line)]) d"
    proof cases
      case 1
      with o(1,2) push(3) show ?thesis by (auto simp: read_ok_stage sent_ok_def held_line_def)
    next
      case 2
      with assms(2) show ?thesis by (auto simp: stream_ok_def sent_ok_other)
    qed
  qed
  moreover have "rs_tailers s = None" using push(2) assms(2) by (cases "rs_tailers s") (auto simp: stream_ok_def)
  ultimately show ?thesis using push ids assms(2) by (auto simp: stream_ok_def driver_push_def Let_def)
next
  case consume
  show ?thesis
  proof (cases "rs_channel s")
    case Nil
    with consume assms(2) show ?thesis by (simp add: consume_def)
  next
    case (Cons item q)
    obtain c seq where c: "relay_item sn parse (rs_filter s) (rs_event_seq s) item = (c, seq)" by (metis surj_pair)
    from assms(2) obtain taken where t: "rs_sent s = taken @ item # q" "rs_out s = chunks sn parse (rs_filter s) 0 taken"
      "rs_event_seq s = length (rs_out s)" using Cons by (auto simp: stream_ok_def)
    have "rs_out s @ (case c of None \<Rightarrow> [] | Some x \<Rightarrow> [x]) = chunks sn parse (rs_filter s) 0 (taken @ [item])"
      using c t by (simp add: chunks_append split: option.split)
    moreover have "seq = length (rs_out s @ (case c of None \<Rightarrow> [] | Some x \<Rightarrow> [x]))"
      using relay_item_seq [OF c] t(3) by (simp split: option.split)
    ultimately show ?thesis using consume Cons c t assms(2)
      by (auto simp: stream_ok_def consume_def intro!: exI [of _ "taken @ [item]"])
  qed
qed

lemma stream_reachable:
  assumes "(relay_step sn parse valid)\<^sup>*\<^sup>* (SseRelay_stream fs dir n members f) s" "distinct members"
  shows "stream_ok sn parse s \<and> rs_filter s = f \<and> rs_capacity s = max n 1"
  using assms(1)
proof induction
  case base
  show ?case using stream_start [OF assms(2)] by (simp add: SseRelay_stream_def)
next
  case (step s s')
  with stream_step [OF step(2)] show ?case by simp
qed

text \<open>
  C28: what the relay delivers, under every interleaving of the writers of the trace files, the drivers
  and the consumer. The channel never holds more than its capacity. The chunks given out are those of
  the accepted items taken from the channel, in order, numbered 1, 2, \<open>\<dots>\<close> without gaps. For each engine, the
  lines that went into the channel, with the one its driver holds, are the lines it has read, none
  lost, repeated or reordered, and what it has read is a beginning of its file.
\<close>

theorem relay_delivers_lines:
  assumes "(relay_step sn parse valid)\<^sup>*\<^sup>* (SseRelay_stream fs dir n members f) s" and "distinct members"
  shows "length (rs_channel s) \<le> max n 1 \<and>
    (\<exists>taken. rs_sent s = taken @ rs_channel s \<and>
       rs_out s = map (\<lambda>(k, line, ty). format_rust sn line (Suc k) ty) (enumerate 0 (accepted parse f taken))) \<and>
    (\<forall>d \<in> set (rs_drivers s). lines_of (dr_engine_id d) (rs_sent s) @ held_line d = map trim_line_end (dr_read d) \<and>
       (\<forall>pos. tl_reader (dr_tailer d) = Some pos \<longrightarrow>
          (\<exists>content. rs_files s (tl_path (dr_tailer d)) = Some content \<and> prefix (concat (dr_read d)) content)))"
  using stream_reachable [OF assms] by (fastforce simp: stream_ok_def sent_ok_def read_ok_def chunks_accepted)

theorem relay_delivers_lines_witness:
  "\<exists>s. (relay_step (\<lambda>_. []) (\<lambda>_. None) (\<lambda>_. True))\<^sup>*\<^sup>*
       (SseRelay_stream (\<lambda>_. Some []) ''d'' 4 [''a'', ''b''] (EventFilter_new None None None)) s \<and>
     length (rs_drivers s) = 2 \<and> length (rs_channel s) \<le> 4"
proof -
  let ?s = "SseRelay_stream (\<lambda>_. Some []) ''d'' 4 [''a'', ''b''] (EventFilter_new None None None)"
  have r: "(relay_step (\<lambda>_. []) (\<lambda>_. None) (\<lambda>_. True))\<^sup>*\<^sup>* ?s (ensure_drivers_spawned ?s)"
    by (intro r_into_rtranclp relay_step.spawn)
  moreover have "length (rs_drivers (ensure_drivers_spawned ?s)) = 2"
    by (simp add: ensure_drivers_spawned_def SseRelay_stream_def)
  moreover have "length (rs_channel (ensure_drivers_spawned ?s)) \<le> max 4 1"
    using relay_delivers_lines [OF r] by simp
  ultimately show ?thesis by auto
qed

subsection \<open>A line in two pieces\<close>

text \<open>A stream with one driver, which has read all there is, and an empty channel.\<close>

definition caught_up :: "relay_stream \<Rightarrow> string \<Rightarrow> string \<Rightarrow> string \<Rightarrow> bool" where
  "caught_up s e path content \<longleftrightarrow>
     (\<exists>d. rs_drivers s = [d] \<and> dr_engine_id d = e \<and> dr_stage d = Reading \<and> tl_path (dr_tailer d) = path \<and>
        tl_reader (dr_tailer d) = Some (length content)) \<and>
     rs_files s path = Some content \<and> rs_channel s = [] \<and> rs_capacity s > 0"

text \<open>Something is appended that the driver takes for one line, and then it goes all the way.\<close>

lemma pass_line:
  assumes s: "caught_up s e path content"
    and line: "first_line line = line" "line \<noteq> []" "valid line"
    and item: "relay_item sn parse (rs_filter s) (rs_event_seq s) (e, trim_line_end line) = (c, seq)"
  shows "\<exists>s'. (relay_step sn parse valid)\<^sup>*\<^sup>* s s' \<and> caught_up s' e path (content @ line) \<and>
    rs_filter s' = rs_filter s \<and> rs_event_seq s' = seq \<and>
    rs_out s' = rs_out s @ (case c of None \<Rightarrow> [] | Some x \<Rightarrow> [x])"
proof -
  let ?S = "relay_step sn parse valid"
  from s obtain d where d: "rs_drivers s = [d]" "dr_engine_id d = e" "dr_stage d = Reading" "tl_path (dr_tailer d) = path"
    "tl_reader (dr_tailer d) = Some (length content)" "rs_files s path = Some content" "rs_channel s = []" "rs_capacity s > 0"
    by (auto simp: caught_up_def)
  let ?l = "trim_line_end line"
  let ?a = "s\<lparr>rs_files := (rs_files s)(path := Some (content @ line))\<rparr>"
  let ?d = "d\<lparr>dr_tailer := (dr_tailer d)\<lparr>tl_reader := Some (length content + length line)\<rparr>,
      dr_stage := Sending ?l, dr_read := dr_read d @ [line]\<rparr>"
  let ?b = "?a\<lparr>rs_drivers := [?d]\<rparr>"
  let ?c = "driver_push 0 ?l ?b"
  have "driver_read valid (rs_files ?a) d = ?d"
    using d line by (simp add: driver_read_def tailer_open_def read_pass_def Let_def or_else_def)
  with d have "?S s ?a" "?S ?a ?b"
    using relay_step.append [OF d(6), of sn parse valid line] relay_step.read [of 0 ?a sn parse valid] by simp_all
  moreover have "?S ?b ?c" using relay_step.push [of 0 ?b ?l sn parse valid] d(7,8) by simp
  moreover have "?S ?c (consume sn parse ?c)" by (rule relay_step.consume)
  ultimately have "?S\<^sup>*\<^sup>* s (consume sn parse ?c)" by (meson rtranclp.rtrancl_into_rtrancl rtranclp.rtrancl_refl)
  then show ?thesis
    using d item by (intro exI [of _ "consume sn parse ?c"]) (simp add: consume_def driver_push_def caught_up_def Let_def)
qed

lemma first_line_simps:
  "newline \<notin> set x \<Longrightarrow> first_line x = x" "newline \<notin> set x \<Longrightarrow> first_line (x @ [newline]) = x @ [newline]"
  by (auto simp: first_line_def takeWhile_eq_all_conv takeWhile_append)

lemma start_caught_up:
  assumes "fs (events_path dir e) = Some []"
  shows "\<exists>s. (relay_step sn parse valid)\<^sup>*\<^sup>* (SseRelay_stream fs dir n [e] f) s \<and> caught_up s e (events_path dir e) [] \<and>
    rs_filter s = f \<and> rs_event_seq s = 0 \<and> rs_out s = []"
proof -
  let ?s = "ensure_drivers_spawned (SseRelay_stream fs dir n [e] f)"
  let ?d = "driver_read valid fs (rs_drivers ?s ! 0)"
  have "relay_step sn parse valid (SseRelay_stream fs dir n [e] f) ?s" by (rule relay_step.spawn)
  moreover have "relay_step sn parse valid ?s (?s\<lparr>rs_drivers := [?d]\<rparr>)"
    using relay_step.read [of 0 ?s sn parse valid] assms
    by (simp add: ensure_drivers_spawned_def SseRelay_stream_def)
  ultimately have "(relay_step sn parse valid)\<^sup>*\<^sup>* (SseRelay_stream fs dir n [e] f) (?s\<lparr>rs_drivers := [?d]\<rparr>)"
    by (meson rtranclp.rtrancl_into_rtrancl rtranclp.rtrancl_refl)
  moreover have "caught_up (?s\<lparr>rs_drivers := [?d]\<rparr>) e (events_path dir e) []"
    using assms by (simp add: ensure_drivers_spawned_def SseRelay_stream_def caught_up_def driver_read_def
        tailer_open_def tailer_new_def read_pass_def or_else_def first_line_def)
  ultimately show ?thesis
    by (intro exI [of _ "?s\<lparr>rs_drivers := [?d]\<rparr>"]) (simp add: ensure_drivers_spawned_def SseRelay_stream_def)
qed

text \<open>
  The relay can lose an event that is in the file. A tailer that comes to the end of the file in the
  middle of a line does not wait for the rest of it, so a line that is written in two pieces, neither
  of which is JSON, comes out as two items that the consumer drops; the same line written in one
  piece is delivered. Either way the tailer has read the whole file.
\<close>

theorem torn_line_lost:
  assumes "fs (events_path dir e) = Some []" and "x \<noteq> []" "newline \<notin> set (x @ y)"
    and "valid x" "valid (y @ [newline])" "valid (x @ y @ [newline])"
    and "parse (trim_line_end x) = None" "parse (trim_line_end (y @ [newline])) = None"
    and "parse (trim_line_end (x @ y @ [newline])) = Some v" "matches_rust f e (or_else [] (get_str v ''event_type''))"
  shows "(\<exists>s. (relay_step sn parse valid)\<^sup>*\<^sup>* (SseRelay_stream fs dir n [e] f) s \<and>
       caught_up s e (events_path dir e) (x @ y @ [newline]) \<and> rs_out s = []) \<and>
    (\<exists>s. (relay_step sn parse valid)\<^sup>*\<^sup>* (SseRelay_stream fs dir n [e] f) s \<and>
       caught_up s e (events_path dir e) (x @ y @ [newline]) \<and>
       rs_out s = [format_rust sn (trim_line_end (x @ y @ [newline])) 1 (or_else [] (get_str v ''event_type''))])"
proof -
  let ?S = "relay_step sn parse valid" and ?p = "events_path dir e"
  from start_caught_up [of fs dir e sn parse valid n f, OF assms(1)] obtain s where
    s: "?S\<^sup>*\<^sup>* (SseRelay_stream fs dir n [e] f) s" "caught_up s e ?p []" "rs_filter s = f" "rs_event_seq s = 0" "rs_out s = []"
    by blast
  have lines: "first_line x = x" "first_line (y @ [newline]) = y @ [newline]"
    "first_line (x @ y @ [newline]) = x @ y @ [newline]"
    using assms(3) first_line_simps(1) [of x] first_line_simps(2) [of y] first_line_simps(2) [of "x @ y"] by auto
  have drop: "relay_item sn parse f 0 (e, l) = (None, 0)" if "parse l = None" for l
    using that by (simp add: relay_item_def)
  from pass_line [where valid = valid and line = x, OF s(2) lines(1) assms(2,4), of sn parse None 0] drop [OF assms(7)] s obtain s1 where
    s1: "?S\<^sup>*\<^sup>* s s1" "caught_up s1 e ?p x" "rs_filter s1 = f" "rs_event_seq s1 = 0" "rs_out s1 = []" by auto
  from pass_line [where valid = valid and line = "y @ [newline]", OF s1(2) lines(2) _ assms(5), of sn parse None 0] drop [OF assms(8)] s1 obtain s2 where
    s2: "?S\<^sup>*\<^sup>* s1 s2" "caught_up s2 e ?p (x @ y @ [newline])" "rs_out s2 = []" by auto
  have "relay_item sn parse f 0 (e, trim_line_end (x @ y @ [newline])) =
      (Some (format_rust sn (trim_line_end (x @ y @ [newline])) 1 (or_else [] (get_str v ''event_type''))), 1)"
    using assms(9,10) by (simp add: relay_item_def Let_def)
  with pass_line [where valid = valid and line = "x @ y @ [newline]", OF s(2) lines(3) _ assms(6), of sn parse _ 1] s obtain s3 where
    "?S\<^sup>*\<^sup>* s s3" "caught_up s3 e ?p (x @ y @ [newline])"
    "rs_out s3 = [format_rust sn (trim_line_end (x @ y @ [newline])) 1 (or_else [] (get_str v ''event_type''))]"
    by fastforce
  with s(1) s1(1) s2 show ?thesis by (meson rtranclp_trans)
qed

theorem torn_line_lost_witness:
  "\<exists>s. (relay_step (\<lambda>_. ''1'') (\<lambda>l. if l = ''{}'' then Some (JObj []) else None) (\<lambda>_. True))\<^sup>*\<^sup>*
       (SseRelay_stream (\<lambda>_. Some []) ''d'' 1 [''a''] (EventFilter_new None None None)) s \<and>
     caught_up s ''a'' (events_path ''d'' ''a'') [CHR ''{'', CHR ''}'', newline] \<and> rs_out s = []"
  using torn_line_lost [of "\<lambda>_. Some []" "''d''" "''a''" "''{''" "''}''" "\<lambda>_. True"
      "\<lambda>l. if l = ''{}'' then Some (JObj []) else None" "JObj []" "EventFilter_new None None None" "\<lambda>_. ''1''" 1]
  by (simp add: trim_line_end_def EventFilter_new_def matches_rust_def)

subsection \<open>Event ids\<close>

text \<open>The decimal form of a number, as \<^verbatim>\<open>Display\<close> prints it.\<close>

definition digit_char :: "nat \<Rightarrow> char" where
  "digit_char d = ''0123456789'' ! d"

fun dec :: "nat \<Rightarrow> string" where
  "dec n = (if n < 10 then [digit_char n] else dec (n div 10) @ [digit_char (n mod 10)])"

declare dec.simps [simp del]

lemma digit_char:
  assumes "d < 10"
  shows "digit_value (digit_char d) = Some d" "digit_char d \<noteq> CHR '':''" "digit_char d \<noteq> CHR ''+''"
proof -
  from assms have "d \<in> {0, 1, 2, 3, 4, 5, 6, 7, 8, 9}" by auto
  then show "digit_value (digit_char d) = Some d" "digit_char d \<noteq> CHR '':''" "digit_char d \<noteq> CHR ''+''"
    by (auto simp: digit_char_def digit_value_def less_eq_char_def nth_Cons')
qed

lemma parse_digits_snoc:
  "parse_digits k xs = Some m \<Longrightarrow> d < 10 \<Longrightarrow> m * 10 + d < 2 ^ 64 \<Longrightarrow>
     parse_digits k (xs @ [digit_char d]) = Some (m * 10 + d)"
  by (induction k xs rule: parse_digits.induct) (auto simp: digit_char split: option.splits if_splits)

lemma parse_dec: "n < 2 ^ 64 \<Longrightarrow> parse_digits 0 (dec n) = Some n"
proof (induction n rule: dec.induct)
  case (1 n)
  show ?case
  proof (cases "n < 10")
    case True
    then show ?thesis by (subst dec.simps) (simp add: digit_char)
  next
    case False
    with 1 have "parse_digits 0 (dec (n div 10)) = Some (n div 10)" by simp
    from parse_digits_snoc [OF this, of "n mod 10"] 1(2) False show ?thesis
      by (subst dec.simps) simp
  qed
qed

lemma dec_chars: "dec n \<noteq> [] \<and> CHR '':'' \<notin> set (dec n) \<and> hd (dec n) \<noteq> CHR ''+''"
proof (induction n rule: dec.induct)
  case (1 n)
  show ?case
  proof (cases "n < 10")
    case True
    then have "dec n = [digit_char n]" by (subst dec.simps) simp
    with True show ?thesis by (metis digit_char list.sel(1) list.simps(3) set_ConsD empty_set empty_iff)
  next
    case False
    then have "dec n = dec (n div 10) @ [digit_char (n mod 10)]" by (subst dec.simps) simp
    with 1 False show ?thesis using digit_char(2) [of "n mod 10"] by auto
  qed
qed

text \<open>
  \<^verbatim>\<open>parse_last_event_id\<close> undoes the form \<^verbatim>\<open>node:seq\<close>, for every node id without a colon; but the
  ids that the relay writes are the number alone, and of those it makes a node with that name and
  event 0.
\<close>

theorem last_event_id:
  assumes "CHR '':'' \<notin> set node" "n < 2 ^ 64"
  shows "parse_last_event_id (node @ CHR '':'' # dec n) = (node, n) \<and> parse_last_event_id (dec n) = (dec n, 0)"
proof -
  have "parse_u64 (dec n) = Some n"
    using parse_dec [OF assms(2)] dec_chars [of n] by (cases "dec n") (auto simp: parse_u64_def)
  with assms(1) dec_chars [of n] show ?thesis
    by (auto simp: parse_last_event_id_def or_else_def takeWhile_append dropWhile_append)
qed

theorem last_event_id_witness:
  "parse_last_event_id (''engine/deepseek/pm'' @ CHR '':'' # dec 17) = (''engine/deepseek/pm'', 17)"
  using last_event_id [of "''engine/deepseek/pm''" 17] by simp

end
