(* ===== verification/Disk_Backend.thy ===== *)
theory Disk_Backend
  imports Backend
begin

text \<open>
  The backends of \<^verbatim>\<open>crates/arf-backend\<close> that work on the disk: \<^verbatim>\<open>filesystem.rs\<close>, files below a root
  directory, and \<^verbatim>\<open>local_shell.rs\<close>, the same with shell commands.

  The operating system is a parameter: a record of the calls the source makes, over a state \<open>'s\<close> of
  the file system. Calls that read see the state, calls that change it return the next one; nothing
  else changes it during an operation. A path on disk is absolute and given by its components. Glob
  patterns (\<^verbatim>\<open>globset\<close>), regular expressions and the conversion of times (\<^verbatim>\<open>chrono\<close>) are fields
  of the same record.
\<close>

subsection \<open>What the operating system offers\<close>

type_synonym disk_path = "string list"

record io_error =
  io_not_found :: bool
  io_text :: string

text \<open>Times are nanoseconds from the epoch, as far as the system knows them (\<^verbatim>\<open>.ok()\<close>).\<close>

record disk_meta =
  dm_is_dir :: bool
  dm_is_symlink :: bool
  dm_len :: nat
  dm_modified :: "int option"
  dm_created :: "int option"

text \<open>
  An entry of a walk (\<^verbatim>\<open>walkdir::DirEntry\<close>): its metadata are those of a link itself, \<open>wi_is_file\<close>
  (\<^verbatim>\<open>Path::is_file\<close>) those of what the link points to.
\<close>

record walk_info =
  wi_path :: disk_path
  wi_name :: string
  wi_meta :: "io_error + disk_meta"
  wi_is_file :: bool

datatype walk = Walk_Error io_error | Walk_Entry walk_info "walk list"

text \<open>A shell process: whether and when it ends, its output and exit code, the file system at a time.\<close>

record 's shell_run =
  sr_ends :: "millis option"
  sr_output :: "io_error + string \<times> string \<times> int option"
  sr_state :: "millis \<Rightarrow> 's"

record ('s, 'g) disk =
  dk_canonicalize :: "disk_path \<Rightarrow> 's \<Rightarrow> io_error + disk_path"
  dk_metadata :: "disk_path \<Rightarrow> 's \<Rightarrow> io_error + disk_meta"
  dk_read_dir :: "disk_path \<Rightarrow> 's \<Rightarrow> io_error + (io_error + string \<times> (io_error + disk_meta)) list"
  dk_read :: "disk_path \<Rightarrow> 's \<Rightarrow> io_error + string"
  dk_write :: "disk_path \<Rightarrow> string \<Rightarrow> 's \<Rightarrow> (io_error + unit) \<times> 's"
  dk_create_dir_all :: "disk_path \<Rightarrow> 's \<Rightarrow> (io_error + unit) \<times> 's"
  dk_remove_file :: "disk_path \<Rightarrow> 's \<Rightarrow> (io_error + unit) \<times> 's"
  dk_remove_dir_all :: "disk_path \<Rightarrow> 's \<Rightarrow> (io_error + unit) \<times> 's"
  dk_walk :: "disk_path \<Rightarrow> 's \<Rightarrow> walk"
  dk_spawn :: "string \<Rightarrow> disk_path \<Rightarrow> 's \<Rightarrow> 's shell_run"
  dk_lossy :: "string \<Rightarrow> string"
  dk_utf8_valid :: "string \<Rightarrow> bool"
  dk_from_timestamp :: "int \<Rightarrow> nat \<Rightarrow> millis option"
  dk_glob_new :: "string \<Rightarrow> string + 'g"
  dk_glob_match :: "'g \<Rightarrow> string \<Rightarrow> bool"
  dk_regex_escape :: "string \<Rightarrow> string"
  dk_regex_new :: "string \<Rightarrow> string + (string \<Rightarrow> bool)"

subsection \<open>Paths on disk\<close>

definition path_components :: "string \<Rightarrow> disk_path" where
  "path_components raw = filter (\<lambda>c. c \<noteq> [] \<and> c \<noteq> ''.'') (split_on (CHR ''/'') raw)"

definition path_text :: "disk_path \<Rightarrow> string" where
  "path_text p = CHR ''/'' # join ''/'' p"

definition disk_parent :: "disk_path \<Rightarrow> disk_path option" where
  "disk_parent p = (if p = [] then None else Some (butlast p))"

text \<open>\<^verbatim>\<open>PathBuf::pop\<close> fails on the root directory only; there the two dots are kept.\<close>

definition push_component :: "disk_path \<Rightarrow> string \<Rightarrow> disk_path" where
  "push_component result c =
     (if c = ''..'' then (if result = [] then [''..''] else butlast result) else result @ [c])"

definition normalize_lexically :: "disk_path \<Rightarrow> disk_path" where
  "normalize_lexically p = foldl push_component [] p"

definition path_strip :: "disk_path \<Rightarrow> disk_path \<Rightarrow> disk_path option" where
  "path_strip rdir p = (if prefix rdir p then Some (drop (length rdir) p) else None)"

text \<open>\<^verbatim>\<open>path.strip_prefix(&self.root).unwrap_or(path)\<close>, as text.\<close>

definition rel_text :: "disk_path \<Rightarrow> disk_path \<Rightarrow> string" where
  "rel_text rdir p = (case path_strip rdir p of Some rel \<Rightarrow> join ''/'' rel | None \<Rightarrow> path_text p)"

definition join_str :: "backend_path \<Rightarrow> string \<Rightarrow> backend_path" where
  "join_str p segment =
     (let sep = (if as_path p \<noteq> [] \<and> last (as_path p) = CHR ''/'' then '''' else ''/'')
      in case BackendPath_new (as_path p @ sep @ segment) of Inl _ \<Rightarrow> p | Inr q \<Rightarrow> q)"

definition meta_to_datetime :: "('s, 'g) disk \<Rightarrow> int option \<Rightarrow> millis option" where
  "meta_to_datetime D t =
     (case t of
        None \<Rightarrow> None
      | Some n \<Rightarrow>
          if n < 0 then None
          else dk_from_timestamp D (sint (word_of_int (n div 1000000000) :: 64 word)) (nat (n mod 1000000000)))"

definition io_err :: "io_error \<Rightarrow> backend_error" where
  "io_err e = BackendIo (io_text e)"

subsection \<open>The backend and its paths\<close>

record 'g filesystem_backend =
  fb_root :: disk_path
  fb_glob_cache :: "(string \<times> 'g) list"

definition FilesystemBackend_new ::
  "('s, 'g) disk \<Rightarrow> string \<Rightarrow> 's \<Rightarrow> backend_error + 'g filesystem_backend" where
  "FilesystemBackend_new D rdir s =
     (if \<not> starts_with ''/'' rdir then Inl (InvalidPath (dk_lossy D rdir))
      else case dk_metadata D (path_components rdir) s of
             Inl e \<Rightarrow> Inl (io_err e)
           | Inr meta \<Rightarrow>
               if \<not> dm_is_dir meta
               then Inl (BackendIo (''root is not a directory: '' @ dk_lossy D rdir))
               else Inr \<lparr>fb_root = path_components rdir, fb_glob_cache = []\<rparr>)"

definition disk_candidate :: "'g filesystem_backend \<Rightarrow> backend_path \<Rightarrow> disk_path" where
  "disk_candidate b p = fb_root b @ path_components (dropWhile (\<lambda>c. c = CHR ''/'') (as_path p))"

definition disk_resolve ::
  "('s, 'g) disk \<Rightarrow> 'g filesystem_backend \<Rightarrow> backend_path \<Rightarrow> 's \<Rightarrow> backend_error + disk_path" where
  "disk_resolve D b p s =
     (let candidate = disk_candidate b p;
          canonical = (case dk_canonicalize D candidate s of
                         Inr q \<Rightarrow> q
                       | Inl _ \<Rightarrow> normalize_lexically candidate)
      in case dk_canonicalize D (fb_root b) s of
           Inl e \<Rightarrow> Inl (io_err e)
         | Inr root_canonical \<Rightarrow>
             if \<not> prefix root_canonical canonical
             then Inl (PermissionDenied (as_path p) (''path escapes root: '' @ dk_lossy D (path_text canonical)))
             else Inr canonical)"

definition compile_glob ::
  "('s, 'g) disk \<Rightarrow> string \<Rightarrow> 'g filesystem_backend \<Rightarrow> (backend_error + 'g) \<times> 'g filesystem_backend" where
  "compile_glob D pattern b =
     (case find (\<lambda>(p, _). p = pattern) (fb_glob_cache b) of
        Some (_, matcher) \<Rightarrow> (Inr matcher, b)
      | None \<Rightarrow>
          (case dk_glob_new D pattern of
             Inl e \<Rightarrow> (Inl (BackendIo (''bad glob: '' @ e)), b)
           | Inr matcher \<Rightarrow> (Inr matcher, b\<lparr>fb_glob_cache := fb_glob_cache b @ [(pattern, matcher)]\<rparr>)))"

subsection \<open>The operations\<close>

definition disk_info :: "('s, 'g) disk \<Rightarrow> string \<Rightarrow> disk_meta \<Rightarrow> file_info" where
  "disk_info D path meta =
     \<lparr>fi_path = path, fi_is_dir = dm_is_dir meta, fi_size = dm_len meta,
      fi_modified_at = meta_to_datetime D (dm_modified meta)\<rparr>"

fun disk_ls_entries ::
  "('s, 'g) disk \<Rightarrow> backend_path \<Rightarrow> (io_error + string \<times> (io_error + disk_meta)) list
    \<Rightarrow> backend_error + file_info list" where
  "disk_ls_entries D path [] = Inr []"
| "disk_ls_entries D path (Inl e # es) = Inl (io_err e)"
| "disk_ls_entries D path (Inr (file_name, Inl e) # es) = Inl (io_err e)"
| "disk_ls_entries D path (Inr (file_name, Inr meta) # es) =
     map_sum id ((#) (disk_info D (as_path (join_str path (dk_lossy D file_name))) meta))
       (disk_ls_entries D path es)"

definition disk_ls ::
  "('s, 'g) disk \<Rightarrow> 'g filesystem_backend \<Rightarrow> backend_path \<Rightarrow> 's \<Rightarrow> backend_error + ls_result" where
  "disk_ls D b path s =
     (case disk_resolve D b path s of
        Inl e \<Rightarrow> Inl e
      | Inr full \<Rightarrow>
          (case dk_metadata D full s of
             Inl e \<Rightarrow> Inl (io_err e)
           | Inr meta \<Rightarrow>
               if \<not> dm_is_dir meta then Inl (NotADirectory (as_path path))
               else (case dk_read_dir D full s of
                       Inl e \<Rightarrow> Inl (io_err e)
                     | Inr entries \<Rightarrow>
                         map_sum id (\<lambda>rs. \<lparr>lr_error = None, lr_entries = Some rs\<rparr>)
                           (disk_ls_entries D path entries))))"

definition disk_read ::
  "('s, 'g) disk \<Rightarrow> 'g filesystem_backend \<Rightarrow> backend_path \<Rightarrow> nat \<Rightarrow> nat \<Rightarrow> 's \<Rightarrow> backend_error + read_result" where
  "disk_read D b path offset limit s =
     (case disk_resolve D b path s of
        Inl e \<Rightarrow> Inl e
      | Inr full \<Rightarrow>
          (case dk_metadata D full s of
             Inl e \<Rightarrow>
               if io_not_found e then Inr \<lparr>rr_error = Some ''file_not_found'', rr_file_data = None\<rparr>
               else Inl (io_err e)
           | Inr meta \<Rightarrow>
               if dm_is_dir meta then Inl (IsDirectory (as_path path))
               else if dm_is_symlink meta
               then Inl (PermissionDenied (as_path path) ''symlinks not followed for read'')
               else (case dk_read D full s of
                       Inl e \<Rightarrow> Inl (io_err e)
                     | Inr content \<Rightarrow>
                         if \<not> dk_utf8_valid D content
                         then Inr \<lparr>rr_error = Some ''file is binary; base64 encoding not yet supported'',
                                   rr_file_data = None\<rparr>
                         else (let ls = lines content;
                                   start = min offset (length ls);
                                   stop = (if limit = 0 then length ls else min (start + limit) (length ls))
                               in Inr \<lparr>rr_error = None,
                                       rr_file_data = Some
                                         \<lparr>fd_content = join [CHR 0x0A] (drop start (take stop ls)),
                                          fd_encoding = ''utf-8'',
                                          fd_created_at = meta_to_datetime D (dm_created meta),
                                          fd_modified_at = meta_to_datetime D (dm_modified meta)\<rparr>\<rparr>))))"

text \<open>\<^verbatim>\<open>create_dir_all(parent)\<close> and \<^verbatim>\<open>write\<close>, as \<^verbatim>\<open>write\<close> and \<^verbatim>\<open>upload_files\<close> do them.\<close>

definition write_below ::
  "('s, 'g) disk \<Rightarrow> disk_path \<Rightarrow> string \<Rightarrow> 's \<Rightarrow> (backend_error + unit) \<times> 's" where
  "write_below D full content s =
     (case (case disk_parent full of None \<Rightarrow> (Inr (), s) | Some parent \<Rightarrow> dk_create_dir_all D parent s) of
        (Inl e, s1) \<Rightarrow> (Inl (io_err e), s1)
      | (Inr _, s1) \<Rightarrow>
          (case dk_write D full content s1 of
             (Inl e, s2) \<Rightarrow> (Inl (io_err e), s2)
           | (Inr _, s2) \<Rightarrow> (Inr (), s2)))"

definition disk_write ::
  "('s, 'g) disk \<Rightarrow> 'g filesystem_backend \<Rightarrow> backend_path \<Rightarrow> string \<Rightarrow> 's
    \<Rightarrow> (backend_error + write_result) \<times> 's" where
  "disk_write D b path content s =
     (case disk_resolve D b path s of
        Inl e \<Rightarrow> (Inl e, s)
      | Inr full \<Rightarrow>
          (case write_below D full content s of
             (Inl e, s') \<Rightarrow> (Inl e, s')
           | (Inr _, s') \<Rightarrow> (Inr \<lparr>wr_error = None, wr_path = Some (as_path path)\<rparr>, s')))"

text \<open>\<^verbatim>\<open>read_to_string\<close>, with the message of the standard library for bytes that are no text.\<close>

definition read_to_string :: "('s, 'g) disk \<Rightarrow> disk_path \<Rightarrow> 's \<Rightarrow> io_error + string" where
  "read_to_string D p s =
     (case dk_read D p s of
        Inl e \<Rightarrow> Inl e
      | Inr content \<Rightarrow>
          if dk_utf8_valid D content then Inr content
          else Inl \<lparr>io_not_found = False, io_text = ''stream did not contain valid UTF-8''\<rparr>)"

definition disk_edit ::
  "(nat \<Rightarrow> string) \<Rightarrow> ('s, 'g) disk \<Rightarrow> 'g filesystem_backend \<Rightarrow> backend_path \<Rightarrow> string \<Rightarrow> string \<Rightarrow> bool \<Rightarrow> 's
    \<Rightarrow> (backend_error + edit_result) \<times> 's" where
  "disk_edit show_nat D b path old new all s =
     (case disk_resolve D b path s of
        Inl e \<Rightarrow> (Inl e, s)
      | Inr full \<Rightarrow>
          (case read_to_string D full s of
             Inl e \<Rightarrow> (Inl (io_err e), s)
           | Inr content \<Rightarrow>
               (let n = count_matches old content
                in if n = 0 then (Inl (EditMatch (''old_string not found in '' @ as_path path)), s)
                   else if \<not> all \<and> n > 1
                   then (Inl (EditMatch (''old_string matched '' @ show_nat n @ '' times in '' @ as_path path
                                         @ '' (not unique)'')), s)
                   else case dk_write D full (if all then replace_all old new content
                                             else replace_first old new content) s of
                          (Inl e, s') \<Rightarrow> (Inl (io_err e), s')
                        | (Inr _, s') \<Rightarrow>
                            (Inr \<lparr>er_error = None, er_path = Some (as_path path),
                                  er_occurrences = (if all then as_u32 n else 1)\<rparr>, s'))))"

definition disk_delete ::
  "('s, 'g) disk \<Rightarrow> 'g filesystem_backend \<Rightarrow> backend_path \<Rightarrow> 's \<Rightarrow> (backend_error + delete_result) \<times> 's" where
  "disk_delete D b path s =
     (case disk_resolve D b path s of
        Inl e \<Rightarrow> (Inl e, s)
      | Inr full \<Rightarrow>
          (case dk_metadata D full s of
             Inl e \<Rightarrow> (Inl (io_err e), s)
           | Inr meta \<Rightarrow>
               (case (if dm_is_dir meta then dk_remove_dir_all D full s else dk_remove_file D full s) of
                  (Inl e, s') \<Rightarrow> (Inl (io_err e), s')
                | (Inr _, s') \<Rightarrow> (Inr \<lparr>dr_error = None, dr_path = Some (as_path path)\<rparr>, s'))))"

subsection \<open>Walks\<close>

definition is_hidden :: "('s, 'g) disk \<Rightarrow> nat \<Rightarrow> walk_info \<Rightarrow> bool" where
  "is_hidden D depth i \<longleftrightarrow> depth \<noteq> 0 \<and> dk_utf8_valid D (wi_name i) \<and> starts_with ''.'' (wi_name i)"

text \<open>The items of a walk: an entry that is filtered out is not entered, errors are passed on.\<close>

fun walk_items :: "(nat \<Rightarrow> walk_info \<Rightarrow> bool) \<Rightarrow> nat \<Rightarrow> walk \<Rightarrow> (io_error + walk_info) list" where
  "walk_items keep depth (Walk_Error e) = [Inl e]"
| "walk_items keep depth (Walk_Entry i below) =
     (if keep depth i then Inr i # concat (map (walk_items keep (depth + 1)) below) else [])"

fun disk_glob_items ::
  "('s, 'g) disk \<Rightarrow> disk_path \<Rightarrow> 'g \<Rightarrow> (io_error + walk_info) list \<Rightarrow> backend_error + file_info list" where
  "disk_glob_items D rdir m [] = Inr []"
| "disk_glob_items D rdir m (Inl e # es) = Inl (io_err e)"
| "disk_glob_items D rdir m (Inr i # es) =
     (if \<not> dk_glob_match D m (path_text (wi_path i)) then disk_glob_items D rdir m es
      else (let path = CHR ''/'' # dk_lossy D (rel_text rdir (wi_path i))
            in case BackendPath_new path of
                 Inl _ \<Rightarrow> disk_glob_items D rdir m es
               | Inr _ \<Rightarrow>
                   (case wi_meta i of
                      Inl e \<Rightarrow> Inl (io_err e)
                    | Inr meta \<Rightarrow> map_sum id ((#) (disk_info D path meta)) (disk_glob_items D rdir m es))))"

definition disk_glob ::
  "('s, 'g) disk \<Rightarrow> string \<Rightarrow> backend_path option \<Rightarrow> 'g filesystem_backend \<Rightarrow> 's
    \<Rightarrow> (backend_error + glob_result) \<times> 'g filesystem_backend" where
  "disk_glob D pattern base b s =
     (case (case base of None \<Rightarrow> Inr (fb_root b) | Some p \<Rightarrow> disk_resolve D b p s) of
        Inl e \<Rightarrow> (Inl e, b)
      | Inr base_abs \<Rightarrow>
          (case compile_glob D pattern b of
             (Inl e, b') \<Rightarrow> (Inl e, b')
           | (Inr m, b') \<Rightarrow>
               (map_sum id (\<lambda>rs. \<lparr>gl_error = None, gl_matches = Some rs, gl_truncated = False\<rparr>)
                  (disk_glob_items D (fb_root b) m
                    (walk_items (\<lambda>d i. \<not> is_hidden D d i) 0 (dk_walk D base_abs s))), b')))"

fun matching_lines :: "(string \<Rightarrow> bool) \<Rightarrow> nat \<Rightarrow> string list \<Rightarrow> (nat \<times> string) list" where
  "matching_lines m idx [] = []"
| "matching_lines m idx (l # ls) = (if m l then [(idx + 1, l)] else []) @ matching_lines m (idx + 1) ls"

definition grep_file ::
  "('s, 'g) disk \<Rightarrow> (string \<Rightarrow> bool) \<Rightarrow> disk_path \<Rightarrow> 's \<Rightarrow> backend_error + (nat \<times> string) list" where
  "grep_file D m p s =
     (case read_to_string D p s of
        Inl e \<Rightarrow> Inl (BackendIo (io_text e))
      | Inr content \<Rightarrow> Inr (matching_lines m 0 (lines content)))"

definition grep_hits :: "('s, 'g) disk \<Rightarrow> string \<Rightarrow> (nat \<times> string) list \<Rightarrow> grep_match list" where
  "grep_hits D rel hits =
     (let path = CHR ''/'' # dk_lossy D rel
      in case BackendPath_new path of
           Inl _ \<Rightarrow> []
         | Inr _ \<Rightarrow> map (\<lambda>(n, l). \<lparr>gm_path = path, gm_line = as_u32 n, gm_text = l\<rparr>) hits)"

fun disk_grep_items ::
  "('s, 'g) disk \<Rightarrow> disk_path \<Rightarrow> 'g option \<Rightarrow> (string \<Rightarrow> bool) \<Rightarrow> 's \<Rightarrow> (io_error + walk_info) list
    \<Rightarrow> backend_error + grep_match list" where
  "disk_grep_items D rdir g m s [] = Inr []"
| "disk_grep_items D rdir g m s (Inl e # es) = disk_grep_items D rdir g m s es"
| "disk_grep_items D rdir g m s (Inr i # es) =
     (let rel = rel_text rdir (wi_path i)
      in if \<not> wi_is_file i \<or> (case g of None \<Rightarrow> False | Some gm \<Rightarrow> \<not> dk_glob_match D gm rel)
         then disk_grep_items D rdir g m s es
         else case grep_file D m (wi_path i) s of
                Inl e \<Rightarrow> Inl e
              | Inr hits \<Rightarrow> map_sum id ((@) (grep_hits D rel hits)) (disk_grep_items D rdir g m s es))"

definition disk_grep ::
  "('s, 'g) disk \<Rightarrow> string \<Rightarrow> backend_path option \<Rightarrow> string option \<Rightarrow> 'g filesystem_backend \<Rightarrow> 's
    \<Rightarrow> (backend_error + grep_result) \<times> 'g filesystem_backend" where
  "disk_grep D pattern path glob_filter b s =
     (case (case path of None \<Rightarrow> Inr (fb_root b) | Some p \<Rightarrow> disk_resolve D b p s) of
        Inl e \<Rightarrow> (Inl e, b)
      | Inr base \<Rightarrow>
          (case (case glob_filter of
                   None \<Rightarrow> (Inr None, b)
                 | Some g \<Rightarrow> (case compile_glob D g b of (r, b') \<Rightarrow> (map_sum id Some r, b'))) of
             (Inl e, b') \<Rightarrow> (Inl e, b')
           | (Inr g, b') \<Rightarrow>
               (case dk_regex_new D (dk_regex_escape D pattern) of
                  Inl e \<Rightarrow> (Inl (BackendIo (''bad grep pattern: '' @ e)), b')
                | Inr m \<Rightarrow>
                    (map_sum id (\<lambda>rs. \<lparr>gr_error = None, gr_matches = Some rs, gr_truncated = False\<rparr>)
                       (disk_grep_items D (fb_root b) g m s
                         (walk_items (\<lambda>_ _. True) 0 (dk_walk D base s))), b'))))"

fun disk_upload ::
  "('s, 'g) disk \<Rightarrow> 'g filesystem_backend \<Rightarrow> (backend_path \<times> string) list \<Rightarrow> 's
    \<Rightarrow> (backend_error + unit) list \<times> 's" where
  "disk_upload D b [] s = ([], s)"
| "disk_upload D b ((path, bytes) # fs) s =
     (let (r, s1) = (case disk_resolve D b path s of
                       Inl e \<Rightarrow> (Inl e, s)
                     | Inr full \<Rightarrow> write_below D full bytes s);
          (rs, s2) = disk_upload D b fs s1
      in (r # rs, s2))"

text \<open>
  The trait object. The cache of compiled patterns is left out of its state, since it does not
  change what the calls return (\<open>Disk_Props\<close>).
\<close>

definition disk_protocol ::
  "(nat \<Rightarrow> string) \<Rightarrow> ('s, 'g) disk \<Rightarrow> 'g filesystem_backend \<Rightarrow> 's backend_protocol" where
  "disk_protocol show_nat D b =
     \<lparr>bp_ls = disk_ls D b,
      bp_read = disk_read D b,
      bp_write = disk_write D b,
      bp_edit = disk_edit show_nat D b,
      bp_delete = disk_delete D b,
      bp_glob = (\<lambda>pattern base s. fst (disk_glob D pattern base b s)),
      bp_grep = (\<lambda>pattern path f s. fst (disk_grep D pattern path f b s)),
      bp_upload = (\<lambda>fs s. let (rs, s') = disk_upload D b fs s in (Inr rs, s'))\<rparr>"

subsection \<open>The shell\<close>

record 'g local_shell_backend =
  sh_fs :: "'g filesystem_backend"
  sh_cwd :: disk_path
  sh_default_timeout_ms :: millis
  sh_output_cap_bytes :: nat

record execute_response =
  xr_output :: string
  xr_exit_code :: "int option"
  xr_truncated :: bool

definition LocalShellBackend_new ::
  "('s, 'g) disk \<Rightarrow> string \<Rightarrow> 's \<Rightarrow> backend_error + 'g local_shell_backend" where
  "LocalShellBackend_new D cwd s =
     (if \<not> starts_with ''/'' cwd then Inl (InvalidPath (dk_lossy D cwd))
      else case dk_metadata D (path_components cwd) s of
             Inl _ \<Rightarrow> Inl (BackendIo (''cwd does not exist: '' @ dk_lossy D cwd))
           | Inr _ \<Rightarrow>
               (case FilesystemBackend_new D cwd s of
                  Inl e \<Rightarrow> Inl e
                | Inr fs \<Rightarrow>
                    Inr \<lparr>sh_fs = fs, sh_cwd = path_components cwd, sh_default_timeout_ms = 30000,
                         sh_output_cap_bytes = 1024 * 1024\<rparr>))"

definition with_default_timeout :: "millis \<Rightarrow> 'g local_shell_backend \<Rightarrow> 'g local_shell_backend" where
  "with_default_timeout ms b = b\<lparr>sh_default_timeout_ms := ms\<rparr>"

definition with_output_cap :: "nat \<Rightarrow> 'g local_shell_backend \<Rightarrow> 'g local_shell_backend" where
  "with_output_cap bytes b = b\<lparr>sh_output_cap_bytes := bytes\<rparr>"

definition shell_protocol ::
  "(nat \<Rightarrow> string) \<Rightarrow> ('s, 'g) disk \<Rightarrow> 'g local_shell_backend \<Rightarrow> 's backend_protocol" where
  "shell_protocol show_nat D b = disk_protocol show_nat D (sh_fs b)"

text \<open>\<^verbatim>\<open>String::truncate\<close> panics when the length is not at the boundary of a character.\<close>

definition string_truncate :: "nat \<Rightarrow> string \<Rightarrow> ('e, string) outcome" where
  "string_truncate n s =
     (if n > length s then Ret s
      else if n < length s \<and> continuation_byte (s ! n) then Panic
      else Ret (take n s))"

definition combined_output :: "('s, 'g) disk \<Rightarrow> string \<Rightarrow> string \<Rightarrow> string" where
  "combined_output D stdout stderr =
     ''STDOUT:'' @ [CHR 0x0A] @ dk_lossy D stdout @ [CHR 0x0A] @ ''STDERR:'' @ [CHR 0x0A] @ dk_lossy D stderr"

text \<open>
  \<^verbatim>\<open>execute\<close>. When the timeout fires first, the future of the process is dropped, which does not
  kill the process; the state returned is that at the time the call returns.
\<close>

definition shell_execute ::
  "('s, 'g) disk \<Rightarrow> 'g local_shell_backend \<Rightarrow> string \<Rightarrow> millis option \<Rightarrow> 's
    \<Rightarrow> (backend_error, execute_response) outcome \<times> 's" where
  "shell_execute D b command timeout_ms s =
     (let timeout = (case timeout_ms of None \<Rightarrow> sh_default_timeout_ms b | Some t \<Rightarrow> t);
          run = dk_spawn D command (sh_cwd b) s
      in case sr_ends run of
           Some t \<Rightarrow>
             if t \<le> timeout
             then (case sr_output run of
                     Inl e \<Rightarrow> (Fail (BackendIo (''spawn failed: '' @ io_text e)), sr_state run t)
                   | Inr (stdout, stderr, code) \<Rightarrow>
                       (let combined = combined_output D stdout stderr;
                            truncated = length combined > sh_output_cap_bytes b
                        in case (if truncated then string_truncate (sh_output_cap_bytes b) combined else Ret combined) of
                             Ret out \<Rightarrow> (Ret \<lparr>xr_output = out, xr_exit_code = code, xr_truncated = truncated\<rparr>, sr_state run t)
                           | Fail e \<Rightarrow> (Fail e, sr_state run t)
                           | Panic \<Rightarrow> (Panic, sr_state run t)
                           | Hang \<Rightarrow> (Hang, sr_state run t)))
             else (Fail (BackendTimeout timeout), sr_state run timeout)
         | None \<Rightarrow> (Fail (BackendTimeout timeout), sr_state run timeout))"

end
