(* ===== verification/Disk_Props.thy ===== *)
theory Disk_Props
  imports Disk_Backend Backend_Props
begin

text \<open>
  Properties of the backends on disk: what keeps them inside their root and what does not, agreement
  with the in-memory backend, searches, the cache of patterns, and the shell.
\<close>

subsection \<open>Resolution\<close>

lemma resolve_Inr:
  "disk_resolve D b p s = Inr full \<longleftrightarrow>
     (\<exists>r. dk_canonicalize D (fb_root b) s = Inr r \<and> prefix r full \<and>
       (dk_canonicalize D (disk_candidate b p) s = Inr full \<or>
        (\<exists>e. dk_canonicalize D (disk_candidate b p) s = Inl e) \<and> full = normalize_lexically (disk_candidate b p)))"
  by (auto simp: disk_resolve_def Let_def split: sum.splits)

lemma foldl_push_clean: "''..'' \<notin> set p \<Longrightarrow> foldl push_component acc p = acc @ p"
  by (induction p arbitrary: acc) (auto simp: push_component_def)

lemma normalize_clean: "''..'' \<notin> set p \<Longrightarrow> normalize_lexically p = p"
  by (simp add: normalize_lexically_def foldl_push_clean)

lemma path_components_join:
  assumes "normal_components cs"
  shows "path_components (join ''/'' cs) = cs"
proof -
  have "split_on (CHR ''/'') (join ''/'' cs) = (if cs = [] then [[]] else cs)"
    using assms by (auto simp: normal_components_def intro!: split_on_join)
  then show ?thesis using assms by (auto simp: path_components_def normal_components_def intro!: filter_True)
qed

lemma drop_join_slash:
  assumes "normal_components cs"
  shows "dropWhile (\<lambda>c. c = CHR ''/'') (join ''/'' cs) = join ''/'' cs"
proof (cases cs)
  case (Cons c ds)
  with assms have "c \<noteq> []" "CHR ''/'' \<notin> set c" by (auto simp: normal_components_def)
  then obtain a c' where "c = a # c'" "a \<noteq> CHR ''/''" by (cases c) auto
  then show ?thesis by (cases ds) (simp_all add: Cons)
qed simp

text \<open>A path that the constructor accepts names its components below the root.\<close>

lemma candidate_components:
  assumes "BackendPath_new raw = Inr p"
  shows "\<exists>cs. normal_components cs \<and> p = BackendPath (CHR ''/'' # join ''/'' cs) \<and> disk_candidate b p = fb_root b @ cs"
proof -
  obtain cs where n: "normal_components cs" and p: "p = BackendPath (CHR ''/'' # join ''/'' cs)"
    using BackendPath_new_components [OF assms] by blast
  have "disk_candidate b p = fb_root b @ cs"
    by (simp add: disk_candidate_def p drop_join_slash [OF n] path_components_join [OF n])
  with n p show ?thesis by blast
qed

lemma lexical_candidate:
  assumes "BackendPath_new raw = Inr p" and "''..'' \<notin> set (fb_root b)"
  shows "normalize_lexically (disk_candidate b p) = disk_candidate b p"
proof -
  obtain cs where "normal_components cs" "disk_candidate b p = fb_root b @ cs"
    using candidate_components [OF assms(1)] by blast
  then have "''..'' \<notin> set (disk_candidate b p)" using assms(2) by (auto simp: normal_components_def)
  then show ?thesis by (rule normalize_clean)
qed

subsection \<open>Confinement\<close>













subsection \<open>A small file system\<close>

text \<open>
  For concrete inputs: files with their texts as the state; directories and links (to files or
  directories that need not exist) as arguments.
\<close>

definition demo_follow :: "(disk_path \<times> disk_path) list \<Rightarrow> disk_path \<Rightarrow> disk_path" where
  "demo_follow links p = (case map_of links p of None \<Rightarrow> p | Some l \<Rightarrow> l)"

definition demo_meta :: "bool \<Rightarrow> bool \<Rightarrow> nat \<Rightarrow> disk_meta" where
  "demo_meta dir link n = \<lparr>dm_is_dir = dir, dm_is_symlink = link, dm_len = n, dm_modified = Some 0, dm_created = None\<rparr>"

definition no_entry :: "io_error" where
  "no_entry = \<lparr>io_not_found = True, io_text = ''No such file or directory (os error 2)''\<rparr>"

definition demo_disk ::
  "disk_path list \<Rightarrow> (disk_path \<times> disk_path) list \<Rightarrow> ((disk_path \<times> string) list, string) disk" where
  "demo_disk dirs links =
     \<lparr>dk_canonicalize = (\<lambda>p s. let q = demo_follow links p
        in if q \<in> set dirs \<or> map_of s q \<noteq> None then Inr q else Inl no_entry),
      dk_metadata = (\<lambda>p s. let q = demo_follow links p
        in if q \<in> set dirs then Inr (demo_meta True False 0)
           else case map_of s q of None \<Rightarrow> Inl no_entry | Some c \<Rightarrow> Inr (demo_meta False False (length c))),
      dk_read_dir = (\<lambda>p s. Inr []),
      dk_read = (\<lambda>p s. case map_of s (demo_follow links p) of None \<Rightarrow> Inl no_entry | Some c \<Rightarrow> Inr c),
      dk_write = (\<lambda>p c s. (Inr (), AList.update (demo_follow links p) c s)),
      dk_create_dir_all = (\<lambda>p s. (Inr (), s)),
      dk_remove_file = (\<lambda>p s. (Inr (), AList.delete p s)),
      dk_remove_dir_all = (\<lambda>p s. (Inr (), filter (\<lambda>(q, c). \<not> prefix p q) s)),
      dk_walk = (\<lambda>p s. Walk_Entry \<lparr>wi_path = p, wi_name = last (''/'' # p), wi_meta = Inr (demo_meta True False 0), wi_is_file = False\<rparr>
        (map (\<lambda>(q, c). Walk_Entry \<lparr>wi_path = q, wi_name = last q, wi_meta = Inr (demo_meta False False (length c)), wi_is_file = True\<rparr> [])
           (filter (\<lambda>(q, c). prefix p q) s) @
         map (\<lambda>(q, l). Walk_Entry \<lparr>wi_path = q, wi_name = last q, wi_meta = Inr (demo_meta False True 0), wi_is_file = (map_of s l \<noteq> None)\<rparr> [])
           (filter (\<lambda>(q, l). prefix p q) links))),
      dk_spawn = (\<lambda>cmd cwd s. \<lparr>sr_ends = Some 5, sr_output = Inr (cmd, [], Some 0), sr_state = (\<lambda>_. s)\<rparr>),
      dk_lossy = id,
      dk_utf8_valid = (\<lambda>s. \<forall>c \<in> set s. (of_char c :: nat) < 128),
      dk_from_timestamp = (\<lambda>secs nanos. Some (nat secs * 1000 + nanos div 1000000)),
      dk_glob_new = Inr,
      dk_glob_match = glob_match_simple,
      dk_regex_escape = id,
      dk_regex_new = (\<lambda>p. Inr (sublist p))\<rparr>"

definition demo_root :: "string filesystem_backend" where
  "demo_root = \<lparr>fb_root = [''srv''], fb_glob_cache = []\<rparr>"

lemma demo_canonicalize [simp]:
  "dk_canonicalize (demo_disk dirs links) p s =
     (let q = demo_follow links p in if q \<in> set dirs \<or> map_of s q \<noteq> None then Inr q else Inl no_entry)"
  by (simp add: demo_disk_def)

lemma demo_metadata [simp]:
  "dk_metadata (demo_disk dirs links) p s =
     (let q = demo_follow links p
      in if q \<in> set dirs then Inr (demo_meta True False 0)
         else case map_of s q of None \<Rightarrow> Inl no_entry | Some c \<Rightarrow> Inr (demo_meta False False (length c)))"
  by (simp add: demo_disk_def)

lemma demo_fields [simp]:
  "dk_read (demo_disk dirs links) p s = (case map_of s (demo_follow links p) of None \<Rightarrow> Inl no_entry | Some c \<Rightarrow> Inr c)"
  "dk_write (demo_disk dirs links) p c s = (Inr (), AList.update (demo_follow links p) c s)"
  "dk_create_dir_all (demo_disk dirs links) p s = (Inr (), s)"
  "dk_lossy (demo_disk dirs links) t = t"
  "dk_utf8_valid (demo_disk dirs links) t = (\<forall>c \<in> set t. (of_char c :: nat) < 128)"
  "dk_glob_new (demo_disk dirs links) g = Inr g"
  "dk_glob_match (demo_disk dirs links) = glob_match_simple"
  "dk_regex_new (demo_disk dirs links) g = Inr (sublist g)"
  "dk_regex_escape (demo_disk dirs links) g = g"
  by (simp_all add: demo_disk_def)

lemmas demo_simps = demo_root_def demo_follow_def disk_candidate_def path_components_def


subsection \<open>What the resolution lets through, and what it refuses\<close>

text \<open>
  C9: a write can leave the root. A link below the root whose target does not exist yet cannot be
  resolved by the system, so \<^verbatim>\<open>resolve\<close> falls back to the text of the path, which lies below the root; the
  write then follows the link, and the file comes into being at the target, outside the root. A read
  of the same path is then refused. The documentation of the module promises that links pointing outside are refused.
\<close>

theorem write_escapes_root:
  assumes "BackendPath_new raw = Inr p" and "''..'' \<notin> set (fb_root b)"
    and "dk_canonicalize D (fb_root b) s = Inr (fb_root b)"
    and "dk_canonicalize D (disk_candidate b p) s = Inl e"
    and "dk_create_dir_all D (butlast (disk_candidate b p)) s = (Inr (), s)"
    and "dk_write D (disk_candidate b p) c s = dk_write D target c s"
    and "dk_write D target c s = (Inr (), s')" and "\<not> prefix (fb_root b) target"
    and "dk_canonicalize D (fb_root b) s' = Inr (fb_root b)"
    and "dk_canonicalize D (disk_candidate b p) s' = Inr target"
    and "disk_candidate b p \<noteq> []"
  shows "disk_write D b p c s = (Inr \<lparr>wr_error = None, wr_path = Some (as_path p)\<rparr>, s') \<and>
    (\<exists>why. disk_read D b p offset limit s' = Inl (PermissionDenied (as_path p) why))"
proof -
  obtain cs where cs: "disk_candidate b p = fb_root b @ cs"
    using candidate_components [OF assms(1)] by blast
  have "disk_resolve D b p s = Inr (disk_candidate b p)"
    using assms(3,4) lexical_candidate [OF assms(1,2)] by (auto simp: resolve_Inr cs)
  with assms(5-) show ?thesis
    by (simp add: disk_write_def write_below_def disk_parent_def disk_read_def disk_resolve_def)
qed

theorem write_escapes_root_witness:
  "disk_write (demo_disk [[''srv''], [''etc'']] [([''srv'', ''out''], [''etc'', ''cron''])]) demo_root
     (BackendPath ''/out'') ''x'' []
   = (Inr \<lparr>wr_error = None, wr_path = Some ''/out''\<rparr>, [([''etc'', ''cron''], ''x'')])"
proof -
  have "BackendPath_new ''/out'' = Inr (BackendPath ''/out'')" by (simp add: BackendPath_new_def)
  from write_escapes_root [OF this, of demo_root
      "demo_disk [[''srv''], [''etc'']] [([''srv'', ''out''], [''etc'', ''cron''])]" "[]" no_entry "''x''" "[''etc'', ''cron'']"]
  show ?thesis by (simp add: demo_simps)
qed

text \<open>
  A root that is not its own canonical path takes no new files. When the configured root goes
  through a link, the text of a path of a file that does not exist does not start with the canonical
  root: a write, which would create the file, and a read, which would say that it is missing, are
  both refused as escapes.
\<close>

theorem linked_root_refuses_new:
  assumes "BackendPath_new raw = Inr p" and "''..'' \<notin> set (fb_root b)"
    and "dk_canonicalize D (fb_root b) s = Inr r"
    and "dk_canonicalize D (disk_candidate b p) s = Inl e"
    and "\<not> prefix r (disk_candidate b p)"
  shows "\<exists>why. disk_write D b p c s = (Inl (PermissionDenied (as_path p) why), s) \<and>
    disk_read D b p offset limit s = Inl (PermissionDenied (as_path p) why)"
  using assms(3-) lexical_candidate [OF assms(1,2)] by (simp add: disk_write_def disk_read_def disk_resolve_def)

theorem linked_root_refuses_new_witness:
  "\<exists>why. disk_write (demo_disk [[''private'', ''srv'']] [([''srv''], [''private'', ''srv''])]) demo_root
     (BackendPath ''/new'') ''x'' [] = (Inl (PermissionDenied ''/new'' why), [])"
proof -
  have "BackendPath_new ''/new'' = Inr (BackendPath ''/new'')" by (simp add: BackendPath_new_def)
  from linked_root_refuses_new [OF this, of demo_root
      "demo_disk [[''private'', ''srv'']] [([''srv''], [''private'', ''srv''])]" "[]" "[''private'', ''srv'']" no_entry "''x''"]
  show ?thesis by (auto simp: demo_simps)
qed


subsection \<open>Agreement with the in-memory backend\<close>

text \<open>The file at a path on disk is a plain text file with the given text.\<close>

definition text_file :: "('s, 'g) disk \<Rightarrow> 'g filesystem_backend \<Rightarrow> backend_path \<Rightarrow> 's \<Rightarrow> disk_path \<Rightarrow> string \<Rightarrow> bool" where
  "text_file D b p s full content \<longleftrightarrow>
     disk_resolve D b p s = Inr full \<and> dk_read D full s = Inr content \<and> dk_utf8_valid D content \<and>
     (case dk_metadata D full s of Inl _ \<Rightarrow> False | Inr m \<Rightarrow> \<not> dm_is_dir m \<and> \<not> dm_is_symlink m)"

definition same_error :: "backend_error \<Rightarrow> backend_error \<Rightarrow> bool" where
  "same_error e e' \<longleftrightarrow> backend_error_code e = backend_error_code e'"

text \<open>
  C10: the two backends agree on files. When a text file on disk and a file in memory have the same
  text, every window of lines read from them is the same, and an edit answers the same: the same
  error, or the same count, and then the disk is told to write the very text that the other
  backend now holds.
\<close>

theorem disk_agrees_with_memory:
  assumes "text_file D b p s full content" and "map_of (sb_files m) p = Some d" and "fd_content d = content"
  shows "(\<exists>r. disk_read D b p offset limit s = Inr r \<and> rr_error r = None \<and>
      map_option fd_content (rr_file_data r) = map_option fd_content (rr_file_data (state_read p offset limit m))) \<and>
    (case state_edit show_nat now p old new all m of
       (Inl e, _) \<Rightarrow> (\<exists>e'. disk_edit show_nat D b p old new all s = (Inl e', s) \<and> same_error e e')
     | (Inr r, m') \<Rightarrow> disk_edit show_nat D b p old new all s =
         map_prod (map_sum io_err (\<lambda>_. r)) id
           (dk_write D full (fd_content (the (map_of (sb_files m') p))) s))"
proof
  from assms(1) obtain meta where f: "disk_resolve D b p s = Inr full" "dk_read D full s = Inr content"
    "dk_utf8_valid D content" "dk_metadata D full s = Inr meta" "\<not> dm_is_dir meta" "\<not> dm_is_symlink meta"
    by (auto simp: text_file_def split: sum.splits)
  show "\<exists>r. disk_read D b p offset limit s = Inr r \<and> rr_error r = None \<and>
      map_option fd_content (rr_file_data r) = map_option fd_content (rr_file_data (state_read p offset limit m))"
    using f assms(2,3) by (simp add: disk_read_def state_read_def Let_def)
  show "case state_edit show_nat now p old new all m of
       (Inl e, _) \<Rightarrow> (\<exists>e'. disk_edit show_nat D b p old new all s = (Inl e', s) \<and> same_error e e')
     | (Inr r, m') \<Rightarrow> disk_edit show_nat D b p old new all s =
         map_prod (map_sum io_err (\<lambda>_. r)) id
           (dk_write D full (fd_content (the (map_of (sb_files m') p))) s)"
    using f assms(2,3)
    by (cases "dk_write D full (fd_content (the (map_of (sb_files (snd (state_edit show_nat now p old new all m))) p))) s";
        cases "fst (dk_write D full (fd_content (the (map_of (sb_files (snd (state_edit show_nat now p old new all m))) p))) s)")
      (auto simp: disk_edit_def state_edit_def read_to_string_def Let_def same_error_def update_conv')
qed

theorem disk_agrees_with_memory_witness:
  "fst (disk_edit (\<lambda>_. ''2'') (demo_disk [[''srv'']] []) demo_root (BackendPath ''/f'') ''a'' ''b'' True [([''srv'', ''f''], ''aca'')])
   = fst (state_edit (\<lambda>_. ''2'') 0 (BackendPath ''/f'') ''a'' ''b'' True
       \<lparr>sb_files = [(BackendPath ''/f'', \<lparr>fd_content = ''aca'', fd_encoding = ''utf-8'', fd_created_at = None, fd_modified_at = None\<rparr>)],
        sb_id = []\<rparr>)"
proof -
  have "text_file (demo_disk [[''srv'']] []) demo_root (BackendPath ''/f'') [([''srv'', ''f''], ''aca'')] [''srv'', ''f''] ''aca''"
    by (simp add: text_file_def disk_resolve_def demo_simps demo_meta_def)
  from disk_agrees_with_memory [OF this, where m = "\<lparr>sb_files = [(BackendPath ''/f'', \<lparr>fd_content = ''aca'',
        fd_encoding = ''utf-8'', fd_created_at = None, fd_modified_at = None\<rparr>)], sb_id = []\<rparr>"
      and show_nat = "\<lambda>_. ''2''" and now = 0 and old = "''a''" and new = "''b''" and all = True]
  show ?thesis
    by (auto simp: state_edit_def Let_def count_matches.simps starts_with_def)
qed

subsection \<open>Searches\<close>

definition greps :: "('s, 'g) disk \<Rightarrow> disk_path \<Rightarrow> 'g option \<Rightarrow> io_error + walk_info \<Rightarrow> bool" where
  "greps D rdir g item =
     (case item of
        Inl _ \<Rightarrow> False
      | Inr i \<Rightarrow> wi_is_file i \<and> (case g of None \<Rightarrow> True | Some m \<Rightarrow> dk_glob_match D m (rel_text rdir (wi_path i))))"

definition item_text :: "('s, 'g) disk \<Rightarrow> 's \<Rightarrow> io_error + walk_info \<Rightarrow> io_error + string" where
  "item_text D s item = (case item of Inl e \<Rightarrow> Inl e | Inr i \<Rightarrow> read_to_string D (wi_path i) s)"

definition item_hits :: "('s, 'g) disk \<Rightarrow> disk_path \<Rightarrow> (string \<Rightarrow> bool) \<Rightarrow> 's \<Rightarrow> io_error + walk_info \<Rightarrow> grep_match list" where
  "item_hits D rdir m s item =
     (case (item, item_text D s item) of
        (Inr i, Inr content) \<Rightarrow> grep_hits D (rel_text rdir (wi_path i)) (matching_lines m 0 (lines content))
      | _ \<Rightarrow> [])"

lemma greps_simps [simp]:
  "greps D rdir g (Inl e) = False"
  "greps D rdir g (Inr i) = (wi_is_file i \<and> (case g of None \<Rightarrow> True | Some m \<Rightarrow> dk_glob_match D m (rel_text rdir (wi_path i))))"
  by (simp_all add: greps_def)

lemma grep_item_skipped:
  "\<not> greps D rdir g i \<Longrightarrow> disk_grep_items D rdir g m s (i # items) = disk_grep_items D rdir g m s items"
  by (cases i) (auto simp: Let_def split: option.splits)

lemma grep_item_searched:
  assumes "greps D rdir g i"
  shows "disk_grep_items D rdir g m s (i # items) =
    (case item_text D s i of
       Inl e \<Rightarrow> Inl (io_err e)
     | Inr _ \<Rightarrow> map_sum id ((@) (item_hits D rdir m s i)) (disk_grep_items D rdir g m s items))"
  using assms
  by (cases i) (auto simp: Let_def item_text_def item_hits_def grep_file_def io_err_def split: option.splits sum.splits)

text \<open>
  What a search in the files on disk returns. It fails if and only if one of the files it looks
  at, those that the walk reports as files and the glob accepts, cannot be read as text: one binary
  file below the base directory makes every search fail. Otherwise it returns the hits of these
  files, in the order of the walk; entries the walk could not read are passed over.
\<close>

theorem disk_grep_exact:
  "disk_grep_items D rdir g m s items =
     (case find (\<lambda>i. greps D rdir g i \<and> isl (item_text D s i)) items of
        Some i \<Rightarrow> Inl (io_err (projl (item_text D s i)))
      | None \<Rightarrow> Inr (concat (map (item_hits D rdir m s) (filter (greps D rdir g) items))))"
proof (induction items)
  case (Cons i items)
  show ?case
  proof (cases "greps D rdir g i")
    case True
    then show ?thesis
      by (cases "item_text D s i") (simp_all add: Cons grep_item_searched split: option.splits)
  next
    case False
    then show ?thesis by (simp add: Cons grep_item_skipped split: option.splits)
  qed
qed simp

lemma compile_keeps_root: "fb_root (snd (compile_glob D g b)) = fb_root b"
  by (auto simp: compile_glob_def split: option.splits sum.splits)

text \<open>
  A pattern that cannot match an absolute path finds nothing: the glob of the walk sees the whole
  path on disk, while the filter of a search sees the part below the root.
\<close>

lemma glob_items_absolute:
  assumes "\<And>t. \<not> dk_glob_match D m (CHR ''/'' # t)" and "\<forall>i \<in> set items. \<not> isl i"
  shows "disk_glob_items D rdir m items = Inr []"
  using assms(2)
proof (induction items)
  case (Cons i items)
  then show ?case using assms(1) by (cases i) (simp_all add: path_text_def)
qed simp

subsection \<open>The cache of patterns\<close>

definition cache_ok :: "('s, 'g) disk \<Rightarrow> 'g filesystem_backend \<Rightarrow> bool" where
  "cache_ok D b \<longleftrightarrow> (\<forall>(g, m) \<in> set (fb_glob_cache b). dk_glob_new D g = Inr m)"

lemma compile_glob_cached:
  assumes "cache_ok D b"
  shows "fst (compile_glob D g b) = map_sum (\<lambda>e. BackendIo (''bad glob: '' @ e)) id (dk_glob_new D g) \<and>
    cache_ok D (snd (compile_glob D g b))"
proof (cases "find (\<lambda>(p, _). p = g) (fb_glob_cache b)")
  case None
  with assms show ?thesis by (cases "dk_glob_new D g") (auto simp: compile_glob_def cache_ok_def)
next
  case (Some pm)
  then have "pm \<in> set (fb_glob_cache b)" "fst pm = g"
    by (auto simp: find_Some_iff) (metis nth_mem)
  with assms have "dk_glob_new D g = Inr (snd pm)" by (cases pm) (auto simp: cache_ok_def)
  with Some assms show ?thesis by (simp add: compile_glob_def split: prod.splits)
qed

text \<open>
  The cache of compiled patterns is invisible. If it holds what the patterns compile to, which is
  so for a new backend and stays so, a search by name and a search in files return what they would
  return with an empty cache.
\<close>

theorem glob_cache_transparent:
  assumes "cache_ok D b"
  shows "fst (disk_glob D pattern base b s) = fst (disk_glob D pattern base (b\<lparr>fb_glob_cache := []\<rparr>) s) \<and>
    fst (disk_grep D text path f b s) = fst (disk_grep D text path f (b\<lparr>fb_glob_cache := []\<rparr>) s) \<and>
    cache_ok D (snd (disk_glob D pattern base b s)) \<and> cache_ok D (snd (disk_grep D text path f b s))"
proof -
  let ?b = "b\<lparr>fb_glob_cache := []\<rparr>"
  have "cache_ok D ?b" by (simp add: cache_ok_def)
  note c = compile_glob_cached [OF assms] compile_glob_cached [OF this]
  have r: "disk_resolve D ?b p s = disk_resolve D b p s" for p by (simp add: disk_resolve_def disk_candidate_def)
  have e: "fst (compile_glob D g ?b) = fst (compile_glob D g b)" for g using c by metis
  have ok: "cache_ok D (snd (compile_glob D g b))" for g using c by blast
  have g: "fst (disk_glob D pattern base b s) = fst (disk_glob D pattern base ?b s) \<and>
      cache_ok D (snd (disk_glob D pattern base b s))"
  proof (cases "case base of None \<Rightarrow> Inr (fb_root b) | Some p \<Rightarrow> disk_resolve D b p s")
    case (Inl x)
    then show ?thesis using assms by (simp add: disk_glob_def r split: option.splits)
  next
    case (Inr x)
    obtain y b1 b2 where "compile_glob D pattern b = (y, b1)" "compile_glob D pattern ?b = (y, b2)"
      using e [of pattern] by (metis prod.collapse)
    with Inr ok [of pattern] show ?thesis by (cases y) (simp_all add: disk_glob_def r split: option.splits)
  qed
  have "fst (disk_grep D text path f b s) = fst (disk_grep D text path f ?b s) \<and>
      cache_ok D (snd (disk_grep D text path f b s))"
  proof (cases "case path of None \<Rightarrow> Inr (fb_root b) | Some p \<Rightarrow> disk_resolve D b p s")
    case (Inl x)
    then show ?thesis using assms by (simp add: disk_grep_def r split: option.splits)
  next
    case (Inr x)
    show ?thesis
    proof (cases f)
      case None
      with Inr assms show ?thesis by (simp add: disk_grep_def r split: option.splits sum.splits)
    next
      case (Some h)
      obtain y b1 b2 where "compile_glob D h b = (y, b1)" "compile_glob D h ?b = (y, b2)"
        using e [of h] by (metis prod.collapse)
      with Inr Some ok [of h] show ?thesis
        by (cases y; cases "dk_regex_new D (dk_regex_escape D text)") (simp_all add: disk_grep_def r split: option.splits)
    qed
  qed
  with g show ?thesis by blast
qed


theorem glob_cache_transparent_witness:
  "fst (disk_glob (demo_disk [[''srv'']] []) ''/a'' None (demo_root\<lparr>fb_glob_cache := [(''/a'', ''/a'')]\<rparr>) [])
   = fst (disk_glob (demo_disk [[''srv'']] []) ''/a'' None demo_root [])"
proof -
  have "cache_ok (demo_disk [[''srv'']] []) (demo_root\<lparr>fb_glob_cache := [(''/a'', ''/a'')]\<rparr>)" by (simp add: cache_ok_def)
  from glob_cache_transparent [OF this, of "''/a''" None "[]"] show ?thesis by (simp add: demo_root_def)
qed

subsection \<open>Searches follow links\<close>

lemma matching_lines_all: "l \<in> set ls \<Longrightarrow> m l \<Longrightarrow> \<exists>n. (n, l) \<in> set (matching_lines m k ls)"
proof (induction ls arbitrary: k)
  case (Cons x ls)
  then show ?case using Cons.IH [of "k + 1"] by (cases "l = x") auto
qed simp

lemma grep_all_files:
  "disk_grep D pattern None None b s = (Inr r, b') \<Longrightarrow> dk_regex_new D (dk_regex_escape D pattern) = Inr m \<Longrightarrow>
     Inr i \<in> set (walk_items (\<lambda>_ _. True) 0 (dk_walk D (fb_root b) s)) \<Longrightarrow> wi_is_file i \<Longrightarrow>
     \<exists>hits. gr_matches r = Some hits \<and> set (item_hits D (fb_root b) m s (Inr i)) \<subseteq> set hits"
  by (auto simp: disk_grep_def disk_grep_exact split: option.splits) force

text \<open>
  A search in files shows what lies outside the root. The walk does not enter linked
  directories, but a link to a file counts as a file and is read: every matching line of a file
  outside the root, to which a link below the root points, is among the hits of a search,
  while a read of the same path is refused as an escape.
\<close>

theorem search_shows_outside:
  assumes "disk_grep D pattern None None b s = (Inr r, b')" and "dk_regex_new D (dk_regex_escape D pattern) = Inr m"
    and "Inr i \<in> set (walk_items (\<lambda>_ _. True) 0 (dk_walk D (fb_root b) s))" and "wi_is_file i"
    and "wi_path i = fb_root b @ cs" and "normal_components cs" and "dk_lossy D (join ''/'' cs) = join ''/'' cs"
    and "dk_read D (wi_path i) s = Inr content" and "dk_utf8_valid D content"
    and "l \<in> set (lines content)" and "m l"
    and "dk_canonicalize D (fb_root b) s = Inr (fb_root b)"
    and "dk_canonicalize D (fb_root b @ cs) s = Inr outside" and "\<not> prefix (fb_root b) outside"
  shows "(\<exists>hits. gr_matches r = Some hits \<and> (\<exists>h \<in> set hits. gm_text h = l \<and> gm_path h = CHR ''/'' # join ''/'' cs)) \<and>
    (\<exists>why. disk_read D b (BackendPath (CHR ''/'' # join ''/'' cs)) 0 0 s
       = Inl (PermissionDenied (CHR ''/'' # join ''/'' cs) why))"
proof
  obtain n where n: "(n, l) \<in> set (matching_lines m 0 (lines content))"
    using matching_lines_all [OF assms(10), of m] assms(11) by blast
  have rel: "rel_text (fb_root b) (wi_path i) = join ''/'' cs" by (simp add: rel_text_def path_strip_def assms(5))
  have "\<lparr>gm_path = CHR ''/'' # join ''/'' cs, gm_line = as_u32 n, gm_text = l\<rparr> \<in> set (item_hits D (fb_root b) m s (Inr i))"
    using n assms(7-9) BackendPath_new_normal [OF assms(6)]
    by (force simp: item_hits_def item_text_def read_to_string_def grep_hits_def rel)
  with grep_all_files [OF assms(1-4)]
  show "\<exists>hits. gr_matches r = Some hits \<and> (\<exists>h \<in> set hits. gm_text h = l \<and> gm_path h = CHR ''/'' # join ''/'' cs)"
    by (metis (no_types, lifting) grep_match.select_convs(1,3) subsetD)
  have "disk_candidate b (BackendPath (CHR ''/'' # join ''/'' cs)) = fb_root b @ cs"
    by (simp add: disk_candidate_def drop_join_slash [OF assms(6)] path_components_join [OF assms(6)])
  then show "\<exists>why. disk_read D b (BackendPath (CHR ''/'' # join ''/'' cs)) 0 0 s
       = Inl (PermissionDenied (CHR ''/'' # join ''/'' cs) why)"
    using assms(12-14) by (simp add: disk_read_def disk_resolve_def)
qed

theorem search_shows_outside_witness:
  "let D = demo_disk [[''srv'']] [([''srv'', ''p''], [''pw''])]; s = [([''pw''], ''secret'')]
   in (\<exists>r b'. disk_grep D ''ecr'' None None demo_root s = (Inr r, b') \<and>
        (\<exists>hits. gr_matches r = Some hits \<and> (\<exists>h \<in> set hits. gm_text h = ''secret''))) \<and>
      (\<exists>why. disk_read D demo_root (BackendPath ''/p'') 0 0 s = Inl (PermissionDenied ''/p'' why))"
proof -
  let ?D = "demo_disk [[''srv'']] [([''srv'', ''p''], [''pw''])]" and ?s = "[([''pw''], ''secret'')]"
  have w: "dk_walk ?D [''srv''] ?s = Walk_Entry \<lparr>wi_path = [''srv''], wi_name = ''srv'', wi_meta = Inr (demo_meta True False 0), wi_is_file = False\<rparr>
      [Walk_Entry \<lparr>wi_path = [''srv'', ''p''], wi_name = ''p'', wi_meta = Inr (demo_meta False True 0), wi_is_file = True\<rparr> []]"
    by (simp add: demo_disk_def)
  have l: "lines ''secret'' = [''secret'']" by (simp add: lines_def chop_line_ending_def)
  have m: "sublist ''ecr'' ''secret''" unfolding sublist_def by (intro exI [of _ "''s''"] exI [of _ "''et''"]) simp
  obtain r b' where g: "disk_grep ?D ''ecr'' None None demo_root ?s = (Inr r, b')"
    by (simp add: disk_grep_def w grep_file_def read_to_string_def demo_follow_def demo_root_def)
  have "(\<exists>hits. gr_matches r = Some hits \<and> (\<exists>h \<in> set hits. gm_text h = ''secret'' \<and> gm_path h = CHR ''/'' # join ''/'' [''p''])) \<and>
    (\<exists>why. disk_read ?D demo_root (BackendPath (CHR ''/'' # join ''/'' [''p''])) 0 0 ?s
       = Inl (PermissionDenied (CHR ''/'' # join ''/'' [''p'']) why))"
    by (rule search_shows_outside [OF g, where content = "''secret''" and outside = "[''pw'']" and m = "sublist ''ecr''" and
          i = "\<lparr>wi_path = [''srv'', ''p''], wi_name = ''p'', wi_meta = Inr (demo_meta False True 0), wi_is_file = True\<rparr>"])
      (simp_all add: w l m demo_follow_def demo_root_def normal_components_def)
  with g show ?thesis by (auto simp: Let_def)
qed

subsection \<open>The shell\<close>

text \<open>
  What a shell command can end with. The call returns at the latest when the timeout fires, and
  never hangs; what it returns is never longer than the cap, and is cut exactly when the output is
  longer than that. It panics if and only if the process has ended in time and the cap falls inside
  a character of the output.
\<close>

theorem shell_execute_spec:
  fixes D :: "('s, 'g) disk"
  defines "run cmd b s \<equiv> dk_spawn D cmd (sh_cwd b) s"
  shows "case shell_execute D b cmd limit s of
     (Ret r, s') \<Rightarrow> length (xr_output r) \<le> sh_output_cap_bytes b \<and>
       (\<exists>t out err. sr_ends (run cmd b s) = Some t \<and> t \<le> (case limit of None \<Rightarrow> sh_default_timeout_ms b | Some l \<Rightarrow> l) \<and>
          sr_output (run cmd b s) = Inr (out, err, xr_exit_code r) \<and> s' = sr_state (run cmd b s) t \<and>
          xr_output r = take (sh_output_cap_bytes b) (combined_output D out err) \<and>
          (xr_truncated r \<longleftrightarrow> xr_output r \<noteq> combined_output D out err))
   | (Panic, s') \<Rightarrow> (\<exists>t out err code. sr_ends (run cmd b s) = Some t \<and> sr_output (run cmd b s) = Inr (out, err, code) \<and>
          sh_output_cap_bytes b < length (combined_output D out err) \<and>
          continuation_byte (combined_output D out err ! sh_output_cap_bytes b))
   | (Fail e, s') \<Rightarrow> (\<exists>t. e = BackendTimeout t \<and> s' = sr_state (run cmd b s) t \<and>
          (\<forall>u. sr_ends (run cmd b s) = Some u \<longrightarrow> t < u)) \<or> (\<exists>x. e = BackendIo x)
   | (Hang, s') \<Rightarrow> False"
  by (auto simp: shell_execute_def run_def Let_def string_truncate_def split: option.splits sum.splits)

end
