(* ===== verification/Pooled_Nodes.thy ===== *)
theory Pooled_Nodes
  imports Pool_Props Model_Node Registry
begin

text \<open>
  The nodes that put a pool of resources before other nodes: \<^verbatim>\<open>pool_node.rs\<close> and \<^verbatim>\<open>pool_resource.rs\<close>
  of \<^verbatim>\<open>crates/arf-model-adapter\<close> and of \<^verbatim>\<open>crates/arf-mcp\<close>. Each is one node on an upper bus; it takes a
  lease for a call, sends the call on to a lower bus, and the answer back.

  Both are step relations over a state that holds the pool of \<open>Pool\<close>. Messages that arrive from the
  two buses are inputs of the steps, what is sent to them is kept in two lists.
\<close>

subsection \<open>Resources\<close>

record 'p counted_resource =
  cr_inner :: 'p
  cr_call_count :: nat
  cr_last_used_ms :: millis

definition counted_resource_new :: "'p \<Rightarrow> 'p counted_resource" where
  "counted_resource_new p = \<lparr>cr_inner = p, cr_call_count = 0, cr_last_used_ms = 0\<rparr>"

definition ModelAdapterResource_try_acquire :: "millis \<Rightarrow> 'p counted_resource \<Rightarrow> (string + unit) \<times> 'p counted_resource" where
  "ModelAdapterResource_try_acquire now r = (Inr (), r\<lparr>cr_call_count := 0, cr_last_used_ms := now\<rparr>)"

definition McpResource_try_acquire :: "millis \<Rightarrow> 'p counted_resource \<Rightarrow> (string + unit) \<times> 'p counted_resource" where
  "McpResource_try_acquire now r = (Inr (), r\<lparr>cr_call_count := 0, cr_last_used_ms := now\<rparr>)"

subsection \<open>The node before a pool of models\<close>

record model_pool_node =
  mp_node_id :: node_id
  mp_top_bus_id :: bus_id
  mp_sub_bus_id :: bus_id
  mp_advertised_provider :: string
  mp_advertised_models :: "string list"

definition mp_sub_id :: "node_id \<Rightarrow> node_id" where
  "mp_sub_id n = NodeId (as_string n @ ''/sub'')"

definition mp_top_info :: "millis \<Rightarrow> model_pool_node \<Rightarrow> node_info" where
  "mp_top_info now n =
     \<lparr>ni_node_id = mp_node_id n, ni_node_type = ''model'',
      ni_capabilities = JObj [(''provider'', JStr (mp_advertised_provider n)),
        (''models'', strs_to_value (mp_advertised_models n)), (''kind'', JStr ''model_adapter_pool'')],
      ni_online_since = now\<rparr>"

definition mp_top_filter :: message_filter where
  "mp_top_filter = \<lparr>mf_types = Some [MODEL_CALL], mf_to_match = BroadcastAndDirectedToMe\<rparr>"

definition mp_sub_info :: "millis \<Rightarrow> model_pool_node \<Rightarrow> node_info" where
  "mp_sub_info now n =
     \<lparr>ni_node_id = mp_sub_id (mp_node_id n), ni_node_type = ''model_pool_sub'',
      ni_capabilities = JObj [(''kind'', JStr ''model_pool_sub'')], ni_online_since = now\<rparr>"

definition mp_sub_filter :: message_filter where
  "mp_sub_filter = \<lparr>mf_types = Some [MODEL_RESPONSE], mf_to_match = BroadcastAndDirectedToMe\<rparr>"

text \<open>Connecting to both buses, each with its \<open>gap\<close>; \<open>None\<close> is a panic of \<open>connect\<close>. The loop is spawned when both succeed.\<close>

definition connect_both ::
  "(bus \<Rightarrow> bus) \<times> (bus \<Rightarrow> bus) \<Rightarrow> uuid \<times> uuid \<Rightarrow> millis \<times> millis \<Rightarrow> node_info \<times> message_filter \<Rightarrow> node_info \<times> message_filter \<Rightarrow> bus \<times> bus
    \<Rightarrow> ((connect_error + node_handle \<times> node_handle) \<times> bus \<times> bus) option" where
  "connect_both gaps ids nows up low bs =
     (case connect (fst gaps) (fst ids) (fst nows) (fst up) (snd up) (fst bs) of
        None \<Rightarrow> None
      | Some (Inl e, b1) \<Rightarrow> Some (Inl e, b1, snd bs)
      | Some (Inr h1, b1) \<Rightarrow>
          (case connect (snd gaps) (snd ids) (snd nows) (fst low) (snd low) (snd bs) of
             None \<Rightarrow> None
           | Some (Inl e, b2) \<Rightarrow> Some (Inl e, b1, b2)
           | Some (Inr h2, b2) \<Rightarrow> Some (Inr (h1, h2), b1, b2)))"

definition mp_connect ::
  "(bus \<Rightarrow> bus) \<times> (bus \<Rightarrow> bus) \<Rightarrow> uuid \<times> uuid \<Rightarrow> millis \<times> millis \<Rightarrow> model_pool_node \<Rightarrow> bus \<times> bus
    \<Rightarrow> ((connect_error + node_handle \<times> node_handle) \<times> bus \<times> bus) option" where
  "mp_connect gaps ids nows n =
     connect_both gaps ids nows (mp_top_info (fst nows) n, mp_top_filter) (mp_sub_info (snd nows) n, mp_sub_filter)"

text \<open>
  A call in flight: the message, its id, its task in the pool, the receiving end of its oneshot
  channel, and how far its task is.
\<close>

datatype oneshot = Empty | Sent message | SenderDropped

datatype flight_stage = Acquiring | AwaitingReply | Ended

record flight =
  fl_req :: message
  fl_cid :: uuid
  fl_ticket :: nat
  fl_rx :: oneshot
  fl_stage :: flight_stage

record 'r model_facade =
  mfc_pool :: "'r pool"
  mfc_pending :: "(uuid \<times> nat) list"
  mfc_flights :: "flight list"
  mfc_to_top :: "message list"
  mfc_to_sub :: "message list"
  mfc_dispatching :: bool
  mfc_demuxing :: bool

definition model_facade_start :: "'r pool \<Rightarrow> 'r model_facade" where
  "model_facade_start p =
     \<lparr>mfc_pool = p, mfc_pending = [], mfc_flights = [], mfc_to_top = [], mfc_to_sub = [], mfc_dispatching = True,
      mfc_demuxing = True\<rparr>"

abbreviation flight_of :: "'r model_facade \<Rightarrow> nat \<Rightarrow> flight" where
  "flight_of f t \<equiv> mfc_flights f ! t"

definition set_flight :: "nat \<Rightarrow> (flight \<Rightarrow> flight) \<Rightarrow> 'r model_facade \<Rightarrow> 'r model_facade" where
  "set_flight t g f = f\<lparr>mfc_flights := (mfc_flights f)[t := g (flight_of f t)]\<rparr>"

text \<open>Dropping a sender out of the map; a message that was sent before stays in its channel.\<close>

definition drop_sender :: "uuid \<Rightarrow> 'r model_facade \<Rightarrow> 'r model_facade" where
  "drop_sender cid f =
     (case map_of (mfc_pending f) cid of
        None \<Rightarrow> f
      | Some t \<Rightarrow> set_flight t (fl_rx_update (\<lambda>_. SenderDropped)) (f\<lparr>mfc_pending := AList.delete cid (mfc_pending f)\<rparr>))"

definition mp_error_payload :: "uuid_ops \<Rightarrow> uuid option \<Rightarrow> string \<Rightarrow> json" where
  "mp_error_payload U cid err = with_cid U cid (JObj [(''error'', JStr err), (''finish_reason'', JStr ''error'')])"

definition mp_answer :: "uuid \<Rightarrow> millis \<Rightarrow> model_pool_node \<Rightarrow> message \<Rightarrow> json \<Rightarrow> message" where
  "mp_answer i now n req pl =
     Message_with_from_bus i now MODEL_RESPONSE (mp_node_id n) [msg_from req] pl (mp_top_bus_id n)"

definition send_top :: "message \<Rightarrow> 'r model_facade \<Rightarrow> 'r model_facade" where
  "send_top m f = f\<lparr>mfc_to_top := mfc_to_top f @ [m]\<rparr>"

definition send_error_back ::
  "uuid_ops \<Rightarrow> uuid \<Rightarrow> millis \<Rightarrow> model_pool_node \<Rightarrow> message \<Rightarrow> uuid option \<Rightarrow> string \<Rightarrow> 'r model_facade \<Rightarrow> 'r model_facade" where
  "send_error_back U i now n req cid err = send_top (mp_answer i now n req (mp_error_payload U cid err))"

text \<open>
  A message from the upper bus. The insertion into the map drops the sender that was there under
  the same id; the spawned task starts with \<^verbatim>\<open>acquire\<close>.
\<close>

definition on_top_message ::
  "uuid_ops \<Rightarrow> uuid \<Rightarrow> millis \<Rightarrow> model_pool_node \<Rightarrow> message \<Rightarrow> 'r model_facade \<Rightarrow> 'r model_facade" where
  "on_top_message U i now n req f =
     (if msg_type req \<noteq> MODEL_CALL then f
      else case correlation_id U req of
             None \<Rightarrow> send_error_back U i now n req None ''model_call missing correlation_id'' f
           | Some cid \<Rightarrow>
               (let f1 = drop_sender cid f
                in f1\<lparr>mfc_pending := AList.update cid (length (mfc_flights f1)) (mfc_pending f1),
                      mfc_flights := mfc_flights f1 @
                        [\<lparr>fl_req = req, fl_cid = cid, fl_ticket = length (pl_tasks (mfc_pool f1)), fl_rx = Empty,
                          fl_stage = Acquiring\<rparr>],
                      mfc_pool := (mfc_pool f1)\<lparr>pl_tasks := pl_tasks (mfc_pool f1) @ [Starting]\<rparr>\<rparr>))"

text \<open>A message from the lower bus, in the task that owns the handle there.\<close>

definition on_sub_message :: "uuid_ops \<Rightarrow> message \<Rightarrow> 'r model_facade \<Rightarrow> 'r model_facade" where
  "on_sub_message U m f =
     (if msg_type m \<noteq> MODEL_RESPONSE then f
      else case correlation_id U m of
             None \<Rightarrow> f
           | Some cid \<Rightarrow>
               (case map_of (mfc_pending f) cid of
                  None \<Rightarrow> f
                | Some t \<Rightarrow> set_flight t (fl_rx_update (\<lambda>_. Sent m))
                    (f\<lparr>mfc_pending := AList.delete cid (mfc_pending f)\<rparr>)))"

definition pool_error_display :: "(millis \<Rightarrow> string) \<Rightarrow> pool_error \<Rightarrow> string" where
  "pool_error_display show_duration e =
     (case e of
        Full \<Rightarrow> ''pool is full''
      | Timeout d \<Rightarrow> ''acquire timed out after '' @ show_duration d
      | Closed \<Rightarrow> ''resource closed''
      | Acquire s \<Rightarrow> ''resource acquire failed: '' @ s)"

text \<open>The pieces of \<^verbatim>\<open>handle_one_model_call\<close> between its awaits.\<close>

definition call_refused ::
  "uuid_ops \<Rightarrow> (millis \<Rightarrow> string) \<Rightarrow> uuid \<Rightarrow> millis \<Rightarrow> model_pool_node \<Rightarrow> nat \<Rightarrow> pool_error \<Rightarrow> 'r model_facade \<Rightarrow> 'r model_facade" where
  "call_refused U sd i now n t e f =
     set_flight t (fl_stage_update (\<lambda>_. Ended))
       (send_error_back U i now n (fl_req (flight_of f t)) (Some (fl_cid (flight_of f t)))
         (''pool acquire: '' @ pool_error_display sd e) (drop_sender (fl_cid (flight_of f t)) f))"

definition forward_call :: "uuid \<Rightarrow> millis \<Rightarrow> model_pool_node \<Rightarrow> nat \<Rightarrow> 'r model_facade \<Rightarrow> 'r model_facade" where
  "forward_call i now n t f =
     (let req = fl_req (flight_of f t)
      in set_flight t (fl_stage_update (\<lambda>_. AwaitingReply))
           (f\<lparr>mfc_to_sub := mfc_to_sub f @ [Message_with_from_bus i now (msg_type req) (mp_sub_id (mp_node_id n)) []
              (msg_payload req) (mp_sub_bus_id n)]\<rparr>))"

definition end_lease :: "nat \<Rightarrow> 'r \<Rightarrow> 'r model_facade \<Rightarrow> 'r model_facade" where
  "end_lease t r f =
     set_flight t (fl_stage_update (\<lambda>_. Ended)) (f\<lparr>mfc_pool := drop_lease (fl_ticket (flight_of f t)) r (mfc_pool f)\<rparr>)"

definition call_replied :: "uuid \<Rightarrow> millis \<Rightarrow> model_pool_node \<Rightarrow> nat \<Rightarrow> 'r \<Rightarrow> message \<Rightarrow> 'r model_facade \<Rightarrow> 'r model_facade" where
  "call_replied i now n t r resp f =
     end_lease t r (send_top (mp_answer i now n (fl_req (flight_of f t)) (msg_payload resp)) f)"

definition call_given_up :: "uuid_ops \<Rightarrow> uuid \<Rightarrow> millis \<Rightarrow> model_pool_node \<Rightarrow> nat \<Rightarrow> 'r \<Rightarrow> 'r model_facade \<Rightarrow> 'r model_facade" where
  "call_given_up U i now n t r f =
     end_lease t r (send_error_back U i now n (fl_req (flight_of f t)) (Some (fl_cid (flight_of f t)))
       ''model_call timed out waiting for response'' (drop_sender (fl_cid (flight_of f t)) f))"

text \<open>
  The steps of the tasks. A step of the pool is one of the tasks inside \<^verbatim>\<open>acquire\<close>, of the tasks the
  pool spawns, or of other users of the pool; it leaves the leases of the facade alone. A call is given
  up when its sender is gone, or when nothing has arrived in the time allowed.
\<close>

definition keeps_leases :: "'r model_facade \<Rightarrow> 'r pool \<Rightarrow> bool" where
  "keeps_leases f p' \<longleftrightarrow>
     (\<forall>c \<in> set (mfc_flights f). fl_stage c \<noteq> Ended \<longrightarrow>
        (case stage_of (mfc_pool f) (fl_ticket c) of
           Leased r \<Rightarrow> stage_of p' (fl_ticket c) = Leased r
         | _ \<Rightarrow> True))"

inductive model_facade_step ::
  "uuid_ops \<Rightarrow> (millis \<Rightarrow> string) \<Rightarrow> model_pool_node \<Rightarrow> 'r model_facade \<Rightarrow> 'r model_facade \<Rightarrow> bool"
  for U sd n where
  top: "mfc_dispatching f \<Longrightarrow> model_facade_step U sd n f (on_top_message U i now n m f)"
| top_end: "model_facade_step U sd n f (f\<lparr>mfc_dispatching := False, mfc_demuxing := False\<rparr>)"
| sub: "mfc_demuxing f \<Longrightarrow> model_facade_step U sd n f (on_sub_message U m f)"
| sub_end: "model_facade_step U sd n f (f\<lparr>mfc_demuxing := False\<rparr>)"
| pool: "pool_step (mfc_pool f) p' \<Longrightarrow> keeps_leases f p' \<Longrightarrow> model_facade_step U sd n f (f\<lparr>mfc_pool := p'\<rparr>)"
| refused: "t < length (mfc_flights f) \<Longrightarrow> fl_stage (flight_of f t) = Acquiring \<Longrightarrow>
    stage_of (mfc_pool f) (fl_ticket (flight_of f t)) = Done (Some e) \<Longrightarrow>
    model_facade_step U sd n f (call_refused U sd i now n t e f)"
| forward: "t < length (mfc_flights f) \<Longrightarrow> fl_stage (flight_of f t) = Acquiring \<Longrightarrow>
    stage_of (mfc_pool f) (fl_ticket (flight_of f t)) = Leased r \<Longrightarrow>
    model_facade_step U sd n f (forward_call i now n t f)"
| replied: "t < length (mfc_flights f) \<Longrightarrow> fl_stage (flight_of f t) = AwaitingReply \<Longrightarrow>
    stage_of (mfc_pool f) (fl_ticket (flight_of f t)) = Leased r \<Longrightarrow> fl_rx (flight_of f t) = Sent resp \<Longrightarrow>
    model_facade_step U sd n f (call_replied i now n t r resp f)"
| given_up: "t < length (mfc_flights f) \<Longrightarrow> fl_stage (flight_of f t) = AwaitingReply \<Longrightarrow>
    stage_of (mfc_pool f) (fl_ticket (flight_of f t)) = Leased r \<Longrightarrow> (\<forall>m. fl_rx (flight_of f t) \<noteq> Sent m) \<Longrightarrow>
    model_facade_step U sd n f (call_given_up U i now n t r f)"

subsection \<open>The node before a pool of tool servers\<close>

record mcp_pool_node =
  tp_node_id :: node_id
  tp_top_bus_id :: bus_id
  tp_sub_bus_id :: bus_id
  tp_advertised_tools :: "string list"
  tp_advertised_skills :: "string list"

definition tp_top_info :: "millis \<Rightarrow> mcp_pool_node \<Rightarrow> node_info" where
  "tp_top_info now n =
     \<lparr>ni_node_id = tp_node_id n, ni_node_type = ''mcp'',
      ni_capabilities = JObj [(''kind'', JStr ''mcp_pool''),
        (''tools'', JArr (map (\<lambda>t. JObj [(''name'', JStr t), (''description'', JStr t), (''params_schema'', JObj [])])
           (tp_advertised_tools n))),
        (''skills'', strs_to_value (tp_advertised_skills n))],
      ni_online_since = now\<rparr>"

definition tp_top_filter :: message_filter where
  "tp_top_filter = \<lparr>mf_types = Some [''tool_exec''], mf_to_match = BroadcastAndDirectedToMe\<rparr>"

definition tp_sub_info :: "millis \<Rightarrow> mcp_pool_node \<Rightarrow> node_info" where
  "tp_sub_info now n =
     \<lparr>ni_node_id = mp_sub_id (tp_node_id n), ni_node_type = ''mcp_pool_sub'',
      ni_capabilities = JObj [(''kind'', JStr ''mcp_pool_sub'')], ni_online_since = now\<rparr>"

definition tp_sub_filter :: message_filter where
  "tp_sub_filter = \<lparr>mf_types = Some [''tool_result''], mf_to_match = BroadcastAndDirectedToMe\<rparr>"

definition tp_connect ::
  "(bus \<Rightarrow> bus) \<times> (bus \<Rightarrow> bus) \<Rightarrow> uuid \<times> uuid \<Rightarrow> millis \<times> millis \<Rightarrow> mcp_pool_node \<Rightarrow> bus \<times> bus
    \<Rightarrow> ((connect_error + node_handle \<times> node_handle) \<times> bus \<times> bus) option" where
  "tp_connect gaps ids nows n =
     connect_both gaps ids nows (tp_top_info (fst nows) n, tp_top_filter) (tp_sub_info (snd nows) n, tp_sub_filter)"

text \<open>The one task of the node: it serves a call at a time, with its task in the pool.\<close>

datatype tool_stage = Listening | Leasing message nat | Relaying message nat | Stopped

record 'r tool_facade =
  tf_stage :: tool_stage
  tf_pool :: "'r pool"
  tf_to_top :: "message list"
  tf_to_sub :: "message list"

definition tool_facade_start :: "'r pool \<Rightarrow> 'r tool_facade" where
  "tool_facade_start p = \<lparr>tf_stage = Listening, tf_pool = p, tf_to_top = [], tf_to_sub = []\<rparr>"

definition take_tool_call :: "message \<Rightarrow> 'r tool_facade \<Rightarrow> 'r tool_facade" where
  "take_tool_call req f =
     (if msg_type req \<noteq> ''tool_exec'' then f
      else f\<lparr>tf_stage := Leasing req (length (pl_tasks (tf_pool f))),
             tf_pool := (tf_pool f)\<lparr>pl_tasks := pl_tasks (tf_pool f) @ [Starting]\<rparr>\<rparr>)"

definition forward_tool_call :: "uuid \<Rightarrow> millis \<Rightarrow> mcp_pool_node \<Rightarrow> message \<Rightarrow> nat \<Rightarrow> 'r tool_facade \<Rightarrow> 'r tool_facade" where
  "forward_tool_call i now n req t f =
     f\<lparr>tf_stage := Relaying req t,
       tf_to_sub := tf_to_sub f @ [Message_with_from_bus i now (msg_type req) (mp_sub_id (tp_node_id n)) []
         (msg_payload req) (tp_sub_bus_id n)]\<rparr>"

definition end_tool_call :: "tool_stage \<Rightarrow> nat \<Rightarrow> 'r \<Rightarrow> 'r tool_facade \<Rightarrow> 'r tool_facade" where
  "end_tool_call next t r f = f\<lparr>tf_stage := next, tf_pool := drop_lease t r (tf_pool f)\<rparr>"

definition on_tool_message ::
  "uuid_ops \<Rightarrow> uuid \<Rightarrow> millis \<Rightarrow> mcp_pool_node \<Rightarrow> message \<Rightarrow> nat \<Rightarrow> 'r \<Rightarrow> message \<Rightarrow> 'r tool_facade \<Rightarrow> 'r tool_facade" where
  "on_tool_message U i now n req t r m f =
     (if msg_type m \<noteq> ''tool_result'' \<or> correlation_id U m \<noteq> correlation_id U req then f
      else end_tool_call Listening t r
             (f\<lparr>tf_to_top := tf_to_top f @ [Message_with_from_bus i now (msg_type m) (tp_node_id n) [msg_from req]
                (msg_payload m) (tp_top_bus_id n)]\<rparr>))"

text \<open>
  \<open>stop\<close>: the deadline of the node, or the end of the upper bus, while it listens. While it waits for a
  reply, the deadline ends the wait, and the end of the lower bus ends the node. An error of \<^verbatim>\<open>acquire\<close>
  ends the node as well.
\<close>

inductive tool_facade_step :: "uuid_ops \<Rightarrow> mcp_pool_node \<Rightarrow> 'r tool_facade \<Rightarrow> 'r tool_facade \<Rightarrow> bool"
  for U n where
  top: "tf_stage f = Listening \<Longrightarrow> tool_facade_step U n f (take_tool_call m f)"
| stop: "tf_stage f = Listening \<Longrightarrow> tool_facade_step U n f (f\<lparr>tf_stage := Stopped\<rparr>)"
| forward: "tf_stage f = Leasing req t \<Longrightarrow> stage_of (tf_pool f) t = Leased r \<Longrightarrow>
    tool_facade_step U n f (forward_tool_call i now n req t f)"
| refused: "tf_stage f = Leasing req t \<Longrightarrow> stage_of (tf_pool f) t = Done (Some e) \<Longrightarrow>
    tool_facade_step U n f (f\<lparr>tf_stage := Stopped\<rparr>)"
| sub: "tf_stage f = Relaying req t \<Longrightarrow> stage_of (tf_pool f) t = Leased r \<Longrightarrow>
    tool_facade_step U n f (on_tool_message U i now n req t r m f)"
| deadline: "tf_stage f = Relaying req t \<Longrightarrow> stage_of (tf_pool f) t = Leased r \<Longrightarrow>
    tool_facade_step U n f (end_tool_call Listening t r f)"
| sub_end: "tf_stage f = Relaying req t \<Longrightarrow> stage_of (tf_pool f) t = Leased r \<Longrightarrow>
    tool_facade_step U n f (end_tool_call Stopped t r f)"
| pool: "pool_step (tf_pool f) p' \<Longrightarrow>
    (\<forall>req t r. tf_stage f \<in> {Leasing req t, Relaying req t} \<longrightarrow> stage_of (tf_pool f) t = Leased r \<longrightarrow>
       stage_of p' t = Leased r) \<Longrightarrow>
    tool_facade_step U n f (f\<lparr>tf_pool := p'\<rparr>)"

inductive_cases stopped_stepE: "tool_facade_step U n f f'"

end
