(* ===== verification/Pooled_Props.thy ===== *)
theory Pooled_Props
  imports Pooled_Nodes Registry_Props
begin

text \<open>
  Properties of the nodes before a pool: every call that ends is answered once, to its caller, with the
  id it carries; leases stay within the pool; calls with one id end each other; the node before a pool
  of tool servers can stop for good. Their capabilities are what the registry of an engine reads.
\<close>

subsection \<open>The tasks of the pool\<close>

lemma notify_one_tasks [simp]: "length (pl_tasks (notify_one p)) = length (pl_tasks p)"
  by (simp add: notify_one_def split: list.splits)

lemma cancel_tasks [simp]: "length (pl_tasks (cancel t p)) = length (pl_tasks p)"
  by (simp add: cancel_def give_permit_def split: stage.splits)

lemma pool_step_tasks: "pool_step p q \<Longrightarrow> length (pl_tasks p) \<le> length (pl_tasks q)"
  by (induction rule: pool_move.induct)
    (auto simp: acquire_start_def take_permit_def count_pending_def await_notify_def uncount_def take_resource_def
      give_permit_def drop_lease_def drop_permit_def release_task_def release_def provision_def provision_one_def Let_def
      split: overflow.splits sum.splits prod.splits outcome.splits)

lemma drop_lease_stage:
  "u \<noteq> t \<Longrightarrow> stage_of (drop_lease t r p) u = stage_of p u" "length (pl_tasks (drop_lease t r p)) = length (pl_tasks p)"
  by (simp_all add: drop_lease_def)

subsection \<open>Flights\<close>

definition call_key :: "flight \<Rightarrow> node_id list \<times> uuid option" where
  "call_key c = ([msg_from (fl_req c)], Some (fl_cid c))"

definition ended_key :: "flight \<Rightarrow> (node_id list \<times> uuid option) multiset" where
  "ended_key c = (if fl_stage c = Ended then {#call_key c#} else {#})"

definition ended_keys :: "flight list \<Rightarrow> (node_id list \<times> uuid option) multiset" where
  "ended_keys cs = sum_list (map ended_key cs)"

definition answered :: "uuid_ops \<Rightarrow> message list \<Rightarrow> (node_id list \<times> uuid option) multiset" where
  "answered U ms = filter_mset (\<lambda>k. snd k \<noteq> None) (mset (map (\<lambda>m. (msg_to m, correlation_id U m)) ms))"

lemma set_flight_fields [simp]:
  "mfc_pool (set_flight t g f) = mfc_pool f" "mfc_pending (set_flight t g f) = mfc_pending f"
  "mfc_to_top (set_flight t g f) = mfc_to_top f" "mfc_to_sub (set_flight t g f) = mfc_to_sub f"
  "mfc_dispatching (set_flight t g f) = mfc_dispatching f" "mfc_demuxing (set_flight t g f) = mfc_demuxing f"
  "length (mfc_flights (set_flight t g f)) = length (mfc_flights f)"
  "mfc_flights (set_flight t g f) = (mfc_flights f)[t := g (flight_of f t)]"
  by (simp_all add: set_flight_def)

lemma send_top_fields [simp]:
  "mfc_pool (send_top m f) = mfc_pool f" "mfc_pending (send_top m f) = mfc_pending f"
  "mfc_flights (send_top m f) = mfc_flights f" "mfc_to_top (send_top m f) = mfc_to_top f @ [m]"
  by (simp_all add: send_top_def)

lemma drop_sender_fields [simp]:
  "mfc_pool (drop_sender cid f) = mfc_pool f" "mfc_to_top (drop_sender cid f) = mfc_to_top f"
  "length (mfc_flights (drop_sender cid f)) = length (mfc_flights f)"
  "mfc_dispatching (drop_sender cid f) = mfc_dispatching f"
  by (simp_all add: drop_sender_def split: option.splits)

lemma drop_sender_flight:
  "u < length (mfc_flights f) \<Longrightarrow> flight_of (drop_sender cid f) u =
     (if map_of (mfc_pending f) cid = Some u then (flight_of f u)\<lparr>fl_rx := SenderDropped\<rparr> else flight_of f u)"
  by (auto simp: drop_sender_def nth_list_update split: option.splits)

lemma drop_sender_flight_fields [simp]:
  assumes "u < length (mfc_flights f)"
  shows "fl_req (flight_of (drop_sender cid f) u) = fl_req (flight_of f u)"
    "fl_cid (flight_of (drop_sender cid f) u) = fl_cid (flight_of f u)"
    "fl_ticket (flight_of (drop_sender cid f) u) = fl_ticket (flight_of f u)"
    "fl_stage (flight_of (drop_sender cid f) u) = fl_stage (flight_of f u)"
  by (simp_all add: drop_sender_flight [OF assms])

lemma drop_sender_maps [simp]:
  "map fl_ticket (mfc_flights (drop_sender cid f)) = map fl_ticket (mfc_flights f)"
  "ended_keys (mfc_flights (drop_sender cid f)) = ended_keys (mfc_flights f)"
proof -
  show "map fl_ticket (mfc_flights (drop_sender cid f)) = map fl_ticket (mfc_flights f)"
    by (rule nth_equalityI) simp_all
  have "map ended_key (mfc_flights (drop_sender cid f)) = map ended_key (mfc_flights f)"
    by (rule nth_equalityI) (simp_all add: ended_key_def call_key_def)
  then show "ended_keys (mfc_flights (drop_sender cid f)) = ended_keys (mfc_flights f)" by (simp add: ended_keys_def)
qed

lemma ended_keys_end:
  assumes "t < length cs" "fl_stage (cs ! t) \<noteq> Ended"
  shows "ended_keys (cs[t := (cs ! t)\<lparr>fl_stage := Ended\<rparr>]) = add_mset (call_key (cs ! t)) (ended_keys cs)"
  using sum_list_replace [OF assms(1), of ended_key "(cs ! t)\<lparr>fl_stage := Ended\<rparr>"] assms(2)
  by (simp add: ended_keys_def ended_key_def call_key_def)

lemma ended_keys_same:
  assumes "t < length cs" "ended_key c = ended_key (cs ! t)"
  shows "ended_keys (cs[t := c]) = ended_keys cs"
  using sum_list_replace [OF assms(1), of ended_key c] assms(2) by (simp add: ended_keys_def)

subsection \<open>The invariant\<close>

definition tickets_ok :: "'r model_facade \<Rightarrow> bool" where
  "tickets_ok f \<longleftrightarrow> distinct (map fl_ticket (mfc_flights f)) \<and>
     (\<forall>t < length (mfc_flights f). fl_ticket (flight_of f t) < length (pl_tasks (mfc_pool f)) \<and>
        (fl_stage (flight_of f t) = AwaitingReply \<longrightarrow> (\<exists>r. stage_of (mfc_pool f) (fl_ticket (flight_of f t)) = Leased r)))"

definition pendings_ok :: "'r model_facade \<Rightarrow> bool" where
  "pendings_ok f \<longleftrightarrow>
     (\<forall>cid t. map_of (mfc_pending f) cid = Some t \<longrightarrow> t < length (mfc_flights f) \<and> fl_cid (flight_of f t) = cid)"

definition receivers_ok :: "uuid_ops \<Rightarrow> 'r model_facade \<Rightarrow> bool" where
  "receivers_ok U f \<longleftrightarrow>
     (\<forall>t < length (mfc_flights f). \<forall>m. fl_rx (flight_of f t) = Sent m \<longrightarrow> correlation_id U m = Some (fl_cid (flight_of f t)))"

definition answers_ok :: "uuid_ops \<Rightarrow> 'r model_facade \<Rightarrow> bool" where
  "answers_ok U f \<longleftrightarrow> answered U (mfc_to_top f) = ended_keys (mfc_flights f)"

definition facade_ok :: "uuid_ops \<Rightarrow> 'r model_facade \<Rightarrow> bool" where
  "facade_ok U f \<longleftrightarrow> pool_ok (mfc_pool f) \<and> tickets_ok f \<and> pendings_ok f \<and> receivers_ok U f \<and> answers_ok U f"

lemma drop_sender_pending:
  "map_of (mfc_pending (drop_sender cid f)) c = (if c = cid then None else map_of (mfc_pending f) c)"
  by (simp add: drop_sender_def delete_conv' split: option.splits)

lemma drop_sender_ok:
  assumes "facade_ok U f"
  shows "facade_ok U (drop_sender cid f)"
proof -
  have "tickets_ok (drop_sender cid f)" using assms by (simp add: facade_ok_def tickets_ok_def)
  moreover have "pendings_ok (drop_sender cid f)"
    using assms by (simp add: facade_ok_def pendings_ok_def drop_sender_pending)
  moreover have "receivers_ok U (drop_sender cid f)"
    using assms by (simp add: facade_ok_def receivers_ok_def drop_sender_flight)
  ultimately show ?thesis using assms by (simp add: facade_ok_def answers_ok_def)
qed

lemma answer_cid:
  "correlation_id U (mp_answer i now n req pl) = payload_cid U pl" "msg_to (mp_answer i now n req pl) = [msg_from req]"
  by (simp_all add: mp_answer_def correlation_id_def Message_with_from_bus_def Message_new_def)

lemma error_cid: "uuid_ok U \<Longrightarrow> payload_cid U (mp_error_payload U cid err) = cid"
  by (cases cid) (simp_all add: mp_error_payload_def with_cid_def payload_cid_def get_str_def json_get_obj_insert)

lemma answered_snoc:
  "answered U (ms @ [m]) = answered U ms + (if correlation_id U m = None then {#} else {#(msg_to m, correlation_id U m)#})"
  by (simp add: answered_def)


subsection \<open>The operations keep the invariant\<close>

lemma answer_and_end:
  assumes "facade_ok U f" "t < length (mfc_flights f)" "fl_stage (flight_of f t) \<noteq> Ended"
    and "msg_to m = [msg_from (fl_req (flight_of f t))]" "correlation_id U m = Some (fl_cid (flight_of f t))"
  shows "facade_ok U (set_flight t (fl_stage_update (\<lambda>_. Ended)) (send_top m f))" (is "facade_ok U ?g")
proof -
  have "map fl_ticket (mfc_flights ?g) = map fl_ticket (mfc_flights f)"
    using assms(2) by (simp add: map_update list_update_same_conv)
  then have "tickets_ok ?g" using assms(1,2) by (auto simp: facade_ok_def tickets_ok_def nth_list_update)
  moreover have "pendings_ok ?g" using assms(1,2) by (auto simp: facade_ok_def pendings_ok_def nth_list_update)
  moreover have "receivers_ok U ?g" using assms(1,2) by (auto simp: facade_ok_def receivers_ok_def nth_list_update)
  moreover have "answers_ok U ?g"
    using assms by (simp add: facade_ok_def answers_ok_def answered_snoc ended_keys_end call_key_def)
  ultimately show ?thesis using assms(1) by (simp add: facade_ok_def)
qed

lemma other_ticket:
  assumes "tickets_ok f" "t < length (mfc_flights f)" "u < length (mfc_flights f)" "u \<noteq> t"
  shows "fl_ticket (flight_of f u) \<noteq> fl_ticket (flight_of f t)"
  using assms nth_eq_iff_index_eq [of "map fl_ticket (mfc_flights f)" u t] by (simp add: tickets_ok_def)

lemma drop_ended_lease:
  assumes "facade_ok U f" "t < length (mfc_flights f)" "fl_stage (flight_of f t) = Ended"
    and "stage_of (mfc_pool f) (fl_ticket (flight_of f t)) = Leased r"
  shows "facade_ok U (f\<lparr>mfc_pool := drop_lease (fl_ticket (flight_of f t)) r (mfc_pool f)\<rparr>)" (is "facade_ok U ?g")
proof -
  from assms(1) have ok: "pool_ok (mfc_pool f)" "tickets_ok f" by (simp_all add: facade_ok_def)
  then have len: "fl_ticket (flight_of f t) < length (pl_tasks (mfc_pool f))" using assms(2) by (simp add: tickets_ok_def)
  have "tickets_ok ?g"
    unfolding tickets_ok_def
  proof (intro conjI allI impI)
    show "distinct (map fl_ticket (mfc_flights ?g))" using ok(2) by (simp add: tickets_ok_def)
    fix u assume u: "u < length (mfc_flights ?g)"
    show "fl_ticket (flight_of ?g u) < length (pl_tasks (mfc_pool ?g))"
      using ok(2) u by (simp add: tickets_ok_def drop_lease_stage)
    assume a: "fl_stage (flight_of ?g u) = AwaitingReply"
    then have "u \<noteq> t" using assms(3) by auto
    with other_ticket [OF ok(2) assms(2)] a u ok(2)
    show "\<exists>r. stage_of (mfc_pool ?g) (fl_ticket (flight_of ?g u)) = Leased r"
      by (simp add: tickets_ok_def drop_lease_stage)
  qed
  moreover have "pool_ok (drop_lease (fl_ticket (flight_of f t)) r (mfc_pool f))"
    by (rule drop_lease_ok [OF ok(1) len assms(4)])
  ultimately show ?thesis using assms(1) by (simp add: facade_ok_def pendings_ok_def receivers_ok_def answers_ok_def)
qed

lemma end_lease_ok:
  assumes "facade_ok U f" "t < length (mfc_flights f)" "fl_stage (flight_of f t) = AwaitingReply"
    and "stage_of (mfc_pool f) (fl_ticket (flight_of f t)) = Leased r"
    and "msg_to m = [msg_from (fl_req (flight_of f t))]" "correlation_id U m = Some (fl_cid (flight_of f t))"
  shows "facade_ok U (end_lease t r (send_top m f))"
proof -
  let ?g = "set_flight t (fl_stage_update (\<lambda>_. Ended)) (send_top m f)"
  have "facade_ok U ?g" using assms by (intro answer_and_end) simp_all
  then have "facade_ok U (?g\<lparr>mfc_pool := drop_lease (fl_ticket (flight_of ?g t)) r (mfc_pool ?g)\<rparr>)"
    by (rule drop_ended_lease) (use assms in simp_all)
  moreover have "end_lease t r (send_top m f) = ?g\<lparr>mfc_pool := drop_lease (fl_ticket (flight_of ?g t)) r (mfc_pool ?g)\<rparr>"
    using assms(2) by (simp add: end_lease_def set_flight_def)
  ultimately show ?thesis by simp
qed

lemma same_flight_ok:
  assumes "facade_ok U f" "t < length (mfc_flights f)"
    and "fl_ticket c = fl_ticket (flight_of f t)" "fl_cid c = fl_cid (flight_of f t)" "ended_key c = ended_key (flight_of f t)"
    and "fl_stage c = AwaitingReply \<Longrightarrow> \<exists>r. stage_of (mfc_pool f) (fl_ticket c) = Leased r"
    and "\<And>m. fl_rx c = Sent m \<Longrightarrow> correlation_id U m = Some (fl_cid c)"
  shows "facade_ok U (set_flight t (\<lambda>_. c) f)" (is "facade_ok U ?g")
proof -
  have "map fl_ticket (mfc_flights ?g) = map fl_ticket (mfc_flights f)"
    using assms(2,3) by (simp add: map_update list_update_same_conv)
  then have "tickets_ok ?g" using assms(1-4,6) by (auto simp: facade_ok_def tickets_ok_def nth_list_update)
  moreover have "pendings_ok ?g" using assms(1-4) by (auto simp: facade_ok_def pendings_ok_def nth_list_update)
  moreover have "receivers_ok U ?g" using assms(1-4,7) by (auto simp: facade_ok_def receivers_ok_def nth_list_update)
  moreover have "answers_ok U ?g" using assms(1,2,5) by (simp add: facade_ok_def answers_ok_def ended_keys_same)
  ultimately show ?thesis using assms(1) by (simp add: facade_ok_def)
qed

lemma send_unidentified_ok:
  "facade_ok U f \<Longrightarrow> correlation_id U m = None \<Longrightarrow> facade_ok U (send_top m f)"
  by (simp add: facade_ok_def tickets_ok_def pendings_ok_def receivers_ok_def answers_ok_def answered_snoc)

lemma start_flight_ok:
  assumes "facade_ok U f"
  shows "facade_ok U (f\<lparr>mfc_pending := AList.update cid (length (mfc_flights f)) (mfc_pending f),
      mfc_flights := mfc_flights f @
        [\<lparr>fl_req = req, fl_cid = cid, fl_ticket = length (pl_tasks (mfc_pool f)), fl_rx = Empty, fl_stage = Acquiring\<rparr>],
      mfc_pool := (mfc_pool f)\<lparr>pl_tasks := pl_tasks (mfc_pool f) @ [Starting]\<rparr>\<rparr>)" (is "facade_ok U ?g")
proof -
  from assms have ok: "pool_ok (mfc_pool f)" "tickets_ok f" "pendings_ok f" "receivers_ok U f" "answers_ok U f"
    by (simp_all add: facade_ok_def)
  have "length (pl_tasks (mfc_pool f)) \<notin> set (map fl_ticket (mfc_flights f))"
    using ok(2) by (auto simp: tickets_ok_def in_set_conv_nth)
  then have "tickets_ok ?g"
    using ok(2) by (auto simp: tickets_ok_def nth_append less_Suc_eq)
  moreover have "pendings_ok ?g"
    using ok(3) by (auto simp: pendings_ok_def update_conv' nth_append less_Suc_eq)
  moreover have "receivers_ok U ?g"
    using ok(4) by (auto simp: receivers_ok_def nth_append less_Suc_eq)
  moreover have "answers_ok U ?g"
    using ok(5) by (simp add: answers_ok_def ended_keys_def ended_key_def)
  ultimately show ?thesis using call_ok [OF ok(1)] by (simp add: facade_ok_def)
qed

lemma on_top_ok:
  assumes "uuid_ok U" "facade_ok U f"
  shows "facade_ok U (on_top_message U i now n req f)"
  using assms start_flight_ok [OF drop_sender_ok [OF assms(2)]]
  by (auto simp: on_top_message_def Let_def send_error_back_def answer_cid error_cid intro!: send_unidentified_ok
    split: option.splits)

lemma on_sub_ok:
  assumes "facade_ok U f"
  shows "facade_ok U (on_sub_message U m f)"
proof (cases "msg_type m = MODEL_RESPONSE \<and> correlation_id U m \<noteq> None \<and>
    map_of (mfc_pending f) (the (correlation_id U m)) \<noteq> None")
  case True
  then obtain cid t where c: "correlation_id U m = Some cid" "map_of (mfc_pending f) cid = Some t" by auto
  let ?f = "f\<lparr>mfc_pending := AList.delete cid (mfc_pending f)\<rparr>"
  have t: "t < length (mfc_flights f)" "fl_cid (flight_of f t) = cid"
    using assms c(2) by (auto simp: facade_ok_def pendings_ok_def)
  have "facade_ok U ?f"
    using assms by (auto simp: facade_ok_def tickets_ok_def pendings_ok_def receivers_ok_def answers_ok_def delete_conv')
  then have "facade_ok U (set_flight t (\<lambda>_. (flight_of ?f t)\<lparr>fl_rx := Sent m\<rparr>) ?f)"
    by (rule same_flight_ok) (use assms t c in \<open>auto simp: ended_key_def call_key_def facade_ok_def tickets_ok_def\<close>)
  with True c show ?thesis by (simp add: on_sub_message_def set_flight_def)
next
  case False
  then show ?thesis using assms by (auto simp: on_sub_message_def split: option.splits)
qed

lemma forward_ok:
  assumes "facade_ok U f" "t < length (mfc_flights f)" "fl_stage (flight_of f t) = Acquiring"
    and "stage_of (mfc_pool f) (fl_ticket (flight_of f t)) = Leased r"
  shows "facade_ok U (forward_call i now n t f)"
proof -
  obtain ms where g: "forward_call i now n t f =
      set_flight t (\<lambda>_. (flight_of f t)\<lparr>fl_stage := AwaitingReply\<rparr>) (f\<lparr>mfc_to_sub := ms\<rparr>)"
    by (simp add: forward_call_def set_flight_def Let_def)
  have "facade_ok U (f\<lparr>mfc_to_sub := ms\<rparr>)"
    using assms(1) by (simp add: facade_ok_def tickets_ok_def pendings_ok_def receivers_ok_def answers_ok_def)
  then show ?thesis
    unfolding g by (rule same_flight_ok)
      (use assms in \<open>auto simp: ended_key_def facade_ok_def receivers_ok_def\<close>)
qed

lemma pool_ok_change:
  assumes "facade_ok U f" "pool_step (mfc_pool f) p'" "keeps_leases f p'"
  shows "facade_ok U (f\<lparr>mfc_pool := p'\<rparr>)"
proof -
  have "tickets_ok (f\<lparr>mfc_pool := p'\<rparr>)"
    unfolding tickets_ok_def
  proof (intro conjI allI impI)
    show "distinct (map fl_ticket (mfc_flights (f\<lparr>mfc_pool := p'\<rparr>)))" using assms(1) by (simp add: facade_ok_def tickets_ok_def)
    fix t assume t: "t < length (mfc_flights (f\<lparr>mfc_pool := p'\<rparr>))"
    show "fl_ticket (flight_of (f\<lparr>mfc_pool := p'\<rparr>) t) < length (pl_tasks (mfc_pool (f\<lparr>mfc_pool := p'\<rparr>)))"
      using t assms(1) pool_step_tasks [OF assms(2)] by (fastforce simp: facade_ok_def tickets_ok_def)
    assume a: "fl_stage (flight_of (f\<lparr>mfc_pool := p'\<rparr>) t) = AwaitingReply"
    with t assms(1) obtain r where "stage_of (mfc_pool f) (fl_ticket (flight_of f t)) = Leased r"
      by (auto simp: facade_ok_def tickets_ok_def)
    with assms(3) t a show "\<exists>r. stage_of (mfc_pool (f\<lparr>mfc_pool := p'\<rparr>)) (fl_ticket (flight_of (f\<lparr>mfc_pool := p'\<rparr>) t)) = Leased r"
      by (fastforce simp: keeps_leases_def dest: nth_mem)
  qed
  with assms(1) pool_step_ok [OF assms(2)] show ?thesis
    by (simp add: facade_ok_def pendings_ok_def receivers_ok_def answers_ok_def)
qed

lemma facade_step_ok:
  assumes "model_facade_step U sd n f g" "uuid_ok U" "facade_ok U f"
  shows "facade_ok U g"
  using assms(1)
proof cases
  case (refused t e i now)
  have "facade_ok U (drop_sender (fl_cid (flight_of f t)) f)" by (rule drop_sender_ok [OF assms(3)])
  from answer_and_end [OF this, of t] refused assms(2) show ?thesis
    by (simp add: call_refused_def send_error_back_def answer_cid error_cid)
next
  case (replied t r resp i now)
  have "payload_cid U (msg_payload resp) = Some (fl_cid (flight_of f t))"
    using replied assms(3) by (auto simp: facade_ok_def receivers_ok_def correlation_id_def)
  then show ?thesis using replied assms(3)
    unfolding replied(1) call_replied_def by (intro end_lease_ok) (simp_all add: answer_cid)
next
  case (given_up t r i now)
  have "facade_ok U (drop_sender (fl_cid (flight_of f t)) f)" by (rule drop_sender_ok [OF assms(3)])
  from end_lease_ok [OF this, of t] given_up assms(2) show ?thesis
    by (simp add: call_given_up_def send_error_back_def answer_cid error_cid)
next
  case (pool p')
  then show ?thesis using pool_ok_change [OF assms(3)] by simp
next
  case (forward t r i now)
  then show ?thesis using forward_ok [OF assms(3)] by simp
next
  case (top i now m)
  then show ?thesis using on_top_ok [OF assms(2,3)] by simp
next
  case (sub m)
  then show ?thesis using on_sub_ok [OF assms(3)] by simp
qed (use assms(3) in \<open>simp_all add: facade_ok_def tickets_ok_def pendings_ok_def receivers_ok_def answers_ok_def\<close>)

lemma facade_reachable_ok:
  assumes "(model_facade_step U sd n)\<^sup>*\<^sup>* (model_facade_start p) f" "uuid_ok U" "pool_start p"
  shows "facade_ok U f"
  using assms(1)
proof induction
  case base
  show ?case using pool_start_ok [OF assms(3)]
    by (simp add: facade_ok_def model_facade_start_def tickets_ok_def pendings_ok_def receivers_ok_def answers_ok_def
      answered_def ended_keys_def)
next
  case (step f g)
  then show ?case using facade_step_ok assms(2) by blast
qed


subsection \<open>Answers and leases\<close>

lemma size_leased: "size (leased p) = length (filter (\<lambda>s. \<exists>r. s = Leased r) (pl_tasks p))"
proof -
  have "size (sum_list (map leased_of xs)) = length (filter (\<lambda>s. \<exists>r. s = Leased r) xs)" for xs :: "'a stage list"
  proof (induction xs)
    case (Cons x xs)
    then show ?case by (cases x) simp_all
  qed simp
  then show ?thesis by (simp add: leased_def)
qed

lemma awaiting_le_leased:
  assumes "tickets_ok f"
  shows "length (filter (\<lambda>c. fl_stage c = AwaitingReply) (mfc_flights f)) \<le> size (leased (mfc_pool f))"
proof -
  let ?A = "{t. t < length (mfc_flights f) \<and> fl_stage (flight_of f t) = AwaitingReply}"
  have "inj_on (\<lambda>t. fl_ticket (flight_of f t)) ?A"
    using other_ticket [OF assms] by (auto intro!: inj_onI)
  moreover have "(\<lambda>t. fl_ticket (flight_of f t)) ` ?A \<subseteq>
      {i. i < length (pl_tasks (mfc_pool f)) \<and> (\<exists>r. stage_of (mfc_pool f) i = Leased r)}"
    using assms by (auto simp: tickets_ok_def)
  ultimately have "card ?A \<le> card {i. i < length (pl_tasks (mfc_pool f)) \<and> (\<exists>r. stage_of (mfc_pool f) i = Leased r)}"
    by (intro card_inj_on_le) auto
  then show ?thesis by (simp add: size_leased length_filter_conv_card)
qed

text \<open>
  C18: the node before a pool of models answers every call once. Under every interleaving of calls,
  replies, time-outs and users of the pool, the answers that carry an id are, as a multiset of
  addressees and ids, exactly those owed to the calls that have ended: each goes to the caller alone, with
  the id of its call, and no call gets two. And never more calls wait for a reply than the pool
  has resources.
\<close>

theorem pooled_calls_answered_once:
  assumes "(model_facade_step U sd n)\<^sup>*\<^sup>* (model_facade_start p) f" and "uuid_ok U" and "pool_start p"
  shows "{#k \<in># mset (map (\<lambda>m. (msg_to m, correlation_id U m)) (mfc_to_top f)). snd k \<noteq> None#} =
      mset (map (\<lambda>c. ([msg_from (fl_req c)], Some (fl_cid c))) (filter (\<lambda>c. fl_stage c = Ended) (mfc_flights f))) \<and>
    length (filter (\<lambda>c. fl_stage c = AwaitingReply) (mfc_flights f)) \<le> pc_max_size (pl_config (mfc_pool f))"
proof -
  have e: "ended_keys cs = mset (map (\<lambda>c. ([msg_from (fl_req c)], Some (fl_cid c))) (filter (\<lambda>c. fl_stage c = Ended) cs))" for cs
    by (induction cs) (simp_all add: ended_keys_def ended_key_def call_key_def)
  have ok: "facade_ok U f" by (rule facade_reachable_ok [OF assms])
  then have "pool_ok (mfc_pool f)" "tickets_ok f" by (simp_all add: facade_ok_def)
  from awaiting_le_leased [OF this(2)] leased_le_held [of "mfc_pool f"] pool_okD(1) [OF this(1)]
  have "length (filter (\<lambda>c. fl_stage c = AwaitingReply) (mfc_flights f)) \<le> pc_max_size (pl_config (mfc_pool f))"
    by simp
  with ok show ?thesis by (simp add: facade_ok_def answers_ok_def answered_def e)
qed

subsection \<open>Two calls with one id\<close>

text \<open>
  A second call with the id of a call that is waiting ends both. Its registration drops the sender
  of the first, which is answered at once that it has timed out; and the clean-up after that takes the
  registration of the second away, so its sender is gone as well, and the answer that the model sends
  reaches nobody.
\<close>

theorem same_id_ends_both:
  fixes f :: "'r model_facade"
  assumes "t < length (mfc_flights f)" and "fl_stage (flight_of f t) = AwaitingReply"
    and "map_of (mfc_pending f) (fl_cid (flight_of f t)) = Some t"
    and "msg_type req = MODEL_CALL" and "correlation_id U req = Some (fl_cid (flight_of f t))"
    and "correlation_id U m = Some (fl_cid (flight_of f t))"
  shows "let g = on_top_message U i now n req f; h = call_given_up U j now' n t r g; k = length (mfc_flights f)
    in fl_rx (flight_of g t) = SenderDropped \<and>
      fl_req (flight_of h k) = req \<and> fl_rx (flight_of h k) = SenderDropped \<and> on_sub_message U m h = h"
proof -
  define g where "g = on_top_message U i now n req f"
  define h where "h = call_given_up U j now' n t r g"
  let ?c = "fl_cid (flight_of f t)" and ?k = "length (mfc_flights f)"
  let ?d = "drop_sender ?c f"
  have g: "g = ?d\<lparr>mfc_pending := AList.update ?c ?k (mfc_pending ?d),
      mfc_flights := mfc_flights ?d @ [\<lparr>fl_req = req, fl_cid = ?c, fl_ticket = length (pl_tasks (mfc_pool f)), fl_rx = Empty,
        fl_stage = Acquiring\<rparr>],
      mfc_pool := (mfc_pool f)\<lparr>pl_tasks := pl_tasks (mfc_pool f) @ [Starting]\<rparr>\<rparr>"
    using assms(4,5) by (simp add: g_def on_top_message_def Let_def)
  have rx: "fl_rx (flight_of g t) = SenderDropped" "fl_cid (flight_of g t) = ?c"
    using assms(1,3) by (simp_all add: g nth_append drop_sender_flight)
  have p: "map_of (mfc_pending g) ?c = Some ?k" by (simp add: g update_conv')
  have k: "flight_of g ?k = \<lparr>fl_req = req, fl_cid = ?c, fl_ticket = length (pl_tasks (mfc_pool f)), fl_rx = Empty, fl_stage = Acquiring\<rparr>"
    "length (mfc_flights g) = Suc ?k"
    by (simp_all add: g nth_append)
  have h: "mfc_flights h = (mfc_flights (drop_sender ?c g))[t := fl_stage_update (\<lambda>_. Ended) (flight_of (drop_sender ?c g) t)]"
    "mfc_pending h = mfc_pending (drop_sender ?c g)"
    using rx(2) by (simp_all add: h_def call_given_up_def end_lease_def send_error_back_def set_flight_def send_top_def)
  have "flight_of h ?k = (flight_of g ?k)\<lparr>fl_rx := SenderDropped\<rparr>"
    using assms(1) p k(2) by (simp add: h drop_sender_flight)
  moreover have "map_of (mfc_pending h) ?c = None" by (simp add: h drop_sender_pending)
  ultimately show ?thesis
    using rx(1) k(1) assms(6) by (simp add: on_sub_message_def g_def [symmetric] h_def [symmetric])
qed


subsection \<open>The node before a pool of tool servers stops\<close>

lemma stopped_step:
  assumes "tool_facade_step U n f g" "tf_stage f = Stopped"
  shows "tf_stage g = Stopped \<and> tf_to_top g = tf_to_top f \<and> tf_to_sub g = tf_to_sub f"
  using assms by (cases rule: stopped_stepE) auto

lemma stopped_for_good:
  assumes "(tool_facade_step U n)\<^sup>*\<^sup>* f g" "tf_stage f = Stopped"
  shows "tf_stage g = Stopped \<and> tf_to_top g = tf_to_top f \<and> tf_to_sub g = tf_to_sub f"
  using assms by induction (auto dest: stopped_step)

lemma tool_pool_step:
  assumes "pool_step p q" and "s \<in> {Listening, Stopped} \<or> (\<exists>req t. s = Leasing req t \<and> (\<forall>r. stage_of p t \<noteq> Leased r))"
  shows "tool_facade_step U n \<lparr>tf_stage = s, tf_pool = p, tf_to_top = a, tf_to_sub = b\<rparr>
    \<lparr>tf_stage = s, tf_pool = q, tf_to_top = a, tf_to_sub = b\<rparr>"
  using tool_facade_step.pool [of "\<lparr>tf_stage = s, tf_pool = p, tf_to_top = a, tf_to_sub = b\<rparr>" q U n] assms by auto

text \<open>A call served by a pool of one, from its arrival to the answer and the end of its lease.\<close>

lemma first_call_served:
  assumes "msg_type req = ''tool_exec''" "msg_type resp = ''tool_result''" "correlation_id U resp = correlation_id U req"
  shows "\<exists>x y. (tool_facade_step U n)\<^sup>*\<^sup>* (tool_facade_start (with_provisioner (demo_pool Reject 1) id))
    \<lparr>tf_stage = Listening, tf_pool = between, tf_to_top = [x], tf_to_sub = [y]\<rparr> \<and>
    msg_to x = [msg_from req] \<and> correlation_id U x = correlation_id U req"
proof -
  let ?P = "with_provisioner (demo_pool Reject 1) (id :: nat \<Rightarrow> nat)"
  let ?p1 = "?P\<lparr>pl_tasks := [Starting]\<rparr>" and ?l = "take_resource (\<lambda>_. True) 7 0 one_holding"
  let ?S = "tool_facade_step U n"
  let ?y = "Message_with_from_bus 0 0 (msg_type req) (mp_sub_id (tp_node_id n)) [] (msg_payload req) (tp_sub_bus_id n)"
  let ?x = "Message_with_from_bus 0 0 (msg_type resp) (tp_node_id n) [msg_from req] (msg_payload resp) (tp_top_bus_id n)"
  have s1: "?S (tool_facade_start ?P) \<lparr>tf_stage = Leasing req 0, tf_pool = ?p1, tf_to_top = [], tf_to_sub = []\<rparr>"
    using tool_facade_step.top [of "tool_facade_start ?P" U n req] assms(1) by (simp add: take_tool_call_def tool_facade_start_def)
  have "pool_step ?p1 one_holding" unfolding one_holding_def by (rule pool_move.start) simp_all
  then have s2: "?S \<lparr>tf_stage = Leasing req 0, tf_pool = ?p1, tf_to_top = [], tf_to_sub = []\<rparr>
      \<lparr>tf_stage = Leasing req 0, tf_pool = one_holding, tf_to_top = [], tf_to_sub = []\<rparr>"
    by (rule tool_pool_step) simp
  have "pool_step one_holding ?l" by (rule pool_move.resource; code_simp)
  moreover have "stage_of one_holding 0 = Holding" by code_simp
  ultimately have s3: "?S \<lparr>tf_stage = Leasing req 0, tf_pool = one_holding, tf_to_top = [], tf_to_sub = []\<rparr>
      \<lparr>tf_stage = Leasing req 0, tf_pool = ?l, tf_to_top = [], tf_to_sub = []\<rparr>"
    by (intro tool_pool_step) auto
  have l: "stage_of ?l 0 = Leased 0" by code_simp
  have s4: "?S \<lparr>tf_stage = Leasing req 0, tf_pool = ?l, tf_to_top = [], tf_to_sub = []\<rparr>
      \<lparr>tf_stage = Relaying req 0, tf_pool = ?l, tf_to_top = [], tf_to_sub = [?y]\<rparr>"
    using tool_facade_step.forward [of "\<lparr>tf_stage = Leasing req 0, tf_pool = ?l, tf_to_top = [], tf_to_sub = []\<rparr>" req 0 0 U n 0 0] l
    by (simp add: forward_tool_call_def)
  have s5: "?S \<lparr>tf_stage = Relaying req 0, tf_pool = ?l, tf_to_top = [], tf_to_sub = [?y]\<rparr>
      \<lparr>tf_stage = Listening, tf_pool = drop_lease 0 0 ?l, tf_to_top = [?x], tf_to_sub = [?y]\<rparr>"
    using tool_facade_step.sub [of "\<lparr>tf_stage = Relaying req 0, tf_pool = ?l, tf_to_top = [], tf_to_sub = [?y]\<rparr>" req 0 0 U n 0 0 resp]
      l assms(2,3)
    by (simp add: on_tool_message_def end_tool_call_def)
  have "pool_step (drop_lease 0 0 ?l) between" unfolding between_def by (rule pool_move.drop_permit; code_simp)
  then have s6: "?S \<lparr>tf_stage = Listening, tf_pool = drop_lease 0 0 ?l, tf_to_top = [?x], tf_to_sub = [?y]\<rparr>
      \<lparr>tf_stage = Listening, tf_pool = between, tf_to_top = [?x], tf_to_sub = [?y]\<rparr>"
    by (rule tool_pool_step) simp
  have "?S\<^sup>*\<^sup>* (tool_facade_start ?P) \<lparr>tf_stage = Listening, tf_pool = between, tf_to_top = [?x], tf_to_sub = [?y]\<rparr>"
    using s1 s2 s3 s4 s5 s6 by (meson converse_rtranclp_into_rtranclp r_into_rtranclp)
  moreover have "msg_to ?x = [msg_from req]" "correlation_id U ?x = correlation_id U req"
    using assms(3) by (simp_all add: Message_with_from_bus_def Message_new_def correlation_id_def)
  ultimately show ?thesis by blast
qed

text \<open>What is done in the pool stays so, and the node keeps the books of its pool.\<close>

lemma notify_keeps_done:
  assumes "pool_ok p" "stage_of p t = Done e"
  shows "stage_of (notify_one p) t = Done e"
proof (cases "pl_waiters p")
  case (Cons w ws)
  then have "stage_of p w = Waiting" using pool_okD(2) [OF assms(1)] by (auto simp: waiters_ok_def)
  then have "w \<noteq> t" using assms(2) by auto
  with Cons assms(2) show ?thesis by (simp add: notify_one_def)
qed (use assms(2) in \<open>simp add: notify_one_def\<close>)

lemma cancel_keeps_done: "u \<noteq> t \<Longrightarrow> stage_of p t = Done e \<Longrightarrow> stage_of (cancel u p) t = Done e"
  by (simp add: cancel_def give_permit_def split: stage.splits)

lemma returned_ok:
  assumes "pool_ok p"
  shows "pool_ok (p\<lparr>pl_returning := a, pl_state := push_idle r (pl_state p)\<rparr>)"
  using assms by (subst same_books [of _ p]) (simp_all add: push_idle_def)

lemma provisioned_ok:
  assumes "pool_ok p"
  shows "pool_ok (p\<lparr>pl_state := provision_internal r (pl_state p)\<rparr>)"
  using assms by (subst same_books [of _ p]) (simp_all add: provision_internal_def)

lemma pool_keeps_done:
  assumes "pool_move careful p q" "pool_ok p" "t < length (pl_tasks p)" "stage_of p t = Done e"
  shows "stage_of q t = Done e"
  using assms(1)
proof cases
  case (forward u)
  then have u: "u \<noteq> t" using assms(4) by auto
  have "pool_ok (cancel u p)" using forward assms(2) by (intro cancel_ok) auto
  with u assms(4) show ?thesis unfolding forward(1) by (intro notify_keeps_done) (simp_all add: cancel_keeps_done)
next
  case (return r)
  then show ?thesis using assms(2,4) unfolding return(1) release_task_def by (intro notify_keeps_done returned_ok) simp_all
next
  case (provision_one made)
  then show ?thesis using assms(2,4) unfolding provision_one(1) provision_one_def
    by (auto intro: notify_keeps_done provisioned_ok)
next
  case (cancel u)
  then have "u \<noteq> t" using assms(4) by auto
  with assms(4) show ?thesis unfolding cancel(1) by (simp add: cancel_keeps_done)
qed (use assms(3,4) in \<open>auto simp: acquire_start_def take_permit_def count_pending_def await_notify_def uncount_def
      take_resource_def drop_lease_def drop_permit_def give_permit_def release_def provision_def Let_def nth_append nth_list_update
      split: overflow.splits sum.splits prod.splits outcome.splits\<close>)

definition tools_ok :: "'r tool_facade \<Rightarrow> bool" where
  "tools_ok f \<longleftrightarrow> pool_ok (tf_pool f) \<and>
     (\<forall>req t. tf_stage f \<in> {Leasing req t, Relaying req t} \<longrightarrow> t < length (pl_tasks (tf_pool f)))"

lemma tool_step_ok:
  assumes "tool_facade_step U n f g" "tools_ok f"
  shows "tools_ok g"
  using assms(1)
proof cases
  case (pool p')
  with assms(2) pool_step_tasks [OF pool(2)] pool_step_ok [OF pool(2)] show ?thesis
    by (fastforce simp: tools_ok_def)
qed (use assms(2) in \<open>auto simp: tools_ok_def take_tool_call_def forward_tool_call_def on_tool_message_def end_tool_call_def
      drop_lease_stage call_ok drop_lease_ok\<close>)

lemma tools_reachable_ok:
  assumes "(tool_facade_step U n)\<^sup>*\<^sup>* (tool_facade_start p) f" "pool_start p"
  shows "tools_ok f"
  using assms(1)
proof induction
  case base
  show ?case using pool_start_ok [OF assms(2)] by (simp add: tools_ok_def tool_facade_start_def)
qed (rule tool_step_ok)

definition acquire_failed :: "message \<Rightarrow> nat \<Rightarrow> pool_error \<Rightarrow> 'r tool_facade \<Rightarrow> bool" where
  "acquire_failed req t e f \<longleftrightarrow> tf_stage f = Leasing req t \<and> stage_of (tf_pool f) t = Done (Some e)"

lemma failed_step:
  assumes "tool_facade_step U n f g" "tools_ok f" "acquire_failed req t e f"
  shows "(acquire_failed req t e g \<or> tf_stage g = Stopped) \<and> tf_to_top g = tf_to_top f \<and> tf_to_sub g = tf_to_sub f"
  using assms(1)
proof cases
  case (pool p')
  with assms(2,3) pool_keeps_done [OF pool(2)] show ?thesis by (simp add: tools_ok_def acquire_failed_def)
qed (use assms(3) in \<open>auto simp: acquire_failed_def\<close>)

lemma failed_for_good:
  assumes "(tool_facade_step U n)\<^sup>*\<^sup>* f g" "tools_ok f" "acquire_failed req t e f"
  shows "tools_ok g \<and> (acquire_failed req t e g \<or> tf_stage g = Stopped) \<and> tf_to_top g = tf_to_top f \<and> tf_to_sub g = tf_to_sub f"
  using assms(1)
proof induction
  case (step g h)
  then show ?case using tool_step_ok [OF step.hyps(2)] failed_step [OF step.hyps(2)] stopped_step [OF step.hyps(2)] by auto
qed (use assms(2,3) in simp)

text \<open>
  C19: a node before a pool of tool servers stops for good at the first error of the pool. Whatever pool
  it starts with, in whatever run: once \<^verbatim>\<open>acquire\<close> has ended with an error for the call \<open>req\<close> that the node
  serves, the node sends nothing more to either bus, so neither \<open>req\<close> nor any call after it is answered;
  it stays at \<open>req\<close> until it has stopped, there is nothing else it can do, and it can always stop.
\<close>

theorem pooled_tools_stop:
  assumes "(tool_facade_step U n)\<^sup>*\<^sup>* (tool_facade_start p) f" and "pool_start p"
    and "tf_stage f = Leasing req t" and "stage_of (tf_pool f) t = Done (Some e)"
    and "(tool_facade_step U n)\<^sup>*\<^sup>* f g"
  shows "tf_to_top g = tf_to_top f \<and> tf_to_sub g = tf_to_sub f \<and> tf_stage g \<in> {Leasing req t, Stopped} \<and>
    (tool_facade_step U n)\<^sup>*\<^sup>* g (g\<lparr>tf_stage := Stopped\<rparr>)"
proof -
  have "acquire_failed req t e f" using assms(3,4) by (simp add: acquire_failed_def)
  note g = failed_for_good [OF assms(5) tools_reachable_ok [OF assms(1,2)] this]
  have "(tool_facade_step U n)\<^sup>*\<^sup>* g (g\<lparr>tf_stage := Stopped\<rparr>)"
  proof (cases "tf_stage g = Stopped")
    case True
    then have "g\<lparr>tf_stage := Stopped\<rparr> = g" by (cases g) simp
    then show ?thesis by simp
  next
    case False
    with g show ?thesis by (auto simp: acquire_failed_def intro: tool_facade_step.refused)
  qed
  with g show ?thesis by (auto simp: acquire_failed_def)
qed

text \<open>
  It happens in normal use. With a pool of one: after the first call is answered, its permit is free
  before its resource is back, so a call that arrives then gets \<^verbatim>\<open>Closed\<close> from the pool.
\<close>

lemma second_call_refused:
  assumes "msg_type req = ''tool_exec''" and "msg_type resp = ''tool_result''"
    and "correlation_id U resp = correlation_id U req" and "msg_type req' = ''tool_exec''"
  shows "\<exists>f x. (tool_facade_step U n)\<^sup>*\<^sup>* (tool_facade_start (with_provisioner (demo_pool Reject 1) id)) f \<and>
    tf_to_top f = [x] \<and> msg_to x = [msg_from req] \<and> correlation_id U x = correlation_id U req \<and>
    tf_stage f = Leasing req' 1 \<and> stage_of (tf_pool f) 1 = Done (Some Closed)"
proof -
  obtain x y where c: "(tool_facade_step U n)\<^sup>*\<^sup>* (tool_facade_start (with_provisioner (demo_pool Reject 1) id))
      \<lparr>tf_stage = Listening, tf_pool = between, tf_to_top = [x], tf_to_sub = [y]\<rparr>"
    and x: "msg_to x = [msg_from req]" "correlation_id U x = correlation_id U req"
    using first_call_served [OF assms(1-3)] by blast
  let ?S = "tool_facade_step U n" and ?q1 = "between\<lparr>pl_tasks := pl_tasks between @ [Starting]\<rparr>"
  let ?q2 = "acquire_start 1 ?q1" let ?q3 = "take_resource (\<lambda>_. True) 7 1 ?q2"
  let ?F = "\<lambda>s q. \<lparr>tf_stage = s, tf_pool = q, tf_to_top = [x], tf_to_sub = [y]\<rparr>"
  have len: "length (pl_tasks between) = 1" by code_simp
  have s1: "?S (?F Listening between) (?F (Leasing req' 1) ?q1)"
    using tool_facade_step.top [of "?F Listening between" U n req'] assms(4) len by (simp add: take_tool_call_def)
  have "pool_step ?q1 ?q2" by (rule pool_move.start; code_simp)
  moreover have "stage_of ?q1 1 = Starting" by code_simp
  ultimately have s2: "?S (?F (Leasing req' 1) ?q1) (?F (Leasing req' 1) ?q2)" by (intro tool_pool_step) auto
  have "pool_step ?q2 ?q3" by (rule pool_move.resource; code_simp)
  moreover have "stage_of ?q2 1 = Holding" by code_simp
  ultimately have s3: "?S (?F (Leasing req' 1) ?q2) (?F (Leasing req' 1) ?q3)" by (intro tool_pool_step) auto
  have "?S\<^sup>*\<^sup>* (tool_facade_start (with_provisioner (demo_pool Reject 1) id)) (?F (Leasing req' 1) ?q3)"
    using c s1 s2 s3 by (meson rtranclp.rtrancl_into_rtrancl)
  then show ?thesis using x closed_while_returning by (intro exI [of _ "?F (Leasing req' 1) ?q3"] exI [of _ x]) simp
qed

text \<open>A call without a readable id takes any result without one for its own.\<close>

lemma unidentified_result_taken:
  assumes "correlation_id U req = None" "correlation_id U m = None" "msg_type m = ''tool_result''"
  shows "tf_stage (on_tool_message U i now n req t r m f) = Listening \<and>
    tf_to_top (on_tool_message U i now n req t r m f) \<noteq> tf_to_top f"
  using assms by (simp add: on_tool_message_def end_tool_call_def)

subsection \<open>What the registry reads of them\<close>

lemma find_unique: "x \<in> set xs \<Longrightarrow> P x \<Longrightarrow> (\<And>y. y \<in> set xs \<Longrightarrow> P y \<Longrightarrow> y = x) \<Longrightarrow> find P xs = Some x"
proof (induction xs)
  case (Cons y ys)
  show ?case
  proof (cases "P y")
    case True
    then show ?thesis using Cons.prems(3) [of y] by simp
  next
    case False
    with Cons.prems(1,2) have "x \<in> set ys" by auto
    from Cons.IH [OF this Cons.prems(2)] Cons.prems(3) False show ?thesis by simp
  qed
qed simp

lemma pooled_tools_offered:
  "node_tools (tp_top_info now n) = filter (\<lambda>t. t \<noteq> []) (tp_advertised_tools n)"
  "node_skills (tp_top_info now n) = filter (\<lambda>t. t \<noteq> []) (tp_advertised_skills n)"
proof -
  have "List.map_filter (\<lambda>t. get_str t ''name'') (map (\<lambda>t. JObj [(''name'', JStr t), (''description'', JStr t), (''params_schema'', JObj [])]) ts) = ts"
    for ts by (induction ts) (simp_all add: List.map_filter_simps get_str_def)
  then show "node_tools (tp_top_info now n) = filter (\<lambda>t. t \<noteq> []) (tp_advertised_tools n)"
    "node_skills (tp_top_info now n) = filter (\<lambda>t. t \<noteq> []) (tp_advertised_skills n)"
    by (simp_all add: node_tools_def node_skills_def tp_top_info_def get_array_def strs_to_value_def)
qed

lemma pooled_model_offered:
  "provides d (mp_top_info now n) \<longleftrightarrow> mp_advertised_provider n = md_provider d"
  "supports d (mp_top_info now n) \<longleftrightarrow> md_model_name d \<in> set (mp_advertised_models n)"
  by (auto simp: provides_def supports_def mp_top_info_def get_str_def get_array_def strs_to_value_def list_ex_iff)

text \<open>
  An engine finds the node before a pool of models. If the graph holds it, and no other node
  offers the provider, the model of a declaration resolves to it if and only if its name is among the
  advertised ones.
\<close>

theorem pooled_model_found:
  assumes "mp_top_info now n \<in> set (bg_nodes g)" and "md_provider (ac_model c) = mp_advertised_provider n"
    and "\<forall>m \<in> set (bg_nodes g). provides (ac_model c) m \<longrightarrow> m = mp_top_info now n"
  shows "(\<exists>i. resolve_model c g = Inr i) = (md_model_name (ac_model c) \<in> set (mp_advertised_models n)) \<and>
    (\<forall>i. resolve_model c g = Inr i \<longrightarrow> i = mp_node_id n)"
proof -
  let ?m = "mp_top_info now n"
  have p: "provides (ac_model c) ?m" using assms(2) by (simp add: pooled_model_offered)
  have f: "find (provides (ac_model c)) (bg_nodes g) = Some ?m"
    by (rule find_unique) (use p assms in blast)+
  have "find (\<lambda>x. provides (ac_model c) x \<and> supports (ac_model c) x) (bg_nodes g) =
      (if supports (ac_model c) ?m then Some ?m else None)"
  proof (cases "supports (ac_model c) ?m")
    case True
    have "find (\<lambda>x. provides (ac_model c) x \<and> supports (ac_model c) x) (bg_nodes g) = Some ?m"
      by (rule find_unique) (use p True assms in blast)+
    with True show ?thesis by simp
  next
    case False
    have "find (\<lambda>x. provides (ac_model c) x \<and> supports (ac_model c) x) (bg_nodes g) = None"
      unfolding find_None_iff using False assms(3) by blast
    with False show ?thesis by simp
  qed
  note f this
  moreover have "ni_node_id ?m = mp_node_id n" by (simp add: mp_top_info_def)
  ultimately show ?thesis
    by (auto simp: resolve_model_def Let_def pooled_model_offered split: if_splits)
qed


subsection \<open>Runs\<close>

definition demo_call :: "node_id \<Rightarrow> message" where
  "demo_call n = Message_new 0 0 MODEL_CALL n [] (JObj [(''correlation_id'', JStr ''1'')])"

definition demo_mp :: model_pool_node where
  "demo_mp = \<lparr>mp_node_id = NodeId ''pool'', mp_top_bus_id = BusId 0, mp_sub_bus_id = BusId 1,
     mp_advertised_provider = ''p'', mp_advertised_models = [''m'']\<rparr>"

text \<open>A call to a pool that has nothing to give is refused.\<close>

definition demo_called :: "nat model_facade" where
  "demo_called = on_top_message unary_uuid 0 0 demo_mp (demo_call (NodeId ''e'')) (model_facade_start (with_resources (demo_pool Reject 0) []))"

definition demo_holding :: "nat model_facade" where
  "demo_holding = demo_called\<lparr>mfc_pool := acquire_start 0 (mfc_pool demo_called)\<rparr>"

definition demo_failed :: "nat model_facade" where
  "demo_failed = demo_holding\<lparr>mfc_pool := take_resource (\<lambda>_. True) 7 0 (mfc_pool demo_holding)\<rparr>"

definition demo_refused :: "nat model_facade" where
  "demo_refused = call_refused unary_uuid (\<lambda>_. []) 0 0 demo_mp 0 (Acquire ''no idle resource and no provisioner registered'') demo_failed"

lemma demo_refused_reached:
  "(model_facade_step unary_uuid (\<lambda>_. []) demo_mp)\<^sup>*\<^sup>* (model_facade_start (with_resources (demo_pool Reject 0) [])) demo_refused"
proof -
  let ?S = "model_facade_step unary_uuid (\<lambda>_. []) demo_mp"
  have "?S (model_facade_start (with_resources (demo_pool Reject 0) [])) demo_called"
    unfolding demo_called_def by (rule model_facade_step.top) (simp add: model_facade_start_def)
  moreover have "?S demo_called demo_holding"
    unfolding demo_holding_def
    by (intro model_facade_step.pool pool_move.start) (code_simp | simp add: keeps_leases_def; code_simp)+
  moreover have "?S demo_holding demo_failed"
    unfolding demo_failed_def
    by (intro model_facade_step.pool pool_move.resource) (code_simp | simp add: keeps_leases_def; code_simp)+
  moreover have "?S demo_failed demo_refused"
    unfolding demo_refused_def by (rule model_facade_step.refused; code_simp)
  ultimately show ?thesis by (meson converse_rtranclp_into_rtranclp r_into_rtranclp)
qed

theorem pooled_calls_answered_once_witness:
  "{#k \<in># mset (map (\<lambda>m. (msg_to m, correlation_id unary_uuid m)) (mfc_to_top demo_refused)). snd k \<noteq> None#} =
     {#([NodeId ''e''], Some 1)#}"
proof -
  have "pool_start (with_resources (demo_pool Reject 0) ([] :: nat list))" by (rule pool_start.resources) simp_all
  from pooled_calls_answered_once [OF demo_refused_reached unary_uuid_ok this, THEN conjunct1]
  have e: "{#k \<in># mset (map (\<lambda>m. (msg_to m, correlation_id unary_uuid m)) (mfc_to_top demo_refused)). snd k \<noteq> None#} =
      mset (map (\<lambda>c. ([msg_from (fl_req c)], Some (fl_cid c))) (filter (\<lambda>c. fl_stage c = Ended) (mfc_flights demo_refused)))" .
  have "map (\<lambda>c. ([msg_from (fl_req c)], Some (fl_cid c))) (filter (\<lambda>c. fl_stage c = Ended) (mfc_flights demo_refused)) =
      [([NodeId ''e''], Some 1)]"
    by code_simp
  then show ?thesis unfolding e by simp
qed

text \<open>A call that waits for its reply, and a second one with its id.\<close>

definition demo_waiting :: "nat model_facade" where
  "demo_waiting = (model_facade_start ((with_provisioner (demo_pool Reject 1) id)\<lparr>pl_tasks := [Leased 0]\<rparr>))
     \<lparr>mfc_pending := [(1, 0)], mfc_flights := [\<lparr>fl_req = demo_call (NodeId ''a''), fl_cid = 1, fl_ticket = 0, fl_rx = Empty,
        fl_stage = AwaitingReply\<rparr>]\<rparr>"

theorem same_id_ends_both_witness:
  "fl_rx (flight_of (call_given_up unary_uuid 0 0 demo_mp 0 0 (on_top_message unary_uuid 0 0 demo_mp (demo_call (NodeId ''b'')) demo_waiting)) 1)
     = SenderDropped"
  using same_id_ends_both [of 0 demo_waiting "demo_call (NodeId ''b'')" unary_uuid "demo_call (NodeId ''b'')" 0 0 demo_mp 0 0 0]
  by (simp add: demo_waiting_def demo_call_def MODEL_CALL_def Message_new_def correlation_id_def payload_cid_def get_str_def unary_uuid_def Let_def)

definition demo_tp :: mcp_pool_node where
  "demo_tp = \<lparr>tp_node_id = NodeId ''pool'', tp_top_bus_id = BusId 0, tp_sub_bus_id = BusId 1, tp_advertised_tools = [],
     tp_advertised_skills = []\<rparr>"

definition demo_exec :: "string \<Rightarrow> message" where
  "demo_exec cid = Message_new 0 0 ''tool_exec'' (NodeId ''e'') [] (JObj [(''correlation_id'', JStr cid)])"

theorem pooled_tools_stop_witness:
  "\<exists>f x g. (tool_facade_step unary_uuid demo_tp)\<^sup>*\<^sup>* (tool_facade_start (with_provisioner (demo_pool Reject 1) id)) f \<and>
     tf_stage f = Leasing (demo_exec ''11'') 1 \<and> tf_to_top f = [x] \<and> correlation_id unary_uuid x = Some 1 \<and>
     (tool_facade_step unary_uuid demo_tp)\<^sup>*\<^sup>* f g \<and> tf_stage g = Stopped \<and> tf_to_top g = [x]"
proof -
  let ?resp = "Message_new 0 0 ''tool_result'' (NodeId ''t'') [] (JObj [(''correlation_id'', JStr ''1'')])"
  have m: "msg_type (demo_exec ''1'') = ''tool_exec''" "msg_type ?resp = ''tool_result''"
    "correlation_id unary_uuid ?resp = correlation_id unary_uuid (demo_exec ''1'')" "msg_type (demo_exec ''11'') = ''tool_exec''"
    by (simp_all add: Message_new_def correlation_id_def demo_exec_def)
  have one: "correlation_id unary_uuid (demo_exec ''1'') = Some 1" by code_simp
  obtain f x where f: "(tool_facade_step unary_uuid demo_tp)\<^sup>*\<^sup>* (tool_facade_start (with_provisioner (demo_pool Reject 1) (id :: nat \<Rightarrow> nat))) f"
    "tf_to_top f = [x]" "correlation_id unary_uuid x = Some 1" "tf_stage f = Leasing (demo_exec ''11'') 1"
    "stage_of (tf_pool f) 1 = Done (Some Closed)"
    using second_call_refused [OF m] one by metis
  from pooled_tools_stop [OF f(1) demo_pool_start f(4,5) rtranclp.rtrancl_refl]
  have "(tool_facade_step unary_uuid demo_tp)\<^sup>*\<^sup>* f (f\<lparr>tf_stage := Stopped\<rparr>)" by simp
  with f show ?thesis by (intro exI [of _ f] exI [of _ x] exI [of _ "f\<lparr>tf_stage := Stopped\<rparr>"]) simp
qed

end
