(* ===== verification/Mcp_Tools.thy ===== *)
theory Mcp_Tools
  imports Mcp_Node Model_Adapter
begin

text \<open>
  The tools behind the tool node of \<^verbatim>\<open>crates/arf-mcp\<close>: script tools that run a process (\<^verbatim>\<open>script.rs\<close>),
  tools of a remote server (\<^verbatim>\<open>remote.rs\<close>), the index of skills (\<^verbatim>\<open>skill.rs\<close>) and the two kinds
  of discovery (\<^verbatim>\<open>discovery.rs\<close>).

  Parameters: processes and the compiler, as records that say when and how each of their phases
  ends; the files, as a record of what the calls of the standard library return; the HTTP client; the
  parsers of JSON, YAML and TOML.
\<close>

subsection \<open>Processes\<close>

text \<open>
  A phase takes a time, or never ends. \<open>pc_feed\<close> is the writing of the standard input, which a
  process that does not read it can delay for ever; \<open>pc_wait\<close> the rest of its life.
\<close>

record process_output =
  po_success :: bool
  po_code :: "int option"
  po_stdout :: string
  po_stderr :: string

record process =
  pc_feed :: "string \<Rightarrow> (millis \<times> (string + unit)) option"
  pc_wait :: "string \<Rightarrow> (millis \<times> (string + process_output)) option"

datatype command = Interpreter string fs_path | Binary fs_path

text \<open>Metadata: the time of the last change, or the error of asking for it.\<close>

record 's script_os =
  os_modified :: "fs_path \<Rightarrow> 's \<Rightarrow> (string + int) option"
  os_rustc :: "fs_path \<Rightarrow> fs_path \<Rightarrow> 's \<Rightarrow> (millis \<times> (string + process_output)) option \<times> 's"
  os_spawn :: "command \<Rightarrow> 's \<Rightarrow> string + process"
  os_render :: "json \<Rightarrow> string"
  os_lossy :: "string \<Rightarrow> string"
  os_parse :: "string \<Rightarrow> string + json"
  os_show_int :: "int \<Rightarrow> string"
  os_show_path :: "fs_path \<Rightarrow> string"

definition str_components :: "string \<Rightarrow> string list" where
  "str_components s = filter (\<lambda>c. c \<noteq> [] \<and> c \<noteq> ''.'') (split_on (CHR ''/'') s)"

text \<open>\<^verbatim>\<open>PathBuf::join\<close>: an absolute path replaces the base.\<close>

definition fs_join :: "fs_path \<Rightarrow> string \<Rightarrow> fs_path" where
  "fs_join p s =
     (if starts_with ''/'' s then \<lparr>fp_absolute = True, fp_components = str_components s\<rparr>
      else p\<lparr>fp_components := fp_components p @ str_components s\<rparr>)"

subsection \<open>Script tools\<close>

text \<open>\<open>st_cancel_txs\<close>: the invocations whose cancellation sender is registered, by their number.\<close>

record script_tool =
  st_config :: tool_config
  st_dir :: fs_path
  st_cancel_txs :: "nat list"
  st_next_cancel_id :: nat

definition ScriptTool_new :: "tool_config \<Rightarrow> fs_path \<Rightarrow> script_tool" where
  "ScriptTool_new c dir = \<lparr>st_config = c, st_dir = dir, st_cancel_txs = [], st_next_cancel_id = 0\<rparr>"

text \<open>\<^verbatim>\<open>trim_end_matches(".rs")\<close> takes the ending away as often as it is there.\<close>

function trim_rs :: "string \<Rightarrow> string" where
  "trim_rs s =
     (if length s \<ge> 3 \<and> drop (length s - 3) s = ''.rs'' then trim_rs (take (length s - 3) s) else s)"
  by pat_completeness auto
termination by (relation "measure length") auto

declare trim_rs.simps [simp del]

definition binary_path :: "script_tool \<Rightarrow> fs_path" where
  "binary_path st = fs_join (st_dir st) (trim_rs (tg_entrypoint (st_config st)))"

definition entry_path :: "script_tool \<Rightarrow> fs_path" where
  "entry_path st = fs_join (st_dir st) (tg_entrypoint (st_config st))"

definition needs_compile :: "'s script_os \<Rightarrow> fs_path \<Rightarrow> fs_path \<Rightarrow> 's \<Rightarrow> string + bool" where
  "needs_compile O_S source binary s =
     (case (os_modified O_S source s, os_modified O_S binary s) of
        (Some src, Some bin) \<Rightarrow>
          (case src of
             Inl e \<Rightarrow> Inl (''stat src: '' @ e)
           | Inr src_time \<Rightarrow>
               (case bin of Inl e \<Rightarrow> Inl (''stat bin: '' @ e) | Inr bin_time \<Rightarrow> Inr (src_time > bin_time)))
      | (Some _, None) \<Rightarrow> Inr True
      | (None, _) \<Rightarrow> Inl (''source file not found: '' @ os_show_path O_S source))"

text \<open>The time it takes, and the command or an error; \<open>None\<close> when the compiler never ends.\<close>

definition build_command ::
  "'s script_os \<Rightarrow> script_tool \<Rightarrow> 's \<Rightarrow> (millis \<times> (string + command)) option \<times> 's" where
  "build_command O_S st s =
     (let entrypoint_path = entry_path st
      in case tg_runtime (st_config st) of
           Python \<Rightarrow> (Some (0, Inr (Interpreter ''python3'' entrypoint_path)), s)
         | Bash \<Rightarrow> (Some (0, Inr (Interpreter ''bash'' entrypoint_path)), s)
         | RustScript \<Rightarrow>
             (let binary = binary_path st
              in case needs_compile O_S entrypoint_path binary s of
                   Inl e \<Rightarrow> (Some (0, Inl e), s)
                 | Inr False \<Rightarrow> (Some (0, Inr (Binary binary)), s)
                 | Inr True \<Rightarrow>
                     (case os_rustc O_S entrypoint_path binary s of
                        (None, s') \<Rightarrow> (None, s')
                      | (Some (t, Inl e), s') \<Rightarrow> (Some (t, Inl (''rustc spawn: '' @ e)), s')
                      | (Some (t, Inr out), s') \<Rightarrow>
                          if \<not> po_success out
                          then (Some (t, Inl (''rustc compile error:'' @ [newline] @ os_lossy O_S (po_stderr out))), s')
                          else (Some (t, Inr (Binary binary)), s'))))"

text \<open>The result of a process that has ended.\<close>

definition script_outcome :: "'s script_os \<Rightarrow> string + process_output \<Rightarrow> tool_outcome" where
  "script_outcome O_S res =
     (case res of
        Inl e \<Rightarrow> ToolError (''process error: '' @ e)
      | Inr out \<Rightarrow>
          if \<not> po_success out
          then ToolError (''exit code '' @ os_show_int O_S (case po_code out of None \<Rightarrow> - 1 | Some c \<Rightarrow> c) @ '': ''
                          @ trim (os_lossy O_S (po_stderr out)))
          else (case os_parse O_S (os_lossy O_S (po_stdout out)) of
                  Inl e \<Rightarrow> ToolError (''invalid JSON from script: '' @ e)
                | Inr v \<Rightarrow> Value v))"

text \<open>
  The race of \<^verbatim>\<open>select!\<close>: the earliest of the exit, the cancellation and the timeout, each when it
  happens at all; \<open>pick\<close> chooses among those that are ready at the same time.
\<close>

datatype racer = Exited "string + process_output" | CancelReceived | TimeoutFired

definition earliest :: "(racer list \<Rightarrow> racer) \<Rightarrow> (millis \<times> racer) list \<Rightarrow> (millis \<times> racer) option" where
  "earliest pick rs =
     (if rs = [] then None
      else (let t = Min (set (map fst rs)) in Some (t, pick (map snd (filter (\<lambda>r. fst r = t) rs)))))"

definition racers ::
  "(millis \<times> (string + process_output)) option \<Rightarrow> millis option \<Rightarrow> millis option \<Rightarrow> (millis \<times> racer) list" where
  "racers exit cancel timeout =
     (case exit of None \<Rightarrow> [] | Some (t, r) \<Rightarrow> [(t, Exited r)])
     @ (case cancel of None \<Rightarrow> [] | Some t \<Rightarrow> [(t, CancelReceived)])
     @ (case timeout of None \<Rightarrow> [] | Some t \<Rightarrow> [(t, TimeoutFired)])"

text \<open>
  How an invocation goes: it may end, or block for ever, before its cancellation sender is
  registered; after that it is in the race. A process that loses the race is killed when it is
  dropped.
\<close>

datatype launch = Stuck | EndedEarly millis string | Launched millis process string

definition script_launch :: "'s script_os \<Rightarrow> script_tool \<Rightarrow> json \<Rightarrow> 's \<Rightarrow> launch \<times> 's" where
  "script_launch O_S st params s =
     (case build_command O_S st s of
        (None, s') \<Rightarrow> (Stuck, s')
      | (Some (t, Inl e), s') \<Rightarrow> (EndedEarly t e, s')
      | (Some (t, Inr cmd), s') \<Rightarrow>
          (case os_spawn O_S cmd s' of
             Inl e \<Rightarrow> (EndedEarly t (''failed to spawn process: '' @ e), s')
           | Inr proc \<Rightarrow>
               (let input = os_render O_S params
                in case pc_feed proc input of
                     None \<Rightarrow> (Stuck, s')
                   | Some (u, Inl e) \<Rightarrow> (EndedEarly (t + u) (''write stdin error: '' @ e), s')
                   | Some (u, Inr _) \<Rightarrow> (Launched (t + u) proc input, s'))))"

definition register_cancel :: "script_tool \<Rightarrow> nat \<times> script_tool" where
  "register_cancel st =
     (st_next_cancel_id st,
      st\<lparr>st_next_cancel_id := st_next_cancel_id st + 1, st_cancel_txs := st_cancel_txs st @ [st_next_cancel_id st]\<rparr>)"

definition unregister_cancel :: "nat \<Rightarrow> script_tool \<Rightarrow> script_tool" where
  "unregister_cancel i st = st\<lparr>st_cancel_txs := remove1 i (st_cancel_txs st)\<rparr>"

text \<open>\<^verbatim>\<open>cancel\<close>: every registered invocation is told, and the registrations are gone.\<close>

definition script_cancel :: "script_tool \<Rightarrow> nat list \<times> script_tool" where
  "script_cancel st = (st_cancel_txs st, st\<lparr>st_cancel_txs := []\<rparr>)"

text \<open>When the invocation learns of a cancellation at \<open>cancel_at\<close>, counted from its registration at \<open>t\<close>.\<close>

definition effective_cancel :: "millis \<Rightarrow> millis option \<Rightarrow> millis option" where
  "effective_cancel t cancel_at =
     (case cancel_at of None \<Rightarrow> None | Some c \<Rightarrow> if c < t then None else Some (c - t))"

text \<open>
  \<^verbatim>\<open>execute\<close>, when the cancellation of the tool comes at \<open>cancel_at\<close> after the start of the call, if at
  all: it reaches an invocation that is registered by then.
\<close>

definition script_execute ::
  "'s script_os \<Rightarrow> (racer list \<Rightarrow> racer) \<Rightarrow> millis option \<Rightarrow> json \<Rightarrow> script_tool \<times> 's
    \<Rightarrow> completion \<times> script_tool \<times> 's" where
  "script_execute O_S pick cancel_at params sts =
     (let (st, s) = sts in
      case script_launch O_S st params s of
        (Stuck, s') \<Rightarrow> (Never, st, s')
      | (EndedEarly t e, s') \<Rightarrow> (After t (ToolError e), st, s')
      | (Launched t proc input, s') \<Rightarrow>
          (let (i, st1) = register_cancel st
           in case earliest pick (racers (pc_wait proc input) (effective_cancel t cancel_at)
                                    (tg_timeout_ms (st_config st))) of
                None \<Rightarrow> (Never, st1, s')
              | Some (u, Exited res) \<Rightarrow> (After (t + u) (script_outcome O_S res), unregister_cancel i st1, s')
              | Some (u, CancelReceived) \<Rightarrow> (After (t + u) (ToolError ''cancelled''), snd (script_cancel st1), s')
              | Some (u, TimeoutFired) \<Rightarrow> (After (t + u) (ToolError ''timeout''), st1, s')))"

text \<open>
  The tool the executor calls: an invocation in the file system \<open>s\<close>, which nobody cancels. Its
  \<^verbatim>\<open>cancel\<close> (\<open>script_cancel\<close>) only sends, so it returns at once.
\<close>

definition script_as_tool :: "'s script_os \<Rightarrow> (racer list \<Rightarrow> racer) \<Rightarrow> script_tool \<Rightarrow> 's \<Rightarrow> tool" where
  "script_as_tool O_S pick st s =
     \<lparr>tool_execute = (\<lambda>_ params. fst (script_execute O_S pick None params (st, s))),
      tool_cancel = (\<lambda>_. CancelReturns)\<rparr>"


subsection \<open>Remote tools\<close>

record remote_config =
  rg_transport :: string
  rg_url :: string
  rg_timeout_secs :: "nat option"
  rg_headers :: "(string \<times> string) list"
  rg_tls_ca_cert :: "string option"
  rg_retry :: "(nat \<times> nat \<times> nat) option"

text \<open>
  The HTTP client, which \<^verbatim>\<open>build_http_client\<close> makes from the headers and the certificate: what becomes of a
  POST of a body to an address with a time limit. \<open>SendError\<close> and \<open>ReadError\<close> are its errors.
\<close>

datatype http_end = SendError string | ReadError string | ResponseText string

type_synonym http_client = "string \<Rightarrow> nat option \<Rightarrow> json \<Rightarrow> (millis \<times> http_end) option"

definition rpc_body :: "string \<Rightarrow> json \<Rightarrow> json" where
  "rpc_body rpc_method params =
     JObj [(''jsonrpc'', JStr ''2.0''), (''id'', JInt 1), (''method'', JStr rpc_method), (''params'', params)]"

text \<open>
  The derived \<^verbatim>\<open>Deserialize\<close> of \<^verbatim>\<open>JsonRpcResponse\<close> on an object: both keys may be missing or null, other
  keys are ignored.
\<close>

fun rpc_error_of_value :: "json option \<Rightarrow> (int \<times> string) option option" where
  "rpc_error_of_value None = Some None"
| "rpc_error_of_value (Some JNull) = Some None"
| "rpc_error_of_value (Some j) =
     (case (json_get j ''code'', get_str j ''message'') of
        (Some (JInt c), Some m) \<Rightarrow> if - (2 ^ 31) \<le> c \<and> c < 2 ^ 31 then Some (Some (c, m)) else None
      | _ \<Rightarrow> None)"

fun rpc_of_value :: "json \<Rightarrow> json_rpc_response option" where
  "rpc_of_value (JObj kvs) =
     map_option (\<lambda>e. \<lparr>rpc_result = (case map_of kvs ''result'' of Some JNull \<Rightarrow> None | r \<Rightarrow> r), rpc_error = e\<rparr>)
       (rpc_error_of_value (map_of kvs ''error''))"
| "rpc_of_value _ = None"

definition rpc_parse :: "(string \<Rightarrow> json option) \<Rightarrow> string \<Rightarrow> json_rpc_response option" where
  "rpc_parse parse body = Option.bind (parse body) rpc_of_value"

text \<open>\<^verbatim>\<open>rpc_call\<close>: \<open>None\<close> when the client waits for ever.\<close>

definition rpc_call ::
  "(string \<Rightarrow> json option) \<Rightarrow> http_client \<Rightarrow> remote_config \<Rightarrow> string \<Rightarrow> json
    \<Rightarrow> (millis \<times> (string + json_rpc_response)) option" where
  "rpc_call parse http config rpc_method params =
     (case http (rg_url config) (rg_timeout_secs config) (rpc_body rpc_method params) of
        None \<Rightarrow> None
      | Some (t, SendError e) \<Rightarrow> Some (t, Inl e)
      | Some (t, ReadError e) \<Rightarrow> Some (t, Inl e)
      | Some (t, ResponseText body) \<Rightarrow> Some (t, Inr (parse_sse_or_json (rpc_parse parse) body)))"

definition tool_content_of_value :: "json \<Rightarrow> tool_content option" where
  "tool_content_of_value j =
     (case (get_str j ''type'', opt_str_of_value (json_get j ''text'')) of
        (Some ty, Some txt) \<Rightarrow> Some \<lparr>tco_type = ty, tco_text = txt\<rparr>
      | _ \<Rightarrow> None)"

definition call_tool_result_of_value :: "json \<Rightarrow> (tool_content list \<times> bool) option" where
  "call_tool_result_of_value j =
     (case (Option.bind (get_array j ''content'') (\<lambda>xs. those (map tool_content_of_value xs)), json_get j ''isError'') of
        (Some cs, None) \<Rightarrow> Some (cs, False)
      | (Some cs, Some (JBool b)) \<Rightarrow> Some (cs, b)
      | _ \<Rightarrow> None)"

text \<open>\<open>why\<close> is the message of a value that does not deserialize.\<close>

definition proxy_result ::
  "(int \<Rightarrow> string) \<Rightarrow> (json \<Rightarrow> string) \<Rightarrow> string \<Rightarrow> json_rpc_response \<Rightarrow> tool_outcome" where
  "proxy_result show_int why name jrpc =
     (case rpc_error jrpc of
        Some (code, message) \<Rightarrow> ToolError (''MCP error ['' @ show_int code @ '']: '' @ message)
      | None \<Rightarrow>
          (let result = (case rpc_result jrpc of None \<Rightarrow> JNull | Some r \<Rightarrow> r)
           in case call_tool_result_of_value result of
                None \<Rightarrow> ToolError (''parse error: '' @ why result)
              | Some (contents, is_error) \<Rightarrow>
                  (case call_result_to_output contents is_error name of Inl e \<Rightarrow> ToolError e | Inr v \<Rightarrow> Value v)))"

definition proxy_tool ::
  "(int \<Rightarrow> string) \<Rightarrow> (json \<Rightarrow> string) \<Rightarrow> (string \<Rightarrow> json option) \<Rightarrow> http_client \<Rightarrow> remote_config \<Rightarrow> remote_tool_def \<Rightarrow> tool" where
  "proxy_tool show_int why parse http config d = plain_tool (\<lambda>_ params.
     (case http (rg_url config) (rg_timeout_secs config)
             (rpc_body ''tools/call'' (JObj [(''name'', JStr (rd_name d)), (''arguments'', params)])) of
        None \<Rightarrow> Never
      | Some (t, SendError e) \<Rightarrow> After t (ToolError (''HTTP error: '' @ e))
      | Some (t, ReadError e) \<Rightarrow> After t (ToolError (''read error: '' @ e))
      | Some (t, ResponseText body) \<Rightarrow>
          After t (proxy_result show_int why (rd_name d) (parse_sse_or_json (rpc_parse parse) body))))"

definition remote_tool_def_of_value :: "json \<Rightarrow> remote_tool_def option" where
  "remote_tool_def_of_value j =
     (case (get_str j ''name'', get_str j ''description'') of
        (Some n, Some d) \<Rightarrow>
          Some \<lparr>rd_name = n, rd_description = d,
                rd_input_schema = (case json_get j ''inputSchema'' of None \<Rightarrow> JNull | Some s \<Rightarrow> s)\<rparr>
      | _ \<Rightarrow> None)"

definition listed_tools :: "json_rpc_response \<Rightarrow> remote_tool_def list" where
  "listed_tools resp =
     (case Option.bind (Option.bind (rpc_result resp) (\<lambda>r. get_array r ''tools''))
             (\<lambda>xs. those (map remote_tool_def_of_value xs)) of
        None \<Rightarrow> []
      | Some ds \<Rightarrow> ds)"

datatype mcp_error = Discovery string | RemoteUnreachable string string | RemoteRejected string int string | BusConnect string

definition mcp_error_display :: "(int \<Rightarrow> string) \<Rightarrow> mcp_error \<Rightarrow> string" where
  "mcp_error_display show_int e =
     (case e of
        Discovery reason \<Rightarrow> ''discovery error: '' @ reason
      | RemoteUnreachable url reason \<Rightarrow> ''remote MCP server unreachable ('' @ url @ ''): '' @ reason
      | RemoteRejected url code message \<Rightarrow>
          ''remote MCP server rejected handshake ('' @ url @ ''): ['' @ show_int code @ ''] '' @ message
      | BusConnect reason \<Rightarrow> ''bus connection failed: '' @ reason)"

definition init_params :: json where
  "init_params =
     JObj [(''protocolVersion'', JStr ''1.0''),
           (''clientInfo'', JObj [(''name'', JStr ''arf-mcp''), (''version'', JStr ''1.0'')]),
           (''capabilities'', JObj [])]"

definition no_skills :: "tool_info list \<Rightarrow> (string \<rightharpoonup> tool) \<Rightarrow> discovery" where
  "no_skills infos tools =
     \<lparr>di_tools = infos, di_tool_map = tools, di_skills = [], di_skill_body = (\<lambda>_. None),
      di_skill_resources = (\<lambda>_. None), di_resource_file = (\<lambda>_ _. Inl ''skills not supported''),
      di_run_skill_tool = (\<lambda>_ _ _. Fail ''skills not supported'')\<rparr>"

definition http_connect ::
  "(int \<Rightarrow> string) \<Rightarrow> (json \<Rightarrow> string) \<Rightarrow> (string \<Rightarrow> json option) \<Rightarrow> http_client \<Rightarrow> remote_config
    \<Rightarrow> (mcp_error, discovery) outcome" where
  "http_connect show_int why parse http config =
     (case rpc_call parse http config ''initialize'' init_params of
        None \<Rightarrow> Hang
      | Some (_, Inl e) \<Rightarrow> Fail (RemoteUnreachable (rg_url config) e)
      | Some (_, Inr init_resp) \<Rightarrow>
          (case rpc_error init_resp of
             Some (code, message) \<Rightarrow> Fail (RemoteRejected (rg_url config) code message)
           | None \<Rightarrow>
               (case rpc_call parse http config ''tools/list'' (JObj []) of
                  None \<Rightarrow> Hang
                | Some (_, Inl e) \<Rightarrow> Fail (RemoteUnreachable (rg_url config) e)
                | Some (_, Inr resp) \<Rightarrow>
                    (let (infos, tools) = remote_tools (proxy_tool show_int why parse http config) (listed_tools resp) [] Map.empty
                     in Ret (no_skills infos tools)))))"

subsection \<open>Skills\<close>

record frontmatter =
  fm_name :: string
  fm_description :: string
  fm_compatibility :: "string option"

record indexed_skill = skill_entry +
  sk_compatibility :: "string option"
  sk_source_dir :: fs_path

datatype file_kind = RegularFile | Directory | OtherKind

text \<open>
  What the standard library returns for the files: the entries of a directory with their names and kinds
  (\<open>None\<close> when it cannot be read), whether a path is a directory or a file once links are followed, and
  the contents; \<open>sf_name_ok\<close> tells whether a name is text.
\<close>

record skill_files =
  sf_read_dir :: "fs_path \<Rightarrow> (string \<times> file_kind) list option"
  sf_is_dir :: "fs_path \<Rightarrow> bool"
  sf_is_file :: "fs_path \<Rightarrow> bool"
  sf_read_to_string :: "fs_path \<Rightarrow> string + string"
  sf_canonicalize :: "fs_path \<Rightarrow> string + fs_path"
  sf_name_ok :: "string \<Rightarrow> bool"
  sf_yaml :: "string \<Rightarrow> frontmatter option"
  sf_toml :: "string \<Rightarrow> tool_config option"

text \<open>\<^verbatim>\<open>content.splitn(3, "---")\<close>, of which the second piece is taken.\<close>

fun cut_at :: "string \<Rightarrow> string \<Rightarrow> (string \<times> string) option" where
  "cut_at sep [] = (if sep = [] then Some ([], []) else None)"
| "cut_at sep (c # s) =
     (if starts_with sep (c # s) then Some ([], drop (length sep) (c # s))
      else map_option (\<lambda>(a, b). (c # a, b)) (cut_at sep s))"

definition frontmatter_text :: "string \<Rightarrow> string option" where
  "frontmatter_text content =
     (case cut_at ''---'' content of
        None \<Rightarrow> None
      | Some (_, rest) \<Rightarrow> Some (case cut_at ''---'' rest of None \<Rightarrow> rest | Some (y, _) \<Rightarrow> y))"

definition parse_frontmatter :: "skill_files \<Rightarrow> string \<Rightarrow> frontmatter option" where
  "parse_frontmatter F content = Option.bind (frontmatter_text content) (sf_yaml F)"

definition skill_at :: "skill_files \<Rightarrow> fs_path \<Rightarrow> indexed_skill option" where
  "skill_at F skill_dir =
     (if \<not> sf_is_dir F skill_dir then None
      else case sf_read_to_string F (fs_join skill_dir ''SKILL.md'') of
             Inl _ \<Rightarrow> None
           | Inr content \<Rightarrow>
               map_option (\<lambda>fm. \<lparr>sk_name = fm_name fm, sk_description = fm_description fm,
                                 sk_compatibility = fm_compatibility fm, sk_source_dir = skill_dir\<rparr>)
                 (parse_frontmatter F content))"

text \<open>The entries of the \<^verbatim>\<open>HashMap\<close>, in the order of their insertion, which is one of its orders.\<close>

definition skill_scan :: "skill_files \<Rightarrow> fs_path \<Rightarrow> (string \<times> indexed_skill) list" where
  "skill_scan F base =
     (let skills_dir = fs_join base ''skills''
      in if \<not> sf_is_dir F skills_dir then []
         else case sf_read_dir F skills_dir of
                None \<Rightarrow> []
              | Some entries \<Rightarrow>
                  fold (\<lambda>(name, _) idx. case skill_at F (fs_join skills_dir name) of
                          None \<Rightarrow> idx
                        | Some e \<Rightarrow> AList.update (sk_name e) e idx) entries [])"

definition list_kind :: "skill_files \<Rightarrow> file_kind \<Rightarrow> fs_path \<Rightarrow> string list" where
  "list_kind F k dir =
     (case sf_read_dir F dir of
        None \<Rightarrow> []
      | Some entries \<Rightarrow> sort (map fst (filter (\<lambda>(n, k'). k' = k \<and> sf_name_ok F n) entries)))"

definition load_body :: "skill_files \<Rightarrow> (string \<times> indexed_skill) list \<Rightarrow> string \<Rightarrow> string option" where
  "load_body F idx name =
     (case map_of idx name of
        None \<Rightarrow> None
      | Some e \<Rightarrow> (case sf_read_to_string F (fs_join (sk_source_dir e) ''SKILL.md'') of Inl _ \<Rightarrow> None | Inr s \<Rightarrow> Some s))"

definition load_resources :: "skill_files \<Rightarrow> (string \<times> indexed_skill) list \<Rightarrow> string \<Rightarrow> skill_resources option" where
  "load_resources F idx name =
     map_option (\<lambda>e. \<lparr>sr_tools = list_kind F Directory (fs_join (sk_source_dir e) ''tools''),
                      sr_references = list_kind F RegularFile (fs_join (sk_source_dir e) ''references''),
                      sr_assets = list_kind F RegularFile (fs_join (sk_source_dir e) ''assets'')\<rparr>)
       (map_of idx name)"

definition load_tool_config_from_dir :: "skill_files \<Rightarrow> fs_path \<Rightarrow> string \<Rightarrow> tool_config option" where
  "load_tool_config_from_dir F source_dir tool_name =
     (case sf_read_to_string F (fs_join (fs_join (fs_join source_dir ''tools'') tool_name) ''tool.toml'') of
        Inl _ \<Rightarrow> None
      | Inr content \<Rightarrow> sf_toml F content)"

function drop_tools_prefix :: "string \<Rightarrow> string" where
  "drop_tools_prefix s = (if starts_with ''tools/'' s then drop_tools_prefix (drop 6 s) else s)"
  by pat_completeness auto
termination by (relation "measure length") (auto simp: starts_with_iff)

declare drop_tools_prefix.simps [simp del]

definition load_resource_file ::
  "skill_files \<Rightarrow> (string \<times> indexed_skill) list \<Rightarrow> string \<Rightarrow> string \<Rightarrow> string + loaded_resource" where
  "load_resource_file F idx name path =
     (case map_of idx name of
        None \<Rightarrow> Inl ''skill not found''
      | Some e \<Rightarrow>
          (case resolve_safe_path (\<lambda>d p. sf_canonicalize F (fs_join d p)) (sk_source_dir e) path of
             Inl err \<Rightarrow> Inl err
           | Inr full_path \<Rightarrow>
               (case sf_read_to_string F full_path of
                  Inl err \<Rightarrow> Inl (''read error: '' @ err)
                | Inr content \<Rightarrow>
                    (let config = (if starts_with ''tools/'' path
                                   then load_tool_config_from_dir F (sk_source_dir e)
                                          (hd (split_on (CHR ''/'') (drop_tools_prefix path)))
                                   else None)
                     in Inr \<lparr>lr_content = content, lr_description = map_option tg_description config,
                             lr_params_schema = map_option tg_params_schema config\<rparr>))))"

definition infer_tool_defaults :: "skill_files \<Rightarrow> fs_path \<Rightarrow> string \<Rightarrow> tool_config option" where
  "infer_tool_defaults F tool_dir tool_name =
     map_option (\<lambda>candidate. \<lparr>tg_name = tool_name, tg_description = ''Skill tool: '' @ tool_name,
         tg_runtime = (if candidate = ''main.py'' then Python else Bash), tg_entrypoint = candidate,
         tg_timeout_ms = None, tg_params_schema = JNull\<rparr>)
       (find (\<lambda>c. sf_is_file F (fs_join tool_dir c)) [''main.py'', ''main.sh'', ''main''])"

text \<open>The tool that \<^verbatim>\<open>run_tool\<close> makes for a call, or its error.\<close>

definition skill_tool ::
  "skill_files \<Rightarrow> (string \<times> indexed_skill) list \<Rightarrow> string \<Rightarrow> string \<Rightarrow> string + script_tool" where
  "skill_tool F idx skill_name tool_name =
     (case map_of idx skill_name of
        None \<Rightarrow> Inl (''skill not found: '' @ skill_name)
      | Some e \<Rightarrow>
          (let tool_dir = fs_join (fs_join (sk_source_dir e) ''tools'') tool_name;
               missing = ''tool not found: '' @ skill_name @ ''/'' @ tool_name
           in if \<not> sf_is_dir F tool_dir then Inl missing
              else case (case load_tool_config_from_dir F (sk_source_dir e) tool_name of
                           Some c \<Rightarrow> Some c
                         | None \<Rightarrow> infer_tool_defaults F tool_dir tool_name) of
                     None \<Rightarrow> Inl missing
                   | Some config \<Rightarrow> Inr (ScriptTool_new (config\<lparr>tg_name := skill_name @ ''/'' @ tool_name\<rparr>) tool_dir)))"

fun outcome_of_completion :: "completion \<Rightarrow> (string, json) outcome" where
  "outcome_of_completion Never = Hang"
| "outcome_of_completion (After _ (Value v)) = Ret v"
| "outcome_of_completion (After _ (ToolError e)) = Fail e"
| "outcome_of_completion (After _ (Unwind _)) = Panic"

definition run_skill_tool ::
  "'s script_os \<Rightarrow> (racer list \<Rightarrow> racer) \<Rightarrow> 's \<Rightarrow> skill_files \<Rightarrow> (string \<times> indexed_skill) list \<Rightarrow> string \<Rightarrow> string \<Rightarrow> json
    \<Rightarrow> (string, json) outcome" where
  "run_skill_tool O_S pick s F idx skill_name tool_name params =
     (case skill_tool F idx skill_name tool_name of
        Inl e \<Rightarrow> Fail e
      | Inr st \<Rightarrow> outcome_of_completion (fst (script_execute O_S pick None params (st, s))))"

subsection \<open>Discovery in the file system\<close>

text \<open>One entry of the \<^verbatim>\<open>tools\<close> directory: its configuration and its directory.\<close>

definition tool_at :: "skill_files \<Rightarrow> fs_path \<Rightarrow> (tool_config \<times> fs_path) option" where
  "tool_at F tool_dir =
     (if \<not> sf_is_dir F tool_dir then None
      else case sf_read_to_string F (fs_join tool_dir ''tool.toml'') of
             Inl _ \<Rightarrow> None
           | Inr content \<Rightarrow> map_option (\<lambda>c. (c, tool_dir)) (sf_toml F content))"

definition scan_tool_dir :: "skill_files \<Rightarrow> fs_path \<Rightarrow> (tool_config \<times> fs_path) list" where
  "scan_tool_dir F base =
     (let tools_dir = fs_join base ''tools''
      in if \<not> sf_is_dir F tools_dir then []
         else case sf_read_dir F tools_dir of
                None \<Rightarrow> []
              | Some entries \<Rightarrow> List.map_filter (\<lambda>(name, _). tool_at F (fs_join tools_dir name)) entries)"

definition fs_scan ::
  "'s script_os \<Rightarrow> (racer list \<Rightarrow> racer) \<Rightarrow> 's \<Rightarrow> skill_files \<Rightarrow> fs_path \<Rightarrow> mcp_error + discovery" where
  "fs_scan O_S pick s F base =
     (if \<not> sf_is_dir F base
      then Inl (Discovery (''root directory does not exist: '' @ os_show_path O_S base))
      else (let found = scan_tool_dir F base;
                idx = skill_scan F base
            in Inr \<lparr>di_tools = map (\<lambda>(c, _). \<lparr>ti_name = tg_name c, ti_description = tg_description c,
                                               ti_parameters_schema = tg_params_schema c\<rparr>) found,
                    di_tool_map = map_of (rev (map (\<lambda>(c, d). (tg_name c, script_as_tool O_S pick (ScriptTool_new c d) s)) found)),
                    di_skills = map (\<lambda>(_, e). \<lparr>sk_name = sk_name e, sk_description = sk_description e\<rparr>) idx,
                    di_skill_body = load_body F idx,
                    di_skill_resources = load_resources F idx,
                    di_resource_file = load_resource_file F idx,
                    di_run_skill_tool = run_skill_tool O_S pick s F idx\<rparr>))"

definition McpNode_local ::
  "'s script_os \<Rightarrow> (racer list \<Rightarrow> racer) \<Rightarrow> 's \<Rightarrow> skill_files \<Rightarrow> string \<Rightarrow> fs_path \<Rightarrow> mcp_error + mcp_node" where
  "McpNode_local O_S pick s F namespace base =
     map_sum id (\<lambda>d. McpNode_new namespace d local_capabilities) (fs_scan O_S pick s F base)"

definition remote_capabilities :: json where
  "remote_capabilities = JObj [(''runtime'', JStr ''remote'')]"

definition McpNode_remote ::
  "(int \<Rightarrow> string) \<Rightarrow> (json \<Rightarrow> string) \<Rightarrow> (string \<Rightarrow> json option) \<Rightarrow> http_client \<Rightarrow> string \<Rightarrow> remote_config
    \<Rightarrow> (mcp_error, mcp_node) outcome" where
  "McpNode_remote show_int why parse http namespace config =
     bind_result (http_connect show_int why parse http config) (\<lambda>d. McpNode_new namespace d remote_capabilities)"

definition McpNode_connect ::
  "(connect_error \<Rightarrow> string) \<Rightarrow> (bus \<Rightarrow> bus) \<Rightarrow> uuid \<Rightarrow> millis \<Rightarrow> mcp_node \<Rightarrow> bus \<Rightarrow> ((mcp_error + node_handle) \<times> bus) option" where
  "McpNode_connect show_err gap i now n b =
     map_option (\<lambda>(r, b'). (map_sum (\<lambda>e. BusConnect (show_err e)) id r, b'))
       (connect gap i now (build_node_info n now) \<lparr>mf_types = None, mf_to_match = AllMessages\<rparr> b)"

end
