(* ===== verification/Mcp_Tools_Props.thy ===== *)
theory Mcp_Tools_Props
  imports Mcp_Tools Mcp_Node_Props
begin

text \<open>
  Properties of the tools behind the tool node: when a script call ends, what its timeout covers, which
  directory a skill may run programs from, what discovery advertises and serves, and what becomes of the
  answers of a remote server.
\<close>

subsection \<open>When a script call ends\<close>

lemma earliest_None: "earliest pick rs = None \<longleftrightarrow> rs = []"
  by (simp add: earliest_def Let_def)

lemma earliest_time:
  assumes "earliest pick rs = Some (t, r)" "(u, r') \<in> set rs"
  shows "t \<le> u"
  using assms by (auto simp: earliest_def Let_def split: if_splits intro!: Min_le) force

lemma racers_None [simp]: "racers w c m = [] \<longleftrightarrow> w = None \<and> c = None \<and> m = None"
  by (auto simp: racers_def split: option.splits)

lemma racers_timeout: "(m, TimeoutFired) \<in> set (racers w c (Some m))"
  by (simp add: racers_def)

lemma execute_launched:
  assumes "script_launch O_S st params s = (Launched t proc input, s')"
  shows "fst (script_execute O_S pick cancel_at params (st, s)) =
    (case earliest pick (racers (pc_wait proc input) (effective_cancel t cancel_at) (tg_timeout_ms (st_config st))) of
       None \<Rightarrow> Never
     | Some (u, Exited res) \<Rightarrow> After (t + u) (script_outcome O_S res)
     | Some (u, CancelReceived) \<Rightarrow> After (t + u) (ToolError ''cancelled'')
     | Some (u, TimeoutFired) \<Rightarrow> After (t + u) (ToolError ''timeout''))"
  using assms by (simp add: script_execute_def register_cancel_def split: option.split racer.split)

lemma execute_stuck:
  "script_launch O_S st params s = (Stuck, s') \<Longrightarrow> fst (script_execute O_S pick cancel_at params (st, s)) = Never"
  by (simp add: script_execute_def)

lemma execute_ended:
  "script_launch O_S st params s = (EndedEarly t e, s') \<Longrightarrow>
     fst (script_execute O_S pick cancel_at params (st, s)) = After t (ToolError e)"
  by (simp add: script_execute_def)

text \<open>How far an invocation gets before it is in the race, and after what time.\<close>

fun launch_time :: "launch \<Rightarrow> millis option" where
  "launch_time Stuck = None"
| "launch_time (EndedEarly t _) = Some t"
| "launch_time (Launched t _ _) = Some t"

text \<open>
  Never to end is possible in two ways only: to be stuck before the race, in the compiler or in
  writing the input, or to have neither an exit, nor a timeout, nor a cancellation that counts.
\<close>

lemma script_never_iff:
  "fst (script_execute O_S pick cancel_at params (st, s)) = Never \<longleftrightarrow>
     (case fst (script_launch O_S st params s) of
        Stuck \<Rightarrow> True
      | EndedEarly _ _ \<Rightarrow> False
      | Launched t proc input \<Rightarrow>
          pc_wait proc input = None \<and> effective_cancel t cancel_at = None \<and> tg_timeout_ms (st_config st) = None)"
proof (cases "script_launch O_S st params s")
  case (Pair l s')
  show ?thesis
  proof (cases l)
    case (Launched t proc input)
    with Pair have l: "script_launch O_S st params s = (Launched t proc input, s')" by simp
    let ?e = "earliest pick (racers (pc_wait proc input) (effective_cancel t cancel_at) (tg_timeout_ms (st_config st)))"
    have "fst (script_execute O_S pick cancel_at params (st, s)) = Never \<longleftrightarrow> ?e = None"
      by (simp add: execute_launched [OF l] split: option.split racer.split)
    also have "?e = None \<longleftrightarrow>
        pc_wait proc input = None \<and> effective_cancel t cancel_at = None \<and> tg_timeout_ms (st_config st) = None"
      by (simp only: earliest_None racers_None)
    finally show ?thesis by (simp add: l)
  qed (use Pair in \<open>simp_all add: execute_stuck execute_ended\<close>)
qed

text \<open>With a timeout, the time of a call is bounded by the launch and the timeout.\<close>

lemma script_time_bound:
  assumes "fst (script_execute O_S pick cancel_at params (st, s)) = After d out" "tg_timeout_ms (st_config st) = Some ms"
  shows "\<exists>t. launch_time (fst (script_launch O_S st params s)) = Some t \<and> d \<le> t + ms"
proof (cases "script_launch O_S st params s")
  case (Pair l s')
  show ?thesis
  proof (cases l)
    case (Launched t proc input)
    with Pair have l: "script_launch O_S st params s = (Launched t proc input, s')" by simp
    have "\<exists>u r. earliest pick (racers (pc_wait proc input) (effective_cancel t cancel_at) (Some ms)) = Some (u, r) \<and> d = t + u"
      using assms by (auto simp: execute_launched [OF l] split: option.splits racer.splits)
    with racers_timeout [of ms] earliest_time Launched Pair show ?thesis by fastforce
  qed (use Pair assms(1) in \<open>simp_all add: execute_stuck execute_ended\<close>)
qed

subsection \<open>What discovery serves\<close>

lemma map_of_rev_Some:
  "distinct (map fst xs) \<Longrightarrow> (k, v) \<in> set xs \<Longrightarrow> map_of (rev xs) k = Some v"
  by (simp add: rev_map [symmetric] map_of_eq_Some_iff)

lemma scanned_map:
  assumes "fs_scan O_S pick s F base = Inr d"
  shows "di_tool_map d = map_of (rev (map (\<lambda>(c, dir). (tg_name c, script_as_tool O_S pick (ScriptTool_new c dir) s)) (scan_tool_dir F base)))"
    and "map ti_name (di_tools d) = map (\<lambda>(c, dir). tg_name c) (scan_tool_dir F base)"
  using assms by (auto simp: fs_scan_def Let_def o_def split: if_splits)

lemma remote_tools_spec:
  "remote_tools proxy ds infos tools = (infos', tools') \<Longrightarrow>
     map ti_name infos' = map ti_name infos @ map rd_name ds \<and>
     (\<forall>k. tools' k = (case find (\<lambda>d. rd_name d = k) (rev ds) of None \<Rightarrow> tools k | Some d \<Rightarrow> Some (proxy d)))"
proof (induction ds arbitrary: infos tools)
  case (Cons d ds)
  have f: "find P (xs @ ys) = (case find P xs of None \<Rightarrow> find P ys | r \<Rightarrow> r)" for P and xs ys :: "remote_tool_def list"
    by (induction xs) simp_all
  from Cons show ?case by (fastforce simp: f split: option.splits)
qed simp



text \<open>The nodes that the two constructors make.\<close>

lemma local_node:
  assumes "McpNode_local O_S pick s F ns base = Inr n"
  obtains d where "fs_scan O_S pick s F base = Inr d" "mn_discovery n = d"
  using assms by (cases "fs_scan O_S pick s F base") (auto simp: McpNode_local_def McpNode_new_def)

lemma remote_node:
  assumes "McpNode_remote show_int why parse http ns config = Ret n"
  obtains d where "http_connect show_int why parse http config = Ret d" "mn_discovery n = d"
  using assms
  by (cases "http_connect show_int why parse http config")
    (auto simp: McpNode_remote_def McpNode_new_def bind_result_def)



lemma silent_iff:
  assumes "te_tool_name ex \<noteq> []"
  shows "on_tool_exec n (tool_exec_to_value U ex) = Ret None \<longleftrightarrow> te_tool_name ex \<notin> dom (di_tool_map (mn_discovery n))"
proof (cases "di_tool_map (mn_discovery n) (te_tool_name ex)")
  case None
  then show ?thesis using not_owner_silent [OF assms None] by (simp add: domIff)
next
  case (Some f)
  with assms show ?thesis
    by (simp add: on_tool_exec_def tool_exec_to_value_def cid_field_def str_or_empty_def resolve_tool_def
        bind_result_def domIff Let_def split: outcome.splits)
qed

lemma on_tool_exec_completion:
  assumes "te_tool_name ex \<noteq> []" and "di_tool_map (mn_discovery n) (te_tool_name ex) = Some f"
  shows "on_tool_exec n (tool_exec_to_value U ex) =
    (case tool_execute f ''call_0'' (te_arguments ex) of
       Never \<Rightarrow> Hang
     | After d out \<Rightarrow> Ret (Some (''tool_result'', tool_reply (uuid_show U (te_correlation_id ex)) (te_tool_name ex)
         \<lparr>rs_session_id = uuid_show U (te_correlation_id ex),
          rs_results = [result_of ''call_0'' (te_tool_name ex) out]\<rparr>)))"
  using assms
  by (simp add: on_tool_exec_def tool_exec_to_value_def cid_field_def str_or_empty_def value_or_null_def
      runtime_execute_def execute_single resolve_tool_def execute_one_def bind_result_def
      Let_def split: completion.split option.split)


subsection \<open>A call of a script, from the message to the reply\<close>

lemma local_tool:
  assumes "McpNode_local O_S pick s F ns base = Inr n"
    and "(c, dir) \<in> set (scan_tool_dir F base)" and "distinct (map (tg_name \<circ> fst) (scan_tool_dir F base))"
  shows "di_tool_map (mn_discovery n) (tg_name c) = Some (script_as_tool O_S pick (ScriptTool_new c dir) s)"
proof -
  from assms(1) obtain d where d: "fs_scan O_S pick s F base = Inr d" and n: "mn_discovery n = d" by (rule local_node)
  let ?xs = "map (\<lambda>(c, d). (tg_name c, script_as_tool O_S pick (ScriptTool_new c d) s)) (scan_tool_dir F base)"
  have e: "map fst ?xs = map (tg_name \<circ> fst) (scan_tool_dir F base)" by auto
  have "distinct (map fst ?xs)" using assms(3) by (simp only: e)
  moreover from assms(2) have "(tg_name c, script_as_tool O_S pick (ScriptTool_new c dir) s) \<in> set ?xs"
    by (force simp: image_iff)
  ultimately show ?thesis unfolding n scanned_map(1) [OF d] by (rule map_of_rev_Some)
qed

text \<open>
  C11: when a call of a script tool is answered. The node hangs in the call, and with it its message loop,
  exactly if the call is stuck before the process is waited for (in the compiler, or in writing the
  parameters to a process that does not read them), or if the process never ends and the tool has no
  timeout. Otherwise it answers with the tool's result, and a timeout bounds only the time after the
  launch.
\<close>

theorem script_call_ends:
  assumes "McpNode_local O_S pick s F ns base = Inr n"
    and "(c, dir) \<in> set (scan_tool_dir F base)" and "distinct (map (tg_name \<circ> fst) (scan_tool_dir F base))"
    and "tg_name c = te_tool_name ex" and "te_tool_name ex \<noteq> []"
    and "msg_type m = ''tool_exec''" and "msg_payload m = tool_exec_to_value U ex"
    and l: "l = fst (script_launch O_S (ScriptTool_new c dir) (te_arguments ex) s)"
  shows "(mcp_dispatch se n m = Hang \<longleftrightarrow>
           (case l of
              Stuck \<Rightarrow> True
            | EndedEarly _ _ \<Rightarrow> False
            | Launched _ proc input \<Rightarrow> pc_wait proc input = None \<and> tg_timeout_ms c = None)) \<and>
         (\<forall>t ms. launch_time l = Some t \<and> tg_timeout_ms c = Some ms \<longrightarrow>
           (\<exists>d out. tool_execute (script_as_tool O_S pick (ScriptTool_new c dir) s) ''call_0'' (te_arguments ex) = After d out \<and> d \<le> t + ms \<and>
              mcp_dispatch se n m = Ret (Some (''tool_result'',
                tool_reply (uuid_show U (te_correlation_id ex)) (te_tool_name ex)
                  \<lparr>rs_session_id = uuid_show U (te_correlation_id ex),
                   rs_results = [result_of ''call_0'' (te_tool_name ex) out]\<rparr>))))"
proof -
  let ?st = "ScriptTool_new c dir"
  let ?f = "tool_execute (script_as_tool O_S pick ?st s) ''call_0'' (te_arguments ex)"
  have f: "?f = fst (script_execute O_S pick None (te_arguments ex) (?st, s))" by (simp add: script_as_tool_def)
  have cfg: "st_config ?st = c" by (simp add: ScriptTool_new_def)
  have m: "mcp_dispatch se n m = on_tool_exec n (tool_exec_to_value U ex)"
    using assms(6,7) by (simp add: mcp_dispatch_def)
  note r = on_tool_exec_completion [OF assms(5) local_tool [OF assms(1-3), unfolded assms(4)], of U]
  have never: "?f = Never \<longleftrightarrow> (case l of Stuck \<Rightarrow> True | EndedEarly _ _ \<Rightarrow> False
      | Launched _ proc input \<Rightarrow> pc_wait proc input = None \<and> tg_timeout_ms c = None)"
    unfolding f script_never_iff l cfg by (simp add: effective_cancel_def split: launch.split)
  have "\<exists>d out. ?f = After d out \<and> d \<le> t + ms" if "launch_time l = Some t" "tg_timeout_ms c = Some ms" for t ms
  proof (cases ?f)
    case Never
    with never that show ?thesis by (cases l) simp_all
  next
    case (After d out)
    with script_time_bound [of O_S pick None "te_arguments ex" ?st s d out ms] that show ?thesis
      by (auto simp: f l cfg)
  qed
  with never show ?thesis unfolding m r by (cases l; cases ?f; cases "tg_timeout_ms c") auto
qed

subsection \<open>A small machine\<close>

text \<open>
  One tool with a timeout of 100 ms, whose process does not read its input, one skill without tools, and
  a program outside the tree.
\<close>

definition slow_config :: tool_config where
  "slow_config = \<lparr>tg_name = ''slow'', tg_description = ''d'', tg_runtime = Python, tg_entrypoint = ''main.py'',
     tg_timeout_ms = Some 100, tg_params_schema = JNull\<rparr>"

definition abs_path :: "string list \<Rightarrow> fs_path" where
  "abs_path cs = \<lparr>fp_absolute = True, fp_components = cs\<rparr>"

definition demo_files :: skill_files where
  "demo_files =
     \<lparr>sf_read_dir = (\<lambda>p. if fp_components p = [''r'', ''tools''] then Some [(''slow'', Directory)]
                       else if fp_components p = [''r'', ''skills''] then Some [(''rev'', Directory)] else None),
      sf_is_dir = (\<lambda>p. fp_components p \<in> {[''r''], [''r'', ''tools''], [''r'', ''tools'', ''slow''], [''r'', ''skills''],
                                          [''r'', ''skills'', ''rev''], [''home'', ''x'']}),
      sf_is_file = (\<lambda>p. fp_components p = [''home'', ''x'', ''main.py'']),
      sf_read_to_string = (\<lambda>p. if fp_components p = [''r'', ''tools'', ''slow'', ''tool.toml''] then Inr ''t''
                             else if fp_components p = [''r'', ''skills'', ''rev'', ''SKILL.md''] then Inr ''---y---''
                             else if fp_components p = [''r'', ''skills'', ''rev'', ''assets'', ''a''] then Inr ''text''
                             else Inl ''none''),
      sf_canonicalize = Inr, sf_name_ok = (\<lambda>_. True),
      sf_yaml = (\<lambda>_. Some \<lparr>fm_name = ''rev'', fm_description = ''d'', fm_compatibility = None\<rparr>),
      sf_toml = (\<lambda>t. if t = ''t'' then Some slow_config else None)\<rparr>"

definition demo_process :: "command \<Rightarrow> process" where
  "demo_process cmd =
     (if cmd = Interpreter ''python3'' (abs_path [''r'', ''tools'', ''slow'', ''main.py''])
      then \<lparr>pc_feed = (\<lambda>_. None), pc_wait = (\<lambda>_. None)\<rparr>
      else \<lparr>pc_feed = (\<lambda>_. Some (1, Inr ())),
            pc_wait = (\<lambda>_. Some (1, Inr \<lparr>po_success = True, po_code = Some 0, po_stdout = ''7'', po_stderr = []\<rparr>))\<rparr>)"

definition demo_os :: "unit script_os" where
  "demo_os =
     \<lparr>os_modified = (\<lambda>_ _. None), os_rustc = (\<lambda>_ _ s. (None, s)), os_spawn = (\<lambda>cmd _. Inr (demo_process cmd)),
      os_render = (\<lambda>_. []), os_lossy = (\<lambda>s. s), os_parse = (\<lambda>_. Inr (JInt 7)), os_show_int = (\<lambda>_. []),
      os_show_path = (\<lambda>_. [])\<rparr>"

definition demo_local :: mcp_node where
  "demo_local = McpNode_new ''fs'' (projr (fs_scan demo_os hd () demo_files (abs_path [''r'']))) local_capabilities"

lemma demo_scan:
  "scan_tool_dir demo_files (abs_path [''r'']) = [(slow_config, abs_path [''r'', ''tools'', ''slow''])]"
  by (simp add: scan_tool_dir_def demo_files_def abs_path_def fs_join_def str_components_def tool_at_def
      List.map_filter_simps starts_with_iff)

lemma demo_local_made: "McpNode_local demo_os hd () demo_files ''fs'' (abs_path [''r'']) = Inr demo_local"
proof -
  have "sf_is_dir demo_files (abs_path [''r''])" by (simp add: demo_files_def abs_path_def)
  then show ?thesis by (simp add: McpNode_local_def demo_local_def fs_scan_def Let_def)
qed

definition demo_exec :: message where
  "demo_exec = Message_new 1 0 ''tool_exec'' (NodeId ''e'') [] (tool_exec_to_value unary_uuid (ToolExec_new 3 ''slow'' JNull))"

text \<open>The timeout of 100 ms does not end this call.\<close>

theorem script_call_ends_witness:
  "tg_timeout_ms slow_config = Some 100 \<and> mcp_dispatch (\<lambda>_. []) demo_local demo_exec = Hang"
proof -
  let ?st = "ScriptTool_new slow_config (abs_path [''r'', ''tools'', ''slow''])"
  have "fst (script_launch demo_os ?st JNull ()) = Stuck"
    by (simp add: script_launch_def build_command_def ScriptTool_new_def slow_config_def entry_path_def demo_os_def
        demo_process_def fs_join_def abs_path_def str_components_def starts_with_iff)
  then show ?thesis
    using script_call_ends [OF demo_local_made, of slow_config "abs_path [''r'', ''tools'', ''slow'']"
        "ToolExec_new 3 ''slow'' JNull" demo_exec unary_uuid _ "\<lambda>_. []"]
    by (simp add: demo_scan ToolExec_new_def demo_exec_def Message_new_def slow_config_def)
qed









subsection \<open>Where a skill reads and where it runs\<close>

lemma resolve_safe_path_Inr:
  "resolve_safe_path canonicalize dir path = Inr p \<longleftrightarrow>
     \<not> sublist ''..'' path \<and> \<not> starts_with ''/'' path \<and>
     list_ex (\<lambda>q. starts_with q path) [''tools/'', ''references/'', ''assets/''] \<and>
     canonicalize dir path = Inr p \<and> path_starts_with p dir"
  by (auto simp: resolve_safe_path_def split: sum.splits if_splits)

lemma load_resource_file_Inr:
  assumes "load_resource_file F idx name path = Inr l"
  obtains e p where "map_of idx name = Some e" "path_starts_with p (sk_source_dir e)"
    "sf_canonicalize F (fs_join (sk_source_dir e) path) = Inr p" "sf_read_to_string F p = Inr (lr_content l)"
  using assms by (auto simp: load_resource_file_def resolve_safe_path_Inr Let_def split: option.splits sum.splits)

lemma scanned_skills:
  assumes "fs_scan O_S pick s F base = Inr d"
  shows "di_resource_file d = load_resource_file F (skill_scan F base)"
    and "di_run_skill_tool d = run_skill_tool O_S pick s F (skill_scan F base)"
  using assms by (auto simp: fs_scan_def Let_def split: if_splits)

lemma local_skills:
  assumes "McpNode_local O_S pick s F ns base = Inr n"
  shows "di_resource_file (mn_discovery n) = load_resource_file F (skill_scan F base)"
    and "di_run_skill_tool (mn_discovery n) = run_skill_tool O_S pick s F (skill_scan F base)"
  using assms by (auto elim!: local_node simp: scanned_skills)

text \<open>
  C12: the resources of a skill stay in the skill. When a node on the file system answers
  \<^verbatim>\<open>load_skill_resource\<close> with a content, that is the content of a file whose canonical path lies in the
  directory of the skill that was named, one of those found under the root; in every other case the
  answer is an error, which carries no content.
\<close>

theorem skill_resource_confined:
  assumes "McpNode_local O_S pick s F ns base = Inr n" and "on_load_skill_resource n pl = (ty, reply)"
  shows "(ty = ''skill_resource_loaded'' \<and>
            (\<exists>e p c. map_of (skill_scan F base) (str_or_empty pl ''skill_name'') = Some e \<and>
               path_starts_with p (sk_source_dir e) \<and>
               sf_canonicalize F (fs_join (sk_source_dir e) (str_or_empty pl ''resource_path'')) = Inr p \<and>
               sf_read_to_string F p = Inr c \<and> json_get reply ''content'' = Some (JStr c)))
         \<or> (ty = ''skill_resource_error'' \<and> json_get reply ''content'' = None)"
proof (cases "load_resource_file F (skill_scan F base) (str_or_empty pl ''skill_name'') (str_or_empty pl ''resource_path'')")
  case (Inl e)
  with assms show ?thesis by (auto simp: on_load_skill_resource_def local_skills)
next
  case (Inr l)
  with assms(2) have "ty = ''skill_resource_loaded''" "json_get reply ''content'' = Some (JStr (lr_content l))"
    by (auto simp: on_load_skill_resource_def local_skills [OF assms(1)] Let_def)
  with load_resource_file_Inr [OF Inr] show ?thesis by metis
qed

definition ask_resource :: json where
  "ask_resource = JObj [(''skill_name'', JStr ''rev''), (''resource_path'', JStr ''assets/a'')]"

lemma demo_skills:
  "skill_scan demo_files (abs_path [''r'']) =
     [(''rev'', \<lparr>sk_name = ''rev'', sk_description = ''d'', sk_compatibility = None,
                sk_source_dir = abs_path [''r'', ''skills'', ''rev'']\<rparr>)]"
  by (simp add: skill_scan_def demo_files_def abs_path_def fs_join_def str_components_def skill_at_def starts_with_iff
      parse_frontmatter_def frontmatter_text_def)

theorem skill_resource_confined_witness:
  "\<exists>p. path_starts_with p (abs_path [''r'', ''skills'', ''rev'']) \<and> sf_read_to_string demo_files p = Inr ''text'' \<and>
     fst (on_load_skill_resource demo_local ask_resource) = ''skill_resource_loaded''"
proof -
  obtain ty reply where r: "on_load_skill_resource demo_local ask_resource = (ty, reply)" by force
  have "load_resource_file demo_files (skill_scan demo_files (abs_path [''r''])) ''rev'' ''assets/a'' =
      Inr \<lparr>lr_content = ''text'', lr_description = None, lr_params_schema = None\<rparr>"
    by (simp add: load_resource_file_def demo_skills resolve_safe_path_def)
      (simp add: demo_files_def abs_path_def fs_join_def str_components_def starts_with_iff sublist_code
        path_starts_with_def)
  then have "ty = ''skill_resource_loaded''" "json_get reply ''content'' = Some (JStr ''text'')"
    using r by (auto simp: on_load_skill_resource_def local_skills [OF demo_local_made] ask_resource_def
        str_or_empty_def get_str_def)
  moreover from calculation skill_resource_confined [OF demo_local_made r] obtain p
    where "path_starts_with p (abs_path [''r'', ''skills'', ''rev''])" "sf_read_to_string demo_files p = Inr ''text''"
    by (auto simp: demo_skills ask_resource_def str_or_empty_def get_str_def)
  ultimately show ?thesis using r by auto
qed

text \<open>
  C13: the scripts of a skill do not stay in the skill. The \<^verbatim>\<open>tool_name\<close> of \<^verbatim>\<open>run_skill_script\<close> passes none of the
  checks of a resource path, and an absolute one replaces the directory it is joined to: for any skill
  the node has, the message runs the \<^verbatim>\<open>main.py\<close> of any directory of the machine with the parameters of the
  message, without a timeout.
\<close>

theorem skill_runs_outside:
  assumes "McpNode_local O_S pick s F ns base = Inr n"
    and "map_of (skill_scan F base) (str_or_empty pl ''skill_name'') = Some e"
    and "str_or_empty pl ''tool_name'' = CHR ''/'' # rest"
    and "dir = \<lparr>fp_absolute = True, fp_components = str_components (CHR ''/'' # rest)\<rparr>" and "sf_is_dir F dir"
    and "sf_read_to_string F (fs_join dir ''tool.toml'') = Inl err" and "sf_is_file F (fs_join dir ''main.py'')"
  shows "\<exists>st. build_command O_S st s = (Some (0, Inr (Interpreter ''python3'' (fs_join dir ''main.py''))), s) \<and>
    tg_timeout_ms (st_config st) = None \<and>
    di_run_skill_tool (mn_discovery n) (str_or_empty pl ''skill_name'') (str_or_empty pl ''tool_name'')
        (value_or_null pl ''params'') =
      outcome_of_completion (fst (script_execute O_S pick None (value_or_null pl ''params'') (st, s)))"
proof -
  have j: "fs_join p (CHR ''/'' # rest) = dir" for p using assms(4) by (simp add: fs_join_def starts_with_iff)
  let ?c = "\<lparr>tg_name = str_or_empty pl ''skill_name'' @ ''/'' @ (CHR ''/'' # rest), tg_description = ''Skill tool: '' @ (CHR ''/'' # rest),
      tg_runtime = Python, tg_entrypoint = ''main.py'', tg_timeout_ms = None, tg_params_schema = JNull\<rparr>"
  have "skill_tool F (skill_scan F base) (str_or_empty pl ''skill_name'') (CHR ''/'' # rest) = Inr (ScriptTool_new ?c dir)"
    using assms(2,5-7) by (simp add: skill_tool_def j load_tool_config_from_dir_def infer_tool_defaults_def)
  then show ?thesis
    using assms(3)
    by (intro exI [of _ "ScriptTool_new ?c dir"])
      (simp add: build_command_def ScriptTool_new_def entry_path_def local_skills [OF assms(1)] run_skill_tool_def)
qed

definition run_outside :: json where
  "run_outside = JObj [(''skill_name'', JStr ''rev''), (''tool_name'', JStr ''/home/x'')]"

theorem skill_runs_outside_witness:
  "\<exists>reply. mcp_dispatch (\<lambda>_. []) demo_local (Message_new 1 0 ''run_skill_script'' (NodeId ''e'') [] run_outside) =
     Ret (Some (''skill_script_result'', reply)) \<and> json_get reply ''result'' = Some (JInt 7)"
proof -
  have "sf_read_to_string demo_files (fs_join (abs_path [''home'', ''x'']) ''tool.toml'') = Inl ''none''"
    "sf_is_file demo_files (fs_join (abs_path [''home'', ''x'']) ''main.py'')"
    "sf_is_dir demo_files (abs_path [''home'', ''x''])"
    by (simp_all add: demo_files_def abs_path_def fs_join_def starts_with_iff str_components_def)
  moreover have "abs_path [''home'', ''x''] = \<lparr>fp_absolute = True, fp_components = str_components ''/home/x''\<rparr>"
    by (simp add: abs_path_def str_components_def)
  ultimately obtain st where b: "build_command demo_os st () =
      (Some (0, Inr (Interpreter ''python3'' (fs_join (abs_path [''home'', ''x'']) ''main.py''))), ())"
    and t: "tg_timeout_ms (st_config st) = None"
    and r: "di_run_skill_tool (mn_discovery demo_local) ''rev'' ''/home/x'' JNull =
      outcome_of_completion (fst (script_execute demo_os hd None JNull (st, ())))"
    using skill_runs_outside [OF demo_local_made, of run_outside _ "''home/x''" "abs_path [''home'', ''x'']" "''none''"]
    by (auto simp: demo_skills run_outside_def str_or_empty_def get_str_def value_or_null_def)
  have "fst (script_execute demo_os hd None JNull (st, ())) = After 2 (Value (JInt 7))"
    by (simp add: script_execute_def script_launch_def b t) 
      (simp add: demo_os_def demo_process_def abs_path_def fs_join_def str_components_def starts_with_iff
        register_cancel_def effective_cancel_def racers_def earliest_def script_outcome_def t)
  then show ?thesis
    by (simp add: mcp_dispatch_def Message_new_def on_run_skill_script_def r bind_result_def run_outside_def str_or_empty_def
        get_str_def value_or_null_def)
qed

subsection \<open>Answers of a remote server\<close>

lemma map_filter_skip:
  "(\<And>x. x \<in> set pre \<Longrightarrow> f x = None) \<Longrightarrow> List.map_filter f (pre @ xs) = List.map_filter f xs"
  by (induction pre) (simp_all add: List.map_filter_simps)

text \<open>
  C15: of the events of a response only the first counts, whatever it is. When a server answers a call with
  an event stream whose first event in JSON is an object without \<^verbatim>\<open>result\<close> and \<^verbatim>\<open>error\<close>, a notification
  for example, that is taken for the response: the call fails with the parse error of the null value,
  whatever the events after it say.
\<close>

theorem first_event_taken:
  assumes "http (rg_url config) (rg_timeout_secs config)
      (rpc_body ''tools/call'' (JObj [(''name'', JStr (rd_name d)), (''arguments'', params)])) = Some (t, ResponseText body)"
    and "rpc_parse parse body = None" and "lines body = pre @ (''data: '' @ x) # post"
    and "\<And>l. l \<in> set pre \<Longrightarrow> Option.bind (strip_prefix ''data: '' l) (rpc_parse parse) = None"
    and "parse x = Some (JObj kvs)" and "map_of kvs ''result'' = None" and "map_of kvs ''error'' = None"
  shows "tool_execute (proxy_tool show_int why parse http config d) i params = After t (ToolError (''parse error: '' @ why JNull))"
proof -
  have x: "rpc_parse parse x = Some \<lparr>rpc_result = None, rpc_error = None\<rparr>"
    using assms(5-7) by (simp add: rpc_parse_def)
  let ?f = "\<lambda>l. Option.bind (strip_prefix ''data: '' l) (rpc_parse parse)"
  have "?f (''data: '' @ x) = Some \<lparr>rpc_result = None, rpc_error = None\<rparr>"
    using x by (simp add: strip_prefix_def starts_with_iff)
  with map_filter_skip [of pre ?f, OF assms(4)] have "List.map_filter ?f (lines body) = \<lparr>rpc_result = None, rpc_error = None\<rparr> # List.map_filter ?f post"
    unfolding assms(3) by (simp only: List.map_filter_simps option.case)
  with assms(2) have "parse_sse_or_json (rpc_parse parse) body = \<lparr>rpc_result = None, rpc_error = None\<rparr>"
    by (simp add: parse_sse_or_json_def)
  then show ?thesis
    using assms(1)
    by (simp add: proxy_tool_def plain_tool_def proxy_result_def call_tool_result_of_value_def get_array_def)
qed

definition event_parse :: "string \<Rightarrow> json option" where
  "event_parse s =
     (if s = ''n'' then Some (JObj [(''method'', JStr ''notifications/progress'')])
      else if s = ''r'' then Some (JObj [(''result'', JObj [(''content'', JArr [])])]) else None)"

definition event_config :: remote_config where
  "event_config = \<lparr>rg_transport = ''http'', rg_url = ''u'', rg_timeout_secs = None, rg_headers = [],
     rg_tls_ca_cert = None, rg_retry = None\<rparr>"

definition event_tool :: remote_tool_def where
  "event_tool = \<lparr>rd_name = ''t'', rd_description = ''d'', rd_input_schema = JNull\<rparr>"

text \<open>The answer is there, in the second event.\<close>

theorem first_event_taken_witness:
  "tool_execute (proxy_tool (\<lambda>_. []) (\<lambda>_. ''null'') event_parse
      (\<lambda>_ _ _. Some (5, ResponseText (''data: n'' @ [newline] @ ''data: r''))) event_config event_tool) ''c'' JNull
    = After 5 (ToolError ''parse error: null'') \<and>
   tool_execute (proxy_tool (\<lambda>_. []) (\<lambda>_. ''null'') event_parse (\<lambda>_ _ _. Some (5, ResponseText ''data: r'')) event_config event_tool) ''c'' JNull
    = After 5 (Value (JStr []))"
proof
  show "tool_execute (proxy_tool (\<lambda>_. []) (\<lambda>_. ''null'') event_parse
      (\<lambda>_ _ _. Some (5, ResponseText (''data: n'' @ [newline] @ ''data: r''))) event_config event_tool) ''c'' JNull
    = After 5 (ToolError ''parse error: null'')"
    using first_event_taken [of "\<lambda>_ _ _. Some (5, ResponseText (''data: n'' @ [newline] @ ''data: r''))" event_config event_tool
        JNull 5 "''data: n'' @ [newline] @ ''data: r''" event_parse "[]" "''n''" "[''data: r'']"
        "[(''method'', JStr ''notifications/progress'')]" "\<lambda>_. []" "\<lambda>_. ''null''" "''c''"]
    by (simp add: event_parse_def rpc_parse_def lines_def chop_line_ending_def)
qed (simp add: proxy_tool_def plain_tool_def proxy_result_def parse_sse_or_json_def rpc_parse_def event_parse_def lines_def chop_line_ending_def
      List.map_filter_simps strip_prefix_def starts_with_iff call_tool_result_of_value_def get_array_def
      call_result_to_output_def)

lemma remote_names:
  "map ti_name (fst (remote_tools proxy ds [] Map.empty)) = map rd_name ds"
  using remote_tools_spec [of proxy ds "[]" Map.empty "fst (remote_tools proxy ds [] Map.empty)"
      "snd (remote_tools proxy ds [] Map.empty)"] by simp

text \<open>
  A node of a remote server starts without tools and without an error when the server refuses to list
  its tools, when it answers without a list, and when one entry of the list is incomplete.
\<close>

theorem remote_listing_faults:
  assumes "McpNode_remote show_int why parse http ns config = Ret n"
    and "rpc_call parse http config ''tools/list'' (JObj []) = Some (t, Inr resp)"
    and "rpc_result resp = None \<or> get_array (the (rpc_result resp)) ''tools'' = None \<or>
      (\<exists>x \<in> set (the (get_array (the (rpc_result resp)) ''tools'')). remote_tool_def_of_value x = None)"
  shows "di_tools (mn_discovery n) = [] \<and>
    (msg_type m = ''tool_exec'' \<and> te_tool_name ex \<noteq> [] \<and> msg_payload m = tool_exec_to_value U ex \<longrightarrow>
       mcp_dispatch se n m = Ret None)"
proof -
  have "those (map f xs) = None" if "x \<in> set xs" "f x = None" for f :: "json \<Rightarrow> remote_tool_def option" and x xs
    using that by (induction xs) (auto split: option.splits)
  with assms(3) have l: "listed_tools resp = []"
    by (cases "rpc_result resp"; cases "get_array (the (rpc_result resp)) ''tools''") (auto simp: listed_tools_def)
  from assms(1) obtain d where d: "http_connect show_int why parse http config = Ret d" and n: "mn_discovery n = d"
    by (rule remote_node)
  from d assms(2) l have "d = no_skills [] Map.empty"
    by (auto simp: http_connect_def split: option.splits sum.splits prod.splits)
  then show ?thesis
    using silent_iff [of ex n U] by (simp add: n no_skills_def mcp_dispatch_def)
qed

definition refusing_server :: http_client where
  "refusing_server = (\<lambda>_ _ body. Some (1, ResponseText (if get_str body ''method'' = Some ''initialize'' then ''i'' else ''e'')))"

definition refusing_parse :: "string \<Rightarrow> json option" where
  "refusing_parse s =
     (if s = ''i'' then Some (JObj [(''result'', JObj [])])
      else if s = ''e'' then Some (JObj [(''error'', JObj [(''code'', JInt (- 32601)), (''message'', JStr ''unauthorized'')])])
      else None)"

theorem remote_listing_faults_witness:
  "\<exists>n. McpNode_remote (\<lambda>_. []) (\<lambda>_. []) refusing_parse refusing_server ''web'' event_config = Ret n \<and>
       di_tools (mn_discovery n) = []"
proof -
  let ?n = "McpNode_new ''web'' (no_skills [] Map.empty) remote_capabilities"
  have i: "rpc_call refusing_parse refusing_server event_config ''initialize'' init_params =
      Some (1, Inr \<lparr>rpc_result = Some (JObj []), rpc_error = None\<rparr>)"
    by (simp add: rpc_call_def refusing_server_def rpc_body_def get_str_def parse_sse_or_json_def rpc_parse_def
        refusing_parse_def)
  have e: "rpc_call refusing_parse refusing_server event_config ''tools/list'' (JObj []) =
      Some (1, Inr \<lparr>rpc_result = None, rpc_error = Some (- 32601, ''unauthorized'')\<rparr>)"
    by (simp add: rpc_call_def refusing_server_def rpc_body_def get_str_def parse_sse_or_json_def rpc_parse_def
        refusing_parse_def)
  have "McpNode_remote (\<lambda>_. []) (\<lambda>_. []) refusing_parse refusing_server ''web'' event_config = Ret ?n"
    by (simp add: McpNode_remote_def http_connect_def i e listed_tools_def bind_result_def)
  with remote_listing_faults [OF this e] show ?thesis by auto
qed

end
