(* ===== verification/Py_Bus.thy ===== *)
theory Py_Bus
  imports Py_Agent Providers
begin

text \<open>
  The bus as Python sees it (\<^verbatim>\<open>py-arf/src/lib.rs\<close>): conversion of values, constructors, the object around a
  node handle, whose lock orders the calls of the tasks that share it, and the model providers with the
  nodes they put on a bus (with the loop of \<^verbatim>\<open>ModelAdapterNode\<close>).

  Parameters: Python's \<^verbatim>\<open>json.dumps\<close> and \<^verbatim>\<open>json.loads\<close>, and the printer and parser of \<^verbatim>\<open>serde_json\<close>.
\<close>

subsection \<open>Values\<close>

record 'o py_json =
  pj_dumps :: "'o \<Rightarrow> py_err + string"
  pj_loads :: "string \<Rightarrow> py_err + 'o"
  pj_to_string :: "json \<Rightarrow> string + string"
  pj_from_str :: "string \<Rightarrow> string + json"

definition json_value_to_py :: "'o py_json \<Rightarrow> json \<Rightarrow> py_err + 'o" where
  "json_value_to_py J v = (case pj_to_string J v of Inl e \<Rightarrow> Inl (PyValueError e) | Inr s \<Rightarrow> pj_loads J s)"

definition py_object_to_json :: "'o py_json \<Rightarrow> 'o \<Rightarrow> py_err + json" where
  "py_object_to_json J x =
     (case pj_dumps J x of Inl e \<Rightarrow> Inl e | Inr s \<Rightarrow> map_sum PyValueError id (pj_from_str J s))"

definition connect_error_to_py :: "connect_error \<Rightarrow> py_err" where
  "connect_error_to_py e = PyException (connect_error_display e)"

definition send_error_to_py :: "(bus_id \<Rightarrow> string) \<Rightarrow> send_error \<Rightarrow> py_err" where
  "send_error_to_py sb e = PyException (send_error_display sb e)"

definition provider_error_to_py :: "(nat \<Rightarrow> string) \<Rightarrow> provider_error \<Rightarrow> py_err" where
  "provider_error_to_py show_nat e = PyException (provider_error_display show_nat e)"

definition PyNodeInfo_new :: "'o py_json \<Rightarrow> string \<Rightarrow> string \<Rightarrow> 'o \<Rightarrow> millis \<Rightarrow> py_err + node_info" where
  "PyNodeInfo_new J node_id node_type capabilities online_since =
     map_sum id (\<lambda>caps. \<lparr>ni_node_id = NodeId node_id, ni_node_type = node_type, ni_capabilities = caps,
                         ni_online_since = online_since\<rparr>)
       (py_object_to_json J capabilities)"

definition PyMessageFilter_new :: "string list option \<Rightarrow> to_match option \<Rightarrow> message_filter" where
  "PyMessageFilter_new types tm =
     \<lparr>mf_types = types, mf_to_match = (case tm of None \<Rightarrow> BroadcastAndDirectedToMe | Some t \<Rightarrow> t)\<rparr>"

definition extra_to_json :: "'o py_json \<Rightarrow> 'o option \<Rightarrow> py_err + json" where
  "extra_to_json J extra = (case extra of None \<Rightarrow> Inr JNull | Some x \<Rightarrow> py_object_to_json J x)"

text \<open>A message made in Python has no tool calls; they can be given in \<open>extra\<close> only.\<close>

definition PyModelMessage_new ::
  "'o py_json \<Rightarrow> string \<Rightarrow> string \<Rightarrow> string option \<Rightarrow> string option \<Rightarrow> 'o option \<Rightarrow> py_err + model_message" where
  "PyModelMessage_new J role content tool_call_id name extra =
     map_sum id (\<lambda>x. \<lparr>mm_role = role, mm_content = content, mm_tool_call_id = tool_call_id, mm_name = name,
                      mm_tool_calls = [], mm_extra = x\<rparr>) (extra_to_json J extra)"

definition PyModelParams_new ::
  "'o py_json \<Rightarrow> rat option \<Rightarrow> nat option \<Rightarrow> bool \<Rightarrow> 'o option \<Rightarrow> py_err + model_params" where
  "PyModelParams_new J temperature max_tokens thinking_enabled extra =
     map_sum id (\<lambda>x. \<lparr>mp_temperature = temperature, mp_max_tokens = max_tokens,
                      mp_thinking_enabled = thinking_enabled, mp_extra = x\<rparr>) (extra_to_json J extra)"

definition PyToolDef_new :: "'o py_json \<Rightarrow> string \<Rightarrow> string \<Rightarrow> 'o \<Rightarrow> py_err + tool_def" where
  "PyToolDef_new J name description parameters =
     map_sum id (\<lambda>p. \<lparr>td_name = name, td_description = description, td_parameters = p\<rparr>)
       (py_object_to_json J parameters)"

text \<open>The constructors of the provider configurations take the defaults of their signatures.\<close>

definition PyDeepSeekConfig_new :: "string \<Rightarrow> string list \<Rightarrow> string option \<Rightarrow> nat option \<Rightarrow> nat option \<Rightarrow> api_config" where
  "PyDeepSeekConfig_new key models endpoint timeout_secs max_retries =
     \<lparr>pc_endpoint = or_else ''https://api.deepseek.com/chat/completions'' endpoint, pc_api_key = key,
      pc_models = models, pc_timeout_secs = or_else 320 timeout_secs, pc_max_retries = or_else 3 max_retries\<rparr>"

definition PyOpenAIConfig_new :: "string \<Rightarrow> string list \<Rightarrow> string option \<Rightarrow> nat option \<Rightarrow> nat option \<Rightarrow> openai_config" where
  "PyOpenAIConfig_new key models endpoint timeout_secs max_retries =
     \<lparr>oc_endpoint = or_else ''https://api.openai.com/v1/chat/completions'' endpoint, oc_api_key = key,
      oc_models = models, oc_timeout_secs = or_else 320 timeout_secs, oc_max_retries = or_else 3 max_retries\<rparr>"

definition PyAnthropicConfig_new :: "string \<Rightarrow> string list \<Rightarrow> string option \<Rightarrow> nat option \<Rightarrow> nat option \<Rightarrow> api_config" where
  "PyAnthropicConfig_new key models endpoint timeout_secs max_retries =
     \<lparr>pc_endpoint = or_else ''https://api.anthropic.com/v1/messages'' endpoint, pc_api_key = key,
      pc_models = models, pc_timeout_secs = or_else 320 timeout_secs, pc_max_retries = or_else 3 max_retries\<rparr>"

subsection \<open>The object around a node handle\<close>

text \<open>
  The handle is behind a tokio mutex, which serves the tasks in the order in which they asked. Every
  call has a number; \<open>ca_holder\<close> is the call in the critical section, \<open>ca_done\<close> the calls that have
  returned, in order, with what they returned, and \<open>ca_gone\<close> those whose task was cancelled.
\<close>

datatype py_op = SendOp string "node_id list" json | RecvOp | DisconnectOp

datatype py_value = ReceiptV send_receipt | MessageV message | NoneV

record py_cell =
  ca_handle :: "node_handle option"
  ca_holder :: "(nat \<times> py_op) option"
  ca_queue :: "(nat \<times> py_op) list"
  ca_done :: "(nat \<times> (py_err + py_value)) list"
  ca_gone :: "nat list"
  ca_next :: nat

definition py_cell_new :: "node_handle \<Rightarrow> py_cell" where
  "py_cell_new h =
     \<lparr>ca_handle = Some h, ca_holder = None, ca_queue = [], ca_done = [], ca_gone = [], ca_next = 0\<rparr>"

definition disconnected_error :: py_err where
  "disconnected_error = PyRuntimeError ''node already disconnected''"

text \<open>
  What the call in the critical section does: \<open>None\<close> is a \<^verbatim>\<open>recv\<close> that has nothing to return yet. The lock
  is held until it has.
\<close>

definition serve ::
  "(bus_id \<Rightarrow> string) \<Rightarrow> (nat \<Rightarrow> uuid) \<Rightarrow> millis \<Rightarrow> py_op \<Rightarrow> node_handle option \<Rightarrow> buses
    \<Rightarrow> ((py_err + py_value) \<times> node_handle option \<times> buses) option" where
  "serve sb ids now op handle bs =
     (case handle of
        None \<Rightarrow> Some (Inl disconnected_error, None, bs)
      | Some h \<Rightarrow>
          (case op of
             SendOp ty tgt pl \<Rightarrow>
               (let (r, bs') = send (ids 0) now h ty tgt pl bs
                in Some (map_sum (send_error_to_py sb) ReceiptV r, Some h, bs'))
           | RecvOp \<Rightarrow>
               (case try_recv h of
                  (Received m, h') \<Rightarrow> Some (Inr (MessageV m), Some h', bs)
                | (RecvClosed, h') \<Rightarrow> Some (Inl (PyException ''recv error: channel closed''), Some h', bs)
                | (WouldBlock, h') \<Rightarrow> None)
           | DisconnectOp \<Rightarrow> Some (Inr NoneV, None, disconnect ids now h bs)))"

text \<open>The calls that do not wait: they fail while the lock is taken or promised to a waiting call.\<close>

definition locked :: "py_cell \<Rightarrow> bool" where
  "locked c \<longleftrightarrow> ca_holder c \<noteq> None \<or> ca_queue c \<noteq> []"

definition py_try_recv :: "py_cell \<Rightarrow> (py_err + message option) \<times> py_cell" where
  "py_try_recv c =
     (if locked c then (Inl (PyRuntimeError (''concurrent recv in progress '' @ utf8 [0xE2, 0x80, 0x94] @ '' try_recv not available'')), c)
      else (case ca_handle c of
              None \<Rightarrow> (Inl disconnected_error, c)
            | Some h \<Rightarrow>
                (let (r, h') = try_recv h
                 in (case r of Received m \<Rightarrow> Inr (Some m) | WouldBlock \<Rightarrow> Inr None
                     | RecvClosed \<Rightarrow> Inl (PyException ''try_recv error: channel closed''),
                     c\<lparr>ca_handle := Some h'\<rparr>))))"

definition look :: "(node_handle \<Rightarrow> 'a) \<Rightarrow> py_cell \<Rightarrow> py_err + 'a" where
  "look f c =
     (if locked c then Inl (PyRuntimeError ''concurrent access in progress'')
      else (case ca_handle c of None \<Rightarrow> Inl disconnected_error | Some h \<Rightarrow> Inr (f h)))"

definition PyNodeHandle_node_info :: "py_cell \<Rightarrow> py_err + node_info" where
  "PyNodeHandle_node_info = look nh_info"

definition PyNodeHandle_filter_config :: "py_cell \<Rightarrow> py_err + message_filter" where
  "PyNodeHandle_filter_config = look (\<lambda>h. sub_filter (hd (nh_subscriptions h)))"

definition call_op :: "py_op \<Rightarrow> py_cell \<Rightarrow> py_cell" where
  "call_op op c = c\<lparr>ca_queue := ca_queue c @ [(ca_next c, op)], ca_next := ca_next c + 1\<rparr>"

text \<open>The payload is converted before the lock is asked for.\<close>

definition PyNodeHandle_send :: "'o py_json \<Rightarrow> string \<Rightarrow> node_id list \<Rightarrow> 'o \<Rightarrow> py_cell \<Rightarrow> (py_err + nat) \<times> py_cell" where
  "PyNodeHandle_send J ty tgt payload c =
     (case py_object_to_json J payload of
        Inl e \<Rightarrow> (Inl e, c)
      | Inr pl \<Rightarrow> (Inr (ca_next c), call_op (SendOp ty tgt pl) c))"

definition finish_call :: "nat \<Rightarrow> py_err + py_value \<Rightarrow> node_handle option \<Rightarrow> py_cell \<Rightarrow> py_cell" where
  "finish_call i r handle c = c\<lparr>ca_handle := handle, ca_holder := None, ca_done := ca_done c @ [(i, r)]\<rparr>"

definition drop_call :: "nat \<Rightarrow> py_cell \<Rightarrow> py_cell" where
  "drop_call i c =
     c\<lparr>ca_holder := (case ca_holder c of Some (j, op) \<Rightarrow> if j = i then None else Some (j, op) | None \<Rightarrow> None),
       ca_queue := filter (\<lambda>x. fst x \<noteq> i) (ca_queue c), ca_gone := ca_gone c @ [i]\<rparr>"

text \<open>
  The steps of a handle among other things: the forwarding task of a subscription takes a turn, and
  the buses do anything (\<open>world\<close>).
\<close>

inductive py_step :: "(bus_id \<Rightarrow> string) \<Rightarrow> py_cell \<times> buses \<Rightarrow> py_cell \<times> buses \<Rightarrow> bool" for sb where
  call: "py_step sb (c, bs) (call_op op c, bs)"
| grant: "ca_holder c = None \<Longrightarrow> ca_queue c = x # q \<Longrightarrow> py_step sb (c, bs) (c\<lparr>ca_holder := Some x, ca_queue := q\<rparr>, bs)"
| finish: "ca_holder c = Some (i, op) \<Longrightarrow> serve sb ids now op (ca_handle c) bs = Some (r, handle, bs') \<Longrightarrow>
    py_step sb (c, bs) (finish_call i r handle c, bs')"
| cancelled: "i \<in> fst ` set (ca_queue c) \<or> (\<exists>op. ca_holder c = Some (i, op)) \<Longrightarrow> py_step sb (c, bs) (drop_call i c, bs)"
| forward: "ca_handle c = Some h \<Longrightarrow> k < length (nh_subscriptions h) \<Longrightarrow>
    map_of bs (sub_bus_id (nh_subscriptions h ! k)) = Some b \<Longrightarrow>
    forward_step b (nh_node_id h) (nh_subscriptions h ! k) = (s, acked) \<Longrightarrow>
    py_step sb (c, bs) (c\<lparr>ca_handle := Some (h\<lparr>nh_subscriptions := (nh_subscriptions h)[k := s]\<rparr>)\<rparr>, bs)"
| world: "py_step sb (c, bs) (c, bs')"

subsection \<open>The bus\<close>

text \<open>
  The constructor panics for a ring buffer of size 0 or beyond half of the address space. With a heartbeat
  interval of 0 the timer panics in the task of the message loop: the bus is there, its loop is not.
\<close>

definition PyBus_new :: "uuid \<Rightarrow> millis \<Rightarrow> millis \<Rightarrow> nat \<Rightarrow> (unit, bus) outcome" where
  "PyBus_new i now heartbeat_interval_ms channel_capacity =
     (if channel_capacity = 0 \<or> 2 ^ 63 \<le> channel_capacity then Panic
      else Ret ((Bus_new i now)\<lparr>bus_running := heartbeat_interval_ms \<noteq> 0\<rparr>))"

definition PyBus_connect ::
  "(bus \<Rightarrow> bus) \<Rightarrow> uuid \<Rightarrow> millis \<Rightarrow> node_info \<Rightarrow> message_filter \<Rightarrow> bus \<Rightarrow> ((py_err + py_cell) \<times> bus) option" where
  "PyBus_connect gap i now info f b =
     map_option (\<lambda>(r, b'). (map_sum connect_error_to_py py_cell_new r, b')) (connect gap i now info f b)"

definition PyBus_shutdown :: "bool \<Rightarrow> bus \<Rightarrow> bus" where
  "PyBus_shutdown queued b = signal_shutdown queued b"

subsection \<open>Model providers and their nodes\<close>

text \<open>
  A node of a provider: its handle is owned by the task of its loop. \<open>an_cancelled\<close> is the token that
  \<^verbatim>\<open>shutdown\<close> sets, \<open>an_running\<close> whether the loop still runs.
\<close>

record adapter_node =
  an_id :: node_id
  an_handle :: node_handle
  an_cancelled :: bool
  an_running :: bool

definition ModelAdapterNode_new ::
  "(bus \<Rightarrow> bus) \<Rightarrow> uuid \<Rightarrow> millis \<Rightarrow> provider \<Rightarrow> node_id \<Rightarrow> bus \<Rightarrow> ((connect_error + adapter_node) \<times> bus) option" where
  "ModelAdapterNode_new gap i now P n b =
     map_option (\<lambda>(r, b'). (map_sum id (\<lambda>h. \<lparr>an_id = n, an_handle = h, an_cancelled = False, an_running = True\<rparr>) r, b'))
       (connect gap i now (model_node_info P n now) model_node_filter b)"

definition ModelAdapterNode_shutdown :: "adapter_node \<Rightarrow> adapter_node" where
  "ModelAdapterNode_shutdown nd = nd\<lparr>an_cancelled := True\<rparr>"

definition loop_exit :: "(nat \<Rightarrow> uuid) \<Rightarrow> millis \<Rightarrow> adapter_node \<Rightarrow> buses \<Rightarrow> adapter_node \<times> buses" where
  "loop_exit ids now nd bs = (nd\<lparr>an_running := False\<rparr>, disconnect ids now (an_handle nd) bs)"

text \<open>
  One turn of the loop. When both branches of \<^verbatim>\<open>select!\<close> are ready, either may be taken: \<open>take_message\<close>
  says which. During a model call the token is not looked at.
\<close>

definition adapter_turn ::
  "uuid_ops \<Rightarrow> (rat \<Rightarrow> rat) \<Rightarrow> (nat \<Rightarrow> string) \<Rightarrow> (json \<Rightarrow> string) \<Rightarrow> provider \<Rightarrow> (nat \<Rightarrow> uuid) \<Rightarrow> millis \<Rightarrow> bool
    \<Rightarrow> adapter_node \<Rightarrow> buses \<Rightarrow> adapter_node \<times> buses" where
  "adapter_turn U f32 show_nat why P ids now take_message nd bs =
     (if \<not> an_running nd then (nd, bs)
      else if an_cancelled nd \<and> (\<not> take_message \<or> fst (try_recv (an_handle nd)) = WouldBlock)
      then loop_exit ids now nd bs
      else (case try_recv (an_handle nd) of
              (Received m, h) \<Rightarrow> (nd\<lparr>an_handle := h\<rparr>, listen_turn U f32 show_nat why P ids now h m bs)
            | (RecvClosed, h) \<Rightarrow> loop_exit ids now nd bs
            | (WouldBlock, h) \<Rightarrow> (nd, bs)))"

text \<open>
  The Python objects. The nodes are numbered; \<open>pv_connected\<close> is the list that keeps them alive, which a
  node's wrapper shares with the provider.
\<close>

record py_provider =
  pv_inner :: provider
  pv_connected :: "nat list"

definition PyProvider_new :: "provider \<Rightarrow> py_provider" where
  "PyProvider_new P = \<lparr>pv_inner = P, pv_connected = []\<rparr>"

definition PyProvider_chat ::
  "(nat \<Rightarrow> string) \<Rightarrow> py_provider \<Rightarrow> string \<Rightarrow> model_message list \<Rightarrow> tool_def list \<Rightarrow> model_params
    \<Rightarrow> py_err + model_response_payload" where
  "PyProvider_chat show_nat p model_name msgs tools params =
     map_sum (provider_error_to_py show_nat) id (pv_chat (pv_inner p) model_name msgs tools params)"

definition PyProvider_chat_stream ::
  "(nat \<Rightarrow> string) \<Rightarrow> py_provider \<Rightarrow> string \<Rightarrow> model_message list \<Rightarrow> tool_def list \<Rightarrow> model_params
    \<Rightarrow> py_err + (stream_chunk list \<times> model_response_payload)" where
  "PyProvider_chat_stream show_nat p model_name msgs tools params =
     map_sum (provider_error_to_py show_nat) id (pv_chat_stream (pv_inner p) model_name msgs tools params)"

definition connect_to_bus ::
  "(bus \<Rightarrow> bus) \<Rightarrow> uuid \<Rightarrow> millis \<Rightarrow> node_id \<Rightarrow> py_provider \<Rightarrow> adapter_node list \<Rightarrow> bus
    \<Rightarrow> ((py_err + nat option) \<times> py_provider \<times> adapter_node list \<times> bus) option" where
  "connect_to_bus gap i now n p nodes b =
     (case ModelAdapterNode_new gap i now (pv_inner p) n b of
        None \<Rightarrow> None
      | Some (Inl e, b') \<Rightarrow> Some (Inl (PyException (connect_error_display e)), p, nodes, b')
      | Some (Inr nd, b') \<Rightarrow>
          Some (Inr (Some (length nodes)), p\<lparr>pv_connected := pv_connected p @ [length nodes]\<rparr>, nodes @ [nd], b'))"

text \<open>The wrapper of a node holds its number until \<^verbatim>\<open>shutdown\<close> takes it out.\<close>

definition PyModelAdapterNode_node_id :: "nat option \<Rightarrow> adapter_node list \<Rightarrow> py_err + node_id" where
  "PyModelAdapterNode_node_id w nodes =
     (case w of None \<Rightarrow> Inl (PyRuntimeError ''node already shut down'') | Some k \<Rightarrow> Inr (an_id (nodes ! k)))"

definition PyModelAdapterNode_shutdown ::
  "nat option \<Rightarrow> adapter_node list \<Rightarrow> (py_err + unit) \<times> nat option \<times> adapter_node list" where
  "PyModelAdapterNode_shutdown w nodes =
     (case w of
        None \<Rightarrow> (Inl (PyRuntimeError ''node already shut down''), None, nodes)
      | Some k \<Rightarrow> (Inr (), None, nodes[k := ModelAdapterNode_shutdown (nodes ! k)]))"

end
