(* ===== verification/Py_Bus_Props.thy ===== *)
theory Py_Bus_Props
  imports Py_Bus
begin

text \<open>
  Properties of the bus as Python sees it: in which order the calls on a handle return, what a pending
  \<^verbatim>\<open>recv\<close> holds up, and when a node of a provider has left its bus.
\<close>

subsection \<open>Calls on a handle\<close>

definition in_flight :: "py_cell \<Rightarrow> nat list" where
  "in_flight c = (case ca_holder c of None \<Rightarrow> [] | Some (i, _) \<Rightarrow> [i]) @ map fst (ca_queue c)"

definition calls_ordered :: "py_cell \<Rightarrow> bool" where
  "calls_ordered c \<longleftrightarrow>
     sorted_wrt (<) (map fst (ca_done c) @ in_flight c) \<and> (\<forall>i \<in> set (map fst (ca_done c) @ in_flight c). i < ca_next c)"

text \<open>What has returned after a \<^verbatim>\<open>disconnect\<close> has failed.\<close>

fun fails_after :: "(nat \<times> (py_err + py_value)) list \<Rightarrow> bool" where
  "fails_after [] = True"
| "fails_after ((i, r) # ds) =
     ((r = Inr NoneV \<longrightarrow> (\<forall>(j, q) \<in> set ds. q = Inl disconnected_error)) \<and> fails_after ds)"

definition closed_for_good :: "py_cell \<Rightarrow> bool" where
  "closed_for_good c \<longleftrightarrow> fails_after (ca_done c) \<and> (\<forall>i. (i, Inr NoneV) \<in> set (ca_done c) \<longrightarrow> ca_handle c = None)"

lemma fails_after_snoc:
  "fails_after (ds @ [(i, r)]) \<longleftrightarrow>
     fails_after ds \<and> ((\<exists>j. (j, Inr NoneV) \<in> set ds) \<longrightarrow> r = Inl disconnected_error)"
  by (induction ds) auto

lemma map_sum_Inr: "map_sum f g s = Inr y \<longleftrightarrow> (\<exists>x. s = Inr x \<and> y = g x)"
  by (cases s) auto

lemma serve_NoneV: "serve sb ids now op handle bs = Some (Inr NoneV, handle', bs') \<Longrightarrow> handle' = None"
  by (auto simp: serve_def Let_def map_sum_Inr split: option.splits py_op.splits prod.splits recv_result.splits sum.splits)

lemma serve_gone: "serve sb ids now op None bs = Some (r, handle', bs') \<Longrightarrow> r = Inl disconnected_error \<and> handle' = None"
  by (auto simp: serve_def)

lemma in_flight_drop: "in_flight (drop_call i c) = filter (\<lambda>j. j \<noteq> i) (in_flight c)"
  by (auto simp: in_flight_def drop_call_def filter_map o_def split: option.split)

lemma ordered_step:
  assumes "py_step sb (c, bs) (c', bs')" "calls_ordered c"
  shows "calls_ordered c'"
  using assms(1)
proof cases
  case (call op)
  with assms(2) show ?thesis
    by (auto simp: calls_ordered_def call_op_def in_flight_def sorted_wrt_append less_SucI split: option.splits)
next
  case (grant x q)
  with assms(2) show ?thesis by (cases x) (auto simp: calls_ordered_def in_flight_def)
next
  case (finish i op)
  with assms(2) show ?thesis by (auto simp: calls_ordered_def in_flight_def finish_call_def)
next
  case (cancelled i)
  have "ca_done c' = ca_done c" "ca_next c' = ca_next c" by (simp_all add: cancelled drop_call_def)
  with assms(2) show ?thesis
    by (auto simp: calls_ordered_def cancelled in_flight_drop sorted_wrt_append sorted_wrt_filter)
next
  case forward
  with assms(2) show ?thesis by (auto simp: calls_ordered_def in_flight_def)
next
  case world
  with assms(2) show ?thesis by simp
qed

lemma closed_step:
  assumes "py_step sb (c, bs) (c', bs')" "closed_for_good c"
  shows "closed_for_good c'"
  using assms(1)
proof cases
  case (finish i op ids now r handle)
  then show ?thesis
  proof (cases "\<exists>j. (j, Inr NoneV) \<in> set (ca_done c)")
    case True
    with assms(2) have "ca_handle c = None" by (auto simp: closed_for_good_def)
    with finish have "r = Inl disconnected_error" "handle = None" by (auto dest: serve_gone)
    with assms(2) finish show ?thesis by (auto simp: closed_for_good_def finish_call_def fails_after_snoc)
  next
    case False
    with assms(2) finish show ?thesis
      by (auto simp: closed_for_good_def finish_call_def fails_after_snoc dest: serve_NoneV)
  qed
qed (use assms(2) in \<open>auto simp: closed_for_good_def call_op_def drop_call_def\<close>)

text \<open>
  C23: the calls of all tasks on one handle return in the order in which they asked for it, each at most
  once, and every call that returns after a \<^verbatim>\<open>disconnect\<close> fails with the error of a disconnected node,
  whatever the tasks, the forwarding tasks and the buses do.
\<close>

theorem handle_calls_in_order:
  assumes "(py_step sb)\<^sup>*\<^sup>* (py_cell_new h, bs) (c, bs')"
  shows "sorted_wrt (<) (map fst (ca_done c)) \<and>
    (\<forall>pre d post j r. ca_done c = pre @ (d, Inr NoneV) # post \<and> (j, r) \<in> set post \<longrightarrow> r = Inl disconnected_error)"
proof -
  have "calls_ordered c \<and> closed_for_good c"
    using assms
  proof (induction "(c, bs')" arbitrary: c bs' rule: rtranclp_induct)
    case base
    show ?case by (simp add: calls_ordered_def in_flight_def closed_for_good_def py_cell_new_def)
  next
    case (step y)
    then show ?case by (cases y) (auto intro: ordered_step closed_step)
  qed
  moreover have "fails_after (pre @ (d, Inr NoneV) # post) \<Longrightarrow> (j, r) \<in> set post \<Longrightarrow> r = Inl disconnected_error"
    for pre d post j r by (induction pre) auto
  ultimately show ?thesis by (auto simp: calls_ordered_def closed_for_good_def sorted_wrt_append)
qed

text \<open>
  C24: a pending \<^verbatim>\<open>recv\<close> holds up the whole handle. From when it has the lock until it returns or its task is
  cancelled, no other call returns, a \<^verbatim>\<open>send\<close> or the \<^verbatim>\<open>disconnect\<close> of another task included, and the calls that
  do not wait fail.
\<close>

theorem pending_recv_blocks:
  assumes "ca_holder c = Some (i, RecvOp)" and "(py_step sb)\<^sup>*\<^sup>* (c, bs) (c', bs')"
    and "i \<notin> fst ` set (ca_done c')" and "i \<notin> set (ca_gone c')"
  shows "ca_done c' = ca_done c \<and> ca_holder c' = Some (i, RecvOp) \<and>
    (\<exists>e. fst (py_try_recv c') = Inl e) \<and> (\<exists>e. PyNodeHandle_node_info c' = Inl e)"
proof -
  have "ca_done c' = ca_done c \<and> ca_holder c' = Some (i, RecvOp)"
    using assms(2-4)
  proof (induction "(c', bs')" arbitrary: c' bs' rule: rtranclp_induct)
    case base
    with assms(1) show ?case by simp
  next
    case (step y)
    obtain c1 bs1 where y: "y = (c1, bs1)" by (cases y)
    from step(2) y have s: "py_step sb (c1, bs1) (c', bs')" by simp
    then have "i \<notin> fst ` set (ca_done c1)" "i \<notin> set (ca_gone c1)"
      using step(4,5) by (cases; auto simp: call_op_def finish_call_def drop_call_def)+
    with step(3) y have h: "ca_done c1 = ca_done c" "ca_holder c1 = Some (i, RecvOp)" by auto
    from s show ?case
      by cases (use h step(4,5) in \<open>auto simp: call_op_def finish_call_def drop_call_def\<close>)
  qed
  then show ?thesis by (simp add: py_try_recv_def PyNodeHandle_node_info_def look_def locked_def)
qed

definition idle_handle :: node_handle where
  "idle_handle =
     \<lparr>nh_info = \<lparr>ni_node_id = NodeId ''n'', ni_node_type = ''t'', ni_capabilities = JNull, ni_online_since = 0\<rparr>,
      nh_primary_bus_id = BusId 0,
      nh_subscriptions = [\<lparr>sub_bus_id = BusId 0, sub_filter = PyMessageFilter_new None None, sub_cursor = 0,
                           sub_inbound = [], sub_live = True\<rparr>]\<rparr>"

text \<open>A \<^verbatim>\<open>recv\<close> that waits, and a \<^verbatim>\<open>disconnect\<close> that waits behind it.\<close>

definition stuck_cell :: py_cell where
  "stuck_cell =
     (py_cell_new idle_handle)\<lparr>ca_holder := Some (0, RecvOp), ca_queue := [(1, DisconnectOp)], ca_next := 2\<rparr>"

lemma stuck_cell_reached: "(py_step sb)\<^sup>*\<^sup>* (py_cell_new idle_handle, bs) (stuck_cell, bs)"
proof -
  let ?c0 = "py_cell_new idle_handle"
  let ?c1 = "call_op RecvOp ?c0"
  let ?c2 = "?c1\<lparr>ca_holder := Some (0, RecvOp), ca_queue := []\<rparr>"
  have "py_step sb (?c0, bs) (?c1, bs)" by (rule py_step.call)
  moreover have "py_step sb (?c1, bs) (?c2, bs)"
    by (rule py_step.grant) (simp_all add: call_op_def py_cell_new_def)
  moreover have "stuck_cell = call_op DisconnectOp ?c2" by (simp add: stuck_cell_def call_op_def py_cell_new_def)
  then have "py_step sb (?c2, bs) (stuck_cell, bs)" by (metis py_step.call)
  ultimately show ?thesis by (meson converse_rtranclp_into_rtranclp rtranclp.rtrancl_refl)
qed

theorem pending_recv_blocks_witness:
  "serve (\<lambda>_. []) (\<lambda>_. 0) 0 RecvOp (ca_handle stuck_cell) [] = None \<and>
   ca_holder (call_op RecvOp stuck_cell) = Some (0, RecvOp) \<and>
   (\<exists>e. fst (py_try_recv (call_op RecvOp stuck_cell)) = Inl e)"
proof -
  have "serve (\<lambda>_. []) (\<lambda>_. 0) 0 RecvOp (ca_handle stuck_cell) [] = None"
    by (simp add: stuck_cell_def py_cell_new_def serve_def try_recv_def idle_handle_def)
  moreover have "ca_holder stuck_cell = Some (0, RecvOp)" "ca_done (call_op RecvOp stuck_cell) = []"
    "ca_gone (call_op RecvOp stuck_cell) = []"
    by (simp_all add: stuck_cell_def py_cell_new_def call_op_def)
  with pending_recv_blocks [of stuck_cell 0 "\<lambda>_. []" "[]" "call_op RecvOp stuck_cell" "[]"]
  have "ca_holder (call_op RecvOp stuck_cell) = Some (0, RecvOp)"
    "\<exists>e. fst (py_try_recv (call_op RecvOp stuck_cell)) = Inl e"
    by (auto intro: r_into_rtranclp py_step.call)
  ultimately show ?thesis by simp
qed

definition ended_cell :: py_cell where
  "ended_cell =
     (py_cell_new idle_handle)\<lparr>ca_handle := None, ca_done := [(0, Inr NoneV), (1, Inl disconnected_error)], ca_next := 2\<rparr>"

lemma ended_cell_reached: "(py_step sb)\<^sup>*\<^sup>* (py_cell_new idle_handle, []) (ended_cell, [])"
proof -
  let ?c0 = "py_cell_new idle_handle"
  let ?c1 = "call_op DisconnectOp ?c0"
  let ?c2 = "call_op RecvOp ?c1"
  let ?c3 = "?c2\<lparr>ca_holder := Some (0, DisconnectOp), ca_queue := [(1, RecvOp)]\<rparr>"
  let ?c4 = "finish_call 0 (Inr NoneV) None ?c3"
  let ?c5 = "?c4\<lparr>ca_holder := Some (1, RecvOp), ca_queue := []\<rparr>"
  have "py_step sb (?c0, []) (?c1, [])" "py_step sb (?c1, []) (?c2, [])" by (rule py_step.call)+
  moreover have "py_step sb (?c2, []) (?c3, [])" "py_step sb (?c4, []) (?c5, [])"
    by (rule py_step.grant; simp add: call_op_def py_cell_new_def finish_call_def)+
  moreover have "serve sb (\<lambda>_. 0) 0 DisconnectOp (ca_handle ?c3) [] = Some (Inr NoneV, None, [])"
    by (simp add: serve_def call_op_def py_cell_new_def idle_handle_def disconnect_def)
  then have "py_step sb (?c3, []) (?c4, [])" by (intro py_step.finish) simp_all
  moreover have "serve sb (\<lambda>_. 0) 0 RecvOp (ca_handle ?c5) [] = Some (Inl disconnected_error, None, [])"
    by (simp add: serve_def finish_call_def)
  then have "py_step sb (?c5, []) (finish_call 1 (Inl disconnected_error) None ?c5, [])" by (intro py_step.finish) simp_all
  moreover have "finish_call 1 (Inl disconnected_error) None ?c5 = ended_cell"
    by (simp add: ended_cell_def call_op_def py_cell_new_def finish_call_def)
  ultimately show ?thesis by (metis (no_types, lifting) converse_rtranclp_into_rtranclp rtranclp.rtrancl_refl)
qed

theorem handle_calls_in_order_witness:
  "\<exists>j r. (j, r) \<in> set (tl (ca_done ended_cell)) \<and> r = Inl disconnected_error \<and> sorted_wrt (<) (map fst (ca_done ended_cell))"
proof -
  have d: "ca_done ended_cell = [] @ (0, Inr NoneV) # [(1, Inl disconnected_error)]"
    by (simp add: ended_cell_def py_cell_new_def)
  note t = handle_calls_in_order [OF ended_cell_reached [of "\<lambda>_. []"]]
  from t d have "Inl disconnected_error = (Inl disconnected_error :: py_err + py_value)" by (metis list.set_intros(1))
  with t show ?thesis by (intro exI [of _ 1] exI [of _ "Inl disconnected_error"]) (simp add: d)
qed

subsection \<open>Leaving the bus\<close>

text \<open>A bus without heartbeats refuses every node.\<close>

lemma no_heartbeat_no_bus:
  "PyBus_new i now 0 16 = Ret b \<Longrightarrow>
     PyBus_connect gap j t info f b = Some (Inl (connect_error_to_py ConnectBusClosed), b)"
  by (auto simp: PyBus_new_def PyBus_connect_def connect_def register_def)

lemma connect_taken:
  "bus_running b \<Longrightarrow> contains_key (bus_nodes b) (ni_node_id info) \<Longrightarrow>
     connect gap i now info f b = Some (Inl (AlreadyConnected (ni_node_id info)), b)"
  by (simp add: connect_def register_def handle_connect_def)

lemma connect_free:
  assumes "bus_running b" "bus_has_tx b" "\<not> contains_key (bus_nodes b) (ni_node_id info)"
  shows "\<exists>h b'. connect id i now info f b = Some (Inr h, b') \<and> nh_subscriptions h = [new_subscription b' f] \<and>
    nh_info h = info \<and> bus_bid b' = bus_bid b \<and> bus_running b' \<and> bus_has_tx b' \<and>
    bus_nodes b' = AList.update (ni_node_id info) \<lparr>ne_info = info, ne_last_ack = now, ne_filter = f\<rparr> (bus_nodes b)"
  using assms by (simp add: connect_def register_def handle_connect_def subscribe_internal_def broadcast_def Let_def)

lemma node_info_id [simp]: "ni_node_id (model_node_info P n now) = n"
  by (simp add: model_node_info_def)

text \<open>
  \<^verbatim>\<open>shutdown\<close> of a model node returns before the node has left its bus. A provider that connects again
  under the same name right after it is refused; once the loop of the node has taken its turn the name is
  free. The provider goes on to hold the node in any case.
\<close>

theorem shutdown_is_not_yet_left:
  assumes "bus_running b" and "bus_has_tx b" and "\<not> contains_key (bus_nodes b) n"
    and "connect_to_bus id i now n p nodes b = Some (Inr w, p', nodes', b')"
    and "PyModelAdapterNode_shutdown w nodes' = (r, w', nodes'')"
    and "adapter_turn U f32 show_nat why (pv_inner p) ids t False (last nodes'') [(bus_bid b', b')] = (nd, bs)"
  shows "r = Inr () \<and> pv_connected p' = pv_connected p @ [length nodes] \<and>
    connect_to_bus id i2 now2 n p' nodes'' b' = Some (Inl (PyException (''node already connected: '' @ as_string n)), p', nodes'', b') \<and>
    \<not> an_running nd \<and> (\<exists>b2 w2 p2 nodes2 b3. bs = [(bus_bid b', b2)] \<and>
      connect_to_bus id i2 now2 n p' nodes'' b2 = Some (Inr w2, p2, nodes2, b3))"
proof -
  obtain h b1 where c: "connect id i now (model_node_info (pv_inner p) n now) model_node_filter b = Some (Inr h, b1)"
    and h: "nh_subscriptions h = [new_subscription b1 model_node_filter]" "nh_info h = model_node_info (pv_inner p) n now"
    and b1: "bus_bid b1 = bus_bid b" "bus_running b1" "bus_has_tx b1"
      "bus_nodes b1 = AList.update n \<lparr>ne_info = model_node_info (pv_inner p) n now, ne_last_ack = now,
        ne_filter = model_node_filter\<rparr> (bus_nodes b)"
    using connect_free [of b "model_node_info (pv_inner p) n now" i now model_node_filter] assms(1-3) by auto
  from c assms(4) have w: "w = Some (length nodes)" "p' = p\<lparr>pv_connected := pv_connected p @ [length nodes]\<rparr>"
    "nodes' = nodes @ [\<lparr>an_id = n, an_handle = h, an_cancelled = False, an_running = True\<rparr>]" "b' = b1"
    by (auto simp: connect_to_bus_def ModelAdapterNode_new_def)
  with assms(5) have s: "r = Inr ()"
    "nodes'' = nodes @ [\<lparr>an_id = n, an_handle = h, an_cancelled = True, an_running = True\<rparr>]"
    by (auto simp: PyModelAdapterNode_shutdown_def ModelAdapterNode_shutdown_def)
  have taken: "contains_key (bus_nodes b1) n" by (simp add: b1 contains_key_iff dom_update)
  then have refused: "connect_to_bus id i2 now2 n p' nodes'' b' = Some (Inl (PyException (''node already connected: '' @ as_string n)), p', nodes'', b')"
    using connect_taken [of b1 "model_node_info (pv_inner p') n now2" id i2 now2 model_node_filter] b1(2) w
    by (simp add: connect_to_bus_def ModelAdapterNode_new_def)
  let ?b2 = "handle_disconnect (ids 0) t n b1"
  have nd: "nd = \<lparr>an_id = n, an_handle = h, an_cancelled = True, an_running = False\<rparr>" "bs = [(bus_bid b1, ?b2)]"
    using assms(6) w s b1(2) h
    by (auto simp: adapter_turn_def loop_exit_def disconnect_def new_subscription_def)
  have "bus_running ?b2" "bus_has_tx ?b2" "\<not> contains_key (bus_nodes ?b2) n"
    by (simp_all add: handle_disconnect_def broadcast_def b1 Let_def contains_key_iff delete_keys)
  then have "\<exists>w2 p2 nodes2 b3. connect_to_bus id i2 now2 n p' nodes'' ?b2 = Some (Inr w2, p2, nodes2, b3)"
    using connect_free [of ?b2 "model_node_info (pv_inner p') n now2" i2 now2 model_node_filter]
    by (auto simp: connect_to_bus_def ModelAdapterNode_new_def)
  with w(2,4) s(1) nd refused show ?thesis by simp
qed

definition mute_provider :: provider where
  "mute_provider = \<lparr>pv_name = ''x'', pv_models = [], pv_chat = (\<lambda>_ _ _ _. Inl (Transport [])),
     pv_chat_stream = (\<lambda>_ _ _ _. Inl (Transport []))\<rparr>"

theorem shutdown_is_not_yet_left_witness:
  "\<exists>w p' nodes' b' nodes''. connect_to_bus id 1 0 (NodeId ''m'') (PyProvider_new mute_provider) [] (Bus_new 0 0) = Some (Inr w, p', nodes', b') \<and>
     PyModelAdapterNode_shutdown w nodes' = (Inr (), None, nodes'') \<and>
     connect_to_bus id 2 1 (NodeId ''m'') p' nodes'' b' = Some (Inl (PyException ''node already connected: m''), p', nodes'', b')"
proof -
  let ?b = "Bus_new 0 0" and ?p = "PyProvider_new mute_provider" and ?n = "NodeId ''m''"
  have b: "bus_running ?b" "bus_has_tx ?b" "\<not> contains_key (bus_nodes ?b) ?n"
    by (simp_all add: Bus_new_def contains_key_def)
  then obtain h b' where "connect id 1 0 (model_node_info mute_provider ?n 0) model_node_filter ?b = Some (Inr h, b')"
    using connect_free [of ?b "model_node_info mute_provider ?n 0" 1 0 model_node_filter] by auto
  then obtain p' nodes' where c: "connect_to_bus id 1 0 ?n ?p [] ?b = Some (Inr (Some 0), p', nodes', b')"
    by (auto simp: connect_to_bus_def ModelAdapterNode_new_def PyProvider_new_def)
  obtain r w' nodes'' where s: "PyModelAdapterNode_shutdown (Some 0) nodes' = (r, w', nodes'')"
    by (metis prod_cases3)
  obtain nd bs where "adapter_turn unary_uuid (\<lambda>x. x) (\<lambda>_. []) (\<lambda>_. []) (pv_inner ?p) (\<lambda>_. 3) 2 False (last nodes'') [(bus_bid b', b')] = (nd, bs)"
    by force
  from shutdown_is_not_yet_left [OF b c s this] s c show ?thesis
    by (auto simp: PyModelAdapterNode_shutdown_def)
qed

end
