(* ===== verification/Py_Pool.thy ===== *)
theory Py_Pool
  imports Py_Agent Pooled_Nodes Mcp_Tools
begin

text \<open>
  Pools and tool nodes as Python sees them (\<^verbatim>\<open>py-arf/src/pool.rs\<close>, \<^verbatim>\<open>py-arf/src/mcp.rs\<close>): the configuration of a
  pool, leases, the two kinds of pool, and the constructors of tool nodes and of their remote
  configuration.

  A Python float is the rational it denotes. Durations are counted in milliseconds.
\<close>

subsection \<open>Configuration of a pool\<close>

text \<open>\<^verbatim>\<open>Duration::from_secs_f64\<close> panics for a negative number and for one beyond 64 bits of seconds.\<close>

definition from_secs_f64 :: "rat \<Rightarrow> (unit, millis) outcome" where
  "from_secs_f64 t = (if t < 0 \<or> 2 ^ 64 \<le> t then Panic else Ret (nat \<lfloor>t * 1000\<rfloor>))"

definition PyOverflow_Block :: "rat \<Rightarrow> (unit, overflow) outcome" where
  "PyOverflow_Block timeout_secs = bind_result (from_secs_f64 timeout_secs) Block"

definition opt_secs :: "rat option \<Rightarrow> (unit, millis option) outcome" where
  "opt_secs t = (case t of None \<Rightarrow> Ret None | Some x \<Rightarrow> bind_result (from_secs_f64 x) Some)"

definition PyPoolConfig_new ::
  "nat option \<Rightarrow> overflow option \<Rightarrow> rat option \<Rightarrow> nat option \<Rightarrow> (unit, pool_config) outcome" where
  "PyPoolConfig_new max_size ov idle_timeout_secs min_size =
     bind_result (opt_secs idle_timeout_secs)
       (\<lambda>idle. \<lparr>pc_max_size = or_else 4 max_size, pc_overflow = or_else (Queue 0) ov, pc_idle_timeout = idle,
               pc_min_size = or_else 0 min_size\<rparr>)"

definition pool_error_to_py :: "(millis \<Rightarrow> string) \<Rightarrow> pool_error \<Rightarrow> py_err" where
  "pool_error_to_py show_duration e = PyException (pool_error_display show_duration e)"

text \<open>\<^verbatim>\<open>PoolError(msg)\<close> in Python and its \<^verbatim>\<open>str\<close>.\<close>

definition PyPoolError_new :: "string \<Rightarrow> pool_error" where
  "PyPoolError_new msg = Acquire msg"

definition PyPoolError_str :: "(millis \<Rightarrow> string) \<Rightarrow> pool_error \<Rightarrow> string" where
  "PyPoolError_str show_duration e = pool_error_display show_duration e"

subsection \<open>Pools\<close>

datatype resource_kind = ModelAdapterKind | McpKind

definition kind_name :: "resource_kind \<Rightarrow> string" where
  "kind_name k = (case k of ModelAdapterKind \<Rightarrow> ''model_adapter'' | McpKind \<Rightarrow> ''mcp'')"

text \<open>
  \<^verbatim>\<open>with_resources\<close> of both kinds of pool: the pool gets resources of its own, which share the provider or
  the node with those of the caller but start to count anew. Resources are told apart by their number.
\<close>

definition PyPool_with_resources :: "pool_config \<Rightarrow> 'p counted_resource list \<Rightarrow> (nat \<times> 'p counted_resource) pool" where
  "PyPool_with_resources config rs =
     with_resources config (zip [0..<length rs] (map (\<lambda>r. counted_resource_new (cr_inner r)) rs))"

text \<open>
  A lease holds the task of the pool that has the resource until the object is dropped. Python can ask
  for its kind only.
\<close>

record py_lease =
  le_kind :: resource_kind
  le_task :: "nat option"

definition PyLease_kind :: "py_lease \<Rightarrow> py_err + string" where
  "PyLease_kind l =
     (case le_task l of None \<Rightarrow> Inl (PyRuntimeError ''lease already released'') | Some _ \<Rightarrow> Inr (kind_name (le_kind l)))"

definition PyLease_repr :: "py_lease \<Rightarrow> string" where
  "PyLease_repr l =
     (case le_task l of
        None \<Rightarrow> ''Lease(released)''
      | Some _ \<Rightarrow> (case le_kind l of ModelAdapterKind \<Rightarrow> ''Lease(model_adapter)'' | McpKind \<Rightarrow> ''Lease(mcp)''))"

definition PyLease_drop :: "py_lease \<Rightarrow> 'r pool \<Rightarrow> py_lease \<times> 'r pool" where
  "PyLease_drop l p =
     (l\<lparr>le_task := None\<rparr>,
      case le_task l of
        None \<Rightarrow> p
      | Some t \<Rightarrow> (case stage_of p t of Leased r \<Rightarrow> drop_lease t r p | _ \<Rightarrow> p))"

text \<open>\<^verbatim>\<open>acquire\<close>: a new task of the pool, and what the caller gets once it is through.\<close>

definition PyPool_acquire :: "'r pool \<Rightarrow> nat \<times> 'r pool" where
  "PyPool_acquire p = (length (pl_tasks p), p\<lparr>pl_tasks := pl_tasks p @ [Starting]\<rparr>)"

definition acquired :: "(millis \<Rightarrow> string) \<Rightarrow> resource_kind \<Rightarrow> nat \<Rightarrow> 'r pool \<Rightarrow> (py_err + py_lease) option" where
  "acquired show_duration k t p =
     (case stage_of p t of
        Leased r \<Rightarrow> Some (Inr \<lparr>le_kind = k, le_task = Some t\<rparr>)
      | Done (Some e) \<Rightarrow> Some (Inl (pool_error_to_py show_duration e))
      | _ \<Rightarrow> None)"

definition idle_count :: "'r pool \<Rightarrow> nat" where
  "idle_count p = length (ps_idle (pl_state p))"

definition total_count :: "'r pool \<Rightarrow> nat" where
  "total_count p = ps_total (pl_state p)"

subsection \<open>Tool nodes\<close>

text \<open>The dictionary of headers, as Python's types let it be read; an entry that is not text is an error.\<close>

definition py_headers_to_hashmap ::
  "('o \<Rightarrow> py_err + ('o \<times> 'o) list) \<Rightarrow> ('o \<Rightarrow> py_err + string) \<Rightarrow> 'o \<Rightarrow> py_err + (string \<times> string) list" where
  "py_headers_to_hashmap as_dict extract obj =
     (case as_dict obj of
        Inl e \<Rightarrow> Inl e
      | Inr entries \<Rightarrow>
          fold (\<lambda>(k, v) acc. case acc of
                  Inl e \<Rightarrow> Inl e
                | Inr m \<Rightarrow> (case extract k of
                             Inl e \<Rightarrow> Inl e
                           | Inr ks \<Rightarrow> (case extract v of Inl e \<Rightarrow> Inl e | Inr vs \<Rightarrow> Inr (AList.update ks vs m))))
            entries (Inr []))"

definition PyRetryConfig_new :: "nat option \<Rightarrow> nat option \<Rightarrow> nat option \<Rightarrow> nat \<times> nat \<times> nat" where
  "PyRetryConfig_new max_retries initial_backoff_ms max_backoff_ms =
     (or_else 3 max_retries, or_else 1000 initial_backoff_ms, or_else 30000 max_backoff_ms)"

definition PyRemoteConfig_new ::
  "('o \<Rightarrow> py_err + ('o \<times> 'o) list) \<Rightarrow> ('o \<Rightarrow> py_err + string) \<Rightarrow> string \<Rightarrow> string option \<Rightarrow> nat option \<Rightarrow> 'o option
    \<Rightarrow> string option \<Rightarrow> (nat \<times> nat \<times> nat) option \<Rightarrow> py_err + remote_config" where
  "PyRemoteConfig_new as_dict extract url transport timeout_secs headers tls_ca_cert retry =
     map_sum id (\<lambda>hdrs. \<lparr>rg_transport = or_else ''http'' transport, rg_url = url, rg_timeout_secs = timeout_secs,
                         rg_headers = hdrs, rg_tls_ca_cert = tls_ca_cert, rg_retry = retry\<rparr>)
       (case headers of None \<Rightarrow> Inr [] | Some h \<Rightarrow> py_headers_to_hashmap as_dict extract h)"

definition mcp_error_to_py :: "(int \<Rightarrow> string) \<Rightarrow> mcp_error \<Rightarrow> py_err" where
  "mcp_error_to_py show_int e =
     (let msg = mcp_error_display show_int e
      in case e of
           Discovery _ \<Rightarrow> PyRuntimeError msg
         | RemoteUnreachable _ _ \<Rightarrow> PyConnectionError msg
         | RemoteRejected _ _ _ \<Rightarrow> PyConnectionError msg
         | BusConnect _ \<Rightarrow> PyRuntimeError msg)"

definition PyMcpNode_local ::
  "(int \<Rightarrow> string) \<Rightarrow> 's script_os \<Rightarrow> (racer list \<Rightarrow> racer) \<Rightarrow> 's \<Rightarrow> skill_files \<Rightarrow> (string \<Rightarrow> fs_path) \<Rightarrow> string \<Rightarrow> string
    \<Rightarrow> py_err + mcp_node" where
  "PyMcpNode_local show_int O_S pick s F path_of namespace base =
     map_sum (mcp_error_to_py show_int) id (McpNode_local O_S pick s F namespace (path_of base))"

definition PyMcpNode_remote ::
  "(int \<Rightarrow> string) \<Rightarrow> (json \<Rightarrow> string) \<Rightarrow> (string \<Rightarrow> json option) \<Rightarrow> http_client \<Rightarrow> string \<Rightarrow> remote_config
    \<Rightarrow> (py_err, mcp_node) outcome" where
  "PyMcpNode_remote show_int why parse http namespace config =
     (case McpNode_remote show_int why parse http namespace config of
        Ret n \<Rightarrow> Ret n
      | Fail e \<Rightarrow> Fail (mcp_error_to_py show_int e)
      | Panic \<Rightarrow> Panic
      | Hang \<Rightarrow> Hang)"

definition PyMcpNode_connect ::
  "(int \<Rightarrow> string) \<Rightarrow> (bus \<Rightarrow> bus) \<Rightarrow> uuid \<Rightarrow> millis \<Rightarrow> mcp_node \<Rightarrow> bus \<Rightarrow> ((py_err + node_handle) \<times> bus) option" where
  "PyMcpNode_connect show_int gap i now n b =
     map_option (\<lambda>(r, b'). (map_sum (mcp_error_to_py show_int) id r, b'))
       (McpNode_connect connect_error_display gap i now n b)"

end
