(* ===== verification/Py_Pool_Props.thy ===== *)
theory Py_Pool_Props
  imports Py_Pool Pool_Props
begin

text \<open>
  Properties of the pools as Python sees them: they are pools without a provisioner, which bounds what
  the overflow strategy can do, and the errors of tool nodes.
\<close>

subsection \<open>Pools from Python\<close>

lemma py_pool_start: "pool_start (PyPool_with_resources config rs)"
  unfolding PyPool_with_resources_def by (rule pool_start.resources) (simp_all add: distinct_zipI1)

lemma no_provisioner_step:
  "pool_step p q \<Longrightarrow> pl_provisioner q = pl_provisioner p \<and> pl_config q = pl_config p"
  by (induction rule: pool_move.induct)
    (auto simp: acquire_start_def count_pending_def await_notify_def uncount_def take_permit_def take_resource_def
      drop_lease_def drop_permit_def release_task_def release_def provision_def provision_one_def cancel_def notify_one_def
      give_permit_def go_def Let_def split: overflow.splits outcome.splits list.splits sum.splits prod.splits stage.splits)

lemma no_provisioner:
  "pool_step\<^sup>*\<^sup>* (PyPool_with_resources config rs) p \<Longrightarrow> \<not> pl_provisioner p \<and> pl_config p = config"
proof (induction rule: rtranclp_induct)
  case base
  show ?case by (simp add: PyPool_with_resources_def with_resources_def Pool_new_def Let_def)
next
  case (step y z)
  with no_provisioner_step [OF step(2)] show ?case by simp
qed

text \<open>
  An \<^verbatim>\<open>acquire\<close> while nobody else acts, up to its end or to the first await that does not complete.
  The resources of both kinds never refuse (\<^verbatim>\<open>try_acquire\<close> is \<^verbatim>\<open>Ok\<close>); \<open>made\<close> would be the
  provisioner's next resource.
\<close>

definition acquire_alone :: "'r \<Rightarrow> 'r pool \<Rightarrow> 'r pool" where
  "acquire_alone made p =
     (let (t, p1) = PyPool_acquire p;
          p2 = acquire_start t p1;
          p3 = (if stage_of p2 t = Queued \<and> pl_permits p2 > 0 then take_permit t p2 else p2)
      in if stage_of p3 t = Holding then take_resource (\<lambda>_. True) made t p3 else p3)"

text \<open>With a free permit every overflow strategy comes to the resources at once.\<close>

lemma acquire_alone_permit:
  assumes "pl_permits p > 0"
  shows "acquire_alone made p = take_resource (\<lambda>_. True) made (length (pl_tasks p))
    (p\<lparr>pl_tasks := pl_tasks p @ [Holding], pl_permits := pl_permits p - 1\<rparr>)"
  using assms
  by (cases p; cases "pc_overflow (pl_config p)")
    (simp_all add: acquire_alone_def PyPool_acquire_def acquire_start_def take_permit_def go_def Let_def)

lemma acquire_alone_steps:
  assumes "made \<notin># members p"
  shows "pool_step\<^sup>*\<^sup>* p (acquire_alone made p)"
proof -
  define t where "t = length (pl_tasks p)"
  define p1 where "p1 = p\<lparr>pl_tasks := pl_tasks p @ [Starting]\<rparr>"
  define p2 where "p2 = acquire_start t p1"
  define p3 where "p3 = (if stage_of p2 t = Queued \<and> pl_permits p2 > 0 then take_permit t p2 else p2)"
  have len: "t < length (pl_tasks p2)" "t < length (pl_tasks p3)"
    by (simp_all add: p3_def p2_def p1_def t_def acquire_start_def take_permit_def split: overflow.split)
  have t1: "t < length (pl_tasks p1)" "stage_of p1 t = Starting" by (simp_all add: p1_def t_def)
  have m1: "members p1 = members p" by (simp add: p1_def members_def sums)
  have "unmoved p1 p2" unfolding p2_def by (rule unmoved_steps) (use t1 in simp_all)
  moreover have "unmoved p2 p3"
    unfolding p3_def using unmoved_steps(5) [OF len(1)] by (auto simp: unmoved_def)
  ultimately have m: "made \<notin># members p3" using assms m1 by (simp add: unmoved_def)
  have "pool_step\<^sup>*\<^sup>* p p1" unfolding p1_def by (rule r_into_rtranclp) (rule pool_move.call)
  moreover have "pool_step\<^sup>*\<^sup>* p1 p2" unfolding p2_def using t1 by (blast intro: pool_move.start)
  moreover have "pool_step\<^sup>*\<^sup>* p2 p3" unfolding p3_def using len(1) by (auto intro: pool_move.permit)
  moreover have "pool_step\<^sup>*\<^sup>* p3 (take_resource (\<lambda>_. True) made t p3)" if "stage_of p3 t = Holding"
    using len(2) that m by (blast intro: pool_move.resource)
  moreover have "acquire_alone made p = (if stage_of p3 t = Holding then take_resource (\<lambda>_. True) made t p3 else p3)"
    by (simp add: acquire_alone_def PyPool_acquire_def Let_def p3_def p2_def p1_def t_def)
  ultimately show ?thesis by (auto intro: rtranclp_trans)
qed

text \<open>The pool after \<open>k\<close> callers in turn, of whom none has dropped its lease.\<close>

definition py_resources :: "'p counted_resource list \<Rightarrow> (nat \<times> 'p counted_resource) list" where
  "py_resources rs = zip [0..<length rs] (map (\<lambda>r. counted_resource_new (cr_inner r)) rs)"

abbreviation lent :: "'p counted_resource list \<Rightarrow> nat \<Rightarrow> nat \<times> 'p counted_resource" where
  "lent rs k \<equiv> py_resources rs ! (length rs - 1 - k)"

lemma reuse_first: "reuse (\<lambda>_. True) (r # rs) n = (Ret (Some r), rev rs, n)"
  by simp

lemma after_callers:
  assumes "k \<le> length rs" "length rs \<le> pc_max_size config"
  shows "(acquire_alone made ^^ k) (PyPool_with_resources config rs) =
    (PyPool_with_resources config rs)\<lparr>pl_tasks := map (\<lambda>i. Leased (lent rs i)) [0..<k],
      pl_state := \<lparr>ps_idle = take (length rs - k) (py_resources rs), ps_total = length rs, ps_pending = 0\<rparr>,
      pl_permits := pc_max_size config - k\<rparr>"
  using assms(1)
proof (induction k)
  case 0
  then show ?case by (simp add: PyPool_with_resources_def with_resources_def Pool_new_def Let_def py_resources_def)
next
  case (Suc k)
  let ?R = "py_resources rs" and ?n = "length rs"
  let ?p = "(PyPool_with_resources config rs)\<lparr>pl_tasks := map (\<lambda>i. Leased (lent rs i)) [0..<k],
      pl_state := \<lparr>ps_idle = take (?n - k) ?R, ps_total = ?n, ps_pending = 0\<rparr>, pl_permits := pc_max_size config - k\<rparr>"
  have len: "length ?R = ?n" by (simp add: py_resources_def)
  have "pl_permits ?p > 0" using Suc.prems assms(2) by simp
  note alone = acquire_alone_permit [OF this, of made]
  have idle: "take (?n - k) ?R = take (?n - Suc k) ?R @ [lent rs k]"
    using Suc.prems len take_Suc_conv_app_nth [of "?n - Suc k" ?R] by (simp add: Suc_diff_Suc)
  have "acquire_alone made ?p = (PyPool_with_resources config rs)\<lparr>pl_tasks := map (\<lambda>i. Leased (lent rs i)) [0..<Suc k],
      pl_state := \<lparr>ps_idle = take (?n - Suc k) ?R, ps_total = ?n, ps_pending = 0\<rparr>, pl_permits := pc_max_size config - Suc k\<rparr>"
    unfolding alone
    by (simp add: take_resource_def find_resource_def idle go_def Let_def list_update_append)
  with Suc show ?case by simp
qed

lemma no_idle_fails:
  assumes "pl_permits p > 0" "ps_idle (pl_state p) = []" "\<not> pl_provisioner p"
  shows "acquired show_duration kind (length (pl_tasks p)) (acquire_alone made p) =
    Some (Inl (PyException (if ps_total (pl_state p) < pc_max_size (pl_config p)
      then ''resource acquire failed: no idle resource and no provisioner registered'' else ''resource closed'')))"
  unfolding acquire_alone_permit [OF assms(1)] using assms(2,3)
  by (simp add: take_resource_def find_resource_def go_def give_permit_def acquired_def pool_error_to_py_def
      pool_error_display_def Let_def)

text \<open>
  C25: the overflow strategy of a pool from Python does not cover its resources, only its permits. A pool
  made with fewer resources than \<^verbatim>\<open>max_size\<close> lends them out in turn, the last one first, to as many callers
  as it has resources; the next caller fails at once with an error, under \<^verbatim>\<open>Queue\<close>, \<^verbatim>\<open>Reject\<close> and \<^verbatim>\<open>Block\<close> alike,
  instead of waiting for a lease to be dropped. The same holds after any run of the pool: a caller that
  finds a free permit and no idle resource fails at once. All of this are runs of the pool's steps.
\<close>

theorem short_pool_fails:
  fixes rs :: "'p counted_resource list"
  assumes "length rs < pc_max_size config" and "length rs \<le> fst made"
  defines "p0 \<equiv> PyPool_with_resources config rs"
  defines "after \<equiv> \<lambda>k. (acquire_alone made ^^ k) p0"
  shows "(\<forall>k < length rs. pool_step\<^sup>*\<^sup>* p0 (after (Suc k)) \<and> stage_of (after (Suc k)) k = Leased (lent rs k) \<and>
      acquired show_duration kind k (after (Suc k)) = Some (Inr \<lparr>le_kind = kind, le_task = Some k\<rparr>)) \<and>
    pool_step\<^sup>*\<^sup>* p0 (after (Suc (length rs))) \<and>
    acquired show_duration kind (length rs) (after (Suc (length rs))) =
      Some (Inl (PyException ''resource acquire failed: no idle resource and no provisioner registered'')) \<and>
    (\<forall>p. pool_step\<^sup>*\<^sup>* p0 p \<and> pl_permits p > 0 \<and> ps_idle (pl_state p) = [] \<longrightarrow>
       acquired show_duration kind (length (pl_tasks p)) (acquire_alone made p) =
         Some (Inl (PyException (if ps_total (pl_state p) < pc_max_size config
           then ''resource acquire failed: no idle resource and no provisioner registered'' else ''resource closed''))))"
proof -
  note after = after_callers [of _ rs config made, folded p0_def]
  have lent: "lent rs i \<in> set (py_resources rs)" if "i < length rs" for i
    using that by (intro nth_mem) (simp add: py_resources_def)
  have fresh: "made \<notin> set (py_resources rs)" using assms(2) by (auto simp: py_resources_def in_set_zip)
  have made: "made \<notin># members (after k)" if "k \<le> length rs" for k
  proof -
    have "set_mset (leased (after k)) \<subseteq> set (py_resources rs)"
      using that lent unfolding after_def after [OF that less_imp_le [OF assms(1)]]
      by (induction k) (auto simp: leased_def)
    moreover have "pl_returning (after k) = []" "pl_outside (after k) = []"
      "set (ps_idle (pl_state (after k))) \<subseteq> set (py_resources rs)"
      unfolding after_def after [OF that less_imp_le [OF assms(1)]]
      by (simp_all add: p0_def PyPool_with_resources_def with_resources_def Pool_new_def Let_def set_take_subset)
    ultimately show ?thesis using fresh by (auto simp: members_def)
  qed
  have run: "pool_step\<^sup>*\<^sup>* p0 (after k)" if "k \<le> Suc (length rs)" for k
    using that
  proof (induction k)
    case (Suc k)
    then show ?case
      using acquire_alone_steps [OF made [of k]] by (auto simp: after_def intro: rtranclp_trans)
  qed (simp add: after_def)
  have stage: "stage_of (after (Suc k)) k = Leased (lent rs k)" if "k < length rs" for k
    using that assms(1) unfolding after_def by (subst after) (simp_all add: nth_append del: upt_Suc funpow.simps)
  have "after (length rs) = p0\<lparr>pl_tasks := map (\<lambda>i. Leased (lent rs i)) [0..<length rs],
      pl_state := \<lparr>ps_idle = [], ps_total = length rs, ps_pending = 0\<rparr>, pl_permits := pc_max_size config - length rs\<rparr>"
    unfolding after_def using assms(1) by (subst after) simp_all
  moreover have "\<not> pl_provisioner p0" "pl_config p0 = config" using no_provisioner [of config rs p0] by (simp_all add: p0_def)
  ultimately have "pl_permits (after (length rs)) > 0" "ps_idle (pl_state (after (length rs))) = []"
    "\<not> pl_provisioner (after (length rs))" "length (pl_tasks (after (length rs))) = length rs"
    "ps_total (pl_state (after (length rs))) < pc_max_size (pl_config (after (length rs)))"
    using assms(1) by simp_all
  with no_idle_fails [OF this(1-3), of show_duration kind made]
  have full: "acquired show_duration kind (length rs) (after (Suc (length rs))) =
      Some (Inl (PyException ''resource acquire failed: no idle resource and no provisioner registered''))"
    by (simp add: after_def)
  have later: "acquired show_duration kind (length (pl_tasks p)) (acquire_alone made p) =
         Some (Inl (PyException (if ps_total (pl_state p) < pc_max_size config
           then ''resource acquire failed: no idle resource and no provisioner registered'' else ''resource closed'')))"
    if p: "pool_step\<^sup>*\<^sup>* p0 p \<and> pl_permits p > 0 \<and> ps_idle (pl_state p) = []" for p
  proof -
    from p have "\<not> pl_provisioner p" "pl_config p = config" using no_provisioner [of config rs p] by (simp_all add: p0_def)
    with no_idle_fails [of p show_duration kind made] p show ?thesis by simp
  qed
  show ?thesis using run stage full later by (simp add: acquired_def)
qed

text \<open>A pool of one resource with room for four, and a strategy that would wait for a minute.\<close>

definition waiting_config :: pool_config where
  "waiting_config = \<lparr>pc_max_size = 4, pc_overflow = Block 60000, pc_idle_timeout = None, pc_min_size = 0\<rparr>"

definition one_resource :: "nat counted_resource list" where
  "one_resource = [counted_resource_new 5]"

theorem short_pool_fails_witness:
  "acquired (\<lambda>_. []) McpKind 0 (acquire_alone (1, counted_resource_new 5) (PyPool_with_resources waiting_config one_resource)) =
     Some (Inr \<lparr>le_kind = McpKind, le_task = Some 0\<rparr>) \<and>
   acquired (\<lambda>_. []) McpKind 1
     (acquire_alone (1, counted_resource_new 5) (acquire_alone (1, counted_resource_new 5)
       (PyPool_with_resources waiting_config one_resource))) =
     Some (Inl (PyException ''resource acquire failed: no idle resource and no provisioner registered''))"
proof -
  have "length one_resource < pc_max_size waiting_config" "length one_resource \<le> fst (1 :: nat, counted_resource_new (5 :: nat))"
    by (simp_all add: one_resource_def waiting_config_def)
  note all = short_pool_fails [OF this, of "\<lambda>_. []" McpKind]
  from all [THEN conjunct1] all [THEN conjunct2, THEN conjunct2, THEN conjunct1] show ?thesis
    by (simp add: one_resource_def)
qed

text \<open>The text of an error made in Python is not its \<^verbatim>\<open>str\<close>.\<close>

lemma pool_error_text: "PyPoolError_str show_duration (PyPoolError_new msg) = ''resource acquire failed: '' @ msg"
  by (simp add: PyPoolError_str_def PyPoolError_new_def pool_error_display_def)

text \<open>A negative timeout panics, in both places where one can be given.\<close>

lemma negative_timeout_panics:
  "t < 0 \<Longrightarrow> PyOverflow_Block t = Panic \<and> PyPoolConfig_new n ov (Some t) m = Panic"
  by (simp add: PyOverflow_Block_def PyPoolConfig_new_def opt_secs_def from_secs_f64_def bind_result_def)

subsection \<open>Tool nodes\<close>

text \<open>A server that refuses the handshake is a connection error, a missing directory is not.\<close>

lemma missing_root_error:
  "\<not> sf_is_dir F (path_of base) \<Longrightarrow>
     \<exists>msg. PyMcpNode_local show_int O_S pick s F path_of ns base = Inl (PyRuntimeError msg)"
  by (simp add: PyMcpNode_local_def McpNode_local_def fs_scan_def mcp_error_to_py_def)

end
