(* ===== verification/Py_Build.thy ===== *)
theory Py_Build
  imports Py_Bus
begin

text \<open>
  Building an engine from Python (\<^verbatim>\<open>py-arf/src/engine.rs\<close>): the constructors of declarations, the cells that a
  build empties, and what can be read of an engine, a state or a configuration that has been taken.
\<close>

subsection \<open>Declarations\<close>

definition PyResourceSpec_new :: "'o py_json \<Rightarrow> string \<Rightarrow> string \<Rightarrow> 'o option \<Rightarrow> py_err + resource_spec" where
  "PyResourceSpec_new J resource_name node_type capabilities =
     map_sum id (\<lambda>caps. \<lparr>rs_resource_name = resource_name, rs_node_type = node_type, rs_capabilities = caps\<rparr>)
       (case capabilities of None \<Rightarrow> Inr None | Some x \<Rightarrow> map_sum id Some (py_object_to_json J x))"

definition PyModelDecl_new ::
  "'o py_json \<Rightarrow> string \<Rightarrow> string \<Rightarrow> string option \<Rightarrow> string option \<Rightarrow> bool option \<Rightarrow> rat option \<Rightarrow> nat option
    \<Rightarrow> 'o option \<Rightarrow> py_err + model_decl" where
  "PyModelDecl_new J provider model_name endpoint api_key_env thinking_enabled temperature max_output_tokens extra =
     map_sum id (\<lambda>x. \<lparr>md_provider = provider, md_model_name = model_name, md_endpoint = endpoint,
                      md_api_key_env = api_key_env, md_thinking_enabled = or_else False thinking_enabled,
                      md_temperature = temperature, md_max_output_tokens = max_output_tokens, md_extra = x\<rparr>)
       (extra_to_json J extra)"

definition PyModelCall_new :: "uuid \<Rightarrow> model_call" where
  "PyModelCall_new i = ModelCall_new i []"

definition PyRoute_strict :: "node_id list \<Rightarrow> route" where
  "PyRoute_strict ids = Strict ids"

definition PyRoute_discovery :: "(string \<times> string) list \<Rightarrow> route" where
  "PyRoute_discovery reqs = Route_discovery reqs"

definition PyRoute_repr :: "(nat \<Rightarrow> string) \<Rightarrow> route \<Rightarrow> string" where
  "PyRoute_repr show_nat r =
     (case r of
        Strict ids \<Rightarrow> ''Route.Strict('' @ show_nat (length ids) @ '' ids)''
      | Discovery c \<Rightarrow> ''Route.Discovery('' @ show_nat (length (requirements c)) @ '' reqs)'')"

subsection \<open>What a taken object shows\<close>

text \<open>
  \<open>None\<close> is a configuration, an engine or a state that a build or a round has taken. The getters of
  \<^verbatim>\<open>AgentConfig\<close> unwrap it, those of \<^verbatim>\<open>Engine\<close> raise, those of \<^verbatim>\<open>EngineState\<close> show zero.
\<close>

definition PyAgentConfig_provider :: "agent_config option \<Rightarrow> (py_err, string) outcome" where
  "PyAgentConfig_provider c = (case c of None \<Rightarrow> Panic | Some x \<Rightarrow> Ret (md_provider (ac_model x)))"

definition PyAgentConfig_max_turns :: "agent_config option \<Rightarrow> (py_err, nat) outcome" where
  "PyAgentConfig_max_turns c = (case c of None \<Rightarrow> Panic | Some x \<Rightarrow> Ret (ec_max_turns (ac_engine x)))"

definition PyAgentConfig_repr :: "(nat \<Rightarrow> string) \<Rightarrow> agent_config option \<Rightarrow> string" where
  "PyAgentConfig_repr show_nat c =
     (case c of
        None \<Rightarrow> ''AgentConfig(consumed)''
      | Some x \<Rightarrow> ''AgentConfig(provider='' @ quoted (md_provider (ac_model x)) @ '', model='' @ quoted (md_model_name (ac_model x))
                  @ '', max_turns='' @ show_nat (ec_max_turns (ac_engine x)) @ '')'')"

definition PyEngine_agent_id :: "('s, 'c) py_cells \<Rightarrow> py_err + node_id" where
  "PyEngine_agent_id c =
     (case pc_engine c of None \<Rightarrow> Inl (PyRuntimeError ''engine already consumed'') | Some w \<Rightarrow> Inr (eng_agent_id w))"

definition PyState_round_count :: "state option \<Rightarrow> nat" where
  "PyState_round_count s = (case s of None \<Rightarrow> 0 | Some x \<Rightarrow> ov_round_count (st_over_view x))"

definition PyState_turn_count :: "state option \<Rightarrow> nat" where
  "PyState_turn_count s = (case s of None \<Rightarrow> 0 | Some x \<Rightarrow> ov_turn_count (st_over_view x))"

definition PyState_context_tokens :: "state option \<Rightarrow> nat" where
  "PyState_context_tokens s = (case s of None \<Rightarrow> 0 | Some x \<Rightarrow> ov_context_tokens (st_over_view x))"

definition PyState_repr :: "(nat \<Rightarrow> string) \<Rightarrow> state option \<Rightarrow> string" where
  "PyState_repr show_nat s =
     (case s of
        None \<Rightarrow> ''EngineState(consumed)''
      | Some x \<Rightarrow> ''EngineState(round='' @ show_nat (ov_round_count (st_over_view x)) @ '', turn=''
                  @ show_nat (ov_turn_count (st_over_view x)) @ '', tokens='' @ show_nat (ov_context_tokens (st_over_view x)) @ '')'')"

subsection \<open>Building\<close>

text \<open>The cells of the builders and of the configurations, by their numbers.\<close>

record build_cells =
  bc_builders :: "nat \<Rightarrow> engine_builder option"
  bc_configs :: "nat \<Rightarrow> agent_config option"

definition PyEngineBuilder_new :: "'b list \<Rightarrow> py_err + engine_builder" where
  "PyEngineBuilder_new buses =
     (if buses = [] then Inl (PyValueError ''EngineBuilder requires at least one bus'') else Inr EngineBuilder_new)"

text \<open>The builder is taken first, then the configuration.\<close>

definition PyEngineBuilder_take :: "nat \<Rightarrow> nat \<Rightarrow> build_cells \<Rightarrow> (py_err + engine_builder \<times> agent_config) \<times> build_cells" where
  "PyEngineBuilder_take b k cells =
     (case bc_builders cells b of
        None \<Rightarrow> (Inl (PyRuntimeError ''builder already consumed''), cells)
      | Some eb \<Rightarrow>
          (let cells = cells\<lparr>bc_builders := (bc_builders cells)(b := None)\<rparr>
           in case bc_configs cells k of
                None \<Rightarrow> (Inl (PyRuntimeError ''AgentConfig already used by another build()''), cells)
              | Some cfg \<Rightarrow> (Inr (eb, cfg), cells\<lparr>bc_configs := (bc_configs cells)(k := None)\<rparr>)))"

text \<open>\<^verbatim>\<open>build\<close>: the new engine is in the world that is returned.\<close>

definition PyEngineBuilder_build ::
  "('s, 'c) deps \<Rightarrow> (node_info list \<Rightarrow> node_info list) \<Rightarrow> (build_error \<Rightarrow> string) \<Rightarrow> bus_graph list \<Rightarrow> nat \<Rightarrow> nat
    \<Rightarrow> build_cells \<Rightarrow> ('s, 'c) world \<Rightarrow> (py_err, unit) outcome \<times> build_cells \<times> ('s, 'c) world" where
  "PyEngineBuilder_build D order show_err graphs b k cells w =
     (case PyEngineBuilder_take b k cells of
        (Inl e, cells') \<Rightarrow> (Fail e, cells', w)
      | (Inr (eb, cfg), cells') \<Rightarrow>
          (case build D order eb None graphs cfg w of
             (None, w') \<Rightarrow> (Panic, cells', w')
           | (Some (Inl e), w') \<Rightarrow> (Fail (PyException (show_err e)), cells', w')
           | (Some (Inr _), w') \<Rightarrow> (Ret (), cells', w')))"

end
