(* ===== verification/Py_Build_Props.thy ===== *)
theory Py_Build_Props
  imports Py_Build Builder_Props
begin

text \<open>
  Properties of building from Python: what a failed build leaves behind, and which engines cannot share a
  bus.
\<close>

lemma build_takes:
  assumes "PyEngineBuilder_build D order show_err graphs b k cells w = (r, cells', w')"
  shows "bc_builders cells' b = None \<and> (bc_builders cells b \<noteq> None \<longrightarrow> bc_configs cells' k = None)"
  using assms
  by (auto simp: PyEngineBuilder_build_def PyEngineBuilder_take_def Let_def split: option.splits sum.splits prod.splits)

text \<open>
  A build uses up its builder and its configuration, whether it succeeds or not. After it every
  further build with the builder is refused; and a build of another builder with the same configuration
  is refused and loses that builder too.
\<close>

theorem failed_build_consumes:
  assumes "PyEngineBuilder_build D order show_err graphs b k cells w = (r, cells', w')"
    and "bc_builders cells b = Some eb" and "bc_builders cells' b2 = Some eb2"
  shows "(\<forall>k2. PyEngineBuilder_build D order show_err graphs b k2 cells' w' =
            (Fail (PyRuntimeError ''builder already consumed''), cells', w')) \<and>
    PyEngineBuilder_build D order show_err graphs b2 k cells' w' =
      (Fail (PyRuntimeError ''AgentConfig already used by another build()''),
       cells'\<lparr>bc_builders := (bc_builders cells')(b2 := None)\<rparr>, w') \<and>
    PyAgentConfig_provider (bc_configs cells' k) = Panic"
  using build_takes [OF assms(1)] assms(2,3)
  by (simp add: PyEngineBuilder_build_def PyEngineBuilder_take_def PyAgentConfig_provider_def Let_def)

definition two_builders :: build_cells where
  "two_builders = \<lparr>bc_builders = (\<lambda>_. Some EngineBuilder_new), bc_configs = (\<lambda>k. if k = 0 then Some AgentConfig_default else None)\<rparr>"

text \<open>The build fails because no bus shows a model; builder and configuration are gone.\<close>

theorem failed_build_consumes_witness:
  "\<exists>e cells'. PyEngineBuilder_build demo_deps id (\<lambda>_. []) [] 0 0 two_builders demo_start = (Fail e, cells', demo_start) \<and>
     bc_builders cells' 1 = Some EngineBuilder_new \<and>
     fst (PyEngineBuilder_build demo_deps id (\<lambda>_. []) [] 1 0 cells' demo_start) =
       Fail (PyRuntimeError ''AgentConfig already used by another build()'')"
proof -
  let ?c = "two_builders\<lparr>bc_builders := (bc_builders two_builders)(0 := None), bc_configs := (bc_configs two_builders)(0 := None)\<rparr>"
  have b: "PyEngineBuilder_build demo_deps id (\<lambda>_. []) [] 0 0 two_builders demo_start = (Fail (PyException []), ?c, demo_start)"
    by (simp add: PyEngineBuilder_build_def PyEngineBuilder_take_def two_builders_def build_def validate_def Let_def)
  have "bc_builders two_builders 0 = Some EngineBuilder_new" "bc_builders ?c 1 = Some EngineBuilder_new"
    by (simp_all add: two_builders_def)
  from failed_build_consumes [OF b this] b this show ?thesis
    by (intro exI [of _ "PyException []"] exI [of _ ?c]) simp
qed

text \<open>
  The builder has no way to name an engine in Python, so all engines of one provider have the same
  name: the second one on a bus is refused.
\<close>

lemma python_engines_collide:
  assumes "bus_running (w_bus w)" and "contains_key (bus_nodes (w_bus w)) (NodeId (''engine/'' @ md_provider (ac_model cfg)))"
    and "build D order EngineBuilder_new None graphs cfg w = (r, w')"
  shows "\<exists>e. r = Some (Inl e)"
proof -
  obtain i w1 where f: "fresh w = (i, w1)" by force
  then have "w_bus w1 = w_bus w" by (auto simp: fresh_def Let_def)
  with assms f show ?thesis
    by (auto simp: build_def Engine_new_def EngineBuilder_new_def engine_info_def connect_def register_def handle_connect_def
        Let_def split: sum.splits)
qed

end
