(* ===== verification/Agent_Decl.thy ===== *)
theory Agent_Decl
  imports Engine_Config Model_Adapter Mcp_Node
begin

text \<open>
  The declaration of an agent in \<^verbatim>\<open>crates/arf-agent\<close>: its records, their JSON forms in both directions, and
  the check of a declaration. \<open>f64\<close> rounds a number of the JSON text to a double.
\<close>

subsection \<open>Declarations\<close>

record agent_tool =
  at_name :: string
  at_permission :: tool_permission
  at_parameter_filter :: "json option"
  at_description :: "string option"
  at_parameters :: "json option"

record agent_decl =
  ad_system_prompt :: string
  ad_models :: "model_decl list"
  ad_tools :: "agent_tool list"
  ad_allowed_paths :: "string list"
  ad_subagents :: "resource_spec list"
  ad_teammates :: "resource_spec list"

definition agent_decl_new :: agent_decl where
  "agent_decl_new =
     \<lparr>ad_system_prompt = [], ad_models = [], ad_tools = [], ad_allowed_paths = [], ad_subagents = [], ad_teammates = []\<rparr>"

datatype config_error = SystemPromptEmpty | ModelsEmpty | AllowedPathsEmpty

fun config_error_display :: "config_error \<Rightarrow> string" where
  "config_error_display SystemPromptEmpty = ''system_prompt must not be empty''"
| "config_error_display ModelsEmpty = ''models must contain at least one ModelDecl''"
| "config_error_display AllowedPathsEmpty = ''allowed_paths must not be empty when tools are configured''"

definition agent_decl_validate :: "agent_decl \<Rightarrow> config_error list + unit" where
  "agent_decl_validate c =
     (let errors = (if ad_system_prompt c = [] then [SystemPromptEmpty] else [])
                   @ (if ad_models c = [] then [ModelsEmpty] else [])
                   @ (if ad_tools c \<noteq> [] \<and> ad_allowed_paths c = [] then [AllowedPathsEmpty] else [])
      in if errors = [] then Inr () else Inl errors)"

subsection \<open>Writing\<close>

fun permission_name :: "tool_permission \<Rightarrow> string" where
  "permission_name Allow = ''Allow''"
| "permission_name Ask = ''Ask''"
| "permission_name Deny = ''Deny''"

definition opt_value_field :: "string \<Rightarrow> json option \<Rightarrow> (string \<times> json) list" where
  "opt_value_field k v = (case v of None \<Rightarrow> [] | Some x \<Rightarrow> [(k, x)])"

definition agent_tool_to_value :: "agent_tool \<Rightarrow> json" where
  "agent_tool_to_value t =
     JObj ([(''name'', JStr (at_name t)), (''permission'', JStr (permission_name (at_permission t)))]
           @ opt_value_field ''parameter_filter'' (at_parameter_filter t)
           @ opt_field ''description'' (at_description t)
           @ opt_value_field ''parameters'' (at_parameters t))"

definition model_decl_to_value :: "model_decl \<Rightarrow> json" where
  "model_decl_to_value m =
     JObj ([(''provider'', JStr (md_provider m)), (''model_name'', JStr (md_model_name m))]
           @ opt_field ''endpoint'' (md_endpoint m) @ opt_field ''api_key_env'' (md_api_key_env m)
           @ [(''thinking_enabled'', JBool (md_thinking_enabled m))]
           @ opt_value_field ''temperature'' (map_option JFloat (md_temperature m))
           @ opt_value_field ''max_output_tokens'' (map_option (\<lambda>n. JInt (int n)) (md_max_output_tokens m))
           @ nonnull_field ''extra'' (md_extra m))"

definition resource_spec_to_value :: "resource_spec \<Rightarrow> json" where
  "resource_spec_to_value r =
     JObj ([(''resource_name'', JStr (rs_resource_name r)), (''node_type'', JStr (rs_node_type r))]
           @ opt_value_field ''capabilities'' (rs_capabilities r))"

definition list_field :: "string \<Rightarrow> ('a \<Rightarrow> json) \<Rightarrow> 'a list \<Rightarrow> (string \<times> json) list" where
  "list_field k f xs = (if xs = [] then [] else [(k, JArr (map f xs))])"

definition agent_decl_to_value :: "agent_decl \<Rightarrow> json" where
  "agent_decl_to_value c =
     JObj ([(''system_prompt'', JStr (ad_system_prompt c)), (''models'', JArr (map model_decl_to_value (ad_models c)))]
           @ list_field ''tools'' agent_tool_to_value (ad_tools c)
           @ [(''allowed_paths'', strs_to_value (ad_allowed_paths c))]
           @ list_field ''subagents'' resource_spec_to_value (ad_subagents c)
           @ list_field ''teammates'' resource_spec_to_value (ad_teammates c))"

subsection \<open>Reading\<close>

text \<open>The object forms of the derived \<^verbatim>\<open>Deserialize\<close>; a variant may also be an object with one null entry.\<close>

definition permission_of_name :: "string \<Rightarrow> tool_permission option" where
  "permission_of_name s =
     (if s = ''Allow'' then Some Allow else if s = ''Ask'' then Some Ask else if s = ''Deny'' then Some Deny else None)"

fun permission_of_value :: "json \<Rightarrow> tool_permission option" where
  "permission_of_value (JStr s) = permission_of_name s"
| "permission_of_value (JObj [(s, JNull)]) = permission_of_name s"
| "permission_of_value _ = None"

definition opt_value_of :: "json option \<Rightarrow> json option" where
  "opt_value_of v = (case v of Some JNull \<Rightarrow> None | x \<Rightarrow> x)"

definition agent_tool_of_value :: "json \<Rightarrow> agent_tool option" where
  "agent_tool_of_value j =
     (case (get_str j ''name'', Option.bind (json_get j ''permission'') permission_of_value,
            opt_str_of_value (json_get j ''description'')) of
        (Some n, Some p, Some d) \<Rightarrow>
          Some \<lparr>at_name = n, at_permission = p, at_parameter_filter = opt_value_of (json_get j ''parameter_filter''),
                at_description = d, at_parameters = opt_value_of (json_get j ''parameters'')\<rparr>
      | _ \<Rightarrow> None)"

fun opt_f64_of_value :: "(rat \<Rightarrow> rat) \<Rightarrow> json option \<Rightarrow> rat option option" where
  "opt_f64_of_value f64 None = Some None"
| "opt_f64_of_value f64 (Some JNull) = Some None"
| "opt_f64_of_value f64 (Some (JInt i)) = Some (Some (f64 (of_int i)))"
| "opt_f64_of_value f64 (Some (JFloat q)) = Some (Some q)"
| "opt_f64_of_value f64 (Some _) = None"

fun bool_or_false :: "json option \<Rightarrow> bool option" where
  "bool_or_false None = Some False"
| "bool_or_false (Some (JBool b)) = Some b"
| "bool_or_false (Some _) = None"

definition model_decl_of_value :: "(rat \<Rightarrow> rat) \<Rightarrow> json \<Rightarrow> model_decl option" where
  "model_decl_of_value f64 j =
     (case (get_str j ''provider'', get_str j ''model_name'', opt_str_of_value (json_get j ''endpoint''),
            opt_str_of_value (json_get j ''api_key_env''), bool_or_false (json_get j ''thinking_enabled''),
            opt_f64_of_value f64 (json_get j ''temperature''), opt_u32_of_value (json_get j ''max_output_tokens'')) of
        (Some p, Some m, Some e, Some k, Some th, Some t, Some x) \<Rightarrow>
          Some \<lparr>md_provider = p, md_model_name = m, md_endpoint = e, md_api_key_env = k, md_thinking_enabled = th,
                md_temperature = t, md_max_output_tokens = x, md_extra = value_or_null j ''extra''\<rparr>
      | _ \<Rightarrow> None)"

text \<open>The name may stand under \<^verbatim>\<open>resource_name\<close> or under \<^verbatim>\<open>name\<close>, not under both.\<close>

definition resource_spec_of_value :: "json \<Rightarrow> resource_spec option" where
  "resource_spec_of_value j =
     (case ((case (json_get j ''resource_name'', json_get j ''name'') of
               (Some v, None) \<Rightarrow> as_str v | (None, Some v) \<Rightarrow> as_str v | _ \<Rightarrow> None), get_str j ''node_type'') of
        (Some n, Some t) \<Rightarrow>
          Some \<lparr>rs_resource_name = n, rs_node_type = t, rs_capabilities = opt_value_of (json_get j ''capabilities'')\<rparr>
      | _ \<Rightarrow> None)"

definition list_of_value :: "(json \<Rightarrow> 'a option) \<Rightarrow> json \<Rightarrow> 'a list option" where
  "list_of_value f j = Option.bind (as_array j) (\<lambda>xs. those (map f xs))"

definition list_or_empty :: "(json \<Rightarrow> 'a option) \<Rightarrow> json \<Rightarrow> string \<Rightarrow> 'a list option" where
  "list_or_empty f j k = (case json_get j k of None \<Rightarrow> Some [] | Some v \<Rightarrow> list_of_value f v)"

definition agent_decl_of_value :: "(rat \<Rightarrow> rat) \<Rightarrow> json \<Rightarrow> agent_decl option" where
  "agent_decl_of_value f64 j =
     (case (get_str j ''system_prompt'', Option.bind (json_get j ''models'') (list_of_value (model_decl_of_value f64)),
            list_or_empty agent_tool_of_value j ''tools'', Option.bind (json_get j ''allowed_paths'') strs_of_value,
            list_or_empty resource_spec_of_value j ''subagents'', list_or_empty resource_spec_of_value j ''teammates'') of
        (Some p, Some ms, Some ts, Some ps, Some sa, Some tm) \<Rightarrow>
          Some \<lparr>ad_system_prompt = p, ad_models = ms, ad_tools = ts, ad_allowed_paths = ps, ad_subagents = sa,
                ad_teammates = tm\<rparr>
      | _ \<Rightarrow> None)"

subsection \<open>Properties\<close>

lemma permission_roundtrip [simp]: "permission_of_name (permission_name p) = Some p"
  by (cases p) (simp_all add: permission_of_name_def)

lemma opt_value_of_simps [simp]:
  "opt_value_of None = None" "v \<noteq> JNull \<Longrightarrow> opt_value_of (Some v) = Some v"
  by (simp_all add: opt_value_of_def split: json.split)

lemma field_lookup:
  "map_of (opt_field k v) k' = (if k' = k then map_option JStr v else None)"
  "map_of (opt_value_field k x) k' = (if k' = k then x else None)"
  "map_of (list_field k f vs) k' = (if k' = k \<and> vs \<noteq> [] then Some (JArr (map f vs)) else None)"
  "map_of (nonnull_field k y) k' = (if k' = k \<and> y \<noteq> JNull then Some y else None)"
  by (simp_all add: opt_field_def opt_value_field_def list_field_def nonnull_field_def split: option.split)

lemma case_opt_id: "(case v of None \<Rightarrow> None | Some x \<Rightarrow> Some x) = v"
  by (cases v) simp_all

lemmas field_lookups = field_lookup map_add_def case_opt_id

lemma as_str_opt [simp]: "opt_str_of_value (map_option JStr v) = Some v"
  by (cases v) simp_all

definition tool_nulls_dropped :: "agent_tool \<Rightarrow> agent_tool" where
  "tool_nulls_dropped t =
     t\<lparr>at_parameter_filter := opt_value_of (at_parameter_filter t), at_parameters := opt_value_of (at_parameters t)\<rparr>"

definition spec_nulls_dropped :: "resource_spec \<Rightarrow> resource_spec" where
  "spec_nulls_dropped r = r\<lparr>rs_capabilities := opt_value_of (rs_capabilities r)\<rparr>"

lemma agent_tool_roundtrip: "agent_tool_of_value (agent_tool_to_value t) = Some (tool_nulls_dropped t)"
  by (cases t; cases "at_parameter_filter t"; cases "at_description t"; cases "at_parameters t")
    (simp_all add: agent_tool_of_value_def agent_tool_to_value_def tool_nulls_dropped_def get_str_def opt_field_def
      opt_value_field_def)

lemma resource_spec_roundtrip: "resource_spec_of_value (resource_spec_to_value r) = Some (spec_nulls_dropped r)"
  by (cases r) (simp add: resource_spec_of_value_def resource_spec_to_value_def spec_nulls_dropped_def get_str_def
      field_lookups)

lemma opt_f64_opt [simp]: "opt_f64_of_value f64 (map_option JFloat t) = Some t"
  by (cases t) simp_all

lemma opt_u32_opt: "(\<And>n. t = Some n \<Longrightarrow> n < 2 ^ 32) \<Longrightarrow> opt_u32_of_value (map_option (\<lambda>n. JInt (int n)) t) = Some t"
  by (cases t) simp_all

definition tokens_fit :: "model_decl \<Rightarrow> bool" where
  "tokens_fit m \<longleftrightarrow> (case md_max_output_tokens m of None \<Rightarrow> True | Some n \<Rightarrow> n < 2 ^ 32)"

lemma model_decl_roundtrip:
  assumes "tokens_fit m"
  shows "model_decl_of_value f64 (model_decl_to_value m) = Some m"
proof -
  have "opt_u32_of_value (map_option (\<lambda>n. JInt (int n)) (md_max_output_tokens m)) = Some (md_max_output_tokens m)"
    using assms by (intro opt_u32_opt) (simp add: tokens_fit_def)
  then show ?thesis
    by (cases m; cases "md_endpoint m"; cases "md_api_key_env m"; cases "md_temperature m"; cases "md_max_output_tokens m";
        cases "md_extra m = JNull")
      (simp_all add: model_decl_of_value_def model_decl_to_value_def get_str_def value_or_null_def opt_field_def
        opt_value_field_def nonnull_field_def)
qed

lemma those_map_g: "(\<And>x. x \<in> set xs \<Longrightarrow> f (g x) = Some (h x)) \<Longrightarrow> those (map (f \<circ> g) xs) = Some (map h xs)"
  by (induction xs) simp_all

text \<open>
  C27: a declaration survives JSON. What is read back from the JSON form of a declaration is the
  declaration itself, except that a filter, a schema or a matcher that is the null value is gone.
\<close>

theorem declaration_roundtrip:
  assumes "list_all tokens_fit (ad_models c)"
  shows "agent_decl_of_value f64 (agent_decl_to_value c) =
    Some (c\<lparr>ad_tools := map tool_nulls_dropped (ad_tools c), ad_subagents := map spec_nulls_dropped (ad_subagents c),
            ad_teammates := map spec_nulls_dropped (ad_teammates c)\<rparr>)"
proof -
  have m: "those (map (model_decl_of_value f64 \<circ> model_decl_to_value) (ad_models c)) = Some (map id (ad_models c))"
    using assms by (intro those_map_g) (simp add: model_decl_roundtrip list_all_iff)
  have l: "those (map (agent_tool_of_value \<circ> agent_tool_to_value) ts) = Some (map tool_nulls_dropped ts)" for ts
    by (intro those_map_g) (rule agent_tool_roundtrip)
  have r: "those (map (resource_spec_of_value \<circ> resource_spec_to_value) rs) = Some (map spec_nulls_dropped rs)" for rs
    by (intro those_map_g) (rule resource_spec_roundtrip)
  have "list_or_empty agent_tool_of_value (agent_decl_to_value c) ''tools'' = Some (map tool_nulls_dropped (ad_tools c))"
    by (simp add: list_or_empty_def list_of_value_def agent_decl_to_value_def field_lookups l)
  moreover have "list_or_empty resource_spec_of_value (agent_decl_to_value c) ''subagents'' = Some (map spec_nulls_dropped (ad_subagents c))"
    by (simp add: list_or_empty_def list_of_value_def agent_decl_to_value_def field_lookups r)
  moreover have "list_or_empty resource_spec_of_value (agent_decl_to_value c) ''teammates'' = Some (map spec_nulls_dropped (ad_teammates c))"
    by (simp add: list_or_empty_def list_of_value_def agent_decl_to_value_def field_lookups r)
  moreover have "Option.bind (json_get (agent_decl_to_value c) ''models'') (list_of_value (model_decl_of_value f64)) = Some (ad_models c)"
    using m by (simp add: list_of_value_def agent_decl_to_value_def)
  moreover have "Option.bind (json_get (agent_decl_to_value c) ''allowed_paths'') strs_of_value = Some (ad_allowed_paths c)"
    by (simp add: agent_decl_to_value_def field_lookups)
  moreover have "get_str (agent_decl_to_value c) ''system_prompt'' = Some (ad_system_prompt c)"
    by (simp add: get_str_def agent_decl_to_value_def)
  ultimately show ?thesis by (cases c) (simp add: agent_decl_of_value_def)
qed

definition demo_decl :: agent_decl where
  "demo_decl = agent_decl_new\<lparr>ad_system_prompt := ''p'',
     ad_models := [\<lparr>md_provider = ''deepseek'', md_model_name = ''m'', md_endpoint = None, md_api_key_env = None,
       md_thinking_enabled = True, md_temperature = Some (1 / 2), md_max_output_tokens = Some 100, md_extra = JNull\<rparr>],
     ad_tools := [\<lparr>at_name = ''t'', at_permission = Ask, at_parameter_filter = Some JNull, at_description = None,
       at_parameters = None\<rparr>], ad_allowed_paths := [''/w'']\<rparr>"

theorem declaration_roundtrip_witness:
  "\<exists>c. agent_decl_of_value id (agent_decl_to_value demo_decl) = Some c \<and> ad_models c = ad_models demo_decl \<and>
     map at_parameter_filter (ad_tools c) = [None]"
  using declaration_roundtrip [of demo_decl id]
  by (simp add: demo_decl_def agent_decl_new_def tokens_fit_def tool_nulls_dropped_def opt_value_of_def)

text \<open>What the check of a declaration finds, each fault once and in this order.\<close>

lemma validate_exact:
  "agent_decl_validate c = Inr () \<longleftrightarrow>
     ad_system_prompt c \<noteq> [] \<and> ad_models c \<noteq> [] \<and> (ad_tools c = [] \<or> ad_allowed_paths c \<noteq> [])"
  "agent_decl_validate c = Inl es \<Longrightarrow>
     distinct es \<and> (SystemPromptEmpty \<in> set es \<longleftrightarrow> ad_system_prompt c = []) \<and> (ModelsEmpty \<in> set es \<longleftrightarrow> ad_models c = []) \<and>
     (AllowedPathsEmpty \<in> set es \<longleftrightarrow> ad_tools c \<noteq> [] \<and> ad_allowed_paths c = [])"
  by (auto simp: agent_decl_validate_def Let_def split: if_splits)

end
