(* ===== verification/Node_Trait.thy ===== *)
theory Node_Trait
  imports Node_Handle "HOL-Library.Sublist"
begin

text \<open>
  Nodes that an application writes (\<^verbatim>\<open>crates/arf-core/src/node.rs\<close>, \<^verbatim>\<open>connect_node_to_bus\<close> of
  \<^verbatim>\<open>crates/arf-bus/src/lib.rs\<close>): the operations of the \<^verbatim>\<open>Node\<close> trait, the task that hands a node what its
  handle receives, and the receiving call that waits.
\<close>

subsection \<open>The trait\<close>

datatype snapshot_error =
  SnapshotTimeout | SnapshotLock string | SnapshotSerialize string | SnapshotNodeOffline | SnapshotOther string

definition snapshot_error_display :: "snapshot_error \<Rightarrow> string" where
  "snapshot_error_display e =
     (case e of
        SnapshotTimeout \<Rightarrow> ''snapshot timed out''
      | SnapshotLock reason \<Rightarrow> ''snapshot lock failed: '' @ reason
      | SnapshotSerialize reason \<Rightarrow> ''snapshot serialize failed: '' @ reason
      | SnapshotNodeOffline \<Rightarrow> ''snapshot: node is offline''
      | SnapshotOther reason \<Rightarrow> ''snapshot error: '' @ reason)"

datatype restore_error =
  VersionMismatch nat nat | RestoreDeserialize string | InconsistentState string | RestoreOther string

definition restore_error_display :: "(nat \<Rightarrow> string) \<Rightarrow> restore_error \<Rightarrow> string" where
  "restore_error_display show_nat e =
     (case e of
        VersionMismatch expected actual \<Rightarrow>
          ''restore version mismatch: expected '' @ show_nat expected @ '', got '' @ show_nat actual
      | RestoreDeserialize reason \<Rightarrow> ''restore deserialize failed: '' @ reason
      | InconsistentState reason \<Rightarrow> ''restore inconsistent state: '' @ reason
      | RestoreOther reason \<Rightarrow> ''restore error: '' @ reason)"

record 'n node_ops =
  no_id :: "'n \<Rightarrow> node_id"
  no_snapshot :: "'n \<Rightarrow> snapshot_error + json"
  no_restore :: "json \<Rightarrow> 'n \<Rightarrow> (restore_error + unit) \<times> 'n"
  no_on_message :: "message \<Rightarrow> bus_id \<Rightarrow> 'n \<Rightarrow> 'n"

subsection \<open>Receiving\<close>

text \<open>
  \<^verbatim>\<open>NodeHandle::recv\<close> polls its subscriptions in their order and sleeps until one of them can say
  something new; \<open>wakes\<close> lists what the forwarding tasks have done to the handle by each time it wakes.
  \<open>WouldBlock\<close> is a call that still sleeps.
\<close>

fun NodeHandle_recv :: "(node_handle \<Rightarrow> node_handle) list \<Rightarrow> node_handle \<Rightarrow> recv_result \<times> node_handle" where
  "NodeHandle_recv [] h = try_recv h"
| "NodeHandle_recv (wake # wakes) h =
     (case try_recv h of
        (WouldBlock, h') \<Rightarrow> NodeHandle_recv wakes (wake h')
      | r \<Rightarrow> r)"

subsection \<open>A node on a bus\<close>

record node_ref =
  nr_info :: node_info
  nr_bus_id :: bus_id

text \<open>The task owns the handle; the node is shared with the application under a lock.\<close>

record 'n node_task =
  nt_handle :: node_handle
  nt_node :: 'n
  nt_running :: bool

definition connect_node_to_bus ::
  "(bus \<Rightarrow> bus) \<Rightarrow> uuid \<Rightarrow> millis \<Rightarrow> 'n \<Rightarrow> node_info \<Rightarrow> message_filter \<Rightarrow> bus
    \<Rightarrow> ((connect_error + node_ref \<times> 'n node_task) \<times> bus) option" where
  "connect_node_to_bus gap i now node info f b =
     map_option
       (\<lambda>(r, b'). (map_sum id (\<lambda>h. (\<lparr>nr_info = info, nr_bus_id = nh_primary_bus_id h\<rparr>,
                                    \<lparr>nt_handle = h, nt_node = node, nt_running = True\<rparr>)) r, b'))
       (connect gap i now info f b)"

definition node_turn :: "'n node_ops \<Rightarrow> 'n node_task \<Rightarrow> message list \<times> 'n node_task" where
  "node_turn N t =
     (if \<not> nt_running t then ([], t)
      else (case try_recv (nt_handle t) of
              (Received m, h) \<Rightarrow>
                ([m], t\<lparr>nt_handle := h, nt_node := no_on_message N m (nh_primary_bus_id h) (nt_node t)\<rparr>)
            | (RecvClosed, h) \<Rightarrow> ([], t\<lparr>nt_handle := h, nt_running := False\<rparr>)
            | (WouldBlock, h) \<Rightarrow> ([], t)))"

text \<open>
  A node among the others: \<open>handled\<close> is what it has been given, \<open>lagged\<close> whether the ring buffer of the
  bus has ever overtaken the forwarding task. The application may change the node at any time, and
  the bus only ever adds to its wire.
\<close>

inductive node_step ::
  "'n node_ops \<Rightarrow> 'n node_task \<times> bus \<times> message list \<times> bool \<Rightarrow> 'n node_task \<times> bus \<times> message list \<times> bool \<Rightarrow> bool"
  for N where
  turn: "node_turn N t = (ms, t') \<Longrightarrow> node_step N (t, b, handled, lagged) (t', b, handled @ ms, lagged)"
| forward: "nh_subscriptions (nt_handle t) = [s] \<Longrightarrow> forward_step b (nh_node_id (nt_handle t)) s = (s', acked) \<Longrightarrow>
    node_step N (t, b, handled, lagged) (t\<lparr>nt_handle := nt_handle t\<lparr>nh_subscriptions := [s']\<rparr>\<rparr>, b, handled, lagged)"
| lag: "nh_subscriptions (nt_handle t) = [s] \<Longrightarrow> k \<le> length (bus_wire b) \<Longrightarrow>
    node_step N (t, b, handled, lagged)
      (t\<lparr>nt_handle := nt_handle t\<lparr>nh_subscriptions := [forward_lag k s]\<rparr>\<rparr>, b, handled, lagged \<or> sub_cursor s < k)"
| application: "node_step N (t, b, handled, lagged) (t\<lparr>nt_node := n\<rparr>, b, handled, lagged)"
| bus: "prefix (bus_wire b) (bus_wire b') \<Longrightarrow> node_step N (t, b, handled, lagged) (t, b', handled, lagged)"

subsection \<open>Properties\<close>

text \<open>A call that returns has seen a message first, or every forwarding task gone and every queue empty.\<close>

lemma recv_closed_empty:
  "NodeHandle_recv wakes h = (RecvClosed, h') \<Longrightarrow> list_all (\<lambda>s. sub_inbound s = [] \<and> \<not> sub_live s) (nh_subscriptions h')"
proof (induction wakes h rule: NodeHandle_recv.induct)
  have take_None: "take_first ss = None \<Longrightarrow> list_all (\<lambda>s. sub_inbound s = []) ss" for ss
    by (induction ss) (auto split: list.splits option.splits prod.splits)
  have poll: "try_recv h = (RecvClosed, h') \<Longrightarrow> list_all (\<lambda>s. sub_inbound s = [] \<and> \<not> sub_live s) (nh_subscriptions h')" for h
    by (auto simp: try_recv_def list_all_iff list_ex_iff dest!: take_None split: option.splits if_splits)
  {
    case (1 h)
    then show ?case using poll by simp
  next
    case (2 wake wakes h)
    then show ?case using poll by (cases "try_recv h"; cases "fst (try_recv h)") auto
  }
qed

text \<open>
  A node that does not take its messages is thought dead. Once its queue is full and the next message
  is for it, its forwarding task answers no heartbeat any more, and the first heartbeat after the
  timeout takes the node off the bus.
\<close>

lemma full_queue_evicted:
  assumes "sub_cursor s < length (bus_wire b)" and "length (sub_inbound s) = inbound_capacity"
    and "filter_matches (sub_filter s) (bus_wire b ! sub_cursor s) n"
    and "msg_type (bus_wire b ! sub_cursor s) \<noteq> ''heartbeat_request''"
    and "bus_ok b" and "map_of (bus_nodes b) n = Some e" and "timeout < now - ne_last_ack e"
  shows "forward_run b n k s = (s, 0) \<and> n \<notin> set (keys (bus_nodes (handle_heartbeat_tick ids timeout now b)))"
proof
  have "forward_step b n s = (s, False)" using assms(1-4) by (simp add: forward_step_def Let_def)
  then show "forward_run b n k s = (s, 0)" by (induction k) simp_all
  have "d = e" if "(n, d) \<in> set (bus_nodes b)" for d
    using assms(5,6) that by (auto simp: bus_ok_def)
  then show "n \<notin> set (keys (bus_nodes (handle_heartbeat_tick ids timeout now b)))"
    using assms(7) by (auto simp: heartbeat_tick_nodes [OF assms(5)])
qed

definition waits_for :: "nat \<Rightarrow> message_filter \<Rightarrow> 'n node_task \<times> bus \<times> message list \<times> bool \<Rightarrow> bool" where
  "waits_for start f st \<longleftrightarrow>
     (case st of (t, b, handled, lagged) \<Rightarrow>
        \<exists>s. nh_subscriptions (nt_handle t) = [s] \<and> sub_filter s = f \<and> start \<le> sub_cursor s \<and> sub_cursor s \<le> length (bus_wire b) \<and>
          (let seen = deliverable f (nh_node_id (nt_handle t)) (take (sub_cursor s - start) (drop start (bus_wire b)))
           in subseq (handled @ sub_inbound s) seen \<and> (\<not> lagged \<longrightarrow> handled @ sub_inbound s = seen)))"

lemma stretch_split:
  "start \<le> c \<Longrightarrow> c \<le> d \<Longrightarrow> take (d - start) (drop start w) = take (c - start) (drop start w) @ take (d - c) (drop c w)"
  using take_add [of "c - start" "d - c" "drop start w"] by simp

lemma stretch_prefix:
  "prefix w w' \<Longrightarrow> d \<le> length w \<Longrightarrow> take (d - start) (drop start w') = take (d - start) (drop start w)"
  by (auto simp: prefix_def)

lemma forward_step_frame:
  "forward_step b n s = (s', acked) \<Longrightarrow> sub_cursor s \<le> length (bus_wire b) \<Longrightarrow>
     sub_filter s' = sub_filter s \<and> sub_cursor s \<le> sub_cursor s' \<and> sub_cursor s' \<le> length (bus_wire b) \<and>
     sub_inbound s' = sub_inbound s @ deliverable (sub_filter s) n (take (sub_cursor s' - sub_cursor s) (drop (sub_cursor s) (bus_wire b)))"
  by (auto simp: forward_step_def Let_def deliverable_def drop_cursor split: if_splits)

lemma try_recv_one:
  "nh_subscriptions h = [s] \<Longrightarrow> try_recv h = (r, h') \<Longrightarrow>
     \<exists>s'. nh_subscriptions h' = [s'] \<and> nh_info h' = nh_info h \<and> sub_filter s' = sub_filter s \<and> sub_cursor s' = sub_cursor s \<and>
       sub_inbound s = (case r of Received m \<Rightarrow> [m] | _ \<Rightarrow> []) @ sub_inbound s'"
  by (auto simp: try_recv_def split: list.splits if_splits)

lemma node_turn_one:
  assumes "node_turn N t = (ms, t')" and "nh_subscriptions (nt_handle t) = [s]"
  shows "\<exists>s'. nh_subscriptions (nt_handle t') = [s'] \<and> nh_info (nt_handle t') = nh_info (nt_handle t) \<and>
    sub_filter s' = sub_filter s \<and> sub_cursor s' = sub_cursor s \<and> sub_inbound s = ms @ sub_inbound s'"
  using assms try_recv_one [OF assms(2)]
  by (auto simp: node_turn_def split: if_splits prod.splits recv_result.splits)

lemma subseq_more: "subseq (xs @ ys) zs \<Longrightarrow> subseq (xs @ ys @ us) (zs @ us)" "subseq ys zs \<Longrightarrow> subseq ys (zs @ us)"
  using list_emb_append_mono [of "(=)" "xs @ ys" zs us us] by (auto intro: list_emb_append2 subseq_order.trans)

lemma waits_for_step:
  assumes "node_step N st st'" and "waits_for start f st"
  shows "waits_for start f st'"
  using assms
proof (induction rule: node_step.induct)
  case (turn t ms t' b handled lagged)
  then show ?case by (auto simp: waits_for_def Let_def dest!: node_turn_one)
next
  case (forward t s b s' acked handled lagged)
  then show ?case
    using forward_step_frame [OF forward(2)] stretch_split [of start "sub_cursor s" "sub_cursor s'" "bus_wire b"]
    by (auto simp: waits_for_def Let_def subseq_more)
next
  case (lag t s k b handled lagged)
  show ?case
  proof (cases "sub_cursor s < k")
    case True
    with lag show ?thesis
      using stretch_split [of start "sub_cursor s" k "bus_wire b"]
      by (auto simp: waits_for_def Let_def forward_lag_def max_def subseq_more)
  next
    case False
    with lag show ?thesis by (auto simp: waits_for_def Let_def forward_lag_def max_def)
  qed
next
  case application
  then show ?case by (simp add: waits_for_def)
next
  case (bus b b' t handled lagged)
  then show ?case using prefix_length_le [OF bus(1)] by (auto simp: waits_for_def Let_def stretch_prefix)
qed

lemma waits_for_run: "(node_step N)\<^sup>*\<^sup>* st st' \<Longrightarrow> waits_for start f st \<Longrightarrow> waits_for start f st'"
  by (induction rule: rtranclp_induct) (auto intro: waits_for_step)

lemma node_info_step: "node_step N st st' \<Longrightarrow> nh_info (nt_handle (fst st')) = nh_info (nt_handle (fst st))"
  by (induction rule: node_step.induct)
    (auto simp: node_turn_def try_recv_def split: if_splits option.splits prod.splits)

lemma node_info_run: "(node_step N)\<^sup>*\<^sup>* st st' \<Longrightarrow> nh_info (nt_handle (fst st')) = nh_info (nt_handle (fst st))"
  by (induction rule: rtranclp_induct) (auto dest: node_info_step)

lemma connected_node_waits:
  assumes "connect_node_to_bus gap i now node info f b0 = Some (Inr (ref, t), b)"
  shows "b = gap (snd (register i now info f b0))" "nt_running t" "waits_for (length (bus_wire b)) f (t, b, [], False)" "nh_info (nt_handle t) = info"
  using assms
  by (auto simp: connect_node_to_bus_def connect_def waits_for_def new_subscription_def deliverable_def Let_def
      split: prod.splits sum.splits option.splits)

text \<open>
  The work of a node and its forwarding task on what the bus has carried: taking a message off the wire,
  or handing one to the node.
\<close>

inductive work_step ::
  "'n node_ops \<Rightarrow> 'n node_task \<times> bus \<times> message list \<times> bool \<Rightarrow> 'n node_task \<times> bus \<times> message list \<times> bool \<Rightarrow> bool"
  for N where
  hand: "node_turn N t = (ms, t') \<Longrightarrow> ms \<noteq> [] \<Longrightarrow> work_step N (t, b, handled, lagged) (t', b, handled @ ms, lagged)"
| take: "nh_subscriptions (nt_handle t) = [s] \<Longrightarrow> forward_step b (nh_node_id (nt_handle t)) s = (s', acked) \<Longrightarrow>
    sub_cursor s' \<noteq> sub_cursor s \<Longrightarrow>
    work_step N (t, b, handled, lagged) (t\<lparr>nt_handle := nt_handle t\<lparr>nh_subscriptions := [s']\<rparr>\<rparr>, b, handled, lagged)"

lemma work_is_step: "work_step N st st' \<Longrightarrow> node_step N st st'"
  by (induction rule: work_step.induct) (auto intro: node_step.turn node_step.forward)

lemma work_runs: "(work_step N ^^ k) st st' \<Longrightarrow> (node_step N)\<^sup>*\<^sup>* st st'"
proof (induction k arbitrary: st')
  case (Suc k)
  then obtain u where "(work_step N ^^ k) st u" "work_step N u st'" by auto
  with Suc.IH [of u] work_is_step [of N u st'] show ?case by simp
qed simp

fun work_left :: "'n node_task \<times> bus \<times> message list \<times> bool \<Rightarrow> nat" where
  "work_left (t, b, handled, lagged) =
     sum_list (map (\<lambda>s. 2 * (length (bus_wire b) - sub_cursor s) + length (sub_inbound s)) (nh_subscriptions (nt_handle t)))"

fun at_work :: "nat \<Rightarrow> message_filter \<Rightarrow> bus \<Rightarrow> 'n node_task \<times> bus \<times> message list \<times> bool \<Rightarrow> bool" where
  "at_work start f b' (t, b, handled, lagged) \<longleftrightarrow> b = b' \<and> \<not> lagged \<and> nt_running t \<and>
     list_all sub_live (nh_subscriptions (nt_handle t)) \<and> waits_for start f (t, b, handled, lagged)"

lemma forward_step_live:
  "forward_step b n s = (s', acked) \<Longrightarrow> sub_cursor s' \<noteq> sub_cursor s \<Longrightarrow>
     sub_live s' = sub_live s \<and> sub_cursor s' = sub_cursor s + 1 \<and> sub_cursor s < length (bus_wire b) \<and>
     length (sub_inbound s') \<le> length (sub_inbound s) + 1"
  by (auto simp: forward_step_def Let_def split: if_splits)

lemma work_step_less:
  assumes "work_step N st st'" and "at_work start f b' st"
  shows "at_work start f b' st' \<and> work_left st' < work_left st"
proof -
  obtain t b handled lagged where st: "st = (t, b, handled, lagged)" by (cases st)
  obtain t' b1 handled' lagged' where st': "st' = (t', b1, handled', lagged')" by (cases st')
  have w: "waits_for start f st'"
    by (rule waits_for_step [OF work_is_step [OF assms(1)]]) (use assms(2) st in auto)
  from assms(1) show ?thesis
  proof cases
    case (hand t0 ms t1 b0 h0 l0)
    obtain s where s: "nh_subscriptions (nt_handle t0) = [s]" "sub_live s" "nt_running t0"
      using assms(2) hand(1) by (auto simp: waits_for_def)
    from node_turn_one [OF hand(3) s(1)] obtain s' where s': "nh_subscriptions (nt_handle t1) = [s']"
      "sub_cursor s' = sub_cursor s" "sub_inbound s = ms @ sub_inbound s'" by blast
    have "nt_running t1 \<and> sub_live s'"
      using hand(3,4) s s'(1) by (auto simp: node_turn_def try_recv_def split: if_splits list.splits)
    with assms(2) w hand s s' show ?thesis by simp
  next
    case (take t0 s b0 s' acked h0 l0)
    with assms(2) w forward_step_live [OF take(4,5)] show ?thesis by auto
  qed
qed

lemma work_bounded:
  "(work_step N ^^ k) st st' \<Longrightarrow> at_work start f b' st \<Longrightarrow> at_work start f b' st' \<and> k + work_left st' \<le> work_left st"
proof (induction k arbitrary: st')
  case (Suc k)
  from Suc.prems(1) obtain u where u: "(work_step N ^^ k) st u" "work_step N u st'" by auto
  from Suc.IH [OF u(1) Suc.prems(2)] work_step_less [OF u(2)] show ?case by fastforce
qed simp

lemma work_goes_on:
  assumes "at_work start f b' st" and "work_left st \<noteq> 0"
  shows "\<exists>st'. work_step N st st'"
proof -
  obtain t b handled lagged where st: "st = (t, b, handled, lagged)" by (cases st)
  with assms obtain s where s: "nh_subscriptions (nt_handle t) = [s]" "sub_live s" "nt_running t"
    and left: "sub_inbound s \<noteq> [] \<or> sub_cursor s < length (bus_wire b)"
    by (auto simp: waits_for_def)
  show ?thesis
  proof (cases "sub_inbound s")
    case (Cons m q)
    have "\<exists>t'. node_turn N t = ([m], t')" using s Cons by (simp add: node_turn_def try_recv_def)
    then show ?thesis unfolding st by (blast intro: work_step.hand)
  next
    case Nil
    obtain s' acked where f: "forward_step b (nh_node_id (nt_handle t)) s = (s', acked)" by (meson surj_pair)
    with Nil left s have "sub_cursor s' \<noteq> sub_cursor s"
      by (auto simp: forward_step_def Let_def inbound_capacity_def split: if_splits)
    with s(1) f show ?thesis unfolding st by (blast intro: work_step.take)
  qed
qed

lemma work_done:
  assumes "at_work start f b' (t, b, handled, lagged)" and "work_left (t, b, handled, lagged) = 0"
  shows "handled = deliverable f (nh_node_id (nt_handle t)) (drop start (bus_wire b'))"
  using assms by (auto simp: waits_for_def Let_def)

lemma work_left_bound:
  assumes "at_work start f b' (t, b, handled, lagged)"
  shows "work_left (t, b, handled, lagged) \<le> 2 * length (bus_wire b')"
proof -
  from assms obtain s where s: "nh_subscriptions (nt_handle t) = [s]" "start \<le> sub_cursor s" "sub_cursor s \<le> length (bus_wire b')"
    "b = b'" "handled @ sub_inbound s = deliverable f (nh_node_id (nt_handle t)) (take (sub_cursor s - start) (drop start (bus_wire b')))"
    by (auto simp: waits_for_def Let_def)
  have "length (handled @ sub_inbound s) \<le> sub_cursor s - start"
    unfolding s(5) deliverable_def by (rule order_trans [OF length_filter_le]) simp
  with s(1-4) show ?thesis by simp
qed

lemma heard:
  assumes "connect_node_to_bus gap i now node info f b0 = Some (Inr (ref, t0), b)"
    and "(node_step N)\<^sup>*\<^sup>* (t0, b, [], False) (t, b', handled, lagged)"
  shows "subseq handled (deliverable f (ni_node_id info) (drop (length (bus_wire b)) (bus_wire b')))"
    and "\<not> lagged \<Longrightarrow> prefix handled (deliverable f (ni_node_id info) (drop (length (bus_wire b)) (bus_wire b')))"
proof -
  let ?start = "length (bus_wire b)" and ?n = "ni_node_id info"
  note c = connected_node_waits [OF assms(1)]
  have w: "waits_for ?start f (t, b', handled, lagged)" by (rule waits_for_run [OF assms(2) c(3)])
  have n: "nh_node_id (nt_handle t) = ?n" using node_info_run [OF assms(2)] c(4) by simp
  from w n obtain s where s: "nh_subscriptions (nt_handle t) = [s]" "?start \<le> sub_cursor s" "sub_cursor s \<le> length (bus_wire b')"
    and sub: "subseq (handled @ sub_inbound s) (deliverable f ?n (take (sub_cursor s - ?start) (drop ?start (bus_wire b'))))"
    and eq: "\<not> lagged \<Longrightarrow> handled @ sub_inbound s = deliverable f ?n (take (sub_cursor s - ?start) (drop ?start (bus_wire b')))"
    by (auto simp: waits_for_def Let_def)
  have split: "deliverable f ?n (drop ?start (bus_wire b')) =
      deliverable f ?n (take (sub_cursor s - ?start) (drop ?start (bus_wire b'))) @ deliverable f ?n (drop (sub_cursor s) (bus_wire b'))"
    using arg_cong [OF stretch_split [OF s(2,3), of "bus_wire b'"], of "deliverable f ?n"] by simp
  have "subseq handled (handled @ sub_inbound s)" by (rule prefix_imp_subseq) simp
  with sub show "subseq handled (deliverable f ?n (drop ?start (bus_wire b')))"
    unfolding split by (meson subseq_more(2) subseq_order.trans)
  show "prefix handled (deliverable f ?n (drop ?start (bus_wire b')))" if "\<not> lagged"
    unfolding split eq [OF that, symmetric] by simp
qed

text \<open>
  C21: what a node hears that an application has connected. The subscription starts with the wire as it
  is when \<^verbatim>\<open>connect\<close> goes on after the registration: what the bus carries in the gap, when the node is
  registered already, the node never hears. Of everything after that it is given what its filter lets
  through, each message once, in the order of the wire, and nothing else. When the ring buffer has never
  overtaken it, nothing before the last message given is left out; and while the bus is quiet, the
  node and its forwarding task, in whatever order they work, have at most twice as many steps to do as the
  wire is long, and they can go on until the node has been given all.
\<close>

theorem node_hears_wire:
  assumes "connect_node_to_bus gap i now node info f b0 = Some (Inr (ref, t0), b)"
    and "(node_step N)\<^sup>*\<^sup>* (t0, b, [], False) (t, b', handled, lagged)"
  shows "b = gap (snd (register i now info f b0)) \<and>
    subseq handled (deliverable f (ni_node_id info) (drop (length (bus_wire b)) (bus_wire b'))) \<and>
    (\<not> lagged \<longrightarrow> prefix handled (deliverable f (ni_node_id info) (drop (length (bus_wire b)) (bus_wire b')))) \<and>
    (\<not> lagged \<and> nt_running t \<and> list_all sub_live (nh_subscriptions (nt_handle t)) \<longrightarrow>
       (\<forall>k st. (work_step N ^^ k) (t, b', handled, lagged) st \<longrightarrow>
          (node_step N)\<^sup>*\<^sup>* (t, b', handled, lagged) st \<and> k \<le> 2 * length (bus_wire b') \<and>
          (fst (snd (snd st)) = deliverable f (ni_node_id info) (drop (length (bus_wire b)) (bus_wire b')) \<or>
           (\<exists>st'. work_step N st st'))))"
proof -
  let ?start = "length (bus_wire b)"
  let ?n = "ni_node_id info" and ?st = "(t, b', handled, lagged)"
  note c = connected_node_waits [OF assms(1)]
  have w: "waits_for ?start f ?st" by (rule waits_for_run [OF assms(2) c(3)])
  have n: "nh_node_id (nt_handle t) = ?n" using node_info_run [OF assms(2)] c(4) by simp
  have "(node_step N)\<^sup>*\<^sup>* ?st st \<and> k \<le> 2 * length (bus_wire b') \<and>
      (fst (snd (snd st)) = deliverable f ?n (drop ?start (bus_wire b')) \<or> (\<exists>st'. work_step N st st'))"
    if "\<not> lagged" "nt_running t" "list_all sub_live (nh_subscriptions (nt_handle t))" "(work_step N ^^ k) ?st st" for k st
  proof -
    have at: "at_work ?start f b' ?st" using that w by simp
    from work_bounded [OF that(4) at] work_left_bound [OF at]
    have st: "at_work ?start f b' st" and k: "k \<le> 2 * length (bus_wire b')" by simp_all
    obtain t1 b1 h1 l1 where st1: "st = (t1, b1, h1, l1)" by (cases st)
    have "nh_node_id (nt_handle t1) = ?n"
      using node_info_run [OF work_runs [OF that(4)]] n by (simp add: st1)
    with work_done [OF st [unfolded st1]]
    have "fst (snd (snd st)) = deliverable f ?n (drop ?start (bus_wire b'))" if "work_left st = 0"
      using that by (simp add: st1 del: work_left.simps)
    with work_goes_on [OF st]
    have "fst (snd (snd st)) = deliverable f ?n (drop ?start (bus_wire b')) \<or> (\<exists>st'. work_step N st st')" by blast
    with k work_runs [OF that(4)] show ?thesis by blast
  qed
  then show ?thesis using c(1) heard [OF assms] by blast
qed

text \<open>A message that is broadcast in the gap is not heard, although the node is registered.\<close>

lemma gap_unheard:
  assumes "connect_node_to_bus (broadcast m) i now node info f b0 = Some (Inr (ref, t0), b)"
    and "(node_step N)\<^sup>*\<^sup>* (t0, b, [], False) (t, b', handled, lagged)"
    and "m \<notin> set (drop (length (bus_wire b)) (bus_wire b'))"
  shows "m \<in> set (bus_wire b) \<and> contains_key (bus_nodes b) (ni_node_id info) \<and> m \<notin> set handled"
proof -
  note b = connected_node_waits(1) [OF assms(1)]
  note sub = heard(1) [OF assms(1,2)]
  have "set handled \<subseteq> set (drop (length (bus_wire b)) (bus_wire b'))"
  proof
    fix x assume "x \<in> set handled"
    from list_emb_set [OF sub this] show "x \<in> set (drop (length (bus_wire b)) (bus_wire b'))"
      by (auto simp: deliverable_def)
  qed
  moreover have "fst (register i now info f b0) = Inr ()"
    using assms(1) by (cases "register i now info f b0"; cases "fst (register i now info f b0)")
      (auto simp: connect_node_to_bus_def connect_def)
  ultimately show ?thesis
    using assms(3) by (auto simp: b broadcast_def register_def handle_connect_def Let_def contains_key_def update_conv' split: if_splits)
qed

text \<open>A node that writes down the types of the messages it is given.\<close>

definition log_node :: "string list node_ops" where
  "log_node = \<lparr>no_id = (\<lambda>_. NodeId ''a''), no_snapshot = (\<lambda>n. Inr (strs_to_value n)), no_restore = (\<lambda>_ n. (Inr (), n)),
               no_on_message = (\<lambda>m _ n. n @ [msg_type m])\<rparr>"

definition demo_news :: message where
  "demo_news = Message_with_from_bus 9 0 ''model_call'' (NodeId ''b'') [] JNull (BusId 0)"

text \<open>One message in the gap, and one after it.\<close>

definition demo_missed :: message where
  "demo_missed = Message_with_from_bus 8 0 ''model_call'' (NodeId ''b'') [] JNull (BusId 0)"

theorem node_hears_wire_witness:
  "\<exists>ref t0 b t. connect_node_to_bus (broadcast demo_missed) 1 0 [] (demo_info ''a'') demo_filter (Bus_new 0 0) = Some (Inr (ref, t0), b) \<and>
     demo_missed \<in> set (bus_wire b) \<and>
     (node_step log_node)\<^sup>*\<^sup>* (t0, b, [], False) (t, broadcast demo_news b, [demo_news], False)"
proof -
  let ?gap = "broadcast demo_missed"
  obtain ref t0 b where c: "connect_node_to_bus ?gap 1 0 [] (demo_info ''a'') demo_filter (Bus_new 0 0) = Some (Inr (ref, t0 :: string list node_task), b)"
    and t0: "nt_running t0" "list_all sub_live (nh_subscriptions (nt_handle t0))" and missed: "demo_missed \<in> set (bus_wire b)"
    by (simp add: connect_node_to_bus_def connect_def register_def handle_connect_def Bus_new_def contains_key_def
        subscribe_internal_def broadcast_def new_subscription_def Let_def)
  let ?st = "(t0, broadcast demo_news b, [], False)"
  have r: "(node_step log_node)\<^sup>*\<^sup>* (t0, b, [], False) ?st"
    by (intro r_into_rtranclp node_step.bus) (simp add: broadcast_def)
  have all: "deliverable demo_filter (ni_node_id (demo_info ''a'')) (drop (length (bus_wire b)) (bus_wire (broadcast demo_news b))) = [demo_news]"
    by (simp add: broadcast_def deliverable_def demo_news_def demo_filter_def demo_info_def message_defs filter_matches_def)
  note hears = node_hears_wire [OF c r, unfolded all, THEN conjunct2, THEN conjunct2, THEN conjunct2, rule_format]
  have work: "(node_step log_node)\<^sup>*\<^sup>* ?st st" "k \<le> 2 * length (bus_wire (broadcast demo_news b))"
    "fst (snd (snd st)) = [demo_news] \<or> (\<exists>st'. work_step log_node st st')" if "(work_step log_node ^^ k) ?st st" for k st
    using hears [OF _ that] t0 by blast+
  obtain k where k: "\<exists>st. (work_step log_node ^^ k) ?st st" "\<And>j. \<exists>st. (work_step log_node ^^ j) ?st st \<Longrightarrow> j \<le> k"
  proof (rule bounded_Max_nat [of "\<lambda>k. \<exists>st. (work_step log_node ^^ k) ?st st" 0])
    show "\<exists>st. (work_step log_node ^^ 0) ?st st" by (rule exI, rule relpowp_0_I)
  qed (use work(2) in blast)+
  then obtain st where st: "(work_step log_node ^^ k) ?st st" by blast
  have "\<not> (\<exists>st'. work_step log_node st st')"
    using k(2) [of "Suc k", OF exI, OF relpowp_Suc_I [OF st]] by fastforce
  with work(3) [OF st] have "fst (snd (snd st)) = [demo_news]" by blast
  moreover have "at_work (length (bus_wire b)) demo_filter (broadcast demo_news b) st"
    using work_bounded [OF st] waits_for_run [OF r connected_node_waits(3) [OF c]] t0 by simp
  ultimately obtain t where "st = (t, broadcast demo_news b, [demo_news], False)" by (cases st) auto
  with work(1) [OF st] r c missed show ?thesis by (meson rtranclp_trans)
qed

end
