(* ===== verification/Spec2Isabelle.thy ===== *)
theory Spec2Isabelle
  imports Compactor Node_Handle Session_Props Registry_Props Outbox_Props Builder_Props
    Mcp_Node_Props File_Store Pool_Props Model_Props Provider_Props Middleware_Props Subagent_Pool_Props Py_Props Relay_Props
    Disk_Props Pooled_Props Mcp_Tools_Props Py_Bus_Props Py_Pool_Props Py_Build_Props Agent_Decl Node_Trait
begin

text \<open>
  A verification of ARF, an agent runtime: an \<^verbatim>\<open>Engine\<close> holds a conversation, and talks over a
  message bus to the nodes that serve models, tools, humans and other agents.

  \<^bold>\<open>The parts and their theories.\<close>

  \<^item> \<open>Arf_Prelude\<close>, \<open>Json\<close>: hash maps as association lists, string functions of the standard
    library, \<^verbatim>\<open>serde_json::Value\<close>, the outcome of an asynchronous operation (return, error,
    panic, or waiting for ever).
  \<^item> \<open>Core_Types\<close>, \<open>Core_Messages\<close>, \<open>Core_State\<close> (\<^verbatim>\<open>crates/arf-core\<close>, \<^verbatim>\<open>crates/arf-state\<close>): identifiers,
    messages and their JSON forms, filters, the conversation \<^verbatim>\<open>State\<close>, checkpoint rules,
    middleware. \<open>Compactor\<close> (\<^verbatim>\<open>crates/arf-compactor\<close>): shortening the conversation.
  \<^item> \<open>Bus\<close>, \<open>Bus_Props\<close>, \<open>Node_Handle\<close> (\<^verbatim>\<open>crates/arf-bus\<close>): the command loop \<^verbatim>\<open>run_message_loop\<close> as
    a step function \<open>bus_step\<close> on the state \<open>bus\<close> (registry of nodes, running flag, counter, and the
    wire, the list of everything broadcast); heartbeats; barriers; handles, whose subscriptions are
    cursors into the wire of their bus. \<open>Node_Trait\<close> (\<^verbatim>\<open>arf-core/src/node.rs\<close>, \<^verbatim>\<open>connect_node_to_bus\<close>): nodes that
    an application writes, and the task that hands them their messages.
  \<^item> \<open>Session\<close>, \<open>Session_Sqlite\<close>, \<open>Session_Jsonl\<close>, \<open>Session_Props\<close> (\<^verbatim>\<open>crates/arf-session\<close>): the two
    stores of sessions, checkpoints and events, and the outbox (messages sent without an answer)
    as a function of the events recorded.
  \<^item> \<open>Engine_Config\<close>, \<open>Registry\<close>, \<open>Registry_Props\<close>, \<open>Engine_Parts\<close>, \<open>Engine_World\<close>, \<open>Engine\<close>,
    \<open>Engine_Run\<close>, and \<open>Engine_Frames\<close>, \<open>Engine_Demo\<close>, \<open>Engine_Props\<close>, \<open>Outbox_Props\<close>,
    \<open>Builder_Props\<close> (\<^verbatim>\<open>crates/arf-engine\<close>): resolution of the declared resources, handlers,
    deduplication, checkpoints, waits, model and tool turns, the run loop, recovery after a crash,
    the builder.
  \<^item> \<open>Mcp_Executor\<close>, \<open>Mcp_Executor_Props\<close>, \<open>Mcp_Node\<close>, \<open>Mcp_Node_Props\<close> (\<^verbatim>\<open>crates/arf-mcp\<close>): sets of
    tool calls with dependencies, and the node that serves tools and skills. \<open>Mcp_Tools\<close>,
    \<open>Mcp_Tools_Props\<close> (\<^verbatim>\<open>script.rs\<close>, \<^verbatim>\<open>remote.rs\<close>, \<^verbatim>\<open>skill.rs\<close>, \<^verbatim>\<open>discovery.rs\<close>): what is behind it, tools that
    run a process, tools of a remote server, the index of skills, and discovery.
  \<^item> \<open>Backend\<close>, \<open>Backend_Composite\<close>, \<open>Backend_Props\<close>, \<open>File_Store\<close> (\<^verbatim>\<open>crates/arf-backend\<close>): the file
    backends below the file tools.
    \<open>Disk_Backend\<close>, \<open>Disk_Props\<close>: the backends on disk and with a shell (\<^verbatim>\<open>filesystem.rs\<close>,
    \<^verbatim>\<open>local_shell.rs\<close>).
  \<^item> \<open>Pool\<close>, \<open>Pool_Props\<close> (\<^verbatim>\<open>crates/arf-pool\<close>): the bounded pool of resources as a step relation.
    \<open>Pooled_Nodes\<close>, \<open>Pooled_Props\<close> (\<^verbatim>\<open>pool_node.rs\<close>, \<^verbatim>\<open>pool_resource.rs\<close> of the adapter and MCP crates):
    the nodes that put a pool before other nodes, over the steps of the pool.
  \<^item> \<open>Model_Adapter\<close>, \<open>Model_Node\<close>, \<open>Model_Props\<close> (\<^verbatim>\<open>crates/arf-model-adapter\<close>): payloads, the parser of
    event streams, the OpenAI provider and the node that answers model calls. \<open>Providers\<close>,
    \<open>Anthropic\<close>, \<open>Provider_Props\<close>: the DeepSeek, MiniMax and Anthropic providers (\<^verbatim>\<open>deepseek.rs\<close>,
    \<^verbatim>\<open>minimax.rs\<close>, \<^verbatim>\<open>anthropic.rs\<close>), their request bodies, responses, streams and retries.
  \<^item> \<open>Middlewares\<close>, \<open>Middleware_Props\<close> (\<^verbatim>\<open>crates/arf-engine/src/middleware\<close>): the middlewares that
    declare file tools, add memory files to the prompt, and summarise.
  \<^item> \<open>Subagent_Pool\<close>, \<open>Subagent_Pool_Props\<close> (\<^verbatim>\<open>crates/arf-subagent-pool\<close>): slots that each hold an engine
    and its state; the operations in the pieces between their awaits, as a step relation, and the
    bus listener that delegates what arrives.
  \<^item> \<open>Py_Agent\<close>, \<open>Py_Team\<close>, \<open>Py_Props\<close> (\<^verbatim>\<open>py-arf/src/engine.rs\<close>, \<^verbatim>\<open>py-arf/src/team\<close>): agent and team files,
    the constructors offered to Python, the cells that own an engine and a state, teams and the
    delegation to a pool over the bus. \<open>Py_Bus\<close>, \<open>Py_Bus_Props\<close> (\<^verbatim>\<open>py-arf/src/lib.rs\<close>): the object around a node
    handle with its lock, and the providers with the nodes they connect. \<open>Py_Pool\<close>, \<open>Py_Pool_Props\<close>
    (\<^verbatim>\<open>pool.rs\<close>, \<^verbatim>\<open>mcp.rs\<close>): pools, leases and tool nodes. \<open>Py_Build\<close>, \<open>Py_Build_Props\<close> (\<^verbatim>\<open>engine.rs\<close>): building an
    engine, which uses up its builder and its configuration.
  \<^item> \<open>Agent_Decl\<close> (\<^verbatim>\<open>crates/arf-agent\<close>): the declaration of an agent, its check, and its JSON form.
  \<^item> \<open>Relay\<close>, \<open>Relay_Props\<close> (\<^verbatim>\<open>py-arf/src/relay\<close>): the relay that follows event files and sends them as
    server-sent events: the file tailer, the filter, the format, the stream with its drivers.

  Definitions carry the names of the source; a method \<^verbatim>\<open>T::m\<close> is \<open>T_m\<close> where \<open>m\<close> alone is ambiguous.

  \<^bold>\<open>The environment.\<close> A run of the engine is a function of a \<open>world\<close>: the state of the bus, the engine,
  the session store, a source of fresh identifiers, a clock, and a script, the list of what the
  environment does next (events on the bus, cancellation, the passing of time). An operation that
  waits consumes the script; when the script ends, waiting is the outcome \<open>Hang\<close>. A property for
  all worlds is thus one for all interleavings at the points where the code awaits. Clocks and
  identifiers are inputs of the operations that read them.

  \<^bold>\<open>What is a parameter.\<close> Third-party code and callbacks: the uuid renderer and parser (a
  parsed rendering gives the uuid back), floating point rounding (monotone, exact on small
  integers), the summariser, response processors and middlewares, the tools of the executor (a
  tool call ends after a time with a value, an error or a panic, or never), the processes of script
  tools (when and how each phase of their life ends), the directories and files discovery reads, the
  HTTP replies behind the remote tools and the model providers, the text parsers of \<^verbatim>\<open>serde_json\<close>
  and \<^verbatim>\<open>serde_yaml\<close>, the reads of memory files, \<^verbatim>\<open>String::from_utf8\<close>, Python's \<^verbatim>\<open>json.dumps\<close> and \<^verbatim>\<open>json.loads\<close>, and the calls of
  the operating system behind the backends on disk (a record of functions on a state of the file system). The tokio channels are modelled
  by their documented behaviour. Hash maps whose order the source does not fix are lists whose
  order is arbitrary.

  \<^bold>\<open>What is shown.\<close>

  \<^item> Bus: the registry is what the wire says; who is told what; eviction of silent nodes; barriers
    count real acknowledgements; a forwarding task delivers exactly what its filter accepts; a node of an
    application is given that, in order, and catches up when the bus is quiet.
  \<^item> Stores: saving and loading are inverse; snapshots; both stores agree with the outbox as a
    function of the event list, through the locale of stores.
  \<^item> Engine: the shape of the conversation after a run, turn limits, waits that return what they wait
    for, cancellation, denied tools, the outbox kept across recovery, the checkpoints that fire;
    the errors a run can end with.
  \<^item> MCP: exact cycle detection, dependencies respected, one result per call, termination; when a
    call of a script is answered, which files a skill shows and which programs it starts, what a node
    advertises, and what is taken for the answer of a remote server.
  \<^item> Backends: normal paths, the glob matcher against its language, edits, and the
    refinement of one map of files by the routing backend, through the locale \<open>file_store\<close>; on disk,
    what stays below the root and what does not, agreement with the backend in memory, searches.
  \<^item> Pool: bounds and exclusive leases by rule induction over all interleavings; the nodes before a
    pool answer each call once, and when they stop.
  \<^item> Adapter: both directions of the wire between engine and adapter, one response per call, streams.
  \<^item> Providers: what a retry policy does with every sequence of answers, what each stream amounts to,
    which parts of a conversation reach the model.
  \<^item> Subagents: the books of the pool by rule induction over all interleavings, the refinement of
    delegations by the steps, the conversation a slot keeps (through the locale \<open>slot_engine\<close>,
    interpreted on the engine model), delegations over the bus and their replies.
  \<^item> Python layer: what an agent file or a constructor turns into, which engine owns which state,
    and what is lost; which delegation keeps the next one off the bus; the order of the calls on a shared node handle, and what a pending \<^verbatim>\<open>recv\<close> holds up;
    when a stopped node has left its bus; pools that are short of resources; builds that fail.
  \<^item> Declarations: the round trip through JSON, and what the check of a declaration finds.
  \<^item> Relay: whole lines are delivered once, in order, under every interleaving of drivers and client;
    a line read half written is not.
  \<^item> Several properties state behaviour that the documentation of the source contradicts; they are
    named in the text before them.

  \<^bold>\<open>Termination and widths.\<close> There is no fuel. The loop of a run terminates because every pass
  that goes on has received a model response, which the environment must have sent
  (\<open>pending_input\<close> falls); the waiting loops consume the script; the tool layers, the cascade of
  cancellations and the depth-first search fall on the calls not yet placed. The casts to
  \<^verbatim>\<open>u32\<close> of the source are written out (\<open>as_u32\<close>).

  \<^bold>\<open>Not modelled.\<close> The inside of processes and of HTTP transports, the wrapper classes of Python that
  hold one Rust value (their getters and textual representations, but for those that show a taken
  object), the registration of the Python module, tests and examples.
\<close>

end
